(* ===== verification/Prelude.thy ===== *)
theory Prelude
  imports Main "HOL-Library.Char_ord" "HOL-Library.List_Lexorder"
begin

text \<open>
  What every component of the development shares: the part of Go the LazyOps sources are
  written in.
  \<^item> Go strings are byte strings, here \<open>string\<close> (a list of 8-bit characters). The functions of
    package \<open>strings\<close> the sources call are defined below on bytes. Their Unicode cases are not
    modelled: white space and letter case are the ASCII ones.
  \<^item> \<open>time.Time\<close> is the number of nanoseconds since Go's zero time, so \<open>IsZero\<close> is a comparison
    with 0; \<open>time.Duration\<close> is a number of nanoseconds, and \<open>Sub\<close> saturates at the 64-bit
    bounds as in Go.
  \<^item> An \<open>error\<close> is a value of \<open>go_err\<close>: a sentinel of the sources, a wrapped error (\<open>%w\<close>), a
    formatted message, or a failed call of the database.
  \<^item> A Go map is a partial map; the unspecified order of a \<open>range\<close> over it is a parameter of the
    definitions that depend on it.
\<close>

named_theorems go_string "facts on the string functions of the Go library"
named_theorems inv_step "preservation of a component's invariant by one of its operations"

section \<open>Strings\<close>

definition is_space :: "char \<Rightarrow> bool" where
  "is_space c \<longleftrightarrow> c \<in> {CHR 0x20, CHR 0x09, CHR 0x0A, CHR 0x0B, CHR 0x0C, CHR 0x0D}"

definition trim_left :: "string \<Rightarrow> string" where
  "trim_left s = dropWhile is_space s"

definition trim_right :: "string \<Rightarrow> string" where
  "trim_right s = rev (dropWhile is_space (rev s))"

definition trim_space :: "string \<Rightarrow> string" where
  "trim_space s = trim_right (trim_left s)"

definition lower_char :: "char \<Rightarrow> char" where
  "lower_char c =
     (let n = (of_char c :: nat) in if 65 \<le> n \<and> n \<le> 90 then char_of (n + 32) else c)"

definition upper_char :: "char \<Rightarrow> char" where
  "upper_char c =
     (let n = (of_char c :: nat) in if 97 \<le> n \<and> n \<le> 122 then char_of (n - 32) else c)"

definition to_lower :: "string \<Rightarrow> string" where
  "to_lower s = map lower_char s"

definition to_upper :: "string \<Rightarrow> string" where
  "to_upper s = map upper_char s"

definition equal_fold :: "string \<Rightarrow> string \<Rightarrow> bool" where
  "equal_fold s t \<longleftrightarrow> to_lower s = to_lower t"

fun has_prefix :: "string \<Rightarrow> string \<Rightarrow> bool" where
  "has_prefix s [] = True"
| "has_prefix [] (p # ps) = False"
| "has_prefix (c # s) (p # ps) = (c = p \<and> has_prefix s ps)"

fun str_contains :: "string \<Rightarrow> string \<Rightarrow> bool" where
  "str_contains [] t = (t = [])"
| "str_contains (c # s) t = (has_prefix (c # s) t \<or> str_contains s t)"

fun join :: "string \<Rightarrow> string list \<Rightarrow> string" where
  "join sep [] = []"
| "join sep [x] = x"
| "join sep (x # y # xs) = x @ sep @ join sep (y # xs)"

fun split_on :: "char \<Rightarrow> string \<Rightarrow> string list" where
  "split_on c [] = [[]]"
| "split_on c (x # s) =
     (if x = c then [] # split_on c s
      else (case split_on c s of [] \<Rightarrow> [[x]] | w # ws \<Rightarrow> (x # w) # ws))"

definition replace_char :: "char \<Rightarrow> char \<Rightarrow> string \<Rightarrow> string" where
  "replace_char old new s = map (\<lambda>c. if c = old then new else c) s"

definition fields :: "string \<Rightarrow> string list" where
  "fields s = filter (\<lambda>w. w \<noteq> []) (split_on (CHR '' '')
     (map (\<lambda>c. if is_space c then CHR '' '' else c) s))"

definition NormalizeSpace :: "string \<Rightarrow> string" where
  "NormalizeSpace s = join '' '' (fields s)"

fun first_non_empty :: "string list \<Rightarrow> string" where
  "first_non_empty [] = []"
| "first_non_empty (v # vs) = (if trim_space v \<noteq> [] then trim_space v else first_non_empty vs)"

text \<open>Decimal rendering of an \<open>int\<close>, as \<open>%d\<close> prints it.\<close>

fun digits_of :: "nat \<Rightarrow> string" where
  "digits_of n =
     (if n < 10 then [char_of (48 + n)] else digits_of (n div 10) @ [char_of (48 + n mod 10)])"

declare digits_of.simps [simp del]

definition itoa :: "int \<Rightarrow> string" where
  "itoa i = (if i < 0 then CHR ''-'' # digits_of (nat (- i)) else digits_of (nat i))"

subsection \<open>Facts on strings\<close>

lemma trim_left_idem [simp]: "trim_left (trim_left s) = trim_left s"
  by (simp add: trim_left_def)

lemma trim_right_idem [simp]: "trim_right (trim_right s) = trim_right s"
  by (simp add: trim_right_def)

lemma trim_right_Nil [simp]: "trim_right [] = []"
  by (simp add: trim_right_def)

lemma trim_left_Nil [simp]: "trim_left [] = []"
  by (simp add: trim_left_def)

lemma trim_space_Nil [simp]: "trim_space [] = []"
  by (simp add: trim_space_def)

lemma trim_left_id: "s = [] \<or> \<not> is_space (hd s) \<Longrightarrow> trim_left s = s"
  by (cases s) (auto simp: trim_left_def)

lemma trim_right_snoc: "trim_right (s @ [c]) = (if is_space c then trim_right s else s @ [c])"
  by (simp add: trim_right_def)

lemma trim_right_Cons: "\<not> is_space c \<Longrightarrow> trim_right (c # s) = c # trim_right s"
  by (simp add: trim_right_def dropWhile_append)

lemma trim_space_Cons: "\<not> is_space c \<Longrightarrow> trim_space (c # s) = c # trim_right s"
  by (simp add: trim_space_def trim_left_def trim_right_Cons)

lemma trim_right_id: "s = [] \<or> \<not> is_space (last s) \<Longrightarrow> trim_right s = s"
  by (cases s rule: rev_cases) (simp_all add: trim_right_snoc)

lemma trim_right_nospace: "\<forall>c \<in> set s. \<not> is_space c \<Longrightarrow> trim_right s = s"
  by (induction s rule: rev_induct) (simp_all add: trim_right_snoc)

lemma trim_right_prefix: "\<exists>t. s = trim_right s @ t \<and> (\<forall>c \<in> set t. is_space c)"
proof (induction s rule: rev_induct)
  case Nil
  then show ?case by simp
next
  case (snoc c s)
  then obtain t where t: "s = trim_right s @ t" "\<forall>c \<in> set t. is_space c" by blast
  show ?case
  proof (cases "is_space c")
    case True
    have "s @ [c] = trim_right s @ (t @ [c])"
      by (subst t(1)) simp
    with True t(2) show ?thesis
      by (intro exI [of _ "t @ [c]"]) (simp add: trim_right_snoc)
  qed (simp add: trim_right_snoc)
qed

lemma hd_trim_left: "trim_left s \<noteq> [] \<Longrightarrow> \<not> is_space (hd (trim_left s))"
  by (simp add: trim_left_def hd_dropWhile)

lemma trim_left_trim_right: "trim_left (trim_space s) = trim_space s"
proof (cases "trim_space s = []")
  case True
  then show ?thesis by simp
next
  case False
  obtain t where t: "trim_left s = trim_space s @ t"
    using trim_right_prefix [of "trim_left s"] by (auto simp: trim_space_def)
  with False have "hd (trim_space s) = hd (trim_left s)" and "trim_left s \<noteq> []" by auto
  then show ?thesis
    using hd_trim_left by (intro trim_left_id) simp
qed

lemma trim_space_idem [simp, go_string]: "trim_space (trim_space s) = trim_space s"
proof -
  have "trim_space (trim_space s) = trim_right (trim_space s)"
    by (subst (1) trim_space_def) (simp add: trim_left_trim_right)
  then show ?thesis by (simp add: trim_space_def)
qed

lemma has_prefix_iff: "has_prefix s p \<longleftrightarrow> (\<exists>t. s = p @ t)"
  by (induction s p rule: has_prefix.induct) auto

lemma has_prefix_refl [simp, intro]: "has_prefix s s"
  by (simp add: has_prefix_iff)

lemma has_prefix_append [simp, intro]: "has_prefix (p @ t) p"
  by (simp add: has_prefix_iff)

lemma has_prefix_trans: "has_prefix s t \<Longrightarrow> has_prefix t u \<Longrightarrow> has_prefix s u"
  by (auto simp: has_prefix_iff)

lemma has_prefix_antisym: "has_prefix s t \<Longrightarrow> has_prefix t s \<Longrightarrow> s = t"
  by (auto simp: has_prefix_iff)

lemma has_prefix_Nil [simp]: "has_prefix s []"
  by (simp add: has_prefix_iff)

lemma str_contains_iff: "str_contains s t \<longleftrightarrow> (\<exists>u v. s = u @ t @ v)"
proof (induction s)
  case Nil
  then show ?case by auto
next
  case (Cons c s)
  have "(\<exists>u v. c # s = u @ t @ v) \<longleftrightarrow> (\<exists>v. c # s = t @ v) \<or> (\<exists>u v. s = u @ t @ v)"
    by (auto simp: Cons_eq_append_conv)
  then show ?case by (simp add: Cons.IH has_prefix_iff)
qed

text \<open>Equations for evaluation: on the bits of a character, and without looking past a mismatch.\<close>

lemma lower_char_code [code]:
  "lower_char (Char b0 b1 b2 b3 b4 b5 b6 b7) =
     (if b6 \<and> \<not> b7 \<and> \<not> b5 \<and> (b0 \<or> b1 \<or> b2 \<or> b3 \<or> b4) \<and> \<not> (b4 \<and> b3 \<and> (b2 \<or> b1 \<and> b0))
      then Char b0 b1 b2 b3 b4 True b6 b7 else Char b0 b1 b2 b3 b4 b5 b6 b7)"
  by (cases b0; cases b1; cases b2; cases b3; cases b4; cases b5; cases b6; cases b7)
    (simp_all add: lower_char_def char_of_eq_iff take_bit_eq_mod)

lemma has_prefix_code [code]:
  "has_prefix s [] = True" "has_prefix [] (p # ps) = False"
  "has_prefix (c # s) (p # ps) = (if c = p then has_prefix s ps else False)"
  by simp_all

lemma of_char_lower_char:
  "(of_char (lower_char c) :: nat) =
     (if 65 \<le> (of_char c :: nat) \<and> (of_char c :: nat) \<le> 90 then of_char c + 32 else of_char c)"
  by (auto simp: lower_char_def Let_def of_char_of)

lemma lower_char_idem [simp]: "lower_char (lower_char c) = lower_char c"
  by (subst (1) lower_char_def) (auto simp: Let_def of_char_lower_char)

lemma to_lower_idem [simp, go_string]: "to_lower (to_lower s) = to_lower s"
  by (simp add: to_lower_def)

lemma length_to_lower [simp]: "length (to_lower s) = length s"
  by (simp add: to_lower_def)

lemma to_lower_Nil [simp]: "to_lower [] = []"
  by (simp add: to_lower_def)

lemma to_lower_eq_Nil [simp]: "to_lower s = [] \<longleftrightarrow> s = []"
  by (simp add: to_lower_def)

lemma is_space_lower [simp]: "is_space (lower_char c) \<longleftrightarrow> is_space c"
proof -
  have eq: "is_space d \<longleftrightarrow> (of_char d :: nat) \<in> {32, 9, 10, 11, 12, 13}" for d
  proof -
    have *: "d = e \<longleftrightarrow> (of_char d :: nat) = of_char e" for e
      by (metis char_of_char)
    show ?thesis unfolding is_space_def by (simp add: *)
  qed
  show ?thesis by (auto simp: eq of_char_lower_char)
qed

lemma dropWhile_space_lower:
  "dropWhile is_space (map lower_char s) = map lower_char (dropWhile is_space s)"
  by (induction s) auto

lemma trim_lower [go_string]: "trim_space (to_lower s) = to_lower (trim_space s)"
  by (simp add: trim_space_def trim_left_def trim_right_def to_lower_def
      dropWhile_space_lower rev_map)

lemma equal_fold_refl [simp]: "equal_fold s s"
  by (simp add: equal_fold_def)

lemma first_non_empty_trimmed [simp]: "trim_space (first_non_empty vs) = first_non_empty vs"
  by (induction vs) auto

lemma first_non_empty_eq_Nil: "first_non_empty vs = [] \<longleftrightarrow> (\<forall>v \<in> set vs. trim_space v = [])"
  by (induction vs) auto

lemma split_on_ne [simp]: "split_on c s \<noteq> []"
  by (induction s) (auto split: list.splits)

lemma split_on_join:
  assumes "xs \<noteq> []" and "\<forall>x \<in> set xs. c \<notin> set x"
  shows "split_on c (join [c] xs) = xs"
proof -
  have single: "c \<notin> set x \<Longrightarrow> split_on c x = [x]" for x
    by (induction x) auto
  have cons: "c \<notin> set x \<Longrightarrow> split_on c (x @ c # r) = x # split_on c r" for x r
    by (induction x) auto
  from assms show ?thesis
    by (induction "[c]" xs rule: join.induct) (auto simp: single cons)
qed

section \<open>Time\<close>

type_synonym time = int
type_synonym duration = int

definition max_duration :: duration where "max_duration = 2 ^ 63 - 1"
definition min_duration :: duration where "min_duration = - (2 ^ 63)"

definition nanosecond :: duration where "nanosecond = 1"
definition microsecond :: duration where "microsecond = 1000"
definition millisecond :: duration where "millisecond = 1000000"
definition second :: duration where "second = 1000000000"
definition minute :: duration where "minute = 60000000000"
definition hour :: duration where "hour = 3600000000000"

lemmas duration_units =
  nanosecond_def microsecond_def millisecond_def second_def minute_def hour_def

definition zero_time :: time where "zero_time = 0"

definition is_zero :: "time \<Rightarrow> bool" where
  "is_zero t \<longleftrightarrow> t = zero_time"

text \<open>\<open>t.Sub(u)\<close>: the difference, or the nearest bound of a 64-bit duration.\<close>

definition time_sub :: "time \<Rightarrow> time \<Rightarrow> duration" where
  "time_sub t u = max min_duration (min max_duration (t - u))"

lemma time_sub_exact: "min_duration \<le> t - u \<Longrightarrow> t - u \<le> max_duration \<Longrightarrow> time_sub t u = t - u"
  by (simp add: time_sub_def)

lemma time_sub_ge_iff:
  "min_duration < d \<Longrightarrow> d \<le> max_duration \<Longrightarrow> d \<le> time_sub t u \<longleftrightarrow> d \<le> t - u"
  by (auto simp: time_sub_def)

lemma time_sub_gr_iff:
  "min_duration \<le> d \<Longrightarrow> d < max_duration \<Longrightarrow> d < time_sub t u \<longleftrightarrow> d < t - u"
  by (auto simp: time_sub_def)

text \<open>Go's integer division truncates towards zero.\<close>

definition go_quot :: "int \<Rightarrow> int \<Rightarrow> int" where
  "go_quot n d = (if (n < 0) = (d < 0) then abs n div abs d else - (abs n div abs d))"

lemma go_quot_nonneg: "0 \<le> a \<Longrightarrow> 0 < b \<Longrightarrow> go_quot a b = a div b"
  by (simp add: go_quot_def)

section \<open>Errors\<close>

text \<open>
  The sentinel errors (\<open>errors.New\<close> at package level) of the services modelled here. \<open>errors.Is\<close>
  looks through \<open>%w\<close> wrapping, \<open>Error()\<close> renders the text.
\<close>

datatype sentinel =
    ErrInvalidInput | ErrProjectNotFound | ErrProjectAccessDenied
  | ErrRevisionNotFound | ErrDeploymentNotFound
  | ErrInvalidRevisionStateTransition | ErrInvalidDeploymentStateTransition
  | ErrNoStableRevision | ErrRollbackAlreadyRolledBack
  | ErrRolloutArtifactPending | ErrRolloutAgentUnavailable | ErrRolloutUnsupportedTarget
  | ErrRolloutAlreadyStarted | ErrHealthGateFailed
  | ErrTargetNotFound | ErrTargetAccessDenied | ErrDuplicateTargetRef | ErrRuntimeModeMismatch
  | ErrClusterNotReady
  | ErrUnsupportedProtocol | ErrTargetOffline | ErrTunnelSessionNotFound
  | ErrTunnelSessionPortConflict | ErrTunnelSessionCloseFailed
  | ErrInvalidMagicDomainIP | ErrInvalidDomain | ErrReleaseNotFound
  | ErrPreviewNotFound | ErrPreviewAlreadyExists | ErrPreviewAlreadyDestroyed
  | ErrPreviewNotEnabled | ErrBlueprintNotFound
  | ErrBootstrapTokenUnknown | ErrBootstrapTokenExpired | ErrBootstrapTokenReused
  | ErrBootstrapOwnershipMismatch | ErrAgentNotFound
  | ErrBuildBranchRejected | ErrRepoLinkNotFound
  | ErrInvalidCredentials | ErrEmailExists | ErrUnauthorized | ErrWeakPassword | ErrAccountDisabled
  | ErrTokenNotFound | ErrTokenAccessDenied | ErrTokenRevoked | ErrTokenExpired
  | ErrInstanceNameExists | ErrInstanceNotFound | ErrInstanceBootstrapNotAllowed | ErrInvalidIP
  | ErrProjectDomainNotFound | ErrProjectDomainLabelInvalid | ErrProjectDomainLabelTaken

datatype go_err =
    Sentinel sentinel
  | Wrapped string go_err
  | Errorf string
  | DbFailure

fun err_is :: "go_err \<Rightarrow> sentinel \<Rightarrow> bool" where
  "err_is (Sentinel x) y = (x = y)"
| "err_is (Wrapped msg e) y = err_is e y"
| "err_is (Errorf msg) y = False"
| "err_is DbFailure y = False"

text \<open>
  The text of an error, as \<open>err.Error()\<close> renders it; a wrapped error is rendered as message, colon,
  cause. The text of a database error is not part of the sources; it is empty here.
\<close>

fun sentinel_text :: "sentinel \<Rightarrow> string" where
  "sentinel_text ErrInvalidInput = ''invalid input''"
| "sentinel_text ErrProjectNotFound = ''project not found''"
| "sentinel_text ErrProjectAccessDenied = ''project access denied''"
| "sentinel_text ErrRevisionNotFound = ''revision not found''"
| "sentinel_text ErrDeploymentNotFound = ''deployment not found''"
| "sentinel_text ErrInvalidRevisionStateTransition = ''invalid revision state transition''"
| "sentinel_text ErrInvalidDeploymentStateTransition = ''invalid deployment state transition''"
| "sentinel_text ErrNoStableRevision = ''no stable revision found for rollback''"
| "sentinel_text ErrRollbackAlreadyRolledBack = ''deployment already rolled back''"
| "sentinel_text ErrRolloutArtifactPending = ''rollout artifact is not ready''"
| "sentinel_text ErrRolloutAgentUnavailable = ''target agent is unavailable''"
| "sentinel_text ErrRolloutUnsupportedTarget = ''rollout target is not supported''"
| "sentinel_text ErrRolloutAlreadyStarted = ''deployment rollout already started''"
| "sentinel_text ErrHealthGateFailed = ''health gate failed''"
| "sentinel_text ErrTargetNotFound = ''target not found''"
| "sentinel_text ErrTargetAccessDenied = ''target access denied''"
| "sentinel_text ErrDuplicateTargetRef = ''duplicate target ref''"
| "sentinel_text ErrRuntimeModeMismatch = ''runtime mode mismatch''"
| "sentinel_text ErrClusterNotReady = ''cluster is not ready for workload scheduling''"
| "sentinel_text ErrUnsupportedProtocol = ''unsupported protocol for mesh dependency binding''"
| "sentinel_text ErrTargetOffline = ''target instance is offline''"
| "sentinel_text ErrTunnelSessionNotFound = ''tunnel session not found''"
| "sentinel_text ErrTunnelSessionPortConflict = ''local port already in use by active tunnel session''"
| "sentinel_text ErrTunnelSessionCloseFailed = ''failed to close expired tunnel session''"
| "sentinel_text ErrInvalidMagicDomainIP = ''invalid public IP for magic domain''"
| "sentinel_text ErrInvalidDomain = ''invalid domain''"
| "sentinel_text ErrReleaseNotFound = ''release not found''"
| "sentinel_text ErrPreviewNotFound = ''preview environment not found''"
| "sentinel_text ErrPreviewAlreadyExists = ''preview environment already exists for this PR''"
| "sentinel_text ErrPreviewAlreadyDestroyed = ''preview environment already destroyed''"
| "sentinel_text ErrPreviewNotEnabled = ''preview not enabled for this project''"
| "sentinel_text ErrBlueprintNotFound = ''blueprint not found''"
| "sentinel_text ErrBootstrapTokenUnknown = ''bootstrap token unknown''"
| "sentinel_text ErrBootstrapTokenExpired = ''bootstrap token expired''"
| "sentinel_text ErrBootstrapTokenReused = ''bootstrap token reused''"
| "sentinel_text ErrBootstrapOwnershipMismatch = ''bootstrap ownership mismatch''"
| "sentinel_text ErrAgentNotFound = ''agent not found''"
| "sentinel_text ErrBuildBranchRejected = ''build branch rejected''"
| "sentinel_text ErrRepoLinkNotFound = ''repo link not found''"
| "sentinel_text ErrInvalidCredentials = ''invalid credentials''"
| "sentinel_text ErrEmailExists = ''email already exists''"
| "sentinel_text ErrUnauthorized = ''unauthorized''"
| "sentinel_text ErrWeakPassword = ''weak password''"
| "sentinel_text ErrAccountDisabled = ''account disabled''"
| "sentinel_text ErrTokenNotFound = ''token not found''"
| "sentinel_text ErrTokenAccessDenied = ''token access denied''"
| "sentinel_text ErrTokenRevoked = ''token revoked''"
| "sentinel_text ErrTokenExpired = ''token expired''"
| "sentinel_text ErrInstanceNameExists = ''instance name already exists''"
| "sentinel_text ErrInstanceNotFound = ''instance not found''"
| "sentinel_text ErrInstanceBootstrapNotAllowed = ''instance bootstrap not allowed''"
| "sentinel_text ErrInvalidIP = ''invalid ip''"
| "sentinel_text ErrProjectDomainNotFound = ''project domain not found''"
| "sentinel_text ErrProjectDomainLabelInvalid = ''project domain label is invalid''"
| "sentinel_text ErrProjectDomainLabelTaken = ''project domain label already in use''"

fun error_text :: "go_err \<Rightarrow> string" where
  "error_text (Sentinel x) = sentinel_text x"
| "error_text (Wrapped msg e) = msg @ '': '' @ error_text e"
| "error_text (Errorf msg) = msg"
| "error_text DbFailure = []"

type_synonym 'a res = "go_err + 'a"

abbreviation Ok :: "'a \<Rightarrow> 'a res" where "Ok \<equiv> Inr"
abbreviation Fail :: "go_err \<Rightarrow> 'a res" where "Fail \<equiv> Inl"

definition res_bind :: "'a res \<Rightarrow> ('a \<Rightarrow> 'b res) \<Rightarrow> 'b res" where
  "res_bind r f = (case r of Inl e \<Rightarrow> Inl e | Inr x \<Rightarrow> f x)"

lemma res_bind_simps [simp]:
  "res_bind (Inl e) f = Inl e"
  "res_bind (Inr x) f = f x"
  by (simp_all add: res_bind_def)

lemma res_bind_eq_Inr: "res_bind r f = Inr y \<longleftrightarrow> (\<exists>x. r = Inr x \<and> f x = Inr y)"
  by (cases r) auto

fun is_ok :: "'a res \<Rightarrow> bool" where
  "is_ok (Inr x) = True"
| "is_ok (Inl e) = False"

lemma is_ok_iff: "is_ok r \<longleftrightarrow> (\<exists>x. r = Inr x)"
  by (cases r) auto

section \<open>Runtime modes\<close>

text \<open>The three modes; backend and agent declare the same strings.\<close>

definition RuntimeModeStandalone :: string where "RuntimeModeStandalone = ''standalone''"
definition RuntimeModeDistributedMesh :: string where
  "RuntimeModeDistributedMesh = ''distributed-mesh''"
definition RuntimeModeDistributedK3s :: string where
  "RuntimeModeDistributedK3s = ''distributed-k3s''"

lemmas runtime_modes =
  RuntimeModeStandalone_def RuntimeModeDistributedMesh_def RuntimeModeDistributedK3s_def

section \<open>Searching a list\<close>

lemma find_SomeD: "List.find P xs = Some x \<Longrightarrow> x \<in> set xs \<and> P x"
  by (auto simp: find_Some_iff)

section \<open>Finite maps\<close>

text \<open>An enumeration of a Go map: the order in which one \<open>range\<close> statement visits its keys.\<close>

definition range_order :: "('k \<rightharpoonup> 'v) \<Rightarrow> 'k list \<Rightarrow> bool" where
  "range_order m ks \<longleftrightarrow> distinct ks \<and> set ks = dom m"

lemma range_orderD:
  "range_order m ks \<Longrightarrow> distinct ks"
  "range_order m ks \<Longrightarrow> set ks = dom m"
  by (simp_all add: range_order_def)

lemma range_order_finite: "range_order m ks \<Longrightarrow> finite (dom m)"
  by (metis List.finite_set range_orderD(2))

text \<open>Reading a missing key gives the zero value.\<close>

definition map_get :: "'v \<Rightarrow> ('k \<rightharpoonup> 'v) \<Rightarrow> 'k \<Rightarrow> 'v" where
  "map_get z m k = (case m k of None \<Rightarrow> z | Some v \<Rightarrow> v)"

lemma map_get_simps [simp]:
  "m k = None \<Longrightarrow> map_get z m k = z"
  "m k = Some v \<Longrightarrow> map_get z m k = v"
  "map_get z (m(k \<mapsto> v)) j = (if j = k then v else map_get z m j)"
  "map_get z (m(k := None)) j = (if j = k then z else map_get z m j)"
  by (simp_all add: map_get_def)

text \<open>A map of queues: how many items its queues hold together.\<close>

definition held_count :: "('k \<rightharpoonup> 'v list) \<Rightarrow> nat" where
  "held_count h = (\<Sum>k \<in> dom h. length (the (h k)))"

lemma held_count_remove:
  assumes "finite (dom h)"
  shows "held_count h = held_count (h(k := None)) + length (map_get [] h k)"
proof (cases "h k")
  case None
  then have "h(k := None) = h" by auto
  with None show ?thesis by simp
next
  case (Some v)
  then have "dom h = insert k (dom h - {k})" by auto
  then have "held_count h = length v + (\<Sum>j \<in> dom h - {k}. length (the (h j)))"
    using assms Some unfolding held_count_def by (metis finite_Diff Diff_iff option.sel singletonI sum.insert)
  moreover have "held_count (h(k := None)) = (\<Sum>j \<in> dom h - {k}. length (the (h j)))"
    unfolding held_count_def by (intro sum.cong) auto
  ultimately show ?thesis using Some by simp
qed

lemma held_count_put:
  "finite (dom h) \<Longrightarrow> held_count (h(k \<mapsto> v)) = held_count (h(k := None)) + length v"
  using held_count_remove [of "h(k \<mapsto> v)" k] by simp

lemma held_count_empty [simp]: "held_count Map.empty = 0"
  by (simp add: held_count_def)

lemma held_count_order:
  "range_order h ks \<Longrightarrow> sum_list (map (\<lambda>k. length (map_get [] h k)) ks) = held_count h"
proof -
  assume *: "range_order h ks"
  then have "sum_list (map (\<lambda>k. length (map_get [] h k)) ks) = (\<Sum>k \<in> dom h. length (map_get [] h k))"
    by (metis range_orderD sum_list_distinct_conv_sum_set)
  also have "\<dots> = held_count h"
    unfolding held_count_def by (intro sum.cong) (auto simp: map_get_def)
  finally show ?thesis .
qed

section \<open>Components as machines\<close>

text \<open>
  A component is driven by calls of its operations. \<open>run\<close> executes a list of calls;
  \<open>calls_ok\<close> says that every call is made in a state in which the environment may make it (a
  clock that does not go back, an enumeration of the current map).
\<close>

fun run :: "('e \<Rightarrow> 's \<Rightarrow> 's) \<Rightarrow> 'e list \<Rightarrow> 's \<Rightarrow> 's" where
  "run step [] s = s"
| "run step (e # es) s = run step es (step e s)"

fun calls_ok :: "('s \<Rightarrow> 'e \<Rightarrow> bool) \<Rightarrow> ('e \<Rightarrow> 's \<Rightarrow> 's) \<Rightarrow> 'e list \<Rightarrow> 's \<Rightarrow> bool" where
  "calls_ok ok step [] s = True"
| "calls_ok ok step (e # es) s = (ok s e \<and> calls_ok ok step es (step e s))"

lemma run_append: "run step (es @ fs) s = run step fs (run step es s)"
  by (induction es arbitrary: s) auto

locale machine =
  fixes step :: "'e \<Rightarrow> 's \<Rightarrow> 's"
    and ok :: "'s \<Rightarrow> 'e \<Rightarrow> bool"
    and invar :: "'s \<Rightarrow> bool"
  assumes invar_step: "invar s \<Longrightarrow> ok s e \<Longrightarrow> invar (step e s)"
begin

lemma invar_run: "invar s \<Longrightarrow> calls_ok ok step es s \<Longrightarrow> invar (run step es s)"
  by (induction es arbitrary: s) (auto intro: invar_step)

lemma invar_run_rel:
  assumes "invar s" and "calls_ok ok step es s"
    and trans: "\<And>a b c. R a b \<Longrightarrow> R b c \<Longrightarrow> R a c" and refl: "\<And>a. R a a"
    and one: "\<And>a e. invar a \<Longrightarrow> ok a e \<Longrightarrow> R a (step e a)"
  shows "R s (run step es s)"
  using assms(1,2)
proof (induction es arbitrary: s)
  case Nil
  show ?case by (simp add: refl)
next
  case (Cons e es)
  then have "R s (step e s)" and "R (step e s) (run step es (step e s))"
    by (auto intro: one invar_step)
  then show ?case by (auto intro: trans)
qed

end

text \<open>
  A machine that implements an abstract one: \<open>abs\<close> reads the promised state off the real one, and
  each call that the environment may make does to it what the abstract step says.
\<close>

locale refinement = machine step ok invar
  for step :: "'e \<Rightarrow> 's \<Rightarrow> 's" and ok :: "'s \<Rightarrow> 'e \<Rightarrow> bool" and invar :: "'s \<Rightarrow> bool" +
  fixes abs :: "'s \<Rightarrow> 'a"
    and astep :: "'e \<Rightarrow> 'a \<Rightarrow> 'a"
  assumes abs_step: "invar s \<Longrightarrow> ok s e \<Longrightarrow> abs (step e s) = astep e (abs s)"
begin

lemma abs_run: "invar s \<Longrightarrow> calls_ok ok step es s \<Longrightarrow> abs (run step es s) = run astep es (abs s)"
  by (induction es arbitrary: s) (simp_all add: abs_step invar_step)

end

text \<open>A normaliser maps any input into its canonical values and leaves those alone.\<close>

locale normaliser =
  fixes norm :: "'a \<Rightarrow> 'a" and canonical :: "'a \<Rightarrow> bool"
  assumes norm_canonical: "canonical (norm x)"
    and norm_id: "canonical x \<Longrightarrow> norm x = x"
begin

lemma norm_idem: "norm (norm x) = norm x"
  by (simp add: norm_canonical norm_id)

lemma canonical_iff_fixed: "canonical x \<longleftrightarrow> norm x = x"
  using norm_canonical [of x] norm_id [of x] by auto

lemma range_norm: "range norm = {x. canonical x}"
  using norm_canonical norm_id by (auto simp: image_iff) metis

end

end
