(* ===== verification/Prog.thy ===== *)
theory Prog
  imports Prelude
begin

text \<open>
  Go functions that use the database return a value or an error and change the state:
  a \<open>prog\<close> takes the state to a result and a new state. The statements
  \<open>x, err := m; if err != nil { return err }\<close> are \<open>andThen\<close>; a function that looks at the error
  itself uses \<open>attempt\<close>, and \<open>_ = m\<close> is \<open>ignoring\<close>.

  \<open>within\<close> says that a program only moves from states to states in a relation, and the locale
  \<open>guarantee\<close> gives the rules that derive this from the shape of a program. Its interpretations
  state what a whole service, with every error path, may do to the tables.
\<close>

type_synonym ('w, 'a) prog = "'w \<Rightarrow> 'a res \<times> 'w"

definition return :: "'a \<Rightarrow> ('w, 'a) prog" where
  "return x = (\<lambda>w. (Ok x, w))"

definition raise :: "go_err \<Rightarrow> ('w, 'a) prog" where
  "raise e = (\<lambda>w. (Fail e, w))"

definition andThen :: "('w, 'a) prog \<Rightarrow> ('a \<Rightarrow> ('w, 'b) prog) \<Rightarrow> ('w, 'b) prog" where
  "andThen m f = (\<lambda>w. case m w of (r, w') \<Rightarrow> (case r of Inl e \<Rightarrow> (Inl e, w') | Inr x \<Rightarrow> f x w'))"

definition attempt :: "('w, 'a) prog \<Rightarrow> ('w, 'a res) prog" where
  "attempt m = (\<lambda>w. case m w of (r, w') \<Rightarrow> (Ok r, w'))"

definition ignoring :: "('w, 'a) prog \<Rightarrow> ('w, unit) prog" where
  "ignoring m = (\<lambda>w. (Ok (), snd (m w)))"

definition from_res :: "'a res \<Rightarrow> ('w, 'a) prog" where
  "from_res r = (\<lambda>w. (r, w))"

text \<open>\<open>fmt.Errorf("msg: %w", err)\<close> around the error of a call.\<close>

definition wrapping :: "string \<Rightarrow> ('w, 'a) prog \<Rightarrow> ('w, 'a) prog" where
  "wrapping msg m = (\<lambda>w. case m w of (r, w') \<Rightarrow>
     (case r of Inl e \<Rightarrow> (Inl (Wrapped msg e), w') | Inr x \<Rightarrow> (Inr x, w')))"

lemmas prog_defs =
  return_def raise_def andThen_def attempt_def ignoring_def from_res_def wrapping_def

section \<open>Running programs\<close>

lemma run_return [simp]: "return x w = (Ok x, w)"
  by (simp add: return_def)

lemma run_raise [simp]: "raise e w = (Fail e, w)"
  by (simp add: raise_def)

lemma run_from_res [simp]: "from_res r w = (r, w)"
  by (simp add: from_res_def)

lemma run_andThen_Ok [simp]: "m w = (Inr x, w') \<Longrightarrow> andThen m f w = f x w'"
  by (simp add: andThen_def)

lemma run_andThen_Fail [simp]: "m w = (Inl e, w') \<Longrightarrow> andThen m f w = (Inl e, w')"
  by (simp add: andThen_def)

lemma andThen_cases:
  assumes "andThen m f w = (r, w')"
  obtains (fail) e where "m w = (Inl e, w')" "r = Inl e"
  | (ok) x w1 where "m w = (Inr x, w1)" "f x w1 = (r, w')"
  using assms by (auto simp: andThen_def split: prod.splits sum.splits)

lemma andThen_Ok_iff:
  "andThen m f w = (Inr y, w') \<longleftrightarrow> (\<exists>x w1. m w = (Inr x, w1) \<and> f x w1 = (Inr y, w'))"
  by (auto simp: andThen_def split: prod.splits sum.splits)

lemma andThen_assoc: "andThen (andThen m f) g = andThen m (\<lambda>x. andThen (f x) g)"
  by (rule ext) (auto simp: andThen_def split: prod.splits sum.splits)

lemma andThen_return [simp]: "andThen (return x) f = f x"
  by (rule ext) (simp add: andThen_def)

lemma andThen_raise [simp]: "andThen (raise e) f = raise e"
  by (rule ext) (simp add: andThen_def)

lemma run_wrapping_Ok_iff [simp]: "wrapping msg m w = (Inr x, w') \<longleftrightarrow> m w = (Inr x, w')"
  by (auto simp: wrapping_def split: prod.splits sum.splits)

lemma run_attempt: "attempt m w = (Ok (fst (m w)), snd (m w))"
  by (simp add: attempt_def case_prod_beta)

lemma run_ignoring [simp]: "ignoring m w = (Ok (), snd (m w))"
  by (simp add: ignoring_def)

section \<open>What a program may do to the state\<close>

definition within :: "('w \<Rightarrow> bool) \<Rightarrow> ('w \<Rightarrow> 'w \<Rightarrow> bool) \<Rightarrow> ('w, 'a) prog \<Rightarrow> bool" where
  "within I R m \<longleftrightarrow> (\<forall>w. I w \<longrightarrow> I (snd (m w)) \<and> R w (snd (m w)))"

lemma withinD: "within I R m \<Longrightarrow> I w \<Longrightarrow> m w = (r, w') \<Longrightarrow> I w' \<and> R w w'"
  unfolding within_def by (metis snd_conv)

lemma within_snd: "within I R m \<Longrightarrow> I w \<Longrightarrow> I (snd (m w)) \<and> R w (snd (m w))"
  by (simp add: within_def)

locale guarantee =
  fixes I :: "'w \<Rightarrow> bool" and R :: "'w \<Rightarrow> 'w \<Rightarrow> bool"
  assumes refl: "R w w"
    and trans: "R u v \<Longrightarrow> R v w \<Longrightarrow> R u w"
begin

lemma within_return: "within I R (return x)"
  by (simp add: within_def refl)

lemma within_raise: "within I R (raise e)"
  by (simp add: within_def refl)

lemma within_from_res: "within I R (from_res r)"
  by (simp add: within_def refl)

lemma within_andThen:
  assumes "within I R m" and "\<And>x. within I R (f x)"
  shows "within I R (andThen m f)"
  unfolding within_def
proof (intro allI impI)
  fix w assume "I w"
  then have 1: "I (snd (m w)) \<and> R w (snd (m w))" using assms(1) by (simp add: within_def)
  show "I (snd (andThen m f w)) \<and> R w (snd (andThen m f w))"
  proof (cases "m w")
    case (Pair r w1)
    with 1 show ?thesis
      using assms(2) trans
      by (cases r) (auto simp: within_def)
  qed
qed

text \<open>The rest of a program may use what its first call has learnt.\<close>

lemma within_andThen_learn:
  assumes "within I R m" and "\<And>w x w1. I w \<Longrightarrow> m w = (Inr x, w1) \<Longrightarrow> J x w1"
    and "\<And>x. within (\<lambda>w. I w \<and> J x w) R (f x)"
  shows "within I R (andThen m f)"
  unfolding within_def
proof (intro allI impI)
  fix w assume I: "I w"
  then have 1: "I (snd (m w)) \<and> R w (snd (m w))" using assms(1) by (simp add: within_def)
  show "I (snd (andThen m f w)) \<and> R w (snd (andThen m f w))"
  proof (cases "m w")
    case (Pair r w1)
    show ?thesis
    proof (cases r)
      case (Inl e)
      with 1 Pair show ?thesis by simp
    next
      case (Inr x)
      have "I w1 \<and> J x w1" using 1 assms(2) [OF I] Pair Inr by simp
      then have "I (snd (f x w1)) \<and> R w1 (snd (f x w1))"
        using assms(3) [of x] by (simp add: within_def)
      with 1 Pair Inr trans show ?thesis by auto
    qed
  qed
qed

lemma within_weaken: "within I R m \<Longrightarrow> (\<And>w. J w \<Longrightarrow> I w) \<Longrightarrow>
  (\<And>w r w'. J w \<Longrightarrow> I w' \<Longrightarrow> R w w' \<Longrightarrow> J w') \<Longrightarrow> within J R m"
  unfolding within_def by blast

lemma within_andThen_from_res:
  "(\<And>x. r = Inr x \<Longrightarrow> within I R (f x)) \<Longrightarrow> within I R (andThen (from_res r) f)"
  by (cases r) (auto simp: within_def andThen_def refl)

lemma within_attempt: "within I R m \<Longrightarrow> within I R (attempt m)"
  by (simp add: within_def run_attempt)

lemma within_ignoring: "within I R m \<Longrightarrow> within I R (ignoring m)"
  by (simp add: within_def)

lemma within_wrapping: "within I R m \<Longrightarrow> within I R (wrapping msg m)"
  unfolding within_def wrapping_def by (auto split: prod.splits sum.splits)

lemma within_if: "(b \<Longrightarrow> within I R m) \<Longrightarrow> (\<not> b \<Longrightarrow> within I R n) \<Longrightarrow> within I R (if b then m else n)"
  by simp

lemma within_option:
  "(x = None \<Longrightarrow> within I R m) \<Longrightarrow> (\<And>y. x = Some y \<Longrightarrow> within I R (f y)) \<Longrightarrow>
   within I R (case x of None \<Rightarrow> m | Some y \<Rightarrow> f y)"
  by (cases x) auto

lemma within_sum:
  "(\<And>e. x = Inl e \<Longrightarrow> within I R (f e)) \<Longrightarrow> (\<And>y. x = Inr y \<Longrightarrow> within I R (g y)) \<Longrightarrow>
   within I R (case x of Inl e \<Rightarrow> f e | Inr y \<Rightarrow> g y)"
  by (cases x) auto

lemma within_prod:
  "(\<And>a b. x = (a, b) \<Longrightarrow> within I R (f a b)) \<Longrightarrow> within I R (case x of (a, b) \<Rightarrow> f a b)"
  by (cases x) auto

lemma within_let: "(\<And>x. x = t \<Longrightarrow> within I R (f x)) \<Longrightarrow> within I R (let x = t in f x)"
  by (simp add: Let_def)

lemmas within_rules =
  within_return within_raise within_from_res within_andThen within_attempt within_ignoring
  within_wrapping within_if within_option within_sum within_prod within_let

end

end
