(* ===== verification/Commands.thy ===== *)
theory Commands
  imports Prelude
begin

text \<open>
  The data the control plane and the agents exchange,
  \<open>backend/internal/runtime/command_envelope.go\<close> and the request types of
  \<open>backend/internal/runtime/registry.go\<close>. A JSON document (\<open>map[string]any\<close>) is a value of
  type \<open>any\<close>.
\<close>

section \<open>JSON values\<close>

datatype any =
    AnyNil
  | AnyBool bool
  | AnyInt int
  | AnyStr string
  | AnyList "any list"
  | AnyMap "string \<Rightarrow> any option"

type_synonym payload = "string \<rightharpoonup> any"

text \<open>A map that is only copied and tested for emptiness is listed by its entries.\<close>

type_synonym entries = "(string \<times> any) list"

fun any_str :: "any option \<Rightarrow> string option" where
  "any_str (Some (AnyStr s)) = Some s"
| "any_str v = None"

section \<open>Commands\<close>

record AgentCommand =
  cmd_type :: string
  cmd_request_id :: string
  cmd_correlation_id :: string
  cmd_agent_id :: string
  cmd_project_id :: string
  cmd_source :: string
  cmd_occurred_at :: "time option"
  cmd_payload :: "payload option"

record CommandResult =
  cr_request_id :: string
  cr_status :: string
  cr_output :: payload
  cr_error :: string

record CommandEnvelope =
  env_type :: string
  env_request_id :: string
  env_correlation_id :: string
  env_agent_id :: string
  env_project_id :: string
  env_source :: string
  env_occurred_at :: time
  env_payload :: "payload option"

definition CommandTypeReconcileRevision :: string where
  "CommandTypeReconcileRevision = ''reconcile_revision''"
definition CommandTypePrepareReleaseWorkspace :: string where
  "CommandTypePrepareReleaseWorkspace = ''prepare_release_workspace''"
definition CommandTypeEnsureMeshPeer :: string where
  "CommandTypeEnsureMeshPeer = ''ensure_mesh_peer''"
definition CommandTypeSyncOverlayRoutes :: string where
  "CommandTypeSyncOverlayRoutes = ''sync_overlay_routes''"
definition CommandTypeRenderSidecars :: string where
  "CommandTypeRenderSidecars = ''render_sidecars''"
definition CommandTypeRenderGatewayConfig :: string where
  "CommandTypeRenderGatewayConfig = ''render_gateway_config''"
definition CommandTypeProvisionInternalSvc :: string where
  "CommandTypeProvisionInternalSvc = ''provision_internal_services''"
definition CommandTypeStartReleaseCandidate :: string where
  "CommandTypeStartReleaseCandidate = ''start_release_candidate''"
definition CommandTypeRunHealthGate :: string where
  "CommandTypeRunHealthGate = ''run_health_gate''"
definition CommandTypePromoteRelease :: string where
  "CommandTypePromoteRelease = ''promote_release''"
definition CommandTypeRollbackRelease :: string where
  "CommandTypeRollbackRelease = ''rollback_release''"
definition CommandTypeGarbageCollectRuntime :: string where
  "CommandTypeGarbageCollectRuntime = ''garbage_collect_runtime''"

lemmas command_types =
  CommandTypeReconcileRevision_def CommandTypePrepareReleaseWorkspace_def
  CommandTypeEnsureMeshPeer_def CommandTypeSyncOverlayRoutes_def CommandTypeRenderSidecars_def
  CommandTypeRenderGatewayConfig_def CommandTypeProvisionInternalSvc_def
  CommandTypeStartReleaseCandidate_def CommandTypeRunHealthGate_def
  CommandTypePromoteRelease_def CommandTypeRollbackRelease_def
  CommandTypeGarbageCollectRuntime_def

definition ValidAgentCommands :: "string list" where
  "ValidAgentCommands =
     [CommandTypeReconcileRevision, CommandTypePrepareReleaseWorkspace, CommandTypeEnsureMeshPeer,
      CommandTypeSyncOverlayRoutes, CommandTypeRenderSidecars, CommandTypeRenderGatewayConfig,
      CommandTypeProvisionInternalSvc, CommandTypeStartReleaseCandidate, CommandTypeRunHealthGate,
      CommandTypePromoteRelease, CommandTypeRollbackRelease, ''wake_service'', ''sleep_service'',
      ''report_topology_state'', ''report_trace_summary'', ''report_metric_rollup'',
      ''report_log_batch'', CommandTypeGarbageCollectRuntime, ''restart_k3s_service'',
      ''label_k3s_node'']"

definition IsValidAgentCommand :: "string \<Rightarrow> bool" where
  "IsValidAgentCommand t \<longleftrightarrow> t \<in> set ValidAgentCommands"

definition NewCommandEnvelope ::
  "time \<Rightarrow> string \<Rightarrow> string \<Rightarrow> string \<Rightarrow> string \<Rightarrow> string \<Rightarrow> string \<Rightarrow> payload option \<Rightarrow> CommandEnvelope" where
  "NewCommandEnvelope now cmdType requestID correlationID agentID projectID source p =
     \<lparr>env_type = cmdType, env_request_id = requestID, env_correlation_id = correlationID,
      env_agent_id = agentID, env_project_id = projectID, env_source = source,
      env_occurred_at = now, env_payload = p\<rparr>"

end
