(* ===== verification/CommandTracker.thy ===== *)
theory CommandTracker
  imports Commands
begin

text \<open>
  The command tracker of the control plane, \<open>backend/internal/service/command_tracker.go\<close>, the
  dispatch side of \<open>control_service.go\<close>, and the handlers by which an agent's messages reach the
  tracker (\<open>internal/api/v1/controller/agent_control_controller.go\<close>).

  A Go channel is an address: \<open>ready\<close> maps a request to the channel made for it, and a channel is
  either open or in the set \<open>closed\<close>. Closing a closed channel panics, which is the value
  \<open>None\<close> of \<open>close_chan\<close>. The output of a command is listed by its entries, the first of a key
  counting. \<open>WaitForResult\<close> blocks between reading the channel and its \<open>select\<close>:
  other goroutines' calls happen in between, so it is a relation with a list of such calls, and
  the branch taken when the channel is closed and the context done at once is unspecified. When the
  context ends, \<open>UpdateState\<close> and \<open>Get\<close> are two lock sections: the list is cut where the
  cancellation is written, and the calls of its second part come between the two sections.
\<close>

section \<open>State\<close>

datatype CommandState =
  CommandStatePending | CommandStateRunning | CommandStateDone | CommandStateFailed
  | CommandStateCancelled | CommandStateOther string

record TrackedCommand =
  tc_request_id :: string
  tc_agent_id :: string
  tc_command_type :: string
  tc_state :: CommandState
  tc_output :: entries
  tc_error :: string
  tc_sent_at :: time
  tc_updated_at :: time

record CommandTracker =
  ct_commands :: "string \<rightharpoonup> TrackedCommand"
  ct_ready :: "string \<rightharpoonup> nat"
  ct_closed :: "nat set"
  ct_next :: nat

definition NewCommandTracker :: CommandTracker where
  "NewCommandTracker = \<lparr>ct_commands = Map.empty, ct_ready = Map.empty, ct_closed = {}, ct_next = 0\<rparr>"

section \<open>Operations\<close>

definition Register :: "time \<Rightarrow> string \<Rightarrow> string \<Rightarrow> string \<Rightarrow> CommandTracker \<Rightarrow> CommandTracker" where
  "Register now rid aid ty t =
     t\<lparr>ct_commands := (ct_commands t)(rid \<mapsto>
          \<lparr>tc_request_id = rid, tc_agent_id = aid, tc_command_type = ty,
           tc_state = CommandStatePending, tc_output = [], tc_error = [],
           tc_sent_at = now, tc_updated_at = now\<rparr>),
       ct_ready := (ct_ready t)(rid \<mapsto> ct_next t), ct_next := ct_next t + 1\<rparr>"

definition close_chan :: "nat \<Rightarrow> CommandTracker \<Rightarrow> CommandTracker option" where
  "close_chan ch t =
     (if ch \<in> ct_closed t then None else Some (t\<lparr>ct_closed := insert ch (ct_closed t)\<rparr>))"

text \<open>The result is \<open>None\<close> if the call panics.\<close>

definition UpdateState ::
  "time \<Rightarrow> string \<Rightarrow> CommandState \<Rightarrow> entries \<Rightarrow> string \<Rightarrow> CommandTracker
   \<Rightarrow> (unit res \<times> CommandTracker) option" where
  "UpdateState now rid st out err t =
     (case ct_commands t rid of
        None \<Rightarrow> Some (Fail (Errorf (''command '' @ rid @ '' not found'')), t)
      | Some cmd \<Rightarrow>
          (let t' = t\<lparr>ct_commands := (ct_commands t)(rid \<mapsto>
                 cmd\<lparr>tc_state := st, tc_output := out, tc_error := err, tc_updated_at := now\<rparr>)\<rparr>
           in case ct_ready t rid of
                None \<Rightarrow> Some (Ok (), t')
              | Some ch \<Rightarrow>
                  (if st = CommandStateDone \<or> st = CommandStateFailed
                   then (if ch \<in> ct_closed t' then Some (Ok (), t')
                         else map_option (\<lambda>u. (Ok (), u)) (close_chan ch t'))
                   else Some (Ok (), t'))))"

definition Get :: "string \<Rightarrow> CommandTracker \<Rightarrow> TrackedCommand res" where
  "Get rid t =
     (case ct_commands t rid of
        None \<Rightarrow> Fail (Errorf (''command '' @ rid @ '' not found''))
      | Some cmd \<Rightarrow> Ok cmd)"

definition Cleanup :: "string \<Rightarrow> CommandTracker \<Rightarrow> CommandTracker" where
  "Cleanup rid t =
     t\<lparr>ct_commands := (ct_commands t)(rid := None), ct_ready := (ct_ready t)(rid := None)\<rparr>"

definition ListByAgent :: "string list \<Rightarrow> string \<Rightarrow> CommandTracker \<Rightarrow> TrackedCommand list" where
  "ListByAgent ks aid t =
     filter (\<lambda>c. tc_agent_id c = aid) (List.map_filter (ct_commands t) ks)"

section \<open>Calls by other goroutines, and waiting\<close>

datatype tracker_call =
    CallRegister time string string string
  | CallUpdate time string CommandState entries string
  | CallCleanup string

fun tracker_step :: "tracker_call \<Rightarrow> CommandTracker option \<Rightarrow> CommandTracker option" where
  "tracker_step c None = None"
| "tracker_step (CallRegister now rid aid ty) (Some t) = Some (Register now rid aid ty t)"
| "tracker_step (CallUpdate now rid st out err) (Some t) = map_option snd (UpdateState now rid st out err t)"
| "tracker_step (CallCleanup rid) (Some t) = Some (Cleanup rid t)"

definition timeout_message :: string where
  "timeout_message = ''context cancelled or timed out''"

inductive WaitForResult ::
  "string \<Rightarrow> tracker_call list \<Rightarrow> CommandTracker \<Rightarrow> TrackedCommand res \<Rightarrow> CommandTracker \<Rightarrow> bool" where
  wait_untracked:
    "ct_ready t rid = None \<Longrightarrow>
     WaitForResult rid [] t (Fail (Errorf (''command '' @ rid @ '' not tracked''))) t"
| wait_ready:
    "ct_ready t rid = Some ch \<Longrightarrow> run tracker_step es (Some t) = Some t' \<Longrightarrow> ch \<in> ct_closed t' \<Longrightarrow>
     WaitForResult rid es t (Get rid t') t'"
| wait_cancelled:
    "ct_ready t rid = Some ch \<Longrightarrow> run tracker_step es (Some t) = Some t1 \<Longrightarrow>
     UpdateState now rid CommandStateCancelled [] timeout_message t1 = Some (r, t2) \<Longrightarrow>
     run tracker_step fs (Some t2) = Some t' \<Longrightarrow>
     WaitForResult rid (es @ fs) t (Get rid t') t'"

section \<open>Messages of an agent\<close>

record agent_reply =
  ar_request_id :: string
  ar_status :: string
  ar_output :: entries
  ar_error :: string
  ar_code :: string
  ar_message :: string
  ar_summary :: string
  ar_retryable :: bool
  ar_details :: "entries option"

text \<open>\<open>CommandState(response.Status)\<close>.\<close>

definition command_state_of :: "string \<Rightarrow> CommandState" where
  "command_state_of s =
     (if s = ''pending'' then CommandStatePending else if s = ''running'' then CommandStateRunning
      else if s = ''done'' then CommandStateDone else if s = ''failed'' then CommandStateFailed
      else if s = ''cancelled'' then CommandStateCancelled else CommandStateOther s)"

text \<open>
  Each handler returns the tracker call it makes, if any; a message that does not parse is \<open>None\<close>.
\<close>

definition handleCommandResponse :: "time \<Rightarrow> agent_reply option \<Rightarrow> tracker_call option" where
  "handleCommandResponse now msg =
     (case msg of
        None \<Rightarrow> None
      | Some m \<Rightarrow>
          (if ar_request_id m = [] then None
           else Some (CallUpdate now (ar_request_id m)
             (if ar_status m = [] then CommandStateDone else command_state_of (ar_status m))
             (ar_output m) (ar_error m))))"

definition handleCommandAck :: "time \<Rightarrow> agent_reply option \<Rightarrow> tracker_call option" where
  "handleCommandAck now msg =
     (case msg of
        None \<Rightarrow> None
      | Some m \<Rightarrow>
          (if ar_request_id m = [] then None
           else Some (CallUpdate now (ar_request_id m)
             (if ar_status m = ''done'' then CommandStateDone else CommandStateRunning)
             ((case ar_details m of None \<Rightarrow> [] | Some d \<Rightarrow> d)
                @ (if ar_summary m \<noteq> [] then [(''summary'', AnyStr (ar_summary m))] else []))
             [])))"

definition handleCommandNack :: "time \<Rightarrow> agent_reply option \<Rightarrow> tracker_call option" where
  "handleCommandNack now msg =
     (case msg of
        None \<Rightarrow> None
      | Some m \<Rightarrow>
          (if ar_request_id m = [] then None
           else Some (CallUpdate now (ar_request_id m) CommandStateFailed
             [(''code'', AnyStr (ar_code m)), (''nacked'', AnyBool True),
              (''details'', case ar_details m of None \<Rightarrow> AnyNil | Some d \<Rightarrow> AnyMap (map_of d))]
             (ar_message m))))"

definition handleCommandError :: "time \<Rightarrow> agent_reply option \<Rightarrow> tracker_call option" where
  "handleCommandError now msg =
     (case msg of
        None \<Rightarrow> None
      | Some m \<Rightarrow>
          (if ar_request_id m = [] then None
           else Some (CallUpdate now (ar_request_id m) CommandStateFailed
             ((case ar_details m of None \<Rightarrow> [] | Some d \<Rightarrow> d)
                @ [(''code'', AnyStr (ar_code m)), (''retryable'', AnyBool (ar_retryable m))])
             (ar_message m))))"

section \<open>Dispatch\<close>

text \<open>
  \<open>ControlService.DispatchCommand\<close>. The hub's clients are read twice, so there are two snapshots;
  the connection's \<open>WriteMessage\<close> is a function of the envelope. \<open>rid\<close> is the fresh request id the
  code generates when the command has none.
\<close>

definition DispatchCommand ::
  "time \<Rightarrow> string \<Rightarrow> (string \<Rightarrow> bool) \<Rightarrow> (string \<rightharpoonup> (CommandEnvelope \<Rightarrow> go_err option))
   \<Rightarrow> string \<Rightarrow> AgentCommand \<Rightarrow> CommandTracker \<Rightarrow> CommandResult res \<times> CommandTracker" where
  "DispatchCommand now rid connected clients aid cmd t =
     (if \<not> connected aid then (Fail (Errorf (''agent '' @ aid @ '' is not connected'')), t)
      else
        let cmd = (if cmd_request_id cmd = [] then cmd\<lparr>cmd_request_id := rid\<rparr> else cmd);
            cmd = (if cmd_occurred_at cmd = None then cmd\<lparr>cmd_occurred_at := Some now\<rparr> else cmd);
            t' = Register now (cmd_request_id cmd) aid (cmd_type cmd) t;
            envelope = NewCommandEnvelope now (cmd_type cmd) (cmd_request_id cmd)
              (cmd_correlation_id cmd) aid (cmd_project_id cmd) (cmd_source cmd) (cmd_payload cmd)
        in (case clients aid of
              None \<Rightarrow> (Fail (Errorf (''agent '' @ aid @ '' not connected'')), t')
            | Some write \<Rightarrow>
                (case write envelope of
                   Some err \<Rightarrow> (Fail err, t')
                 | None \<Rightarrow>
                     (Ok \<lparr>cr_request_id = cmd_request_id cmd, cr_status = ''dispatched'',
                          cr_output = Map.empty, cr_error = []\<rparr>, t'))))"

section \<open>Invariant\<close>

definition tracker_inv :: "CommandTracker \<Rightarrow> bool" where
  "tracker_inv t \<longleftrightarrow>
     dom (ct_ready t) = dom (ct_commands t) \<and>
     (\<forall>rid c. ct_commands t rid = Some c \<longrightarrow> tc_request_id c = rid) \<and>
     (\<forall>rid ch. ct_ready t rid = Some ch \<longrightarrow> ch < ct_next t) \<and>
     (\<forall>rid rid' ch. ct_ready t rid = Some ch \<longrightarrow> ct_ready t rid' = Some ch \<longrightarrow> rid = rid') \<and>
     (\<forall>ch \<in> ct_closed t. ch < ct_next t)"

definition tracker_alive :: "CommandTracker option \<Rightarrow> bool" where
  "tracker_alive x = (case x of None \<Rightarrow> False | Some t \<Rightarrow> tracker_inv t)"

lemma tracker_inv_new [inv_step]: "tracker_inv NewCommandTracker"
  by (simp add: tracker_inv_def NewCommandTracker_def)

lemma tracker_inv_Register [inv_step]:
  assumes "tracker_inv t"
  shows "tracker_inv (Register now rid aid ty t)"
proof -
  have "ct_ready t r \<noteq> Some (ct_next t)" for r
    using assms by (auto simp: tracker_inv_def)
  with assms show ?thesis
    by (auto simp: tracker_inv_def Register_def less_Suc_eq)
qed

lemma tracker_inv_Cleanup [inv_step]: "tracker_inv t \<Longrightarrow> tracker_inv (Cleanup rid t)"
  by (auto simp: tracker_inv_def Cleanup_def)

lemma UpdateState_total:
  "\<exists>r t'. UpdateState now rid st out err t = Some (r, t') \<and>
     ct_ready t' = ct_ready t \<and> ct_next t' = ct_next t \<and>
     ct_closed t' = (case ct_commands t rid of None \<Rightarrow> ct_closed t | Some c \<Rightarrow>
       (case ct_ready t rid of None \<Rightarrow> ct_closed t | Some ch \<Rightarrow>
         (if st = CommandStateDone \<or> st = CommandStateFailed then insert ch (ct_closed t)
          else ct_closed t))) \<and>
     ct_commands t' = (case ct_commands t rid of None \<Rightarrow> ct_commands t | Some c \<Rightarrow>
       (ct_commands t)(rid \<mapsto>
          c\<lparr>tc_state := st, tc_output := out, tc_error := err, tc_updated_at := now\<rparr>)) \<and>
     (is_ok r \<longleftrightarrow> rid \<in> dom (ct_commands t))"
  by (auto simp: UpdateState_def close_chan_def Let_def insert_absorb split: option.splits)

lemma tracker_alive_UpdateState:
  assumes "tracker_inv t"
  shows "\<exists>r t'. UpdateState now rid st out err t = Some (r, t') \<and> tracker_inv t'"
proof -
  obtain r t' where u: "UpdateState now rid st out err t = Some (r, t')"
    "ct_ready t' = ct_ready t" "ct_next t' = ct_next t"
    "ct_closed t' = (case ct_commands t rid of None \<Rightarrow> ct_closed t | Some c \<Rightarrow>
       (case ct_ready t rid of None \<Rightarrow> ct_closed t | Some ch \<Rightarrow>
         (if st = CommandStateDone \<or> st = CommandStateFailed then insert ch (ct_closed t)
          else ct_closed t)))"
    "ct_commands t' = (case ct_commands t rid of None \<Rightarrow> ct_commands t | Some c \<Rightarrow>
       (ct_commands t)(rid \<mapsto>
          c\<lparr>tc_state := st, tc_output := out, tc_error := err, tc_updated_at := now\<rparr>))"
    using UpdateState_total [of now rid st out err t] by blast
  have closed: "ct_closed t' \<subseteq> ct_closed t \<union> ran (ct_ready t)"
    by (auto simp: u(4) ran_def split: option.splits if_splits)
  have "ch < ct_next t" if "ch \<in> ct_closed t'" for ch
    using closed that assms by (auto simp: tracker_inv_def ran_def)
  moreover have "dom (ct_commands t') = dom (ct_commands t)"
    by (auto simp: u(5) split: option.splits)
  moreover have "tc_request_id c = k" if "ct_commands t' k = Some c" for k c
    using that assms by (auto simp: u(5) tracker_inv_def split: option.splits if_splits)
  ultimately have "tracker_inv t'"
    using assms unfolding tracker_inv_def by (simp add: u(2,3))
  with u(1) show ?thesis by blast
qed

lemma tracker_step_alive: "tracker_alive x \<Longrightarrow> tracker_alive (tracker_step c x)"
proof (cases x)
  case (Some t)
  moreover assume "tracker_alive x"
  ultimately have "tracker_inv t" by (simp add: tracker_alive_def)
  then show ?thesis
  proof (cases c)
    case (CallUpdate now k st out err)
    with tracker_alive_UpdateState [OF \<open>tracker_inv t\<close>, of now k st out err] Some show ?thesis
      by (auto simp: tracker_alive_def)
  qed (auto simp: Some tracker_alive_def intro: inv_step)
qed (simp add: tracker_alive_def)

interpretation tracker: machine tracker_step "\<lambda>_ _. True" tracker_alive
  by unfold_locales (rule tracker_step_alive)

lemma calls_ok_True [simp]: "calls_ok (\<lambda>_ _. True) step es s"
  by (induction es arbitrary: s) auto

section \<open>What a waiter sees\<close>

text \<open>The updates of one request among a list of calls, in order.\<close>

fun updates_of :: "string \<Rightarrow> tracker_call list \<Rightarrow> (CommandState \<times> entries \<times> string) list" where
  "updates_of rid [] = []"
| "updates_of rid (CallUpdate now k st out err # es) =
     (if k = rid then [(st, out, err)] else []) @ updates_of rid es"
| "updates_of rid (e # es) = updates_of rid es"

fun keeps_request :: "string \<Rightarrow> tracker_call \<Rightarrow> bool" where
  "keeps_request rid (CallRegister now k aid ty) = (k \<noteq> rid)"
| "keeps_request rid (CallCleanup k) = (k \<noteq> rid)"
| "keeps_request rid (CallUpdate now k st out err) = True"

definition tc_report :: "TrackedCommand \<Rightarrow> CommandState \<times> entries \<times> string" where
  "tc_report c = (tc_state c, tc_output c, tc_error c)"

definition final_update :: "CommandState \<times> entries \<times> string \<Rightarrow> bool" where
  "final_update u \<longleftrightarrow> fst u = CommandStateDone \<or> fst u = CommandStateFailed"

lemma tracker_step_request:
  assumes inv: "tracker_inv t" and keep: "keeps_request rid e"
    and reg: "ct_ready t rid = Some ch" "ct_commands t rid = Some c"
    and step: "tracker_step e (Some t) = Some t'"
  shows "tracker_inv t' \<and> ct_ready t' rid = Some ch \<and>
    (\<exists>c'. ct_commands t' rid = Some c' \<and> tc_command_type c' = tc_command_type c \<and>
       tc_agent_id c' = tc_agent_id c \<and>
       tc_report c' = last (tc_report c # updates_of rid [e])) \<and>
    (ch \<in> ct_closed t' \<longleftrightarrow> ch \<in> ct_closed t \<or> (\<exists>u \<in> set (updates_of rid [e]). final_update u))"
proof -
  have alive: "tracker_inv t'"
    using tracker_step_alive [of "Some t" e] inv step by (simp add: tracker_alive_def)
  show ?thesis
  proof (cases e)
    case (CallUpdate now k st out err)
    from step CallUpdate obtain r where u: "UpdateState now k st out err t = Some (r, t')" by auto
    have other: "ct_ready t k \<noteq> Some ch" if "k \<noteq> rid"
      using inv reg that by (auto simp: tracker_inv_def)
    show ?thesis
      using UpdateState_total [of now k st out err t] u reg other alive
      by (cases "k = rid") (auto simp: CallUpdate tc_report_def final_update_def split: option.splits)
  next
    case (CallRegister now k aid ty)
    with step keep reg alive show ?thesis by (auto simp: Register_def tc_report_def)
  next
    case (CallCleanup k)
    with step keep reg alive show ?thesis by (auto simp: Cleanup_def tc_report_def)
  qed
qed

lemma updates_of_Cons: "updates_of rid (e # es) = updates_of rid [e] @ updates_of rid es"
  by (cases e) auto

lemma run_tracker_None [simp]: "run tracker_step es None = None"
  by (induction es) auto

lemma last_Cons_append: "last (x # (ys @ zs)) = last (last (x # ys) # zs)"
  by (cases "zs = []") auto

lemma run_tracker_request:
  assumes "tracker_inv t" and "\<forall>e \<in> set es. keeps_request rid e"
    and "ct_ready t rid = Some ch" "ct_commands t rid = Some c"
    and "run tracker_step es (Some t) = Some t'"
  shows "ct_ready t' rid = Some ch \<and>
    (\<exists>c'. ct_commands t' rid = Some c' \<and> tc_request_id c' = rid \<and>
       tc_command_type c' = tc_command_type c \<and>
       tc_agent_id c' = tc_agent_id c \<and> tc_report c' = last (tc_report c # updates_of rid es)) \<and>
    (ch \<in> ct_closed t' \<longleftrightarrow> ch \<in> ct_closed t \<or> (\<exists>u \<in> set (updates_of rid es). final_update u))"
  using assms
proof (induction es arbitrary: t c)
  case Nil
  then show ?case by (auto simp: tracker_inv_def)
next
  case (Cons e es)
  obtain t1 where t1: "tracker_step e (Some t) = Some t1"
    using Cons.prems(5) by (cases "tracker_step e (Some t)") auto
  have keep: "keeps_request rid e" using Cons.prems(2) by simp
  obtain c1 where c1: "tracker_inv t1" "ct_ready t1 rid = Some ch" "ct_commands t1 rid = Some c1"
    "tc_command_type c1 = tc_command_type c" "tc_agent_id c1 = tc_agent_id c"
    "tc_report c1 = last (tc_report c # updates_of rid [e])"
    "ch \<in> ct_closed t1 \<longleftrightarrow> ch \<in> ct_closed t \<or> (\<exists>u \<in> set (updates_of rid [e]). final_update u)"
    using tracker_step_request [OF Cons.prems(1) keep Cons.prems(3,4) t1] by blast
  from Cons.IH [OF c1(1) _ c1(2,3)] Cons.prems(2,5) t1
  have "ct_ready t' rid = Some ch \<and>
    (\<exists>c'. ct_commands t' rid = Some c' \<and> tc_request_id c' = rid \<and>
       tc_command_type c' = tc_command_type c1 \<and>
       tc_agent_id c' = tc_agent_id c1 \<and> tc_report c' = last (tc_report c1 # updates_of rid es)) \<and>
    (ch \<in> ct_closed t' \<longleftrightarrow> ch \<in> ct_closed t1 \<or> (\<exists>u \<in> set (updates_of rid es). final_update u))"
    by simp
  then show ?case
    unfolding updates_of_Cons [of rid e es] last_Cons_append c1(6) [symmetric] set_append bex_Un
    by (auto simp: c1(4,5,7))
qed

lemma tracker_inv_run:
  assumes "tracker_inv t" and "run tracker_step es (Some t) = Some t'"
  shows "tracker_inv t'"
proof -
  have "tracker_alive (run tracker_step es (Some t))"
    by (rule tracker.invar_run) (simp_all add: tracker_alive_def assms(1))
  then show ?thesis by (simp add: tracker_alive_def assms(2))
qed

lemma tracked_channel:
  "tracker_inv t \<Longrightarrow> ct_commands t rid = Some c \<Longrightarrow> \<exists>ch. ct_ready t rid = Some ch"
  unfolding tracker_inv_def by (metis domD domI)

section \<open>Properties\<close>

text \<open>
  Property C7: no sequence of tracker calls panics. From a new tracker every list of \<open>Register\<close>,
  \<open>UpdateState\<close> and \<open>Cleanup\<close> calls runs to a state in which each tracked command is filed under its
  own request id and has a channel of its own; a channel is never closed twice.
\<close>

theorem tracker_never_panics:
  "\<exists>t. run tracker_step es (Some NewCommandTracker) = Some t \<and> tracker_inv t"
proof -
  have "tracker_alive (run tracker_step es (Some NewCommandTracker))"
    by (rule tracker.invar_run) (simp_all add: tracker_alive_def inv_step)
  then show ?thesis by (auto simp: tracker_alive_def split: option.splits)
qed

text \<open>
  Property C8: what a waiter gets. If no other call removes or re-registers the request while
  \<open>WaitForResult\<close> blocks, the call returns the tracked command itself, without an error, in one of
  two ways. Either its channel was closed, by a final update (done or failed) that had arrived
  before or came meanwhile, and the command shows the last update. Or the waiter's context ended: the
  command was marked cancelled with the timeout message at some point of the other calls, and it
  shows that mark unless an update came after it, between \<open>UpdateState\<close> and \<open>Get\<close>, and then the last
  such update.
\<close>

theorem WaitForResult_outcome:
  assumes inv: "tracker_inv t" and keep: "\<forall>e \<in> set es. keeps_request rid e"
    and c: "ct_commands t rid = Some c" and wait: "WaitForResult rid es t r t'"
  shows "\<exists>c'. r = Ok c' \<and> tc_request_id c' = rid \<and> tc_command_type c' = tc_command_type c \<and>
    tc_agent_id c' = tc_agent_id c \<and>
    ((tc_report c' = last (tc_report c # updates_of rid es) \<and>
      (the (ct_ready t rid) \<in> ct_closed t \<or> (\<exists>u \<in> set (updates_of rid es). final_update u))) \<or>
     (\<exists>fs gs. es = fs @ gs \<and>
        tc_report c' = last ((CommandStateCancelled, [], timeout_message) # updates_of rid gs)))"
proof -
  obtain ch where ch: "ct_ready t rid = Some ch"
    using tracked_channel [OF inv c] by blast
  from wait show ?thesis
  proof (cases rule: WaitForResult.cases)
    case wait_untracked
    with ch show ?thesis by simp
  next
    case (wait_ready ch')
    with run_tracker_request [OF inv keep ch c, of t'] ch show ?thesis by (auto simp: Get_def)
  next
    case (wait_cancelled ch' fs t1 now r' t2 gs)
    have keeps: "\<forall>e \<in> set fs. keeps_request rid e" "\<forall>e \<in> set gs. keeps_request rid e"
      using keep wait_cancelled(1) by auto
    from run_tracker_request [OF inv keeps(1) ch c wait_cancelled(4)] obtain c1 where
      c1: "ct_ready t1 rid = Some ch" "ct_commands t1 rid = Some c1" "tc_request_id c1 = rid"
      "tc_command_type c1 = tc_command_type c" "tc_agent_id c1 = tc_agent_id c" by auto
    define c2 where "c2 = c1\<lparr>tc_state := CommandStateCancelled, tc_output := [],
      tc_error := timeout_message, tc_updated_at := now\<rparr>"
    have t1: "tracker_inv t1" by (rule tracker_inv_run [OF inv wait_cancelled(4)])
    have t2: "tracker_inv t2" "ct_ready t2 rid = Some ch" "ct_commands t2 rid = Some c2"
      using tracker_alive_UpdateState [OF t1, of now rid CommandStateCancelled "[]" timeout_message]
        UpdateState_total [of now rid CommandStateCancelled "[]" timeout_message t1]
        wait_cancelled(5) c1 by (auto simp: c2_def)
    from run_tracker_request [OF t2(1) keeps(2) t2(2,3) wait_cancelled(6)] obtain c' where
      c': "ct_commands t' rid = Some c'" "tc_request_id c' = rid"
      "tc_command_type c' = tc_command_type c2" "tc_agent_id c' = tc_agent_id c2"
      "tc_report c' = last (tc_report c2 # updates_of rid gs)" by auto
    have "tc_report c2 = (CommandStateCancelled, [], timeout_message)"
      by (simp add: c2_def tc_report_def)
    with c' c1 wait_cancelled(1,2) show ?thesis by (auto simp: Get_def c2_def)
  qed
qed

theorem WaitForResult_outcome_witness:
  "\<exists>c'. WaitForResult ''q'' [CallUpdate 2 ''q'' CommandStateDone [] []]
      (Register 1 ''q'' ''a'' ''promote_release'' NewCommandTracker) (Ok c')
      (the (tracker_step (CallUpdate 2 ''q'' CommandStateDone [] [])
         (Some (Register 1 ''q'' ''a'' ''promote_release'' NewCommandTracker)))) \<and>
    tc_command_type c' = ''promote_release''"
proof -
  let ?e = "CallUpdate 2 ''q'' CommandStateDone [] []"
  let ?t = "Register 1 ''q'' ''a'' ''promote_release'' NewCommandTracker"
  let ?t' = "the (tracker_step ?e (Some ?t))"
  have w: "WaitForResult ''q'' [?e] ?t (Get ''q'' ?t') ?t'"
    by (rule wait_ready [of _ _ 0])
      (simp_all add: Register_def NewCommandTracker_def UpdateState_def close_chan_def Let_def)
  have "tracker_inv ?t" by (intro inv_step)
  moreover have "\<exists>c. ct_commands ?t ''q'' = Some c \<and> tc_command_type c = ''promote_release''"
    by (simp add: Register_def)
  ultimately obtain c' where "Get ''q'' ?t' = Ok c'" "tc_command_type c' = ''promote_release''"
    using WaitForResult_outcome [OF _ _ _ w] by fastforce
  with w show ?thesis by auto
qed

text \<open>
  A wait that times out is not an error. For every tracked request the wait can end by
  its context, and then \<open>WaitForResult\<close> returns the command, in state cancelled, with a nil error.
\<close>

theorem wait_timeout_is_not_an_error:
  assumes "tracker_inv t" and "rid \<in> dom (ct_commands t)"
  shows "\<exists>c t'. WaitForResult rid [] t (Ok c) t' \<and> tc_state c = CommandStateCancelled"
proof -
  obtain c ch where c: "ct_commands t rid = Some c" "ct_ready t rid = Some ch"
    using assms tracked_channel by blast
  obtain r t' where u: "UpdateState 0 rid CommandStateCancelled [] timeout_message t = Some (r, t')"
    "ct_commands t' rid = Some (c\<lparr>tc_state := CommandStateCancelled,
       tc_output := [], tc_error := timeout_message, tc_updated_at := 0\<rparr>)"
    using UpdateState_total [of 0 rid CommandStateCancelled "[]" timeout_message t] c by auto
  have "WaitForResult rid [] t (Get rid t') t'"
    using wait_cancelled [OF c(2) _ u(1), of "[]" "[]" t'] by simp
  then show ?thesis by (auto simp: Get_def u(2))
qed

theorem wait_timeout_is_not_an_error_witness:
  "\<exists>c t'. WaitForResult ''q'' [] (Register 1 ''q'' ''a'' ''run_health_gate'' NewCommandTracker) (Ok c) t' \<and>
     tc_state c = CommandStateCancelled"
  by (rule wait_timeout_is_not_an_error) (intro inv_step, simp add: Register_def)

text \<open>
  When \<open>DispatchCommand\<close> succeeds, the agent was connected and its connection accepted
  an envelope that carries the command's type, payload, project and correlation id and the request
  id of the result; and the tracker has a pending command of that id with an open channel, so the
  result can be waited for.
\<close>

theorem DispatchCommand_success:
  assumes inv: "tracker_inv t"
    and ok: "DispatchCommand now rid connected clients aid cmd t = (Ok res, t')"
  shows "connected aid \<and>
    (\<exists>write env. clients aid = Some write \<and> write env = None \<and>
       env_type env = cmd_type cmd \<and> env_payload env = cmd_payload cmd \<and>
       env_project_id env = cmd_project_id cmd \<and> env_correlation_id env = cmd_correlation_id cmd \<and>
       env_request_id env = cr_request_id res \<and> env_agent_id env = aid) \<and>
    tracker_inv t' \<and>
    (\<exists>c ch. ct_commands t' (cr_request_id res) = Some c \<and> tc_state c = CommandStatePending \<and>
       tc_agent_id c = aid \<and> tc_command_type c = cmd_type cmd \<and>
       ct_ready t' (cr_request_id res) = Some ch \<and> ch \<notin> ct_closed t')"
proof -
  define cmd1 where "cmd1 = (if cmd_request_id cmd = [] then cmd\<lparr>cmd_request_id := rid\<rparr> else cmd)"
  define cmd2 where
    "cmd2 = (if cmd_occurred_at cmd1 = None then cmd1\<lparr>cmd_occurred_at := Some now\<rparr> else cmd1)"
  let ?env = "NewCommandEnvelope now (cmd_type cmd2) (cmd_request_id cmd2)
    (cmd_correlation_id cmd2) aid (cmd_project_id cmd2) (cmd_source cmd2) (cmd_payload cmd2)"
  have same: "cmd_type cmd2 = cmd_type cmd" "cmd_payload cmd2 = cmd_payload cmd"
    "cmd_project_id cmd2 = cmd_project_id cmd" "cmd_correlation_id cmd2 = cmd_correlation_id cmd"
    by (simp_all add: cmd1_def cmd2_def)
  obtain send where d: "connected aid" "clients aid = Some send" "send ?env = None"
    "t' = Register now (cmd_request_id cmd2) aid (cmd_type cmd2) t"
    "cr_request_id res = cmd_request_id cmd2"
    using ok unfolding DispatchCommand_def Let_def cmd1_def [symmetric] cmd2_def [symmetric]
    by (auto split: if_splits option.splits)
  have "tracker_inv t'" unfolding d(4) using inv by (rule inv_step)
  moreover have "ct_next t \<notin> ct_closed t" using inv by (auto simp: tracker_inv_def)
  moreover have "\<exists>write env. clients aid = Some write \<and> write env = None \<and>
       env_type env = cmd_type cmd \<and> env_payload env = cmd_payload cmd \<and>
       env_project_id env = cmd_project_id cmd \<and> env_correlation_id env = cmd_correlation_id cmd \<and>
       env_request_id env = cr_request_id res \<and> env_agent_id env = aid"
    using d(2,3) by (intro exI [of _ send] exI [of _ ?env]) (simp add: NewCommandEnvelope_def d(5) same)
  ultimately show ?thesis
    using d(1) by (simp add: d(4,5) Register_def same)
qed

definition demo_command :: AgentCommand where
  "demo_command = \<lparr>cmd_type = ''render_sidecars'', cmd_request_id = [], cmd_correlation_id = ''c'',
     cmd_agent_id = [], cmd_project_id = ''p'', cmd_source = ''backend'', cmd_occurred_at = None,
     cmd_payload = None\<rparr>"

theorem DispatchCommand_success_witness:
  "tracker_inv (snd (DispatchCommand 1 ''req_1'' (\<lambda>a. a = ''a'') [''a'' \<mapsto> (\<lambda>env. None)] ''a''
     demo_command NewCommandTracker))"
proof -
  let ?d = "DispatchCommand 1 ''req_1'' (\<lambda>a. a = ''a'') [''a'' \<mapsto> (\<lambda>env. None)] ''a'' demo_command
    NewCommandTracker"
  have "\<exists>res. ?d = (Ok res, snd ?d)"
    by (simp add: DispatchCommand_def Let_def demo_command_def)
  then show ?thesis
    using DispatchCommand_success [OF tracker_inv_new] by blast
qed

end
