(* ===== verification/Store.thy ===== *)
theory Store
  imports Prog CommandTracker
begin

text \<open>
  The tables the deployment and rollout services work on (\<open>backend/internal/models\<close>) and the
  repository calls they make (\<open>backend/internal/repository\<close>).
  \<^item> A table is the list of its rows. \<open>First\<close> on a primary key is the row with that key; ordered
    queries sort, and rows with equal keys keep the table's order (SQL leaves it open).
  \<^item> A text column that holds a JSON document is a \<open>json_text\<close>: what \<open>json.Unmarshal\<close> makes of it.
    Marshalling a record and reading it back gives the record.
  \<^item> Every repository call may fail: the list \<open>w_faults\<close> says of each call in turn whether the
    database returns an error, in which case nothing is changed.
  \<^item> \<open>time.Now\<close> and \<open>utils.NewPrefixedID\<close> read the streams \<open>w_clock\<close> and \<open>w_fresh\<close>.
\<close>

section \<open>Documents\<close>

datatype 'a json_text = JsonBlank | JsonBraces | JsonDoc 'a | JsonBad

fun is_blank :: "'a json_text \<Rightarrow> bool" where
  "is_blank JsonBlank = True"
| "is_blank x = False"

record DetectedPort =
  dpt_port :: int
  dpt_protocol :: string
  dpt_name :: string
  dpt_exposed :: bool

text \<open>\<open>BlueprintServiceContractRecord\<close>; the fields no modelled code reads are the one value \<open>sv_rest\<close>.\<close>

record ServiceContract =
  sv_name :: string
  sv_path :: string
  sv_kind :: string
  sv_public :: bool
  sv_runtime_profile :: string
  sv_placement_mode :: string
  sv_placement_node_id :: string
  sv_start_hint :: string
  sv_image_ref :: string
  sv_image_digest :: string
  sv_detected_ports :: "DetectedPort list"
  sv_target_port :: int
  sv_service_port :: int
  sv_replicas :: int
  sv_env_bundle :: "string \<rightharpoonup> string"
  sv_pvc_spec :: "entries option"
  sv_deploy_strategy :: "entries option"
  sv_healthcheck :: "entries option"
  sv_rest :: any

record K3sServiceSpec =
  ks_name :: string
  ks_kind :: string
  ks_namespace :: string
  ks_path :: string
  ks_public :: bool
  ks_placement_mode :: string
  ks_placement_node_id :: string
  ks_runtime_profile :: string
  ks_start_hint :: string
  ks_image_ref :: string
  ks_image_digest :: string
  ks_target_port :: int
  ks_service_port :: int
  ks_replicas :: int
  ks_healthcheck :: "entries option"
  ks_detected_ports :: "DetectedPort list"
  ks_env_bundle :: "string \<rightharpoonup> string"
  ks_pvc_spec :: "entries option"
  ks_deploy_strategy :: "entries option"

record DependencyBinding =
  db_service :: string
  db_alias :: string
  db_target_service :: string
  db_protocol :: string
  db_local_endpoint :: string

record InternalBinding =
  ib_service_name :: string
  ib_alias :: string
  ib_target_service :: string
  ib_host :: string
  ib_port :: int
  ib_protocol :: string
  ib_url :: string
  ib_connection_string :: string

record Route =
  rt_path :: string
  rt_service :: string
  rt_port :: int
  rt_websocket :: bool
  rt_strip_prefix :: bool
  rt_strip_prefix_mode :: string

record RoutingPolicy =
  rp_shared_domain :: string
  rp_routes :: "Route list"

record PublicDomain =
  pd_service_name :: string
  pd_primary_host :: string
  pd_fallback_host :: string
  pd_primary_url :: string
  pd_fallback_url :: string

record ManifestDocument =
  md_name :: string
  md_kind :: string
  md_path :: string
  md_content :: string

record ManifestBundle =
  mb_namespace :: string
  mb_combined_yaml :: string
  mb_rollback_yaml :: string
  mb_documents :: "ManifestDocument list"
  mb_generated_at :: time

record PlacementAssignment =
  pa_service_name :: string
  pa_target_id :: string
  pa_target_kind :: string
  pa_labels :: "string \<rightharpoonup> string"

record CompiledRevision =
  cp_revision_id :: string
  cp_project_id :: string
  cp_project_slug :: string
  cp_namespace :: string
  cp_blueprint_id :: string
  cp_deployment_binding_id :: string
  cp_commit_sha :: string
  cp_artifact_ref :: string
  cp_image_ref :: string
  cp_trigger_kind :: string
  cp_runtime_mode :: string
  cp_services :: "ServiceContract list"
  cp_service_specs :: "K3sServiceSpec list"
  cp_dependency_bindings :: "DependencyBinding list"
  cp_internal_bindings :: "InternalBinding list"
  cp_compatibility_policy :: any
  cp_magic_domain_policy :: any
  cp_scale_to_zero_policy :: any
  cp_routing_policy :: RoutingPolicy
  cp_manifest_bundle :: ManifestBundle
  cp_public_domains :: "PublicDomain list"
  cp_placement_assignments :: "PlacementAssignment list"

text \<open>The compiled contract of a blueprint, with the fields of its binding that are used.\<close>

record BlueprintContract =
  bc_project_id :: string
  bc_project_slug :: string
  bc_namespace :: string
  bc_runtime_mode :: string
  bc_binding_id :: string
  bc_binding_target_kind :: string
  bc_binding_target_id :: string
  bc_binding_placement_policy :: payload
  bc_services :: "ServiceContract list"
  bc_dependency_bindings :: "DependencyBinding list"
  bc_compatibility_policy :: any
  bc_magic_domain_policy :: any
  bc_scale_to_zero_policy :: any
  bc_routing_policy :: RoutingPolicy
  bc_commit_sha :: string
  bc_artifact_ref :: string
  bc_image_ref :: string

record Blueprint =
  bp_id :: string
  bp_project_id :: string
  bp_compiled :: "BlueprintContract json_text"

definition empty_bundle :: ManifestBundle where
  "empty_bundle = \<lparr>mb_namespace = [], mb_combined_yaml = [], mb_rollback_yaml = [],
     mb_documents = [], mb_generated_at = zero_time\<rparr>"

definition zero_compiled :: CompiledRevision where
  "zero_compiled = \<lparr>cp_revision_id = [], cp_project_id = [], cp_project_slug = [],
     cp_namespace = [], cp_blueprint_id = [], cp_deployment_binding_id = [], cp_commit_sha = [],
     cp_artifact_ref = [], cp_image_ref = [], cp_trigger_kind = [], cp_runtime_mode = [],
     cp_services = [], cp_service_specs = [], cp_dependency_bindings = [],
     cp_internal_bindings = [], cp_compatibility_policy = AnyNil, cp_magic_domain_policy = AnyNil,
     cp_scale_to_zero_policy = AnyNil,
     cp_routing_policy = \<lparr>rp_shared_domain = [], rp_routes = []\<rparr>,
     cp_manifest_bundle = empty_bundle, cp_public_domains = [], cp_placement_assignments = []\<rparr>"

text \<open>\<open>parseCompiledRevision\<close>: \<open>json.Unmarshal\<close> of an empty text fails, of \<open>{}\<close> leaves the zero value.\<close>

definition parseCompiledRevision :: "CompiledRevision json_text \<Rightarrow> CompiledRevision res" where
  "parseCompiledRevision raw =
     (case raw of
        JsonDoc c \<Rightarrow> Ok c
      | JsonBraces \<Rightarrow> Ok zero_compiled
      | JsonBlank \<Rightarrow> Fail (Errorf ''unexpected end of JSON input'')
      | JsonBad \<Rightarrow> Fail (Errorf ''invalid character''))"

definition zero_contract :: BlueprintContract where
  "zero_contract = \<lparr>bc_project_id = [], bc_project_slug = [], bc_namespace = [], bc_runtime_mode = [], bc_binding_id = [],
     bc_binding_target_kind = [], bc_binding_target_id = [], bc_binding_placement_policy = Map.empty, bc_services = [],
     bc_dependency_bindings = [], bc_compatibility_policy = AnyNil, bc_magic_domain_policy = AnyNil,
     bc_scale_to_zero_policy = AnyNil, bc_routing_policy = \<lparr>rp_shared_domain = [], rp_routes = []\<rparr>,
     bc_commit_sha = [], bc_artifact_ref = [], bc_image_ref = []\<rparr>"

text \<open>The compiled contract of \<open>ToBlueprintRecord\<close>, whose other fields are those of the row.\<close>

definition ToBlueprintRecord :: "BlueprintContract json_text \<Rightarrow> BlueprintContract res" where
  "ToBlueprintRecord raw =
     (case raw of
        JsonDoc c \<Rightarrow> Ok c
      | JsonBraces \<Rightarrow> Ok zero_contract
      | JsonBlank \<Rightarrow> Fail (Errorf ''unexpected end of JSON input'')
      | JsonBad \<Rightarrow> Fail (Errorf ''invalid character''))"

section \<open>Tables\<close>

record Project =
  pj_id :: string
  pj_user_id :: string
  pj_slug :: string
  pj_created_at :: time

record DesiredStateRevision =
  rv_id :: string
  rv_project_id :: string
  rv_blueprint_id :: string
  rv_binding_id :: string
  rv_namespace :: string
  rv_commit_sha :: string
  rv_trigger_kind :: string
  rv_status :: string
  rv_compiled :: "CompiledRevision json_text"
  rv_manifest :: "ManifestBundle json_text"
  rv_created_at :: time
  rv_updated_at :: time

record Deployment =
  de_id :: string
  de_project_id :: string
  de_revision_id :: string
  de_status :: string
  de_started_at :: "time option"
  de_completed_at :: "time option"
  de_created_at :: time
  de_updated_at :: time

record DeploymentBinding =
  bi_id :: string
  bi_project_id :: string
  bi_name :: string
  bi_target_ref :: string
  bi_target_environment :: string
  bi_runtime_mode :: string
  bi_target_kind :: string
  bi_target_id :: string
  bi_created_at :: time

record Instance =
  in_id :: string
  in_user_id :: string
  in_name :: string
  in_agent_id :: "string option"
  in_status :: string
  in_created_at :: time

record Cluster =
  cl_id :: string
  cl_user_id :: string
  cl_instance_id :: "string option"
  cl_status :: string

record RuntimeIncident =
  inc_id :: string
  inc_project_id :: string
  inc_deployment_id :: string
  inc_revision_id :: string
  inc_kind :: string
  inc_severity :: string
  inc_status :: string
  inc_summary :: string
  inc_details :: "payload option"
  inc_triggered_by :: string
  inc_resolved_at :: "time option"
  inc_created_at :: time
  inc_updated_at :: time

record tables =
  t_projects :: "Project list"
  t_blueprints :: "Blueprint list"
  t_revisions :: "DesiredStateRevision list"
  t_deployments :: "Deployment list"
  t_bindings :: "DeploymentBinding list"
  t_instances :: "Instance list"
  t_clusters :: "Cluster list"
  t_incidents :: "RuntimeIncident list"

text \<open>
  The world of the rollout services: the tables, the fault script, clock and id streams, the events
  broadcast so far, and for the rollout service the commands sent, what the agent side will answer
  to each of them (\<open>at_dispatch\<close> to the dispatch; while the service waits, other requests change the
  tables by \<open>at_meanwhile\<close>, and \<open>at_wait\<close> is what the wait returns), and the set of deployments under
  recovery.
\<close>

record agent_turn =
  at_dispatch :: "CommandResult res"
  at_meanwhile :: "tables \<Rightarrow> tables"
  at_wait :: "TrackedCommand option res"

record world =
  w_tables :: tables
  w_faults :: "bool list"
  w_clock :: "nat \<Rightarrow> time"
  w_tick :: nat
  w_fresh :: "nat \<Rightarrow> string"
  w_next_id :: nat
  w_events :: "(string \<times> payload) list"
  w_sent :: "(string \<times> AgentCommand) list"
  w_turns :: "agent_turn list"
  w_awaiting :: "agent_turn option"
  w_recovering :: "string set"

type_synonym 'a wprog = "(world, 'a) prog"

definition now_utc :: "time wprog" where
  "now_utc = (\<lambda>w. (Ok (w_clock w (w_tick w)), w\<lparr>w_tick := w_tick w + 1\<rparr>))"

definition NewPrefixedID :: "string \<Rightarrow> string wprog" where
  "NewPrefixedID p = (\<lambda>w. (Ok (p @ ''_'' @ w_fresh w (w_next_id w)), w\<lparr>w_next_id := w_next_id w + 1\<rparr>))"

definition BroadcastEvent :: "string \<Rightarrow> payload \<Rightarrow> unit wprog" where
  "BroadcastEvent ty p = (\<lambda>w. (Ok (), w\<lparr>w_events := w_events w @ [(ty, p)]\<rparr>))"

text \<open>One call of the database: it fails if the fault script says so.\<close>

definition db_call :: "(tables \<Rightarrow> 'a \<times> tables) \<Rightarrow> 'a wprog" where
  "db_call f = (\<lambda>w.
     (case w_faults w of
        True # fs \<Rightarrow> (Fail DbFailure, w\<lparr>w_faults := fs\<rparr>)
      | fs \<Rightarrow> (Ok (fst (f (w_tables w))), w\<lparr>w_faults := tl fs, w_tables := snd (f (w_tables w))\<rparr>)))"

definition db_read :: "(tables \<Rightarrow> 'a) \<Rightarrow> 'a wprog" where
  "db_read f = db_call (\<lambda>t. (f t, t))"

definition db_write :: "(tables \<Rightarrow> tables) \<Rightarrow> unit wprog" where
  "db_write f = db_call (\<lambda>t. ((), f t))"

definition update_where :: "('r \<Rightarrow> bool) \<Rightarrow> ('r \<Rightarrow> 'r) \<Rightarrow> 'r list \<Rightarrow> 'r list" where
  "update_where P f rows = map (\<lambda>r. if P r then f r else r) rows"

section \<open>Repository calls\<close>

definition find_revision :: "string \<Rightarrow> string \<Rightarrow> tables \<Rightarrow> DesiredStateRevision option" where
  "find_revision pid rid t = List.find (\<lambda>r. rv_project_id r = pid \<and> rv_id r = rid) (t_revisions t)"

definition find_deployment :: "string \<Rightarrow> string \<Rightarrow> tables \<Rightarrow> Deployment option" where
  "find_deployment pid did t = List.find (\<lambda>d. de_project_id d = pid \<and> de_id d = did) (t_deployments t)"

definition ProjectGetByID :: "string \<Rightarrow> Project option wprog" where
  "ProjectGetByID pid = db_read (\<lambda>t. List.find (\<lambda>p. pj_id p = pid) (t_projects t))"

definition ProjectGetByIDForUser :: "string \<Rightarrow> string \<Rightarrow> Project option wprog" where
  "ProjectGetByIDForUser uid pid =
     db_read (\<lambda>t. List.find (\<lambda>p. pj_user_id p = uid \<and> pj_id p = pid) (t_projects t))"

definition ProjectListByUser :: "string \<Rightarrow> Project list wprog" where
  "ProjectListByUser uid = db_read (\<lambda>t. sort_key (\<lambda>p. - pj_created_at p)
     (sort_key pj_slug (filter (\<lambda>p. pj_user_id p = uid) (t_projects t))))"

definition BlueprintGetByIDForProject :: "string \<Rightarrow> string \<Rightarrow> Blueprint option wprog" where
  "BlueprintGetByIDForProject pid bid =
     db_read (\<lambda>t. List.find (\<lambda>b. bp_project_id b = pid \<and> bp_id b = bid) (t_blueprints t))"

definition RevisionGetByIDForProject :: "string \<Rightarrow> string \<Rightarrow> DesiredStateRevision option wprog" where
  "RevisionGetByIDForProject pid rid = db_read (find_revision pid rid)"

definition RevisionListByProject :: "string \<Rightarrow> DesiredStateRevision list wprog" where
  "RevisionListByProject pid =
     db_read (\<lambda>t. sort_key rv_created_at (filter (\<lambda>r. rv_project_id r = pid) (t_revisions t)))"

definition RevisionCreate :: "DesiredStateRevision \<Rightarrow> unit wprog" where
  "RevisionCreate r = db_write (\<lambda>t. t\<lparr>t_revisions := t_revisions t @ [r]\<rparr>)"

definition RevisionUpdateStatus :: "string \<Rightarrow> string \<Rightarrow> time \<Rightarrow> unit wprog" where
  "RevisionUpdateStatus rid st at = db_write (\<lambda>t. t\<lparr>t_revisions :=
     update_where (\<lambda>r. rv_id r = rid) (\<lambda>r. r\<lparr>rv_status := st, rv_updated_at := at\<rparr>) (t_revisions t)\<rparr>)"

definition RevisionUpdateSnapshot ::
  "string \<Rightarrow> CompiledRevision json_text \<Rightarrow> ManifestBundle json_text \<Rightarrow> time \<Rightarrow> unit wprog" where
  "RevisionUpdateSnapshot rid c m at = db_write (\<lambda>t. t\<lparr>t_revisions :=
     update_where (\<lambda>r. rv_id r = rid)
       (\<lambda>r. r\<lparr>rv_compiled := (if is_blank c then rv_compiled r else c),
              rv_manifest := (if is_blank m then rv_manifest r else m), rv_updated_at := at\<rparr>)
       (t_revisions t)\<rparr>)"

definition DeploymentGetByIDForProject :: "string \<Rightarrow> string \<Rightarrow> Deployment option wprog" where
  "DeploymentGetByIDForProject pid did = db_read (find_deployment pid did)"

definition DeploymentListByProject :: "string \<Rightarrow> Deployment list wprog" where
  "DeploymentListByProject pid =
     db_read (\<lambda>t. sort_key (\<lambda>d. - de_created_at d) (filter (\<lambda>d. de_project_id d = pid) (t_deployments t)))"

definition DeploymentCreate :: "Deployment \<Rightarrow> unit wprog" where
  "DeploymentCreate d = db_write (\<lambda>t. t\<lparr>t_deployments := t_deployments t @ [d]\<rparr>)"

definition DeploymentUpdateStatus ::
  "string \<Rightarrow> string \<Rightarrow> time option \<Rightarrow> time option \<Rightarrow> time \<Rightarrow> unit wprog" where
  "DeploymentUpdateStatus did st started completed at = db_write (\<lambda>t. t\<lparr>t_deployments :=
     update_where (\<lambda>d. de_id d = did)
       (\<lambda>d. d\<lparr>de_status := st, de_updated_at := at,
              de_started_at := (case started of None \<Rightarrow> de_started_at d | Some x \<Rightarrow> Some x),
              de_completed_at := (case completed of None \<Rightarrow> de_completed_at d | Some x \<Rightarrow> Some x)\<rparr>)
       (t_deployments t)\<rparr>)"

definition BindingGetByIDForProject :: "string \<Rightarrow> string \<Rightarrow> DeploymentBinding option wprog" where
  "BindingGetByIDForProject pid bid =
     db_read (\<lambda>t. List.find (\<lambda>b. bi_project_id b = pid \<and> bi_id b = bid) (t_bindings t))"

definition BindingListByProject :: "string \<Rightarrow> DeploymentBinding list wprog" where
  "BindingListByProject pid =
     db_read (\<lambda>t. sort_key bi_created_at (filter (\<lambda>b. bi_project_id b = pid) (t_bindings t)))"

definition GetByTargetRefForProject :: "string \<Rightarrow> string \<Rightarrow> DeploymentBinding option wprog" where
  "GetByTargetRefForProject pid r =
     db_read (\<lambda>t. List.find (\<lambda>b. bi_project_id b = pid \<and> bi_target_ref b = r) (t_bindings t))"

definition InstanceGetByID :: "string \<Rightarrow> Instance option wprog" where
  "InstanceGetByID iid = db_read (\<lambda>t. List.find (\<lambda>i. in_id i = iid) (t_instances t))"

definition InstanceListByUser :: "string \<Rightarrow> Instance list wprog" where
  "InstanceListByUser uid = db_read (\<lambda>t. sort_key (\<lambda>i. - in_created_at i)
     (sort_key in_name (filter (\<lambda>i. in_user_id i = uid) (t_instances t))))"

definition ClusterGetByID :: "string \<Rightarrow> Cluster option wprog" where
  "ClusterGetByID cid = db_read (\<lambda>t. List.find (\<lambda>c. cl_id c = cid) (t_clusters t))"

definition IncidentCreate :: "RuntimeIncident \<Rightarrow> unit wprog" where
  "IncidentCreate i = db_write (\<lambda>t. t\<lparr>t_incidents := t_incidents t @ [i]\<rparr>)"

definition IncidentListByDeployment :: "string \<Rightarrow> string \<Rightarrow> RuntimeIncident list wprog" where
  "IncidentListByDeployment pid did =
     db_read (\<lambda>t. sort_key (\<lambda>i. - inc_created_at i)
       (filter (\<lambda>i. inc_project_id i = pid \<and> inc_deployment_id i = did) (t_incidents t)))"

section \<open>What a database call does\<close>

lemma db_readD:
  "db_read f w = (r, w') \<Longrightarrow>
   \<exists>fs. w' = w\<lparr>w_faults := fs\<rparr> \<and> (r = Fail DbFailure \<or> r = Ok (f (w_tables w)))"
  by (auto simp: db_read_def db_call_def split: list.splits bool.splits)

lemma db_writeD:
  "db_write f w = (r, w') \<Longrightarrow>
   \<exists>fs. (r = Fail DbFailure \<and> w' = w\<lparr>w_faults := fs\<rparr>) \<or>
        (r = Ok () \<and> w' = w\<lparr>w_faults := fs, w_tables := f (w_tables w)\<rparr>)"
  by (auto simp: db_write_def db_call_def split: list.splits bool.splits)

lemma db_read_tables [simp]: "w_tables (snd (db_read f w)) = w_tables w"
  by (auto simp: db_read_def db_call_def split: list.splits bool.splits)

lemma db_read_Ok: "db_read f w = (Inr x, w') \<Longrightarrow> x = f (w_tables w) \<and> w_tables w' = w_tables w"
  by (auto dest: db_readD)

lemma db_write_Ok: "db_write f w = (Inr x, w') \<Longrightarrow> w_tables w' = f (w_tables w)"
  by (auto dest: db_writeD)

lemma db_write_tables:
  "w_tables (snd (db_write f w)) = w_tables w \<or> w_tables (snd (db_write f w)) = f (w_tables w)"
  by (auto simp: db_write_def db_call_def split: list.splits bool.splits)

text \<open>With no faults ahead the calls succeed; this evaluates a program on a concrete world.\<close>

lemma db_read_no_fault [simp]: "w_faults w = [] \<Longrightarrow> db_read f w = (Ok (f (w_tables w)), w)"
  by (simp add: db_read_def db_call_def)

lemma db_write_no_fault [simp]:
  "w_faults w = [] \<Longrightarrow> db_write f w = (Ok (), w\<lparr>w_tables := f (w_tables w)\<rparr>)"
  by (simp add: db_write_def db_call_def)

lemma now_utc_run [simp]: "now_utc w = (Ok (w_clock w (w_tick w)), w\<lparr>w_tick := w_tick w + 1\<rparr>)"
  by (simp add: now_utc_def)

lemma NewPrefixedID_run [simp]:
  "NewPrefixedID p w = (Ok (p @ ''_'' @ w_fresh w (w_next_id w)), w\<lparr>w_next_id := w_next_id w + 1\<rparr>)"
  by (simp add: NewPrefixedID_def)

lemma BroadcastEvent_run [simp]:
  "BroadcastEvent ty p w = (Ok (), w\<lparr>w_events := w_events w @ [(ty, p)]\<rparr>)"
  by (simp add: BroadcastEvent_def)

lemmas repo_reads =
  ProjectGetByID_def ProjectGetByIDForUser_def ProjectListByUser_def BlueprintGetByIDForProject_def RevisionGetByIDForProject_def
  RevisionListByProject_def DeploymentGetByIDForProject_def DeploymentListByProject_def
  BindingGetByIDForProject_def BindingListByProject_def GetByTargetRefForProject_def InstanceGetByID_def
  InstanceListByUser_def ClusterGetByID_def IncidentListByDeployment_def

lemmas repo_writes =
  RevisionCreate_def RevisionUpdateStatus_def RevisionUpdateSnapshot_def DeploymentCreate_def
  DeploymentUpdateStatus_def IncidentCreate_def

lemma find_sym [simp]:
  "Some d = find_deployment pid did t \<longleftrightarrow> find_deployment pid did t = Some d"
  "Some r = find_revision pid rid t \<longleftrightarrow> find_revision pid rid t = Some r"
  by auto

lemma find_revisionD:
  "find_revision pid rid t = Some r \<Longrightarrow> r \<in> set (t_revisions t) \<and> rv_project_id r = pid \<and> rv_id r = rid"
  unfolding find_revision_def by (auto dest: find_SomeD)

lemma find_deploymentD:
  "find_deployment pid did t = Some d \<Longrightarrow>
   d \<in> set (t_deployments t) \<and> de_project_id d = pid \<and> de_id d = did"
  unfolding find_deployment_def by (auto dest: find_SomeD)

lemma find_update_where:
  assumes "\<And>r. P r \<Longrightarrow> Q (f r) = Q r"
  shows "List.find Q (update_where P f rows) = map_option (\<lambda>r. if P r then f r else r) (List.find Q rows)"
  using assms by (induction rows) (auto simp: update_where_def)

lemma find_deployment_update [simp]:
  "find_deployment pid did (t\<lparr>t_deployments :=
     update_where (\<lambda>d. de_id d = k) (\<lambda>d. d\<lparr>de_status := st, de_updated_at := at,
       de_started_at := s d, de_completed_at := c d\<rparr>) (t_deployments t)\<rparr>) =
   map_option (\<lambda>d. if de_id d = k then d\<lparr>de_status := st, de_updated_at := at,
       de_started_at := s d, de_completed_at := c d\<rparr> else d) (find_deployment pid did t)"
  unfolding find_deployment_def by (simp add: find_update_where)

lemma find_revision_update [simp]:
  "find_revision pid rid (t\<lparr>t_revisions :=
     update_where (\<lambda>r. rv_id r = k) (\<lambda>r. r\<lparr>rv_status := st, rv_updated_at := at\<rparr>) (t_revisions t)\<rparr>) =
   map_option (\<lambda>r. if rv_id r = k then r\<lparr>rv_status := st, rv_updated_at := at\<rparr> else r)
     (find_revision pid rid t)"
  unfolding find_revision_def by (simp add: find_update_where)

lemma find_unrelated [simp]:
  "find_deployment pid did (t\<lparr>t_revisions := x\<rparr>) = find_deployment pid did t"
  "find_revision pid rid (t\<lparr>t_deployments := y\<rparr>) = find_revision pid rid t"
  "find_deployment pid did (t\<lparr>t_incidents := z\<rparr>) = find_deployment pid did t"
  "find_revision pid rid (t\<lparr>t_incidents := z\<rparr>) = find_revision pid rid t"
  by (simp_all add: find_deployment_def find_revision_def)

end
