(* ===== verification/RevisionContract.thy ===== *)
theory RevisionContract
  imports Store
begin

text \<open>
  How \<open>backend/internal/service/deployment_service.go\<close> builds the contract of a revision from a
  blueprint and how it reads a stored revision back: service specs, internal bindings with their
  connection strings, placement, and the manifest snapshot.
\<close>

section \<open>Helpers\<close>

definition firstNonEmptyCompiledValue :: "string list \<Rightarrow> string" where
  "firstNonEmptyCompiledValue vs = first_non_empty vs"

fun firstPositive :: "int list \<Rightarrow> int" where
  "firstPositive [] = 0"
| "firstPositive (v # vs) = (if 0 < v then v else firstPositive vs)"

fun detectPrimaryServicePort :: "DetectedPort list \<Rightarrow> int" where
  "detectPrimaryServicePort [] = 0"
| "detectPrimaryServicePort (p # ps) =
     (if 0 < dpt_port p then dpt_port p else detectPrimaryServicePort ps)"

text \<open>A copy of a map is \<open>nil\<close> when the map is empty.\<close>

definition cloneAnyMap :: "entries option \<Rightarrow> entries option" where
  "cloneAnyMap m = (case m of Some (e # es) \<Rightarrow> Some (e # es) | _ \<Rightarrow> None)"

definition env_get :: "(string \<rightharpoonup> string) \<Rightarrow> string \<Rightarrow> string" where
  "env_get env k = map_get [] env k"

definition toStringMap :: "payload option \<Rightarrow> (string \<rightharpoonup> string)" where
  "toStringMap v = (case v of None \<Rightarrow> Map.empty | Some m \<Rightarrow> (\<lambda>k. any_str (m k)))"

definition postgresConnectionString :: "string \<Rightarrow> int \<Rightarrow> (string \<rightharpoonup> string) \<Rightarrow> string" where
  "postgresConnectionString host port env =
     (if trim_space host = [] \<or> port \<le> 0 then []
      else let user = firstNonEmptyCompiledValue
                 [env_get env ''POSTGRES_USER'', env_get env ''DB_USER'', ''postgres''];
               password = firstNonEmptyCompiledValue
                 [env_get env ''POSTGRES_PASSWORD'', env_get env ''DB_PASSWORD'', ''postgres''];
               dbName = firstNonEmptyCompiledValue
                 [env_get env ''POSTGRES_DB'', env_get env ''DB_NAME'', ''app'']
           in ''postgres://'' @ user @ '':'' @ password @ ''@'' @ host @ '':'' @ itoa port @ ''/'' @ dbName
                @ ''?sslmode=disable'')"

definition mysqlConnectionString :: "string \<Rightarrow> int \<Rightarrow> (string \<rightharpoonup> string) \<Rightarrow> string" where
  "mysqlConnectionString host port env =
     (if trim_space host = [] \<or> port \<le> 0 then []
      else let user = firstNonEmptyCompiledValue
                 [env_get env ''MYSQL_USER'', env_get env ''DB_USER'', ''root''];
               password = firstNonEmptyCompiledValue
                 [env_get env ''MYSQL_PASSWORD'', env_get env ''DB_PASSWORD'', ''root''];
               dbName = firstNonEmptyCompiledValue
                 [env_get env ''MYSQL_DATABASE'', env_get env ''DB_NAME'', ''app'']
           in ''mysql://'' @ user @ '':'' @ password @ ''@tcp('' @ host @ '':'' @ itoa port @ '')/'' @ dbName)"

definition mongodbConnectionString :: "string \<Rightarrow> int \<Rightarrow> (string \<rightharpoonup> string) \<Rightarrow> string" where
  "mongodbConnectionString host port env =
     (if trim_space host = [] \<or> port \<le> 0 then []
      else let dbName = firstNonEmptyCompiledValue
                 [env_get env ''MONGO_INITDB_DATABASE'', env_get env ''DB_NAME'', ''app'']
           in ''mongodb://'' @ host @ '':'' @ itoa port @ ''/'' @ dbName)"

section \<open>Building the contract of a revision\<close>

definition servicePlacementModeSharedCluster :: string where
  "servicePlacementModeSharedCluster = ''shared_cluster''"
definition servicePlacementModePinnedNode :: string where
  "servicePlacementModePinnedNode = ''pinned_node''"

definition buildK3sServiceSpecs :: "string \<Rightarrow> ServiceContract list \<Rightarrow> K3sServiceSpec list" where
  "buildK3sServiceSpecs namespace services = map (\<lambda>svc.
     \<lparr>ks_name = sv_name svc, ks_kind = firstNonEmptyCompiledValue [sv_kind svc, ''app''],
      ks_namespace = namespace, ks_path = sv_path svc, ks_public = sv_public svc,
      ks_placement_mode =
        firstNonEmptyCompiledValue [sv_placement_mode svc, servicePlacementModeSharedCluster],
      ks_placement_node_id = sv_placement_node_id svc, ks_runtime_profile = sv_runtime_profile svc,
      ks_start_hint = sv_start_hint svc, ks_image_ref = sv_image_ref svc,
      ks_image_digest = sv_image_digest svc, ks_target_port = sv_target_port svc,
      ks_service_port = sv_service_port svc, ks_replicas = sv_replicas svc,
      ks_healthcheck = cloneAnyMap (sv_healthcheck svc), ks_detected_ports = sv_detected_ports svc,
      ks_env_bundle = sv_env_bundle svc, ks_pvc_spec = cloneAnyMap (sv_pvc_spec svc),
      ks_deploy_strategy = cloneAnyMap (sv_deploy_strategy svc)\<rparr>) services"

text \<open>The index of services by name: a later service of the same name replaces an earlier one.\<close>

definition service_index :: "ServiceContract list \<Rightarrow> (string \<rightharpoonup> ServiceContract)" where
  "service_index services = foldl (\<lambda>m s. m(sv_name s \<mapsto> s)) Map.empty services"

definition binding_target :: "DependencyBinding \<Rightarrow> string" where
  "binding_target item =
     (if trim_space (db_target_service item) = [] then trim_space (db_alias item)
      else trim_space (db_target_service item))"

definition buildInternalBinding :: "(string \<rightharpoonup> ServiceContract) \<Rightarrow> DependencyBinding \<Rightarrow> InternalBinding" where
  "buildInternalBinding serviceIndex item =
     (let targetName = binding_target item;
          port = (case serviceIndex targetName of
            None \<Rightarrow> 0
          | Some s \<Rightarrow> firstPositive
              [sv_service_port s, sv_target_port s, detectPrimaryServicePort (sv_detected_ports s)]);
          url = (if targetName \<noteq> [] \<and> 0 < port \<and> trim_space (db_protocol item) \<noteq> []
                 then to_lower (trim_space (db_protocol item)) @ ''://'' @ targetName @ '':'' @ itoa port
                 else []);
          connectionString = (case serviceIndex targetName of
            None \<Rightarrow> []
          | Some s \<Rightarrow>
              (let kind = to_lower (trim_space (sv_kind s))
               in if kind = ''postgres'' \<or> kind = ''internal-db''
                  then postgresConnectionString targetName port (sv_env_bundle s)
                  else if kind = ''mysql'' then mysqlConnectionString targetName port (sv_env_bundle s)
                  else if kind = ''mongodb'' then mongodbConnectionString targetName port (sv_env_bundle s)
                  else []))
      in \<lparr>ib_service_name = db_service item, ib_alias = db_alias item,
          ib_target_service = targetName, ib_host = targetName, ib_port = port,
          ib_protocol = db_protocol item, ib_url = url, ib_connection_string = connectionString\<rparr>)"

definition buildInternalBindings ::
  "ServiceContract list \<Rightarrow> DependencyBinding list \<Rightarrow> InternalBinding list" where
  "buildInternalBindings services bindings = map (buildInternalBinding (service_index services)) bindings"

definition copyDependencyBindings :: "DependencyBinding list \<Rightarrow> DependencyBinding list" where
  "copyDependencyBindings items = map (\<lambda>i.
     \<lparr>db_service = db_service i, db_alias = db_alias i, db_target_service = db_target_service i,
      db_protocol = db_protocol i, db_local_endpoint = db_local_endpoint i\<rparr>) items"

definition buildPlacementAssignments ::
  "ServiceContract list \<Rightarrow> string \<Rightarrow> string \<Rightarrow> payload \<Rightarrow> PlacementAssignment list" where
  "buildPlacementAssignments services kind tid policy =
     (let labels = toStringMap (case policy ''labels'' of Some (AnyMap m) \<Rightarrow> Some m | _ \<Rightarrow> None)
      in map (\<lambda>svc.
           (let pinned = trim_space (sv_placement_mode svc) = servicePlacementModePinnedNode \<and>
                  trim_space (sv_placement_node_id svc) \<noteq> []
            in \<lparr>pa_service_name = sv_name svc,
                pa_target_id = (if pinned then trim_space (sv_placement_node_id svc) else tid),
                pa_target_kind = (if pinned then ''instance'' else kind),
                pa_labels = labels\<rparr>)) services)"

definition buildDesiredStateRevisionCompiledRecord ::
  "string \<Rightarrow> string \<Rightarrow> BlueprintContract \<Rightarrow> string \<Rightarrow> string \<Rightarrow> CompiledRevision" where
  "buildDesiredStateRevisionCompiledRecord revisionID blueprintID c projectID triggerKind =
     \<lparr>cp_revision_id = revisionID, cp_project_id = projectID, cp_project_slug = bc_project_slug c,
      cp_namespace = bc_namespace c, cp_blueprint_id = blueprintID,
      cp_deployment_binding_id = bc_binding_id c, cp_commit_sha = bc_commit_sha c,
      cp_artifact_ref = bc_artifact_ref c, cp_image_ref = bc_image_ref c,
      cp_trigger_kind = triggerKind, cp_runtime_mode = bc_runtime_mode c,
      cp_services = bc_services c,
      cp_service_specs = buildK3sServiceSpecs (bc_namespace c) (bc_services c),
      cp_dependency_bindings = copyDependencyBindings (bc_dependency_bindings c),
      cp_internal_bindings = buildInternalBindings (bc_services c) (bc_dependency_bindings c),
      cp_compatibility_policy = bc_compatibility_policy c,
      cp_magic_domain_policy = bc_magic_domain_policy c,
      cp_scale_to_zero_policy = bc_scale_to_zero_policy c,
      cp_routing_policy = bc_routing_policy c, cp_manifest_bundle = empty_bundle,
      cp_public_domains = [],
      cp_placement_assignments = buildPlacementAssignments (bc_services c) (bc_binding_target_kind c)
        (bc_binding_target_id c) (bc_binding_placement_policy c)\<rparr>"

section \<open>Reading a revision back\<close>

record DesiredStateRevisionRecord =
  rr_id :: string
  rr_project_id :: string
  rr_blueprint_id :: string
  rr_binding_id :: string
  rr_namespace :: string
  rr_commit_sha :: string
  rr_trigger_kind :: string
  rr_status :: string
  rr_compiled :: CompiledRevision
  rr_created_at :: time
  rr_updated_at :: time

definition resolveManifestBundleSnapshot :: "DesiredStateRevision \<Rightarrow> ManifestBundle res" where
  "resolveManifestBundleSnapshot item =
     (case rv_manifest item of
        JsonDoc m \<Rightarrow> Ok m
      | JsonBad \<Rightarrow> Fail (Errorf ''invalid character'')
      | _ \<Rightarrow>
          (if is_blank (rv_compiled item) then Ok empty_bundle
           else res_bind (parseCompiledRevision (rv_compiled item)) (\<lambda>c. Ok (cp_manifest_bundle c))))"

definition mergeManifestBundleSnapshot :: "ManifestBundle \<Rightarrow> ManifestBundle \<Rightarrow> ManifestBundle" where
  "mergeManifestBundleSnapshot primary fallback =
     \<lparr>mb_namespace =
        (if trim_space (mb_namespace primary) = [] then mb_namespace fallback else mb_namespace primary),
      mb_combined_yaml =
        (if trim_space (mb_combined_yaml primary) = [] then mb_combined_yaml fallback
         else mb_combined_yaml primary),
      mb_rollback_yaml =
        (if trim_space (mb_rollback_yaml primary) = [] then mb_rollback_yaml fallback
         else mb_rollback_yaml primary),
      mb_documents = (if mb_documents primary = [] then mb_documents fallback else mb_documents primary),
      mb_generated_at =
        (if is_zero (mb_generated_at primary) then mb_generated_at fallback
         else mb_generated_at primary)\<rparr>"

text \<open>
  The record of a revision: the compiled document with the columns of the row where the code reads
  those (\<open>rr_compiled\<close> holds the fields copied from the document, with the merged manifest).
\<close>

definition ToDesiredStateRevisionRecord :: "DesiredStateRevision \<Rightarrow> DesiredStateRevisionRecord res" where
  "ToDesiredStateRevisionRecord item =
     res_bind (parseCompiledRevision (rv_compiled item)) (\<lambda>c.
       (let c = (if cp_revision_id c = [] then c\<lparr>cp_revision_id := rv_id item\<rparr> else c);
            manifest = (case resolveManifestBundleSnapshot item of
               Inr resolved \<Rightarrow> mergeManifestBundleSnapshot (cp_manifest_bundle c) resolved
             | Inl e \<Rightarrow> cp_manifest_bundle c)
        in Ok \<lparr>rr_id = rv_id item, rr_project_id = rv_project_id item,
             rr_blueprint_id = rv_blueprint_id item, rr_binding_id = rv_binding_id item,
             rr_namespace = firstNonEmptyCompiledValue [rv_namespace item, cp_namespace c],
             rr_commit_sha = rv_commit_sha item, rr_trigger_kind = rv_trigger_kind item,
             rr_status = rv_status item, rr_compiled = c\<lparr>cp_manifest_bundle := manifest\<rparr>,
             rr_created_at = rv_created_at item, rr_updated_at = rv_updated_at item\<rparr>))"

section \<open>Facts on the contract\<close>

lemma service_index_map_of: "service_index services = map_of (rev (map (\<lambda>s. (sv_name s, s)) services))"
  unfolding service_index_def by (induction services rule: rev_induct) auto

lemma service_index_distinct:
  "distinct (map sv_name services) \<Longrightarrow> s \<in> set services \<Longrightarrow> service_index services (sv_name s) = Some s"
  unfolding service_index_map_of
  by (rule map_of_is_SomeI) (auto simp: rev_map [symmetric] comp_def)

lemma service_index_SomeD: "service_index services k = Some s \<Longrightarrow> s \<in> set services \<and> sv_name s = k"
  unfolding service_index_map_of by (auto dest: map_of_SomeD)

lemma firstPositive_nonneg: "0 \<le> firstPositive vs"
  by (induction vs) auto

lemma firstPositive_pos: "0 < firstPositive vs \<longleftrightarrow> (\<exists>v \<in> set vs. 0 < v)"
  by (induction vs) auto

lemma firstPositive_in: "0 < firstPositive vs \<Longrightarrow> firstPositive vs \<in> set vs"
  by (induction vs) auto

lemma detectPrimary_in:
  "0 < detectPrimaryServicePort ps \<Longrightarrow> detectPrimaryServicePort ps \<in> dpt_port ` set ps"
  by (induction ps) auto

lemma detectPrimary_pos: "0 < detectPrimaryServicePort ps \<longleftrightarrow> (\<exists>p \<in> set ps. 0 < dpt_port p)"
  by (induction ps) auto

definition database_kind :: "string \<Rightarrow> bool" where
  "database_kind kind \<longleftrightarrow>
     to_lower (trim_space kind) \<in> {''postgres'', ''internal-db'', ''mysql'', ''mongodb''}"

definition declared_ports :: "ServiceContract \<Rightarrow> int set" where
  "declared_ports s = {p. 0 < p \<and> (p = sv_service_port s \<or> p = sv_target_port s \<or>
     p \<in> dpt_port ` set (sv_detected_ports s))}"

lemma connection_string_Nil:
  "postgresConnectionString h p env = [] \<longleftrightarrow> trim_space h = [] \<or> p \<le> 0"
  "mysqlConnectionString h p env = [] \<longleftrightarrow> trim_space h = [] \<or> p \<le> 0"
  "mongodbConnectionString h p env = [] \<longleftrightarrow> trim_space h = [] \<or> p \<le> 0"
  by (simp_all add: postgresConnectionString_def mysqlConnectionString_def mongodbConnectionString_def
      Let_def)

section \<open>Properties\<close>

text \<open>
  Property C11: an internal binding reaches the service it names. If the target of a dependency is a
  service of the contract (service names being distinct) that declares a port, the binding has that
  service as its host and one of the service's own positive ports, its URL is protocol://host:port
  whenever a protocol is given, and it carries a connection string exactly when the target is a
  database.
\<close>

theorem internal_binding_reaches_target:
  assumes "distinct (map sv_name services)" and "s \<in> set services" and "item \<in> set deps"
    and target: "binding_target item = sv_name s" "sv_name s \<noteq> []" and port: "declared_ports s \<noteq> {}"
  shows "\<exists>b \<in> set (buildInternalBindings services deps).
    ib_service_name b = db_service item \<and> ib_alias b = db_alias item \<and> ib_host b = sv_name s \<and>
    ib_port b \<in> declared_ports s \<and>
    (trim_space (db_protocol item) \<noteq> [] \<longrightarrow>
       ib_url b = to_lower (trim_space (db_protocol item)) @ ''://'' @ sv_name s @ '':'' @ itoa (ib_port b)) \<and>
    (ib_connection_string b \<noteq> [] \<longleftrightarrow> database_kind (sv_kind s))"
proof -
  let ?b = "buildInternalBinding (service_index services) item"
  let ?ports = "[sv_service_port s, sv_target_port s, detectPrimaryServicePort (sv_detected_ports s)]"
  have s: "service_index services (sv_name s) = Some s"
    using assms(1,2) by (rule service_index_distinct)
  have pos: "0 < firstPositive ?ports"
    using port by (auto simp: firstPositive_pos declared_ports_def detectPrimary_pos)
  have decl: "firstPositive ?ports \<in> declared_ports s"
    using pos firstPositive_in [OF pos] detectPrimary_in [of "sv_detected_ports s"]
    by (auto simp: declared_ports_def)
  have name: "trim_space (sv_name s) \<noteq> []"
    using target by (metis binding_target_def trim_space_idem)
  have "ib_connection_string ?b \<noteq> [] \<longleftrightarrow> database_kind (sv_kind s)"
    using pos by (auto simp: buildInternalBinding_def Let_def target(1) s database_kind_def
        connection_string_Nil name)
  moreover have "ib_port ?b = firstPositive ?ports"
    by (simp add: buildInternalBinding_def Let_def target(1) s)
  moreover have "trim_space (db_protocol item) \<noteq> [] \<longrightarrow>
      ib_url ?b = to_lower (trim_space (db_protocol item)) @ ''://'' @ sv_name s @ '':'' @ itoa (ib_port ?b)"
    using pos target(2) by (simp add: buildInternalBinding_def Let_def target(1) s)
  moreover have "?b \<in> set (buildInternalBindings services deps)"
    using assms(3) by (simp add: buildInternalBindings_def)
  moreover have "ib_service_name ?b = db_service item" "ib_alias ?b = db_alias item" "ib_host ?b = sv_name s"
    by (simp_all add: buildInternalBinding_def Let_def target(1))
  ultimately show ?thesis
    using decl by (metis (no_types, lifting))
qed

definition demo_service :: ServiceContract where
  "demo_service = \<lparr>sv_name = ''pg'', sv_path = [], sv_kind = ''Postgres'', sv_public = False,
     sv_runtime_profile = [], sv_placement_mode = [], sv_placement_node_id = [], sv_start_hint = [],
     sv_image_ref = ''postgres:16'', sv_image_digest = [], sv_detected_ports = [], sv_target_port = 0,
     sv_service_port = 5432, sv_replicas = 1, sv_env_bundle = Map.empty, sv_pvc_spec = None,
     sv_deploy_strategy = None, sv_healthcheck = None, sv_rest = AnyNil\<rparr>"

definition demo_dependency :: DependencyBinding where
  "demo_dependency = \<lparr>db_service = ''web'', db_alias = ''pg'', db_target_service = [],
     db_protocol = ''tcp'', db_local_endpoint = []\<rparr>"

theorem internal_binding_reaches_target_witness:
  "\<exists>b \<in> set (buildInternalBindings [demo_service] [demo_dependency]).
     ib_host b = ''pg'' \<and> ib_connection_string b \<noteq> []"
proof -
  have "binding_target demo_dependency = sv_name demo_service" "sv_name demo_service \<noteq> []"
    by (simp_all add: binding_target_def demo_dependency_def demo_service_def trim_space_def
        trim_left_def trim_right_def is_space_def)
  moreover have "declared_ports demo_service \<noteq> {}"
    by (auto simp: declared_ports_def demo_service_def)
  moreover have "database_kind (sv_kind demo_service)"
    by code_simp
  ultimately show ?thesis
    using internal_binding_reaches_target [of "[demo_service]" demo_service demo_dependency "[demo_dependency]"]
    by (auto simp: demo_service_def)
qed

end
