(* ===== verification/Deployment.thy ===== *)
theory Deployment
  imports RevisionContract
begin

text \<open>
  The deployment service, \<open>backend/internal/service/deployment_service.go\<close>: creation of a revision
  with its deployment, the state machines of both, the operator actions, and the overview, timeline
  and incident summary of a deployment. \<open>resolveProjectForAccess\<close> is from
  \<open>init_contract_service.go\<close>. Public domains are the result of a parameter: the resolver looks
  up DNS names and probes TLS.
\<close>

section \<open>Statuses\<close>

definition RevisionStatusDraft :: string where "RevisionStatusDraft = ''draft''"
definition RevisionStatusQueued :: string where "RevisionStatusQueued = ''queued''"
definition RevisionStatusBuilding :: string where "RevisionStatusBuilding = ''building''"
definition RevisionStatusArtifactReady :: string where "RevisionStatusArtifactReady = ''artifact_ready''"
definition RevisionStatusPlanned :: string where "RevisionStatusPlanned = ''planned''"
definition RevisionStatusApplying :: string where "RevisionStatusApplying = ''applying''"
definition RevisionStatusPromoted :: string where "RevisionStatusPromoted = ''promoted''"
definition RevisionStatusFailed :: string where "RevisionStatusFailed = ''failed''"
definition RevisionStatusRolledBack :: string where "RevisionStatusRolledBack = ''rolled_back''"
definition RevisionStatusSuperseded :: string where "RevisionStatusSuperseded = ''superseded''"

definition DeploymentStatusQueued :: string where "DeploymentStatusQueued = ''queued''"
definition DeploymentStatusRunning :: string where "DeploymentStatusRunning = ''running''"
definition DeploymentStatusCandidateReady :: string where
  "DeploymentStatusCandidateReady = ''candidate_ready''"
definition DeploymentStatusPromoted :: string where "DeploymentStatusPromoted = ''promoted''"
definition DeploymentStatusFailed :: string where "DeploymentStatusFailed = ''failed''"
definition DeploymentStatusRolledBack :: string where "DeploymentStatusRolledBack = ''rolled_back''"
definition DeploymentStatusCanceled :: string where "DeploymentStatusCanceled = ''canceled''"

lemmas revision_status_defs =
  RevisionStatusDraft_def RevisionStatusQueued_def RevisionStatusBuilding_def
  RevisionStatusArtifactReady_def RevisionStatusPlanned_def RevisionStatusApplying_def
  RevisionStatusPromoted_def RevisionStatusFailed_def RevisionStatusRolledBack_def
  RevisionStatusSuperseded_def

lemmas deployment_status_defs =
  DeploymentStatusQueued_def DeploymentStatusRunning_def DeploymentStatusCandidateReady_def
  DeploymentStatusPromoted_def DeploymentStatusFailed_def DeploymentStatusRolledBack_def
  DeploymentStatusCanceled_def

definition revision_statuses :: "string list" where
  "revision_statuses =
     [RevisionStatusDraft, RevisionStatusQueued, RevisionStatusBuilding, RevisionStatusArtifactReady,
      RevisionStatusPlanned, RevisionStatusApplying, RevisionStatusPromoted, RevisionStatusFailed,
      RevisionStatusRolledBack, RevisionStatusSuperseded]"

definition deployment_statuses :: "string list" where
  "deployment_statuses =
     [DeploymentStatusQueued, DeploymentStatusRunning, DeploymentStatusCandidateReady,
      DeploymentStatusPromoted, DeploymentStatusFailed, DeploymentStatusRolledBack,
      DeploymentStatusCanceled]"

definition normalizeRevisionStatus :: "string \<Rightarrow> string res" where
  "normalizeRevisionStatus raw =
     (if trim_space raw \<in> set revision_statuses then Ok (trim_space raw)
      else Fail (Sentinel ErrInvalidInput))"

definition normalizeDeploymentStatus :: "string \<Rightarrow> string res" where
  "normalizeDeploymentStatus raw =
     (if trim_space raw \<in> set deployment_statuses then Ok (trim_space raw)
      else Fail (Sentinel ErrInvalidInput))"

definition canTransitionRevisionStatus :: "string \<Rightarrow> string \<Rightarrow> bool" where
  "canTransitionRevisionStatus current nxt =
     (if current = nxt then True
      else if current = RevisionStatusDraft then
        nxt = RevisionStatusQueued \<or> nxt = RevisionStatusBuilding \<or> nxt = RevisionStatusPlanned \<or>
        nxt = RevisionStatusFailed \<or> nxt = RevisionStatusSuperseded
      else if current = RevisionStatusQueued then
        nxt = RevisionStatusBuilding \<or> nxt = RevisionStatusPlanned \<or> nxt = RevisionStatusFailed \<or>
        nxt = RevisionStatusSuperseded
      else if current = RevisionStatusBuilding then
        nxt = RevisionStatusArtifactReady \<or> nxt = RevisionStatusFailed \<or> nxt = RevisionStatusSuperseded
      else if current = RevisionStatusArtifactReady then
        nxt = RevisionStatusPlanned \<or> nxt = RevisionStatusFailed \<or> nxt = RevisionStatusSuperseded
      else if current = RevisionStatusPlanned then
        nxt = RevisionStatusApplying \<or> nxt = RevisionStatusFailed \<or> nxt = RevisionStatusSuperseded
      else if current = RevisionStatusApplying then
        nxt = RevisionStatusPromoted \<or> nxt = RevisionStatusFailed \<or> nxt = RevisionStatusRolledBack
      else if current = RevisionStatusPromoted then
        nxt = RevisionStatusRolledBack \<or> nxt = RevisionStatusSuperseded
      else False)"

definition canTransitionDeploymentStatus :: "string \<Rightarrow> string \<Rightarrow> bool" where
  "canTransitionDeploymentStatus current nxt =
     (if current = nxt then True
      else if current = DeploymentStatusQueued then
        nxt = DeploymentStatusRunning \<or> nxt = DeploymentStatusFailed \<or> nxt = DeploymentStatusCanceled
      else if current = DeploymentStatusRunning then
        nxt = DeploymentStatusCandidateReady \<or> nxt = DeploymentStatusPromoted \<or>
        nxt = DeploymentStatusFailed \<or> nxt = DeploymentStatusRolledBack \<or>
        nxt = DeploymentStatusCanceled
      else if current = DeploymentStatusCandidateReady then
        nxt = DeploymentStatusPromoted \<or> nxt = DeploymentStatusFailed \<or>
        nxt = DeploymentStatusRolledBack \<or> nxt = DeploymentStatusCanceled
      else if current = DeploymentStatusPromoted then nxt = DeploymentStatusRolledBack
      else False)"

definition isTerminalDeploymentStatus :: "string \<Rightarrow> bool" where
  "isTerminalDeploymentStatus st \<longleftrightarrow>
     st \<in> {DeploymentStatusPromoted, DeploymentStatusFailed, DeploymentStatusRolledBack,
       DeploymentStatusCanceled}"

section \<open>Access and transitions\<close>

definition RoleAdmin :: string where "RoleAdmin = ''admin''"

definition resolveProjectForAccess :: "string \<Rightarrow> string \<Rightarrow> string \<Rightarrow> Project wprog" where
  "resolveProjectForAccess user role projectID =
     (let user = trim_space user; projectID = trim_space projectID
      in if user = [] \<or> projectID = [] then raise (Sentinel ErrInvalidInput)
         else if role = RoleAdmin then
           andThen (ProjectGetByID projectID) (\<lambda>p.
             case p of None \<Rightarrow> raise (Sentinel ErrProjectNotFound) | Some p \<Rightarrow> return p)
         else
           andThen (ProjectGetByIDForUser user projectID) (\<lambda>p.
             case p of
               Some p \<Rightarrow> return p
             | None \<Rightarrow>
                 andThen (ProjectGetByID projectID) (\<lambda>other.
                   case other of
                     None \<Rightarrow> raise (Sentinel ErrProjectNotFound)
                   | Some q \<Rightarrow> raise (Sentinel ErrProjectAccessDenied))))"

definition TransitionRevisionStatus ::
  "string \<Rightarrow> string \<Rightarrow> string \<Rightarrow> DesiredStateRevisionRecord wprog" where
  "TransitionRevisionStatus projectID revisionID nextStatus =
     (let projectID = trim_space projectID; revisionID = trim_space revisionID
      in if projectID = [] \<or> revisionID = [] then raise (Sentinel ErrInvalidInput)
         else andThen (from_res (normalizeRevisionStatus nextStatus)) (\<lambda>nxt.
           andThen (RevisionGetByIDForProject projectID revisionID) (\<lambda>found.
           case found of
             None \<Rightarrow> raise (Sentinel ErrRevisionNotFound)
           | Some revision \<Rightarrow>
               andThen (from_res (normalizeRevisionStatus (rv_status revision))) (\<lambda>current.
               if \<not> canTransitionRevisionStatus current nxt
               then raise (Wrapped (current @ '' -> '' @ nxt) (Sentinel ErrInvalidRevisionStateTransition))
               else andThen now_utc (\<lambda>now.
                 andThen (RevisionUpdateStatus (rv_id revision) nxt now) (\<lambda>_.
                 from_res (ToDesiredStateRevisionRecord
                   (revision\<lparr>rv_status := nxt, rv_updated_at := now\<rparr>))))))))"

definition started_after :: "Deployment \<Rightarrow> string \<Rightarrow> time \<Rightarrow> time option" where
  "started_after d st now =
     (if de_started_at d = None \<and> st \<noteq> DeploymentStatusQueued then Some now else de_started_at d)"

definition completed_after :: "Deployment \<Rightarrow> string \<Rightarrow> time \<Rightarrow> time option" where
  "completed_after d st now = (if isTerminalDeploymentStatus st then Some now else de_completed_at d)"

definition TransitionDeploymentStatus :: "string \<Rightarrow> string \<Rightarrow> string \<Rightarrow> Deployment wprog" where
  "TransitionDeploymentStatus projectID deploymentID nextStatus =
     (let projectID = trim_space projectID; deploymentID = trim_space deploymentID
      in if projectID = [] \<or> deploymentID = [] then raise (Sentinel ErrInvalidInput)
         else andThen (from_res (normalizeDeploymentStatus nextStatus)) (\<lambda>nxt.
           andThen (DeploymentGetByIDForProject projectID deploymentID) (\<lambda>found.
           case found of
             None \<Rightarrow> raise (Sentinel ErrDeploymentNotFound)
           | Some deployment \<Rightarrow>
               andThen (from_res (normalizeDeploymentStatus (de_status deployment))) (\<lambda>current.
               if \<not> canTransitionDeploymentStatus current nxt
               then raise (Wrapped (current @ '' -> '' @ nxt) (Sentinel ErrInvalidDeploymentStateTransition))
               else andThen now_utc (\<lambda>now.
                 let startedAt = started_after deployment nxt now;
                     completedAt = completed_after deployment nxt now
                 in andThen (DeploymentUpdateStatus (de_id deployment) nxt startedAt completedAt now) (\<lambda>_.
                    return (deployment\<lparr>de_status := nxt, de_started_at := startedAt,
                      de_completed_at := completedAt, de_updated_at := now\<rparr>)))))))"

section \<open>Creation\<close>

definition normalizeManualDeploymentTriggerKind :: "string \<Rightarrow> string res" where
  "normalizeManualDeploymentTriggerKind raw =
     (let triggerKind = trim_space raw
      in if triggerKind = [] then Ok ''manual''
         else if \<exists>c \<in> set triggerKind. c \<in> {CHR '' '', CHR 0x09, CHR 0x0D, CHR 0x0A}
         then Fail (Sentinel ErrInvalidInput) else Ok triggerKind)"

record CreateDeploymentCommand =
  cd_user :: string
  cd_role :: string
  cd_project_id :: string
  cd_blueprint_id :: string
  cd_trigger_kind :: string
  cd_source_ref :: string
  cd_service_ids :: "string list"

text \<open>
  The optional inventory compiler is a parameter: from the project, the trigger, the source and the
  selected services it makes the id, project id and contract of a blueprint. GORM fills the
  creation times of the rows it inserts.
\<close>

type_synonym blueprint_compiler =
  "Project \<Rightarrow> string \<Rightarrow> string \<Rightarrow> string list \<Rightarrow> (string \<times> string \<times> BlueprintContract) wprog"

definition load_blueprint ::
  "blueprint_compiler option \<Rightarrow> Project \<Rightarrow> CreateDeploymentCommand \<Rightarrow> string
   \<Rightarrow> (string \<times> string \<times> BlueprintContract) wprog" where
  "load_blueprint compiler project cmd triggerKind =
     (let blueprintID = trim_space (cd_blueprint_id cmd)
      in if blueprintID \<noteq> [] \<and> cd_service_ids cmd = [] then
           andThen (BlueprintGetByIDForProject (pj_id project) blueprintID) (\<lambda>found.
             case found of
               None \<Rightarrow> raise (Sentinel ErrBlueprintNotFound)
             | Some b \<Rightarrow> andThen (from_res (ToBlueprintRecord (bp_compiled b))) (\<lambda>c. return (bp_id b, bp_project_id b, c)))
         else case compiler of
             None \<Rightarrow> raise (Sentinel ErrInvalidInput)
           | Some compile \<Rightarrow>
               compile project triggerKind (trim_space (cd_source_ref cmd)) (cd_service_ids cmd))"

definition CreateDeployment ::
  "blueprint_compiler option \<Rightarrow> CreateDeploymentCommand
   \<Rightarrow> (DesiredStateRevisionRecord \<times> Deployment) wprog" where
  "CreateDeployment compiler cmd =
     andThen (resolveProjectForAccess (cd_user cmd) (cd_role cmd) (cd_project_id cmd)) (\<lambda>project.
     andThen (from_res (normalizeManualDeploymentTriggerKind (cd_trigger_kind cmd))) (\<lambda>triggerKind.
     andThen (load_blueprint compiler project cmd triggerKind) (\<lambda>(bid, bpid, contract).
     andThen (NewPrefixedID ''rev'') (\<lambda>revisionID.
     let compiled = buildDesiredStateRevisionCompiledRecord revisionID bid contract bpid triggerKind
     in andThen now_utc (\<lambda>t1.
        let revision = \<lparr>rv_id = revisionID, rv_project_id = pj_id project, rv_blueprint_id = bid,
              rv_binding_id = bc_binding_id contract, rv_namespace = cp_namespace compiled,
              rv_commit_sha = cp_commit_sha compiled, rv_trigger_kind = triggerKind,
              rv_status = RevisionStatusQueued, rv_compiled = JsonDoc compiled,
              rv_manifest = JsonBraces, rv_created_at = t1, rv_updated_at = t1\<rparr>
        in andThen (RevisionCreate revision) (\<lambda>_.
           andThen (NewPrefixedID ''dep'') (\<lambda>deploymentID.
           andThen now_utc (\<lambda>t2.
           let deployment = \<lparr>de_id = deploymentID, de_project_id = pj_id project,
                 de_revision_id = revisionID, de_status = DeploymentStatusQueued,
                 de_started_at = None, de_completed_at = None, de_created_at = t2,
                 de_updated_at = t2\<rparr>
           in andThen (DeploymentCreate deployment) (\<lambda>_.
              andThen (from_res (ToDesiredStateRevisionRecord revision)) (\<lambda>record.
              return (record, deployment)))))))))))"

section \<open>Overview, timeline and incidents\<close>

record PublicDomainResult =
  pr_urls :: "string list"
  pr_status :: string
  pr_reason :: string

record DeploymentOverview =
  ov_deployment :: Deployment
  ov_revision :: int
  ov_commit_sha :: string
  ov_artifact_ref :: string
  ov_image_ref :: string
  ov_trigger_kind :: string
  ov_build_state :: string
  ov_rollout_state :: string
  ov_promoted :: bool
  ov_triggered_by :: string
  ov_namespace :: string
  ov_runtime_mode :: string
  ov_services :: "ServiceContract list"
  ov_service_specs :: "K3sServiceSpec list"
  ov_placements :: "PlacementAssignment list"
  ov_public :: PublicDomainResult

definition buildDeploymentOverview ::
  "Deployment \<Rightarrow> DesiredStateRevisionRecord option \<Rightarrow> int \<Rightarrow> PublicDomainResult \<Rightarrow> DeploymentOverview" where
  "buildDeploymentOverview deployment rec revisionNumber publicDomain =
     (let rolloutState = (if trim_space (de_status deployment) = [] then DeploymentStatusQueued
            else trim_space (de_status deployment));
          buildState = (case rec of None \<Rightarrow> RevisionStatusQueued
            | Some r \<Rightarrow> if trim_space (rr_status r) \<noteq> [] then rr_status r else RevisionStatusQueued);
          triggerKind = (case rec of None \<Rightarrow> ''manual''
            | Some r \<Rightarrow> if trim_space (rr_trigger_kind r) \<noteq> [] then rr_trigger_kind r else ''manual'');
          runtimeMode = (case rec of None \<Rightarrow> ''standalone''
            | Some r \<Rightarrow> if trim_space (cp_runtime_mode (rr_compiled r)) \<noteq> []
                then cp_runtime_mode (rr_compiled r) else ''standalone'')
      in \<lparr>ov_deployment = deployment,
          ov_revision = (if revisionNumber \<le> 0 then 1 else revisionNumber),
          ov_commit_sha = (case rec of None \<Rightarrow> [] | Some r \<Rightarrow> rr_commit_sha r),
          ov_artifact_ref = (case rec of None \<Rightarrow> [] | Some r \<Rightarrow> cp_artifact_ref (rr_compiled r)),
          ov_image_ref = (case rec of None \<Rightarrow> [] | Some r \<Rightarrow> cp_image_ref (rr_compiled r)),
          ov_trigger_kind = triggerKind, ov_build_state = buildState,
          ov_rollout_state = rolloutState,
          ov_promoted = (rolloutState = DeploymentStatusPromoted \<or> buildState = RevisionStatusPromoted),
          ov_triggered_by = ''system'',
          ov_namespace = (case rec of None \<Rightarrow> [] | Some r \<Rightarrow> rr_namespace r),
          ov_runtime_mode = runtimeMode,
          ov_services = (case rec of None \<Rightarrow> [] | Some r \<Rightarrow> cp_services (rr_compiled r)),
          ov_service_specs = (case rec of None \<Rightarrow> [] | Some r \<Rightarrow> cp_service_specs (rr_compiled r)),
          ov_placements = (case rec of None \<Rightarrow> [] | Some r \<Rightarrow> cp_placement_assignments (rr_compiled r)),
          ov_public = publicDomain\<rparr>)"

record TimelineEvent =
  te_timestamp :: time
  te_state :: string
  te_label :: string
  te_description :: string

fun capitalize_word :: "string \<Rightarrow> string" where
  "capitalize_word [] = []"
| "capitalize_word (c # cs) = to_upper [c] @ to_lower cs"

definition humanizeStateLabel :: "string \<Rightarrow> string" where
  "humanizeStateLabel st =
     (if trim_space st = [] then ''Unknown''
      else join '' '' (map capitalize_word
        (split_on (CHR '' '') (replace_char (CHR ''_'') (CHR '' '') (trim_space st)))))"

text \<open>\<open>sort.Slice\<close> by time; events of the same time keep the order in which they were added.\<close>

definition buildDeploymentTimeline ::
  "DeploymentOverview \<Rightarrow> DesiredStateRevisionRecord \<Rightarrow> Deployment \<Rightarrow> TimelineEvent list" where
  "buildDeploymentTimeline overview record deployment = sort_key te_timestamp
     ([\<lparr>te_timestamp = de_created_at (ov_deployment overview), te_state = ''queued'',
        te_label = ''Deployment queued'',
        te_description = ''Deployment created and waiting for rollout.''\<rparr>]
      @ (let revisionState = trim_space (ov_build_state overview)
         in if revisionState \<noteq> [] then
              [\<lparr>te_timestamp = (if is_zero (rr_updated_at record)
                   then de_updated_at (ov_deployment overview) else rr_updated_at record),
                te_state = revisionState, te_label = humanizeStateLabel revisionState,
                te_description = ''Revision state updated.''\<rparr>] else [])
      @ (case de_started_at deployment of
           None \<Rightarrow> []
         | Some t \<Rightarrow> [\<lparr>te_timestamp = t, te_state = DeploymentStatusRunning, te_label = ''Running'',
             te_description = ''Deployment rollout started.''\<rparr>])
      @ (let rolloutState = trim_space (ov_rollout_state overview)
         in if rolloutState \<noteq> [] then
              [\<lparr>te_timestamp = de_updated_at (ov_deployment overview), te_state = rolloutState,
                te_label = humanizeStateLabel rolloutState,
                te_description = ''Rollout state updated.''\<rparr>] else [])
      @ (case de_completed_at deployment of
           None \<Rightarrow> []
         | Some t \<Rightarrow> [\<lparr>te_timestamp = t, te_state = trim_space (ov_rollout_state overview),
             te_label = ''Completed'', te_description = ''Deployment reached terminal state.''\<rparr>]))"

record FixAction =
  fx_id :: string
  fx_label :: string
  fx_href :: string
  fx_method :: string

record IncidentSummary =
  is_state :: string
  is_headline :: string
  is_reason :: string
  is_recommended :: string
  is_incident :: "RuntimeIncident option"
  is_action :: "FixAction option"

definition IncidentKindUnhealthyCandidate :: string where
  "IncidentKindUnhealthyCandidate = ''unhealthy_candidate''"
definition IncidentKindCrashLoop :: string where "IncidentKindCrashLoop = ''crash_loop''"
definition IncidentKindPromotionFailure :: string where
  "IncidentKindPromotionFailure = ''promotion_failure''"
definition IncidentKindRollbackFailure :: string where
  "IncidentKindRollbackFailure = ''rollback_failure''"
definition IncidentKindHealthGateTimeout :: string where
  "IncidentKindHealthGateTimeout = ''health_gate_timeout''"
definition IncidentSeverityCritical :: string where "IncidentSeverityCritical = ''critical''"
definition IncidentSeverityWarning :: string where "IncidentSeverityWarning = ''warning''"
definition IncidentSeverityInfo :: string where "IncidentSeverityInfo = ''info''"
definition IncidentStatusOpen :: string where "IncidentStatusOpen = ''open''"

text \<open>
  The newest first (equal times by descending id), then the first open one, else the first.
\<close>

definition incident_before :: "RuntimeIncident \<Rightarrow> RuntimeIncident \<Rightarrow> bool" where
  "incident_before a b \<longleftrightarrow>
     (if inc_created_at a = inc_created_at b then inc_id b < inc_id a
      else inc_created_at b < inc_created_at a)"

fun insert_incident :: "RuntimeIncident \<Rightarrow> RuntimeIncident list \<Rightarrow> RuntimeIncident list" where
  "insert_incident x [] = [x]"
| "insert_incident x (y # ys) = (if incident_before y x then y # insert_incident x ys else x # y # ys)"

definition latestIncident :: "RuntimeIncident list \<Rightarrow> RuntimeIncident option" where
  "latestIncident items =
     (case foldr insert_incident items [] of
        [] \<Rightarrow> None
      | first # rest \<Rightarrow>
          (case List.find (\<lambda>i. equal_fold (inc_status i) IncidentStatusOpen) (first # rest) of
             Some i \<Rightarrow> Some i | None \<Rightarrow> Some first))"

definition incidentReason :: "RuntimeIncident \<Rightarrow> string" where
  "incidentReason i =
     (if trim_space (inc_summary i) \<noteq> [] then trim_space (inc_summary i)
      else if inc_kind i = IncidentKindUnhealthyCandidate
        then ''Candidate revision failed health checks.''
      else if inc_kind i = IncidentKindHealthGateTimeout
        then ''Health gate timed out before checks completed.''
      else if inc_kind i = IncidentKindRollbackFailure then ''Rollback did not complete successfully.''
      else if inc_kind i = IncidentKindPromotionFailure
        then ''Promotion failed while moving candidate to live.''
      else if inc_kind i = IncidentKindCrashLoop
        then ''Runtime detected repeated restarts (crash loop).''
      else ''An incident was recorded for this deployment.'')"

definition open_observability :: FixAction where
  "open_observability = \<lparr>fx_id = ''open_observability'', fx_label = ''Open observability'',
     fx_href = ''/observability'', fx_method = ''GET''\<rparr>"

definition mapIncidentToFix :: "RuntimeIncident \<Rightarrow> string \<Rightarrow> string \<times> FixAction" where
  "mapIncidentToFix i projectID =
     (if inc_kind i \<in> {IncidentKindUnhealthyCandidate, IncidentKindHealthGateTimeout,
           IncidentKindPromotionFailure}
      then (''Inspect logs, fix the failing service, then run a new deploy.'',
        \<lparr>fx_id = ''retry_deployment'', fx_label = ''Retry deployment'',
         fx_href = ''/projects/'' @ projectID, fx_method = ''GET''\<rparr>)
      else if inc_kind i = IncidentKindRollbackFailure
      then (''Rollback could not finish. Review incidents and runtime health before retrying.'',
        open_observability)
      else if inc_kind i = IncidentKindCrashLoop
      then (''Check runtime logs and instance health, then redeploy after fixes.'',
        \<lparr>fx_id = ''inspect_instances'', fx_label = ''Check instances'', fx_href = ''/instances'',
         fx_method = ''GET''\<rparr>)
      else (''Review incident details, then retry deployment when safe.'', open_observability))"

definition buildDeploymentIncidentSummary ::
  "DeploymentOverview \<Rightarrow> RuntimeIncident list \<Rightarrow> IncidentSummary option" where
  "buildDeploymentIncidentSummary overview incidents =
     (let st = ov_rollout_state overview
      in case latestIncident incidents of
        None \<Rightarrow>
          (if st = DeploymentStatusPromoted then Some
             \<lparr>is_state = ''healthy'', is_headline = ''No active incidents'',
              is_reason = ''Deployment passed rollout checks and is currently promoted.'',
              is_recommended = ''No action needed.'', is_incident = None, is_action = None\<rparr>
           else if st \<in> {DeploymentStatusQueued, DeploymentStatusRunning, DeploymentStatusCandidateReady}
           then Some
             \<lparr>is_state = ''monitoring'', is_headline = ''Monitoring rollout'',
              is_reason = ''Safety checks are still running for this deployment.'',
              is_recommended = ''Wait for rollout to complete. Open deployment timeline for live events.'',
              is_incident = None, is_action = None\<rparr>
           else if st \<in> {DeploymentStatusFailed, DeploymentStatusRolledBack, DeploymentStatusCanceled}
           then Some
             \<lparr>is_state = ''attention'', is_headline = ''Deployment needs attention'',
              is_reason = ''Deployment reached a terminal failure state but no runtime incident record was attached.'',
              is_recommended = ''Open observability to inspect runtime logs, then retry deployment.'',
              is_incident = None, is_action = Some open_observability\<rparr>
           else None)
      | Some latest \<Rightarrow>
          (let headline = (if st = DeploymentStatusRolledBack then ''Deployment was auto-rolled back''
                 else if st = DeploymentStatusFailed then ''Deployment failed before promotion''
                 else if st = DeploymentStatusPromoted then ''Deployment recovered after incident''
                 else ''Deployment incident detected'');
               severity = trim_space (to_lower (inc_severity latest));
               fix = mapIncidentToFix latest (de_project_id (ov_deployment overview))
           in Some \<lparr>is_state = (if severity = IncidentSeverityWarning then ''warning''
                  else if severity = IncidentSeverityInfo then ''info'' else ''attention''),
                is_headline = headline, is_reason = incidentReason latest,
                is_recommended = fst fix, is_incident = Some latest, is_action = Some (snd fix)\<rparr>))"

record DeploymentDetail =
  dd_overview :: DeploymentOverview
  dd_timeline :: "TimelineEvent list"
  dd_can_rollback :: bool
  dd_can_promote :: bool
  dd_can_cancel :: bool
  dd_incident_summary :: "IncidentSummary option"

definition buildDeploymentDetail ::
  "DeploymentOverview \<Rightarrow> DesiredStateRevisionRecord \<Rightarrow> Deployment \<Rightarrow> RuntimeIncident list
   \<Rightarrow> DeploymentDetail" where
  "buildDeploymentDetail overview record deployment incidents =
     \<lparr>dd_overview = overview,
      dd_timeline = buildDeploymentTimeline overview record deployment,
      dd_can_rollback = (ov_rollout_state overview = DeploymentStatusPromoted \<or>
        ov_build_state overview = RevisionStatusPromoted),
      dd_can_promote = (ov_rollout_state overview = DeploymentStatusCandidateReady \<and>
        \<not> ov_promoted overview),
      dd_can_cancel = (ov_rollout_state overview \<in>
        {DeploymentStatusQueued, DeploymentStatusRunning, DeploymentStatusCandidateReady}),
      dd_incident_summary = buildDeploymentIncidentSummary overview incidents\<rparr>"

section \<open>Reading and acting on a deployment\<close>

definition revision_before :: "DesiredStateRevision \<Rightarrow> DesiredStateRevision \<Rightarrow> bool" where
  "revision_before a b \<longleftrightarrow>
     (if rv_created_at a = rv_created_at b then rv_id a < rv_id b
      else rv_created_at a < rv_created_at b)"

fun insert_revision :: "DesiredStateRevision \<Rightarrow> DesiredStateRevision list \<Rightarrow> DesiredStateRevision list" where
  "insert_revision x [] = [x]"
| "insert_revision x (y # ys) = (if revision_before y x then y # insert_revision x ys else x # y # ys)"

fun index_revisions ::
  "int \<Rightarrow> DesiredStateRevision list \<Rightarrow> ((string \<rightharpoonup> DesiredStateRevisionRecord) \<times> (string \<rightharpoonup> int))
   \<Rightarrow> ((string \<rightharpoonup> DesiredStateRevisionRecord) \<times> (string \<rightharpoonup> int)) res" where
  "index_revisions n [] acc = Ok acc"
| "index_revisions n (r # rs) (records, numbers) =
     res_bind (ToDesiredStateRevisionRecord r) (\<lambda>x.
       index_revisions (n + 1) rs (records(rv_id r \<mapsto> x), numbers(rv_id r \<mapsto> n)))"

definition buildRevisionIndex ::
  "DesiredStateRevision list \<Rightarrow> ((string \<rightharpoonup> DesiredStateRevisionRecord) \<times> (string \<rightharpoonup> int)) res" where
  "buildRevisionIndex revisions =
     index_revisions 1 (foldr insert_revision revisions []) (Map.empty, Map.empty)"

text \<open>The revision of a deployment and its number, read by key if the index does not have it.\<close>

definition indexed_revision ::
  "string \<Rightarrow> int \<Rightarrow> (string \<rightharpoonup> DesiredStateRevisionRecord) \<Rightarrow> (string \<rightharpoonup> int) \<Rightarrow> string
   \<Rightarrow> (DesiredStateRevisionRecord \<times> int) wprog" where
  "indexed_revision pid count records numbers rid =
     (case records rid of
        Some r \<Rightarrow> return (r, map_get 0 numbers rid)
      | None \<Rightarrow>
          andThen (RevisionGetByIDForProject pid rid) (\<lambda>rv.
          case rv of
            None \<Rightarrow> raise (Sentinel ErrRevisionNotFound)
          | Some rv \<Rightarrow>
              andThen (from_res (ToDesiredStateRevisionRecord rv)) (\<lambda>r. return (r, count + 1))))"

definition GetDeployment ::
  "(DesiredStateRevisionRecord \<Rightarrow> PublicDomainResult) \<Rightarrow> string \<Rightarrow> string \<Rightarrow> string \<Rightarrow> string
   \<Rightarrow> DeploymentDetail wprog" where
  "GetDeployment public user role projectID deploymentID =
     andThen (resolveProjectForAccess user role projectID) (\<lambda>project.
     andThen (DeploymentGetByIDForProject (pj_id project) deploymentID) (\<lambda>found.
     case found of
       None \<Rightarrow> raise (Sentinel ErrDeploymentNotFound)
     | Some deployment \<Rightarrow>
         andThen (RevisionListByProject (pj_id project)) (\<lambda>revisions.
         andThen (from_res (buildRevisionIndex revisions)) (\<lambda>(records, numbers).
         andThen (indexed_revision (pj_id project) (int (length revisions)) records numbers
             (de_revision_id deployment)) (\<lambda>(r, number).
         let overview = buildDeploymentOverview deployment (Some r) number (public r)
         in andThen (IncidentListByDeployment (pj_id project) (de_id deployment)) (\<lambda>incidents.
            return (buildDeploymentDetail overview r deployment incidents)))))))"

definition Act ::
  "(DesiredStateRevisionRecord \<Rightarrow> PublicDomainResult) \<Rightarrow> string \<Rightarrow> string \<Rightarrow> string \<Rightarrow> string
   \<Rightarrow> string \<Rightarrow> DeploymentDetail wprog" where
  "Act public user role projectID deploymentID action =
     andThen (resolveProjectForAccess user role projectID) (\<lambda>project.
     andThen (DeploymentGetByIDForProject (pj_id project) deploymentID) (\<lambda>found.
     case found of
       None \<Rightarrow> raise (Sentinel ErrDeploymentNotFound)
     | Some deployment \<Rightarrow>
         (let act = to_lower (trim_space action); pid = pj_id project;
              did = de_id deployment; rid = de_revision_id deployment
          in andThen
            (if act = ''promote'' then
               andThen (TransitionRevisionStatus pid rid RevisionStatusPromoted) (\<lambda>_.
               andThen (TransitionDeploymentStatus pid did DeploymentStatusPromoted) (\<lambda>_. return ()))
             else if act = ''rollback'' then
               andThen (TransitionRevisionStatus pid rid RevisionStatusRolledBack) (\<lambda>_.
               andThen (TransitionDeploymentStatus pid did DeploymentStatusRolledBack) (\<lambda>_. return ()))
             else if act = ''cancel'' then
               andThen (TransitionDeploymentStatus pid did DeploymentStatusCanceled) (\<lambda>_.
               andThen (attempt (TransitionRevisionStatus pid rid RevisionStatusFailed)) (\<lambda>res.
               case res of
                 Inr r \<Rightarrow> return ()
               | Inl revErr \<Rightarrow>
                   if err_is revErr ErrInvalidRevisionStateTransition then return () else raise revErr))
             else raise (Sentinel ErrInvalidInput))
            (\<lambda>_. GetDeployment public user role pid did))))"

section \<open>What a transition does\<close>

definition revision_written :: "DesiredStateRevision \<Rightarrow> string \<Rightarrow> time \<Rightarrow> tables \<Rightarrow> tables" where
  "revision_written rv st now t = t\<lparr>t_revisions :=
     update_where (\<lambda>r. rv_id r = rv_id rv) (\<lambda>r. r\<lparr>rv_status := st, rv_updated_at := now\<rparr>) (t_revisions t)\<rparr>"

definition deployment_written :: "Deployment \<Rightarrow> string \<Rightarrow> time \<Rightarrow> tables \<Rightarrow> tables" where
  "deployment_written d st now t = t\<lparr>t_deployments :=
     update_where (\<lambda>x. de_id x = de_id d)
       (\<lambda>x. x\<lparr>de_status := st, de_updated_at := now,
          de_started_at := (case started_after d st now of None \<Rightarrow> de_started_at x | Some v \<Rightarrow> Some v),
          de_completed_at := (case completed_after d st now of None \<Rightarrow> de_completed_at x | Some v \<Rightarrow> Some v)\<rparr>)
       (t_deployments t)\<rparr>"

lemma normalizeDeploymentStatus_Ok [simp]:
  "normalizeDeploymentStatus raw = Inr x \<longleftrightarrow> x = trim_space raw \<and> x \<in> set deployment_statuses"
  by (auto simp: normalizeDeploymentStatus_def)

lemma normalizeRevisionStatus_Ok [simp]:
  "normalizeRevisionStatus raw = Inr x \<longleftrightarrow> x = trim_space raw \<and> x \<in> set revision_statuses"
  by (auto simp: normalizeRevisionStatus_def)

lemma TransitionDeploymentStatus_outcome:
  fixes w defines "now \<equiv> w_clock w (w_tick w)"
  assumes "TransitionDeploymentStatus pid did st w = (r, w')"
  shows "(\<exists>e. r = Fail e \<and> w_tables w' = w_tables w) \<or>
    (\<exists>d. find_deployment (trim_space pid) (trim_space did) (w_tables w) = Some d \<and>
       trim_space (de_status d) \<in> set deployment_statuses \<and> trim_space st \<in> set deployment_statuses \<and>
       canTransitionDeploymentStatus (trim_space (de_status d)) (trim_space st) \<and>
       w_tables w' = deployment_written d (trim_space st) now (w_tables w) \<and>
       r = Ok (d\<lparr>de_status := trim_space st, de_started_at := started_after d (trim_space st) now,
         de_completed_at := completed_after d (trim_space st) now, de_updated_at := now\<rparr>))"
  using assms(2)
  unfolding TransitionDeploymentStatus_def Let_def DeploymentGetByIDForProject_def
    DeploymentUpdateStatus_def
  by (auto elim!: andThen_cases dest!: db_readD db_writeD
      simp: deployment_written_def now_def
      split: if_splits option.splits)

lemma TransitionRevisionStatus_outcome:
  fixes w defines "now \<equiv> w_clock w (w_tick w)"
  assumes "TransitionRevisionStatus pid rid st w = (r, w')"
  shows "(\<exists>e. r = Fail e \<and> w_tables w' = w_tables w) \<or>
    (\<exists>rv. find_revision (trim_space pid) (trim_space rid) (w_tables w) = Some rv \<and>
       trim_space (rv_status rv) \<in> set revision_statuses \<and> trim_space st \<in> set revision_statuses \<and>
       canTransitionRevisionStatus (trim_space (rv_status rv)) (trim_space st) \<and>
       w_tables w' = revision_written rv (trim_space st) now (w_tables w) \<and>
       r = ToDesiredStateRevisionRecord (rv\<lparr>rv_status := trim_space st, rv_updated_at := now\<rparr>))"
  using assms(2)
  unfolding TransitionRevisionStatus_def Let_def RevisionGetByIDForProject_def
    RevisionUpdateStatus_def
  by (auto elim!: andThen_cases dest!: db_readD db_writeD simp: revision_written_def now_def
      split: if_splits option.splits)

section \<open>The state machines\<close>

definition dep_step :: "string \<Rightarrow> string \<Rightarrow> bool" where
  "dep_step a b \<longleftrightarrow> trim_space a \<in> set deployment_statuses \<and> b \<in> set deployment_statuses \<and>
     canTransitionDeploymentStatus (trim_space a) b"

definition rev_step :: "string \<Rightarrow> string \<Rightarrow> bool" where
  "rev_step a b \<longleftrightarrow> trim_space a \<in> set revision_statuses \<and> b \<in> set revision_statuses \<and>
     canTransitionRevisionStatus (trim_space a) b"

text \<open>Rows with the same identity whose status moved along the machine.\<close>

definition dep_row_moved :: "Deployment \<Rightarrow> Deployment \<Rightarrow> bool" where
  "dep_row_moved d d' \<longleftrightarrow>
     de_id d' = de_id d \<and> de_project_id d' = de_project_id d \<and> de_revision_id d' = de_revision_id d \<and>
     de_created_at d' = de_created_at d \<and> dep_step\<^sup>*\<^sup>* (de_status d) (de_status d') \<and>
     (de_started_at d \<noteq> None \<longrightarrow> de_started_at d' = de_started_at d)"

definition rev_row_moved :: "DesiredStateRevision \<Rightarrow> DesiredStateRevision \<Rightarrow> bool" where
  "rev_row_moved r r' \<longleftrightarrow>
     rev_step\<^sup>*\<^sup>* (rv_status r) (rv_status r') \<and>
     r' = r\<lparr>rv_status := rv_status r', rv_updated_at := rv_updated_at r'\<rparr>"

definition moved :: "world \<Rightarrow> world \<Rightarrow> bool" where
  "moved w w' \<longleftrightarrow>
     list_all2 dep_row_moved (t_deployments (w_tables w)) (t_deployments (w_tables w')) \<and>
     list_all2 rev_row_moved (t_revisions (w_tables w)) (t_revisions (w_tables w')) \<and>
     w_tables w' = (w_tables w)\<lparr>t_deployments := t_deployments (w_tables w'),
       t_revisions := t_revisions (w_tables w')\<rparr>"

text \<open>Primary keys.\<close>

definition keys_ok :: "world \<Rightarrow> bool" where
  "keys_ok w \<longleftrightarrow> distinct (map de_id (t_deployments (w_tables w))) \<and>
     distinct (map rv_id (t_revisions (w_tables w)))"

lemma dep_row_moved_refl: "dep_row_moved d d"
  by (simp add: dep_row_moved_def)

lemma rev_row_moved_refl: "rev_row_moved r r"
  by (simp add: rev_row_moved_def)

lemma dep_row_moved_trans: "dep_row_moved a b \<Longrightarrow> dep_row_moved b c \<Longrightarrow> dep_row_moved a c"
  by (auto simp: dep_row_moved_def)

lemma revision_frame_trans:
  "c = b\<lparr>rv_status := x, rv_updated_at := y\<rparr> \<Longrightarrow> b = a\<lparr>rv_status := x', rv_updated_at := y'\<rparr> \<Longrightarrow>
   c = a\<lparr>rv_status := x, rv_updated_at := y\<rparr>"
  by simp

lemma rev_row_moved_trans:
  assumes "rev_row_moved a b" and "rev_row_moved b c"
  shows "rev_row_moved a c"
proof -
  have "c = b\<lparr>rv_status := rv_status c, rv_updated_at := rv_updated_at c\<rparr>"
    and "b = a\<lparr>rv_status := rv_status b, rv_updated_at := rv_updated_at b\<rparr>"
    using assms by (simp_all add: rev_row_moved_def)
  then have "c = a\<lparr>rv_status := rv_status c, rv_updated_at := rv_updated_at c\<rparr>"
    by (rule revision_frame_trans)
  with assms show ?thesis by (auto simp: rev_row_moved_def)
qed

lemma tables_frame_trans:
  "c = b\<lparr>t_deployments := x, t_revisions := y\<rparr> \<Longrightarrow>
   b = a\<lparr>t_deployments := x', t_revisions := y'\<rparr> \<Longrightarrow> c = a\<lparr>t_deployments := x, t_revisions := y\<rparr>"
  by simp

lemma moved_same_tables: "w_tables w' = w_tables w \<Longrightarrow> moved w w'"
  by (simp add: moved_def list.rel_refl_strong dep_row_moved_refl rev_row_moved_refl)

interpretation machine_moves: guarantee keys_ok moved
proof
  show "moved w w" for w by (rule moved_same_tables) simp
  show "moved u w" if "moved u v" "moved v w" for u v w
  proof -
    have 1: "list_all2 dep_row_moved (t_deployments (w_tables u)) (t_deployments (w_tables w))"
      using that unfolding moved_def by (blast intro: list_all2_trans dep_row_moved_trans)
    have 2: "list_all2 rev_row_moved (t_revisions (w_tables u)) (t_revisions (w_tables w))"
      using that unfolding moved_def by (blast intro: list_all2_trans rev_row_moved_trans)
    have "w_tables w = (w_tables v)\<lparr>t_deployments := t_deployments (w_tables w),
        t_revisions := t_revisions (w_tables w)\<rparr>"
      and "w_tables v = (w_tables u)\<lparr>t_deployments := t_deployments (w_tables v),
        t_revisions := t_revisions (w_tables v)\<rparr>"
      using that by (simp_all add: moved_def)
    then have "w_tables w = (w_tables u)\<lparr>t_deployments := t_deployments (w_tables w),
        t_revisions := t_revisions (w_tables w)\<rparr>"
      by (rule tables_frame_trans)
    with 1 2 show ?thesis by (simp add: moved_def)
  qed
qed

lemma list_all2_update_where:
  assumes "\<And>x. x \<in> set xs \<Longrightarrow> P x \<Longrightarrow> R x (f x)" and "\<And>x. R x x"
  shows "list_all2 R xs (update_where P f xs)"
  using assms by (induction xs) (auto simp: update_where_def)

lemma map_update_where: "(\<And>x. g (f x) = g x) \<Longrightarrow> map g (update_where P f xs) = map g xs"
  by (induction xs) (auto simp: update_where_def)

lemma distinct_key_eq: "distinct (map k xs) \<Longrightarrow> x \<in> set xs \<Longrightarrow> y \<in> set xs \<Longrightarrow> k x = k y \<Longrightarrow> x = y"
  by (metis distinct_map inj_on_def)

lemma within_TransitionDeployment: "within keys_ok moved (TransitionDeploymentStatus pid did st)"
  unfolding within_def
proof (intro allI impI)
  fix w assume keys: "keys_ok w"
  obtain r w' where run: "TransitionDeploymentStatus pid did st w = (r, w')" by fastforce
  consider (same) "w_tables w' = w_tables w"
    | (written) d where "find_deployment (trim_space pid) (trim_space did) (w_tables w) = Some d"
      "dep_step (de_status d) (trim_space st)"
      "w_tables w' = deployment_written d (trim_space st) (w_clock w (w_tick w)) (w_tables w)"
    using TransitionDeploymentStatus_outcome [OF run] unfolding dep_step_def by blast
  then have "keys_ok w' \<and> moved w w'"
  proof cases
    case same
    with keys show ?thesis by (simp add: keys_ok_def moved_same_tables)
  next
    case written
    let ?now = "w_clock w (w_tick w)" and ?st = "trim_space st"
    let ?f = "\<lambda>x. x\<lparr>de_status := ?st, de_updated_at := ?now,
      de_started_at := (case started_after d ?st ?now of None \<Rightarrow> de_started_at x | Some v \<Rightarrow> Some v),
      de_completed_at := (case completed_after d ?st ?now of None \<Rightarrow> de_completed_at x | Some v \<Rightarrow> Some v)\<rparr>"
    have d: "d \<in> set (t_deployments (w_tables w))" using find_deploymentD [OF written(1)] by simp
    have row: "dep_row_moved x (?f x)" if "x \<in> set (t_deployments (w_tables w))" "de_id x = de_id d" for x
    proof -
      have "x = d" using keys that d by (auto simp: keys_ok_def intro: distinct_key_eq)
      with written(2) show ?thesis
        by (auto simp: dep_row_moved_def started_after_def split: option.splits)
    qed
    have "list_all2 dep_row_moved (t_deployments (w_tables w)) (t_deployments (w_tables w'))"
      unfolding written(3) deployment_written_def
      by (simp, rule list_all2_update_where) (auto intro: row dep_row_moved_refl)
    moreover have "map de_id (t_deployments (w_tables w')) = map de_id (t_deployments (w_tables w))"
      unfolding written(3) deployment_written_def by (simp add: map_update_where)
    ultimately show ?thesis
      using keys by (auto simp: moved_def keys_ok_def written(3) deployment_written_def
          list.rel_refl_strong rev_row_moved_refl)
  qed
  with run show "keys_ok (snd (TransitionDeploymentStatus pid did st w)) \<and>
      moved w (snd (TransitionDeploymentStatus pid did st w))" by simp
qed

lemma within_TransitionRevision: "within keys_ok moved (TransitionRevisionStatus pid rid st)"
  unfolding within_def
proof (intro allI impI)
  fix w assume keys: "keys_ok w"
  obtain r w' where run: "TransitionRevisionStatus pid rid st w = (r, w')" by fastforce
  consider (same) "w_tables w' = w_tables w"
    | (written) rv where "find_revision (trim_space pid) (trim_space rid) (w_tables w) = Some rv"
      "rev_step (rv_status rv) (trim_space st)"
      "w_tables w' = revision_written rv (trim_space st) (w_clock w (w_tick w)) (w_tables w)"
    using TransitionRevisionStatus_outcome [OF run] unfolding rev_step_def by blast
  then have "keys_ok w' \<and> moved w w'"
  proof cases
    case same
    with keys show ?thesis by (simp add: keys_ok_def moved_same_tables)
  next
    case written
    have rv: "rv \<in> set (t_revisions (w_tables w))" using find_revisionD [OF written(1)] by simp
    have row: "rev_row_moved x (x\<lparr>rv_status := trim_space st, rv_updated_at := w_clock w (w_tick w)\<rparr>)"
      if "x \<in> set (t_revisions (w_tables w))" "rv_id x = rv_id rv" for x
    proof -
      have "x = rv" using keys that rv by (auto simp: keys_ok_def intro: distinct_key_eq)
      with written(2) show ?thesis by (auto simp: rev_row_moved_def)
    qed
    have "list_all2 rev_row_moved (t_revisions (w_tables w)) (t_revisions (w_tables w'))"
      unfolding written(3) revision_written_def
      by (simp, rule list_all2_update_where) (auto intro: row rev_row_moved_refl)
    moreover have "map rv_id (t_revisions (w_tables w')) = map rv_id (t_revisions (w_tables w))"
      unfolding written(3) revision_written_def by (simp add: map_update_where)
    ultimately show ?thesis
      using keys by (auto simp: moved_def keys_ok_def written(3) revision_written_def
          list.rel_refl_strong dep_row_moved_refl)
  qed
  with run show "keys_ok (snd (TransitionRevisionStatus pid rid st w)) \<and>
      moved w (snd (TransitionRevisionStatus pid rid st w))" by simp
qed

lemma within_db_read: "within keys_ok moved (db_read f)"
  by (simp add: within_def keys_ok_def moved_same_tables)

lemma within_resolveProject: "within keys_ok moved (resolveProjectForAccess user role pid)"
  unfolding resolveProjectForAccess_def repo_reads
  by (intro machine_moves.within_rules within_db_read)

lemma within_GetDeployment: "within keys_ok moved (GetDeployment public user role pid did)"
  unfolding GetDeployment_def indexed_revision_def repo_reads
  by (intro machine_moves.within_rules within_db_read within_resolveProject)

lemma within_Act: "within keys_ok moved (Act public user role pid did action)"
  unfolding Act_def repo_reads
  by (intro machine_moves.within_rules within_db_read within_resolveProject within_GetDeployment
      within_TransitionRevision within_TransitionDeployment)

section \<open>Properties\<close>

datatype deployment_call =
    CallTransitionRevision string string string
  | CallTransitionDeployment string string string
  | CallAct string string string string string
  | CallGet string string string string

fun deployment_step ::
  "(DesiredStateRevisionRecord \<Rightarrow> PublicDomainResult) \<Rightarrow> deployment_call \<Rightarrow> world \<Rightarrow> world" where
  "deployment_step public (CallTransitionRevision pid rid st) w = snd (TransitionRevisionStatus pid rid st w)"
| "deployment_step public (CallTransitionDeployment pid did st) w =
     snd (TransitionDeploymentStatus pid did st w)"
| "deployment_step public (CallAct user role pid did action) w = snd (Act public user role pid did action w)"
| "deployment_step public (CallGet user role pid did) w = snd (GetDeployment public user role pid did w)"

lemma deployment_step_within: "keys_ok w \<Longrightarrow> keys_ok (deployment_step public c w) \<and> moved w (deployment_step public c w)"
  using within_TransitionRevision within_TransitionDeployment within_Act within_GetDeployment
  by (cases c) (auto simp: within_def)

interpretation deployments: machine "deployment_step public" "\<lambda>_ _. True" keys_ok for public
  by unfold_locales (simp add: deployment_step_within)

lemma calls_ok_any [simp]: "calls_ok (\<lambda>_ _. True) step es s"
  by (induction es arbitrary: s) auto

lemma run_moved:
  assumes "keys_ok w" shows "moved w (run (deployment_step public) cs w)"
  by (rule deployments.invar_run_rel [OF assms])
    (simp_all add: machine_moves.refl deployment_step_within, erule (1) machine_moves.trans)

lemma list_all2_find:
  assumes "list_all2 R xs ys" and "\<And>x y. R x y \<Longrightarrow> P x = P y"
  shows "rel_option R (List.find P xs) (List.find P ys)"
  using assms by (induction rule: list_all2_induct) auto

lemma moved_find_deployment:
  "moved w w' \<Longrightarrow> rel_option dep_row_moved (find_deployment pid did (w_tables w)) (find_deployment pid did (w_tables w'))"
  unfolding moved_def find_deployment_def by (rule list_all2_find) (auto simp: dep_row_moved_def)

lemma rev_row_moved_key: "rev_row_moved x y \<Longrightarrow> rv_id y = rv_id x \<and> rv_project_id y = rv_project_id x \<and> rv_compiled y = rv_compiled x"
  unfolding rev_row_moved_def
  by (metis DesiredStateRevision.select_convs(1,2,9) DesiredStateRevision.surjective
      DesiredStateRevision.update_convs(8,12))

lemma moved_find_revision:
  "moved w w' \<Longrightarrow> rel_option rev_row_moved (find_revision pid rid (w_tables w)) (find_revision pid rid (w_tables w'))"
  unfolding moved_def find_revision_def by (rule list_all2_find) (auto dest: rev_row_moved_key)

text \<open>Statuses that no transition leaves.\<close>

lemma dep_final:
  assumes "dep_step\<^sup>*\<^sup>* a b" and "trim_space a \<in> {DeploymentStatusFailed, DeploymentStatusRolledBack, DeploymentStatusCanceled}"
  shows "trim_space b = trim_space a"
  using assms
proof (induction rule: rtranclp_induct)
  case (step y z)
  have "z \<in> set deployment_statuses" using step.hyps(2) by (simp add: dep_step_def)
  then have "trim_space z = z"
    by (auto simp: deployment_statuses_def deployment_status_defs trim_space_def trim_left_def
        trim_right_def is_space_def)
  with step show ?case
    by (auto simp: dep_step_def canTransitionDeploymentStatus_def deployment_status_defs split: if_splits)
qed simp

lemma rev_final:
  assumes "rev_step\<^sup>*\<^sup>* a b" and "trim_space a \<in> {RevisionStatusFailed, RevisionStatusRolledBack, RevisionStatusSuperseded}"
  shows "trim_space b = trim_space a"
  using assms
proof (induction rule: rtranclp_induct)
  case (step y z)
  have "z \<in> set revision_statuses" using step.hyps(2) by (simp add: rev_step_def)
  then have "trim_space z = z"
    by (auto simp: revision_statuses_def revision_status_defs trim_space_def trim_left_def
        trim_right_def is_space_def)
  with step show ?case
    by (auto simp: rev_step_def canTransitionRevisionStatus_def revision_status_defs split: if_splits)
qed simp

text \<open>
  Property C5: over the deployment service's own calls on existing rows, which are the two status
  transitions, the operator actions and the reads of a deployment, in any order and with database
  failures at any point, no deployment is lost or re-keyed, its status moves only along the
  deployment state machine, its start time is never changed once set, and a deployment that is
  failed, rolled back or canceled stays so. The rollout planner is not among these calls: it writes
  statuses past the machine (\<open>FinalizeRollback\<close> turns a failed deployment into a rolled back one).
\<close>

theorem deployment_status_machine:
  assumes "keys_ok w" and "find_deployment pid did (w_tables w) = Some d"
  shows "\<exists>d'. find_deployment pid did (w_tables (run (deployment_step public) cs w)) = Some d' \<and>
    de_revision_id d' = de_revision_id d \<and> dep_step\<^sup>*\<^sup>* (de_status d) (de_status d') \<and>
    (de_started_at d \<noteq> None \<longrightarrow> de_started_at d' = de_started_at d) \<and>
    (trim_space (de_status d) \<in> {DeploymentStatusFailed, DeploymentStatusRolledBack, DeploymentStatusCanceled}
       \<longrightarrow> trim_space (de_status d') = trim_space (de_status d))"
proof -
  have "rel_option dep_row_moved (Some d) (find_deployment pid did (w_tables (run (deployment_step public) cs w)))"
    using moved_find_deployment [OF run_moved [OF assms(1)], of pid did public cs] assms(2) by simp
  then obtain d' where "find_deployment pid did (w_tables (run (deployment_step public) cs w)) = Some d'"
    "dep_row_moved d d'" by (auto simp: option_rel_Some1)
  then show ?thesis using dep_final by (auto simp: dep_row_moved_def)
qed

text \<open>
  Property C6: over the same calls of the deployment service, with database failures at any point, a
  revision keeps its document and moves only along the revision state machine, and one that is
  failed, rolled back or superseded stays so. The rollout planner is not among these calls: it
  rewrites the document when it records a snapshot and writes statuses past the machine
  (\<open>PromoteCandidate\<close> promotes a planned revision).
\<close>

theorem revision_status_machine:
  assumes "keys_ok w" and "find_revision pid rid (w_tables w) = Some r"
  shows "\<exists>r'. find_revision pid rid (w_tables (run (deployment_step public) cs w)) = Some r' \<and>
    rv_compiled r' = rv_compiled r \<and> rev_step\<^sup>*\<^sup>* (rv_status r) (rv_status r') \<and>
    (trim_space (rv_status r) \<in> {RevisionStatusFailed, RevisionStatusRolledBack, RevisionStatusSuperseded}
       \<longrightarrow> trim_space (rv_status r') = trim_space (rv_status r))"
proof -
  have "rel_option rev_row_moved (Some r) (find_revision pid rid (w_tables (run (deployment_step public) cs w)))"
    using moved_find_revision [OF run_moved [OF assms(1)], of pid rid public cs] assms(2) by simp
  then obtain r' where "find_revision pid rid (w_tables (run (deployment_step public) cs w)) = Some r'"
    and r': "rev_row_moved r r'" by (auto simp: option_rel_Some1)
  moreover have "rev_step\<^sup>*\<^sup>* (rv_status r) (rv_status r')" using r' by (simp add: rev_row_moved_def)
  ultimately show ?thesis using rev_final rev_row_moved_key [OF r'] by blast
qed

text \<open>
  A successful deployment transition is one the machine allows from the stored status,
  and the stored row then has the new status, the first start time when it leaves the queue, a
  completion time when the new status is terminal, and no other deployment or revision changed; a
  failed one changed no table.
\<close>

theorem TransitionDeploymentStatus_effect:
  assumes keys: "keys_ok w" and run: "TransitionDeploymentStatus pid did st w = (r, w')"
  shows "case r of
      Inl e \<Rightarrow> w_tables w' = w_tables w
    | Inr d' \<Rightarrow> (\<exists>d. find_deployment (trim_space pid) (trim_space did) (w_tables w) = Some d \<and>
        canTransitionDeploymentStatus (trim_space (de_status d)) (trim_space st) \<and>
        find_deployment (trim_space pid) (trim_space did) (w_tables w') = Some d' \<and>
        de_status d' = trim_space st \<and> de_updated_at d' = w_clock w (w_tick w) \<and>
        (trim_space st \<noteq> DeploymentStatusQueued \<longrightarrow> de_started_at d' \<noteq> None) \<and>
        (isTerminalDeploymentStatus (trim_space st) \<longrightarrow> de_completed_at d' = Some (w_clock w (w_tick w))) \<and>
        t_revisions (w_tables w') = t_revisions (w_tables w) \<and>
        (\<forall>pid' k. k \<noteq> trim_space did \<longrightarrow>
           find_deployment pid' k (w_tables w') = find_deployment pid' k (w_tables w)))"
proof (cases r)
  case (Inl e)
  with TransitionDeploymentStatus_outcome [OF run] show ?thesis by auto
next
  case (Inr d')
  let ?now = "w_clock w (w_tick w)" and ?st = "trim_space st"
  obtain d where d: "find_deployment (trim_space pid) (trim_space did) (w_tables w) = Some d"
    "canTransitionDeploymentStatus (trim_space (de_status d)) ?st"
    "w_tables w' = deployment_written d ?st ?now (w_tables w)"
    "d' = d\<lparr>de_status := ?st, de_started_at := started_after d ?st ?now,
         de_completed_at := completed_after d ?st ?now, de_updated_at := ?now\<rparr>"
    using TransitionDeploymentStatus_outcome [OF run] Inr by auto
  have id: "de_id d = trim_space did" using find_deploymentD [OF d(1)] by simp
  have "find_deployment pid' k (w_tables w') = find_deployment pid' k (w_tables w)"
    if "k \<noteq> trim_space did" for pid' k
    using that find_deploymentD [of pid' k "w_tables w"]
    by (cases "find_deployment pid' k (w_tables w)") (auto simp: d(3) deployment_written_def id)
  moreover have "find_deployment (trim_space pid) (trim_space did) (w_tables w') = Some d'"
    by (auto simp: d(1,3,4) deployment_written_def id started_after_def completed_after_def
        split: option.splits)
  ultimately show ?thesis
    using d(1,2) by (auto simp: Inr d(3,4) deployment_written_def started_after_def completed_after_def)
qed

text \<open>A small world for the witnesses: one project, one revision, one deployment, no failures.\<close>

definition demo_contract :: BlueprintContract where
  "demo_contract = \<lparr>bc_project_id = ''p'', bc_project_slug = ''shop'', bc_namespace = [],
     bc_runtime_mode = RuntimeModeStandalone, bc_binding_id = ''bi'',
     bc_binding_target_kind = ''instance'', bc_binding_target_id = ''i1'',
     bc_binding_placement_policy = Map.empty, bc_services = [], bc_dependency_bindings = [],
     bc_compatibility_policy = AnyNil, bc_magic_domain_policy = AnyNil,
     bc_scale_to_zero_policy = AnyNil, bc_routing_policy = \<lparr>rp_shared_domain = [], rp_routes = []\<rparr>,
     bc_commit_sha = ''c2'', bc_artifact_ref = [], bc_image_ref = ''img''\<rparr>"

definition demo_tables :: "string \<Rightarrow> string \<Rightarrow> tables" where
  "demo_tables rs ds =
     \<lparr>t_projects = [\<lparr>pj_id = ''p'', pj_user_id = ''u'', pj_slug = ''shop'', pj_created_at = 0\<rparr>], t_blueprints =
        [\<lparr>bp_id = ''b'', bp_project_id = ''p'', bp_compiled = JsonDoc demo_contract\<rparr>],
      t_revisions = [\<lparr>rv_id = ''r1'', rv_project_id = ''p'', rv_blueprint_id = ''b'', rv_binding_id = ''bi'',
        rv_namespace = [], rv_commit_sha = ''c1'', rv_trigger_kind = ''manual'', rv_status = rs,
        rv_compiled = JsonDoc (zero_compiled\<lparr>cp_deployment_binding_id := ''bi'', cp_image_ref := ''img''\<rparr>),
        rv_manifest = JsonBraces, rv_created_at = 1, rv_updated_at = 1\<rparr>],
      t_deployments = [\<lparr>de_id = ''d1'', de_project_id = ''p'', de_revision_id = ''r1'', de_status = ds,
        de_started_at = None, de_completed_at = None, de_created_at = 1, de_updated_at = 1\<rparr>],
      t_bindings = [\<lparr>bi_id = ''bi'', bi_project_id = ''p'', bi_name = ''main'', bi_target_ref = ''t'',
        bi_target_environment = [], bi_runtime_mode = RuntimeModeStandalone,
        bi_target_kind = ''instance'', bi_target_id = ''i1'', bi_created_at = 1\<rparr>],
      t_instances = [\<lparr>in_id = ''i1'', in_user_id = ''u'', in_name = ''node'',
        in_agent_id = Some ''a1'', in_status = ''online'', in_created_at = 0\<rparr>],
      t_clusters = [], t_incidents = []\<rparr>"

definition demo_world :: "string \<Rightarrow> string \<Rightarrow> agent_turn list \<Rightarrow> world" where
  "demo_world rs ds turns =
     \<lparr>w_tables = demo_tables rs ds, w_faults = [], w_clock = (\<lambda>n. 100 + int n), w_tick = 0,
      w_fresh = (\<lambda>n. itoa (int n)), w_next_id = 0, w_events = [], w_sent = [], w_turns = turns,
      w_awaiting = None, w_recovering = {}\<rparr>"

lemma demo_keys_ok: "keys_ok (demo_world rs ds turns)"
  by (simp add: keys_ok_def demo_world_def demo_tables_def)

lemma demo_finds:
  "find_deployment ''p'' ''d1'' (demo_tables rs ds) = Some (hd (t_deployments (demo_tables rs ds)))"
  "find_revision ''p'' ''r1'' (demo_tables rs ds) = Some (hd (t_revisions (demo_tables rs ds)))"
  by (simp_all add: find_deployment_def find_revision_def demo_tables_def)

theorem deployment_status_machine_witness:
  "\<exists>d'. find_deployment ''p'' ''d1'' (w_tables (run (deployment_step (\<lambda>r. undefined))
       [CallTransitionDeployment ''p'' ''d1'' ''running''] (demo_world ''failed'' ''failed'' []))) = Some d' \<and>
     trim_space (de_status d') = trim_space ''failed''"
proof -
  have "find_deployment ''p'' ''d1'' (w_tables (demo_world ''failed'' ''failed'' [])) =
      Some (hd (t_deployments (demo_tables ''failed'' ''failed'')))"
    by (simp add: demo_world_def demo_finds)
  from deployment_status_machine [OF demo_keys_ok this] show ?thesis
    by (fastforce simp: demo_tables_def deployment_status_defs trim_space_def trim_left_def
        trim_right_def is_space_def)
qed

theorem revision_status_machine_witness:
  "\<exists>r'. find_revision ''p'' ''r1'' (w_tables (run (deployment_step (\<lambda>r. undefined))
       [CallTransitionRevision ''p'' ''r1'' ''planned''] (demo_world ''queued'' ''queued'' []))) = Some r' \<and>
     rev_step\<^sup>*\<^sup>* ''queued'' (rv_status r')"
proof -
  have "find_revision ''p'' ''r1'' (w_tables (demo_world ''queued'' ''queued'' [])) =
      Some (hd (t_revisions (demo_tables ''queued'' ''queued'')))"
    by (simp add: demo_world_def demo_finds)
  from revision_status_machine [OF demo_keys_ok this] show ?thesis
    by (fastforce simp: demo_tables_def)
qed

lemma trim_names [simp]:
  "trim_space ''p'' = ''p''" "trim_space ''d1'' = ''d1''" "trim_space ''r1'' = ''r1''"
  "trim_space ''u'' = ''u''" "trim_space ''i1'' = ''i1''" "trim_space ''a1'' = ''a1''"
  "trim_space ''bi'' = ''bi''" "trim_space ''img'' = ''img''"
  by (simp_all add: trim_space_def trim_left_def trim_right_def is_space_def)

lemma trim_statuses [simp]:
  "trim_space DeploymentStatusQueued = DeploymentStatusQueued"
  "trim_space DeploymentStatusRunning = DeploymentStatusRunning"
  "trim_space DeploymentStatusCandidateReady = DeploymentStatusCandidateReady"
  "trim_space DeploymentStatusPromoted = DeploymentStatusPromoted"
  "trim_space DeploymentStatusFailed = DeploymentStatusFailed"
  "trim_space DeploymentStatusRolledBack = DeploymentStatusRolledBack"
  "trim_space DeploymentStatusCanceled = DeploymentStatusCanceled"
  "trim_space RevisionStatusQueued = RevisionStatusQueued"
  "trim_space RevisionStatusPlanned = RevisionStatusPlanned"
  "trim_space RevisionStatusApplying = RevisionStatusApplying"
  "trim_space RevisionStatusPromoted = RevisionStatusPromoted"
  "trim_space RevisionStatusFailed = RevisionStatusFailed"
  "trim_space RevisionStatusRolledBack = RevisionStatusRolledBack"
  by (simp_all add: deployment_status_defs revision_status_defs trim_space_def trim_left_def
      trim_right_def is_space_def)

theorem TransitionDeploymentStatus_effect_witness:
  "\<exists>d'. find_deployment ''p'' ''d1'' (w_tables (snd (TransitionDeploymentStatus ''p'' ''d1''
       DeploymentStatusRunning (demo_world ''planned'' DeploymentStatusQueued [])))) = Some d' \<and>
     de_status d' = DeploymentStatusRunning \<and> de_started_at d' \<noteq> None"
proof -
  let ?w = "demo_world ''planned'' DeploymentStatusQueued []"
  have "is_ok (fst (TransitionDeploymentStatus ''p'' ''d1'' DeploymentStatusRunning ?w))"
    by code_simp
  then obtain d' where "TransitionDeploymentStatus ''p'' ''d1'' DeploymentStatusRunning ?w =
      (Ok d', snd (TransitionDeploymentStatus ''p'' ''d1'' DeploymentStatusRunning ?w))"
    by (metis is_ok_iff prod.collapse)
  moreover have "DeploymentStatusRunning \<noteq> DeploymentStatusQueued"
    by (simp add: deployment_status_defs)
  ultimately show ?thesis
    using TransitionDeploymentStatus_effect [OF demo_keys_ok] by fastforce
qed

subsection \<open>Promotion by an operator\<close>

lemma set_insert_revision: "set (insert_revision x ys) = insert x (set ys)"
  by (induction ys) auto

lemma set_sorted_revisions: "set (foldr insert_revision rs []) = set rs"
  by (induction rs) (auto simp: set_insert_revision)

lemma index_revisions_records:
  "index_revisions n rs (recs, nums) = Ok (recs', nums') \<Longrightarrow> recs' k = Some x \<Longrightarrow>
   recs k = Some x \<or> (\<exists>r \<in> set rs. rv_id r = k \<and> ToDesiredStateRevisionRecord r = Ok x)"
proof (induction rs arbitrary: n recs nums)
  case (Cons r rs)
  then obtain y where "ToDesiredStateRevisionRecord r = Ok y"
    "index_revisions (n + 1) rs (recs(rv_id r \<mapsto> y), nums(rv_id r \<mapsto> n)) = Ok (recs', nums')"
    by (auto simp: res_bind_eq_Inr)
  with Cons.IH Cons.prems(2) show ?case by (fastforce split: if_splits)
qed simp

lemma ToDesiredStateRevisionRecord_status:
  "ToDesiredStateRevisionRecord r = Ok x \<Longrightarrow> rr_status x = rv_status r"
  by (auto simp: ToDesiredStateRevisionRecord_def Let_def res_bind_eq_Inr)

lemma find_revision_unique:
  assumes "keys_ok w" and "r \<in> set (t_revisions (w_tables w))" and "rv_project_id r = pid"
  shows "find_revision pid (rv_id r) (w_tables w) = Some r"
proof -
  obtain r' where r': "find_revision pid (rv_id r) (w_tables w) = Some r'"
    using assms(2,3) unfolding find_revision_def
    by (cases "List.find (\<lambda>x. rv_project_id x = pid \<and> rv_id x = rv_id r) (t_revisions (w_tables w))")
      (auto simp: find_None_iff)
  then have "r' = r"
    using find_revisionD [OF r'] assms by (auto simp: keys_ok_def intro: distinct_key_eq)
  with r' show ?thesis by simp
qed

lemma resolveProject_tables:
  assumes "resolveProjectForAccess user role pid w = (r, w')"
  shows "w_tables w' = w_tables w \<and> (\<forall>p. r = Ok p \<longrightarrow> pj_id p = trim_space pid)"
  using assms unfolding resolveProjectForAccess_def Let_def repo_reads
  by (auto elim!: andThen_cases dest!: db_readD find_SomeD split: if_splits option.splits)

lemma GetDeployment_result:
  assumes keys: "keys_ok w" and get: "GetDeployment public user role pid did w = (Ok det, w')"
  shows "w_tables w' = w_tables w \<and>
    (\<exists>d rv. find_deployment (trim_space pid) did (w_tables w) = Some d \<and>
       find_revision (trim_space pid) (de_revision_id d) (w_tables w) = Some rv \<and>
       ov_deployment (dd_overview det) = d \<and>
       (trim_space (rv_status rv) \<noteq> [] \<longrightarrow> ov_build_state (dd_overview det) = rv_status rv) \<and>
       (trim_space (rv_status rv) = [] \<longrightarrow> ov_build_state (dd_overview det) = RevisionStatusQueued))"
proof -
  obtain p w1 where p: "resolveProjectForAccess user role pid w = (Ok p, w1)"
    and g1: "GetDeployment public user role pid did w = (Ok det, w')"
    using get by (auto simp: GetDeployment_def andThen_Ok_iff)
  have pt: "w_tables w1 = w_tables w" "pj_id p = trim_space pid"
    using resolveProject_tables [OF p] by auto
  obtain d w2 revs w3 recs nums r num incs w4 w5 where
    d: "db_read (find_deployment (pj_id p) did) w1 = (Ok (Some d), w2)"
    and revs: "RevisionListByProject (pj_id p) w2 = (Ok revs, w3)"
    and idx: "buildRevisionIndex revs = Ok (recs, nums)"
    and r: "indexed_revision (pj_id p) (int (length revs)) recs nums (de_revision_id d) w3 = (Ok (r, num), w4)"
    and inc: "IncidentListByDeployment (pj_id p) (de_id d) w4 = (Ok incs, w')"
    and det: "det = buildDeploymentDetail (buildDeploymentOverview d (Some r) num (public r)) r d incs"
    using g1 p unfolding GetDeployment_def DeploymentGetByIDForProject_def Let_def
    by (auto simp: andThen_Ok_iff split: option.splits prod.splits)
  have t2: "w_tables w2 = w_tables w" "find_deployment (trim_space pid) did (w_tables w) = Some d"
    using db_read_Ok [OF d] pt by auto
  have t3: "w_tables w3 = w_tables w"
    "set revs = {x \<in> set (t_revisions (w_tables w)). rv_project_id x = trim_space pid}"
    using db_read_Ok [OF revs [unfolded RevisionListByProject_def]] t2(1) pt(2) by auto
  have rv: "w_tables w4 = w_tables w \<and>
      (\<exists>rv. find_revision (trim_space pid) (de_revision_id d) (w_tables w) = Some rv \<and> rr_status r = rv_status rv)"
  proof (cases "recs (de_revision_id d)")
    case (Some x)
    with r have x: "r = x" "w4 = w3" by (auto simp: indexed_revision_def)
    from idx Some obtain rv where "rv \<in> set revs" "rv_id rv = de_revision_id d"
      "ToDesiredStateRevisionRecord rv = Ok x"
      unfolding buildRevisionIndex_def
      by (fastforce dest: index_revisions_records simp: set_sorted_revisions)
    with find_revision_unique [OF keys, of rv "trim_space pid"] t3 x show ?thesis
      by (auto dest: ToDesiredStateRevisionRecord_status)
  next
    case None
    with r pt(2) t3(1) show ?thesis
      by (auto simp: indexed_revision_def andThen_Ok_iff RevisionGetByIDForProject_def dest!: db_read_Ok
          split: option.splits)
        (metis ToDesiredStateRevisionRecord_status)
  qed
  have "w_tables w' = w_tables w"
    using db_read_Ok [OF inc [unfolded IncidentListByDeployment_def]] rv by simp
  with t2(2) rv show ?thesis
    by (auto simp: det buildDeploymentDetail_def buildDeploymentOverview_def Let_def)
qed

lemma revision_transition_refused:
  assumes "TransitionRevisionStatus pid rid st w = (r, w')"
    and "find_revision (trim_space pid) (trim_space rid) (w_tables w) = Some rv"
    and "\<not> canTransitionRevisionStatus (trim_space (rv_status rv)) (trim_space st)"
  shows "\<not> is_ok r \<and> w_tables w' = w_tables w"
  using TransitionRevisionStatus_outcome [OF assms(1)] assms(2,3) by auto

lemma tables_faults: "w_tables (w\<lparr>w_faults := fs\<rparr>) = w_tables w"
  by simp

lemma Act_promote:
  assumes "Act public user role pid did ''promote'' w = (r, w')"
  shows "(\<not> is_ok r \<and> w_tables w' = w_tables w) \<or>
    (\<exists>d w2 r2 w3. find_deployment (trim_space pid) did (w_tables w) = Some d \<and> w_tables w2 = w_tables w \<and>
       TransitionRevisionStatus (trim_space pid) (de_revision_id d) RevisionStatusPromoted w2 = (r2, w3) \<and>
       (\<not> is_ok r2 \<longrightarrow> \<not> is_ok r \<and> w' = w3))"
proof -
  have word: "to_lower (trim_space ''promote'') = ''promote''" by code_simp
  show ?thesis
    using assms unfolding Act_def Let_def word DeploymentGetByIDForProject_def
    by (simp, elim andThen_cases)
      (auto dest!: resolveProject_tables db_readD elim!: andThen_cases split: option.splits,
        (metis tables_faults is_ok.simps)+)
qed

text \<open>
  The promote action contradicts the promote flag. The deployment detail offers
  promotion whenever the deployment is candidate_ready; but if the revision is only planned, as in
  every distributed rollout (their plans never start a candidate), \<open>Act\<close> with \<open>promote\<close> on the
  very state just read fails and changes no table.
\<close>

theorem promote_offered_but_refused:
  assumes keys: "keys_ok w" and get: "GetDeployment public user role pid did w = (Ok det, w1)"
    and "dd_can_promote det" and planned: "ov_build_state (dd_overview det) = RevisionStatusPlanned"
    and id: "trim_space (de_revision_id (ov_deployment (dd_overview det))) =
      de_revision_id (ov_deployment (dd_overview det))"
    and act: "Act public user role pid did ''promote'' w1 = (r, w2)"
  shows "\<not> is_ok r \<and> w_tables w2 = w_tables w1"
proof -
  obtain d rv where t: "w_tables w1 = w_tables w" and det: "ov_deployment (dd_overview det) = d"
    and d: "find_deployment (trim_space pid) did (w_tables w) = Some d"
    and rv: "find_revision (trim_space pid) (de_revision_id d) (w_tables w) = Some rv"
    and st: "rv_status rv = RevisionStatusPlanned"
    using GetDeployment_result [OF keys get] planned by (auto simp: revision_status_defs)
  have no: "\<not> canTransitionRevisionStatus (trim_space (rv_status rv)) (trim_space RevisionStatusPromoted)"
    unfolding st trim_statuses by (simp add: canTransitionRevisionStatus_def revision_status_defs)
  from Act_promote [OF act] show ?thesis
  proof
    assume "\<exists>d w2' r2 w3. find_deployment (trim_space pid) did (w_tables w1) = Some d \<and>
       w_tables w2' = w_tables w1 \<and>
       TransitionRevisionStatus (trim_space pid) (de_revision_id d) RevisionStatusPromoted w2' = (r2, w3) \<and>
       (\<not> is_ok r2 \<longrightarrow> \<not> is_ok r \<and> w2 = w3)"
    then obtain w2' r2 w3 where w: "w_tables w2' = w_tables w1"
      "TransitionRevisionStatus (trim_space pid) (de_revision_id d) RevisionStatusPromoted w2' = (r2, w3)"
      "\<not> is_ok r2 \<longrightarrow> \<not> is_ok r \<and> w2 = w3"
      using d t by auto
    have "find_revision (trim_space (trim_space pid)) (trim_space (de_revision_id d)) (w_tables w2') = Some rv"
      using rv t w(1) id det by simp
    from revision_transition_refused [OF w(2) this no] w(1,3) show ?thesis by auto
  qed
qed

definition no_public :: "DesiredStateRevisionRecord \<Rightarrow> PublicDomainResult" where
  "no_public r = \<lparr>pr_urls = [], pr_status = [], pr_reason = []\<rparr>"

theorem promote_offered_but_refused_witness:
  "\<not> is_ok (fst (Act no_public ''u'' ''admin'' ''p'' ''d1'' ''promote''
     (snd (GetDeployment no_public ''u'' ''admin'' ''p'' ''d1'' (demo_world ''planned'' ''candidate_ready'' [])))))"
proof -
  let ?w = "demo_world ''planned'' ''candidate_ready'' []"
  let ?g = "GetDeployment no_public ''u'' ''admin'' ''p'' ''d1'' ?w"
  have "(case ?g of (Inl e, w') \<Rightarrow> False
     | (Inr det, w') \<Rightarrow> dd_can_promote det \<and> ov_build_state (dd_overview det) = RevisionStatusPlanned \<and>
         trim_space (de_revision_id (ov_deployment (dd_overview det))) =
           de_revision_id (ov_deployment (dd_overview det)))"
    by code_simp
  then obtain det w1 where g: "?g = (Ok det, w1)" "dd_can_promote det"
    "ov_build_state (dd_overview det) = RevisionStatusPlanned"
    "trim_space (de_revision_id (ov_deployment (dd_overview det))) =
       de_revision_id (ov_deployment (dd_overview det))"
    by (auto split: prod.splits sum.splits)
  from promote_offered_but_refused [OF demo_keys_ok g, OF prod.collapse [symmetric]] show ?thesis
    by (simp add: g(1))
qed

subsection \<open>Creation\<close>

text \<open>
  What \<open>CreateDeployment\<close> relies on of the inventory compiler: it only reads the tables and inserts
  the blueprint it compiled, at most one (\<open>service_inventory_blueprint_compiler.go\<close>, whose one write
  is \<open>c.blueprints.Create\<close>). Without a compiler there is nothing to rely on.
\<close>

definition adds_at_most :: "nat \<Rightarrow> tables \<Rightarrow> tables \<Rightarrow> bool" where
  "adds_at_most n t t' \<longleftrightarrow>
     (\<exists>bs. length bs \<le> n \<and> t' = t\<lparr>t_blueprints := t_blueprints t @ bs\<rparr>)"

definition compiler_inserts_blueprint :: "blueprint_compiler option \<Rightarrow> bool" where
  "compiler_inserts_blueprint compiler \<longleftrightarrow>
     (case compiler of None \<Rightarrow> True
      | Some compile \<Rightarrow> (\<forall>project trig src ids w.
          adds_at_most 1 (w_tables w) (w_tables (snd (compile project trig src ids w)))))"

text \<open>The blueprint of a request is a stored one if the request names it and selects no services.\<close>

definition uses_stored_blueprint :: "CreateDeploymentCommand \<Rightarrow> bool" where
  "uses_stored_blueprint cmd \<longleftrightarrow> trim_space (cd_blueprint_id cmd) \<noteq> [] \<and> cd_service_ids cmd = []"

lemma adds_none [simp]: "adds_at_most n t t"
  by (auto simp: adds_at_most_def intro: exI [of _ "[]"])

lemma adds_one [simp]: "adds_at_most (Suc 0) t (t\<lparr>t_blueprints := t_blueprints t @ [b]\<rparr>)"
  unfolding adds_at_most_def by (rule exI [of _ "[b]"]) simp

lemma load_blueprint_tables:
  assumes "compiler_inserts_blueprint compiler" and run: "load_blueprint compiler project cmd trig w = (r, w')"
  shows "adds_at_most (if uses_stored_blueprint cmd then 0 else 1) (w_tables w) (w_tables w')"
proof (cases "uses_stored_blueprint cmd")
  case True
  with run have "w_tables w' = w_tables w"
    unfolding load_blueprint_def Let_def BlueprintGetByIDForProject_def uses_stored_blueprint_def
    by (auto elim!: andThen_cases dest!: db_readD split: if_splits option.splits)
  then show ?thesis by simp
next
  case False
  show ?thesis
  proof (cases compiler)
    case None
    with False run show ?thesis by (auto simp: load_blueprint_def uses_stored_blueprint_def Let_def)
  next
    case (Some compile)
    with False run have "w' = snd (compile project trig (trim_space (cd_source_ref cmd)) (cd_service_ids cmd) w)"
      by (auto simp: load_blueprint_def uses_stored_blueprint_def Let_def)
    with False Some assms(1) show ?thesis by (simp add: compiler_inserts_blueprint_def)
  qed
qed

text \<open>
  Property C10: what creating a deployment does to the tables, with any inventory compiler that only
  inserts the blueprint it compiled, and with database failures at any point. On success exactly one
  revision and one deployment are appended, both queued, the deployment pointing to the revision, both
  of the requested project, and the revision's stored document names the revision and the revision's
  binding. On failure no revision or deployment was added or changed, except that a failed insert of
  the deployment leaves one queued revision behind. Either way no other table changes but that of the
  blueprints, which grows by at most the compiled blueprint, and by none if the request names a
  stored blueprint and selects no services.
\<close>

theorem CreateDeployment_effect:
  assumes compiler: "compiler_inserts_blueprint compiler"
    and run: "CreateDeployment compiler cmd w = (r, w')"
  shows "\<exists>t. adds_at_most (if uses_stored_blueprint cmd then 0 else 1) (w_tables w) t \<and>
    (case r of
      Inr (rec, dep) \<Rightarrow> (\<exists>rv c.
        w_tables w' = t\<lparr>t_revisions := t_revisions t @ [rv],
          t_deployments := t_deployments t @ [dep]\<rparr> \<and>
        rv_status rv = RevisionStatusQueued \<and> de_status dep = DeploymentStatusQueued \<and>
        de_revision_id dep = rv_id rv \<and> rr_id rec = rv_id rv \<and>
        rv_project_id rv = trim_space (cd_project_id cmd) \<and>
        de_project_id dep = trim_space (cd_project_id cmd) \<and>
        parseCompiledRevision (rv_compiled rv) = Ok c \<and> cp_revision_id c = rv_id rv \<and>
        cp_deployment_binding_id c = rv_binding_id rv)
    | Inl e \<Rightarrow> w_tables w' = t \<or>
        (\<exists>rv. w_tables w' = t\<lparr>t_revisions := t_revisions t @ [rv]\<rparr> \<and>
           rv_status rv = RevisionStatusQueued))" (is "\<exists>t. ?adds (w_tables w) t \<and> ?result t")
proof -
  note cases = run [unfolded CreateDeployment_def Let_def]
  from cases show ?thesis
  proof (cases rule: andThen_cases)
    case fail
    then show ?thesis by (auto dest!: resolveProject_tables intro: exI [of _ "w_tables w"])
  next
    case (ok project w1)
    have w1: "w_tables w1 = w_tables w" "pj_id project = trim_space (cd_project_id cmd)"
      using resolveProject_tables [OF ok(1)] by auto
    from ok(2) show ?thesis
    proof (cases rule: andThen_cases)
      case fail
      then show ?thesis using w1 by (auto simp: from_res_def intro: exI [of _ "w_tables w"])
    next
      case (ok trig w2)
      have w2: "w_tables w2 = w_tables w" using ok(1) w1 by (auto simp: from_res_def)
      from ok(2) show ?thesis
      proof (cases rule: andThen_cases)
        case fail
        from load_blueprint_tables [OF compiler fail(1)] fail(2) w2 show ?thesis
          by (auto intro!: exI [of _ "w_tables w'"])
      next
        case (ok b w3)
        have "?result (w_tables w3)"
          using ok(2) w1(2) unfolding repo_writes
          by (auto elim!: andThen_cases dest!: db_writeD split: prod.splits sum.splits)
            (auto simp: ToDesiredStateRevisionRecord_def parseCompiledRevision_def Let_def
              buildDesiredStateRevisionCompiledRecord_def)
        with load_blueprint_tables [OF compiler ok(1)] w2 show ?thesis by auto
      qed
    qed
  qed
qed

text \<open>A request for two services, and a compiler that inserts a blueprint of theirs.\<close>

definition demo_create :: CreateDeploymentCommand where
  "demo_create = \<lparr>cd_user = ''u'', cd_role = ''admin'', cd_project_id = ''p'', cd_blueprint_id = [],
     cd_trigger_kind = [], cd_source_ref = [], cd_service_ids = [''s1'', ''s2'']\<rparr>"

definition demo_compiler :: blueprint_compiler where
  "demo_compiler project trig src ids w = (Ok (''b2'', pj_id project, demo_contract),
     w\<lparr>w_tables := (w_tables w)\<lparr>t_blueprints := t_blueprints (w_tables w) @
        [\<lparr>bp_id = ''b2'', bp_project_id = pj_id project, bp_compiled = JsonDoc demo_contract\<rparr>]\<rparr>\<rparr>)"

theorem CreateDeployment_effect_witness:
  "\<exists>rv dep. t_revisions (w_tables (snd (CreateDeployment (Some demo_compiler) demo_create
        (demo_world ''queued'' ''queued'' [])))) =
      t_revisions (demo_tables ''queued'' ''queued'') @ [rv] \<and> de_revision_id dep = rv_id rv \<and>
    t_deployments (w_tables (snd (CreateDeployment (Some demo_compiler) demo_create
        (demo_world ''queued'' ''queued'' [])))) =
      t_deployments (demo_tables ''queued'' ''queued'') @ [dep]"
proof -
  let ?w = "demo_world ''queued'' ''queued'' []" and ?C = "CreateDeployment (Some demo_compiler) demo_create"
  have w: "w_faults ?w = []" "w_tables ?w = demo_tables ''queued'' ''queued''" by (simp_all add: demo_world_def)
  have res: "resolveProjectForAccess ''u'' ''admin'' ''p'' ?w = (Ok (hd (t_projects (demo_tables ''queued'' ''queued''))), ?w)"
    by (simp add: w resolveProjectForAccess_def RoleAdmin_def ProjectGetByID_def Let_def andThen_def)
      (simp add: demo_tables_def)
  have trig: "normalizeManualDeploymentTriggerKind [] = Ok ''manual''"
    by (simp add: normalizeManualDeploymentTriggerKind_def)
  have bp: "load_blueprint (Some demo_compiler) pr demo_create tr v = demo_compiler pr tr [] [''s1'', ''s2''] v" for pr tr v
    by (simp add: load_blueprint_def demo_create_def trim_space_def trim_left_def trim_right_def)
  have "is_ok (fst (?C ?w))"
    by (simp add: CreateDeployment_def demo_create_def [THEN arg_cong [where f = cd_user]]
        demo_create_def [THEN arg_cong [where f = cd_role]]
        demo_create_def [THEN arg_cong [where f = cd_project_id]]
        demo_create_def [THEN arg_cong [where f = cd_trigger_kind]] res trig bp demo_compiler_def
        andThen_def Let_def repo_writes w ToDesiredStateRevisionRecord_def parseCompiledRevision_def)
  then obtain rec dep where run: "?C ?w = (Ok (rec, dep), snd (?C ?w))"
    by (metis is_ok_iff prod.collapse surj_pair)
  have "compiler_inserts_blueprint (Some demo_compiler)"
    by (simp add: compiler_inserts_blueprint_def demo_compiler_def)
  from CreateDeployment_effect [OF this run] show ?thesis by (auto simp: w adds_at_most_def)
qed

end
