(* ===== verification/Drivers.thy ===== *)
theory Drivers
  imports Commands
begin

text \<open>
  The runtime drivers and their registry: \<open>backend/internal/runtime/registry.go\<close>,
  \<open>standalone_driver.go\<close>, \<open>distributed_mesh_driver.go\<close>, \<open>distributed_k3s_driver.go\<close>.
  A value of the Go interface \<open>RuntimeDriver\<close> is a record of functions; the locale
  \<open>rollout_driver\<close> states what the rollout service relies on, and each driver is an interpretation
  of it.
\<close>

section \<open>The interface\<close>

definition validRuntimeModes :: "string list" where
  "validRuntimeModes =
     [RuntimeModeStandalone, RuntimeModeDistributedMesh, RuntimeModeDistributedK3s]"

datatype DriverCapability =
    CapabilityWorkloadScheduling | CapabilityMeshRouting | CapabilityKubernetesNative
  | CapabilityLocalProcess | CapabilityGatewayManagement | CapabilityHealthProbing
  | CapabilityScaleToZero

record DriverInfo =
  di_mode :: string
  di_capabilities :: "DriverCapability list"

record TargetSpec =
  ts_kind :: string
  ts_id :: string
  ts_mode :: string

record RolloutRequest =
  rq_project_id :: string
  rq_revision_id :: string
  rq_binding_id :: string
  rq_payload :: "payload option"

record RolloutStep =
  rs_kind :: string
  rs_command :: AgentCommand

record DriverPlan =
  dp_steps :: "RolloutStep list"
  dp_mode :: string
  dp_target_kind :: string

record RuntimeDriver =
  drv_mode :: string
  drv_info :: DriverInfo
  drv_validate :: "TargetSpec \<Rightarrow> go_err option"
  drv_plan :: "RolloutRequest \<Rightarrow> DriverPlan res"
  drv_execute :: "AgentCommand \<Rightarrow> CommandResult res"

text \<open>A step as the drivers write it: the fields they leave out have their zero values.\<close>

definition plan_step :: "string \<Rightarrow> string \<Rightarrow> string \<Rightarrow> RolloutRequest \<Rightarrow> RolloutStep" where
  "plan_step kind ty source req =
     \<lparr>rs_kind = kind,
      rs_command = \<lparr>cmd_type = ty, cmd_request_id = [], cmd_correlation_id = [], cmd_agent_id = [],
        cmd_project_id = rq_project_id req, cmd_source = source, cmd_occurred_at = None,
        cmd_payload = rq_payload req\<rparr>\<rparr>"

definition dispatched :: "string \<Rightarrow> AgentCommand \<Rightarrow> CommandResult" where
  "dispatched name cmd =
     \<lparr>cr_request_id = cmd_request_id cmd, cr_status = ''dispatched'',
      cr_output = [''driver'' \<mapsto> AnyStr name, ''command'' \<mapsto> AnyStr (cmd_type cmd)], cr_error = []\<rparr>"

section \<open>The standalone driver\<close>

definition StandaloneInfo :: DriverInfo where
  "StandaloneInfo = \<lparr>di_mode = RuntimeModeStandalone, di_capabilities =
     [CapabilityLocalProcess, CapabilityGatewayManagement, CapabilityHealthProbing,
      CapabilityScaleToZero]\<rparr>"

definition StandaloneValidateTarget :: "TargetSpec \<Rightarrow> go_err option" where
  "StandaloneValidateTarget t =
     (if ts_kind t \<noteq> ''instance'' then Some (Errorf ''standalone driver requires target kind instance'')
      else if ts_id t = [] then Some (Errorf ''standalone driver requires non-empty target_id'')
      else None)"

definition StandalonePlanRollout :: "RolloutRequest \<Rightarrow> DriverPlan res" where
  "StandalonePlanRollout req = Ok
     \<lparr>dp_steps =
        [plan_step ''prepare_workspace'' ''prepare_release_workspace'' ''standalone_driver'' req,
         plan_step ''render_sidecars'' ''render_sidecars'' ''standalone_driver'' req,
         plan_step ''render_gateway_config'' ''render_gateway_config'' ''standalone_driver'' req,
         plan_step ''reconcile'' ''reconcile_revision'' ''standalone_driver'' req,
         plan_step ''provision_internal_services'' ''provision_internal_services'' ''standalone_driver'' req,
         plan_step ''start_candidate'' ''start_release_candidate'' ''standalone_driver'' req,
         plan_step ''health_gate'' ''run_health_gate'' ''standalone_driver'' req,
         plan_step ''promote'' ''promote_release'' ''standalone_driver'' req],
      dp_mode = RuntimeModeStandalone, dp_target_kind = ''instance''\<rparr>"

definition standalone_valid_types :: "string list" where
  "standalone_valid_types =
     [''prepare_release_workspace'', ''render_sidecars'', ''render_gateway_config'',
      ''reconcile_revision'', ''provision_internal_services'', ''start_release_candidate'',
      ''run_health_gate'', ''promote_release'', ''rollback_release'', ''garbage_collect_runtime'']"

text \<open>
  The optional dispatcher and hub: the connected agents and what \<open>DispatchCommand\<close> answers.
\<close>

definition StandaloneExecuteCommand ::
  "(string list \<times> (string \<Rightarrow> AgentCommand \<Rightarrow> CommandResult res)) option \<Rightarrow> AgentCommand
   \<Rightarrow> CommandResult res" where
  "StandaloneExecuteCommand d cmd =
     (if cmd_type cmd = [] then Fail (Errorf ''command type is required'')
      else if cmd_type cmd \<notin> set standalone_valid_types
      then Fail (Errorf (''unsupported command type '' @ cmd_type cmd @ '' for standalone driver''))
      else case d of
          None \<Rightarrow> Ok (dispatched ''standalone'' cmd)
        | Some (agents, dispatch) \<Rightarrow>
            (case agents of
               [] \<Rightarrow> Ok \<lparr>cr_request_id = cmd_request_id cmd, cr_status = ''failed'',
                  cr_output = [''driver'' \<mapsto> AnyStr ''standalone'', ''command'' \<mapsto> AnyStr (cmd_type cmd),
                    ''reason'' \<mapsto> AnyStr ''no connected agents found''], cr_error = []\<rparr>
             | a # as \<Rightarrow> dispatch a cmd))"

definition StandaloneDriver ::
  "(string list \<times> (string \<Rightarrow> AgentCommand \<Rightarrow> CommandResult res)) option \<Rightarrow> RuntimeDriver" where
  "StandaloneDriver d =
     \<lparr>drv_mode = RuntimeModeStandalone, drv_info = StandaloneInfo,
      drv_validate = StandaloneValidateTarget, drv_plan = StandalonePlanRollout,
      drv_execute = StandaloneExecuteCommand d\<rparr>"

section \<open>The mesh driver\<close>

definition MeshInfo :: DriverInfo where
  "MeshInfo = \<lparr>di_mode = RuntimeModeDistributedMesh, di_capabilities =
     [CapabilityMeshRouting, CapabilityHealthProbing, CapabilityScaleToZero,
      CapabilityGatewayManagement]\<rparr>"

definition MeshValidateTarget :: "TargetSpec \<Rightarrow> go_err option" where
  "MeshValidateTarget t =
     (if ts_kind t \<noteq> ''mesh_network''
      then Some (Errorf ''distributed-mesh driver requires target kind mesh_network'')
      else if ts_id t = [] then Some (Errorf ''distributed-mesh driver requires non-empty target_id'')
      else None)"

definition MeshPlanRollout :: "RolloutRequest \<Rightarrow> DriverPlan res" where
  "MeshPlanRollout req = Ok
     \<lparr>dp_steps =
        [plan_step ''ensure_mesh_peers'' ''ensure_mesh_peer'' ''distributed_mesh_driver'' req,
         plan_step ''sync_overlay_routes'' ''sync_overlay_routes'' ''distributed_mesh_driver'' req,
         plan_step ''render_sidecars'' ''render_sidecars'' ''distributed_mesh_driver'' req,
         plan_step ''render_gateway_config'' ''render_gateway_config'' ''distributed_mesh_driver'' req,
         plan_step ''reconcile'' ''reconcile_revision'' ''distributed_mesh_driver'' req,
         plan_step ''health_gate'' ''run_health_gate'' ''distributed_mesh_driver'' req,
         plan_step ''promote'' ''promote_release'' ''distributed_mesh_driver'' req],
      dp_mode = RuntimeModeDistributedMesh, dp_target_kind = ''mesh_network''\<rparr>"

definition mesh_valid_types :: "string list" where
  "mesh_valid_types =
     [''ensure_mesh_peer'', ''sync_overlay_routes'', ''render_sidecars'', ''render_gateway_config'',
      ''reconcile_revision'', ''start_release_candidate'', ''run_health_gate'', ''promote_release'',
      ''rollback_release'', ''garbage_collect_runtime'']"

definition MeshExecuteCommand :: "AgentCommand \<Rightarrow> CommandResult res" where
  "MeshExecuteCommand cmd =
     (if cmd_type cmd = [] then Fail (Errorf ''command type is required'')
      else if cmd_type cmd \<notin> set mesh_valid_types
      then Fail (Errorf (''unsupported command type '' @ cmd_type cmd @ '' for mesh driver''))
      else Ok (dispatched ''distributed_mesh'' cmd))"

definition DistributedMeshDriver :: RuntimeDriver where
  "DistributedMeshDriver =
     \<lparr>drv_mode = RuntimeModeDistributedMesh, drv_info = MeshInfo,
      drv_validate = MeshValidateTarget, drv_plan = MeshPlanRollout,
      drv_execute = MeshExecuteCommand\<rparr>"

section \<open>The k3s driver\<close>

definition K3sInfo :: DriverInfo where
  "K3sInfo = \<lparr>di_mode = RuntimeModeDistributedK3s, di_capabilities =
     [CapabilityKubernetesNative, CapabilityHealthProbing, CapabilityGatewayManagement]\<rparr>"

definition K3sValidateTarget :: "TargetSpec \<Rightarrow> go_err option" where
  "K3sValidateTarget t =
     (if ts_kind t \<noteq> ''cluster''
      then Some (Errorf ''distributed-k3s driver requires target kind cluster'')
      else if ts_id t = [] then Some (Errorf ''distributed-k3s driver requires non-empty target_id'')
      else None)"

definition K3sPlanRollout :: "RolloutRequest \<Rightarrow> DriverPlan res" where
  "K3sPlanRollout req = Ok
     \<lparr>dp_steps =
        [plan_step ''render_gateway_config'' ''render_gateway_config'' ''distributed_k3s_driver'' req,
         plan_step ''reconcile'' ''reconcile_revision'' ''distributed_k3s_driver'' req,
         plan_step ''health_gate'' ''run_health_gate'' ''distributed_k3s_driver'' req,
         plan_step ''promote'' ''promote_release'' ''distributed_k3s_driver'' req],
      dp_mode = RuntimeModeDistributedK3s, dp_target_kind = ''cluster''\<rparr>"

definition k3s_forbidden :: "string list" where
  "k3s_forbidden =
     [''docker_run'', ''docker_stop'', ''docker_rm'', ''direct_deploy'', ''sleep_service'',
      ''wake_service'', ''scale_to_zero'']"

definition guardK3sBoundary :: "AgentCommand \<Rightarrow> go_err option" where
  "guardK3sBoundary cmd =
     (if cmd_type cmd \<in> set k3s_forbidden
      then Some (Errorf (''command '' @ cmd_type cmd @ '' is forbidden in distributed-k3s mode''))
      else None)"

definition k3s_valid_types :: "string list" where
  "k3s_valid_types =
     [''render_gateway_config'', ''reconcile_revision'', ''start_release_candidate'',
      ''run_health_gate'', ''promote_release'', ''rollback_release'', ''garbage_collect_runtime'']"

definition K3sExecuteCommand :: "AgentCommand \<Rightarrow> CommandResult res" where
  "K3sExecuteCommand cmd =
     (if cmd_type cmd = [] then Fail (Errorf ''command type is required'')
      else case guardK3sBoundary cmd of
          Some err \<Rightarrow> Fail err
        | None \<Rightarrow>
            (if cmd_type cmd \<notin> set k3s_valid_types
             then Fail (Errorf (''unsupported command type '' @ cmd_type cmd @ '' for k3s driver''))
             else Ok (dispatched ''distributed_k3s'' cmd)))"

definition DistributedK3sDriver :: RuntimeDriver where
  "DistributedK3sDriver =
     \<lparr>drv_mode = RuntimeModeDistributedK3s, drv_info = K3sInfo,
      drv_validate = K3sValidateTarget, drv_plan = K3sPlanRollout,
      drv_execute = K3sExecuteCommand\<rparr>"

section \<open>The registry\<close>

type_synonym Registry = "string \<rightharpoonup> RuntimeDriver"

definition NewRegistry :: Registry where "NewRegistry = Map.empty"

definition RegisterDriver :: "RuntimeDriver \<Rightarrow> Registry \<Rightarrow> unit res \<times> Registry" where
  "RegisterDriver d r =
     (case r (drv_mode d) of
        Some other \<Rightarrow> (Fail (Errorf (''runtime driver already registered for mode '' @ drv_mode d)), r)
      | None \<Rightarrow> (Ok (), r(drv_mode d \<mapsto> d)))"

definition GetDriver :: "string \<Rightarrow> Registry \<Rightarrow> RuntimeDriver res" where
  "GetDriver mode r =
     (case r mode of
        None \<Rightarrow> Fail (Errorf (''no runtime driver registered for mode '' @ mode))
      | Some d \<Rightarrow> Ok d)"

definition ListDrivers :: "string list \<Rightarrow> Registry \<Rightarrow> DriverInfo list" where
  "ListDrivers ks r = map drv_info (List.map_filter r ks)"

definition IsValidRuntimeMode :: "string \<Rightarrow> bool" where
  "IsValidRuntimeMode mode \<longleftrightarrow> mode \<in> set validRuntimeModes"

definition ValidateRuntimeMode :: "string \<Rightarrow> go_err option" where
  "ValidateRuntimeMode mode =
     (if IsValidRuntimeMode mode then None else Some (Errorf (''invalid runtime mode '' @ mode)))"

text \<open>The registry the server starts with.\<close>

definition app_registry :: Registry where
  "app_registry =
     snd (RegisterDriver DistributedK3sDriver (snd (RegisterDriver DistributedMeshDriver
       (snd (RegisterDriver (StandaloneDriver None) NewRegistry)))))"

section \<open>The contract of a driver\<close>

locale rollout_driver =
  fixes d :: RuntimeDriver and kind :: string and types :: "string list" and head_types :: "string list"
  assumes plan: "\<exists>p. drv_plan d req = Ok p \<and> dp_mode p = drv_mode d \<and> dp_target_kind p = kind \<and>
      map (\<lambda>s. cmd_type (rs_command s)) (dp_steps p) =
        head_types @ [CommandTypeRunHealthGate, CommandTypePromoteRelease] \<and>
      (\<forall>s \<in> set (dp_steps p). cmd_payload (rs_command s) = rq_payload req \<and>
         cmd_project_id (rs_command s) = rq_project_id req)"
    and validate: "drv_validate d t = None \<longleftrightarrow> ts_kind t = kind \<and> ts_id t \<noteq> []"
    and accepts: "cmd_type c \<in> set types \<Longrightarrow> drv_execute d c = Fail e \<Longrightarrow> False"
    and rejects: "cmd_type c \<notin> set types \<Longrightarrow> \<exists>e. drv_execute d c = Fail e"
    and head: "set head_types \<subseteq> set types \<inter> set ValidAgentCommands"
      "CommandTypeRunHealthGate \<notin> set head_types" "CommandTypePromoteRelease \<notin> set head_types"
      "CommandTypeRollbackRelease \<notin> set head_types"
    and tail: "{CommandTypeRunHealthGate, CommandTypePromoteRelease, CommandTypeRollbackRelease,
      CommandTypeGarbageCollectRuntime} \<subseteq> set types"
begin

lemma plan_types:
  "drv_plan d req = Ok p \<Longrightarrow> map (\<lambda>s. cmd_type (rs_command s)) (dp_steps p) =
     head_types @ [CommandTypeRunHealthGate, CommandTypePromoteRelease]"
  using plan [of req] by auto

lemma plan_step_type:
  assumes "drv_plan d req = Ok p" and "s \<in> set (dp_steps p)"
  shows "cmd_type (rs_command s) \<in> set types \<inter> set ValidAgentCommands"
proof -
  have "cmd_type (rs_command s) \<in> set (head_types @ [CommandTypeRunHealthGate, CommandTypePromoteRelease])"
    using assms(2) by (simp flip: plan_types [OF assms(1)])
  then show ?thesis
    using head(1) tail by (auto simp: ValidAgentCommands_def)
qed

lemma plan_executable:
  "drv_plan d req = Ok p \<Longrightarrow> s \<in> set (dp_steps p) \<Longrightarrow> is_ok (drv_execute d (rs_command s))"
  using plan_step_type [of req p s] accepts [of "rs_command s"]
  by (cases "drv_execute d (rs_command s)") auto

lemma gate_before_promote:
  assumes "drv_plan d req = Ok p"
  shows "\<exists>pre. map (\<lambda>s. cmd_type (rs_command s)) (dp_steps p) =
      pre @ [CommandTypeRunHealthGate, CommandTypePromoteRelease] \<and>
    {CommandTypeRunHealthGate, CommandTypePromoteRelease, CommandTypeRollbackRelease} \<inter> set pre = {}"
  using plan_types [OF assms] head(2-4) by blast

lemma plan_ok:
  "\<exists>p. drv_plan d req = Ok p \<and> dp_mode p = drv_mode d \<and>
    (\<forall>s \<in> set (dp_steps p). is_ok (drv_execute d (rs_command s)) \<and>
       IsValidAgentCommand (cmd_type (rs_command s)) \<and> cmd_payload (rs_command s) = rq_payload req) \<and>
    map (\<lambda>s. cmd_type (rs_command s)) (dp_steps p) =
      head_types @ [CommandTypeRunHealthGate, CommandTypePromoteRelease] \<and>
    {CommandTypeRunHealthGate, CommandTypePromoteRelease, CommandTypeRollbackRelease} \<inter> set head_types = {}"
proof -
  obtain p where p: "drv_plan d req = Ok p" and "dp_mode p = drv_mode d"
    and "\<forall>s \<in> set (dp_steps p). cmd_payload (rs_command s) = rq_payload req"
    using plan [of req] by blast
  with plan_executable [OF p] plan_step_type [OF p] plan_types [OF p] head(2-4) show ?thesis
    by (auto simp: IsValidAgentCommand_def)
qed

lemma plan_total: "is_ok (drv_plan d req)"
  using plan [of req] by auto

end

interpretation standalone: rollout_driver "StandaloneDriver None" "''instance''" standalone_valid_types
  "[''prepare_release_workspace'', ''render_sidecars'', ''render_gateway_config'',
    ''reconcile_revision'', ''provision_internal_services'', ''start_release_candidate'']"
  by unfold_locales
    (auto simp: StandaloneDriver_def StandalonePlanRollout_def plan_step_def command_types
      StandaloneValidateTarget_def StandaloneExecuteCommand_def standalone_valid_types_def
      ValidAgentCommands_def split: if_splits)

interpretation mesh: rollout_driver DistributedMeshDriver "''mesh_network''" mesh_valid_types
  "[''ensure_mesh_peer'', ''sync_overlay_routes'', ''render_sidecars'', ''render_gateway_config'',
    ''reconcile_revision'']"
  by unfold_locales
    (auto simp: DistributedMeshDriver_def MeshPlanRollout_def plan_step_def command_types
      MeshValidateTarget_def MeshExecuteCommand_def mesh_valid_types_def ValidAgentCommands_def
      split: if_splits)

interpretation k3s: rollout_driver DistributedK3sDriver "''cluster''" k3s_valid_types
  "[''render_gateway_config'', ''reconcile_revision'']"
  by unfold_locales
    (auto simp: DistributedK3sDriver_def K3sPlanRollout_def plan_step_def command_types
      K3sValidateTarget_def K3sExecuteCommand_def k3s_valid_types_def k3s_forbidden_def
      guardK3sBoundary_def ValidAgentCommands_def split: if_splits)

section \<open>Properties\<close>

lemma app_registry_drivers:
  "app_registry =
     [RuntimeModeStandalone \<mapsto> StandaloneDriver None, RuntimeModeDistributedMesh \<mapsto> DistributedMeshDriver,
      RuntimeModeDistributedK3s \<mapsto> DistributedK3sDriver]"
  by (simp add: app_registry_def NewRegistry_def RegisterDriver_def StandaloneDriver_def
      DistributedMeshDriver_def DistributedK3sDriver_def runtime_modes)

lemma app_registry_cases:
  assumes "GetDriver mode app_registry = Ok d"
  obtains "mode = RuntimeModeStandalone" "d = StandaloneDriver None"
  | "mode = RuntimeModeDistributedMesh" "d = DistributedMeshDriver"
  | "mode = RuntimeModeDistributedK3s" "d = DistributedK3sDriver"
  using assms by (auto simp: GetDriver_def app_registry_drivers split: if_splits)

lemma driver_modes [simp]:
  "drv_mode (StandaloneDriver disp) = RuntimeModeStandalone"
  "drv_mode DistributedMeshDriver = RuntimeModeDistributedMesh"
  "drv_mode DistributedK3sDriver = RuntimeModeDistributedK3s"
  by (simp_all add: StandaloneDriver_def DistributedMeshDriver_def DistributedK3sDriver_def)

lemma app_driver_plan_shape:
  assumes "GetDriver mode app_registry = Ok d" and "drv_plan d req = Ok p"
  shows "\<exists>pre. map (\<lambda>s. cmd_type (rs_command s)) (dp_steps p) =
      pre @ [CommandTypeRunHealthGate, CommandTypePromoteRelease] \<and>
    {CommandTypeRunHealthGate, CommandTypePromoteRelease, CommandTypeRollbackRelease} \<inter> set pre = {}"
  using assms standalone.gate_before_promote mesh.gate_before_promote k3s.gate_before_promote
  by (cases rule: app_registry_cases) blast+

text \<open>
  The server's registry has a driver for a mode exactly when the mode is one of the three
  valid runtime modes, and then the driver is one for that mode and accepts exactly the targets of
  one kind (instance, mesh_network, cluster) that have an id.
\<close>

theorem app_registry_lookup:
  "(is_ok (GetDriver mode app_registry) \<longleftrightarrow> IsValidRuntimeMode mode) \<and>
   (\<forall>d. GetDriver mode app_registry = Ok d \<longrightarrow>
      drv_mode d = mode \<and>
      (\<forall>t. drv_validate d t = None \<longleftrightarrow> ts_id t \<noteq> [] \<and>
         ts_kind t = (if mode = RuntimeModeStandalone then ''instance''
           else if mode = RuntimeModeDistributedMesh then ''mesh_network'' else ''cluster'')))"
proof (intro conjI allI impI)
  show "is_ok (GetDriver mode app_registry) \<longleftrightarrow> IsValidRuntimeMode mode"
    by (simp add: GetDriver_def app_registry_drivers IsValidRuntimeMode_def validRuntimeModes_def)
next
  fix d assume d: "GetDriver mode app_registry = Ok d"
  then show "drv_mode d = mode" by (cases rule: app_registry_cases) simp_all
  fix t
  from d show "drv_validate d t = None \<longleftrightarrow> ts_id t \<noteq> [] \<and>
         ts_kind t = (if mode = RuntimeModeStandalone then ''instance''
           else if mode = RuntimeModeDistributedMesh then ''mesh_network'' else ''cluster'')"
    by (cases rule: app_registry_cases)
      (auto simp: standalone.validate mesh.validate k3s.validate runtime_modes)
qed

theorem app_registry_lookup_witness:
  "\<exists>d. GetDriver ''distributed-k3s'' app_registry = Ok d \<and> drv_mode d = ''distributed-k3s''"
proof -
  have "is_ok (GetDriver ''distributed-k3s'' app_registry)"
    using app_registry_lookup [of "''distributed-k3s''"]
    by (simp add: IsValidRuntimeMode_def validRuntimeModes_def runtime_modes)
  then show ?thesis
    using app_registry_lookup [of "''distributed-k3s''"] by (auto simp: is_ok_iff)
qed

text \<open>
  Property C9: the plan of every driver of the registry is one its own driver executes and the agents
  understand: planning succeeds, every step's command is accepted by \<open>ExecuteCommand\<close> and is a valid
  agent command, the health gate is the last step but one and the promotion the last, neither occurs
  earlier, no step is a rollback, and only the standalone plan starts a release candidate.
\<close>

theorem driver_plans_ok:
  assumes "GetDriver mode app_registry = Ok d"
  shows "\<exists>p pre. drv_plan d req = Ok p \<and> dp_mode p = mode \<and>
    (\<forall>s \<in> set (dp_steps p). is_ok (drv_execute d (rs_command s)) \<and>
       IsValidAgentCommand (cmd_type (rs_command s)) \<and> cmd_payload (rs_command s) = rq_payload req) \<and>
    map (\<lambda>s. cmd_type (rs_command s)) (dp_steps p) =
      pre @ [CommandTypeRunHealthGate, CommandTypePromoteRelease] \<and>
    {CommandTypeRunHealthGate, CommandTypePromoteRelease, CommandTypeRollbackRelease} \<inter> set pre = {} \<and>
    (CommandTypeStartReleaseCandidate \<in> set pre \<longleftrightarrow> mode = RuntimeModeStandalone)"
  using assms
proof (cases rule: app_registry_cases)
  case 1
  have "CommandTypeStartReleaseCandidate \<in> set [''prepare_release_workspace'', ''render_sidecars'', ''render_gateway_config'',
      ''reconcile_revision'', ''provision_internal_services'', ''start_release_candidate''] \<longleftrightarrow> mode = RuntimeModeStandalone"
    by (simp add: 1 command_types runtime_modes)
  with standalone.plan_ok [of req] show ?thesis unfolding 1 driver_modes by blast
next
  case 2
  have "CommandTypeStartReleaseCandidate \<in> set [''ensure_mesh_peer'', ''sync_overlay_routes'', ''render_sidecars'', ''render_gateway_config'',
      ''reconcile_revision''] \<longleftrightarrow> mode = RuntimeModeStandalone"
    by (simp add: 2 command_types runtime_modes)
  with mesh.plan_ok [of req] show ?thesis unfolding 2 driver_modes by blast
next
  case 3
  have "CommandTypeStartReleaseCandidate \<in> set [''render_gateway_config'', ''reconcile_revision''] \<longleftrightarrow> mode = RuntimeModeStandalone"
    by (simp add: 3 command_types runtime_modes)
  with k3s.plan_ok [of req] show ?thesis unfolding 3 driver_modes by blast
qed

theorem driver_plans_ok_witness:
  "\<exists>p. drv_plan DistributedMeshDriver
      \<lparr>rq_project_id = ''p'', rq_revision_id = ''r'', rq_binding_id = ''b'', rq_payload = None\<rparr> = Ok p \<and>
    dp_mode p = RuntimeModeDistributedMesh"
proof -
  have "GetDriver RuntimeModeDistributedMesh app_registry = Ok DistributedMeshDriver"
    by (simp add: GetDriver_def app_registry_drivers runtime_modes)
  then show ?thesis by (blast dest: driver_plans_ok)
qed

end
