(* ===== verification/RolloutPlanner.thy ===== *)
theory RolloutPlanner
  imports Deployment Drivers
begin

text \<open>
  The rollout planner, \<open>backend/internal/service/rollout_planner.go\<close>: planning a candidate,
  the health gate, promotion, rollback planning and finalization, and runtime incidents.
  The planner's optional collaborators (public domains, routing, manifest generator, project
  environment, operator hub) are the fields of \<open>RolloutPlanner\<close>; \<open>None\<close> is a nil pointer.
  Values a payload holds are written as the JSON documents the agents receive.
\<close>

section \<open>Collaborators\<close>

record manifest_input =
  mi_namespace :: string
  mi_project_id :: string
  mi_revision_id :: string
  mi_services :: "K3sServiceSpec list"
  mi_public_domains :: "PublicDomain list"
  mi_routing_policy :: RoutingPolicy

record domain_input =
  di_project_id :: string
  di_project_slug :: string
  di_runtime_mode :: string
  di_target_kind :: string
  di_target_id :: string
  di_services :: "ServiceContract list"
  di_placements :: "PlacementAssignment list"

record RolloutPlanner =
  pl_registry :: Registry
  pl_hub :: bool
  pl_project_env :: "(string \<Rightarrow> tables \<Rightarrow> entries res) option"
  pl_public_domains :: "(domain_input \<Rightarrow> tables \<Rightarrow> PublicDomain list) option"
  pl_routing :: "(string \<Rightarrow> ServiceContract list \<Rightarrow> string \<Rightarrow> tables \<Rightarrow> RoutingPolicy res) option"
  pl_manifest_gen :: "(manifest_input \<Rightarrow> ManifestBundle res) option"

record RolloutPlan =
  rpl_steps :: "RolloutStep list"
  rpl_mode :: string
  rpl_target_kind :: string
  rpl_revision_id :: string
  rpl_project_id :: string

record ServiceHealth =
  sh_name :: string
  sh_healthy :: bool
  sh_healthcheck :: entries
  sh_message :: string

record HealthGateResult =
  hg_revision_id :: string
  hg_deployment_id :: string
  hg_passed :: bool
  hg_services :: "ServiceHealth list"

record PromotionResult =
  pm_revision_id :: string
  pm_deployment_id :: string
  pm_promoted_at :: time

record RollbackPlan =
  rb_deployment_id :: string
  rb_failed_revision_id :: string
  rb_restored_revision_id :: string
  rb_commit_sha :: string
  rb_payload :: "payload option"

record RollbackResult =
  rbr_deployment_id :: string
  rbr_rolled_back_to :: string
  rbr_commit_sha :: string
  rbr_rolled_back_at :: time

definition with_tables :: "(tables \<Rightarrow> 'a) \<Rightarrow> 'a wprog" where
  "with_tables f = (\<lambda>w. (Ok (f (w_tables w)), w))"

definition broadcast :: "RolloutPlanner \<Rightarrow> string \<Rightarrow> payload \<Rightarrow> unit wprog" where
  "broadcast p ty payload = (if pl_hub p then BroadcastEvent ty payload else return ())"

section \<open>Documents of a payload\<close>

definition any_strs :: "(string \<times> string) list \<Rightarrow> payload" where
  "any_strs kvs = map_of (map (\<lambda>(k, v). (k, AnyStr v)) kvs)"

definition any_opt :: "entries option \<Rightarrow> any" where
  "any_opt p = (case p of None \<Rightarrow> AnyNil | Some m \<Rightarrow> AnyMap (map_of m))"

definition any_env :: "(string \<rightharpoonup> string) \<Rightarrow> any" where
  "any_env m = AnyMap (\<lambda>k. map_option AnyStr (m k))"

definition any_port :: "DetectedPort \<Rightarrow> any" where
  "any_port p = AnyMap [''port'' \<mapsto> AnyInt (dpt_port p), ''protocol'' \<mapsto> AnyStr (dpt_protocol p),
     ''name'' \<mapsto> AnyStr (dpt_name p), ''exposed'' \<mapsto> AnyBool (dpt_exposed p)]"

definition any_service :: "ServiceContract \<Rightarrow> any" where
  "any_service s = AnyMap (any_strs
     [(''Name'', sv_name s), (''Path'', sv_path s), (''Kind'', sv_kind s),
      (''RuntimeProfile'', sv_runtime_profile s), (''PlacementMode'', sv_placement_mode s),
      (''PlacementNodeID'', sv_placement_node_id s), (''StartHint'', sv_start_hint s),
      (''ImageRef'', sv_image_ref s), (''ImageDigest'', sv_image_digest s)]
     ++ [''Public'' \<mapsto> AnyBool (sv_public s), ''TargetPort'' \<mapsto> AnyInt (sv_target_port s),
         ''ServicePort'' \<mapsto> AnyInt (sv_service_port s), ''Replicas'' \<mapsto> AnyInt (sv_replicas s),
         ''DetectedPorts'' \<mapsto> AnyList (map any_port (sv_detected_ports s)),
         ''EnvBundle'' \<mapsto> any_env (sv_env_bundle s), ''PVCSpec'' \<mapsto> any_opt (sv_pvc_spec s),
         ''DeployStrategy'' \<mapsto> any_opt (sv_deploy_strategy s),
         ''Healthcheck'' \<mapsto> any_opt (sv_healthcheck s), ''rest'' \<mapsto> sv_rest s])"

definition any_service_spec :: "K3sServiceSpec \<Rightarrow> any" where
  "any_service_spec s = AnyMap (any_strs
     [(''name'', ks_name s), (''kind'', ks_kind s), (''namespace'', ks_namespace s),
      (''path'', ks_path s), (''placement_mode'', ks_placement_mode s),
      (''placement_node_id'', ks_placement_node_id s), (''runtime_profile'', ks_runtime_profile s),
      (''start_hint'', ks_start_hint s), (''image_ref'', ks_image_ref s),
      (''image_digest'', ks_image_digest s)]
     ++ [''public'' \<mapsto> AnyBool (ks_public s), ''target_port'' \<mapsto> AnyInt (ks_target_port s),
         ''service_port'' \<mapsto> AnyInt (ks_service_port s), ''replicas'' \<mapsto> AnyInt (ks_replicas s),
         ''healthcheck'' \<mapsto> any_opt (ks_healthcheck s),
         ''detected_ports'' \<mapsto> AnyList (map any_port (ks_detected_ports s)),
         ''env_bundle'' \<mapsto> any_env (ks_env_bundle s), ''pvc_spec'' \<mapsto> any_opt (ks_pvc_spec s),
         ''deploy_strategy'' \<mapsto> any_opt (ks_deploy_strategy s)])"

definition any_dependency :: "DependencyBinding \<Rightarrow> any" where
  "any_dependency d = AnyMap (any_strs
     [(''service'', db_service d), (''alias'', db_alias d), (''target_service'', db_target_service d),
      (''protocol'', db_protocol d), (''local_endpoint'', db_local_endpoint d)])"

definition any_internal_binding :: "InternalBinding \<Rightarrow> any" where
  "any_internal_binding b = AnyMap (any_strs
     [(''service_name'', ib_service_name b), (''alias'', ib_alias b),
      (''target_service'', ib_target_service b), (''host'', ib_host b), (''protocol'', ib_protocol b),
      (''url'', ib_url b), (''connection_string'', ib_connection_string b)]
     ++ [''port'' \<mapsto> AnyInt (ib_port b)])"

definition any_route :: "Route \<Rightarrow> any" where
  "any_route r = AnyMap (any_strs
     [(''path'', rt_path r), (''service'', rt_service r), (''strip_prefix_mode'', rt_strip_prefix_mode r)]
     ++ [''port'' \<mapsto> AnyInt (rt_port r), ''websocket'' \<mapsto> AnyBool (rt_websocket r),
         ''strip_prefix'' \<mapsto> AnyBool (rt_strip_prefix r)])"

definition any_routing :: "RoutingPolicy \<Rightarrow> any" where
  "any_routing p = AnyMap [''shared_domain'' \<mapsto> AnyStr (rp_shared_domain p),
     ''routes'' \<mapsto> AnyList (map any_route (rp_routes p))]"

definition any_placement :: "PlacementAssignment \<Rightarrow> any" where
  "any_placement a = AnyMap (any_strs
     [(''ServiceName'', pa_service_name a), (''TargetID'', pa_target_id a),
      (''TargetKind'', pa_target_kind a)] ++ [''Labels'' \<mapsto> any_env (pa_labels a)])"

definition any_health :: "ServiceHealth \<Rightarrow> any" where
  "any_health h = AnyMap (any_strs [(''ServiceName'', sh_name h), (''Message'', sh_message h)]
     ++ [''Healthy'' \<mapsto> AnyBool (sh_healthy h), ''Healthcheck'' \<mapsto> AnyMap (map_of (sh_healthcheck h))])"

definition toPublicDomainPayloads :: "PublicDomain list \<Rightarrow> any list" where
  "toPublicDomainPayloads ds = map (\<lambda>d. AnyMap (any_strs
     [(''service_name'', pd_service_name d), (''primary_host'', pd_primary_host d),
      (''fallback_host'', pd_fallback_host d), (''primary_url'', pd_primary_url d),
      (''fallback_url'', pd_fallback_url d)])) ds"

definition toManifestBundlePayload :: "ManifestBundle \<Rightarrow> payload option" where
  "toManifestBundlePayload b =
     (if mb_namespace b = [] \<and> mb_combined_yaml b = [] \<and> mb_documents b = [] then None
      else Some (any_strs [(''namespace'', mb_namespace b), (''combined_yaml'', mb_combined_yaml b),
            (''rollback_yaml'', mb_rollback_yaml b)]
          ++ [''generated_at'' \<mapsto> AnyInt (mb_generated_at b),
              ''documents'' \<mapsto> AnyList (map (\<lambda>d. AnyMap (any_strs
                 [(''name'', md_name d), (''kind'', md_kind d), (''path'', md_path d),
                  (''content'', md_content d)])) (mb_documents b))]))"

section \<open>Planning a candidate\<close>

definition shouldRenderK3sManifest :: "string \<Rightarrow> string \<Rightarrow> bool" where
  "shouldRenderK3sManifest mode kind \<longleftrightarrow>
     trim_space mode = RuntimeModeDistributedK3s \<and> trim_space kind = ''cluster''"

fun firstPublicDomainHost :: "PublicDomain list \<Rightarrow> string" where
  "firstPublicDomainHost [] = []"
| "firstPublicDomainHost (d # ds) =
     (if trim_space (pd_primary_host d) \<noteq> [] then trim_space (pd_primary_host d)
      else if trim_space (pd_fallback_host d) \<noteq> [] then trim_space (pd_fallback_host d)
      else firstPublicDomainHost ds)"

definition routingPolicyRecordToLazyops :: "RoutingPolicy \<Rightarrow> RoutingPolicy" where
  "routingPolicyRecordToLazyops p =
     \<lparr>rp_shared_domain = trim_space (rp_shared_domain p), rp_routes = rp_routes p\<rparr>"

definition toManifestRoutingPolicy :: "RoutingPolicy \<Rightarrow> RoutingPolicy" where
  "toManifestRoutingPolicy p =
     \<lparr>rp_shared_domain = trim_space (rp_shared_domain p),
      rp_routes = map (\<lambda>r. r\<lparr>rt_strip_prefix_mode := []\<rparr>) (rp_routes p)\<rparr>"

text \<open>The newest promoted revision of the project other than the excluded one.\<close>

definition findLastStableRevision :: "string \<Rightarrow> string \<Rightarrow> DesiredStateRevision wprog" where
  "findLastStableRevision projectID excludeRevisionID =
     andThen (RevisionListByProject projectID) (\<lambda>revisions.
       case List.find (\<lambda>r. rv_status r = RevisionStatusPromoted \<and>
            trim_space (rv_id r) \<noteq> trim_space excludeRevisionID) (rev revisions) of
         Some r \<Rightarrow> return r
       | None \<Rightarrow> raise (Sentinel ErrNoStableRevision))"

definition findStableRevisionSnapshot ::
  "string \<Rightarrow> string \<Rightarrow> (ManifestBundle \<times> DesiredStateRevision) wprog" where
  "findStableRevisionSnapshot projectID excludeRevisionID =
     andThen (findLastStableRevision projectID excludeRevisionID) (\<lambda>revision.
     andThen (from_res (resolveManifestBundleSnapshot revision)) (\<lambda>manifest.
     return (manifest, revision)))"

definition persistRevisionSnapshot ::
  "DesiredStateRevision \<Rightarrow> CompiledRevision \<Rightarrow> DesiredStateRevision wprog" where
  "persistRevisionSnapshot revision compiled =
     andThen now_utc (\<lambda>now.
     andThen (wrapping ''persist revision snapshot''
       (RevisionUpdateSnapshot (rv_id revision) (JsonDoc compiled) (JsonDoc (cp_manifest_bundle compiled)) now))
       (\<lambda>_. return (revision\<lparr>rv_compiled := JsonDoc compiled,
              rv_manifest := JsonDoc (cp_manifest_bundle compiled), rv_updated_at := now\<rparr>)))"

definition revision_payload ::
  "string \<Rightarrow> DesiredStateRevision \<Rightarrow> DeploymentBinding \<Rightarrow> CompiledRevision \<Rightarrow> payload" where
  "revision_payload projectID revision binding compiled =
     any_strs
       [(''revision_id'', rv_id revision), (''project_id'', projectID),
        (''project_slug'', cp_project_slug compiled),
        (''namespace'', firstNonEmptyCompiledValue [cp_namespace compiled, rv_namespace revision]),
        (''blueprint_id'', rv_blueprint_id revision),
        (''deployment_binding_id'', cp_deployment_binding_id compiled),
        (''commit_sha'', rv_commit_sha revision), (''artifact_ref'', cp_artifact_ref compiled),
        (''image_ref'', cp_image_ref compiled), (''trigger_kind'', rv_trigger_kind revision),
        (''runtime_mode'', bi_runtime_mode binding)]
     ++ [''services'' \<mapsto> AnyList (map any_service (cp_services compiled)),
         ''service_specs'' \<mapsto> AnyList (map any_service_spec (cp_service_specs compiled)),
         ''dependency_bindings'' \<mapsto> AnyList (map any_dependency (cp_dependency_bindings compiled)),
         ''internal_bindings'' \<mapsto> AnyList (map any_internal_binding (cp_internal_bindings compiled)),
         ''compatibility_policy'' \<mapsto> cp_compatibility_policy compiled,
         ''magic_domain_policy'' \<mapsto> cp_magic_domain_policy compiled,
         ''scale_to_zero_policy'' \<mapsto> cp_scale_to_zero_policy compiled,
         ''routing_policy'' \<mapsto> any_routing (cp_routing_policy compiled),
         ''placement_assignments'' \<mapsto>
            AnyList (map any_placement (cp_placement_assignments compiled))]
     ++ (if cp_public_domains compiled \<noteq> []
         then [''public_domains'' \<mapsto> AnyList (toPublicDomainPayloads (cp_public_domains compiled))]
         else Map.empty)
     ++ (case toManifestBundlePayload (cp_manifest_bundle compiled) of
           None \<Rightarrow> Map.empty | Some b \<Rightarrow> [''manifest_bundle'' \<mapsto> AnyMap b])"

definition prepare_payload ::
  "string \<Rightarrow> DesiredStateRevision \<Rightarrow> DeploymentBinding \<Rightarrow> CompiledRevision \<Rightarrow> payload" where
  "prepare_payload projectID revision binding compiled =
     [''project'' \<mapsto> AnyMap (any_strs [(''project_id'', projectID), (''slug'', cp_project_slug compiled),
         (''namespace'', firstNonEmptyCompiledValue [cp_namespace compiled, rv_namespace revision])]),
      ''binding'' \<mapsto> AnyMap (any_strs [(''binding_id'', bi_id binding), (''project_id'', projectID),
         (''name'', bi_name binding), (''target_ref'', bi_target_ref binding),
         (''runtime_mode'', bi_runtime_mode binding), (''target_kind'', bi_target_kind binding),
         (''target_id'', bi_target_id binding)]),
      ''revision'' \<mapsto> AnyMap (revision_payload projectID revision binding compiled)]"

definition buildPreparePayload ::
  "RolloutPlanner \<Rightarrow> string \<Rightarrow> DesiredStateRevision \<Rightarrow> DeploymentBinding \<Rightarrow> CompiledRevision
   \<Rightarrow> payload wprog" where
  "buildPreparePayload p projectID revision binding compiled =
     (let base = prepare_payload projectID revision binding compiled
      in case pl_project_env p of
           None \<Rightarrow> return base
         | Some load \<Rightarrow>
             andThen (with_tables (load projectID)) (\<lambda>res.
             case res of
               Inl err \<Rightarrow> raise (Wrapped ''load project env'' err)
             | Inr env \<Rightarrow> return (if env \<noteq> [] then base(''project_env'' \<mapsto> AnyMap (map_of env)) else base)))"

text \<open>The manifest the k3s agents apply, with the newest stable manifest to roll back to.\<close>

definition render_manifest ::
  "RolloutPlanner \<Rightarrow> string \<Rightarrow> DesiredStateRevision \<Rightarrow> CompiledRevision
   \<Rightarrow> (manifest_input \<Rightarrow> ManifestBundle res) \<Rightarrow> CompiledRevision wprog" where
  "render_manifest p projectID revision compiled gen =
     (case gen \<lparr>mi_namespace = firstNonEmptyCompiledValue [cp_namespace compiled, rv_namespace revision],
         mi_project_id = projectID, mi_revision_id = rv_id revision,
         mi_services = cp_service_specs compiled, mi_public_domains = cp_public_domains compiled,
         mi_routing_policy = toManifestRoutingPolicy (cp_routing_policy compiled)\<rparr> of
        Inl err \<Rightarrow> raise (Wrapped ''generate k3s manifest bundle'' err)
      | Inr bundle \<Rightarrow>
          andThen (attempt (findStableRevisionSnapshot projectID (rv_id revision))) (\<lambda>res.
          let rollback = (case res of
                Inr (source, r) \<Rightarrow>
                  if trim_space (mb_combined_yaml source) \<noteq> [] then mb_combined_yaml source
                  else mb_rollback_yaml bundle
              | Inl err \<Rightarrow> if err_is err ErrNoStableRevision then [] else mb_rollback_yaml bundle)
          in return (compiled\<lparr>cp_manifest_bundle := bundle\<lparr>mb_rollback_yaml := rollback\<rparr>\<rparr>)))"

definition materializeRuntimeSnapshot ::
  "RolloutPlanner \<Rightarrow> string \<Rightarrow> DesiredStateRevision \<Rightarrow> DeploymentBinding \<Rightarrow> CompiledRevision
   \<Rightarrow> (CompiledRevision \<times> payload) wprog" where
  "materializeRuntimeSnapshot p projectID revision binding compiled =
     andThen (case pl_public_domains p of
         None \<Rightarrow> return compiled
       | Some resolve \<Rightarrow>
           andThen (with_tables (resolve \<lparr>di_project_id = projectID,
               di_project_slug = cp_project_slug compiled, di_runtime_mode = bi_runtime_mode binding,
               di_target_kind = bi_target_kind binding, di_target_id = bi_target_id binding,
               di_services = cp_services compiled, di_placements = cp_placement_assignments compiled\<rparr>))
             (\<lambda>domains. return (if domains \<noteq> [] then compiled\<lparr>cp_public_domains := domains\<rparr> else compiled)))
       (\<lambda>compiled.
     andThen (case pl_routing p of
         None \<Rightarrow> return compiled
       | Some resolve \<Rightarrow>
           andThen (with_tables (resolve projectID (cp_services compiled)
               (firstPublicDomainHost (cp_public_domains compiled)))) (\<lambda>res.
           return (case res of
             Inr policy \<Rightarrow> compiled\<lparr>cp_routing_policy := routingPolicyRecordToLazyops policy\<rparr>
           | Inl err \<Rightarrow> compiled)))
       (\<lambda>compiled.
     andThen (case pl_manifest_gen p of
         Some gen \<Rightarrow>
           if shouldRenderK3sManifest (bi_runtime_mode binding) (bi_target_kind binding)
           then render_manifest p projectID revision compiled gen else return compiled
       | None \<Rightarrow> return compiled)
       (\<lambda>compiled.
     andThen (persistRevisionSnapshot revision compiled) (\<lambda>revision.
     andThen (buildPreparePayload p projectID revision binding compiled) (\<lambda>payload.
     return (compiled, payload))))))"

text \<open>The revision, its document and its binding, as \<open>PlanCandidate\<close> and \<open>PlanRollback\<close> read them.\<close>

definition load_binding :: "string \<Rightarrow> CompiledRevision \<Rightarrow> DeploymentBinding wprog" where
  "load_binding projectID compiled =
     andThen (wrapping ''resolve binding''
       (BindingGetByIDForProject projectID (cp_deployment_binding_id compiled))) (\<lambda>found.
     case found of
       None \<Rightarrow> raise (Errorf (''deployment binding '' @ cp_deployment_binding_id compiled @ '' not found''))
     | Some b \<Rightarrow> return b)"

definition load_revision :: "string \<Rightarrow> string \<Rightarrow> DesiredStateRevision wprog" where
  "load_revision projectID revisionID =
     andThen (RevisionGetByIDForProject projectID revisionID) (\<lambda>found.
     case found of None \<Rightarrow> raise (Sentinel ErrRevisionNotFound) | Some r \<Rightarrow> return r)"

definition PlanCandidate :: "RolloutPlanner \<Rightarrow> string \<Rightarrow> string \<Rightarrow> RolloutPlan wprog" where
  "PlanCandidate p projectID revisionID =
     andThen (load_revision projectID revisionID) (\<lambda>revision.
     andThen (wrapping ''parse compiled revision'' (from_res (parseCompiledRevision (rv_compiled revision))))
       (\<lambda>compiled.
     andThen (load_binding projectID compiled) (\<lambda>binding.
     andThen (wrapping ''no driver for mode'' (from_res (GetDriver (bi_runtime_mode binding) (pl_registry p))))
       (\<lambda>driver.
     case drv_validate driver \<lparr>ts_kind = bi_target_kind binding, ts_id = bi_target_id binding,
          ts_mode = bi_runtime_mode binding\<rparr> of
       Some err \<Rightarrow> raise (Wrapped ''target validation failed'' err)
     | None \<Rightarrow>
         andThen (materializeRuntimeSnapshot p projectID revision binding compiled) (\<lambda>(compiled, payload).
         andThen (wrapping ''plan rollout'' (from_res (drv_plan driver
             \<lparr>rq_project_id = projectID, rq_revision_id = rv_id revision, rq_binding_id = bi_id binding,
              rq_payload = Some payload\<rparr>))) (\<lambda>plan.
         return \<lparr>rpl_steps = dp_steps plan, rpl_mode = dp_mode plan,
           rpl_target_kind = dp_target_kind plan, rpl_revision_id = rv_id revision,
           rpl_project_id = projectID\<rparr>))))))"

section \<open>Health gate and promotion\<close>

definition ExecuteHealthGate :: "string \<Rightarrow> string \<Rightarrow> string \<Rightarrow> HealthGateResult wprog" where
  "ExecuteHealthGate projectID deploymentID revisionID =
     andThen (load_revision projectID revisionID) (\<lambda>revision.
     andThen (wrapping ''parse compiled revision'' (from_res (parseCompiledRevision (rv_compiled revision))))
       (\<lambda>compiled.
     return \<lparr>hg_revision_id = revisionID, hg_deployment_id = deploymentID, hg_passed = True,
       hg_services = map (\<lambda>svc. \<lparr>sh_name = sv_name svc, sh_healthy = True,
         sh_healthcheck = (case sv_healthcheck svc of None \<Rightarrow> [] | Some h \<Rightarrow> h),
         sh_message = []\<rparr>) (cp_services compiled)\<rparr>))"

definition PromoteCandidate :: "RolloutPlanner \<Rightarrow> string \<Rightarrow> string \<Rightarrow> string \<Rightarrow> PromotionResult wprog" where
  "PromoteCandidate p projectID deploymentID revisionID =
     andThen (load_revision projectID revisionID) (\<lambda>revision.
     if rv_status revision \<noteq> RevisionStatusArtifactReady \<and> rv_status revision \<noteq> RevisionStatusPlanned \<and>
        rv_status revision \<noteq> RevisionStatusApplying
     then raise (Wrapped (''cannot promote from status '' @ rv_status revision)
       (Sentinel ErrInvalidRevisionStateTransition))
     else andThen now_utc (\<lambda>now.
       andThen (RevisionUpdateStatus revisionID RevisionStatusPromoted now) (\<lambda>_.
       andThen (DeploymentUpdateStatus deploymentID DeploymentStatusPromoted None (Some now) now) (\<lambda>_.
       andThen (broadcast p ''deployment.promoted'' (any_strs
           [(''deployment_id'', deploymentID), (''revision_id'', revisionID), (''project_id'', projectID),
            (''commit_sha'', rv_commit_sha revision)])) (\<lambda>_.
       return \<lparr>pm_revision_id = revisionID, pm_deployment_id = deploymentID, pm_promoted_at = now\<rparr>)))))"

section \<open>Incidents\<close>

definition new_incident ::
  "string \<Rightarrow> string \<Rightarrow> string \<Rightarrow> string \<Rightarrow> string \<Rightarrow> string \<Rightarrow> payload option \<Rightarrow> string \<Rightarrow> time
   \<Rightarrow> string \<Rightarrow> RuntimeIncident" where
  "new_incident projectID deploymentID revisionID kind severity summary details triggeredBy at iid =
     \<lparr>inc_id = iid, inc_project_id = projectID, inc_deployment_id = deploymentID,
      inc_revision_id = revisionID, inc_kind = kind, inc_severity = severity,
      inc_status = IncidentStatusOpen, inc_summary = summary, inc_details = details,
      inc_triggered_by = triggeredBy, inc_resolved_at = None, inc_created_at = at, inc_updated_at = at\<rparr>"

definition RecordIncident ::
  "RolloutPlanner \<Rightarrow> string \<Rightarrow> string \<Rightarrow> string \<Rightarrow> string \<Rightarrow> string \<Rightarrow> string \<Rightarrow> payload option \<Rightarrow> string
   \<Rightarrow> RuntimeIncident wprog" where
  "RecordIncident p projectID deploymentID revisionID kind severity summary details triggeredBy =
     andThen now_utc (\<lambda>now.
     andThen (NewPrefixedID ''inc'') (\<lambda>iid.
     let incident = new_incident projectID deploymentID revisionID kind severity summary details
           triggeredBy now iid
     in andThen (IncidentCreate incident) (\<lambda>_.
        andThen (broadcast p ''incident.created'' (any_strs
           [(''incident_id'', iid), (''project_id'', projectID), (''deployment_id'', deploymentID),
            (''kind'', kind), (''severity'', severity), (''summary'', summary)])) (\<lambda>_.
        return incident))))"

definition createIncident ::
  "string \<Rightarrow> string \<Rightarrow> string \<Rightarrow> string \<Rightarrow> string \<Rightarrow> string \<Rightarrow> payload option \<Rightarrow> string \<Rightarrow> time
   \<Rightarrow> unit wprog" where
  "createIncident projectID deploymentID revisionID kind severity summary details triggeredBy at =
     andThen (NewPrefixedID ''inc'') (\<lambda>iid.
       IncidentCreate (new_incident projectID deploymentID revisionID kind severity summary details
         triggeredBy at iid))"

section \<open>Rollback\<close>

definition rollback_failure ::
  "string \<Rightarrow> string \<Rightarrow> string \<Rightarrow> string \<Rightarrow> payload \<Rightarrow> unit wprog" where
  "rollback_failure projectID deploymentID revisionID summary details =
     andThen now_utc (\<lambda>now. ignoring (createIncident projectID deploymentID revisionID
       IncidentKindRollbackFailure IncidentSeverityCritical summary (Some details) [] now))"

definition load_deployment :: "string \<Rightarrow> string \<Rightarrow> Deployment wprog" where
  "load_deployment projectID deploymentID =
     andThen (DeploymentGetByIDForProject projectID deploymentID) (\<lambda>found.
     case found of None \<Rightarrow> raise (Sentinel ErrDeploymentNotFound) | Some d \<Rightarrow> return d)"

text \<open>The last stable revision, with an incident if there is none.\<close>

definition stable_or_incident :: "string \<Rightarrow> string \<Rightarrow> string \<Rightarrow> DesiredStateRevision wprog" where
  "stable_or_incident projectID deploymentID revisionID =
     andThen (attempt (findLastStableRevision projectID revisionID)) (\<lambda>res.
     case res of
       Inr r \<Rightarrow> return r
     | Inl err \<Rightarrow>
         andThen (rollback_failure projectID deploymentID revisionID
           ''no stable revision found for rollback''
           (any_strs [(''deployment_id'', deploymentID), (''error'', error_text err)])) (\<lambda>_. raise err))"

text \<open>
  The k3s branch of \<open>PlanRollback\<close>: the snapshot of the last stable revision must have a manifest,
  which becomes the rollback manifest of the failed revision's own snapshot.
\<close>

definition plan_k3s_rollback ::
  "RolloutPlanner \<Rightarrow> string \<Rightarrow> string \<Rightarrow> Deployment \<Rightarrow> DesiredStateRevision \<Rightarrow> CompiledRevision
   \<Rightarrow> DeploymentBinding \<Rightarrow> DesiredStateRevision \<Rightarrow> RollbackPlan wprog" where
  "plan_k3s_rollback p projectID deploymentID deployment revision compiled binding lastStable =
     andThen (attempt (findStableRevisionSnapshot projectID (de_revision_id deployment))) (\<lambda>res.
     case res of
       Inl err \<Rightarrow>
         andThen (rollback_failure projectID deploymentID (de_revision_id deployment)
           ''stable revision snapshot is missing rollback manifest''
           (any_strs [(''deployment_id'', deploymentID), (''restored_revision'', rv_id lastStable),
              (''restored_commit_sha'', rv_commit_sha lastStable), (''error'', error_text err)])) (\<lambda>_.
         raise err)
     | Inr (bundle, restored) \<Rightarrow>
         if trim_space (mb_combined_yaml bundle) = [] then
           andThen (rollback_failure projectID deploymentID (de_revision_id deployment)
             ''stable revision snapshot is missing rollback manifest''
             (any_strs [(''deployment_id'', deploymentID), (''restored_revision'', rv_id restored),
                (''restored_commit_sha'', rv_commit_sha restored)])) (\<lambda>_.
           raise (Errorf (''stable revision '' @ rv_id restored @ '' is missing rollback manifest snapshot'')))
         else
           let current = cp_manifest_bundle compiled;
               current = (if trim_space (mb_namespace current) = []
                 then current\<lparr>mb_namespace := mb_namespace bundle\<rparr> else current);
               compiled = compiled\<lparr>cp_manifest_bundle :=
                 current\<lparr>mb_rollback_yaml := mb_combined_yaml bundle\<rparr>\<rparr>
           in andThen (persistRevisionSnapshot revision compiled) (\<lambda>revision.
              andThen (buildPreparePayload p projectID revision binding compiled) (\<lambda>payload.
              return \<lparr>rb_deployment_id = deploymentID,
                rb_failed_revision_id = de_revision_id deployment, rb_restored_revision_id = rv_id restored,
                rb_commit_sha = rv_commit_sha restored, rb_payload = Some payload\<rparr>)))"

definition PlanRollback :: "RolloutPlanner \<Rightarrow> string \<Rightarrow> string \<Rightarrow> RollbackPlan wprog" where
  "PlanRollback p projectID deploymentID =
     andThen (load_deployment projectID deploymentID) (\<lambda>deployment.
     if de_status deployment = DeploymentStatusRolledBack
     then raise (Sentinel ErrRollbackAlreadyRolledBack)
     else andThen (load_revision projectID (de_revision_id deployment)) (\<lambda>revision.
       andThen (wrapping ''parse compiled revision'' (from_res (parseCompiledRevision (rv_compiled revision))))
         (\<lambda>compiled.
       andThen (load_binding projectID compiled) (\<lambda>binding.
       andThen (stable_or_incident projectID deploymentID (de_revision_id deployment)) (\<lambda>lastStable.
       if \<not> shouldRenderK3sManifest (bi_runtime_mode binding) (bi_target_kind binding) then
         return \<lparr>rb_deployment_id = deploymentID, rb_failed_revision_id = de_revision_id deployment,
           rb_restored_revision_id = rv_id lastStable, rb_commit_sha = rv_commit_sha lastStable,
           rb_payload = Some (any_strs [(''deployment_id'', deploymentID),
             (''revision_id'', de_revision_id deployment)])\<rparr>
       else plan_k3s_rollback p projectID deploymentID deployment revision compiled binding lastStable)))))"

definition FinalizeRollback ::
  "RolloutPlanner \<Rightarrow> string \<Rightarrow> string \<Rightarrow> string \<Rightarrow> string \<Rightarrow> RollbackResult wprog" where
  "FinalizeRollback p projectID deploymentID failedRevisionID restoredRevisionID =
     andThen (load_deployment projectID deploymentID) (\<lambda>deployment.
     andThen (RevisionGetByIDForProject projectID restoredRevisionID) (\<lambda>found.
     case found of
       None \<Rightarrow> raise (Sentinel ErrNoStableRevision)
     | Some restored \<Rightarrow>
         andThen now_utc (\<lambda>now.
         andThen (if trim_space failedRevisionID \<noteq> []
             then ignoring (RevisionUpdateStatus failedRevisionID RevisionStatusRolledBack now)
             else return ()) (\<lambda>_.
         andThen (DeploymentUpdateStatus deploymentID DeploymentStatusRolledBack (de_started_at deployment)
             (Some now) now) (\<lambda>_.
         andThen (broadcast p ''deployment.rolled_back'' (any_strs
             [(''deployment_id'', deploymentID), (''rolled_back_to'', rv_id restored),
              (''project_id'', projectID), (''commit_sha'', rv_commit_sha restored)])) (\<lambda>_.
         return \<lparr>rbr_deployment_id = deploymentID, rbr_rolled_back_to = rv_id restored,
           rbr_commit_sha = rv_commit_sha restored, rbr_rolled_back_at = now\<rparr>))))))"

definition RollbackDeployment :: "RolloutPlanner \<Rightarrow> string \<Rightarrow> string \<Rightarrow> RollbackResult wprog" where
  "RollbackDeployment p projectID deploymentID =
     andThen (load_deployment projectID deploymentID) (\<lambda>deployment.
     if de_status deployment = DeploymentStatusRolledBack
     then raise (Sentinel ErrRollbackAlreadyRolledBack)
     else andThen (stable_or_incident projectID deploymentID (de_revision_id deployment)) (\<lambda>lastStable.
       FinalizeRollback p projectID deploymentID (de_revision_id deployment) (rv_id lastStable)))"

end
