(* ===== verification/RolloutExecution.thy ===== *)
theory RolloutExecution
  imports RolloutPlanner
begin

text \<open>
  The rollout execution service, \<open>backend/internal/service/rollout_execution_service.go\<close>:
  the loop that sends a plan's commands to the agent, the health gate, promotion and garbage
  collection, the automatic rollback, and the recovery of deployments when an agent reconnects.
  A Go function that returns a result together with an error returns a pair here; the result that
  several functions extend through a pointer is threaded through them.
\<close>

section \<open>The service\<close>

record RolloutExecutionService =
  ex_planner :: RolloutPlanner
  ex_clusters :: bool
  ex_evaluator :: "(string \<Rightarrow> string \<Rightarrow> string \<Rightarrow> HealthGateResult wprog) option"

record RolloutExecutionResult =
  er_deployment_id :: string
  er_revision_id :: string
  er_agent_id :: string
  er_correlation_id :: string
  er_dispatched :: "string list"
  er_health_gate :: "HealthGateResult option"
  er_promotion :: "PromotionResult option"
  er_rollback :: "RollbackResult option"
  er_already_started :: bool

type_synonym outcome = "RolloutExecutionResult \<times> go_err option"

text \<open>\<open>if x, err := m; err != nil { return result, err }\<close>, continuing with \<open>x\<close>.\<close>

definition or_return ::
  "RolloutExecutionResult \<Rightarrow> 'a wprog \<Rightarrow> ('a \<Rightarrow> outcome wprog) \<Rightarrow> outcome wprog" where
  "or_return result m k =
     andThen (attempt m) (\<lambda>res. case res of Inl e \<Rightarrow> return (result, Some e) | Inr x \<Rightarrow> k x)"

section \<open>The dispatcher\<close>

definition DispatchTo :: "string \<Rightarrow> AgentCommand \<Rightarrow> CommandResult wprog" where
  "DispatchTo agentID cmd = (\<lambda>w.
     (let w' = w\<lparr>w_sent := w_sent w @ [(agentID, cmd)]\<rparr>
      in case w_turns w of
           [] \<Rightarrow> (Fail (Errorf (''agent '' @ agentID @ '' is not connected'')), w')
         | t # ts \<Rightarrow> (at_dispatch t, w'\<lparr>w_turns := ts, w_awaiting := Some t\<rparr>)))"

definition WaitForCommand :: "string \<Rightarrow> TrackedCommand option wprog" where
  "WaitForCommand requestID = (\<lambda>w.
     case w_awaiting w of
       None \<Rightarrow> (Fail (Errorf (''command '' @ requestID @ '' not tracked'')), w)
     | Some t \<Rightarrow> (at_wait t, w\<lparr>w_awaiting := None, w_tables := at_meanwhile t (w_tables w)\<rparr>))"

definition enrichRolloutCommand :: "AgentCommand \<Rightarrow> string \<Rightarrow> string \<Rightarrow> string \<Rightarrow> AgentCommand" where
  "enrichRolloutCommand cmd projectID revisionID correlationID =
     (let payload = (case cmd_payload cmd of None \<Rightarrow> Map.empty | Some p \<Rightarrow> p)
      in cmd\<lparr>cmd_project_id := projectID, cmd_correlation_id := correlationID,
           cmd_source := ''backend'',
           cmd_payload := Some (case payload ''revision_id'' of
             None \<Rightarrow> payload(''revision_id'' \<mapsto> AnyStr revisionID) | Some v \<Rightarrow> payload)\<rparr>)"

definition new_command :: "string \<Rightarrow> string \<Rightarrow> payload \<Rightarrow> AgentCommand" where
  "new_command ty projectID payload =
     \<lparr>cmd_type = ty, cmd_request_id = [], cmd_correlation_id = [], cmd_agent_id = [],
      cmd_project_id = projectID, cmd_source = ''rollout_execution_service'',
      cmd_occurred_at = None, cmd_payload = Some payload\<rparr>"

definition output_any :: "entries \<Rightarrow> string \<Rightarrow> any" where
  "output_any out k = (case map_of out k of None \<Rightarrow> AnyNil | Some v \<Rightarrow> v)"

definition state_name :: "CommandState \<Rightarrow> string" where
  "state_name s = (case s of CommandStatePending \<Rightarrow> ''pending'' | CommandStateRunning \<Rightarrow> ''running''
     | CommandStateDone \<Rightarrow> ''done'' | CommandStateFailed \<Rightarrow> ''failed''
     | CommandStateCancelled \<Rightarrow> ''cancelled'' | CommandStateOther x \<Rightarrow> x)"

definition present :: "entries \<Rightarrow> string \<Rightarrow> string \<Rightarrow> payload" where
  "present out src dst = (case map_of out src of None \<Rightarrow> Map.empty | Some v \<Rightarrow> [dst \<mapsto> v])"

definition broadcastRolloutProgress ::
  "RolloutPlanner \<Rightarrow> string \<Rightarrow> string \<Rightarrow> string \<Rightarrow> string \<Rightarrow> int \<Rightarrow> int \<Rightarrow> string \<Rightarrow> TrackedCommand
   \<Rightarrow> unit wprog" where
  "broadcastRolloutProgress p deploymentID revisionID projectID correlationID stepIndex totalSteps
     commandType tracked =
     (let ids = any_strs [(''deployment_id'', deploymentID), (''revision_id'', revisionID),
            (''project_id'', projectID), (''correlation_id'', correlationID),
            (''command_type'', commandType)];
          out = tc_output tracked;
          payload = ids ++ [''state'' \<mapsto> AnyStr (state_name (tc_state tracked)),
              ''summary'' \<mapsto> output_any out ''summary'', ''step_index'' \<mapsto> AnyInt stepIndex,
              ''total_steps'' \<mapsto> AnyInt totalSteps]
            ++ (if out \<noteq> [] then [''command_output'' \<mapsto> AnyMap (map_of out)] else Map.empty)
            ++ present out ''rollout_progress'' ''rollout_progress''
            ++ present out ''ingress_observations'' ''ingress_observations''
      in andThen (broadcast p ''deployment.rollout_progress'' payload) (\<lambda>_.
         case map_of out ''ingress_observations'' of
           None \<Rightarrow> return ()
         | Some ingress \<Rightarrow> broadcast p ''deployment.ingress_status''
             (ids ++ [''ingress_observations'' \<mapsto> ingress])))"

section \<open>Resolving the target\<close>

definition normalizeClusterStatus :: "string \<Rightarrow> string" where
  "normalizeClusterStatus status =
     (let s = trim_space (to_lower status)
      in if s \<in> {''ready'', ''degraded'', ''unreachable'', ''revoked''} then s else ''validating'')"

definition ClusterStatusReady :: string where "ClusterStatusReady = ''ready''"

definition agent_of_instance :: "Instance option \<Rightarrow> string option" where
  "agent_of_instance inst =
     (case inst of
        None \<Rightarrow> None
      | Some i \<Rightarrow>
          (case in_agent_id i of
             None \<Rightarrow> None
           | Some a \<Rightarrow> if trim_space a = [] \<or> equal_fold (in_status i) ''offline'' then None
               else Some (trim_space a)))"

definition resolveRolloutAgent ::
  "RolloutExecutionService \<Rightarrow> DeploymentBinding \<Rightarrow> (string \<times> string) wprog" where
  "resolveRolloutAgent s binding =
     (if bi_runtime_mode binding = RuntimeModeStandalone \<and> bi_target_kind binding = ''instance'' then
        andThen (InstanceGetByID (bi_target_id binding)) (\<lambda>inst.
        case agent_of_instance inst of
          None \<Rightarrow> raise (Sentinel ErrRolloutAgentUnavailable)
        | Some a \<Rightarrow> return (a, ''instance:'' @ bi_target_id binding))
      else if bi_runtime_mode binding = RuntimeModeDistributedK3s \<and> bi_target_kind binding = ''cluster''
      then if \<not> ex_clusters s then raise (Sentinel ErrRolloutUnsupportedTarget)
        else andThen (ClusterGetByID (bi_target_id binding)) (\<lambda>found.
          case found of
            None \<Rightarrow> raise (Sentinel ErrTargetNotFound)
          | Some cluster \<Rightarrow>
              if normalizeClusterStatus (cl_status cluster) \<noteq> ClusterStatusReady
              then raise (Sentinel ErrClusterNotReady)
              else case cl_instance_id cluster of
                  None \<Rightarrow> raise (Sentinel ErrRolloutAgentUnavailable)
                | Some iid \<Rightarrow>
                    if trim_space iid = [] then raise (Sentinel ErrRolloutAgentUnavailable)
                    else andThen (InstanceGetByID (trim_space iid)) (\<lambda>inst.
                      case agent_of_instance inst of
                        None \<Rightarrow> raise (Sentinel ErrRolloutAgentUnavailable)
                      | Some a \<Rightarrow> return (a, ''cluster:'' @ bi_target_id binding)))
      else raise (Sentinel ErrRolloutUnsupportedTarget))"

section \<open>Status helpers\<close>

text \<open>A transition whose refusal by the state machine is not an error.\<close>

definition tolerating :: "sentinel \<Rightarrow> 'a wprog \<Rightarrow> unit wprog" where
  "tolerating x m = andThen (attempt m) (\<lambda>res.
     case res of
       Inl e \<Rightarrow> if \<not> err_is e x then raise e else return ()
     | Inr r \<Rightarrow> return ())"

definition failDeployment :: "string \<Rightarrow> string \<Rightarrow> string \<Rightarrow> unit wprog" where
  "failDeployment projectID deploymentID revisionID =
     andThen (tolerating ErrInvalidDeploymentStateTransition
       (TransitionDeploymentStatus projectID deploymentID DeploymentStatusFailed)) (\<lambda>_.
     tolerating ErrInvalidRevisionStateTransition
       (TransitionRevisionStatus projectID revisionID RevisionStatusFailed))"

definition rolloutAlreadyStarted :: "string \<Rightarrow> string \<Rightarrow> bool" where
  "rolloutAlreadyStarted deploymentStatus revisionStatus \<longleftrightarrow>
     deploymentStatus \<in> {DeploymentStatusRunning, DeploymentStatusCandidateReady,
       DeploymentStatusPromoted, DeploymentStatusFailed, DeploymentStatusRolledBack,
       DeploymentStatusCanceled} \<or>
     revisionStatus \<in> {RevisionStatusPlanned, RevisionStatusApplying, RevisionStatusPromoted,
       RevisionStatusFailed, RevisionStatusRolledBack, RevisionStatusSuperseded}"

definition compiledServicesHaveArtifacts :: "K3sServiceSpec list \<Rightarrow> ServiceContract list \<Rightarrow> bool" where
  "compiledServicesHaveArtifacts specs services \<longleftrightarrow>
     (\<exists>s \<in> set specs. trim_space (ks_image_ref s) \<noteq> []) \<or>
     (\<exists>s \<in> set services. trim_space (sv_image_ref s) \<noteq> [])"

definition step_done :: "string \<Rightarrow> Deployment option \<Rightarrow> DesiredStateRevision option \<Rightarrow> bool" where
  "step_done commandType dep rv =
     (case dep of
        None \<Rightarrow> False
      | Some d \<Rightarrow>
          (case rv of
             None \<Rightarrow> False
           | Some r \<Rightarrow>
               if commandType = CommandTypeRunHealthGate
               then de_status d = DeploymentStatusCandidateReady \<or> de_status d = DeploymentStatusPromoted
               else if commandType = CommandTypePromoteRelease
               then de_status d = DeploymentStatusPromoted \<and> rv_status r = RevisionStatusPromoted
               else False))"

definition shouldSkipRolloutStep :: "string \<Rightarrow> string \<Rightarrow> string \<Rightarrow> string \<Rightarrow> bool wprog" where
  "shouldSkipRolloutStep projectID deploymentID revisionID commandType =
     andThen (DeploymentGetByIDForProject projectID deploymentID) (\<lambda>dep.
     andThen (RevisionGetByIDForProject projectID revisionID) (\<lambda>rv.
     return (step_done commandType dep rv)))"

definition transitionDeploymentStatusIfNeeded ::
  "string \<Rightarrow> string \<Rightarrow> string \<Rightarrow> string list \<Rightarrow> unit wprog" where
  "transitionDeploymentStatusIfNeeded projectID deploymentID nextStatus alreadySatisfied =
     andThen (attempt (TransitionDeploymentStatus projectID deploymentID nextStatus)) (\<lambda>res.
     case res of
       Inr d \<Rightarrow> return ()
     | Inl err \<Rightarrow>
         if \<not> err_is err ErrInvalidDeploymentStateTransition then raise err
         else andThen (DeploymentGetByIDForProject projectID deploymentID) (\<lambda>found.
           case found of
             None \<Rightarrow> raise (Sentinel ErrDeploymentNotFound)
           | Some d \<Rightarrow> if trim_space (de_status d) \<in> set alreadySatisfied then return () else raise err))"

definition promoteCandidateIfNeeded ::
  "RolloutPlanner \<Rightarrow> string \<Rightarrow> string \<Rightarrow> string \<Rightarrow> PromotionResult wprog" where
  "promoteCandidateIfNeeded p projectID deploymentID revisionID =
     andThen (DeploymentGetByIDForProject projectID deploymentID) (\<lambda>dep.
     andThen (RevisionGetByIDForProject projectID revisionID) (\<lambda>rv.
     case (dep, rv) of
       (Some d, Some r) \<Rightarrow>
         if trim_space (de_status d) = DeploymentStatusPromoted \<and>
            trim_space (rv_status r) = RevisionStatusPromoted
         then return \<lparr>pm_revision_id = revisionID, pm_deployment_id = deploymentID,
                pm_promoted_at = de_updated_at d\<rparr>
         else PromoteCandidate p projectID deploymentID revisionID
     | _ \<Rightarrow> PromoteCandidate p projectID deploymentID revisionID))"

definition evaluateHealthGate ::
  "RolloutExecutionService \<Rightarrow> string \<Rightarrow> string \<Rightarrow> string \<Rightarrow> HealthGateResult wprog" where
  "evaluateHealthGate s projectID deploymentID revisionID =
     (case ex_evaluator s of
        Some ev \<Rightarrow> ev projectID deploymentID revisionID
      | None \<Rightarrow> ExecuteHealthGate projectID deploymentID revisionID)"

section \<open>Garbage collection and rollback\<close>

definition dispatchGarbageCollect ::
  "string \<Rightarrow> string \<Rightarrow> string \<Rightarrow> string \<Rightarrow> RolloutExecutionResult \<Rightarrow> outcome wprog" where
  "dispatchGarbageCollect projectID revisionID agentID correlationID result =
     (let cmd = enrichRolloutCommand (new_command CommandTypeGarbageCollectRuntime projectID
            [''revision_id'' \<mapsto> AnyStr revisionID]) projectID revisionID correlationID
      in or_return result (DispatchTo agentID cmd) (\<lambda>_.
         return (result\<lparr>er_dispatched := er_dispatched result @ [cmd_type cmd]\<rparr>, None)))"

text \<open>\<open>_ = failDeployment(...); return nil, err\<close>.\<close>

definition give_up ::
  "string \<Rightarrow> string \<Rightarrow> string \<Rightarrow> RolloutExecutionResult \<Rightarrow> go_err
   \<Rightarrow> (RolloutExecutionResult \<times> RollbackResult option \<times> go_err option) wprog" where
  "give_up projectID deploymentID revisionID result err =
     andThen (ignoring (failDeployment projectID deploymentID revisionID)) (\<lambda>_.
     return (result, None, Some err))"

definition rollbackDeployment ::
  "RolloutExecutionService \<Rightarrow> string \<Rightarrow> string \<Rightarrow> string \<Rightarrow> string \<Rightarrow> string \<Rightarrow> RolloutExecutionResult
   \<Rightarrow> (RolloutExecutionResult \<times> RollbackResult option \<times> go_err option) wprog" where
  "rollbackDeployment s projectID deploymentID revisionID agentID correlationID result =
     (let p = ex_planner s; giveUp = give_up projectID deploymentID revisionID
      in andThen (attempt (PlanRollback p projectID deploymentID)) (\<lambda>planned.
      case planned of
        Inl err \<Rightarrow> giveUp result err
      | Inr plan \<Rightarrow>
          (let payload = (case rb_payload plan of None \<Rightarrow> Map.empty | Some m \<Rightarrow> m);
               payload = payload(''failed_revision_id'' \<mapsto> AnyStr (rb_failed_revision_id plan),
                 ''restored_revision_id'' \<mapsto> AnyStr (rb_restored_revision_id plan));
               cmd = enrichRolloutCommand (new_command CommandTypeRollbackRelease projectID payload)
                 projectID revisionID correlationID
           in andThen (attempt (DispatchTo agentID cmd)) (\<lambda>sent.
           case sent of
             Inl err \<Rightarrow> giveUp result err
           | Inr cmdResult \<Rightarrow>
               (let result = result\<lparr>er_dispatched := er_dispatched result @ [cmd_type cmd]\<rparr>
                in andThen (attempt (WaitForCommand (cr_request_id cmdResult))) (\<lambda>waited.
                case waited of
                  Inl err \<Rightarrow> giveUp result err
                | Inr None \<Rightarrow> giveUp result (Errorf (''rollback command '' @ cmd_type cmd @ '' returned empty result''))
                | Inr (Some tracked) \<Rightarrow>
                    if tc_state tracked \<noteq> CommandStateDone
                    then giveUp result (if tc_error tracked \<noteq> []
                      then Errorf (''rollback command '' @ cmd_type cmd @ '' failed: '' @ tc_error tracked)
                      else Errorf (''rollback command '' @ cmd_type cmd @ '' returned state ''
                             @ state_name (tc_state tracked)))
                    else andThen (broadcastRolloutProgress p deploymentID revisionID projectID
                        correlationID (- 1) (- 1) (cmd_type cmd) tracked) (\<lambda>_.
                      andThen (attempt (FinalizeRollback p projectID deploymentID
                        (rb_failed_revision_id plan) (rb_restored_revision_id plan))) (\<lambda>finalized.
                      case finalized of
                        Inl err \<Rightarrow> giveUp result err
                      | Inr rollbackResult \<Rightarrow>
                          andThen (dispatchGarbageCollect projectID revisionID agentID correlationID result)
                            (\<lambda>(result, gcErr). return (result, Some rollbackResult, gcErr))))))))))"

text \<open>Roll back, record the rollback in the result and return its error, or else the given one.\<close>

definition roll_back_with ::
  "RolloutExecutionService \<Rightarrow> string \<Rightarrow> string \<Rightarrow> string \<Rightarrow> string \<Rightarrow> string \<Rightarrow> go_err
   \<Rightarrow> RolloutExecutionResult \<Rightarrow> outcome wprog" where
  "roll_back_with s projectID deploymentID revisionID agentID correlationID err result =
     andThen (rollbackDeployment s projectID deploymentID revisionID agentID correlationID result)
       (\<lambda>(result, rollback, rollbackErr).
     return (result\<lparr>er_rollback := rollback\<rparr>,
       Some (case rollbackErr of Some e \<Rightarrow> e | None \<Rightarrow> err)))"

section \<open>The rollout\<close>

definition incident_details :: "string \<Rightarrow> string \<Rightarrow> TrackedCommand \<Rightarrow> payload" where
  "incident_details commandType requestID tracked =
     (let out = tc_output tracked
      in any_strs [(''command_type'', commandType), (''request_id'', requestID), (''error'', tc_error tracked)]
         ++ present out ''code'' ''code'' ++ present out ''policy_action'' ''policy_action''
         ++ present out ''summary'' ''summary'' ++ present out ''failing_services'' ''failing_services''
         ++ present out ''services'' ''services'')"

definition failure_summary :: "TrackedCommand \<Rightarrow> string" where
  "failure_summary tracked =
     (case any_str (map_of (tc_output tracked) ''summary'') of
        Some s \<Rightarrow> if trim_space s \<noteq> [] then s else tc_error tracked
      | None \<Rightarrow> tc_error tracked)"

text \<open>The identifiers of one rollout.\<close>

record rollout =
  ro_project :: string
  ro_deployment :: string
  ro_revision :: string
  ro_agent :: string
  ro_correlation :: string

definition record_and_roll_back ::
  "RolloutExecutionService \<Rightarrow> rollout \<Rightarrow> string \<Rightarrow> string \<Rightarrow> payload \<Rightarrow> string \<Rightarrow> go_err
   \<Rightarrow> RolloutExecutionResult \<Rightarrow> outcome wprog" where
  "record_and_roll_back s r kind summary details triggeredBy err result =
     andThen (ignoring (RecordIncident (ex_planner s) (ro_project r) (ro_deployment r) (ro_revision r)
       kind IncidentSeverityCritical summary (Some details) triggeredBy)) (\<lambda>_.
     roll_back_with s (ro_project r) (ro_deployment r) (ro_revision r) (ro_agent r)
       (ro_correlation r) err result)"

text \<open>
  What follows a completed command: \<open>start_release_candidate\<close> moves the revision to applying,
  \<open>run_health_gate\<close> evaluates the gate, \<open>promote_release\<close> promotes and collects garbage. The first
  component says whether the loop goes on.
\<close>

definition after_health_gate ::
  "RolloutExecutionService \<Rightarrow> rollout \<Rightarrow> RolloutExecutionResult \<Rightarrow> outcome wprog" where
  "after_health_gate s r result =
     andThen (attempt (evaluateHealthGate s (ro_project r) (ro_deployment r) (ro_revision r))) (\<lambda>res.
     case res of
       Inl err \<Rightarrow> record_and_roll_back s r IncidentKindHealthGateTimeout
         ''health gate evaluation failed'' (any_strs [(''error'', error_text err)]) ''health_gate'' err result
     | Inr gate \<Rightarrow>
         (let result = result\<lparr>er_health_gate := Some gate\<rparr>
          in if \<not> hg_passed gate
             then record_and_roll_back s r IncidentKindUnhealthyCandidate
               ''candidate failed health gate''
               [''services'' \<mapsto> AnyList (map any_health (hg_services gate))] ''health_gate''
               (Sentinel ErrHealthGateFailed) result
             else or_return result (transitionDeploymentStatusIfNeeded (ro_project r) (ro_deployment r)
                 DeploymentStatusCandidateReady [DeploymentStatusCandidateReady, DeploymentStatusPromoted])
               (\<lambda>_. andThen (broadcast (ex_planner s) ''deployment.candidate_ready'' (any_strs
                  [(''deployment_id'', ro_deployment r), (''revision_id'', ro_revision r),
                   (''project_id'', ro_project r), (''correlation_id'', ro_correlation r)])) (\<lambda>_.
                return (result, None)))))"

definition after_command ::
  "RolloutExecutionService \<Rightarrow> rollout \<Rightarrow> string \<Rightarrow> RolloutExecutionResult \<Rightarrow> outcome wprog" where
  "after_command s r ty result =
     (if ty = CommandTypeStartReleaseCandidate then
        or_return result (TransitionRevisionStatus (ro_project r) (ro_revision r) RevisionStatusApplying)
          (\<lambda>_. return (result, None))
      else if ty = CommandTypeRunHealthGate then after_health_gate s r result
      else if ty = CommandTypePromoteRelease then
        or_return result (promoteCandidateIfNeeded (ex_planner s) (ro_project r) (ro_deployment r)
            (ro_revision r)) (\<lambda>promotion.
          dispatchGarbageCollect (ro_project r) (ro_revision r) (ro_agent r) (ro_correlation r)
            (result\<lparr>er_promotion := Some promotion\<rparr>))
      else return (result, None))"

text \<open>One step of the plan: dispatch, wait, and act on the answer.\<close>

definition rollout_step ::
  "RolloutExecutionService \<Rightarrow> rollout \<Rightarrow> int \<Rightarrow> int \<Rightarrow> RolloutStep \<Rightarrow> RolloutExecutionResult
   \<Rightarrow> outcome wprog" where
  "rollout_step s r i count step result =
     or_return result (shouldSkipRolloutStep (ro_project r) (ro_deployment r) (ro_revision r)
         (cmd_type (rs_command step))) (\<lambda>skip.
     if skip then return (result, None)
     else
       let cmd = enrichRolloutCommand (rs_command step) (ro_project r) (ro_revision r) (ro_correlation r)
       in andThen (attempt (DispatchTo (ro_agent r) cmd)) (\<lambda>sent.
          case sent of
            Inl err \<Rightarrow>
              andThen (ignoring (failDeployment (ro_project r) (ro_deployment r) (ro_revision r))) (\<lambda>_.
              return (result, Some err))
          | Inr cmdResult \<Rightarrow>
              (let result = result\<lparr>er_dispatched := er_dispatched result @ [cmd_type cmd]\<rparr>
               in andThen (attempt (WaitForCommand (cr_request_id cmdResult))) (\<lambda>waited.
                  case waited of
                    Inl waitErr \<Rightarrow>
                      andThen (ignoring (failDeployment (ro_project r) (ro_deployment r) (ro_revision r))) (\<lambda>_.
                      record_and_roll_back s r IncidentKindHealthGateTimeout
                        ''command execution timed out or failed''
                        (any_strs [(''command_type'', cmd_type cmd),
                           (''request_id'', cr_request_id cmdResult), (''error'', error_text waitErr)])
                        ''command_dispatch'' (Wrapped (''command '' @ cmd_type cmd @ '' failed'') waitErr) result)
                  | Inr None \<Rightarrow> raise (Errorf ''nil pointer dereference'')
                  | Inr (Some tracked) \<Rightarrow>
                      if tc_state tracked = CommandStateFailed then
                        andThen (ignoring (failDeployment (ro_project r) (ro_deployment r) (ro_revision r))) (\<lambda>_.
                        record_and_roll_back s r IncidentKindUnhealthyCandidate ''command execution failed''
                          (incident_details (cmd_type cmd) (cr_request_id cmdResult) tracked)
                          ''command_dispatch''
                          (Errorf (''command '' @ cmd_type cmd @ '' failed: '' @ failure_summary tracked)) result)
                      else
                        andThen (broadcastRolloutProgress (ex_planner s) (ro_deployment r) (ro_revision r)
                          (ro_project r) (ro_correlation r) i count (cmd_type cmd) tracked) (\<lambda>_.
                        after_command s r (cmd_type cmd) result)))))"

fun rollout_loop ::
  "RolloutExecutionService \<Rightarrow> rollout \<Rightarrow> int \<Rightarrow> int \<Rightarrow> RolloutStep list \<Rightarrow> RolloutExecutionResult
   \<Rightarrow> outcome wprog" where
  "rollout_loop s r i count [] result = return (result, None)"
| "rollout_loop s r i count (step # steps) result =
     andThen (rollout_step s r i count step result) (\<lambda>(result, err).
     case err of
       Some e \<Rightarrow> return (result, Some e)
     | None \<Rightarrow> rollout_loop s r (i + 1) count steps result)"

text \<open>
  What \<open>StartDeployment\<close> does before the loop: the checks, the target, the plan, and the move to
  planned and running. The result is the rollout and its plan.
\<close>

definition prepare_rollout ::
  "RolloutExecutionService \<Rightarrow> string \<Rightarrow> Deployment \<Rightarrow> DesiredStateRevision
   \<Rightarrow> (rollout \<times> RolloutPlan \<times> DeploymentBinding) wprog" where
  "prepare_rollout s projectID deployment revision =
     andThen (wrapping ''parse compiled revision'' (from_res (parseCompiledRevision (rv_compiled revision))))
       (\<lambda>compiled.
     if trim_space (cp_artifact_ref compiled) = [] \<and> trim_space (cp_image_ref compiled) = [] \<and>
        \<not> compiledServicesHaveArtifacts (cp_service_specs compiled) (cp_services compiled)
     then raise (Sentinel ErrRolloutArtifactPending)
     else andThen (BindingGetByIDForProject projectID (cp_deployment_binding_id compiled)) (\<lambda>found.
       case found of
         None \<Rightarrow> raise (Sentinel ErrInvalidInput)
       | Some binding \<Rightarrow>
           andThen (resolveRolloutAgent s binding) (\<lambda>(agentID, label).
           andThen (PlanCandidate (ex_planner s) projectID (rv_id revision)) (\<lambda>plan.
           andThen (TransitionRevisionStatus projectID (rv_id revision) RevisionStatusPlanned) (\<lambda>_.
           andThen (TransitionDeploymentStatus projectID (de_id deployment) DeploymentStatusRunning) (\<lambda>_.
           andThen (NewPrefixedID ''corr'') (\<lambda>correlationID.
           return (\<lparr>ro_project = projectID, ro_deployment = de_id deployment,
               ro_revision = rv_id revision, ro_agent = agentID, ro_correlation = correlationID\<rparr>,
             plan, binding))))))))"

definition empty_result :: "string \<Rightarrow> string \<Rightarrow> RolloutExecutionResult" where
  "empty_result did rid = \<lparr>er_deployment_id = did, er_revision_id = rid, er_agent_id = [],
     er_correlation_id = [], er_dispatched = [], er_health_gate = None, er_promotion = None,
     er_rollback = None, er_already_started = False\<rparr>"

text \<open>A call that fails before the result exists is a failed program.\<close>

definition StartDeployment :: "RolloutExecutionService \<Rightarrow> string \<Rightarrow> string \<Rightarrow> outcome wprog" where
  "StartDeployment s projectID deploymentID =
     (let projectID = trim_space projectID; deploymentID = trim_space deploymentID
      in if projectID = [] \<or> deploymentID = [] then raise (Sentinel ErrInvalidInput)
         else andThen (load_deployment projectID deploymentID) (\<lambda>deployment.
           andThen (load_revision projectID (de_revision_id deployment)) (\<lambda>revision.
           if rolloutAlreadyStarted (de_status deployment) (rv_status revision)
           then return ((empty_result (de_id deployment) (rv_id revision))\<lparr>er_already_started := True\<rparr>,
             Some (Sentinel ErrRolloutAlreadyStarted))
           else andThen (prepare_rollout s projectID deployment revision) (\<lambda>(r, plan, binding).
             andThen (broadcast (ex_planner s) ''deployment.started'' (any_strs
               [(''deployment_id'', ro_deployment r), (''revision_id'', ro_revision r),
                (''project_id'', projectID), (''runtime_mode'', bi_runtime_mode binding),
                (''target_kind'', bi_target_kind binding), (''target_id'', bi_target_id binding),
                (''correlation_id'', ro_correlation r)])) (\<lambda>_.
             rollout_loop s r 0 (int (length (rpl_steps plan))) (rpl_steps plan)
               ((empty_result (ro_deployment r) (ro_revision r))\<lparr>er_agent_id := ro_agent r,
                  er_correlation_id := ro_correlation r\<rparr>))))))"

section \<open>Recovery after a reconnect\<close>

definition findRolloutCommand :: "RolloutPlan \<Rightarrow> string \<Rightarrow> AgentCommand option" where
  "findRolloutCommand plan ty =
     List.find (\<lambda>c. cmd_type c = ty) (map rs_command (rpl_steps plan))"

definition isRetryablePromotionRecovery :: "go_err \<Rightarrow> bool" where
  "isRetryablePromotionRecovery err \<longleftrightarrow>
     str_contains (error_text err) ''promotion_candidate_not_ready'' \<or>
     str_contains (error_text err) ''promotion_candidate_missing'' \<or>
     str_contains (error_text err) ''timed out''"

definition executeRecoverableCommand :: "string \<Rightarrow> AgentCommand \<Rightarrow> TrackedCommand wprog" where
  "executeRecoverableCommand agentID cmd =
     andThen (DispatchTo agentID cmd) (\<lambda>cmdResult.
     andThen (WaitForCommand (cr_request_id cmdResult)) (\<lambda>waited.
     case waited of
       None \<Rightarrow> raise (Errorf (''command '' @ cmd_type cmd @ '' returned empty result''))
     | Some tracked \<Rightarrow>
         (case tc_state tracked of
            CommandStateDone \<Rightarrow> return tracked
          | CommandStateFailed \<Rightarrow>
              (case any_str (map_of (tc_output tracked) ''code'') of
                 Some (c # code) \<Rightarrow> raise (Errorf (''command '' @ cmd_type cmd @ '' failed: '' @ tc_error tracked
                   @ '' ('' @ (c # code) @ '')''))
               | _ \<Rightarrow> raise (Errorf (''command '' @ cmd_type cmd @ '' failed: '' @ tc_error tracked)))
          | CommandStateCancelled \<Rightarrow>
              raise (Errorf (''command '' @ cmd_type cmd @ '' timed out waiting for recovery completion''))
          | other \<Rightarrow> raise (Errorf (''command '' @ cmd_type cmd @ '' returned unexpected state ''
              @ state_name other)))))"

definition recoverDeploymentAfterReconnect ::
  "RolloutExecutionService \<Rightarrow> string \<Rightarrow> string \<Rightarrow> string \<Rightarrow> string \<Rightarrow> unit wprog" where
  "recoverDeploymentAfterReconnect s projectID deploymentID revisionID agentID =
     andThen (wrapping (''plan candidate recovery for deployment '' @ deploymentID)
       (PlanCandidate (ex_planner s) projectID revisionID)) (\<lambda>plan.
     case findRolloutCommand plan CommandTypePromoteRelease of
       None \<Rightarrow> raise (Errorf (''recovery promote command missing for deployment '' @ deploymentID))
     | Some promoteCmd \<Rightarrow>
         andThen (NewPrefixedID ''corr'') (\<lambda>correlationID.
         let promoteCmd = enrichRolloutCommand promoteCmd projectID revisionID correlationID
         in andThen (attempt (executeRecoverableCommand agentID promoteCmd)) (\<lambda>res.
         andThen
           (case res of
              Inr tracked \<Rightarrow> return ()
            | Inl err \<Rightarrow>
                if \<not> isRetryablePromotionRecovery err
                then raise (Wrapped (''recover deployment '' @ deploymentID @ '' promotion'') err)
                else case findRolloutCommand plan CommandTypeRunHealthGate of
                    None \<Rightarrow> raise (Errorf (''recovery health gate command missing for deployment '' @ deploymentID))
                  | Some healthCmd \<Rightarrow>
                      andThen (wrapping (''recover deployment '' @ deploymentID @ '' health gate'')
                        (executeRecoverableCommand agentID
                          (enrichRolloutCommand healthCmd projectID revisionID correlationID))) (\<lambda>_.
                      andThen (wrapping (''recover deployment '' @ deploymentID @ '' promotion after health gate'')
                        (executeRecoverableCommand agentID promoteCmd)) (\<lambda>_. return ())))
           (\<lambda>_.
         andThen (wrapping (''finalize recovered promotion for deployment '' @ deploymentID)
           (promoteCandidateIfNeeded (ex_planner s) projectID deploymentID revisionID)) (\<lambda>_.
         andThen (dispatchGarbageCollect projectID revisionID agentID correlationID
           (empty_result deploymentID revisionID)) (\<lambda>(result, gcErr).
         case gcErr of
           Some err \<Rightarrow> raise (Wrapped (''recover deployment '' @ deploymentID @ '' garbage collect'') err)
         | None \<Rightarrow> return ()))))))"

definition recoverQueuedDeploymentAfterReconnect ::
  "RolloutExecutionService \<Rightarrow> string \<Rightarrow> string \<Rightarrow> unit wprog" where
  "recoverQueuedDeploymentAfterReconnect s projectID deploymentID =
     andThen (attempt (StartDeployment s projectID deploymentID)) (\<lambda>res.
     let err = (case res of Inl e \<Rightarrow> Some e | Inr (result, e) \<Rightarrow> e)
     in case err of
          None \<Rightarrow> return ()
        | Some e \<Rightarrow> if err_is e ErrRolloutAlreadyStarted then return ()
            else raise (Wrapped (''recover queued deployment '' @ deploymentID) e))"

definition beginRecovery :: "string \<Rightarrow> bool wprog" where
  "beginRecovery did = (\<lambda>w.
     if did \<in> w_recovering w then (Ok False, w)
     else (Ok True, w\<lparr>w_recovering := insert did (w_recovering w)\<rparr>))"

definition endRecovery :: "string \<Rightarrow> unit wprog" where
  "endRecovery did = (\<lambda>w. (Ok (), w\<lparr>w_recovering := w_recovering w - {did}\<rparr>))"

text \<open>The bindings of a project that lead to one of the agent's instances.\<close>

fun target_bindings ::
  "RolloutExecutionService \<Rightarrow> string set \<Rightarrow> DeploymentBinding list \<Rightarrow> string set wprog" where
  "target_bindings s ids [] = return {}"
| "target_bindings s ids (b # bs) =
     andThen
       (if bi_target_kind b = ''instance'' \<and> bi_runtime_mode b = RuntimeModeStandalone
        then return (bi_target_id b \<in> ids)
        else if bi_target_kind b = ''cluster'' \<and> bi_runtime_mode b = RuntimeModeDistributedK3s \<and> ex_clusters s
        then andThen (attempt (ClusterGetByID (bi_target_id b))) (\<lambda>res.
          return (case res of
            Inr (Some c) \<Rightarrow> (case cl_instance_id c of None \<Rightarrow> False | Some i \<Rightarrow> trim_space i \<in> ids)
          | _ \<Rightarrow> False))
        else return False) (\<lambda>hit.
     andThen (target_bindings s ids bs) (\<lambda>rest.
     return (if hit then insert (bi_id b) rest else rest)))"

definition recover_one ::
  "RolloutExecutionService \<Rightarrow> string \<Rightarrow> string \<Rightarrow> string set \<Rightarrow> Deployment \<Rightarrow> unit wprog" where
  "recover_one s projectID agentID targets deployment =
     (let status = trim_space (de_status deployment)
      in if status \<noteq> DeploymentStatusQueued \<and> status \<noteq> DeploymentStatusRunning \<and>
            status \<noteq> DeploymentStatusCandidateReady then return ()
         else andThen (RevisionGetByIDForProject projectID (de_revision_id deployment)) (\<lambda>found.
           case found of
             None \<Rightarrow> return ()
           | Some revision \<Rightarrow>
               andThen (wrapping (''parse compiled revision '' @ rv_id revision)
                 (from_res (parseCompiledRevision (rv_compiled revision)))) (\<lambda>compiled.
               if cp_deployment_binding_id compiled \<notin> targets then return ()
               else andThen (beginRecovery (de_id deployment)) (\<lambda>begun.
                 if \<not> begun then return ()
                 else andThen (attempt
                     (if status = DeploymentStatusQueued
                      then recoverQueuedDeploymentAfterReconnect s projectID (de_id deployment)
                      else recoverDeploymentAfterReconnect s projectID (de_id deployment) (rv_id revision)
                        agentID)) (\<lambda>res.
                   andThen (endRecovery (de_id deployment)) (\<lambda>_. from_res res))))))"

text \<open>Errors are collected and joined; the model keeps their list.\<close>

fun collect_errors :: "('a \<Rightarrow> unit wprog) \<Rightarrow> 'a list \<Rightarrow> go_err list wprog" where
  "collect_errors f [] = return []"
| "collect_errors f (x # xs) =
     andThen (attempt (f x)) (\<lambda>res.
     andThen (collect_errors f xs) (\<lambda>errs.
     return (case res of Inl e \<Rightarrow> e # errs | Inr u \<Rightarrow> errs)))"

definition join_errors :: "go_err list \<Rightarrow> unit wprog" where
  "join_errors errs =
     (case errs of [] \<Rightarrow> return () | e # es \<Rightarrow> raise (foldl (\<lambda>x y. Wrapped (error_text x) y) e es))"

definition recoverProjectDeploymentsForAgent ::
  "RolloutExecutionService \<Rightarrow> string \<Rightarrow> string \<Rightarrow> string set \<Rightarrow> unit wprog" where
  "recoverProjectDeploymentsForAgent s projectID agentID ids =
     andThen (BindingListByProject projectID) (\<lambda>bindings.
     andThen (target_bindings s ids bindings) (\<lambda>targets.
     if targets = {} then return ()
     else andThen (DeploymentListByProject projectID) (\<lambda>deployments.
       andThen (collect_errors (recover_one s projectID agentID targets) deployments) join_errors)))"

definition RecoverRunningDeploymentsForAgent ::
  "RolloutExecutionService \<Rightarrow> string \<Rightarrow> string \<Rightarrow> unit wprog" where
  "RecoverRunningDeploymentsForAgent s userID agentID =
     (let userID = trim_space userID; agentID = trim_space agentID
      in if userID = [] \<or> agentID = [] then raise (Sentinel ErrInvalidInput)
         else andThen (InstanceListByUser userID) (\<lambda>instances.
           let ids = set (map in_id (filter (\<lambda>i. case in_agent_id i of
                 None \<Rightarrow> False | Some a \<Rightarrow> trim_space a = agentID) instances))
           in if ids = {} then return ()
              else andThen (ProjectListByUser userID) (\<lambda>projects.
                andThen (collect_errors (\<lambda>pj. recoverProjectDeploymentsForAgent s (pj_id pj) agentID ids)
                  projects) join_errors)))"

section \<open>A service and agents for the examples\<close>

definition demo_planner :: RolloutPlanner where
  "demo_planner = \<lparr>pl_registry = app_registry, pl_hub = True, pl_project_env = None,
     pl_public_domains = None, pl_routing = None, pl_manifest_gen = None\<rparr>"

definition demo_service_rollout :: RolloutExecutionService where
  "demo_service_rollout = \<lparr>ex_planner = demo_planner, ex_clusters = True, ex_evaluator = None\<rparr>"

text \<open>A turn in which the dispatch succeeds and the wait returns a command in the given state.\<close>

definition answer :: "CommandState \<Rightarrow> agent_turn" where
  "answer st = \<lparr>at_dispatch = Ok \<lparr>cr_request_id = ''q'', cr_status = ''dispatched'',
       cr_output = Map.empty, cr_error = []\<rparr>,
     at_meanwhile = (\<lambda>t. t),
     at_wait = Ok (Some \<lparr>tc_request_id = ''q'', tc_agent_id = ''a1'', tc_command_type = [],
       tc_state = st, tc_output = [], tc_error = [], tc_sent_at = 0, tc_updated_at = 0\<rparr>)\<rparr>"

end
