(* ===== verification/RolloutProgress.thy ===== *)
theory RolloutProgress
  imports RolloutExecution
begin

text \<open>
  Rollouts that run to their end. Without database failures, and if the agent answers every command
  of the plan with anything but a failure, each step of the loop goes on to the next and the loop
  returns without an error. The lemmas follow the loop: what a transition, the health gate, the
  promotion and one step do to a world in which the rollout is \<open>live\<close>.
\<close>

section \<open>A rollout in progress\<close>

definition good_turn :: "agent_turn \<Rightarrow> bool" where
  "good_turn t \<longleftrightarrow> is_ok (at_dispatch t) \<and> at_meanwhile t = (\<lambda>tb. tb) \<and>
     (case at_wait t of Inr (Some c) \<Rightarrow> tc_state c \<noteq> CommandStateFailed | _ \<Rightarrow> False)"

definition ids_ok :: "rollout \<Rightarrow> bool" where
  "ids_ok r \<longleftrightarrow> (\<forall>x \<in> {ro_project r, ro_deployment r, ro_revision r}. x \<noteq> [] \<and> trim_space x = x)"

definition live :: "rollout \<Rightarrow> string \<Rightarrow> world \<Rightarrow> bool" where
  "live r ds w \<longleftrightarrow> w_faults w = [] \<and>
     (\<exists>d. find_deployment (ro_project r) (ro_deployment r) (w_tables w) = Some d \<and> de_status d = ds) \<and>
     (\<exists>v c. find_revision (ro_project r) (ro_revision r) (w_tables w) = Some v \<and>
        rv_status v \<in> {RevisionStatusPlanned, RevisionStatusApplying} \<and>
        parseCompiledRevision (rv_compiled v) = Inr c)"

definition same_io :: "world \<Rightarrow> world \<Rightarrow> bool" where
  "same_io w w' \<longleftrightarrow> w_sent w' = w_sent w \<and> w_turns w' = w_turns w"

lemma liveE:
  assumes "live r ds w"
  obtains d v c where "w_faults w = []"
    "find_deployment (ro_project r) (ro_deployment r) (w_tables w) = Some d" "de_status d = ds"
    "de_id d = ro_deployment r"
    "find_revision (ro_project r) (ro_revision r) (w_tables w) = Some v" "rv_id v = ro_revision r"
    "rv_status v = RevisionStatusPlanned \<or> rv_status v = RevisionStatusApplying"
    "parseCompiledRevision (rv_compiled v) = Inr c"
  using assms unfolding live_def by (auto dest: find_deploymentD find_revisionD)

lemma live_frame: "live r ds w \<Longrightarrow> w_tables w' = w_tables w \<Longrightarrow> w_faults w' = w_faults w \<Longrightarrow> live r ds w'"
  by (simp add: live_def)

lemma status_sets [simp]:
  "RevisionStatusPlanned \<in> set revision_statuses" "RevisionStatusApplying \<in> set revision_statuses"
  "DeploymentStatusRunning \<in> set deployment_statuses"
  "DeploymentStatusCandidateReady \<in> set deployment_statuses"
  by (simp_all add: revision_statuses_def deployment_statuses_def)

lemma applying_reachable [simp]:
  "canTransitionRevisionStatus RevisionStatusPlanned RevisionStatusApplying"
  "canTransitionRevisionStatus RevisionStatusApplying RevisionStatusApplying"
  "canTransitionDeploymentStatus DeploymentStatusRunning DeploymentStatusCandidateReady"
  by (simp_all add: canTransitionRevisionStatus_def canTransitionDeploymentStatus_def
      revision_status_defs deployment_status_defs)

lemma record_total: "parseCompiledRevision (rv_compiled v) = Inr c \<Longrightarrow> \<exists>x. ToDesiredStateRevisionRecord v = Inr x"
  by (simp add: ToDesiredStateRevisionRecord_def res_bind_def Let_def)

lemma live_start:
  assumes "live r ds w" and "ids_ok r"
  shows "\<exists>x w'. TransitionRevisionStatus (ro_project r) (ro_revision r) RevisionStatusApplying w = (Inr x, w') \<and>
    live r ds w' \<and> same_io w w'"
  using assms(1)
proof (rule liveE)
  fix d v c
  assume l: "w_faults w = []" "find_deployment (ro_project r) (ro_deployment r) (w_tables w) = Some d"
    "de_status d = ds" "find_revision (ro_project r) (ro_revision r) (w_tables w) = Some v"
    "rv_id v = ro_revision r" "rv_status v = RevisionStatusPlanned \<or> rv_status v = RevisionStatusApplying"
    "parseCompiledRevision (rv_compiled v) = Inr c"
  obtain x where "ToDesiredStateRevisionRecord
      (v\<lparr>rv_status := RevisionStatusApplying, rv_updated_at := w_clock w (w_tick w)\<rparr>) = Inr x"
    using record_total [of "v\<lparr>rv_status := RevisionStatusApplying, rv_updated_at := w_clock w (w_tick w)\<rparr>"] l(7)
    by auto
  with l assms(2) show ?thesis
    by (auto simp: TransitionRevisionStatus_def RevisionGetByIDForProject_def RevisionUpdateStatus_def
        ids_ok_def Let_def andThen_def normalizeRevisionStatus_def live_def same_io_def)
qed

lemma live_ready:
  assumes "live r DeploymentStatusRunning w" and "ids_ok r"
  shows "\<exists>x w'. transitionDeploymentStatusIfNeeded (ro_project r) (ro_deployment r)
      DeploymentStatusCandidateReady alts w = (Inr x, w') \<and>
    live r DeploymentStatusCandidateReady w' \<and> same_io w w'"
  using assms(1)
proof (rule liveE)
  fix d v c
  assume l: "w_faults w = []" "find_deployment (ro_project r) (ro_deployment r) (w_tables w) = Some d"
    "de_status d = DeploymentStatusRunning" "de_id d = ro_deployment r"
    "find_revision (ro_project r) (ro_revision r) (w_tables w) = Some v"
    "rv_status v = RevisionStatusPlanned \<or> rv_status v = RevisionStatusApplying"
    "parseCompiledRevision (rv_compiled v) = Inr c"
  with assms(2) show ?thesis
    by (auto simp: transitionDeploymentStatusIfNeeded_def TransitionDeploymentStatus_def run_attempt
        DeploymentGetByIDForProject_def DeploymentUpdateStatus_def ids_ok_def Let_def andThen_def
        normalizeDeploymentStatus_def live_def same_io_def)
qed

section \<open>One step\<close>

lemma live_gate:
  assumes "live r ds w"
  shows "\<exists>g. ExecuteHealthGate (ro_project r) did (ro_revision r) w = (Inr g, w) \<and> hg_passed g"
  using assms
  by (rule liveE) (auto simp: ExecuteHealthGate_def load_revision_def RevisionGetByIDForProject_def andThen_def
      wrapping_def)

lemma broadcast_run: "\<exists>w'. broadcast p ty m w = (Inr (), w') \<and> w_tables w' = w_tables w \<and>
    w_faults w' = w_faults w \<and> same_io w w'"
  by (simp add: broadcast_def same_io_def)

lemma progress_run: "\<exists>w'. broadcastRolloutProgress p did rid pid corr i n ty tr w = (Inr (), w') \<and>
    w_tables w' = w_tables w \<and> w_faults w' = w_faults w \<and> same_io w w'"
  by (auto simp: broadcastRolloutProgress_def Let_def andThen_def broadcast_def same_io_def
      split: option.splits)

lemma live_after_gate:
  assumes "live r DeploymentStatusRunning w" and "ids_ok r" and "ex_evaluator s = None"
  shows "\<exists>res w'. after_health_gate s r result w = (Inr (res, None), w') \<and>
    live r DeploymentStatusCandidateReady w' \<and> same_io w w'"
proof -
  obtain g where g: "ExecuteHealthGate (ro_project r) (ro_deployment r) (ro_revision r) w = (Inr g, w)" "hg_passed g"
    using live_gate [OF assms(1)] by blast
  obtain x w1 where t: "transitionDeploymentStatusIfNeeded (ro_project r) (ro_deployment r)
      DeploymentStatusCandidateReady [DeploymentStatusCandidateReady, DeploymentStatusPromoted] w = (Inr x, w1)"
    "live r DeploymentStatusCandidateReady w1" "same_io w w1"
    using live_ready [OF assms(1,2)] by blast
  then show ?thesis
    using g assms(3) live_frame [OF t(2)]
    by (auto simp: after_health_gate_def evaluateHealthGate_def andThen_def run_attempt or_return_def
        broadcast_def same_io_def Let_def)
qed

lemma live_dispatch:
  assumes "live r ds w" and "w_turns w = t # ts" and "good_turn t"
    and "cmd_type (rs_command step) = CommandTypeRunHealthGate \<Longrightarrow> ds = DeploymentStatusRunning"
    and "cmd_type (rs_command step) = CommandTypePromoteRelease \<Longrightarrow> ds = DeploymentStatusCandidateReady"
  shows "\<exists>res w1 c. rollout_step s r i n step result w =
      after_command s r (cmd_type (rs_command step)) res w1 \<and> live r ds w1 \<and> w_turns w1 = ts \<and>
    w_sent w1 = w_sent w @ [c] \<and> cmd_type (snd c) = cmd_type (rs_command step)"
proof -
  let ?cmd = "enrichRolloutCommand (rs_command step) (ro_project r) (ro_revision r) (ro_correlation r)"
  have ty: "cmd_type ?cmd = cmd_type (rs_command step)" by (simp add: enrichRolloutCommand_def Let_def)
  have skip: "shouldSkipRolloutStep (ro_project r) (ro_deployment r) (ro_revision r)
      (cmd_type (rs_command step)) w = (Inr False, w)"
    using assms(1)
    by (rule liveE) (use assms(4,5) in \<open>auto simp: shouldSkipRolloutStep_def DeploymentGetByIDForProject_def
        RevisionGetByIDForProject_def andThen_def step_done_def deployment_status_defs\<close>)
  obtain cr tr where t: "at_dispatch t = Inr cr" "at_wait t = Inr (Some tr)" "tc_state tr \<noteq> CommandStateFailed"
    "at_meanwhile t = (\<lambda>tb. tb)"
    using assms(3) by (auto simp: good_turn_def split: sum.splits option.splits elim: is_ok.elims)
  define w0 where "w0 = w\<lparr>w_sent := w_sent w @ [(ro_agent r, ?cmd)], w_turns := ts, w_awaiting := None\<rparr>"
  have l0: "live r ds w0" using assms(1) by (rule live_frame) (simp_all add: w0_def)
  obtain w1 where b: "broadcastRolloutProgress (ex_planner s) (ro_deployment r) (ro_revision r)
      (ro_project r) (ro_correlation r) i n (cmd_type ?cmd) tr w0 = (Inr (), w1)"
    "w_tables w1 = w_tables w0" "w_faults w1 = w_faults w0" "same_io w0 w1"
    using progress_run by blast
  have "rollout_step s r i n step result w =
      after_command s r (cmd_type ?cmd) (result\<lparr>er_dispatched := er_dispatched result @ [cmd_type ?cmd]\<rparr>) w1"
    using skip t b(1) assms(2)
    by (simp add: rollout_step_def or_return_def andThen_def run_attempt Let_def DispatchTo_def
        WaitForCommand_def w0_def)
  then show ?thesis
    using live_frame [OF l0 b(2,3)] b(4) ty
    by (intro exI [of _ "result\<lparr>er_dispatched := er_dispatched result @ [cmd_type ?cmd]\<rparr>"] exI [of _ w1]
        exI [of _ "(ro_agent r, ?cmd)"]) (auto simp: same_io_def w0_def)
qed

definition next_status :: "string \<Rightarrow> string \<Rightarrow> string" where
  "next_status ty ds = (if ty = CommandTypeRunHealthGate then DeploymentStatusCandidateReady else ds)"

lemma live_step:
  assumes "live r ds w" and "ids_ok r" and "ex_evaluator s = None"
    and "w_turns w = t # ts" and "good_turn t"
    and "cmd_type (rs_command step) = CommandTypeRunHealthGate \<Longrightarrow> ds = DeploymentStatusRunning"
    and "cmd_type (rs_command step) \<noteq> CommandTypePromoteRelease"
  shows "\<exists>res w1 c. rollout_step s r i n step result w = (Inr (res, None), w1) \<and>
    live r (next_status (cmd_type (rs_command step)) ds) w1 \<and> w_turns w1 = ts \<and>
    w_sent w1 = w_sent w @ [c] \<and> cmd_type (snd c) = cmd_type (rs_command step)"
proof -
  obtain res w1 c where 1: "rollout_step s r i n step result w =
      after_command s r (cmd_type (rs_command step)) res w1" "live r ds w1" "w_turns w1 = ts"
    "w_sent w1 = w_sent w @ [c]" "cmd_type (snd c) = cmd_type (rs_command step)"
    using live_dispatch [OF assms(1,4,5), of step s i n result] assms(6,7) by blast
  have "\<exists>res' w2. after_command s r (cmd_type (rs_command step)) res w1 = (Inr (res', None), w2) \<and>
      live r (next_status (cmd_type (rs_command step)) ds) w2 \<and> same_io w1 w2"
    using live_start [OF 1(2) assms(2)] live_after_gate [OF _ assms(2,3), of w1 res] 1(2) assms(6,7)
    by (auto simp: after_command_def next_status_def or_return_def andThen_def run_attempt same_io_def
        command_types)
  then show ?thesis using 1 by (cases c) (auto simp: same_io_def)
qed

lemma live_promote:
  assumes "live r DeploymentStatusCandidateReady w"
  shows "\<exists>pm w'. promoteCandidateIfNeeded p (ro_project r) (ro_deployment r) (ro_revision r) w =
      (Inr pm, w') \<and> same_io w w'"
  using assms
  by (rule liveE) (auto simp: promoteCandidateIfNeeded_def PromoteCandidate_def load_revision_def
      DeploymentGetByIDForProject_def RevisionGetByIDForProject_def RevisionUpdateStatus_def
      DeploymentUpdateStatus_def andThen_def broadcast_def same_io_def deployment_status_defs
      trim_space_def trim_left_def trim_right_def is_space_def)

lemma live_promote_step:
  assumes "live r DeploymentStatusCandidateReady w"
    and "w_turns w = t # u # ts" and "good_turn t" and "good_turn u"
    and "cmd_type (rs_command step) = CommandTypePromoteRelease"
  shows "\<exists>res w1 c g. rollout_step s r i n step result w = (Inr (res, None), w1) \<and>
    w_sent w1 = w_sent w @ [c, g] \<and> cmd_type (snd c) = CommandTypePromoteRelease \<and>
    cmd_type (snd g) = CommandTypeGarbageCollectRuntime"
proof -
  obtain res w1 c where 1: "rollout_step s r i n step result w =
      after_command s r (cmd_type (rs_command step)) res w1" "live r DeploymentStatusCandidateReady w1"
    "w_turns w1 = u # ts" "w_sent w1 = w_sent w @ [c]" "cmd_type (snd c) = cmd_type (rs_command step)"
    using live_dispatch [OF assms(1,2,3), of step s i n result] assms(5) by (auto simp: command_types)
  obtain pm w2 where 2: "promoteCandidateIfNeeded (ex_planner s) (ro_project r) (ro_deployment r)
      (ro_revision r) w1 = (Inr pm, w2)" "same_io w1 w2"
    using live_promote [OF 1(2)] by blast
  obtain cr where "at_dispatch u = Inr cr" using assms(4) by (auto simp: good_turn_def elim: is_ok.elims)
  with 1 2 assms(5) show ?thesis
    by (cases c) (auto simp: after_command_def command_types or_return_def andThen_def run_attempt same_io_def
        dispatchGarbageCollect_def Let_def DispatchTo_def enrichRolloutCommand_def new_command_def)
qed

section \<open>The loop\<close>

lemma live_loop:
  assumes "live r DeploymentStatusRunning w" and "ids_ok r" and "ex_evaluator s = None"
    and "w_turns w = us @ ts" and "length us = length pre" and "list_all good_turn us"
    and "\<forall>p \<in> set pre. cmd_type (rs_command p) \<notin> {CommandTypeRunHealthGate, CommandTypePromoteRelease}"
  shows "\<exists>j res w1 cs. rollout_loop s r i n (pre @ rest) result w = rollout_loop s r j n rest res w1 \<and>
    live r DeploymentStatusRunning w1 \<and> w_turns w1 = ts \<and> w_sent w1 = w_sent w @ cs \<and>
    map (\<lambda>c. cmd_type (snd c)) cs = map (\<lambda>p. cmd_type (rs_command p)) pre"
  using assms
proof (induction pre arbitrary: us w i result)
  case Nil
  then show ?case by auto
next
  case (Cons p pre)
  then obtain u us' where us: "us = u # us'" by (cases us) auto
  obtain res w1 c where 1: "rollout_step s r i n p result w = (Inr (res, None), w1)"
    "live r (next_status (cmd_type (rs_command p)) DeploymentStatusRunning) w1" "w_turns w1 = us' @ ts"
    "w_sent w1 = w_sent w @ [c]" "cmd_type (snd c) = cmd_type (rs_command p)"
    using live_step [OF Cons.prems(1-3), of u "us' @ ts" p i n result] Cons.prems(4,6,7) us by auto
  have "live r DeploymentStatusRunning w1" using 1(2) Cons.prems(7) by (simp add: next_status_def)
  from Cons.IH [OF this Cons.prems(2,3) 1(3), of "i + 1" res] obtain j res' w2 cs where
    "rollout_loop s r (i + 1) n (pre @ rest) res w1 = rollout_loop s r j n rest res' w2"
    "live r DeploymentStatusRunning w2" "w_turns w2 = ts" "w_sent w2 = w_sent w1 @ cs"
    "map (\<lambda>c. cmd_type (snd c)) cs = map (\<lambda>p. cmd_type (rs_command p)) pre"
    using Cons.prems(5-7) us by auto
  with 1 show ?case
    by (intro exI [of _ j] exI [of _ res'] exI [of _ w2] exI [of _ "c # cs"]) simp
qed

lemma live_rollout:
  assumes "live r DeploymentStatusRunning w" and "ids_ok r" and "ex_evaluator s = None"
    and "list_all good_turn (w_turns w)" and "length pre + 3 \<le> length (w_turns w)"
    and "\<forall>p \<in> set pre. cmd_type (rs_command p) \<notin> {CommandTypeRunHealthGate, CommandTypePromoteRelease}"
    and "cmd_type (rs_command g) = CommandTypeRunHealthGate"
    and "cmd_type (rs_command q) = CommandTypePromoteRelease"
  shows "\<exists>res w' cs. rollout_loop s r i n (pre @ [g, q]) result w = (Inr (res, None), w') \<and>
    w_sent w' = w_sent w @ cs \<and>
    map (\<lambda>c. cmd_type (snd c)) cs =
      map (\<lambda>p. cmd_type (rs_command p)) (pre @ [g, q]) @ [CommandTypeGarbageCollectRuntime]"
proof -
  define us where "us = take (length pre) (w_turns w)"
  define vs where "vs = drop (length pre) (w_turns w)"
  have uv: "w_turns w = us @ vs" "length us = length pre" "3 \<le> length vs"
    using assms(5) by (auto simp: us_def vs_def)
  then obtain x y z ts where vs: "vs = x # y # z # ts"
    by (cases vs; cases "tl vs"; cases "tl (tl vs)") (auto simp: numeral_3_eq_3)
  have good: "list_all good_turn us" "good_turn x" "good_turn y" "good_turn z"
    using assms(4) uv(1) vs by auto
  obtain j res w1 cs where 1: "rollout_loop s r i n (pre @ [g, q]) result w = rollout_loop s r j n [g, q] res w1"
    "live r DeploymentStatusRunning w1" "w_turns w1 = x # y # z # ts" "w_sent w1 = w_sent w @ cs"
    "map (\<lambda>c. cmd_type (snd c)) cs = map (\<lambda>p. cmd_type (rs_command p)) pre"
    using live_loop [OF assms(1-3) uv(1,2) good(1) assms(6), of i n "[g, q]" result] vs by auto
  obtain res2 w2 c where 2: "rollout_step s r j n g res w1 = (Inr (res2, None), w2)"
    "live r DeploymentStatusCandidateReady w2" "w_turns w2 = y # z # ts" "w_sent w2 = w_sent w1 @ [c]"
    "cmd_type (snd c) = CommandTypeRunHealthGate"
    using live_step [OF 1(2) assms(2,3) 1(3) good(2), of g j n res] assms(7)
    by (auto simp: next_status_def command_types)
  obtain res3 w3 d e where 3: "rollout_step s r (j + 1) n q res2 w2 = (Inr (res3, None), w3)"
    "w_sent w3 = w_sent w2 @ [d, e]" "cmd_type (snd d) = CommandTypePromoteRelease"
    "cmd_type (snd e) = CommandTypeGarbageCollectRuntime"
    using live_promote_step [OF 2(2,3) good(3,4) assms(8)] by blast
  from 1 2 3 assms(7,8) show ?thesis
    by (intro exI [of _ res3] exI [of _ w3] exI [of _ "cs @ [c, d, e]"]) (simp add: andThen_def)
qed

section \<open>The preparation\<close>

text \<open>With no faults ahead, the preparation leaves the agent's turns and the sent commands alone.\<close>

definition no_faults :: "world \<Rightarrow> bool" where
  "no_faults w \<longleftrightarrow> w_faults w = []"

interpretation calm: guarantee no_faults same_io
  by unfold_locales (simp_all add: same_io_def)

named_theorems calm_intro "programs that stay calm"

lemma calm_basic [calm_intro]:
  "within no_faults same_io (db_read f)" "within no_faults same_io (db_write g)"
  "within no_faults same_io now_utc" "within no_faults same_io (NewPrefixedID p)"
  "within no_faults same_io (broadcast pl ty m)" "within no_faults same_io (with_tables h)"
  by (simp_all add: within_def no_faults_def same_io_def broadcast_def with_tables_def)

lemma calm_repo [calm_intro]:
  "within no_faults same_io (RevisionGetByIDForProject a b)" "within no_faults same_io (RevisionListByProject a)"
  "within no_faults same_io (DeploymentGetByIDForProject a b)"
  "within no_faults same_io (BindingGetByIDForProject a b)" "within no_faults same_io (InstanceGetByID a)"
  "within no_faults same_io (ClusterGetByID a)"
  "within no_faults same_io (RevisionUpdateStatus a b at)"
  "within no_faults same_io (RevisionUpdateSnapshot a c m at)"
  "within no_faults same_io (DeploymentUpdateStatus a b d e at)"
  unfolding repo_reads repo_writes by (intro calm_intro)+

lemma calm_transitions [calm_intro]:
  "within no_faults same_io (TransitionRevisionStatus pid rid st)"
  "within no_faults same_io (TransitionDeploymentStatus pid did st)"
  unfolding TransitionRevisionStatus_def TransitionDeploymentStatus_def
  by (intro calm.within_rules calm_intro)+

lemma calm_plan [calm_intro]: "within no_faults same_io (PlanCandidate p pid rid)"
  unfolding PlanCandidate_def load_revision_def load_binding_def materializeRuntimeSnapshot_def
    render_manifest_def findStableRevisionSnapshot_def findLastStableRevision_def
    persistRevisionSnapshot_def buildPreparePayload_def
  by (intro calm.within_rules calm_intro)

lemma calm_prepare: "within no_faults same_io (prepare_rollout s pid d rv)"
  unfolding prepare_rollout_def resolveRolloutAgent_def
  by (intro calm.within_rules calm_intro)

end
