(* ===== verification/RolloutSafety.thy ===== *)
theory RolloutSafety
  imports RolloutProgress
begin

text \<open>
  What a rollout may do. The relation \<open>acts T\<close> bounds a program's whole effect, on every path and
  with any database failures: it keeps the keys of all rows, it sends only commands of the types
  \<open>T\<close>, and unless it sends \<open>promote_release\<close> it does not make any deployment promoted. Every
  program of the rollout is shown to stay within it; promotion itself only stays within the weaker
  \<open>grows\<close>. A rollback on request sends nothing; what it writes is stated on its own. The agents are \<open>quiet\<close> if nothing else changes the tables while the service waits.
\<close>

section \<open>The relations\<close>

definition tkeys :: "tables \<Rightarrow> (string \<times> string) list \<times> (string \<times> string) list" where
  "tkeys t = (map (\<lambda>d. (de_project_id d, de_id d)) (t_deployments t),
     map (\<lambda>r. (rv_project_id r, rv_id r)) (t_revisions t))"

definition tpromoted :: "tables \<Rightarrow> string set" where
  "tpromoted t = {de_id d | d. d \<in> set (t_deployments t) \<and> de_status d = DeploymentStatusPromoted}"

definition sent_types :: "(string \<times> AgentCommand) list \<Rightarrow> string list" where
  "sent_types cs = map (\<lambda>c. cmd_type (snd c)) cs"

definition grows :: "string set \<Rightarrow> world \<Rightarrow> world \<Rightarrow> bool" where
  "grows T w w' \<longleftrightarrow> tkeys (w_tables w') = tkeys (w_tables w) \<and>
     (\<exists>cs. w_sent w' = w_sent w @ cs \<and> set (sent_types cs) \<subseteq> T)"

definition acts :: "string set \<Rightarrow> world \<Rightarrow> world \<Rightarrow> bool" where
  "acts T w w' \<longleftrightarrow> tkeys (w_tables w') = tkeys (w_tables w) \<and>
     (\<exists>cs. w_sent w' = w_sent w @ cs \<and> set (sent_types cs) \<subseteq> T \<and>
        (CommandTypePromoteRelease \<notin> set (sent_types cs) \<longrightarrow>
           tpromoted (w_tables w') \<subseteq> tpromoted (w_tables w)))"

definition quiet :: "world \<Rightarrow> bool" where
  "quiet w \<longleftrightarrow> (\<forall>t \<in> set (w_turns w) \<union> set_option (w_awaiting w). at_meanwhile t = (\<lambda>x. x))"

lemma sent_types_simps [simp]:
  "sent_types [] = []" "sent_types (c # cs) = cmd_type (snd c) # sent_types cs"
  "sent_types (cs @ ds) = sent_types cs @ sent_types ds"
  by (simp_all add: sent_types_def)

interpretation growing: guarantee quiet "grows T" for T
proof
  show "grows T w w" for w by (simp add: grows_def)
  show "grows T u w" if "grows T u v" "grows T v w" for u v w
    using that unfolding grows_def by (force simp: sent_types_simps)
qed

interpretation acting: guarantee quiet "acts T" for T
proof
  show "acts T w w" for w by (simp add: acts_def)
  show "acts T u w" if uv: "acts T u v" and vw: "acts T v w" for u v w
  proof -
    obtain cs where cs: "w_sent v = w_sent u @ cs" "set (sent_types cs) \<subseteq> T"
      "CommandTypePromoteRelease \<notin> set (sent_types cs) \<longrightarrow> tpromoted (w_tables v) \<subseteq> tpromoted (w_tables u)"
      using uv by (auto simp: acts_def)
    obtain ds where ds: "w_sent w = w_sent v @ ds" "set (sent_types ds) \<subseteq> T"
      "CommandTypePromoteRelease \<notin> set (sent_types ds) \<longrightarrow> tpromoted (w_tables w) \<subseteq> tpromoted (w_tables v)"
      using vw by (auto simp: acts_def)
    have "w_sent w = w_sent u @ (cs @ ds)" "set (sent_types (cs @ ds)) \<subseteq> T"
      "CommandTypePromoteRelease \<notin> set (sent_types (cs @ ds)) \<longrightarrow>
         tpromoted (w_tables w) \<subseteq> tpromoted (w_tables u)"
      using cs ds by auto
    with uv vw show ?thesis unfolding acts_def by (intro conjI exI [of _ "cs @ ds"]) auto
  qed
qed

lemma acts_mono: "acts S w w' \<Longrightarrow> S \<subseteq> T \<Longrightarrow> acts T w w'"
  unfolding acts_def by blast

lemma within_mono: "within I R m \<Longrightarrow> (\<And>w w'. R w w' \<Longrightarrow> S w w') \<Longrightarrow> within I S m"
  by (auto simp: within_def)

lemma within_acts_mono: "within quiet (acts S) m \<Longrightarrow> S \<subseteq> T \<Longrightarrow> within quiet (acts T) m"
  by (erule within_mono) (rule acts_mono)

lemma acts_grows: "acts T w w' \<Longrightarrow> grows T w w'"
  by (auto simp: acts_def grows_def)

lemma within_grows: "within quiet (acts T) m \<Longrightarrow> within quiet (grows T) m"
  by (erule within_mono) (rule acts_grows)

section \<open>The basic programs\<close>

named_theorems acts_intro "programs that stay within a relation"

lemma w_frame_db [simp]:
  "w_sent (snd (db_call f w)) = w_sent w" "w_turns (snd (db_call f w)) = w_turns w"
  "w_awaiting (snd (db_call f w)) = w_awaiting w"
  by (auto simp: db_call_def split: list.splits bool.splits)

lemma quiet_frame:
  "quiet w \<Longrightarrow> w_turns w' = w_turns w \<Longrightarrow> w_awaiting w' = w_awaiting w \<Longrightarrow> quiet w'"
  by (simp add: quiet_def)

lemma acts_same: "w_tables w' = w_tables w \<Longrightarrow> w_sent w' = w_sent w \<Longrightarrow> acts T w w'"
  by (simp add: acts_def)

lemma within_acts_read [acts_intro]: "within quiet (acts T) (db_read f)"
  unfolding within_def db_read_def
  by (auto intro!: acts_same elim!: quiet_frame simp: db_call_def split: list.splits bool.splits)

lemma within_acts_write:
  assumes "\<And>t. tkeys (f t) = tkeys t" and "\<And>t. tpromoted (f t) \<subseteq> tpromoted t"
  shows "within quiet (acts T) (db_write f)"
  unfolding within_def
proof (intro allI impI conjI)
  fix w assume "quiet w"
  then show "quiet (snd (db_write f w))" unfolding db_write_def by (rule quiet_frame) simp_all
  show "acts T w (snd (db_write f w))"
    using db_write_tables [of f w] assms by (auto simp: acts_def) (simp_all add: db_write_def)
qed

lemma within_grows_write:
  assumes "\<And>t. tkeys (f t) = tkeys t"
  shows "within quiet (grows T) (db_write f)"
  unfolding within_def
proof (intro allI impI conjI)
  fix w assume "quiet w"
  then show "quiet (snd (db_write f w))" unfolding db_write_def by (rule quiet_frame) simp_all
  show "grows T w (snd (db_write f w))"
    using db_write_tables [of f w] assms by (auto simp: grows_def) (simp_all add: db_write_def)
qed

lemma within_acts_now [acts_intro]: "within quiet (acts T) now_utc"
  by (auto simp: within_def quiet_def intro: acts_same)

lemma within_acts_id [acts_intro]: "within quiet (acts T) (NewPrefixedID p)"
  by (auto simp: within_def quiet_def intro: acts_same)

lemma within_acts_broadcast [acts_intro]: "within quiet (acts T) (broadcast p ty m)"
  by (auto simp: within_def quiet_def broadcast_def intro: acts_same)

lemma within_acts_with_tables [acts_intro]: "within quiet (acts T) (with_tables f)"
  by (auto simp: within_def with_tables_def intro: acts_same)

lemma within_acts_wait [acts_intro]: "within quiet (acts T) (WaitForCommand rid)"
  by (auto simp: within_def WaitForCommand_def quiet_def intro: acts_same split: option.splits)

lemma within_acts_dispatch [acts_intro]: "cmd_type cmd \<in> T \<Longrightarrow> within quiet (acts T) (DispatchTo a cmd)"
  by (auto simp: within_def DispatchTo_def Let_def quiet_def acts_def split: list.splits)

lemma tkeys_update_deployment:
  "(\<And>d. de_project_id (f d) = de_project_id d \<and> de_id (f d) = de_id d) \<Longrightarrow>
   tkeys (t\<lparr>t_deployments := update_where P f (t_deployments t)\<rparr>) = tkeys t"
  by (simp add: tkeys_def update_where_def)

lemma tkeys_update_revision:
  "(\<And>r. rv_project_id (f r) = rv_project_id r \<and> rv_id (f r) = rv_id r) \<Longrightarrow>
   tkeys (t\<lparr>t_revisions := update_where P f (t_revisions t)\<rparr>) = tkeys t"
  by (simp add: tkeys_def update_where_def)

lemma tpromoted_revisions [simp]: "tpromoted (t\<lparr>t_revisions := x\<rparr>) = tpromoted t"
  by (simp add: tpromoted_def)

lemma tpromoted_incidents [simp]: "tpromoted (t\<lparr>t_incidents := x\<rparr>) = tpromoted t"
  by (simp add: tpromoted_def)

lemma tkeys_incidents [simp]: "tkeys (t\<lparr>t_incidents := x\<rparr>) = tkeys t"
  by (simp add: tkeys_def)

lemma within_acts_revision_status [acts_intro]: "within quiet (acts T) (RevisionUpdateStatus rid st at)"
  unfolding RevisionUpdateStatus_def by (rule within_acts_write) (simp_all add: tkeys_update_revision)

lemma within_acts_snapshot [acts_intro]: "within quiet (acts T) (RevisionUpdateSnapshot rid c m at)"
  unfolding RevisionUpdateSnapshot_def by (rule within_acts_write) (simp_all add: tkeys_update_revision)

lemma within_acts_incident [acts_intro]: "within quiet (acts T) (IncidentCreate i)"
  unfolding IncidentCreate_def by (rule within_acts_write) simp_all

lemma within_acts_deployment_status [acts_intro]:
  "st \<noteq> DeploymentStatusPromoted \<Longrightarrow> within quiet (acts T) (DeploymentUpdateStatus did st s c at)"
  unfolding DeploymentUpdateStatus_def
  by (rule within_acts_write, simp add: tkeys_update_deployment)
    (auto simp: tpromoted_def update_where_def)

lemma within_grows_deployment_status: "within quiet (grows T) (DeploymentUpdateStatus did st s c at)"
  unfolding DeploymentUpdateStatus_def by (rule within_grows_write) (simp add: tkeys_update_deployment)

section \<open>The programs of the rollout\<close>

lemma within_acts_repo_reads [acts_intro]:
  "within quiet (acts T) (ProjectGetByID a)"
  "within quiet (acts T) (RevisionGetByIDForProject a b)" "within quiet (acts T) (RevisionListByProject a)"
  "within quiet (acts T) (DeploymentGetByIDForProject a b)" "within quiet (acts T) (DeploymentListByProject a)"
  "within quiet (acts T) (BindingGetByIDForProject a b)" "within quiet (acts T) (InstanceGetByID a)"
  "within quiet (acts T) (ClusterGetByID a)"
  unfolding repo_reads by (rule within_acts_read)+

lemma within_acts_transition_revision [acts_intro]:
  "within quiet (acts T) (TransitionRevisionStatus pid rid st)"
  unfolding TransitionRevisionStatus_def by (intro acting.within_rules acts_intro)

lemma within_acts_transition_deployment [acts_intro]:
  "trim_space st \<noteq> DeploymentStatusPromoted \<Longrightarrow>
   within quiet (acts T) (TransitionDeploymentStatus pid did st)"
  unfolding TransitionDeploymentStatus_def
  by (intro acting.within_let acting.within_if acting.within_raise acting.within_andThen_from_res)
    (intro acting.within_rules acts_intro, simp)

lemma within_acts_loads [acts_intro]:
  "within quiet (acts T) (load_revision pid rid)" "within quiet (acts T) (load_deployment pid did)"
  "within quiet (acts T) (load_binding pid c)"
  unfolding load_revision_def load_deployment_def load_binding_def
  by (intro acting.within_rules acts_intro)+

lemma within_acts_stable [acts_intro]:
  "within quiet (acts T) (findLastStableRevision pid x)"
  "within quiet (acts T) (findStableRevisionSnapshot pid x)"
  unfolding findStableRevisionSnapshot_def findLastStableRevision_def
  by (intro acting.within_rules acts_intro)+

lemma within_acts_persist [acts_intro]: "within quiet (acts T) (persistRevisionSnapshot rv c)"
  unfolding persistRevisionSnapshot_def by (intro acting.within_rules acts_intro)

lemma within_acts_payload [acts_intro]: "within quiet (acts T) (buildPreparePayload p pid rv b c)"
  unfolding buildPreparePayload_def by (intro acting.within_rules acts_intro)

lemma within_acts_materialize [acts_intro]:
  "within quiet (acts T) (materializeRuntimeSnapshot p pid rv b c)"
  unfolding materializeRuntimeSnapshot_def render_manifest_def
  by (intro acting.within_rules acts_intro)

lemma within_acts_plan [acts_intro]: "within quiet (acts T) (PlanCandidate p pid rid)"
  unfolding PlanCandidate_def by (intro acting.within_rules acts_intro)

lemma within_acts_incidents [acts_intro]:
  "within quiet (acts T) (RecordIncident p pid did rid k sev sm det tr)"
  "within quiet (acts T) (rollback_failure pid did rid sm d)"
  unfolding RecordIncident_def rollback_failure_def createIncident_def
  by (intro acting.within_rules acts_intro)+

lemma within_acts_plan_rollback [acts_intro]: "within quiet (acts T) (PlanRollback p pid did)"
  unfolding PlanRollback_def stable_or_incident_def plan_k3s_rollback_def
  by (intro acting.within_rules acts_intro)

lemma status_differs [simp]:
  "DeploymentStatusRolledBack \<noteq> DeploymentStatusPromoted" "DeploymentStatusFailed \<noteq> DeploymentStatusPromoted"
  "DeploymentStatusRunning \<noteq> DeploymentStatusPromoted"
  "DeploymentStatusCandidateReady \<noteq> DeploymentStatusPromoted"
  "DeploymentStatusQueued \<noteq> DeploymentStatusPromoted"
  by (simp_all add: deployment_status_defs)

lemma within_acts_finalize [acts_intro]: "within quiet (acts T) (FinalizeRollback p pid did f r)"
  unfolding FinalizeRollback_def by (intro acting.within_rules acts_intro) simp

lemma within_acts_fail [acts_intro]: "within quiet (acts T) (failDeployment pid did rid)"
  unfolding failDeployment_def tolerating_def
  by (intro acting.within_rules acts_intro) simp

lemma within_acts_or_return [acts_intro]:
  "within quiet (acts T) m \<Longrightarrow> (\<And>x. within quiet (acts T) (k x)) \<Longrightarrow> within quiet (acts T) (or_return result m k)"
  unfolding or_return_def by (intro acting.within_rules)

lemma cmd_type_enrich [simp]: "cmd_type (enrichRolloutCommand cmd pid rid corr) = cmd_type cmd"
  by (simp add: enrichRolloutCommand_def Let_def)

lemma cmd_type_new [simp]: "cmd_type (new_command ty pid p) = ty"
  by (simp add: new_command_def)

lemma within_acts_gc [acts_intro]:
  "CommandTypeGarbageCollectRuntime \<in> T \<Longrightarrow> within quiet (acts T) (dispatchGarbageCollect pid rid a c result)"
  unfolding dispatchGarbageCollect_def by (intro acting.within_rules acts_intro) simp

lemma within_acts_give_up [acts_intro]: "within quiet (acts T) (give_up pid did rid result err)"
  unfolding give_up_def by (intro acting.within_rules acts_intro)

lemma within_acts_progress [acts_intro]:
  "within quiet (acts T) (broadcastRolloutProgress p did rid pid corr i n ty tracked)"
  unfolding broadcastRolloutProgress_def by (intro acting.within_rules acts_intro)

definition rollback_types :: "string set" where
  "rollback_types = {CommandTypeRollbackRelease, CommandTypeGarbageCollectRuntime}"

lemma within_acts_rollback [acts_intro]:
  "rollback_types \<subseteq> T \<Longrightarrow> within quiet (acts T) (rollbackDeployment s pid did rid a corr result)"
  unfolding rollbackDeployment_def
  by (intro acting.within_rules acts_intro) (auto simp: rollback_types_def intro: acts_intro)

lemma within_acts_record_and_roll_back [acts_intro]:
  "rollback_types \<subseteq> T \<Longrightarrow> within quiet (acts T) (record_and_roll_back s r k sm d tr err result)"
  unfolding record_and_roll_back_def roll_back_with_def
  by (intro acting.within_rules acts_intro)

section \<open>The loop\<close>

lemma within_acts_health_gate [acts_intro]:
  assumes "ex_evaluator s = None" and "rollback_types \<subseteq> T"
  shows "within quiet (acts T) (after_health_gate s r result)"
  unfolding after_health_gate_def evaluateHealthGate_def ExecuteHealthGate_def
    transitionDeploymentStatusIfNeeded_def
  by (simp add: assms(1), intro acting.within_rules acts_intro) (use assms(2) in simp_all)

lemma within_acts_after_command:
  assumes "ex_evaluator s = None" and "rollback_types \<subseteq> T" and "ty \<noteq> CommandTypePromoteRelease"
  shows "within quiet (acts T) (after_command s r ty result)"
  unfolding after_command_def
  by (intro acting.within_rules acts_intro) (use assms in simp_all)

lemma within_grows_promote: "within quiet (grows T) (PromoteCandidate p pid did rid)"
  unfolding PromoteCandidate_def
  by (intro growing.within_rules within_grows_deployment_status acts_intro [THEN within_grows])

lemma within_grows_after_command:
  assumes "ex_evaluator s = None" and "rollback_types \<subseteq> T"
  shows "within quiet (grows T) (after_command s r ty result)"
proof (cases "ty = CommandTypePromoteRelease")
  case True
  then show ?thesis
    using assms unfolding after_command_def promoteCandidateIfNeeded_def or_return_def
    by (simp add: command_types, intro growing.within_rules within_grows_promote acts_intro [THEN within_grows])
      (simp add: rollback_types_def command_types)
next
  case False
  with assms show ?thesis by (intro within_grows within_acts_after_command)
qed

lemma dispatch_promote_acts:
  assumes "cmd_type cmd = CommandTypePromoteRelease" and "CommandTypePromoteRelease \<in> T"
    and k: "\<And>x. within quiet (grows T) (k x)"
  shows "within quiet (acts T) (andThen (attempt (DispatchTo a cmd)) k)"
  unfolding within_def
proof (intro allI impI)
  fix w assume q: "quiet w"
  obtain x w1 where d: "DispatchTo a cmd w = (x, w1)" by fastforce
  have "quiet w1" "w_sent w1 = w_sent w @ [(a, cmd)]" "w_tables w1 = w_tables w"
    using d q by (auto simp: DispatchTo_def Let_def quiet_def split: list.splits)
  moreover have "quiet (snd (k x w1)) \<and> grows T w1 (snd (k x w1))"
    using k [of x] \<open>quiet w1\<close> by (simp add: within_def)
  moreover have "andThen (attempt (DispatchTo a cmd)) k w = k x w1"
    by (simp add: andThen_def run_attempt d)
  ultimately show "quiet (snd (andThen (attempt (DispatchTo a cmd)) k w)) \<and>
      acts T w (snd (andThen (attempt (DispatchTo a cmd)) k w))"
    using assms(1,2) unfolding acts_def grows_def by auto
qed

definition step_types :: "RolloutStep \<Rightarrow> string set" where
  "step_types step = insert (cmd_type (rs_command step)) rollback_types"

lemma within_acts_rollout_step:
  assumes "ex_evaluator s = None"
  shows "within quiet (acts (step_types step)) (rollout_step s r i n step result)"
proof (cases "cmd_type (rs_command step) = CommandTypePromoteRelease")
  case False
  then show ?thesis
    unfolding rollout_step_def shouldSkipRolloutStep_def
    by (intro acting.within_rules acts_intro within_acts_after_command assms)
      (auto simp: step_types_def intro!: acts_intro within_acts_after_command assms)
next
  case True
  have "within quiet (grows (step_types step)) (after_command s r (cmd_type (rs_command step)) result)" for result
    by (rule within_grows_after_command [OF assms]) (auto simp: step_types_def)
  then show ?thesis
    unfolding rollout_step_def shouldSkipRolloutStep_def Let_def
    by (intro acts_intro acting.within_rules dispatch_promote_acts)
      (auto simp: True step_types_def intro!: growing.within_rules acts_intro [THEN within_grows])
qed

section \<open>Steps that go on\<close>

lemma roll_back_is_error:
  "roll_back_with s pid did rid a corr err result w = (Inr (x, e), w') \<Longrightarrow> e \<noteq> None"
  unfolding roll_back_with_def by (auto simp: andThen_Ok_iff split: prod.splits)

lemma record_and_roll_back_is_error:
  "record_and_roll_back s r k sm d tr err result w = (Inr (x, e), w') \<Longrightarrow> e \<noteq> None"
  unfolding record_and_roll_back_def by (auto simp: andThen_Ok_iff dest: roll_back_is_error)

lemma attempt_iff: "attempt m w = (Inr res, w') \<longleftrightarrow> m w = (res, w')"
  by (cases "m w") (auto simp: run_attempt)

lemma or_return_None:
  "or_return result m k w = (Inr (res, None), w') \<longleftrightarrow>
     (\<exists>x w1. m w = (Inr x, w1) \<and> k x w1 = (Inr (res, None), w'))"
proof (cases "m w")
  case (Pair x w1)
  then show ?thesis by (cases x) (auto simp: or_return_def andThen_def run_attempt)
qed

lemma shouldSkip_tables:
  "shouldSkipRolloutStep pid did rid ty w = (r, w') \<Longrightarrow>
   w_tables w' = w_tables w \<and> w_sent w' = w_sent w \<and> w_turns w' = w_turns w \<and>
   w_awaiting w' = w_awaiting w \<and>
   (\<forall>b. r = Inr b \<longrightarrow>
      b = step_done ty (find_deployment pid did (w_tables w)) (find_revision pid rid (w_tables w)))"
  unfolding shouldSkipRolloutStep_def repo_reads
  by (auto elim!: andThen_cases dest!: db_readD)

lemma rollout_step_goes_on:
  assumes "rollout_step s r i n step result w = (Inr (res, None), w')" and "quiet w"
  obtains (skipped) "shouldSkipRolloutStep (ro_project r) (ro_deployment r) (ro_revision r)
      (cmd_type (rs_command step)) w = (Inr True, w')"
  | (executed) cmd cr w4 where "cmd_type cmd = cmd_type (rs_command step)"
      "w_tables w4 = w_tables w" "w_sent w4 = w_sent w @ [(ro_agent r, cmd)]" "quiet w4"
      "after_command s r (cmd_type (rs_command step)) cr w4 = (Inr (res, None), w')"
proof -
  obtain b w1 where skip: "shouldSkipRolloutStep (ro_project r) (ro_deployment r) (ro_revision r)
      (cmd_type (rs_command step)) w = (Inr b, w1)"
    and rest: "(if b then return (result, None) else
       let cmd = enrichRolloutCommand (rs_command step) (ro_project r) (ro_revision r) (ro_correlation r)
       in andThen (attempt (DispatchTo (ro_agent r) cmd)) (\<lambda>sent.
          case sent of
            Inl err \<Rightarrow>
              andThen (ignoring (failDeployment (ro_project r) (ro_deployment r) (ro_revision r))) (\<lambda>_.
              return (result, Some err))
          | Inr cmdResult \<Rightarrow>
              (let result = result\<lparr>er_dispatched := er_dispatched result @ [cmd_type cmd]\<rparr>
               in andThen (attempt (WaitForCommand (cr_request_id cmdResult))) (\<lambda>waited.
                  case waited of
                    Inl waitErr \<Rightarrow>
                      andThen (ignoring (failDeployment (ro_project r) (ro_deployment r) (ro_revision r))) (\<lambda>_.
                      record_and_roll_back s r IncidentKindHealthGateTimeout
                        ''command execution timed out or failed''
                        (any_strs [(''command_type'', cmd_type cmd),
                           (''request_id'', cr_request_id cmdResult), (''error'', error_text waitErr)])
                        ''command_dispatch'' (Wrapped (''command '' @ cmd_type cmd @ '' failed'') waitErr) result)
                  | Inr None \<Rightarrow> raise (Errorf ''nil pointer dereference'')
                  | Inr (Some tracked) \<Rightarrow>
                      if tc_state tracked = CommandStateFailed then
                        andThen (ignoring (failDeployment (ro_project r) (ro_deployment r) (ro_revision r))) (\<lambda>_.
                        record_and_roll_back s r IncidentKindUnhealthyCandidate ''command execution failed''
                          (incident_details (cmd_type cmd) (cr_request_id cmdResult) tracked)
                          ''command_dispatch''
                          (Errorf (''command '' @ cmd_type cmd @ '' failed: '' @ failure_summary tracked)) result)
                      else
                        andThen (broadcastRolloutProgress (ex_planner s) (ro_deployment r) (ro_revision r)
                          (ro_project r) (ro_correlation r) i n (cmd_type cmd) tracked) (\<lambda>_.
                        after_command s r (cmd_type cmd) result))))) w1 = (Inr (res, None), w')"
    using assms(1) unfolding rollout_step_def or_return_None by blast
  note st = shouldSkip_tables [OF skip]
  show thesis
  proof (cases b)
    case True
    with rest skip skipped show thesis by simp
  next
    case False
    let ?cmd = "enrichRolloutCommand (rs_command step) (ro_project r) (ro_revision r) (ro_correlation r)"
    obtain sent w2 where d: "DispatchTo (ro_agent r) ?cmd w1 = (sent, w2)" by fastforce
    obtain cr where cr: "sent = Inr cr"
      using rest False d by (cases sent) (auto simp: andThen_Ok_iff attempt_iff Let_def)
    obtain waited w3 where wt: "WaitForCommand (cr_request_id cr) w2 = (waited, w3)" by fastforce
    have "quiet w1" using assms(2) st by (auto intro: quiet_frame)
    then have w2: "w_tables w2 = w_tables w1" "w_sent w2 = w_sent w1 @ [(ro_agent r, ?cmd)]" "quiet w2"
      using d by (auto simp: DispatchTo_def Let_def quiet_def split: list.splits)
    then have w3: "w_tables w3 = w_tables w2" "w_sent w3 = w_sent w2" "quiet w3"
      using wt by (auto simp: WaitForCommand_def quiet_def split: option.splits)
    obtain tracked where tracked: "waited = Inr (Some tracked)" "tc_state tracked \<noteq> CommandStateFailed"
      using rest False d cr wt
      by (cases waited) (auto simp: andThen_Ok_iff attempt_iff Let_def dest: record_and_roll_back_is_error
          split: option.splits if_splits)
    obtain u w4 where b4: "broadcastRolloutProgress (ex_planner s) (ro_deployment r) (ro_revision r)
        (ro_project r) (ro_correlation r) i n (cmd_type ?cmd) tracked w3 = (u, w4)" by fastforce
    then have w4: "w_tables w4 = w_tables w3" "w_sent w4 = w_sent w3" "quiet w4" "u = Inr ()"
      using w3(3) by (auto simp: broadcastRolloutProgress_def broadcast_def Let_def andThen_def quiet_def
          split: option.splits if_splits)
    have "after_command s r (cmd_type (rs_command step))
        (result\<lparr>er_dispatched := er_dispatched result @ [cmd_type ?cmd]\<rparr>) w4 = (Inr (res, None), w')"
      using rest False d cr wt tracked b4 w4(4) by (auto simp: andThen_Ok_iff attempt_iff Let_def)
    with executed [of ?cmd w4] w2 w3 w4 st show thesis by simp
  qed
qed

lemma after_command_keeps_deployments:
  assumes "after_command s r ty cr w = (Inr (res, None), w')"
    and "ty \<noteq> CommandTypeRunHealthGate" and "ty \<noteq> CommandTypePromoteRelease"
  shows "t_deployments (w_tables w') = t_deployments (w_tables w)"
proof (cases "ty = CommandTypeStartReleaseCandidate")
  case True
  then obtain x w1 where "TransitionRevisionStatus (ro_project r) (ro_revision r) RevisionStatusApplying w = (x, w1)"
    "w_tables w' = w_tables w1"
    using assms(1) by (auto simp: after_command_def or_return_None)
  with TransitionRevisionStatus_outcome [OF this(1)] show ?thesis
    by (auto simp: revision_written_def)
qed (use assms in \<open>auto simp: after_command_def\<close>)

lemma step_keeps_deployments:
  assumes "rollout_step s r i n step result w = (Inr (res, None), w')" and "quiet w"
    and "cmd_type (rs_command step) \<noteq> CommandTypeRunHealthGate"
    and "cmd_type (rs_command step) \<noteq> CommandTypePromoteRelease"
  shows "t_deployments (w_tables w') = t_deployments (w_tables w)"
  using assms(1,2)
proof (cases rule: rollout_step_goes_on)
  case skipped
  from shouldSkip_tables [OF skipped] show ?thesis by simp
next
  case (executed cmd cr w4)
  with after_command_keeps_deployments [OF executed(5) assms(3,4)] show ?thesis by simp
qed

definition steps_types :: "RolloutStep list \<Rightarrow> string set" where
  "steps_types steps = (\<Union>step \<in> set steps. step_types step)"

text \<open>The steps before the health gate: the loop stops in them, or comes through with the deployments as they were.\<close>

lemma loop_before_gate:
  assumes "ex_evaluator s = None" and "quiet w"
    and "\<forall>step \<in> set pre. cmd_type (rs_command step) \<notin> {CommandTypeRunHealthGate, CommandTypePromoteRelease}"
    and "rollout_loop s r i n (pre @ steps) result w = (x, w')"
  shows "(acts (steps_types pre) w w' \<and> quiet w' \<and> (\<forall>res. x \<noteq> Inr (res, None))) \<or>
    (\<exists>i1 res1 w1. rollout_loop s r i1 n steps res1 w1 = (x, w') \<and> quiet w1 \<and>
       acts (steps_types pre) w w1 \<and> t_deployments (w_tables w1) = t_deployments (w_tables w))"
  using assms(2-4)
proof (induction pre arbitrary: i result w)
  case Nil
  then have "rollout_loop s r i n steps result w = (x, w')" by simp
  with Nil.prems(1) show ?case using acting.refl by blast
next
  case (Cons step pre)
  obtain y w1 where y: "rollout_step s r i n step result w = (y, w1)" by fastforce
  have one: "quiet w1 \<and> acts (step_types step) w w1"
    using withinD [OF within_acts_rollout_step [OF assms(1)] Cons.prems(1) y] .
  then have one': "acts (steps_types (step # pre)) w w1"
    by (auto simp: steps_types_def elim: acts_mono)
  show ?case
  proof (cases "\<exists>res1. y = Inr (res1, None)")
    case False
    then have "w' = w1 \<and> (\<forall>res. x \<noteq> Inr (res, None))"
      using Cons.prems(3) y by (cases y) (auto simp: andThen_def split: option.splits)
    with one one' show ?thesis by simp
  next
    case True
    then obtain res1 where res1: "y = Inr (res1, None)" by blast
    have keep: "t_deployments (w_tables w1) = t_deployments (w_tables w)"
      using step_keeps_deployments [OF y [unfolded res1] Cons.prems(1)] Cons.prems(2) by simp
    have "rollout_loop s r (i + 1) n (pre @ steps) res1 w1 = (x, w')"
      using Cons.prems(3) y res1 by (simp add: andThen_def)
    from Cons.IH [OF _ _ this] one Cons.prems(2)
    have "(acts (steps_types pre) w1 w' \<and> quiet w' \<and> (\<forall>res. x \<noteq> Inr (res, None))) \<or>
      (\<exists>i1 res1 w2. rollout_loop s r i1 n steps res1 w2 = (x, w') \<and> quiet w2 \<and>
         acts (steps_types pre) w1 w2 \<and> t_deployments (w_tables w2) = t_deployments (w_tables w1))"
      by simp
    moreover have "acts (steps_types (step # pre)) w v" if "acts (steps_types pre) w1 v" for v
      using acting.trans [OF one' acts_mono [OF that]] by (simp add: steps_types_def)
    ultimately show ?thesis using keep by metis
  qed
qed

section \<open>The gate and the promotion\<close>

lemma gate_step_sends_gate:
  assumes "ex_evaluator s = None" and "quiet w" and gate: "cmd_type (rs_command g) = CommandTypeRunHealthGate"
    and d: "find_deployment (ro_project r) (ro_deployment r) (w_tables w) = Some d"
      "de_status d = DeploymentStatusRunning"
    and step: "rollout_step s r i n g result w = (Inr (res, None), w')"
  shows "\<exists>c cs. w_sent w' = w_sent w @ c # cs \<and> cmd_type (snd c) = CommandTypeRunHealthGate"
  using step assms(2)
proof (cases rule: rollout_step_goes_on)
  case skipped
  with shouldSkip_tables [OF skipped] d gate show ?thesis
    by (auto simp: step_done_def deployment_status_defs split: option.splits)
next
  case (executed cmd cr w4)
  have "acts rollback_types w4 w'"
    using withinD [OF within_acts_after_command [OF assms(1)] executed(4) executed(5)]
    by (simp add: gate command_types)
  with executed(1,3) gate show ?thesis by (auto simp: acts_def)
qed

lemma tkeys_find_deployment:
  "find_deployment pid did t = None \<longleftrightarrow> (pid, did) \<notin> set (fst (tkeys t))"
  by (force simp: find_deployment_def find_None_iff tkeys_def)

lemma load_revision_Ok:
  assumes "load_revision pid rid w = (Inr v, w1)"
  shows "find_revision pid rid (w_tables w) = Some v \<and> w_tables w1 = w_tables w \<and> w_sent w1 = w_sent w"
proof -
  obtain found where "db_read (find_revision pid rid) w = (Inr found, w1)" "found = Some v"
    using assms unfolding load_revision_def RevisionGetByIDForProject_def
    by (auto simp: andThen_Ok_iff split: option.splits)
  with db_readD [of "find_revision pid rid" w "Inr found" w1] show ?thesis by auto
qed

lemma load_deployment_Ok:
  assumes "load_deployment pid did w = (Inr d, w1)"
  shows "find_deployment pid did (w_tables w) = Some d \<and> w_tables w1 = w_tables w \<and> w_sent w1 = w_sent w"
proof -
  obtain found where "db_read (find_deployment pid did) w = (Inr found, w1)" "found = Some d"
    using assms unfolding load_deployment_def DeploymentGetByIDForProject_def
    by (auto simp: andThen_Ok_iff split: option.splits)
  with db_readD [of "find_deployment pid did" w "Inr found" w1] show ?thesis by auto
qed

lemma PromoteCandidate_Ok:
  assumes "PromoteCandidate p pid did rid w = (Inr pm, w')"
  shows "\<exists>v now. find_revision pid rid (w_tables w) = Some v \<and>
    rv_status v \<in> {RevisionStatusArtifactReady, RevisionStatusPlanned, RevisionStatusApplying} \<and>
    find_revision pid rid (w_tables w') =
      Some (v\<lparr>rv_status := RevisionStatusPromoted, rv_updated_at := now\<rparr>) \<and>
    find_deployment pid did (w_tables w') = map_option (\<lambda>d. d\<lparr>de_status := DeploymentStatusPromoted,
      de_updated_at := now, de_completed_at := Some now\<rparr>) (find_deployment pid did (w_tables w)) \<and>
    pm_promoted_at pm = now \<and> w_sent w' = w_sent w"
proof -
  obtain v w1 w2 w3 now where v: "load_revision pid rid w = (Inr v, w1)"
    and st: "rv_status v \<in> {RevisionStatusArtifactReady, RevisionStatusPlanned, RevisionStatusApplying}"
    and now: "now = w_clock w1 (w_tick w1)"
    and u: "RevisionUpdateStatus rid RevisionStatusPromoted now (w1\<lparr>w_tick := w_tick w1 + 1\<rparr>) = (Inr (), w2)"
    and du: "DeploymentUpdateStatus did DeploymentStatusPromoted None (Some now) now w2 = (Inr (), w3)"
    and w': "w_tables w' = w_tables w3" "w_sent w' = w_sent w3" "pm_promoted_at pm = now"
    using assms unfolding PromoteCandidate_def
    by (auto simp: andThen_Ok_iff broadcast_def split: if_splits)
  have v1: "find_revision pid rid (w_tables w) = Some v" "w_tables w1 = w_tables w" "w_sent w1 = w_sent w"
    using load_revision_Ok [OF v] by simp_all
  have rid: "rv_id v = rid" using find_revisionD [OF v1(1)] by simp
  have w2: "w_tables w2 = (w_tables w)\<lparr>t_revisions := update_where (\<lambda>r. rv_id r = rid)
      (\<lambda>r. r\<lparr>rv_status := RevisionStatusPromoted, rv_updated_at := now\<rparr>) (t_revisions (w_tables w))\<rparr>"
    "w_sent w2 = w_sent w"
    using u v1 unfolding RevisionUpdateStatus_def by (auto dest!: db_writeD)
  have w3: "w_tables w3 = (w_tables w2)\<lparr>t_deployments := update_where (\<lambda>d. de_id d = did)
       (\<lambda>d. d\<lparr>de_status := DeploymentStatusPromoted, de_updated_at := now,
              de_started_at := de_started_at d, de_completed_at := Some now\<rparr>)
       (t_deployments (w_tables w2))\<rparr>" "w_sent w3 = w_sent w2"
    using du unfolding DeploymentUpdateStatus_def by (auto dest!: db_writeD)
  have "find_deployment pid did (w_tables w') = map_option (\<lambda>d. d\<lparr>de_status := DeploymentStatusPromoted,
      de_updated_at := now, de_completed_at := Some now\<rparr>) (find_deployment pid did (w_tables w))"
    unfolding find_deployment_def w'(1) w3(1) w2(1)
    by (simp add: find_update_where)
      (cases "List.find (\<lambda>d. de_project_id d = pid \<and> de_id d = did) (t_deployments (w_tables w))";
        auto dest: find_SomeD)
  moreover have "find_revision pid rid (w_tables w') =
      Some (v\<lparr>rv_status := RevisionStatusPromoted, rv_updated_at := now\<rparr>)"
    by (simp add: w'(1) w3(1) w2(1) v1(1) rid)
  ultimately show ?thesis using v1(1) st w' w3(2) w2(2) by auto
qed

definition both_promoted :: "string \<Rightarrow> string \<Rightarrow> string \<Rightarrow> tables \<Rightarrow> bool" where
  "both_promoted pid did rid t \<longleftrightarrow>
     (\<exists>d v. find_deployment pid did t = Some d \<and> trim_space (de_status d) = DeploymentStatusPromoted \<and>
        find_revision pid rid t = Some v \<and> trim_space (rv_status v) = RevisionStatusPromoted)"

lemma promoteIfNeeded_Ok:
  assumes run: "promoteCandidateIfNeeded p pid did rid w = (Inr pm, w')"
    and row: "find_deployment pid did (w_tables w) \<noteq> None"
  shows "both_promoted pid did rid (w_tables w')"
proof -
  obtain dep w1 where dep: "db_read (find_deployment pid did) w = (Inr dep, w1)"
    and run1: "andThen (db_read (find_revision pid rid)) (\<lambda>rv.
     case (dep, rv) of
       (Some d, Some r) \<Rightarrow>
         if trim_space (de_status d) = DeploymentStatusPromoted \<and>
            trim_space (rv_status r) = RevisionStatusPromoted
         then return \<lparr>pm_revision_id = rid, pm_deployment_id = did, pm_promoted_at = de_updated_at d\<rparr>
         else PromoteCandidate p pid did rid
     | _ \<Rightarrow> PromoteCandidate p pid did rid) w1 = (Inr pm, w')"
    using run unfolding promoteCandidateIfNeeded_def DeploymentGetByIDForProject_def
      RevisionGetByIDForProject_def by (auto simp: andThen_Ok_iff)
  obtain rv w2 where rv: "db_read (find_revision pid rid) w1 = (Inr rv, w2)"
    and run2: "(case (dep, rv) of
       (Some d, Some r) \<Rightarrow>
         if trim_space (de_status d) = DeploymentStatusPromoted \<and>
            trim_space (rv_status r) = RevisionStatusPromoted
         then return \<lparr>pm_revision_id = rid, pm_deployment_id = did, pm_promoted_at = de_updated_at d\<rparr>
         else PromoteCandidate p pid did rid
     | _ \<Rightarrow> PromoteCandidate p pid did rid) w2 = (Inr pm, w')"
    using run1 unfolding andThen_Ok_iff by blast
  have t: "w_tables w1 = w_tables w" "w_tables w2 = w_tables w" "dep = find_deployment pid did (w_tables w)"
    "rv = find_revision pid rid (w_tables w)"
    using db_read_Ok [OF dep] db_read_Ok [OF rv] by auto
  obtain d where d: "dep = Some d" using row t by auto
  show ?thesis
  proof (cases "\<exists>r. rv = Some r \<and> trim_space (de_status d) = DeploymentStatusPromoted \<and>
            trim_space (rv_status r) = RevisionStatusPromoted")
    case True
    then have "w_tables w' = w_tables w" using run2 d t by auto
    with True d t show ?thesis by (auto simp: both_promoted_def)
  next
    case False
    then have "PromoteCandidate p pid did rid w2 = (Inr pm, w')"
      using run2 d by (auto split: option.splits if_splits)
    from PromoteCandidate_Ok [OF this] d t show ?thesis
      by (auto simp: both_promoted_def)
  qed
qed

lemma promote_step_promotes:
  assumes "quiet w" and ty: "cmd_type (rs_command p) = CommandTypePromoteRelease"
    and step: "rollout_step s r i n p result w = (Inr (res, None), w')"
    and row: "find_deployment (ro_project r) (ro_deployment r) (w_tables w) \<noteq> None"
  shows "both_promoted (ro_project r) (ro_deployment r) (ro_revision r) (w_tables w')"
  using step assms(1)
proof (cases rule: rollout_step_goes_on)
  case skipped
  from shouldSkip_tables [OF skipped] row ty show ?thesis
    by (auto simp: step_done_def both_promoted_def command_types split: option.splits if_splits)
next
  case (executed cmd cr w4)
  then obtain pm w5 where p: "promoteCandidateIfNeeded (ex_planner s) (ro_project r) (ro_deployment r)
      (ro_revision r) w4 = (Inr pm, w5)"
    and gc: "dispatchGarbageCollect (ro_project r) (ro_revision r) (ro_agent r) (ro_correlation r)
      (cr\<lparr>er_promotion := Some pm\<rparr>) w5 = (Inr (res, None), w')"
    by (auto simp: after_command_def ty command_types or_return_None)
  have "w_tables w' = w_tables w5"
    using gc by (auto simp: dispatchGarbageCollect_def Let_def or_return_None DispatchTo_def split: list.splits)
  with promoteIfNeeded_Ok [OF p] row executed(2) show ?thesis by simp
qed

section \<open>The preparation\<close>

lemma within_acts_resolve_agent: "within quiet (acts T) (resolveRolloutAgent s b)"
  unfolding resolveRolloutAgent_def by (intro acting.within_rules acts_intro)

lemma within_acts_prepare: "within quiet (acts T) (prepare_rollout s pid d rv)"
  unfolding prepare_rollout_def
  by (intro acting.within_rules acts_intro within_acts_resolve_agent) simp

lemma PlanCandidate_steps:
  assumes "PlanCandidate p pid rid w = (Inr plan, w')" and "pl_registry p = app_registry"
  shows "\<exists>pre g q. rpl_steps plan = pre @ [g, q] \<and>
    cmd_type (rs_command g) = CommandTypeRunHealthGate \<and>
    cmd_type (rs_command q) = CommandTypePromoteRelease \<and>
    (\<forall>step \<in> set pre. cmd_type (rs_command step) \<notin> {CommandTypeRunHealthGate, CommandTypePromoteRelease})"
proof -
  obtain mode d req dp where "GetDriver mode app_registry = Ok d" "drv_plan d req = Ok dp"
    and steps: "rpl_steps plan = dp_steps dp"
    using assms unfolding PlanCandidate_def
    by (auto simp: andThen_Ok_iff split: option.splits)
  then obtain pre where pre: "map (\<lambda>s. cmd_type (rs_command s)) (dp_steps dp) =
      pre @ [CommandTypeRunHealthGate, CommandTypePromoteRelease]"
    "{CommandTypeRunHealthGate, CommandTypePromoteRelease, CommandTypeRollbackRelease} \<inter> set pre = {}"
    using app_driver_plan_shape by blast
  obtain xs ys where xy: "dp_steps dp = xs @ ys" "map (\<lambda>s. cmd_type (rs_command s)) xs = pre"
    "map (\<lambda>s. cmd_type (rs_command s)) ys = [CommandTypeRunHealthGate, CommandTypePromoteRelease]"
    using pre(1) by (auto simp: map_eq_append_conv)
  obtain g q where gq: "ys = [g, q]" "cmd_type (rs_command g) = CommandTypeRunHealthGate"
    "cmd_type (rs_command q) = CommandTypePromoteRelease" using xy(3) by auto
  have "cmd_type (rs_command step) \<notin> {CommandTypeRunHealthGate, CommandTypePromoteRelease}"
    if "step \<in> set xs" for step
  proof -
    have "cmd_type (rs_command step) \<in> set pre" using xy(2) that by auto
    with pre(2) show ?thesis by auto
  qed
  then show ?thesis
    using xy(1) gq steps by (intro exI [of _ xs] exI [of _ g] exI [of _ q]) simp
qed

lemma prepare_rollout_Ok:
  assumes run: "prepare_rollout s pid dep rv w = (Inr (r, plan, b), w')"
    and trim: "trim_space pid = pid" "trim_space (de_id dep) = de_id dep"
  shows "ro_project r = pid \<and> ro_deployment r = de_id dep \<and> ro_revision r = rv_id rv \<and>
    (\<exists>v v'. PlanCandidate (ex_planner s) pid (rv_id rv) v = (Inr plan, v')) \<and>
    (\<exists>d. find_deployment pid (de_id dep) (w_tables w') = Some d \<and> de_status d = DeploymentStatusRunning)"
proof -
  obtain v v' x w1 w2 w3 y where plan: "PlanCandidate (ex_planner s) pid (rv_id rv) v = (Inr plan, v')"
    and t: "TransitionDeploymentStatus pid (de_id dep) DeploymentStatusRunning w1 = (Inr y, w2)"
    and w': "w_tables w' = w_tables w2"
    and r: "ro_project r = pid" "ro_deployment r = de_id dep" "ro_revision r = rv_id rv"
    using run unfolding prepare_rollout_def
    by (auto simp: andThen_Ok_iff split: if_splits option.splits prod.splits)
  have "\<exists>d. find_deployment pid (de_id dep) (w_tables w2) = Some d \<and> de_status d = DeploymentStatusRunning"
    using TransitionDeploymentStatus_outcome [OF t] trim
    by (auto simp: deployment_written_def dest: find_deploymentD)
  with plan w' r show ?thesis by auto
qed

lemma record_parses: "ToDesiredStateRevisionRecord v = Inr x \<Longrightarrow> \<exists>c. parseCompiledRevision (rv_compiled v) = Inr c"
  by (cases "parseCompiledRevision (rv_compiled v)") (auto simp: ToDesiredStateRevisionRecord_def res_bind_def)

lemma prepare_live:
  assumes run: "prepare_rollout s pid dep rv w = (Inr (r, plan, b), w')"
    and trim: "trim_space pid = pid" "trim_space (de_id dep) = de_id dep" "trim_space (rv_id rv) = rv_id rv"
    and ne: "pid \<noteq> []" "de_id dep \<noteq> []" "rv_id rv \<noteq> []"
    and faults: "w_faults w = []"
  shows "live r DeploymentStatusRunning w' \<and> ids_ok r \<and> same_io w w'"
proof -
  obtain w0 x w1 y w2 where
    rt: "TransitionRevisionStatus pid (rv_id rv) RevisionStatusPlanned w0 = (Inr x, w1)"
    and dt: "TransitionDeploymentStatus pid (de_id dep) DeploymentStatusRunning w1 = (Inr y, w2)"
    and w': "w_tables w' = w_tables w2"
    and r: "ro_project r = pid" "ro_deployment r = de_id dep" "ro_revision r = rv_id rv"
    using run unfolding prepare_rollout_def
    by (auto simp: andThen_Ok_iff split: if_splits option.splits prod.splits)
  obtain v now where v: "find_revision pid (rv_id rv) (w_tables w0) = Some v"
    "w_tables w1 = revision_written v RevisionStatusPlanned now (w_tables w0)"
    "Inr x = ToDesiredStateRevisionRecord (v\<lparr>rv_status := RevisionStatusPlanned, rv_updated_at := now\<rparr>)"
    using TransitionRevisionStatus_outcome [OF rt] trim by auto
  obtain c where c: "parseCompiledRevision (rv_compiled v) = Inr c"
    using record_parses [OF v(3) [symmetric]] by auto
  have "find_revision pid (rv_id rv) (w_tables w1) =
      Some (v\<lparr>rv_status := RevisionStatusPlanned, rv_updated_at := now\<rparr>)"
    using v(1) find_revisionD [OF v(1)] by (simp add: v(2) revision_written_def)
  moreover have "find_revision pid (rv_id rv) (w_tables w2) = find_revision pid (rv_id rv) (w_tables w1)"
    using TransitionDeploymentStatus_outcome [OF dt] by (auto simp: deployment_written_def)
  moreover have "no_faults w' \<and> same_io w w'"
    using withinD [OF calm_prepare _ run] faults by (simp add: no_faults_def)
  ultimately show ?thesis
    using prepare_rollout_Ok [OF run trim(1,2)] c r trim ne w'
    by (auto simp: live_def ids_ok_def no_faults_def)
qed

section \<open>Whole rollouts\<close>

text \<open>
  One rollout, split where \<open>StartDeployment\<close> reaches its loop: either it never does, and then it sent
  nothing and promoted nothing, or the loop runs a plan of the given shape on a running deployment.
\<close>

lemma StartDeployment_split:
  assumes run: "StartDeployment s pid did w = (x, w')" and q: "quiet w"
    and reg: "pl_registry (ex_planner s) = app_registry"
  obtains (before) "acts {} w w'" "\<forall>res. x \<noteq> Inr (res, None)"
  | (loop) d r pre g p i res0 w1 where
      "find_deployment (trim_space pid) (trim_space did) (w_tables w) = Some d"
      "ro_project r = trim_space pid" "ro_deployment r = trim_space did" "ro_revision r = de_revision_id d"
      "acts {} w w1" "quiet w1"
      "\<exists>e. find_deployment (ro_project r) (ro_deployment r) (w_tables w1) = Some e \<and>
         de_status e = DeploymentStatusRunning"
      "cmd_type (rs_command g) = CommandTypeRunHealthGate"
      "cmd_type (rs_command p) = CommandTypePromoteRelease"
      "\<forall>step \<in> set pre. cmd_type (rs_command step) \<notin> {CommandTypeRunHealthGate, CommandTypePromoteRelease}"
      "rollout_loop s r 0 i (pre @ [g, p]) res0 w1 = (x, w')"
proof (cases "trim_space pid = [] \<or> trim_space did = []")
  case True
  then have "x = Inl (Sentinel ErrInvalidInput)" "w' = w"
    using run by (auto simp: StartDeployment_def)
  then show thesis using before by (simp add: acts_same)
next
  case False
  obtain dr w1 where d: "load_deployment (trim_space pid) (trim_space did) w = (dr, w1)" by fastforce
  have a1: "quiet w1 \<and> acts {} w w1"
    using withinD [OF within_acts_loads(2) q d] .
  show thesis
  proof (cases dr)
    case (Inl e)
    then have "x = Inl e" "w' = w1" using run d False by (auto simp: StartDeployment_def Let_def)
    then show thesis using before a1 by simp
  next
    case dOk: (Inr d0)
    obtain vr w2 where v: "load_revision (trim_space pid) (de_revision_id d0) w1 = (vr, w2)" by fastforce
    have a2: "quiet w2 \<and> acts {} w1 w2"
      using withinD [OF within_acts_loads(1) conjunct1 [OF a1] v] .
    then have a12: "acts {} w w2" using a1 by (blast intro: acting.trans)
    show thesis
    proof (cases vr)
      case (Inl e)
      then have "x = Inl e" "w' = w2" using run d dOk v False by (auto simp: StartDeployment_def Let_def)
      then show thesis using before a12 by simp
    next
      case vOk: (Inr rv)
      show thesis
      proof (cases "rolloutAlreadyStarted (de_status d0) (rv_status rv)")
        case True
        then have "w' = w2" "\<forall>res. x \<noteq> Inr (res, None)"
          using run d dOk v vOk False by (auto simp: StartDeployment_def Let_def)
        then show thesis using before a12 by simp
      next
        case started: False
        obtain pr w3 where pr: "prepare_rollout s (trim_space pid) d0 rv w2 = (pr, w3)" by fastforce
        have a3: "quiet w3 \<and> acts {} w2 w3"
          using withinD [OF within_acts_prepare conjunct1 [OF a2] pr] .
        then have a123: "acts {} w w3" using a12 by (blast intro: acting.trans)
        show thesis
        proof (cases pr)
          case (Inl e)
          then have "x = Inl e" "w' = w3"
            using run d dOk v vOk False started pr by (auto simp: StartDeployment_def Let_def)
          then show thesis using before a123 by simp
        next
          case prOk: (Inr z)
          obtain r plan b where z: "z = (r, plan, b)" by (cases z) auto
          have d0: "find_deployment (trim_space pid) (trim_space did) (w_tables w) = Some d0"
            using load_deployment_Ok [OF d [unfolded dOk]] by simp
          have id: "de_id d0 = trim_space did" using find_deploymentD [OF d0] by simp
          have rid: "rv_id rv = de_revision_id d0"
            using load_revision_Ok [OF v [unfolded vOk]] by (auto dest: find_revisionD)
          have p: "ro_project r = trim_space pid" "ro_deployment r = trim_space did"
            "ro_revision r = de_revision_id d0"
            "\<exists>u u'. PlanCandidate (ex_planner s) (trim_space pid) (rv_id rv) u = (Inr plan, u')"
            "\<exists>e. find_deployment (trim_space pid) (trim_space did) (w_tables w3) = Some e \<and>
               de_status e = DeploymentStatusRunning"
            using prepare_rollout_Ok [OF pr [unfolded prOk z]] id rid by auto
          obtain pre g q where steps: "rpl_steps plan = pre @ [g, q]"
            "cmd_type (rs_command g) = CommandTypeRunHealthGate"
            "cmd_type (rs_command q) = CommandTypePromoteRelease"
            "\<forall>step \<in> set pre. cmd_type (rs_command step) \<notin> {CommandTypeRunHealthGate, CommandTypePromoteRelease}"
            using p(4) PlanCandidate_steps [OF _ reg] by metis
          obtain u w4 where b: "broadcast (ex_planner s) ''deployment.started'' (any_strs
               [(''deployment_id'', ro_deployment r), (''revision_id'', ro_revision r),
                (''project_id'', trim_space pid), (''runtime_mode'', bi_runtime_mode b),
                (''target_kind'', bi_target_kind b), (''target_id'', bi_target_id b),
                (''correlation_id'', ro_correlation r)]) w3 = (u, w4)" by fastforce
          then have w4: "u = Inr ()" "w_tables w4 = w_tables w3" "quiet w4" "acts {} w w4"
            using a3 a123 by (auto simp: broadcast_def quiet_def acts_def split: if_splits)
          have "rollout_loop s r 0 (int (length (rpl_steps plan))) (pre @ [g, q])
               ((empty_result (ro_deployment r) (ro_revision r))\<lparr>er_agent_id := ro_agent r,
                  er_correlation_id := ro_correlation r\<rparr>) w4 = (x, w')"
            using run d dOk v vOk False started pr prOk z b w4(1) steps(1)
            by (simp add: StartDeployment_def Let_def)
          with loop [OF d0 p(1,2,3) w4(4,3) _ steps(2,3,4)] p w4(2) show thesis by simp
        qed
      qed
    qed
  qed
qed

lemma promote_not_before_gate:
  assumes "CommandTypePromoteRelease \<notin> set A" and "A @ CommandTypeRunHealthGate # C = xs @ CommandTypePromoteRelease # ys"
  shows "CommandTypeRunHealthGate \<in> set xs"
proof -
  have ne: "CommandTypeRunHealthGate \<noteq> CommandTypePromoteRelease" by (simp add: command_types)
  obtain us where "A = xs @ us \<and> us @ CommandTypeRunHealthGate # C = CommandTypePromoteRelease # ys \<or>
      A @ us = xs \<and> CommandTypeRunHealthGate # C = us @ CommandTypePromoteRelease # ys"
    using assms(2) by (auto simp: append_eq_append_conv2)
  then show ?thesis using ne assms(1) by (cases us) auto
qed

lemma acts_not_promote:
  "acts T w w' \<Longrightarrow> CommandTypePromoteRelease \<notin> T \<Longrightarrow> tpromoted (w_tables w') \<subseteq> tpromoted (w_tables w)"
  by (auto simp: acts_def)

lemma no_error_promotes:
  assumes q: "quiet w" and ev: "ex_evaluator s = None"
    and reg: "pl_registry (ex_planner s) = app_registry"
    and run: "StartDeployment s pid did w = (Ok (res, None), w')"
  shows "\<exists>d. find_deployment (trim_space pid) (trim_space did) (w_tables w) = Some d \<and>
    both_promoted (trim_space pid) (trim_space did) (de_revision_id d) (w_tables w')"
  using run q reg
proof (cases rule: StartDeployment_split)
  case before
  then show ?thesis by simp
next
  case (loop d r pre g p i res0 w1)
  from loop_before_gate [OF ev loop(6,10,11)] obtain i1 res1 w2 where
    l: "rollout_loop s r i1 i [g, p] res1 w2 = (Ok (res, None), w')" and q2: "quiet w2"
    and a: "acts (steps_types pre) w1 w2" by blast
  obtain res2 w3 where g: "rollout_step s r i1 i g res1 w2 = (Ok (res2, None), w3)"
    and lp: "rollout_loop s r (i1 + 1) i [p] res2 w3 = (Ok (res, None), w')"
    using l by (auto simp: andThen_Ok_iff split: prod.splits option.splits)
  have q3: "quiet w3" and a3: "acts (step_types g) w2 w3"
    using withinD [OF within_acts_rollout_step [OF ev] q2 g] by auto
  have p: "rollout_step s r (i1 + 1) i p res2 w3 = (Ok (res, None), w')"
    using lp by (auto simp: andThen_Ok_iff split: prod.splits option.splits)
  have "tkeys (w_tables w3) = tkeys (w_tables w1)" using a a3 by (simp add: acts_def)
  then have "find_deployment (ro_project r) (ro_deployment r) (w_tables w3) \<noteq> None"
    using loop(7) by (metis tkeys_find_deployment option.distinct(1))
  from promote_step_promotes [OF q3 loop(9) p this] loop(1-4) show ?thesis by auto
qed

lemma rollout_runs_through:
  assumes ev: "ex_evaluator s = None" and reg: "pl_registry (ex_planner s) = app_registry"
    and faults: "w_faults w = []"
    and d: "find_deployment (trim_space pid) (trim_space did) (w_tables w) = Some d"
    and v: "find_revision (trim_space pid) (de_revision_id d) (w_tables w) = Some v"
    and ids: "trim_space pid \<noteq> []" "trim_space did \<noteq> []" "de_revision_id d \<noteq> []"
      "trim_space (de_revision_id d) = de_revision_id d"
    and fresh: "\<not> rolloutAlreadyStarted (de_status d) (rv_status v)"
    and prep: "prepare_rollout s (trim_space pid) d v w = (Ok (r, plan, b), w1)"
    and turns: "list_all good_turn (w_turns w)" "length (rpl_steps plan) + 1 \<le> length (w_turns w)"
  shows "\<exists>res w' cs. StartDeployment s pid did w = (Ok (res, None), w') \<and> w_sent w' = w_sent w @ cs \<and>
    sent_types cs = map (\<lambda>p. cmd_type (rs_command p)) (rpl_steps plan) @ [CommandTypeGarbageCollectRuntime]"
proof -
  have id: "de_id d = trim_space did" "rv_id v = de_revision_id d"
    using find_deploymentD [OF d] find_revisionD [OF v] by simp_all
  have 1: "live r DeploymentStatusRunning w1" "ids_ok r" "same_io w w1"
    using prepare_live [OF prep _ _ _ _ _ _ faults] id ids by auto
  obtain pre g q where steps: "rpl_steps plan = pre @ [g, q]"
    "cmd_type (rs_command g) = CommandTypeRunHealthGate"
    "cmd_type (rs_command q) = CommandTypePromoteRelease"
    "\<forall>p \<in> set pre. cmd_type (rs_command p) \<notin> {CommandTypeRunHealthGate, CommandTypePromoteRelease}"
    using prepare_rollout_Ok [OF prep] id PlanCandidate_steps [OF _ reg] by auto metis
  obtain w2 where b: "broadcast (ex_planner s) ''deployment.started'' (any_strs
       [(''deployment_id'', ro_deployment r), (''revision_id'', ro_revision r),
        (''project_id'', trim_space pid), (''runtime_mode'', bi_runtime_mode b),
        (''target_kind'', bi_target_kind b), (''target_id'', bi_target_id b),
        (''correlation_id'', ro_correlation r)]) w1 = (Ok (), w2)"
    "w_tables w2 = w_tables w1" "w_faults w2 = w_faults w1" "same_io w1 w2"
    using broadcast_run by blast
  have io: "w_sent w2 = w_sent w" "w_turns w2 = w_turns w" using 1(3) b(4) by (simp_all add: same_io_def)
  have "length pre + 3 \<le> length (w_turns w2)" "list_all good_turn (w_turns w2)"
    using turns io steps(1) by simp_all
  from live_rollout [OF live_frame [OF 1(1) b(2,3)] 1(2) ev this(2,1) steps(4,2,3)]
  obtain res w' cs where "rollout_loop s r 0 (int (length (rpl_steps plan))) (pre @ [g, q])
      ((empty_result (ro_deployment r) (ro_revision r))\<lparr>er_agent_id := ro_agent r,
         er_correlation_id := ro_correlation r\<rparr>) w2 = (Ok (res, None), w')" "w_sent w' = w_sent w2 @ cs"
    "map (\<lambda>c. cmd_type (snd c)) cs =
      map (\<lambda>p. cmd_type (rs_command p)) (pre @ [g, q]) @ [CommandTypeGarbageCollectRuntime]"
    by blast
  moreover have "load_deployment (trim_space pid) (trim_space did) w = (Ok d, w)"
    "load_revision (trim_space pid) (de_revision_id d) w = (Ok v, w)"
    using faults d v by (simp_all add: load_deployment_def load_revision_def
        DeploymentGetByIDForProject_def RevisionGetByIDForProject_def andThen_def)
  ultimately have "StartDeployment s pid did w = (Ok (res, None), w') \<and> w_sent w' = w_sent w @ cs \<and>
    sent_types cs = map (\<lambda>p. cmd_type (rs_command p)) (rpl_steps plan) @ [CommandTypeGarbageCollectRuntime]"
    using fresh prep b(1) ids steps(1) io(1) unfolding StartDeployment_def Let_def
    by (simp add: sent_types_def)
  then show ?thesis by blast
qed

section \<open>Properties\<close>

text \<open>What is sent between two states: no promotion without a gate before it, and none in the database without one sent.\<close>

abbreviation gated :: "world \<Rightarrow> world \<Rightarrow> bool" where
  "gated w w' \<equiv> \<exists>cs. w_sent w' = w_sent w @ cs \<and>
    (\<forall>xs ys. sent_types cs = xs @ CommandTypePromoteRelease # ys \<longrightarrow> CommandTypeRunHealthGate \<in> set xs) \<and>
    (CommandTypePromoteRelease \<notin> set (sent_types cs) \<longrightarrow> tpromoted (w_tables w') \<subseteq> tpromoted (w_tables w))"

lemma gate_then_promote:
  assumes a2: "acts T w w2" and np: "CommandTypePromoteRelease \<notin> T" and a3: "acts G w2 w3" and npg: "CommandTypePromoteRelease \<notin> G"
    and gate: "w_sent w3 = w_sent w2 @ c # cs" "cmd_type (snd c) = CommandTypeRunHealthGate"
    and a4: "acts P w3 w'"
  shows "gated w w'"
proof -
  obtain as where as: "w_sent w2 = w_sent w @ as" "set (sent_types as) \<subseteq> T"
    using a2 by (auto simp: acts_def)
  obtain ds where ds: "w_sent w' = w_sent w3 @ ds"
    "CommandTypePromoteRelease \<notin> set (sent_types ds) \<longrightarrow> tpromoted (w_tables w') \<subseteq> tpromoted (w_tables w3)"
    using a4 by (auto simp: acts_def)
  have nas: "CommandTypePromoteRelease \<notin> set (sent_types as)" using as(2) np by blast
  have sent: "w_sent w' = w_sent w @ (as @ c # cs @ ds)" by (simp add: as(1) gate(1) ds(1))
  have "CommandTypeRunHealthGate \<in> set xs"
    if "sent_types (as @ c # cs @ ds) = xs @ CommandTypePromoteRelease # ys" for xs ys
    using promote_not_before_gate [OF nas, of "sent_types (cs @ ds)" xs ys] that gate(2) by simp
  moreover have "tpromoted (w_tables w') \<subseteq> tpromoted (w_tables w)"
    if "CommandTypePromoteRelease \<notin> set (sent_types (as @ c # cs @ ds))"
    using that ds(2) acts_not_promote [OF a2 np] acts_not_promote [OF a3 npg] by auto
  ultimately show ?thesis using sent by blast
qed

lemma loop_at_gate:
  assumes ev: "ex_evaluator s = None" and q2: "quiet w2" and l: "rollout_loop s r i1 i [g, p] res1 w2 = (x, w')"
    and gate: "cmd_type (rs_command g) = CommandTypeRunHealthGate"
    and running: "\<exists>e. find_deployment (ro_project r) (ro_deployment r) (w_tables w2) = Some e \<and> de_status e = DeploymentStatusRunning"
    and a2: "acts T w w2" and np: "CommandTypePromoteRelease \<notin> T"
  shows "gated w w'"
proof -
  obtain y w3 where g: "rollout_step s r i1 i g res1 w2 = (y, w3)" by fastforce
  have q3: "quiet w3" and a3: "acts (step_types g) w2 w3"
    using withinD [OF within_acts_rollout_step [OF ev] q2 g] by auto
  have npg: "CommandTypePromoteRelease \<notin> step_types g"
    by (simp add: step_types_def gate rollback_types_def command_types)
  show ?thesis
  proof (cases "\<exists>res2. y = Inr (res2, None)")
    case False
    then have "w' = w3" using l g by (cases y) (auto simp: andThen_def split: option.splits)
    moreover have "acts (T \<union> step_types g) w w3"
      using acting.trans [OF acts_mono [OF a2] acts_mono [OF a3], of "T \<union> step_types g"] by simp
    ultimately show ?thesis using np npg by (auto simp: acts_def)
  next
    case True
    then obtain res2 where y: "y = Inr (res2, None)" by blast
    obtain c cs where sends: "w_sent w3 = w_sent w2 @ c # cs" "cmd_type (snd c) = CommandTypeRunHealthGate"
      using gate_step_sends_gate [OF ev q2 gate _ _ g [unfolded y]] running by blast
    have lp: "rollout_loop s r (i1 + 1) i [p] res2 w3 = (x, w')"
      using l g y by (simp add: andThen_def)
    obtain z w4 where p: "rollout_step s r (i1 + 1) i p res2 w3 = (z, w4)" by fastforce
    have "w' = w4" using lp p by (auto simp: andThen_def split: sum.splits prod.splits option.splits)
    then have a4: "acts (step_types p) w3 w'"
      using withinD [OF within_acts_rollout_step [OF ev] q3 p] by simp
    then show ?thesis by (rule gate_then_promote [OF a2 np a3 npg sends])
  qed
qed

text \<open>
  Property C1: no promotion without the agent's gate. In one call of \<open>StartDeployment\<close>, whatever the
  agents answer and wherever the database fails (other requests leave the tables alone meanwhile), every \<open>promote_release\<close> it sends comes after a
  \<open>run_health_gate\<close> it sent, and if it sends no \<open>promote_release\<close> it makes no deployment promoted.
\<close>

theorem promotion_needs_gate:
  assumes q: "quiet w" and ev: "ex_evaluator s = None"
    and reg: "pl_registry (ex_planner s) = app_registry"
    and run: "StartDeployment s pid did w = (x, w')"
  shows "\<exists>cs. w_sent w' = w_sent w @ cs \<and>
    (\<forall>xs ys. sent_types cs = xs @ CommandTypePromoteRelease # ys \<longrightarrow> CommandTypeRunHealthGate \<in> set xs) \<and>
    (CommandTypePromoteRelease \<notin> set (sent_types cs) \<longrightarrow> tpromoted (w_tables w') \<subseteq> tpromoted (w_tables w))"
  using run q reg
proof (cases rule: StartDeployment_split)
  case before
  then show ?thesis by (auto simp: acts_def)
next
  case (loop d r pre g p i res0 w1)
  have np: "CommandTypePromoteRelease \<notin> steps_types pre"
    using loop(10) by (auto simp: steps_types_def step_types_def rollback_types_def command_types)
  from loop_before_gate [OF ev loop(6,10,11)] show ?thesis
  proof (elim disjE exE conjE)
    assume a: "acts (steps_types pre) w1 w'"
    have "acts (steps_types pre) w w'"
      using acting.trans [OF acts_mono [OF loop(5)] a] by simp
    with np show ?thesis by (auto simp: acts_def)
  next
    fix i1 res1 w2
    assume l: "rollout_loop s r i1 i [g, p] res1 w2 = (x, w')" and q2: "quiet w2"
      and a: "acts (steps_types pre) w1 w2"
      and same: "t_deployments (w_tables w2) = t_deployments (w_tables w1)"
    have a2: "acts (steps_types pre) w w2"
      using acting.trans [OF acts_mono [OF loop(5)] a] by simp
    have "\<exists>e. find_deployment (ro_project r) (ro_deployment r) (w_tables w2) = Some e \<and> de_status e = DeploymentStatusRunning"
      using loop(7) same by (simp add: find_deployment_def)
    then show ?thesis by (rule loop_at_gate [OF ev q2 l loop(8) _ a2 np])
  qed
qed

text \<open>
  Property C2: a rollout that reports success has promoted. If \<open>StartDeployment\<close> returns without an
  error, the deployment and its revision are both promoted in the database, on every path through
  the loop, skipped steps included.
\<close>

theorem successful_rollout_promotes:
  assumes "quiet w" and "ex_evaluator s = None" and "pl_registry (ex_planner s) = app_registry"
    and "StartDeployment s pid did w = (Ok (res, None), w')"
  shows "\<exists>d. find_deployment (trim_space pid) (trim_space did) (w_tables w) = Some d \<and>
    both_promoted (trim_space pid) (trim_space did) (de_revision_id d) (w_tables w')"
  using assms by (rule no_error_promotes)

text \<open>
  Property C3: rollouts come to their end. If the database does not fail, the deployment has not been
  started and the preparation succeeds, and the agent accepts every command and none of its
  answers is a failure, then \<open>StartDeployment\<close> returns without an error after sending exactly the
  commands of the plan, in order, and then a garbage collection, and the deployment is promoted.
\<close>

theorem rollout_completes:
  assumes ev: "ex_evaluator s = None" and reg: "pl_registry (ex_planner s) = app_registry"
    and faults: "w_faults w = []"
    and d: "find_deployment (trim_space pid) (trim_space did) (w_tables w) = Some d"
    and v: "find_revision (trim_space pid) (de_revision_id d) (w_tables w) = Some v"
    and ids: "trim_space pid \<noteq> []" "trim_space did \<noteq> []" "de_revision_id d \<noteq> []"
      "trim_space (de_revision_id d) = de_revision_id d"
    and fresh: "\<not> rolloutAlreadyStarted (de_status d) (rv_status v)"
    and prep: "prepare_rollout s (trim_space pid) d v w = (Ok (r, plan, b), w1)"
    and turns: "list_all good_turn (w_turns w)" "length (rpl_steps plan) + 1 \<le> length (w_turns w)"
    and q: "quiet w"
  shows "\<exists>res w' cs. StartDeployment s pid did w = (Ok (res, None), w') \<and> w_sent w' = w_sent w @ cs \<and>
    sent_types cs = map (\<lambda>p. cmd_type (rs_command p)) (rpl_steps plan) @ [CommandTypeGarbageCollectRuntime] \<and>
    both_promoted (trim_space pid) (trim_space did) (de_revision_id d) (w_tables w')"
  using rollout_runs_through [OF ev reg faults d v ids fresh prep turns]
    no_error_promotes [OF q ev reg] d
  by (metis option.inject)

text \<open>
  A timeout counts as success, an instance of the property above. If every command of the plan, the health gate included, is
  dispatched but the wait for it ends in state cancelled (what \<open>WaitForResult\<close> returns on a timeout),
  \<open>StartDeployment\<close> still returns without an error and the deployment is promoted.
\<close>

theorem timeouts_count_as_done:
  assumes ev: "ex_evaluator s = None" and reg: "pl_registry (ex_planner s) = app_registry"
    and faults: "w_faults w = []"
    and d: "find_deployment (trim_space pid) (trim_space did) (w_tables w) = Some d"
    and v: "find_revision (trim_space pid) (de_revision_id d) (w_tables w) = Some v"
    and ids: "trim_space pid \<noteq> []" "trim_space did \<noteq> []" "de_revision_id d \<noteq> []"
      "trim_space (de_revision_id d) = de_revision_id d"
    and fresh: "\<not> rolloutAlreadyStarted (de_status d) (rv_status v)"
    and prep: "prepare_rollout s (trim_space pid) d v w = (Ok (r, plan, b), w1)"
    and turns: "w_turns w = replicate n (answer CommandStateCancelled)" "length (rpl_steps plan) < n"
    and idle: "w_awaiting w = None"
  shows "\<exists>res w'. StartDeployment s pid did w = (Ok (res, None), w') \<and>
    both_promoted (trim_space pid) (trim_space did) (de_revision_id d) (w_tables w')"
proof -
  have good: "good_turn (answer CommandStateCancelled)" by (simp add: good_turn_def answer_def)
  then have "list_all good_turn (w_turns w)" "length (rpl_steps plan) + 1 \<le> length (w_turns w)"
    using turns by (simp_all add: list_all_length)
  moreover have "quiet w" using turns(1) idle by (auto simp: quiet_def answer_def)
  ultimately show ?thesis
    using rollout_runs_through [OF ev reg faults d v ids fresh prep] no_error_promotes [OF _ ev reg] d
    by (metis option.inject)
qed

section \<open>Rolling back on request\<close>

definition revision_rolled_back :: "string \<Rightarrow> time \<Rightarrow> tables \<Rightarrow> tables" where
  "revision_rolled_back rid now t = t\<lparr>t_revisions := update_where (\<lambda>r. rv_id r = rid)
     (\<lambda>r. r\<lparr>rv_status := RevisionStatusRolledBack, rv_updated_at := now\<rparr>) (t_revisions t)\<rparr>"

definition deployment_rolled_back :: "string \<Rightarrow> Deployment \<Rightarrow> time \<Rightarrow> tables \<Rightarrow> tables" where
  "deployment_rolled_back did d now t = t\<lparr>t_deployments := update_where (\<lambda>x. de_id x = did)
     (\<lambda>x. x\<lparr>de_status := DeploymentStatusRolledBack, de_updated_at := now,
        de_started_at := (case de_started_at d of None \<Rightarrow> de_started_at x | Some v \<Rightarrow> Some v),
        de_completed_at := Some now\<rparr>) (t_deployments t)\<rparr>"

lemma load_deployment_result:
  assumes "load_deployment pid did w = (r, w')"
  shows "w_tables w' = w_tables w \<and> (\<forall>d. r = Ok d \<longrightarrow> find_deployment pid did (w_tables w) = Some d)"
  using assms unfolding load_deployment_def DeploymentGetByIDForProject_def
  by (auto elim!: andThen_cases dest!: db_readD split: option.splits)

lemma stable_or_incident_result:
  assumes "stable_or_incident pid did rid w = (r, w')"
  shows "t_deployments (w_tables w') = t_deployments (w_tables w) \<and> t_revisions (w_tables w') = t_revisions (w_tables w) \<and>
    (\<forall>s. r = Ok s \<longrightarrow> s \<in> set (t_revisions (w_tables w)) \<and> rv_project_id s = pid \<and>
       rv_status s = RevisionStatusPromoted \<and> trim_space (rv_id s) \<noteq> trim_space rid)"
proof -
  obtain res w1 where res: "findLastStableRevision pid rid w = (res, w1)" by fastforce
  have find: "w_tables w1 = w_tables w \<and>
    (\<forall>s. res = Ok s \<longrightarrow> s \<in> set (t_revisions (w_tables w)) \<and> rv_project_id s = pid \<and>
       rv_status s = RevisionStatusPromoted \<and> trim_space (rv_id s) \<noteq> trim_space rid)"
    using res unfolding findLastStableRevision_def RevisionListByProject_def
    by (auto elim!: andThen_cases dest!: db_readD find_SomeD split: option.splits)
  have incident: "t_deployments (w_tables (snd (IncidentCreate i v))) = t_deployments (w_tables v) \<and>
      t_revisions (w_tables (snd (IncidentCreate i v))) = t_revisions (w_tables v)" for i v
    by (cases "IncidentCreate i v") (auto simp: IncidentCreate_def dest!: db_writeD)
  show ?thesis
  proof (cases res)
    case (Inr s)
    with assms res find show ?thesis
      by (auto simp: stable_or_incident_def attempt_def andThen_def)
  next
    case (Inl e)
    with assms res find incident show ?thesis
      by (auto simp: stable_or_incident_def attempt_def andThen_def rollback_failure_def createIncident_def ignoring_def
          split: prod.splits)
  qed
qed

lemma FinalizeRollback_result:
  assumes "FinalizeRollback p pid did f s w = (r, w')"
  shows "\<exists>t1. (t1 = w_tables w \<or> (\<exists>now. t1 = revision_rolled_back f now (w_tables w))) \<and>
    (case r of
       Inl e \<Rightarrow> w_tables w' = t1
     | Inr res \<Rightarrow> \<exists>d rv. find_deployment pid did (w_tables w) = Some d \<and> find_revision pid s (w_tables w) = Some rv \<and>
         rbr_rolled_back_to res = rv_id rv \<and> w_tables w' = deployment_rolled_back did d (rbr_rolled_back_at res) t1)"
proof -
  have mark: "w_tables (snd ((if trim_space f \<noteq> [] then ignoring (RevisionUpdateStatus f RevisionStatusRolledBack now)
      else return ()) v)) \<in> {w_tables v, revision_rolled_back f now (w_tables v)}" for now v
    using db_write_tables by (auto simp: ignoring_def RevisionUpdateStatus_def revision_rolled_back_def)
  have cast: "w_tables (snd (broadcast p ty pl v)) = w_tables v \<and> is_ok (fst (broadcast p ty pl v))" for ty pl v
    by (simp add: broadcast_def)
  from assms show ?thesis unfolding FinalizeRollback_def
  proof (cases rule: andThen_cases)
    case fail
    then show ?thesis using load_deployment_result by auto
  next
    case (ok d w1)
    have d: "w_tables w1 = w_tables w" "find_deployment pid did (w_tables w) = Some d"
      using load_deployment_result [OF ok(1)] by auto
    from ok(2) show ?thesis
    proof (cases rule: andThen_cases)
      case fail
      then show ?thesis using d by (auto simp: RevisionGetByIDForProject_def dest!: db_readD)
    next
      case (ok found w2)
      have found: "w_tables w2 = w_tables w" "found = find_revision pid s (w_tables w)"
        using ok(1) d(1) by (auto simp: RevisionGetByIDForProject_def dest!: db_readD)
      show ?thesis
      proof (cases found)
        case None
        with ok(2) found(1) show ?thesis by auto
      next
        case (Some rv)
        let ?now = "w_clock w2 (w_tick w2)"
        let ?m = "if trim_space f \<noteq> [] then ignoring (RevisionUpdateStatus f RevisionStatusRolledBack ?now) else return ()"
        let ?w2 = "w2\<lparr>w_tick := w_tick w2 + 1\<rparr>"
        define w3 where "w3 = snd (?m ?w2)"
        have m: "?m ?w2 = (Ok (), w3)" by (simp add: w3_def ignoring_def)
        have t1: "w_tables w3 = w_tables w \<or> w_tables w3 = revision_rolled_back f ?now (w_tables w)"
          using mark [of ?now ?w2] found(1) by (simp add: w3_def)
        obtain x w4 where u: "DeploymentUpdateStatus did DeploymentStatusRolledBack (de_started_at d) (Some ?now) ?now w3 = (x, w4)"
          by fastforce
        from db_writeD [OF u [unfolded DeploymentUpdateStatus_def]]
        have x: "(\<not> is_ok x \<and> w_tables w4 = w_tables w3) \<or>
            (is_ok x \<and> w_tables w4 = deployment_rolled_back did d ?now (w_tables w3))"
          by (auto simp: deployment_rolled_back_def)
        show ?thesis
        proof (cases x)
          case (Inl e)
          with ok(2) Some m u have "r = Inl e" "w' = w4" by (simp_all add: andThen_def split: prod.splits sum.splits)
          with x Inl t1 show ?thesis by auto
        next
          case (Inr y)
          obtain z w5 where b: "broadcast p ''deployment.rolled_back'' (any_strs
             [(''deployment_id'', did), (''rolled_back_to'', rv_id rv),
              (''project_id'', pid), (''commit_sha'', rv_commit_sha rv)]) w4 = (z, w5)" by fastforce
          then have "w_tables w5 = w_tables w4" "is_ok z" using cast by (metis fst_conv snd_conv)+
          moreover from this have "r = Ok \<lparr>rbr_deployment_id = did, rbr_rolled_back_to = rv_id rv,
             rbr_commit_sha = rv_commit_sha rv, rbr_rolled_back_at = ?now\<rparr>" "w' = w5"
            using ok(2) Some m u b Inr by (auto simp: andThen_def is_ok_iff)
          ultimately show ?thesis using x Inr t1 d(2) found(2) Some by auto
        qed
      qed
    qed
  qed
qed

lemma revision_rolled_back_find:
  "find_deployment pid k (revision_rolled_back f now t) = find_deployment pid k t"
  "find_revision pid k (revision_rolled_back f now t) =
     (case find_revision pid k t of None \<Rightarrow> None
      | Some r \<Rightarrow> Some (if k = f then r\<lparr>rv_status := RevisionStatusRolledBack, rv_updated_at := now\<rparr> else r))"
  unfolding revision_rolled_back_def by (auto dest: find_revisionD split: option.split)

lemma deployment_rolled_back_find:
  "find_revision pid k (deployment_rolled_back did d now t) = find_revision pid k t"
  "k \<noteq> did \<Longrightarrow> find_deployment pid k (deployment_rolled_back did d now t) = find_deployment pid k t"
  "find_deployment pid did t = Some d \<Longrightarrow> find_deployment pid did (deployment_rolled_back did d now t) =
     Some (d\<lparr>de_status := DeploymentStatusRolledBack, de_updated_at := now, de_completed_at := Some now\<rparr>)"
  unfolding deployment_rolled_back_def
    apply simp
   apply (cases "find_deployment pid k t"; auto dest: find_deploymentD)
  apply (cases d; auto dest: find_deploymentD split: option.split)
  done

text \<open>
  Property C4: what \<open>RollbackDeployment\<close> does to the database, with failures at any point. A deployment that is not yet
  rolled back, in whatever other status, failed and promoted included, becomes rolled back and completed now, with its start time kept,
  and the answer names a promoted revision of the project, other than the deployment's own, which stays
  as it is. If the call fails no deployment changes. Either way no other deployment changes, and at most
  the revision of the deployment changes among the revisions, to rolled back.
\<close>

theorem rollback_effect:
  assumes keys: "keys_ok w" and run: "RollbackDeployment p pid did w = (r, w')"
  shows "(case r of
      Inl e \<Rightarrow> t_deployments (w_tables w') = t_deployments (w_tables w)
    | Inr res \<Rightarrow> \<exists>d s. find_deployment pid did (w_tables w) = Some d \<and> de_status d \<noteq> DeploymentStatusRolledBack \<and>
        find_deployment pid did (w_tables w') = Some (d\<lparr>de_status := DeploymentStatusRolledBack,
          de_updated_at := rbr_rolled_back_at res, de_completed_at := Some (rbr_rolled_back_at res)\<rparr>) \<and>
        rbr_rolled_back_to res = rv_id s \<and> rv_id s \<noteq> de_revision_id d \<and> rv_status s = RevisionStatusPromoted \<and>
        find_revision pid (rv_id s) (w_tables w) = Some s \<and> find_revision pid (rv_id s) (w_tables w') = Some s) \<and>
    (\<forall>pid' k. k \<noteq> did \<longrightarrow> find_deployment pid' k (w_tables w') = find_deployment pid' k (w_tables w)) \<and>
    (\<forall>pid' k. find_revision pid' k (w_tables w') = find_revision pid' k (w_tables w) \<or>
       (\<exists>d x. find_deployment pid did (w_tables w) = Some d \<and> k = de_revision_id d \<and>
          find_revision pid' k (w_tables w') = Some x \<and> rv_status x = RevisionStatusRolledBack))"
proof -
  have same: "find_deployment pid' k (w_tables v') = find_deployment pid' k (w_tables v) \<and>
      find_revision pid' k (w_tables v') = find_revision pid' k (w_tables v)"
    if "t_deployments (w_tables v') = t_deployments (w_tables v)" "t_revisions (w_tables v') = t_revisions (w_tables v)" for v v' pid' k
    using that by (simp add: find_deployment_def find_revision_def)
  from run show ?thesis unfolding RollbackDeployment_def
  proof (cases rule: andThen_cases)
    case fail
    then show ?thesis using load_deployment_result by auto
  next
    case (ok d w1)
    have d: "w_tables w1 = w_tables w" "find_deployment pid did (w_tables w) = Some d"
      using load_deployment_result [OF ok(1)] by auto
    show ?thesis
    proof (cases "de_status d = DeploymentStatusRolledBack")
      case True
      with ok(2) d(1) show ?thesis by auto
    next
      case False
      with ok(2) have "andThen (stable_or_incident pid did (de_revision_id d))
          (\<lambda>s. FinalizeRollback p pid did (de_revision_id d) (rv_id s)) w1 = (r, w')" by simp
      then show ?thesis
      proof (cases rule: andThen_cases)
        case fail
        then show ?thesis using same [of w' w] stable_or_incident_result [OF fail(1)] d(1) by simp
      next
        case (ok s w2)
        have s: "t_deployments (w_tables w2) = t_deployments (w_tables w)" "t_revisions (w_tables w2) = t_revisions (w_tables w)"
          "s \<in> set (t_revisions (w_tables w))" "rv_project_id s = pid" "rv_status s = RevisionStatusPromoted"
          "rv_id s \<noteq> de_revision_id d"
          using stable_or_incident_result [OF ok(1)] d(1) by auto
        note found = same [OF s(1,2)]
        have stable: "find_revision pid (rv_id s) (w_tables w) = Some s"
          by (rule find_revision_unique [OF keys s(3,4)])
        from FinalizeRollback_result [OF ok(2)] obtain t1 where
          t1: "t1 = w_tables w2 \<or> (\<exists>now. t1 = revision_rolled_back (de_revision_id d) now (w_tables w2))"
          and out: "case r of Inl e \<Rightarrow> w_tables w' = t1
            | Inr res \<Rightarrow> \<exists>d rv. find_deployment pid did (w_tables w2) = Some d \<and> find_revision pid (rv_id s) (w_tables w2) = Some rv \<and>
               rbr_rolled_back_to res = rv_id rv \<and> w_tables w' = deployment_rolled_back did d (rbr_rolled_back_at res) t1"
          by blast
        have t1_found: "find_deployment pid' k t1 = find_deployment pid' k (w_tables w)"
          "find_revision pid' k t1 = find_revision pid' k (w_tables w) \<or>
            (k = de_revision_id d \<and> (\<exists>x. find_revision pid' k t1 = Some x \<and> rv_status x = RevisionStatusRolledBack))"
          "k \<noteq> de_revision_id d \<Longrightarrow> find_revision pid' k t1 = find_revision pid' k (w_tables w)" for pid' k
          using t1 found by (auto simp: revision_rolled_back_find split: option.splits if_splits)
        show ?thesis
        proof (cases r)
          case (Inl e)
          have "w_tables w' = t1" using out Inl by simp
          moreover have "t_deployments t1 = t_deployments (w_tables w)"
            using t1 s(1) by (auto simp: revision_rolled_back_def)
          ultimately show ?thesis using Inl t1_found d(2) by auto
        next
          case (Inr res)
          with out found d(2) stable have w': "w_tables w' = deployment_rolled_back did d (rbr_rolled_back_at res) t1"
            "rbr_rolled_back_to res = rv_id s" by auto
          have "find_revision pid (rv_id s) t1 = Some s" using t1_found(3) [OF s(6)] stable by simp
          moreover have "find_deployment pid did t1 = Some d" using t1_found(1) d(2) by simp
          ultimately show ?thesis using w' d(2) False s(5,6) stable t1_found
            unfolding Inr w'(1) by (simp add: deployment_rolled_back_find) metis
        qed
      qed
    qed
  qed
qed

text \<open>A failed deployment beside a promoted revision.\<close>

definition demo_failed :: world where
  "demo_failed = (demo_world ''failed'' ''failed'' [])\<lparr>w_tables := (demo_tables ''failed'' ''failed'')
     \<lparr>t_revisions := t_revisions (demo_tables ''failed'' ''failed'') @
        map (\<lambda>r. r\<lparr>rv_id := ''r0'', rv_status := RevisionStatusPromoted, rv_created_at := 0\<rparr>)
          (t_revisions (demo_tables ''failed'' ''failed''))\<rparr>\<rparr>"

theorem rollback_effect_witness:
  "\<exists>res w' d. RollbackDeployment demo_planner ''p'' ''d1'' demo_failed = (Ok res, w') \<and> rbr_rolled_back_to res = ''r0'' \<and>
     find_deployment ''p'' ''d1'' (w_tables w') = Some d \<and> de_status d = DeploymentStatusRolledBack"
proof -
  let ?r = "RollbackDeployment demo_planner ''p'' ''d1'' demo_failed"
  have "is_ok (fst ?r)" by code_simp
  then obtain res w' where run: "?r = (Ok res, w')" by (metis is_ok_iff prod.collapse)
  have keys: "keys_ok demo_failed"
    by (simp add: keys_ok_def demo_failed_def demo_tables_def)
  have only: "s = ''r0''" if "find_revision ''p'' s (w_tables demo_failed) = Some x" "rv_status x = RevisionStatusPromoted" for s x
    using that by (auto simp: find_revision_def demo_failed_def demo_tables_def revision_status_defs split: if_splits)
  from rollback_effect [OF keys run] only run show ?thesis by fastforce
qed

section \<open>Witnesses\<close>

text \<open>One standalone deployment, queued, whose eight commands the agent answers with one state.\<close>

definition demo_start :: "CommandState \<Rightarrow> world" where
  "demo_start st = demo_world ''queued'' ''queued'' (replicate 9 (answer st))"

lemma demo_start_facts:
  "w_faults (demo_start st) = []" "w_awaiting (demo_start st) = None"
  "w_turns (demo_start st) = replicate 9 (answer st)" "w_tables (demo_start st) = demo_tables ''queued'' ''queued''"
  "quiet (demo_start st)"
  by (auto simp: demo_start_def demo_world_def quiet_def answer_def)

lemma demo_service_facts:
  "ex_evaluator demo_service_rollout = None" "pl_registry (ex_planner demo_service_rollout) = app_registry"
  by (simp_all add: demo_service_rollout_def demo_planner_def)

lemma demo_prepares:
  "\<exists>r plan b w1. prepare_rollout demo_service_rollout (trim_space ''p'')
      (hd (t_deployments (demo_tables ''queued'' ''queued''))) (hd (t_revisions (demo_tables ''queued'' ''queued'')))
      (demo_start st) = (Ok (r, plan, b), w1) \<and> length (rpl_steps plan) = 8"
proof -
  have "case fst (prepare_rollout demo_service_rollout ''p''
      (hd (t_deployments (demo_tables ''queued'' ''queued''))) (hd (t_revisions (demo_tables ''queued'' ''queued'')))
      (demo_world ''queued'' ''queued'' (replicate 9 (answer st)))) of
    Inl e \<Rightarrow> False | Inr (r, plan, b) \<Rightarrow> length (rpl_steps plan) = 8"
    by code_simp
  then show ?thesis by (auto simp: demo_start_def split: sum.splits prod.splits) (metis prod.collapse)
qed

lemma demo_row_facts:
  fixes t defines "t \<equiv> demo_tables ''queued'' ''queued''"
  shows "find_deployment (trim_space ''p'') (trim_space ''d1'') t = Some (hd (t_deployments t))"
    "find_revision (trim_space ''p'') (de_revision_id (hd (t_deployments t))) t = Some (hd (t_revisions t))"
    "de_revision_id (hd (t_deployments t)) = ''r1''"
    "\<not> rolloutAlreadyStarted (de_status (hd (t_deployments t))) (rv_status (hd (t_revisions t)))"
  by (simp_all add: t_def demo_tables_def find_deployment_def find_revision_def
      rolloutAlreadyStarted_def deployment_status_defs revision_status_defs)

abbreviation demo_d :: Deployment where "demo_d \<equiv> hd (t_deployments (demo_tables ''queued'' ''queued''))"
abbreviation demo_v :: DesiredStateRevision where "demo_v \<equiv> hd (t_revisions (demo_tables ''queued'' ''queued''))"

lemma demo_rows:
  "find_deployment (trim_space ''p'') (trim_space ''d1'') (w_tables (demo_start st)) = Some demo_d"
  "find_revision (trim_space ''p'') (de_revision_id demo_d) (w_tables (demo_start st)) = Some demo_v"
  "trim_space ''p'' \<noteq> []" "trim_space ''d1'' \<noteq> []" "de_revision_id demo_d \<noteq> []"
  "trim_space (de_revision_id demo_d) = de_revision_id demo_d"
  "\<not> rolloutAlreadyStarted (de_status demo_d) (rv_status demo_v)"
  using demo_row_facts by (simp_all add: demo_start_facts)

lemmas demo_premises = demo_service_facts demo_start_facts(1) demo_rows

lemma demo_good: "list_all good_turn (w_turns (demo_start CommandStateDone))"
  by (simp add: demo_start_facts good_turn_def answer_def list_all_length)

theorem rollout_completes_witness:
  "\<exists>res w'. StartDeployment demo_service_rollout ''p'' ''d1'' (demo_start CommandStateDone) = (Ok (res, None), w') \<and>
     length (w_sent w') = length (w_sent (demo_start CommandStateDone)) + 9 \<and>
     both_promoted ''p'' ''d1'' ''r1'' (w_tables w')"
proof -
  obtain r plan b w1 where prep: "prepare_rollout demo_service_rollout (trim_space ''p'') demo_d demo_v
      (demo_start CommandStateDone) = (Ok (r, plan, b), w1)" "length (rpl_steps plan) = 8"
    using demo_prepares by blast
  then have "length (rpl_steps plan) + 1 \<le> length (w_turns (demo_start CommandStateDone))"
    by (simp add: demo_start_facts)
  from rollout_completes [OF demo_premises prep(1) demo_good this demo_start_facts(5)]
  obtain res w' cs where run: "StartDeployment demo_service_rollout ''p'' ''d1'' (demo_start CommandStateDone) =
        (Ok (res, None), w')" "w_sent w' = w_sent (demo_start CommandStateDone) @ cs"
    "sent_types cs = map (\<lambda>p. cmd_type (rs_command p)) (rpl_steps plan) @ [CommandTypeGarbageCollectRuntime]"
    "both_promoted ''p'' ''d1'' ''r1'' (w_tables w')"
    using demo_row_facts(3) by auto
  have "length cs = 9" using arg_cong [OF run(3), of length] prep(2) by (simp add: sent_types_def)
  with run show ?thesis by auto
qed

theorem timeouts_count_as_done_witness:
  "\<exists>res w'. StartDeployment demo_service_rollout ''p'' ''d1'' (demo_start CommandStateCancelled) =
      (Ok (res, None), w') \<and> both_promoted ''p'' ''d1'' ''r1'' (w_tables w')"
proof -
  obtain r plan b w1 where prep: "prepare_rollout demo_service_rollout (trim_space ''p'') demo_d demo_v
      (demo_start CommandStateCancelled) = (Ok (r, plan, b), w1)" "length (rpl_steps plan) < 9"
    using demo_prepares [of CommandStateCancelled] by auto
  from timeouts_count_as_done [OF demo_premises prep(1) demo_start_facts(3) prep(2) demo_start_facts(2)]
  show ?thesis using demo_row_facts(3) by simp
qed

lemma demo_completes:
  "\<exists>res w'. StartDeployment demo_service_rollout ''p'' ''d1'' (demo_start CommandStateDone) = (Ok (res, None), w')"
proof -
  obtain r plan b w1 where prep: "prepare_rollout demo_service_rollout (trim_space ''p'') demo_d demo_v
      (demo_start CommandStateDone) = (Ok (r, plan, b), w1)" "length (rpl_steps plan) = 8"
    using demo_prepares by blast
  then have "length (rpl_steps plan) + 1 \<le> length (w_turns (demo_start CommandStateDone))"
    by (simp add: demo_start_facts)
  from rollout_runs_through [OF demo_premises prep(1) demo_good this] show ?thesis by blast
qed

theorem successful_rollout_promotes_witness:
  "\<exists>res w'. StartDeployment demo_service_rollout ''p'' ''d1'' (demo_start CommandStateDone) = (Ok (res, None), w') \<and>
     both_promoted ''p'' ''d1'' ''r1'' (w_tables w')"
proof -
  obtain res w' where run: "StartDeployment demo_service_rollout ''p'' ''d1'' (demo_start CommandStateDone) =
      (Ok (res, None), w')" using demo_completes by blast
  from successful_rollout_promotes [OF demo_start_facts(5) demo_service_facts run] run demo_rows(1) demo_row_facts(3)
  show ?thesis by auto
qed

theorem promotion_needs_gate_witness:
  "\<exists>w' cs. snd (StartDeployment demo_service_rollout ''p'' ''d1'' (demo_start CommandStateFailed)) = w' \<and>
     w_sent w' = w_sent (demo_start CommandStateFailed) @ cs \<and>
     (CommandTypePromoteRelease \<notin> set (sent_types cs) \<longrightarrow>
        tpromoted (w_tables w') \<subseteq> tpromoted (demo_tables ''queued'' ''queued''))"
  using promotion_needs_gate [OF demo_start_facts(5) demo_service_facts, of "''p''" "''d1''" CommandStateFailed,
      OF prod.collapse [symmetric]]
  by (auto simp: demo_start_facts)

end
