(* ===== verification/Durations.thy ===== *)
theory Durations
  imports Prelude
begin

text \<open>
  \<open>time.ParseDuration\<close> of the Go library, which the agent applies to the policy strings it is
  sent. The function follows the library's scanner: an optional sign, then one or more groups of
  a decimal number with a fraction and a unit, with the library's overflow tests at 64 bits. The
  library scales the fraction in \<open>float64\<close>; here the scaling is exact, so the results may differ
  in the last nanosecond for fractions that \<open>float64\<close> cannot represent.
\<close>

definition is_digit :: "char \<Rightarrow> bool" where
  "is_digit c \<longleftrightarrow> 48 \<le> (of_char c :: nat) \<and> (of_char c :: nat) \<le> 57"

definition digit_val :: "char \<Rightarrow> int" where
  "digit_val c = int (of_char c) - 48"

definition is_num_char :: "char \<Rightarrow> bool" where
  "is_num_char c \<longleftrightarrow> c = CHR ''.'' \<or> is_digit c"

definition num_value :: "string \<Rightarrow> int" where
  "num_value ds = foldl (\<lambda>x c. 10 * x + digit_val c) 0 ds"

definition leading_int_ok :: "int \<Rightarrow> bool" where
  "leading_int_ok v \<longleftrightarrow> v \<le> 2 ^ 63"

text \<open>\<open>leadingFraction\<close>: digits that would overflow are read and ignored.\<close>

fun leading_fraction :: "string \<Rightarrow> int \<Rightarrow> int \<Rightarrow> bool \<Rightarrow> int \<times> int" where
  "leading_fraction [] x scale ovf = (x, scale)"
| "leading_fraction (c # cs) x scale ovf =
     (if ovf \<or> (2 ^ 63 - 1) div 10 < x \<or> 2 ^ 63 < 10 * x + digit_val c
      then leading_fraction cs x scale True
      else leading_fraction cs (10 * x + digit_val c) (10 * scale) False)"

definition unit_map :: "string \<Rightarrow> duration option" where
  "unit_map = [''ns'' \<mapsto> nanosecond, ''us'' \<mapsto> microsecond,
     [CHR 0xC2, CHR 0xB5, CHR ''s''] \<mapsto> microsecond,
     [CHR 0xCE, CHR 0xBC, CHR ''s''] \<mapsto> microsecond,
     ''ms'' \<mapsto> millisecond, ''s'' \<mapsto> second, ''m'' \<mapsto> minute, ''h'' \<mapsto> hour]"

text \<open>The digits before and after the decimal point, and what follows them.\<close>

definition scan_number :: "string \<Rightarrow> string \<times> string \<times> string" where
  "scan_number s =
     (let s1 = dropWhile is_digit s
      in if s1 \<noteq> [] \<and> hd s1 = CHR ''.''
         then (takeWhile is_digit s, takeWhile is_digit (tl s1), dropWhile is_digit (tl s1))
         else (takeWhile is_digit s, [], s1))"

definition scan_unit :: "string \<Rightarrow> string \<times> string" where
  "scan_unit s = (takeWhile (\<lambda>c. \<not> is_num_char c) s, dropWhile (\<lambda>c. \<not> is_num_char c) s)"

text \<open>The value of \<open>ip.fp\<close> units, unless it overflows.\<close>

definition group_value :: "string \<Rightarrow> string \<Rightarrow> duration \<Rightarrow> duration option" where
  "group_value ip fp unit =
     (let v = num_value ip; (f, scale) = leading_fraction fp 0 1 False;
          w = v * unit + (if 0 < f then f * unit div scale else 0)
      in if \<not> leading_int_ok v \<or> 2 ^ 63 div unit < v \<or> 0 < f \<and> 2 ^ 63 < w then None
         else Some w)"

text \<open>One group: the number of nanoseconds it stands for and the rest of the input.\<close>

definition parse_group :: "string \<Rightarrow> (duration \<times> string) option" where
  "parse_group s =
     (let (ip, fp, s2) = scan_number s; (u, rest) = scan_unit s2
      in if ip = [] \<and> fp = [] \<or> u = [] then None
         else Option.bind (unit_map u) (\<lambda>unit.
           map_option (\<lambda>w. (w, rest)) (group_value ip fp unit)))"

lemma length_dropWhile_le_trans: "length s \<le> n \<Longrightarrow> length (dropWhile P s) \<le> n"
  using length_dropWhile_le order_trans by blast

lemma scan_number_le: "scan_number s = (ip, fp, s2) \<Longrightarrow> length s2 \<le> length s"
proof -
  have "length (dropWhile is_digit s) \<le> length s" by (rule length_dropWhile_le)
  then show "scan_number s = (ip, fp, s2) \<Longrightarrow> length s2 \<le> length s"
    by (auto simp: scan_number_def Let_def intro!: length_dropWhile_le_trans split: if_splits)
qed

lemma scan_number_digits:
  "scan_number s = (ip, fp, s2) \<Longrightarrow> (\<forall>c \<in> set ip. is_digit c) \<and> (\<forall>c \<in> set fp. is_digit c)"
  by (auto simp: scan_number_def Let_def split: if_splits dest: set_takeWhileD)

lemma scan_unit_less: "scan_unit s = (u, rest) \<Longrightarrow> u \<noteq> [] \<Longrightarrow> length rest < length s"
  by (cases s) (auto simp: scan_unit_def length_dropWhile_le le_imp_less_Suc split: if_splits)

lemma parse_group_shorter: "parse_group s = Some (w, rest) \<Longrightarrow> length rest < length s"
  unfolding parse_group_def Let_def
  by (auto split: prod.splits if_splits bind_splits 
      dest!: scan_number_le scan_unit_less)

function parse_groups :: "string \<Rightarrow> duration \<Rightarrow> duration option" where
  "parse_groups s d =
     (if s = [] then Some d
      else case parse_group s of
          None \<Rightarrow> None
        | Some (w, rest) \<Rightarrow> (if 2 ^ 63 < d + w then None else parse_groups rest (d + w)))"
  by pat_completeness auto
termination
  by (relation "measure (\<lambda>(s, d). length s)") (auto simp: parse_group_shorter)

declare parse_groups.simps [simp del]

definition ParseDuration :: "string \<Rightarrow> duration option" where
  "ParseDuration s0 =
     (let signed = (s0 \<noteq> [] \<and> (hd s0 = CHR ''-'' \<or> hd s0 = CHR ''+''));
          neg = (s0 \<noteq> [] \<and> hd s0 = CHR ''-'');
          s = (if signed then tl s0 else s0)
      in if s = ''0'' then Some 0
         else if s = [] then None
         else case parse_groups s 0 of
             None \<Rightarrow> None
           | Some d \<Rightarrow> (if neg then Some (- d) else if max_duration < d then None else Some d))"

text \<open>Every parsed duration is a 64-bit value.\<close>

lemma parse_groups_bound: "parse_groups s d = Some r \<Longrightarrow> d \<le> 2 ^ 63 \<Longrightarrow> r \<le> 2 ^ 63"
proof (induction s d rule: parse_groups.induct)
  case (1 s d)
  show ?case
  proof (cases "s = []")
    case True
    with "1.prems" show ?thesis by (simp add: parse_groups.simps)
  next
    case False
    with "1.prems"(1) obtain w rest where g: "parse_group s = Some (w, rest)"
        "\<not> 2 ^ 63 < d + w" "parse_groups rest (d + w) = Some r"
      by (auto simp: parse_groups.simps [of s] split: option.splits if_splits)
    from "1.IH" [OF False g(1) refl g(2) g(3)] g(2) show ?thesis by simp
  qed
qed

lemma digit_val_nonneg: "is_digit c \<Longrightarrow> 0 \<le> digit_val c"
  by (simp add: is_digit_def digit_val_def)

lemma num_value_nonneg: "\<forall>c \<in> set ds. is_digit c \<Longrightarrow> 0 \<le> num_value ds"
proof -
  have "\<forall>c \<in> set ds. is_digit c \<Longrightarrow> 0 \<le> x \<Longrightarrow> 0 \<le> foldl (\<lambda>x c. 10 * x + digit_val c) x ds" for x
    by (induction ds arbitrary: x) (auto simp: digit_val_nonneg)
  then show "\<forall>c \<in> set ds. is_digit c \<Longrightarrow> 0 \<le> num_value ds" by (simp add: num_value_def)
qed

lemma unit_map_pos: "unit_map u = Some n \<Longrightarrow> 0 < n"
  by (auto simp: unit_map_def duration_units split: if_splits)

lemma leading_fraction_nonneg:
  "leading_fraction ds x sc ov = (f, sc') \<Longrightarrow> \<forall>c \<in> set ds. is_digit c \<Longrightarrow> 0 \<le> x \<Longrightarrow> 0 < sc
   \<Longrightarrow> 0 \<le> f \<and> 0 < sc'"
  by (induction ds x sc ov rule: leading_fraction.induct)
    (auto simp: digit_val_nonneg split: if_splits)

lemma group_value_nonneg:
  assumes "group_value ip fp unit = Some w" and "0 < unit"
    and "\<forall>c \<in> set ip. is_digit c" and "\<forall>c \<in> set fp. is_digit c"
  shows "0 \<le> w"
proof -
  obtain f sc where fs: "leading_fraction fp 0 1 False = (f, sc)" by fastforce
  from leading_fraction_nonneg [OF fs assms(4)] have "0 \<le> f" "0 < sc" by simp_all
  with assms fs num_value_nonneg [OF assms(3)] show ?thesis
    by (auto simp: group_value_def Let_def pos_imp_zdiv_nonneg_iff split: if_splits
        intro!: add_nonneg_nonneg)
qed

lemma parse_group_nonneg:
  assumes "parse_group s = Some (w, rest)"
  shows "0 \<le> w"
proof -
  obtain ip fp s2 where n: "scan_number s = (ip, fp, s2)" by (cases "scan_number s")
  with assms obtain u unit where "unit_map u = Some unit" "group_value ip fp unit = Some w"
    by (auto simp: parse_group_def Let_def split: prod.splits if_splits bind_splits)
  then show ?thesis
    using scan_number_digits [OF n] unit_map_pos group_value_nonneg by blast
qed

lemma parse_groups_ge: "parse_groups s d = Some r \<Longrightarrow> d \<le> r"
proof (induction s d rule: parse_groups.induct)
  case (1 s d)
  show ?case
  proof (cases "s = []")
    case True
    with "1.prems" show ?thesis by (simp add: parse_groups.simps)
  next
    case False
    with "1.prems" obtain w rest where g: "parse_group s = Some (w, rest)"
        "\<not> 2 ^ 63 < d + w" "parse_groups rest (d + w) = Some r"
      by (auto simp: parse_groups.simps [of s] split: option.splits if_splits)
    from "1.IH" [OF False g(1) refl g(2) g(3)] parse_group_nonneg [OF g(1)] show ?thesis by simp
  qed
qed

lemma ParseDuration_range:
  assumes "ParseDuration s = Some d"
  shows "min_duration \<le> d \<and> d \<le> max_duration"
proof -
  have b: "0 \<le> r \<and> r \<le> 2 ^ 63" if "parse_groups t 0 = Some r" for t r
    using parse_groups_bound [OF that] parse_groups_ge [OF that] by simp
  show ?thesis
    using assms unfolding ParseDuration_def Let_def
    by (auto simp: min_duration_def max_duration_def split: if_splits option.splits
        dest!: b)
qed

lemma ParseDuration_examples:
  "ParseDuration ''30s'' = Some (30 * second)"
  "ParseDuration ''1h15m30.918s'' = Some (4530918000000)"
  "ParseDuration ''soon'' = None"
  by (simp_all add: ParseDuration_def parse_groups.simps parse_group_def unit_map_def
      scan_number_def scan_unit_def group_value_def num_value_def digit_val_def is_digit_def
      is_num_char_def leading_int_ok_def duration_units max_duration_def)

end
