(* ===== verification/Autosleep.thy ===== *)
theory Autosleep
  imports Durations
begin

text \<open>
  The agent's autosleep manager, \<open>agent/internal/runtime/autosleep_manager.go\<close>: the sleep state
  of every service, the operations on it and the periodic sweep. The clock is read once by each
  operation, and by each part of the sweep, and is an argument. The pointers the operations hand out are modelled by the value
  they point to at return. Formatted times are left out of error texts. Not modelled: \<open>PersistSleepState\<close> (file output) and the ticker around
  the sweep.
\<close>

section \<open>State\<close>

datatype sleep_status = StUnset | StActive | StSleeping | StWaking | StExpired

record ScaleToZeroPolicy =
  pol_enabled :: bool
  pol_idle_window :: string
  pol_hold_timeout :: string

record ServiceSleepState =
  ss_service :: string
  ss_revision :: string
  ss_last_active :: time
  ss_sleeping_at :: time
  ss_wake_at :: time
  ss_status :: sleep_status

record AutosleepConfig =
  cfg_idle_window :: duration
  cfg_wake_timeout :: duration
  cfg_max_sleep_window :: duration

record AutosleepManager =
  as_cfg :: AutosleepConfig
  as_states :: "string \<rightharpoonup> ServiceSleepState"
  as_policies :: "string \<rightharpoonup> ScaleToZeroPolicy"

definition DefaultAutosleepConfig :: AutosleepConfig where
  "DefaultAutosleepConfig =
     \<lparr>cfg_idle_window = 15 * minute, cfg_wake_timeout = 30 * second,
      cfg_max_sleep_window = 8 * hour\<rparr>"

definition NewAutosleepManager :: "AutosleepConfig \<Rightarrow> AutosleepManager" where
  "NewAutosleepManager cfg =
     \<lparr>as_cfg =
        \<lparr>cfg_idle_window = (if cfg_idle_window cfg \<le> 0 then 15 * minute else cfg_idle_window cfg),
         cfg_wake_timeout = (if cfg_wake_timeout cfg \<le> 0 then 30 * second else cfg_wake_timeout cfg),
         cfg_max_sleep_window =
           (if cfg_max_sleep_window cfg \<le> 0 then 8 * hour else cfg_max_sleep_window cfg)\<rparr>,
      as_states = Map.empty, as_policies = Map.empty\<rparr>"

section \<open>Operations\<close>

definition effective_idle_window :: "AutosleepManager \<Rightarrow> ScaleToZeroPolicy \<Rightarrow> duration" where
  "effective_idle_window m p =
     (if pol_idle_window p \<noteq> [] then
        (case ParseDuration (pol_idle_window p) of
           Some parsed \<Rightarrow> parsed | None \<Rightarrow> cfg_idle_window (as_cfg m))
      else cfg_idle_window (as_cfg m))"

definition CanSleep :: "time \<Rightarrow> string \<Rightarrow> ScaleToZeroPolicy \<Rightarrow> AutosleepManager \<Rightarrow> bool" where
  "CanSleep now svc p m =
     (if \<not> pol_enabled p then False
      else case as_states m svc of
          None \<Rightarrow> False
        | Some st \<Rightarrow>
            (if ss_status st = StSleeping then False
             else effective_idle_window m p \<le> time_sub now (ss_last_active st)))"

fun status_text :: "sleep_status \<Rightarrow> string" where
  "status_text StUnset = []"
| "status_text StActive = ''active''"
| "status_text StSleeping = ''sleeping''"
| "status_text StWaking = ''waking''"
| "status_text StExpired = ''expired''"

definition put_to_sleep :: "time \<Rightarrow> AutosleepManager \<Rightarrow> ServiceSleepState \<Rightarrow> ServiceSleepState" where
  "put_to_sleep now m st =
     st\<lparr>ss_sleeping_at := now, ss_status := StSleeping,
        ss_wake_at := now + cfg_max_sleep_window (as_cfg m)\<rparr>"

text \<open>
  The results are a Go pair \<open>(*ServiceSleepState, error)\<close>: both may be set, so the model returns
  the state as an option, the error as an option, and the manager.
\<close>

definition SleepService ::
  "time \<Rightarrow> string \<Rightarrow> string \<Rightarrow> AutosleepManager
   \<Rightarrow> ServiceSleepState option \<times> go_err option \<times> AutosleepManager" where
  "SleepService now svc rid m =
     (let st = (case as_states m svc of
          Some st \<Rightarrow> st
        | None \<Rightarrow> \<lparr>ss_service = svc, ss_revision = rid, ss_last_active = now,
                   ss_sleeping_at = zero_time, ss_wake_at = zero_time, ss_status = StUnset\<rparr>)
      in if ss_status st = StSleeping
         then (Some st, Some (Errorf (''service '' @ svc @ '' is already sleeping'')), m)
         else let st' = put_to_sleep now m st
              in (Some st', None, m\<lparr>as_states := (as_states m)(svc \<mapsto> st')\<rparr>))"

definition WakeService ::
  "time \<Rightarrow> string \<Rightarrow> AutosleepManager
   \<Rightarrow> ServiceSleepState option \<times> go_err option \<times> AutosleepManager" where
  "WakeService now svc m =
     (case as_states m svc of
        None \<Rightarrow> (None, Some (Errorf (''service '' @ svc @ '' has no sleep state'')), m)
      | Some st \<Rightarrow>
          (if ss_status st \<noteq> StSleeping
           then (Some st, Some (Errorf (''service '' @ svc @ '' is not sleeping (status: '' @
                            status_text (ss_status st) @ '')'')), m)
           else if \<not> is_zero (ss_wake_at st) \<and> ss_wake_at st < now
           then (None, Some (Errorf (''service '' @ svc @ '' sleep window expired'')), m)
           else let st' = st\<lparr>ss_status := StWaking, ss_last_active := now,
                             ss_sleeping_at := zero_time\<rparr>
                in (Some st', None, m\<lparr>as_states := (as_states m)(svc \<mapsto> st')\<rparr>)))"

definition MarkActive :: "time \<Rightarrow> string \<Rightarrow> AutosleepManager \<Rightarrow> AutosleepManager" where
  "MarkActive now svc m =
     (let st = (case as_states m svc of
          Some st \<Rightarrow> st
        | None \<Rightarrow> \<lparr>ss_service = svc, ss_revision = [], ss_last_active = zero_time,
                   ss_sleeping_at = zero_time, ss_wake_at = zero_time, ss_status = StActive\<rparr>);
          st1 = st\<lparr>ss_last_active := now\<rparr>;
          st2 = (if ss_status st1 = StWaking then st1\<lparr>ss_status := StActive\<rparr> else st1)
      in m\<lparr>as_states := (as_states m)(svc \<mapsto> st2)\<rparr>)"

definition GetState :: "string \<Rightarrow> AutosleepManager \<Rightarrow> ServiceSleepState option" where
  "GetState svc m = as_states m svc"

definition RegisterPolicy ::
  "string \<Rightarrow> ScaleToZeroPolicy \<Rightarrow> AutosleepManager \<Rightarrow> AutosleepManager" where
  "RegisterPolicy svc p m = m\<lparr>as_policies := (as_policies m)(svc \<mapsto> p)\<rparr>"

text \<open>\<open>CollectExpiredSleepWindows\<close>, visiting the services in the order \<open>ks\<close>.\<close>

definition window_expired :: "time \<Rightarrow> ServiceSleepState \<Rightarrow> bool" where
  "window_expired now st \<longleftrightarrow>
     ss_status st = StSleeping \<and> \<not> is_zero (ss_wake_at st) \<and> ss_wake_at st < now"

fun CollectExpiredSleepWindows ::
  "time \<Rightarrow> string list \<Rightarrow> AutosleepManager \<Rightarrow> ServiceSleepState list \<times> AutosleepManager" where
  "CollectExpiredSleepWindows now [] m = ([], m)"
| "CollectExpiredSleepWindows now (k # ks) m =
     (case as_states m k of
        Some st \<Rightarrow>
          (if window_expired now st then
             (let (out, m') = CollectExpiredSleepWindows now ks
                                (m\<lparr>as_states := (as_states m)(k := None)\<rparr>)
              in (st\<lparr>ss_status := StExpired\<rparr> # out, m'))
           else CollectExpiredSleepWindows now ks m)
      | None \<Rightarrow> CollectExpiredSleepWindows now ks m)"

text \<open>\<open>Stats\<close>: the order of the traversal does not matter for the counts.\<close>

definition count_status ::
  "(sleep_status \<Rightarrow> bool) \<Rightarrow> string list \<Rightarrow> AutosleepManager \<Rightarrow> nat" where
  "count_status P ks m =
     length (filter (\<lambda>k. case as_states m k of None \<Rightarrow> False | Some st \<Rightarrow> P (ss_status st)) ks)"

definition Stats :: "string list \<Rightarrow> AutosleepManager \<Rightarrow> nat \<times> nat \<times> nat" where
  "Stats ks m =
     (count_status (\<lambda>s. s = StActive \<or> s = StWaking) ks m,
      count_status (\<lambda>s. s = StSleeping) ks m,
      count_status (\<lambda>s. s = StExpired) ks m)"

text \<open>
  The sweep of the background loop. It copies the policies, then visits them in some order; each
  visit reads the clock twice, in \<open>CanSleep\<close> and again in the section that puts the service to sleep
  (\<open>sweep_sleep\<close>). \<open>evaluateAndSleep\<close> is the sweep while no other call comes between its parts. The
  lock is released between the parts, so the machine below also has the parts as calls of their own:
  what is proved of its steps and runs holds however other calls are interleaved with a sweep.
\<close>

definition sweep_sleep :: "time \<Rightarrow> string \<Rightarrow> AutosleepManager \<Rightarrow> AutosleepManager" where
  "sweep_sleep now svc m =
     (case as_states m svc of
        None \<Rightarrow> m
      | Some st \<Rightarrow>
          (if ss_status st \<noteq> StSleeping
           then m\<lparr>as_states := (as_states m)(svc \<mapsto> put_to_sleep now m st)\<rparr>
           else m))"

definition sweep_one :: "string \<Rightarrow> time \<Rightarrow> time \<Rightarrow> AutosleepManager \<Rightarrow> AutosleepManager" where
  "sweep_one svc t1 t2 m =
     (case as_policies m svc of
        None \<Rightarrow> m
      | Some p \<Rightarrow>
          (if \<not> pol_enabled p then m
           else if CanSleep t1 svc p m then sweep_sleep t2 svc m
           else m))"

fun sweep :: "(string \<times> time \<times> time) list \<Rightarrow> AutosleepManager \<Rightarrow> AutosleepManager" where
  "sweep [] m = m"
| "sweep ((svc, t1, t2) # visits) m = sweep visits (sweep_one svc t1 t2 m)"

definition evaluateAndSleep ::
  "(string \<times> time \<times> time) list \<Rightarrow> time \<Rightarrow> string list \<Rightarrow> AutosleepManager
   \<Rightarrow> ServiceSleepState list \<times> AutosleepManager" where
  "evaluateAndSleep visits now ks m = CollectExpiredSleepWindows now ks (sweep visits m)"

section \<open>The manager as a machine\<close>

datatype autosleep_call =
    CallSleep time string string
  | CallWake time string
  | CallMarkActive time string
  | CallRegisterPolicy string ScaleToZeroPolicy
  | CallSweep "(string \<times> time \<times> time) list" time "string list"
  | CallSweepSleep time string
  | CallCollect time "string list"

fun autosleep_step :: "autosleep_call \<Rightarrow> AutosleepManager \<Rightarrow> AutosleepManager" where
  "autosleep_step (CallSleep now svc rid) m = snd (snd (SleepService now svc rid m))"
| "autosleep_step (CallWake now svc) m = snd (snd (WakeService now svc m))"
| "autosleep_step (CallMarkActive now svc) m = MarkActive now svc m"
| "autosleep_step (CallRegisterPolicy svc p) m = RegisterPolicy svc p m"
| "autosleep_step (CallSweep visits now ks) m = snd (evaluateAndSleep visits now ks m)"
| "autosleep_step (CallSweepSleep now svc) m = sweep_sleep now svc m"
| "autosleep_step (CallCollect now ks) m = snd (CollectExpiredSleepWindows now ks m)"

definition state_ok :: "duration \<Rightarrow> string \<Rightarrow> ServiceSleepState \<Rightarrow> bool" where
  "state_ok w svc st \<longleftrightarrow>
     ss_service st = svc \<and>
     ss_status st \<in> {StActive, StSleeping, StWaking} \<and>
     (ss_status st = StSleeping \<longrightarrow> ss_wake_at st = ss_sleeping_at st + w) \<and>
     (ss_status st = StWaking \<longrightarrow> ss_sleeping_at st = zero_time)"

definition autosleep_inv :: "AutosleepManager \<Rightarrow> bool" where
  "autosleep_inv m \<longleftrightarrow>
     0 < cfg_max_sleep_window (as_cfg m) \<and>
     (\<forall>svc st. as_states m svc = Some st \<longrightarrow> state_ok (cfg_max_sleep_window (as_cfg m)) svc st)"

lemma autosleep_inv_new [inv_step]: "autosleep_inv (NewAutosleepManager cfg)"
  by (auto simp: autosleep_inv_def NewAutosleepManager_def hour_def)

lemma autosleep_inv_SleepService [inv_step]:
  "autosleep_inv m \<Longrightarrow> autosleep_inv (snd (snd (SleepService now svc rid m)))"
  by (auto simp: autosleep_inv_def SleepService_def Let_def put_to_sleep_def state_ok_def
      split: option.splits)

lemma autosleep_inv_WakeService [inv_step]:
  "autosleep_inv m \<Longrightarrow> autosleep_inv (snd (snd (WakeService now svc m)))"
  by (auto simp: autosleep_inv_def WakeService_def Let_def state_ok_def split: option.splits)

lemma autosleep_inv_MarkActive [inv_step]: "autosleep_inv m \<Longrightarrow> autosleep_inv (MarkActive now svc m)"
  by (auto simp: autosleep_inv_def MarkActive_def Let_def state_ok_def split: option.splits)

lemma autosleep_inv_RegisterPolicy [inv_step]:
  "autosleep_inv m \<Longrightarrow> autosleep_inv (RegisterPolicy svc p m)"
  by (simp add: autosleep_inv_def RegisterPolicy_def)

lemma autosleep_inv_sweep_sleep [inv_step]:
  "autosleep_inv m \<Longrightarrow> autosleep_inv (sweep_sleep now svc m)"
  by (auto simp: autosleep_inv_def sweep_sleep_def state_ok_def put_to_sleep_def split: option.splits)

lemma autosleep_inv_sweep_one [inv_step]:
  "autosleep_inv m \<Longrightarrow> autosleep_inv (sweep_one svc t1 t2 m)"
  by (simp add: sweep_one_def autosleep_inv_sweep_sleep split: option.split)

lemma autosleep_inv_sweep [inv_step]: "autosleep_inv m \<Longrightarrow> autosleep_inv (sweep visits m)"
  by (induction visits m rule: sweep.induct) (auto intro: inv_step)

lemma autosleep_inv_drop: "autosleep_inv m \<Longrightarrow> autosleep_inv (m\<lparr>as_states := (as_states m)(k := None)\<rparr>)"
  by (auto simp: autosleep_inv_def)

lemma autosleep_inv_Collect [inv_step]:
  "autosleep_inv m \<Longrightarrow> autosleep_inv (snd (CollectExpiredSleepWindows now ks m))"
proof (induction now ks m rule: CollectExpiredSleepWindows.induct)
  case (2 now k ks m)
  then show ?case
    by (auto simp: Let_def case_prod_beta autosleep_inv_drop split: option.splits)
qed simp

lemma autosleep_step_inv: "autosleep_inv m \<Longrightarrow> autosleep_inv (autosleep_step e m)"
  by (cases e) (auto simp: evaluateAndSleep_def intro!: inv_step)

interpretation autosleep: machine autosleep_step "\<lambda>_ _. True" autosleep_inv
  by unfold_locales (rule autosleep_step_inv)

lemma all_calls_ok [simp]: "calls_ok (\<lambda>_ _. True) step es s"
  by (induction es arbitrary: s) auto

section \<open>What the sweep does, whatever the order of its visits\<close>

lemma sweep_one_other: "k \<noteq> svc \<Longrightarrow> as_states (sweep_one svc t1 t2 m) k = as_states m k"
  by (auto simp: sweep_one_def sweep_sleep_def split: option.splits)

lemma sweep_one_frame [simp]:
  "as_policies (sweep_one svc t1 t2 m) = as_policies m" "as_cfg (sweep_one svc t1 t2 m) = as_cfg m"
  by (auto simp: sweep_one_def sweep_sleep_def split: option.splits)

lemma sweep_frame [simp]: "as_policies (sweep vs m) = as_policies m" "as_cfg (sweep vs m) = as_cfg m"
  by (induction vs m rule: sweep.induct) auto

lemma sweep_other: "k \<notin> fst ` set vs \<Longrightarrow> as_states (sweep vs m) k = as_states m k"
  by (induction vs m rule: sweep.induct) (auto simp: sweep_one_other)

lemma sweep_one_cong:
  "as_states m svc = as_states m' svc \<Longrightarrow> as_policies m = as_policies m' \<Longrightarrow> as_cfg m = as_cfg m'
   \<Longrightarrow> as_states (sweep_one svc t1 t2 m) svc = as_states (sweep_one svc t1 t2 m') svc"
  by (auto simp: sweep_one_def sweep_sleep_def CanSleep_def effective_idle_window_def put_to_sleep_def
      split: option.splits)

lemma sweep_visited:
  "distinct (map fst vs) \<Longrightarrow> (svc, t1, t2) \<in> set vs
   \<Longrightarrow> as_states (sweep vs m) svc = as_states (sweep_one svc t1 t2 m) svc"
proof (induction vs m rule: sweep.induct)
  case (2 k a b vs m)
  show ?case
  proof (cases "k = svc")
    case True
    with 2 have "(svc, t1, t2) = (k, a, b)" by force
    moreover have "svc \<notin> fst ` set vs" using 2 True by auto
    ultimately show ?thesis by (simp add: sweep_other)
  next
    case False
    with 2 have "as_states (sweep vs (sweep_one k a b m)) svc =
        as_states (sweep_one svc t1 t2 (sweep_one k a b m)) svc" by auto
    also have "\<dots> = as_states (sweep_one svc t1 t2 m) svc"
      using False by (intro sweep_one_cong) (auto simp: sweep_one_other)
    finally show ?thesis by simp
  qed
qed simp

lemma Collect_other:
  "k \<notin> set ks \<Longrightarrow> as_states (snd (CollectExpiredSleepWindows now ks m)) k = as_states m k"
  by (induction now ks m rule: CollectExpiredSleepWindows.induct)
    (auto simp: Let_def case_prod_beta split: option.splits)

lemma Collect_visited:
  "k \<in> set ks \<Longrightarrow> as_states (snd (CollectExpiredSleepWindows now ks m)) k =
     (case as_states m k of None \<Rightarrow> None
      | Some st \<Rightarrow> if window_expired now st then None else Some st)"
proof (induction now ks m rule: CollectExpiredSleepWindows.induct)
  case (2 now j ks m)
  then show ?case
    by (cases "k \<in> set ks"; cases "k = j")
      (auto simp: Let_def case_prod_beta Collect_other split: option.splits)
qed simp

lemma Collect_all:
  assumes "range_order (as_states m) ks"
  shows "as_states (snd (CollectExpiredSleepWindows now ks m)) k =
     (case as_states m k of None \<Rightarrow> None
      | Some st \<Rightarrow> if window_expired now st then None else Some st)"
proof (cases "k \<in> set ks")
  case True
  then show ?thesis by (rule Collect_visited)
next
  case False
  with assms have "as_states m k = None" by (auto simp: range_order_def)
  with False show ?thesis by (simp add: Collect_other)
qed

definition expired_at :: "time \<Rightarrow> AutosleepManager \<Rightarrow> string \<Rightarrow> ServiceSleepState list" where
  "expired_at now m k =
     (case as_states m k of None \<Rightarrow> []
      | Some st \<Rightarrow> if window_expired now st then [st\<lparr>ss_status := StExpired\<rparr>] else [])"

lemma Collect_result:
  "distinct ks \<Longrightarrow>
   fst (CollectExpiredSleepWindows now ks m) = concat (map (expired_at now m) ks)"
proof (induction now ks m rule: CollectExpiredSleepWindows.induct)
  case (2 now k ks m)
  have "map (expired_at now (m\<lparr>as_states := (as_states m)(k := None)\<rparr>)) ks =
      map (expired_at now m) ks"
    using 2(4) by (auto simp: expired_at_def)
  moreover have "as_states m k = None \<Longrightarrow> expired_at now m k = []"
    and "as_states m k = Some st \<Longrightarrow> expired_at now m k =
      (if window_expired now st then [st\<lparr>ss_status := StExpired\<rparr>] else [])" for st
    by (simp_all add: expired_at_def)
  ultimately show ?case
    using 2 by (cases "as_states m k") (simp_all add: case_prod_beta cong: map_cong)
qed simp

lemma sweep_one_sleeping:
  "as_states m svc = Some st \<Longrightarrow> ss_status st = StSleeping
   \<Longrightarrow> as_states (sweep_one k t1 t2 m) svc = Some st"
  by (cases "k = svc") (auto simp: sweep_one_other, auto simp: sweep_one_def CanSleep_def split: option.splits)

lemma sweep_sleeping:
  "as_states m svc = Some st \<Longrightarrow> ss_status st = StSleeping \<Longrightarrow> as_states (sweep vs m) svc = Some st"
  by (induction vs m rule: sweep.induct) (auto simp: sweep_one_sleeping)

text \<open>\<open>CanSleep\<close> as a condition on the clock, for windows a Go duration can hold.\<close>

lemma CanSleep_iff:
  assumes "min_duration < effective_idle_window m p" and "effective_idle_window m p \<le> max_duration"
  shows "CanSleep now svc p m \<longleftrightarrow>
    pol_enabled p \<and>
    (\<exists>st. as_states m svc = Some st \<and> ss_status st \<noteq> StSleeping \<and>
       effective_idle_window m p \<le> now - ss_last_active st)"
  using assms by (auto simp: CanSleep_def time_sub_ge_iff split: option.splits)

definition is_asleep :: "AutosleepManager \<Rightarrow> string \<Rightarrow> bool" where
  "is_asleep m svc \<longleftrightarrow> (case as_states m svc of None \<Rightarrow> False | Some st \<Rightarrow> ss_status st = StSleeping)"

lemma Stats_total:
  assumes inv: "autosleep_inv m" and ks: "range_order (as_states m) ks"
  shows "\<exists>a s. Stats ks m = (a, s, 0) \<and> a + s = length ks"
proof -
  have ok: "\<exists>st. as_states m k = Some st \<and> ss_status st \<in> {StActive, StSleeping, StWaking}"
    if "k \<in> set ks" for k
    using that ks inv by (fastforce simp: range_order_def autosleep_inv_def state_ok_def)
  let ?f = "\<lambda>P k. case as_states m k of None \<Rightarrow> False | Some st \<Rightarrow> P (ss_status st)"
  have none: "filter (?f (\<lambda>s. s = StExpired)) ks = []"
    using ok by (fastforce simp: filter_empty_conv)
  have "filter (?f (\<lambda>s. s = StSleeping)) ks = filter (\<lambda>k. \<not> ?f (\<lambda>s. s = StActive \<or> s = StWaking) k) ks"
    using ok by (intro filter_cong) fastforce+
  then have "count_status (\<lambda>s. s = StActive \<or> s = StWaking) ks m +
      count_status (\<lambda>s. s = StSleeping) ks m = length ks"
    unfolding count_status_def by (simp only: sum_length_filter_compl)
  with none show ?thesis by (simp add: Stats_def count_status_def)
qed

section \<open>Properties\<close>

text \<open>
  Every state the manager can reach by any sequence of calls is well formed: a
  service is recorded under its own name as active, sleeping or waking (never unset, never
  expired), a sleeping service carries the wake deadline of exactly one maximal sleep window after
  it fell asleep, and a waking service has its sleep time cleared. So the third counter of
  \<open>Stats\<close> is always 0 and the first two add up to the number of recorded services.
\<close>

theorem autosleep_reachable_states:
  assumes "m = run autosleep_step es (NewAutosleepManager cfg)"
  shows "(\<forall>svc st. as_states m svc = Some st \<longrightarrow>
           state_ok (cfg_max_sleep_window (as_cfg m)) svc st) \<and>
         (\<forall>ks. range_order (as_states m) ks \<longrightarrow>
           (\<exists>a s. Stats ks m = (a, s, 0) \<and> a + s = length ks))"
proof -
  have inv: "autosleep_inv m"
    unfolding assms by (intro autosleep.invar_run autosleep_inv_new) simp
  then have "\<exists>a s. Stats ks m = (a, s, 0) \<and> a + s = length ks" if "range_order (as_states m) ks" for ks
    using Stats_total that by blast
  with inv show ?thesis by (auto simp: autosleep_inv_def)
qed

theorem autosleep_reachable_states_witness:
  "\<exists>st. as_states (run autosleep_step [CallSleep 5 ''web'' ''r1''] (NewAutosleepManager DefaultAutosleepConfig)) ''web'' =
      Some st \<and> ss_status st = StSleeping \<and> state_ok (8 * hour) ''web'' st"
proof -
  have "\<exists>st. as_states (run autosleep_step [CallSleep 5 ''web'' ''r1''] (NewAutosleepManager DefaultAutosleepConfig))
      ''web'' = Some st \<and> ss_status st = StSleeping"
    by (simp add: SleepService_def put_to_sleep_def NewAutosleepManager_def Let_def)
  moreover have "cfg_max_sleep_window (as_cfg (run autosleep_step [CallSleep 5 ''web'' ''r1'']
      (NewAutosleepManager DefaultAutosleepConfig))) = 8 * hour"
    by (simp add: SleepService_def NewAutosleepManager_def DefaultAutosleepConfig_def Let_def duration_units)
  ultimately show ?thesis
    using autosleep_reachable_states [of _ "[CallSleep 5 ''web'' ''r1'']" DefaultAutosleepConfig, OF refl]
    by metis
qed

text \<open>
  Property C22: a sleeping service stays exactly as it is under every call but two: a
  \<open>WakeService\<close> of that service no later than its wake deadline, which makes it waking, and a sweep
  after the deadline, or its last part alone, which forgets it. In particular \<open>MarkActive\<close> never wakes
  a service. The parts of a sweep are calls of their own, so other calls may come between them.
\<close>

theorem autosleep_leave_sleep:
  assumes "as_states m svc = Some st" and "ss_status st = StSleeping"
    and "\<not> is_asleep (autosleep_step e m) svc"
  shows "(\<exists>now. e = CallWake now svc \<and> (is_zero (ss_wake_at st) \<or> now \<le> ss_wake_at st) \<and>
             as_states (autosleep_step e m) svc =
               Some (st\<lparr>ss_status := StWaking, ss_last_active := now, ss_sleeping_at := zero_time\<rparr>)) \<or>
         (\<exists>visits now ks. (e = CallSweep visits now ks \<or> e = CallCollect now ks) \<and>
             svc \<in> set ks \<and> ss_wake_at st < now \<and> as_states (autosleep_step e m) svc = None)"
proof (cases e)
  case (CallSleep now k rid)
  with assms show ?thesis
    by (auto simp: SleepService_def is_asleep_def Let_def put_to_sleep_def split: option.splits if_splits)
next
  case (CallWake now k)
  with assms show ?thesis
    by (cases "k = svc") (auto simp: WakeService_def is_asleep_def Let_def split: option.splits if_splits)
next
  case (CallMarkActive now k)
  with assms show ?thesis
    by (auto simp: MarkActive_def is_asleep_def Let_def split: option.splits if_splits)
next
  case (CallRegisterPolicy k p)
  with assms show ?thesis by (auto simp: RegisterPolicy_def is_asleep_def)
next
  case (CallSweep visits now ks)
  have "as_states (sweep visits m) svc = Some st"
    using assms(1,2) by (rule sweep_sleeping)
  with assms CallSweep show ?thesis
    by (cases "svc \<in> set ks")
      (auto simp: evaluateAndSleep_def Collect_visited Collect_other is_asleep_def window_expired_def
        split: if_splits)
next
  case (CallSweepSleep now k)
  with assms show ?thesis
    by (auto simp: sweep_sleep_def is_asleep_def put_to_sleep_def split: option.splits if_splits)
next
  case (CallCollect now ks)
  with assms show ?thesis
    by (cases "svc \<in> set ks")
      (auto simp: Collect_visited Collect_other is_asleep_def window_expired_def split: if_splits)
qed

definition demo_asleep :: AutosleepManager where
  "demo_asleep = run autosleep_step [CallSleep 10 ''web'' ''r1'']
     (NewAutosleepManager DefaultAutosleepConfig)"

theorem autosleep_leave_sleep_witness:
  "as_states (autosleep_step (CallWake 20 ''web'') demo_asleep) ''web'' \<noteq> None"
proof -
  have *: "as_states demo_asleep ''web'' = Some \<lparr>ss_service = ''web'', ss_revision = ''r1'',
      ss_last_active = 10, ss_sleeping_at = 10, ss_wake_at = 28800000000010, ss_status = StSleeping\<rparr>"
    by (simp add: demo_asleep_def SleepService_def NewAutosleepManager_def DefaultAutosleepConfig_def
        put_to_sleep_def duration_units Let_def)
  moreover have "\<not> is_asleep (autosleep_step (CallWake 20 ''web'') demo_asleep) ''web''"
    by (simp add: * is_asleep_def WakeService_def is_zero_def zero_time_def Let_def)
  ultimately show ?thesis
    using autosleep_leave_sleep [of demo_asleep "''web''" _ "CallWake 20 ''web''"] by auto
qed

text \<open>
  Property C23: what a sweep does to each service, when no other call comes between its parts.
  Every visit of a policy reads the clock for itself, so the order in which the policies and the
  states are visited matters only through these readings: a service with an enabled policy that, at
  the first reading of its visit, has been idle for its window falls asleep at the second reading;
  then a sleeping service whose deadline is past at the final reading is forgotten; and every other
  service keeps its state.
\<close>

theorem evaluateAndSleep_effect:
  assumes visits: "distinct (map fst visits)" "fst ` set visits = dom (as_policies m)"
    and order: "range_order (as_states (sweep visits m)) ks"
  shows "as_states (snd (evaluateAndSleep visits now ks m)) svc =
    (case as_states m svc of None \<Rightarrow> None
     | Some st \<Rightarrow>
         (let st' = (case (as_policies m svc, map_of visits svc) of
               (Some p, Some (t1, t2)) \<Rightarrow> if CanSleep t1 svc p m then put_to_sleep t2 m st else st
             | _ \<Rightarrow> st)
          in if window_expired now st' then None else Some st'))"
proof -
  have "as_states (sweep visits m) svc = (case as_states m svc of None \<Rightarrow> None
     | Some st \<Rightarrow> Some (case (as_policies m svc, map_of visits svc) of
               (Some p, Some (t1, t2)) \<Rightarrow> if CanSleep t1 svc p m then put_to_sleep t2 m st else st
             | _ \<Rightarrow> st))"
  proof (cases "as_policies m svc")
    case None
    then have "svc \<notin> fst ` set visits" using visits(2) by auto
    with None show ?thesis by (auto simp: sweep_other split: option.splits)
  next
    case (Some p)
    then have "svc \<in> fst ` set visits" using visits(2) by auto
    then obtain t1 t2 where v: "map_of visits svc = Some (t1, t2)"
      by (metis map_of_eq_None_iff option.exhaust surj_pair)
    then have "as_states (sweep visits m) svc = as_states (sweep_one svc t1 t2 m) svc"
      by (intro sweep_visited [OF visits(1)] map_of_SomeD)
    with Some v show ?thesis
      by (auto simp: sweep_one_def sweep_sleep_def CanSleep_def split: option.splits)
  qed
  then show ?thesis
    by (simp add: evaluateAndSleep_def Collect_all [OF order] split: option.splits)
qed

definition demo_idle :: AutosleepManager where
  "demo_idle = run autosleep_step
     [CallMarkActive 5 ''web'', CallRegisterPolicy ''web'' \<lparr>pol_enabled = True, pol_idle_window = [],
        pol_hold_timeout = []\<rparr>]
     (NewAutosleepManager DefaultAutosleepConfig)"

theorem evaluateAndSleep_effect_witness:
  "map_option ss_sleeping_at (as_states
      (snd (evaluateAndSleep [(''web'', hour, hour + 3)] (hour + 8) [''web''] demo_idle)) ''web'') = Some (hour + 3)"
proof -
  have p: "as_policies demo_idle = [''web'' \<mapsto> \<lparr>pol_enabled = True, pol_idle_window = [],
        pol_hold_timeout = []\<rparr>]"
    and s: "as_states demo_idle = [''web'' \<mapsto> \<lparr>ss_service = ''web'', ss_revision = [],
        ss_last_active = 5, ss_sleeping_at = 0, ss_wake_at = 0, ss_status = StActive\<rparr>]"
    and c: "as_cfg demo_idle = DefaultAutosleepConfig"
    by (simp_all add: demo_idle_def MarkActive_def RegisterPolicy_def NewAutosleepManager_def
        DefaultAutosleepConfig_def zero_time_def duration_units)
  have "range_order (as_states (sweep [(''web'', hour, hour + 3)] demo_idle)) [''web'']"
    by (simp add: range_order_def sweep_one_def sweep_sleep_def p s CanSleep_def)
  then show ?thesis
    by (subst evaluateAndSleep_effect)
      (simp_all add: p s c window_expired_def put_to_sleep_def Let_def DefaultAutosleepConfig_def
        CanSleep_def effective_idle_window_def time_sub_def min_duration_def max_duration_def duration_units)
qed

end
