(* ===== verification/GatewayHold.thy ===== *)
theory GatewayHold
  imports Autosleep
begin

text \<open>
  The agent's gateway hold manager, \<open>agent/internal/runtime/gateway_hold_manager.go\<close>: requests
  that arrive while a service wakes up are held, then resumed or expired. Not modelled:
  \<open>PersistHoldState\<close> (file output) and the ticker that calls \<open>CollectExpiredHolds\<close>.
\<close>

section \<open>State\<close>

datatype hold_status = Held | Resumed | HoldExpired

record HeldRequest =
  hr_request_id :: string
  hr_service :: string
  hr_correlation_id :: string
  hr_held_at :: time
  hr_expires_at :: time
  hr_status :: hold_status

record GatewayHoldConfig =
  default_hold_timeout :: duration
  max_held_requests :: int

record GatewayHoldManager =
  gh_cfg :: GatewayHoldConfig
  gh_holds :: "string \<rightharpoonup> HeldRequest list"
  gh_total :: nat
  gh_expired :: nat
  gh_resumed :: nat

definition DefaultGatewayHoldConfig :: GatewayHoldConfig where
  "DefaultGatewayHoldConfig = \<lparr>default_hold_timeout = 30 * second, max_held_requests = 100\<rparr>"

definition NewGatewayHoldManager :: "GatewayHoldConfig \<Rightarrow> GatewayHoldManager" where
  "NewGatewayHoldManager cfg =
     \<lparr>gh_cfg =
        \<lparr>default_hold_timeout =
           (if default_hold_timeout cfg \<le> 0 then 30 * second else default_hold_timeout cfg),
         max_held_requests = (if max_held_requests cfg \<le> 0 then 100 else max_held_requests cfg)\<rparr>,
      gh_holds = Map.empty, gh_total = 0, gh_expired = 0, gh_resumed = 0\<rparr>"

section \<open>Operations\<close>

definition HoldRequest ::
  "time \<Rightarrow> string \<Rightarrow> string \<Rightarrow> string \<Rightarrow> duration \<Rightarrow> GatewayHoldManager
   \<Rightarrow> HeldRequest res \<times> GatewayHoldManager" where
  "HoldRequest now svc rid cid holdTimeout m =
     (let m1 = m\<lparr>gh_total := gh_total m + 1\<rparr>;
          timeout = (if holdTimeout \<le> 0 then default_hold_timeout (gh_cfg m) else holdTimeout);
          existing = map_get [] (gh_holds m1) svc
      in if max_held_requests (gh_cfg m1) \<le> int (length existing)
         then (Fail (Errorf (''max held requests reached for service '' @ svc @ '' ('' @
                 itoa (max_held_requests (gh_cfg m1)) @ '')'')), m1)
         else let req = \<lparr>hr_request_id = rid, hr_service = svc, hr_correlation_id = cid,
                hr_held_at = now, hr_expires_at = now + timeout, hr_status = Held\<rparr>
              in (Ok req, m1\<lparr>gh_holds := (gh_holds m1)(svc \<mapsto> existing @ [req])\<rparr>))"

text \<open>The loop of \<open>ResumeRequests\<close>: the resumable requests, in order, and the new counters.\<close>

fun resume_loop ::
  "time \<Rightarrow> HeldRequest list \<Rightarrow> GatewayHoldManager \<Rightarrow> HeldRequest list \<times> GatewayHoldManager" where
  "resume_loop now [] m = ([], m)"
| "resume_loop now (r # rs) m =
     (if now < hr_expires_at r then
        (let (out, m') = resume_loop now rs (m\<lparr>gh_resumed := gh_resumed m + 1\<rparr>)
         in (r\<lparr>hr_status := Resumed\<rparr> # out, m'))
      else resume_loop now rs (m\<lparr>gh_expired := gh_expired m + 1\<rparr>))"

definition ResumeRequests ::
  "time \<Rightarrow> string \<Rightarrow> GatewayHoldManager \<Rightarrow> HeldRequest list \<times> GatewayHoldManager" where
  "ResumeRequests now svc m =
     (let requests = map_get [] (gh_holds m) svc
      in if requests = [] then ([], m)
         else let (resumable, m') = resume_loop now requests m
              in (resumable, m'\<lparr>gh_holds := (gh_holds m')(svc := None)\<rparr>))"

text \<open>
  \<open>CollectExpiredHolds\<close>, visiting the services in the order \<open>ks\<close>; \<open>drop_expired\<close> is the body for
  one service.
\<close>

definition drop_expired ::
  "time \<Rightarrow> string \<Rightarrow> HeldRequest list \<Rightarrow> GatewayHoldManager \<Rightarrow> GatewayHoldManager" where
  "drop_expired now k requests m =
     (let remaining = filter (\<lambda>r. \<not> hr_expires_at r < now) requests
      in m\<lparr>gh_expired := gh_expired m + length (filter (\<lambda>r. hr_expires_at r < now) requests),
           gh_holds := (gh_holds m)(k := if remaining = [] then None else Some remaining)\<rparr>)"

fun CollectExpiredHolds ::
  "time \<Rightarrow> string list \<Rightarrow> GatewayHoldManager \<Rightarrow> HeldRequest list \<times> GatewayHoldManager" where
  "CollectExpiredHolds now [] m = ([], m)"
| "CollectExpiredHolds now (k # ks) m =
     (case gh_holds m k of
        None \<Rightarrow> CollectExpiredHolds now ks m
      | Some requests \<Rightarrow>
          (let (out, m') = CollectExpiredHolds now ks (drop_expired now k requests m)
           in (map (\<lambda>r. r\<lparr>hr_status := HoldExpired\<rparr>)
                 (filter (\<lambda>r. hr_expires_at r < now) requests) @ out, m')))"

definition HoldStats :: "string list \<Rightarrow> GatewayHoldManager \<Rightarrow> nat \<times> nat \<times> nat \<times> nat" where
  "HoldStats ks m =
     (gh_total m, sum_list (map (\<lambda>k. length (map_get [] (gh_holds m) k)) ks), gh_expired m,
      gh_resumed m)"

definition HoldTimeoutFromPolicy :: "ScaleToZeroPolicy \<Rightarrow> GatewayHoldManager \<Rightarrow> duration" where
  "HoldTimeoutFromPolicy p m =
     (if pol_hold_timeout p \<noteq> [] then
        (case ParseDuration (pol_hold_timeout p) of
           Some d \<Rightarrow> if 0 < d then d else default_hold_timeout (gh_cfg m)
         | None \<Rightarrow> default_hold_timeout (gh_cfg m))
      else default_hold_timeout (gh_cfg m))"

section \<open>The loop of ResumeRequests\<close>

lemma resume_loop_frame [simp]:
  "gh_holds (snd (resume_loop now rs m)) = gh_holds m"
  "gh_cfg (snd (resume_loop now rs m)) = gh_cfg m"
  "gh_total (snd (resume_loop now rs m)) = gh_total m"
  by (induction now rs m rule: resume_loop.induct) (auto simp: case_prod_beta)

lemma resume_loop_result:
  "fst (resume_loop now rs m) =
     map (\<lambda>r. r\<lparr>hr_status := Resumed\<rparr>) (filter (\<lambda>r. now < hr_expires_at r) rs)"
  by (induction now rs m rule: resume_loop.induct) (auto simp: case_prod_beta)

lemma resume_loop_counts:
  "gh_resumed (snd (resume_loop now rs m)) =
     gh_resumed m + length (filter (\<lambda>r. now < hr_expires_at r) rs)"
  "gh_expired (snd (resume_loop now rs m)) =
     gh_expired m + length (filter (\<lambda>r. \<not> now < hr_expires_at r) rs)"
  by (induction now rs m rule: resume_loop.induct) (auto simp: case_prod_beta)

section \<open>The manager as a machine\<close>

datatype hold_call =
    CallHold time string string string duration
  | CallResume time string
  | CallCollect time "string list"

fun hold_step :: "hold_call \<Rightarrow> GatewayHoldManager \<Rightarrow> GatewayHoldManager" where
  "hold_step (CallHold now svc rid cid d) m = snd (HoldRequest now svc rid cid d m)"
| "hold_step (CallResume now svc) m = snd (ResumeRequests now svc m)"
| "hold_step (CallCollect now ks) m = snd (CollectExpiredHolds now ks m)"

definition held_ok :: "string \<Rightarrow> HeldRequest \<Rightarrow> bool" where
  "held_ok svc r \<longleftrightarrow> hr_service r = svc \<and> hr_status r = Held \<and> hr_held_at r < hr_expires_at r"

definition hold_inv :: "GatewayHoldManager \<Rightarrow> bool" where
  "hold_inv m \<longleftrightarrow>
     0 < max_held_requests (gh_cfg m) \<and> 0 < default_hold_timeout (gh_cfg m) \<and>
     finite (dom (gh_holds m)) \<and>
     (\<forall>svc rs. gh_holds m svc = Some rs \<longrightarrow>
        rs \<noteq> [] \<and> int (length rs) \<le> max_held_requests (gh_cfg m) \<and> (\<forall>r \<in> set rs. held_ok svc r))"

lemma hold_inv_new [inv_step]: "hold_inv (NewGatewayHoldManager cfg)"
  by (auto simp: hold_inv_def NewGatewayHoldManager_def second_def)

lemma hold_inv_HoldRequest [inv_step]:
  "hold_inv m \<Longrightarrow> hold_inv (snd (HoldRequest now svc rid cid d m))"
  by (cases "gh_holds m svc")
    (auto simp: hold_inv_def HoldRequest_def Let_def held_ok_def split: if_splits)

lemma hold_inv_ResumeRequests [inv_step]: "hold_inv m \<Longrightarrow> hold_inv (snd (ResumeRequests now svc m))"
  by (auto simp: hold_inv_def ResumeRequests_def Let_def case_prod_beta)

lemma hold_inv_drop_expired [inv_step]:
  assumes "hold_inv m" and "gh_holds m k = Some rs"
  shows "hold_inv (drop_expired now k rs m)"
proof -
  have "int (length rs) \<le> max_held_requests (gh_cfg m)"
    using assms by (simp add: hold_inv_def)
  moreover have "length (filter (\<lambda>r. \<not> hr_expires_at r < now) rs) \<le> length rs" by simp
  ultimately have "int (length (filter (\<lambda>r. \<not> hr_expires_at r < now) rs)) \<le> max_held_requests (gh_cfg m)"
    by linarith
  with assms show ?thesis
    by (auto simp: hold_inv_def drop_expired_def Let_def)
qed

lemma hold_inv_Collect [inv_step]: "hold_inv m \<Longrightarrow> hold_inv (snd (CollectExpiredHolds now ks m))"
  by (induction now ks m rule: CollectExpiredHolds.induct)
    (auto simp: case_prod_beta intro: inv_step split: option.splits)

lemma hold_step_inv: "hold_inv m \<Longrightarrow> hold_inv (hold_step e m)"
  by (cases e) (auto intro!: inv_step)

interpretation hold: machine hold_step "\<lambda>_ _. True" hold_inv
  by unfold_locales (rule hold_step_inv)

text \<open>Accounting: a request that was counted is held, expired, resumed, or was rejected.\<close>

definition accounted :: "GatewayHoldManager \<Rightarrow> nat" where
  "accounted m = held_count (gh_holds m) + gh_expired m + gh_resumed m"

fun rejected :: "hold_call list \<Rightarrow> GatewayHoldManager \<Rightarrow> nat" where
  "rejected [] m = 0"
| "rejected (e # es) m =
     (case e of CallHold now svc rid cid d \<Rightarrow>
        (if is_ok (fst (HoldRequest now svc rid cid d m)) then 0 else 1) | _ \<Rightarrow> 0)
     + rejected es (hold_step e m)"

lemma accounted_HoldRequest:
  assumes "hold_inv m"
  shows "gh_total (snd (HoldRequest now svc rid cid d m)) = gh_total m + 1"
    and "accounted (snd (HoldRequest now svc rid cid d m)) =
      accounted m + (if is_ok (fst (HoldRequest now svc rid cid d m)) then 1 else 0)"
proof -
  have fin: "finite (dom (gh_holds m))" using assms by (simp add: hold_inv_def)
  show "gh_total (snd (HoldRequest now svc rid cid d m)) = gh_total m + 1"
    by (simp add: HoldRequest_def Let_def)
  show "accounted (snd (HoldRequest now svc rid cid d m)) =
      accounted m + (if is_ok (fst (HoldRequest now svc rid cid d m)) then 1 else 0)"
    using held_count_remove [OF fin, of svc]
    by (simp add: HoldRequest_def Let_def accounted_def held_count_put [OF fin])
qed

lemma filter_split_length:
  "length (filter P xs) + length (filter (\<lambda>x. \<not> P x) xs) = length xs"
  by (rule sum_length_filter_compl)

lemma accounted_ResumeRequests:
  assumes "hold_inv m"
  shows "gh_total (snd (ResumeRequests now svc m)) = gh_total m"
    and "accounted (snd (ResumeRequests now svc m)) = accounted m"
proof -
  have fin: "finite (dom (gh_holds m))" using assms by (simp add: hold_inv_def)
  show "gh_total (snd (ResumeRequests now svc m)) = gh_total m"
    by (simp add: ResumeRequests_def Let_def case_prod_beta)
  show "accounted (snd (ResumeRequests now svc m)) = accounted m"
    using held_count_remove [OF fin, of svc]
      filter_split_length [of "\<lambda>r. now < hr_expires_at r" "map_get [] (gh_holds m) svc"]
    by (simp add: ResumeRequests_def Let_def case_prod_beta accounted_def resume_loop_counts)
qed

lemma accounted_drop_expired:
  assumes fin: "finite (dom (gh_holds m))" and rs: "gh_holds m k = Some rs"
  shows "accounted (drop_expired now k rs m) = accounted m"
    and "gh_total (drop_expired now k rs m) = gh_total m"
    and "finite (dom (gh_holds (drop_expired now k rs m)))"
proof -
  let ?rem = "filter (\<lambda>r. \<not> hr_expires_at r < now) rs"
  have "held_count (gh_holds (drop_expired now k rs m)) =
      held_count ((gh_holds m)(k := None)) + length ?rem"
    using held_count_put [OF fin, of k ?rem] by (cases "?rem = []") (simp_all add: drop_expired_def)
  then show "accounted (drop_expired now k rs m) = accounted m"
    using held_count_remove [OF fin, of k] rs
      filter_split_length [of "\<lambda>r. hr_expires_at r < now" rs]
    by (simp add: accounted_def) (simp add: drop_expired_def Let_def)
  show "gh_total (drop_expired now k rs m) = gh_total m"
    by (simp add: drop_expired_def Let_def)
  show "finite (dom (gh_holds (drop_expired now k rs m)))"
    using fin by (simp add: drop_expired_def Let_def)
qed

lemma accounted_Collect:
  "finite (dom (gh_holds m)) \<Longrightarrow>
   gh_total (snd (CollectExpiredHolds now ks m)) = gh_total m \<and>
   accounted (snd (CollectExpiredHolds now ks m)) = accounted m"
  by (induction now ks m rule: CollectExpiredHolds.induct)
    (auto simp: case_prod_beta accounted_drop_expired split: option.splits)

lemma accounted_step:
  assumes "hold_inv m"
  shows "gh_total (hold_step e m) + accounted m = gh_total m + accounted (hold_step e m) + rejected [e] m"
proof -
  have fin: "finite (dom (gh_holds m))" using assms by (simp add: hold_inv_def)
  show ?thesis
    using accounted_HoldRequest [OF assms] accounted_ResumeRequests [OF assms] accounted_Collect [OF fin]
    by (cases e) auto
qed

section \<open>Properties\<close>

text \<open>
  Property C24: over any sequence of calls from a new manager, no request is lost or counted twice:
  the total of \<open>Stats\<close> is the number of requests still held plus those expired plus those resumed
  plus those rejected because the service's queue was full; and no service ever holds more requests
  than the configured maximum.
\<close>

theorem hold_accounting:
  assumes "m = run hold_step es (NewGatewayHoldManager cfg)" and "range_order (gh_holds m) ks"
  shows "\<exists>active. HoldStats ks m = (gh_total m, active, gh_expired m, gh_resumed m) \<and>
      gh_total m = active + gh_expired m + gh_resumed m + rejected es (NewGatewayHoldManager cfg) \<and>
      (\<forall>svc. int (length (map_get [] (gh_holds m) svc)) \<le> max_held_requests (gh_cfg m))"
proof -
  let ?m0 = "NewGatewayHoldManager cfg"
  have gen: "gh_total (run hold_step es s) + accounted s =
      gh_total s + accounted (run hold_step es s) + rejected es s" if "hold_inv s" for s
    using that
  proof (induction es arbitrary: s)
    case Nil
    show ?case by simp
  next
    case (Cons e es)
    from Cons.IH [of "hold_step e s"] hold_step_inv [OF Cons.prems, of e] accounted_step [OF Cons.prems, of e]
    show ?case by simp
  qed
  have "gh_total m = accounted m + rejected es ?m0"
    using gen [OF hold_inv_new] assms(1) by (simp add: NewGatewayHoldManager_def accounted_def)
  moreover have "hold_inv m"
    unfolding assms(1) by (intro hold.invar_run hold_inv_new) simp
  then have "int (length (map_get [] (gh_holds m) svc)) \<le> max_held_requests (gh_cfg m)" for svc
    by (cases "gh_holds m svc") (auto simp: hold_inv_def)
  ultimately show ?thesis
    using held_count_order [OF assms(2)] by (simp add: HoldStats_def accounted_def)
qed

theorem hold_accounting_witness:
  "gh_total (run hold_step [CallHold 0 ''web'' ''q1'' ''c1'' 5, CallHold 1 ''web'' ''q2'' ''c2'' 50,
      CallResume 9 ''web''] (NewGatewayHoldManager DefaultGatewayHoldConfig)) = 2"
proof -
  let ?es = "[CallHold 0 ''web'' ''q1'' ''c1'' 5, CallHold 1 ''web'' ''q2'' ''c2'' 50,
      CallResume 9 ''web'']"
  let ?m = "run hold_step ?es (NewGatewayHoldManager DefaultGatewayHoldConfig)"
  have "gh_holds ?m = Map.empty" "gh_expired ?m = 1" "gh_resumed ?m = 1"
    "rejected ?es (NewGatewayHoldManager DefaultGatewayHoldConfig) = 0"
    by (simp_all add: HoldRequest_def NewGatewayHoldManager_def DefaultGatewayHoldConfig_def Let_def
        ResumeRequests_def map_get_def second_def)
  then show ?thesis
    using hold_accounting [OF refl, of ?es DefaultGatewayHoldConfig "[]"]
    by (simp add: range_order_def HoldStats_def)
qed

text \<open>
  \<open>ResumeRequests\<close> hands back exactly the requests of the service that have not reached
  their expiry, in the order they were held and marked resumed, counts the others as expired, and
  leaves the service with nothing held and every other service as it was.
\<close>

theorem ResumeRequests_effect:
  "ResumeRequests now svc m = (out, m') \<Longrightarrow>
     out = map (\<lambda>r. r\<lparr>hr_status := Resumed\<rparr>)
       (filter (\<lambda>r. now < hr_expires_at r) (map_get [] (gh_holds m) svc)) \<and>
     gh_resumed m' = gh_resumed m + length out \<and>
     gh_expired m' + length out = gh_expired m + length (map_get [] (gh_holds m) svc) \<and>
     map_get [] (gh_holds m') svc = [] \<and>
     (\<forall>k. k \<noteq> svc \<longrightarrow> gh_holds m' k = gh_holds m k)"
  using filter_split_length [of "\<lambda>r. now < hr_expires_at r" "map_get [] (gh_holds m) svc"]
  by (auto simp: ResumeRequests_def Let_def case_prod_beta resume_loop_result resume_loop_counts
      split: if_splits)

theorem ResumeRequests_effect_witness:
  "map_get [] (gh_holds (snd (ResumeRequests 9 ''web''
     (run hold_step [CallHold 0 ''web'' ''q1'' ''c1'' 5] (NewGatewayHoldManager DefaultGatewayHoldConfig)))))
     ''web'' = []"
  using ResumeRequests_effect [OF prod.collapse [symmetric], of 9 "''web''"
      "run hold_step [CallHold 0 ''web'' ''q1'' ''c1'' 5] (NewGatewayHoldManager DefaultGatewayHoldConfig)"]
  by blast

end
