(* ===== verification/ScaleToZero.thy ===== *)
theory ScaleToZero
  imports GatewayHold
begin

text \<open>
  The scale-to-zero guard of the agent, \<open>agent/internal/runtime/scale_to_zero_guard.go\<close>: it puts
  the autosleep manager and the gateway hold manager behind the runtime mode and keeps wake
  statistics per service. The guard and the managers read their own clocks, so an operation that
  calls both takes two readings. Logging is not modelled.
\<close>

section \<open>State\<close>

record ScaleToZeroGuard =
  g_autosleep :: AutosleepManager
  g_gateway_hold :: "GatewayHoldManager option"
  g_wake_timeout :: duration
  g_cold_start_timeout :: duration
  g_max_cold_starts :: int
  g_wake_attempts :: "string \<rightharpoonup> int"
  g_last_wake_at :: "string \<rightharpoonup> time"
  g_cold_starts :: "string \<rightharpoonup> int"

definition NewScaleToZeroGuard ::
  "AutosleepManager \<Rightarrow> GatewayHoldManager option \<Rightarrow> duration \<Rightarrow> duration \<Rightarrow> ScaleToZeroGuard" where
  "NewScaleToZeroGuard a h wakeTimeout coldStartTimeout =
     (let wt = (if wakeTimeout \<le> 0 then 30 * second else wakeTimeout);
          ct = (if coldStartTimeout \<le> 0 then 60 * second else coldStartTimeout);
          mc = go_quot ct (30 * second)
      in \<lparr>g_autosleep = a, g_gateway_hold = h, g_wake_timeout = wt, g_cold_start_timeout = ct,
          g_max_cold_starts = (if mc < 3 then 3 else mc),
          g_wake_attempts = Map.empty, g_last_wake_at = Map.empty, g_cold_starts = Map.empty\<rparr>)"

section \<open>Operations\<close>

definition ValidateSleepPolicy :: "string \<Rightarrow> ScaleToZeroPolicy \<Rightarrow> string \<Rightarrow> go_err option" where
  "ValidateSleepPolicy svc p mode =
     (if mode = RuntimeModeDistributedK3s
      then Some (Errorf ''scale-to-zero is not supported in distributed-k3s mode'')
      else if \<not> pol_enabled p
      then Some (Errorf (''service '' @ svc @ '' does not have scale-to-zero enabled''))
      else None)"

definition GuardCanSleep ::
  "time \<Rightarrow> string \<Rightarrow> ScaleToZeroPolicy \<Rightarrow> string \<Rightarrow> ScaleToZeroGuard \<Rightarrow> bool" where
  "GuardCanSleep now svc p mode g =
     (case ValidateSleepPolicy svc p mode of
        Some err \<Rightarrow> False
      | None \<Rightarrow> CanSleep now svc p (g_autosleep g))"

definition GuardSleepService ::
  "time \<Rightarrow> time \<Rightarrow> string \<Rightarrow> string \<Rightarrow> string \<Rightarrow> ScaleToZeroGuard
   \<Rightarrow> ServiceSleepState res \<times> ScaleToZeroGuard" where
  "GuardSleepService t1 t2 svc rid mode g =
     (if mode = RuntimeModeDistributedK3s
      then (Fail (Errorf ''scale-to-zero is not supported in distributed-k3s mode''), g)
      else case SleepService t1 svc rid (g_autosleep g) of
          (st, Some err, a) \<Rightarrow> (Fail err, g\<lparr>g_autosleep := a\<rparr>)
        | (st, None, a) \<Rightarrow>
            (Ok (the st),
             g\<lparr>g_autosleep := a,
               g_gateway_hold := map_option (\<lambda>h. snd (ResumeRequests t2 svc h)) (g_gateway_hold g)\<rparr>))"

definition GuardWakeService ::
  "time \<Rightarrow> time \<Rightarrow> string \<Rightarrow> string \<Rightarrow> ScaleToZeroGuard
   \<Rightarrow> ServiceSleepState res \<times> ScaleToZeroGuard" where
  "GuardWakeService t1 t2 svc mode g =
     (if mode = RuntimeModeDistributedK3s
      then (Fail (Errorf ''scale-to-zero is not supported in distributed-k3s mode''), g)
      else case WakeService t1 svc (g_autosleep g) of
          (st, Some err, a) \<Rightarrow> (Fail err, g\<lparr>g_autosleep := a\<rparr>)
        | (st, None, a) \<Rightarrow>
            (Ok (the st),
             g\<lparr>g_autosleep := a,
               g_wake_attempts := (g_wake_attempts g)(svc \<mapsto> map_get 0 (g_wake_attempts g) svc + 1),
               g_last_wake_at := (g_last_wake_at g)(svc \<mapsto> t2)\<rparr>))"

definition HoldIncomingRequest ::
  "time \<Rightarrow> string \<Rightarrow> string \<Rightarrow> string \<Rightarrow> ScaleToZeroPolicy \<Rightarrow> ScaleToZeroGuard
   \<Rightarrow> HeldRequest res \<times> ScaleToZeroGuard" where
  "HoldIncomingRequest now svc rid cid p g =
     (case g_gateway_hold g of
        None \<Rightarrow> (Fail (Errorf ''gateway hold manager not configured''), g)
      | Some h \<Rightarrow>
          (let (r, h') = HoldRequest now svc rid cid (HoldTimeoutFromPolicy p h) h
           in (r, g\<lparr>g_gateway_hold := Some h'\<rparr>)))"

definition GuardMarkActive :: "time \<Rightarrow> string \<Rightarrow> ScaleToZeroGuard \<Rightarrow> ScaleToZeroGuard" where
  "GuardMarkActive now svc g =
     g\<lparr>g_autosleep := MarkActive now svc (g_autosleep g),
       g_cold_starts := (g_cold_starts g)(svc \<mapsto> map_get 0 (g_cold_starts g) svc + 1),
       g_wake_attempts := (g_wake_attempts g)(svc := None)\<rparr>"

definition CheckWakeTimeout :: "time \<Rightarrow> string \<Rightarrow> ScaleToZeroGuard \<Rightarrow> bool \<times> int" where
  "CheckWakeTimeout now svc g =
     (case g_last_wake_at g svc of
        None \<Rightarrow> (False, 0)
      | Some lastWake \<Rightarrow>
          (if g_wake_timeout g < time_sub now lastWake
           then (True, map_get 0 (g_wake_attempts g) svc) else (False, 0)))"

definition CheckColdStartTimeout :: "string \<Rightarrow> ScaleToZeroGuard \<Rightarrow> bool" where
  "CheckColdStartTimeout svc g \<longleftrightarrow> g_max_cold_starts g < map_get 0 (g_cold_starts g) svc"

definition GetWakeStats :: "string \<Rightarrow> ScaleToZeroGuard \<Rightarrow> int \<times> int \<times> time" where
  "GetWakeStats svc g =
     (map_get 0 (g_wake_attempts g) svc, map_get 0 (g_cold_starts g) svc,
      map_get zero_time (g_last_wake_at g) svc)"

definition ResetWakeStats :: "string \<Rightarrow> ScaleToZeroGuard \<Rightarrow> ScaleToZeroGuard" where
  "ResetWakeStats svc g =
     g\<lparr>g_wake_attempts := (g_wake_attempts g)(svc := None),
       g_last_wake_at := (g_last_wake_at g)(svc := None),
       g_cold_starts := (g_cold_starts g)(svc := None)\<rparr>"

section \<open>The guard as a machine\<close>

datatype guard_call =
    GSleep time time string string string
  | GWake time time string string
  | GHold time string string string ScaleToZeroPolicy
  | GMarkActive time string
  | GReset string

fun guard_step :: "guard_call \<Rightarrow> ScaleToZeroGuard \<Rightarrow> ScaleToZeroGuard" where
  "guard_step (GSleep t1 t2 svc rid mode) g = snd (GuardSleepService t1 t2 svc rid mode g)"
| "guard_step (GWake t1 t2 svc mode) g = snd (GuardWakeService t1 t2 svc mode g)"
| "guard_step (GHold now svc rid cid p) g = snd (HoldIncomingRequest now svc rid cid p g)"
| "guard_step (GMarkActive now svc) g = GuardMarkActive now svc g"
| "guard_step (GReset svc) g = ResetWakeStats svc g"

definition guard_inv :: "ScaleToZeroGuard \<Rightarrow> bool" where
  "guard_inv g \<longleftrightarrow>
     autosleep_inv (g_autosleep g) \<and>
     (\<forall>h. g_gateway_hold g = Some h \<longrightarrow> hold_inv h) \<and>
     0 < g_wake_timeout g \<and> 3 \<le> g_max_cold_starts g \<and>
     (\<forall>svc n. g_wake_attempts g svc = Some n \<longrightarrow> 0 < n \<and> svc \<in> dom (g_last_wake_at g)) \<and>
     (\<forall>svc n. g_cold_starts g svc = Some n \<longrightarrow> 0 < n)"

lemma SleepService_result:
  assumes "SleepService now svc rid m = (r, e, m')"
  shows "case e of
      Some err \<Rightarrow> m' = m \<and> is_asleep m svc
    | None \<Rightarrow> (\<exists>st. r = Some st \<and> as_states m' svc = Some st \<and> ss_status st = StSleeping \<and>
        \<not> is_asleep m svc \<and> (\<forall>k. k \<noteq> svc \<longrightarrow> as_states m' k = as_states m k))"
  using assms
  by (auto simp: SleepService_def is_asleep_def Let_def put_to_sleep_def split: option.splits if_splits)

lemma WakeService_result:
  assumes "WakeService now svc m = (r, e, m')"
  shows "case e of
      Some err \<Rightarrow> m' = m
    | None \<Rightarrow> (\<exists>st. r = Some st \<and> as_states m' svc = Some st \<and> ss_status st = StWaking \<and>
        is_asleep m svc \<and> (\<forall>k. k \<noteq> svc \<longrightarrow> as_states m' k = as_states m k))"
  using assms by (auto simp: WakeService_def is_asleep_def Let_def split: option.splits if_splits)

lemma guard_inv_sleep [inv_step]:
  assumes "guard_inv g"
  shows "guard_inv (snd (GuardSleepService t1 t2 svc rid mode g))"
proof -
  obtain r e a where s: "SleepService t1 svc rid (g_autosleep g) = (r, e, a)"
    by (metis prod_cases3)
  have "autosleep_inv a"
    using autosleep_inv_SleepService [of "g_autosleep g" t1 svc rid] assms s
    by (simp add: guard_inv_def)
  with assms s show ?thesis
    by (auto simp: GuardSleepService_def guard_inv_def intro: inv_step split: option.splits)
qed

lemma guard_inv_wake [inv_step]:
  assumes "guard_inv g"
  shows "guard_inv (snd (GuardWakeService t1 t2 svc mode g))"
proof -
  obtain r e a where s: "WakeService t1 svc (g_autosleep g) = (r, e, a)"
    by (metis prod_cases3)
  have "autosleep_inv a"
    using autosleep_inv_WakeService [of "g_autosleep g" t1 svc] assms s
    by (simp add: guard_inv_def)
  moreover have "0 \<le> map_get 0 (g_wake_attempts g) svc"
    using assms by (cases "g_wake_attempts g svc") (auto simp: guard_inv_def less_imp_le)
  ultimately show ?thesis
    using assms s
    by (auto simp: GuardWakeService_def guard_inv_def split: option.splits)
qed

lemma guard_inv_hold [inv_step]:
  "guard_inv g \<Longrightarrow> guard_inv (snd (HoldIncomingRequest now svc rid cid p g))"
  by (auto simp: HoldIncomingRequest_def guard_inv_def case_prod_beta intro: inv_step
      split: option.splits)

lemma guard_inv_mark [inv_step]:
  assumes "guard_inv g" shows "guard_inv (GuardMarkActive now svc g)"
proof -
  have "0 \<le> map_get 0 (g_cold_starts g) svc"
    using assms by (cases "g_cold_starts g svc") (auto simp: guard_inv_def less_imp_le)
  with assms show ?thesis
    by (auto simp: GuardMarkActive_def guard_inv_def intro: inv_step)
qed

lemma guard_inv_reset [inv_step]: "guard_inv g \<Longrightarrow> guard_inv (ResetWakeStats svc g)"
  by (auto simp: ResetWakeStats_def guard_inv_def)

lemma guard_inv_new [inv_step]:
  "autosleep_inv a \<Longrightarrow> (\<And>m. h = Some m \<Longrightarrow> hold_inv m) \<Longrightarrow> guard_inv (NewScaleToZeroGuard a h wt ct)"
  by (auto simp: NewScaleToZeroGuard_def guard_inv_def Let_def second_def)

lemma guard_step_inv: "guard_inv g \<Longrightarrow> guard_inv (guard_step e g)"
  by (cases e) (auto intro: inv_step)

interpretation guard: machine guard_step "\<lambda>_ _. True" guard_inv
  by unfold_locales (rule guard_step_inv)

definition held_for :: "ScaleToZeroGuard \<Rightarrow> string \<Rightarrow> HeldRequest list" where
  "held_for g svc = (case g_gateway_hold g of None \<Rightarrow> [] | Some h \<Rightarrow> map_get [] (gh_holds h) svc)"

lemma ResumeRequests_none: "map_get [] (gh_holds (snd (ResumeRequests now svc h))) svc = []"
  by (simp add: ResumeRequests_def Let_def case_prod_beta)

lemma ResumeRequests_other:
  "k \<noteq> svc \<Longrightarrow>
   map_get [] (gh_holds (snd (ResumeRequests now svc h))) k = map_get [] (gh_holds h) k"
  by (simp add: ResumeRequests_def Let_def case_prod_beta map_get_def)

section \<open>Properties\<close>

text \<open>
  In distributed-k3s mode the guard never lets a service sleep: \<open>CanSleep\<close> is false,
  and \<open>SleepService\<close> and \<open>WakeService\<close> fail and change nothing, whatever the policy and the state.
\<close>

theorem guard_k3s_refuses:
  "\<not> GuardCanSleep now svc p RuntimeModeDistributedK3s g \<and>
   (\<exists>e. GuardSleepService t1 t2 svc rid RuntimeModeDistributedK3s g = (Fail e, g)) \<and>
   (\<exists>e. GuardWakeService t1 t2 svc RuntimeModeDistributedK3s g = (Fail e, g))"
  by (simp add: GuardCanSleep_def ValidateSleepPolicy_def GuardSleepService_def GuardWakeService_def)

text \<open>
  Outside k3s mode a successful \<open>SleepService\<close> means that the service was awake and is
  now asleep, that none of its requests is held any more, and that no other service's sleep state
  or held requests changed; it fails exactly when the service already sleeps, and then nothing
  changes.
\<close>

theorem guard_sleep_effect:
  assumes "mode \<noteq> RuntimeModeDistributedK3s" and "GuardSleepService t1 t2 svc rid mode g = (r, g')"
  shows "case r of
      Inl e \<Rightarrow> is_asleep (g_autosleep g) svc \<and> g' = g
    | Inr st \<Rightarrow> \<not> is_asleep (g_autosleep g) svc \<and> is_asleep (g_autosleep g') svc \<and>
        as_states (g_autosleep g') svc = Some st \<and> held_for g' svc = [] \<and>
        (\<forall>k. k \<noteq> svc \<longrightarrow> as_states (g_autosleep g') k = as_states (g_autosleep g) k \<and>
                        held_for g' k = held_for g k)"
proof -
  obtain r1 e a where s: "SleepService t1 svc rid (g_autosleep g) = (r1, e, a)"
    by (metis prod_cases3)
  show ?thesis
    using SleepService_result [OF s] assms s
    by (cases e; cases "g_gateway_hold g")
      (auto simp: GuardSleepService_def held_for_def ResumeRequests_none ResumeRequests_other
        is_asleep_def)
qed

definition demo_guard :: ScaleToZeroGuard where
  "demo_guard = NewScaleToZeroGuard (NewAutosleepManager DefaultAutosleepConfig)
     (Some (NewGatewayHoldManager DefaultGatewayHoldConfig)) 0 0"

theorem guard_sleep_effect_witness:
  "is_asleep (g_autosleep (snd (GuardSleepService 1 1 ''web'' ''r1'' RuntimeModeStandalone demo_guard))) ''web''"
proof -
  let ?r = "GuardSleepService 1 1 ''web'' ''r1'' RuntimeModeStandalone demo_guard"
  have "is_ok (fst ?r)"
    by (simp add: GuardSleepService_def SleepService_def demo_guard_def NewScaleToZeroGuard_def
        NewAutosleepManager_def Let_def put_to_sleep_def runtime_modes)
  then obtain st g' where r: "?r = (Ok st, g')" by (metis is_ok_iff prod.collapse)
  have "RuntimeModeStandalone \<noteq> RuntimeModeDistributedK3s" by (simp add: runtime_modes)
  from guard_sleep_effect [OF this r] show ?thesis by (simp add: r)
qed

text \<open>
  The wake timeout of a service is not cleared when the service becomes active. After
  a wake, a \<open>MarkActive\<close> that makes the service active and no further call, \<open>CheckWakeTimeout\<close> still
  reports a timed-out wake, with 0 attempts, as soon as the timeout since the wake has passed.
\<close>

theorem wake_timeout_survives_activation:
  assumes inv: "guard_inv g" and ok: "GuardWakeService t1 t2 svc mode g = (Ok st, g1)"
    and late: "g_wake_timeout g < now - t2" and bound: "g_wake_timeout g < max_duration"
  shows "\<exists>s. as_states (g_autosleep (GuardMarkActive t3 svc g1)) svc = Some s \<and> ss_status s = StActive \<and>
    CheckWakeTimeout now svc (GuardMarkActive t3 svc g1) = (True, 0)"
proof -
  obtain r1 e a where s: "WakeService t1 svc (g_autosleep g) = (r1, e, a)"
    by (metis prod_cases3)
  from ok s have e: "e = None" and k3s: "mode \<noteq> RuntimeModeDistributedK3s"
    by (auto simp: GuardWakeService_def split: if_splits option.splits)
  with WakeService_result [OF s] obtain st' where "as_states a svc = Some st'" "ss_status st' = StWaking"
    by auto
  moreover have "g_wake_timeout g < time_sub now t2"
  proof -
    have "min_duration \<le> g_wake_timeout g"
      using inv by (simp add: guard_inv_def min_duration_def)
    with late bound show ?thesis by (simp add: time_sub_gr_iff)
  qed
  moreover have "g1 = g\<lparr>g_autosleep := a,
      g_wake_attempts := (g_wake_attempts g)(svc \<mapsto> map_get 0 (g_wake_attempts g) svc + 1),
      g_last_wake_at := (g_last_wake_at g)(svc \<mapsto> t2)\<rparr>"
    using ok s e k3s by (simp add: GuardWakeService_def)
  ultimately show ?thesis
    by (simp add: GuardMarkActive_def MarkActive_def Let_def CheckWakeTimeout_def)
qed

definition demo_guard_asleep :: ScaleToZeroGuard where
  "demo_guard_asleep = snd (GuardSleepService 1 1 ''web'' ''r1'' RuntimeModeStandalone demo_guard)"

theorem wake_timeout_survives_activation_witness:
  "fst (CheckWakeTimeout (minute + 5) ''web'' (GuardMarkActive 6 ''web''
     (snd (GuardWakeService 5 5 ''web'' RuntimeModeStandalone demo_guard_asleep))))"
proof -
  have "guard_inv demo_guard_asleep"
    unfolding demo_guard_asleep_def demo_guard_def by (auto intro!: inv_step)
  moreover have wake: "\<exists>st. GuardWakeService 5 5 ''web'' RuntimeModeStandalone demo_guard_asleep =
      (Ok st, snd (GuardWakeService 5 5 ''web'' RuntimeModeStandalone demo_guard_asleep))"
    by (simp add: GuardWakeService_def WakeService_def demo_guard_asleep_def GuardSleepService_def
        SleepService_def demo_guard_def NewScaleToZeroGuard_def NewAutosleepManager_def Let_def
        DefaultAutosleepConfig_def put_to_sleep_def runtime_modes duration_units is_zero_def zero_time_def)
  moreover have "g_wake_timeout demo_guard_asleep = 30 * second"
    by (simp add: demo_guard_asleep_def GuardSleepService_def SleepService_def demo_guard_def
        NewScaleToZeroGuard_def NewAutosleepManager_def Let_def put_to_sleep_def runtime_modes)
  ultimately show ?thesis
    using wake_timeout_survives_activation [of demo_guard_asleep 5 5 "''web''" RuntimeModeStandalone _ _ "minute + 5" 6]
    by (fastforce simp: duration_units max_duration_def)
qed

text \<open>
  The cold-start check only counts activations. It becomes true after more than
  \<open>maxColdStarts\<close> calls of \<open>MarkActive\<close> and then stays true under every call except a reset of the
  same service's statistics, however fast each start was.
\<close>

theorem cold_start_check_sticks:
  assumes "CheckColdStartTimeout svc g" and "e \<noteq> GReset svc"
  shows "CheckColdStartTimeout svc (guard_step e g)"
proof (cases e)
  case (GSleep t1 t2 k rid mode)
  with assms show ?thesis
    by (auto simp: CheckColdStartTimeout_def GuardSleepService_def split: prod.splits option.splits)
next
  case (GWake t1 t2 k mode)
  with assms show ?thesis
    by (auto simp: CheckColdStartTimeout_def GuardWakeService_def split: prod.splits option.splits)
next
  case (GHold now k rid cid p)
  with assms show ?thesis
    by (auto simp: CheckColdStartTimeout_def HoldIncomingRequest_def split: prod.splits option.splits)
next
  case (GMarkActive now k)
  with assms show ?thesis by (auto simp: CheckColdStartTimeout_def GuardMarkActive_def)
next
  case (GReset k)
  with assms show ?thesis by (auto simp: CheckColdStartTimeout_def ResetWakeStats_def)
qed

theorem cold_start_check_sticks_witness:
  "CheckColdStartTimeout ''web'' (guard_step (GMarkActive 9 ''web'')
     (run guard_step [GMarkActive 1 ''web'', GMarkActive 2 ''web'', GMarkActive 3 ''web'',
        GMarkActive 4 ''web''] demo_guard))"
  by (rule cold_start_check_sticks)
    (simp_all add: CheckColdStartTimeout_def GuardMarkActive_def demo_guard_def
      NewScaleToZeroGuard_def Let_def second_def go_quot_def)

end
