(* ===== verification/NetAddr.thy ===== *)
theory NetAddr
  imports Prelude "HOL-Library.Word"
begin

text \<open>
  Bytes and addresses, as the Go library has them: a \<open>byte\<close> is an \<open>8 word\<close>, a \<open>uint16\<close> a \<open>16 word\<close>;
  \<open>byte(x)\<close> of a larger integer keeps its low eight bits. The part of packages \<open>net\<close> and \<open>net/netip\<close>
  that the sources use: \<open>net.ParseIP\<close>, \<open>IP.To4\<close> and \<open>IP.String\<close>.
\<close>

unbundle bit_operations_syntax

type_synonym byte = "8 word"

section \<open>Bytes and strings\<close>

definition bytes_of :: "string \<Rightarrow> byte list" where
  "bytes_of s = map of_char s"

definition string_of :: "byte list \<Rightarrow> string" where
  "string_of bs = map (\<lambda>b. char_of (unat b)) bs"

definition be16 :: "byte \<Rightarrow> byte \<Rightarrow> 16 word" where
  "be16 hi lo = push_bit 8 (ucast hi) OR ucast lo"

definition hi16 :: "16 word \<Rightarrow> byte" where "hi16 w = ucast (drop_bit 8 w)"
definition lo16 :: "16 word \<Rightarrow> byte" where "lo16 w = ucast w"

definition be32 :: "32 word \<Rightarrow> byte list" where
  "be32 w = [ucast (drop_bit 24 w), ucast (drop_bit 16 w), ucast (drop_bit 8 w), ucast w]"

lemma char_byte [simp]: "char_of (unat (of_char c :: byte)) = c"
proof -
  have "unat (of_nat (of_char c) :: byte) = of_char c"
    by (simp add: unsigned_of_nat take_bit_eq_mod)
  then show ?thesis by (simp add: of_nat_of_char)
qed

lemma string_bytes [simp]: "string_of (bytes_of s) = s"
  by (simp add: string_of_def bytes_of_def comp_def)

lemma length_bytes_of [simp]: "length (bytes_of s) = length s"
  by (simp add: bytes_of_def)

lemma be16_halves [simp]: "be16 (hi16 w) (lo16 w) = w"
  unfolding be16_def hi16_def lo16_def
  by (rule bit_word_eqI) (auto simp: bit_simps)

section \<open>Addresses\<close>

text \<open>A decimal field of an IPv4 address: digits without a leading zero, at most 255.\<close>

definition dec_value :: "string \<Rightarrow> nat" where
  "dec_value s = foldl (\<lambda>n c. 10 * n + (of_char c - 48)) 0 s"

definition octet_ok :: "string \<Rightarrow> bool" where
  "octet_ok s \<longleftrightarrow> s \<noteq> [] \<and> (\<forall>c \<in> set s. 48 \<le> (of_char c :: nat) \<and> (of_char c :: nat) \<le> 57) \<and>
     (hd s = CHR ''0'' \<longrightarrow> s = ''0'') \<and> dec_value s \<le> 255"

definition parse_ipv4 :: "string \<Rightarrow> byte list option" where
  "parse_ipv4 s =
     (let fs = split_on (CHR ''.'') s
      in if length fs = 4 \<and> list_all octet_ok fs
         then Some (map (\<lambda>f. of_nat (dec_value f)) fs) else None)"

definition hex_value :: "char \<Rightarrow> nat option" where
  "hex_value c =
     (let n = (of_char c :: nat)
      in if 48 \<le> n \<and> n \<le> 57 then Some (n - 48)
         else if 97 \<le> n \<and> n \<le> 102 then Some (n - 87)
         else if 65 \<le> n \<and> n \<le> 70 then Some (n - 55) else None)"

definition hex_group :: "string \<Rightarrow> 16 word" where
  "hex_group s = of_nat (foldl (\<lambda>n c. 16 * n + (case hex_value c of Some v \<Rightarrow> v | None \<Rightarrow> 0)) 0 s)"

text \<open>
  The groups of an IPv6 address, with the bytes read so far and the place of the ellipsis. The
  result is the bytes and the place, or \<open>None\<close>.
\<close>

function v6_groups :: "string \<Rightarrow> byte list \<Rightarrow> nat option \<Rightarrow> (byte list \<times> nat option) option" where
  "v6_groups s acc ell =
     (if 16 \<le> length acc then (if s = [] then Some (acc, ell) else None)
      else
        let digits = takeWhile (\<lambda>c. hex_value c \<noteq> None) s; rest = drop (length digits) s
        in if digits = [] \<or> 4 < length digits then None
           else if rest \<noteq> [] \<and> hd rest = CHR ''.'' then
             (if (ell = None \<and> length acc \<noteq> 12) \<or> 16 < length acc + 4 then None
              else map_option (\<lambda>v4. (acc @ v4, ell)) (parse_ipv4 s))
           else
             let acc' = acc @ [hi16 (hex_group digits), lo16 (hex_group digits)]
             in if rest = [] then Some (acc', ell)
                else if hd rest \<noteq> CHR '':'' \<or> length rest = 1 then None
                else if hd (tl rest) = CHR '':'' then
                  (if ell \<noteq> None then None
                   else if length rest = 2 then Some (acc', Some (length acc'))
                   else v6_groups (drop 2 rest) acc' (Some (length acc')))
                else v6_groups (tl rest) acc' ell)"
  by pat_completeness auto
termination
  by (relation "measure (\<lambda>(s, acc, ell). length s)") (auto simp: Let_def)

declare v6_groups.simps [simp del]

definition parse_ipv6 :: "string \<Rightarrow> byte list option" where
  "parse_ipv6 s =
     (let start = (if has_prefix s ''::'' then Some (0::nat) else None);
          body = (if has_prefix s ''::'' then drop 2 s else s)
      in if start \<noteq> None \<and> body = [] then Some (replicate 16 0)
         else case v6_groups body [] start of
             None \<Rightarrow> None
           | Some (acc, ell) \<Rightarrow>
               if length acc < 16 then
                 (case ell of
                    None \<Rightarrow> None
                  | Some k \<Rightarrow> Some (take k acc @ replicate (16 - length acc) 0 @ drop k acc))
               else if ell \<noteq> None then None else Some acc)"

text \<open>
  \<open>net.ParseIP\<close>: the sixteen bytes of an address without zone; an IPv4 address is mapped into IPv6.
  \<open>netip.ParseAddr\<close> decides by the first of dot, colon and percent sign.
\<close>

definition v4_prefix :: "byte list" where "v4_prefix = replicate 10 0 @ [0xFF, 0xFF]"

definition parse_ip :: "string \<Rightarrow> byte list option" where
  "parse_ip s =
     (case List.find (\<lambda>c. c \<in> {CHR ''.'', CHR '':'', CHR ''%''}) s of
        None \<Rightarrow> None
      | Some c \<Rightarrow>
          (if c = CHR ''.'' then map_option (\<lambda>v. v4_prefix @ v) (parse_ipv4 s)
           else if c = CHR ''%'' \<or> CHR ''%'' \<in> set s then None
           else parse_ipv6 s))"

definition to4 :: "byte list \<Rightarrow> byte list option" where
  "to4 b = (if take 12 b = v4_prefix then Some (drop 12 b) else None)"

text \<open>\<open>IP.String\<close>: dotted decimals, or hexadecimal groups with the first longest run of zeros as \<open>::\<close>.\<close>

fun hex_of :: "nat \<Rightarrow> string" where
  "hex_of n =
     (if n < 16 then [if n < 10 then char_of (48 + n) else char_of (87 + n)]
      else hex_of (n div 16) @ hex_of (n mod 16))"

declare hex_of.simps [simp del]

fun groups_of :: "byte list \<Rightarrow> nat list" where
  "groups_of (hi # lo # bs) = unat (be16 hi lo) # groups_of bs"
| "groups_of bs = []"

definition zeros_from :: "nat list \<Rightarrow> nat \<Rightarrow> nat" where
  "zeros_from gs i = length (takeWhile (\<lambda>g. g = 0) (drop i gs))"

fun longest_zeros :: "nat list \<Rightarrow> nat list \<Rightarrow> nat \<times> nat \<Rightarrow> nat \<times> nat" where
  "longest_zeros gs [] best = best"
| "longest_zeros gs (i # is) (start, len) =
     longest_zeros gs is
       (if 2 \<le> zeros_from gs i \<and> len < zeros_from gs i then (i, zeros_from gs i) else (start, len))"

definition ip_string :: "byte list \<Rightarrow> string" where
  "ip_string b =
     (case to4 b of
        Some v \<Rightarrow> join ''.'' (map (\<lambda>x. digits_of (unat x)) v)
      | None \<Rightarrow>
          (let gs = groups_of b; (start, len) = longest_zeros gs [0..<8] (0, 0)
           in if len = 0 then join '':'' (map hex_of gs)
              else join '':'' (map hex_of (take start gs)) @ ''::'' @
                   join '':'' (map hex_of (drop (start + len) gs))))"

lemma length_v4_prefix [simp]: "length v4_prefix = 12"
  by (simp add: v4_prefix_def)

lemma length_v6:
  "v6_groups s acc ell = Some (b, e) \<Longrightarrow> even (length acc) \<Longrightarrow> length acc \<le> 16 \<Longrightarrow> length b \<le> 16"
proof (induction s acc ell rule: v6_groups.induct)
  case (1 s acc ell)
  let ?digits = "takeWhile (\<lambda>c. hex_value c \<noteq> None) s"
  let ?rest = "drop (length ?digits) s"
  let ?acc = "acc @ [hi16 (hex_group ?digits), lo16 (hex_group ?digits)]"
  show ?case
  proof (cases "16 \<le> length acc")
    case True
    with 1(3-5) show ?thesis by (subst (asm) v6_groups.simps) (auto split: if_splits)
  next
    case False
    then have acc: "length ?acc \<le> 16" "even (length ?acc)" using 1(4,5) by (auto elim!: evenE)
    note run = 1(3) [unfolded v6_groups.simps [of s acc ell] Let_def]
    consider (v4) v4 where "b = acc @ v4" "length v4 = 4" "length acc + 4 \<le> 16"
      | (stop) "b = ?acc" | (ell) "v6_groups (drop 2 ?rest) ?acc (Some (length ?acc)) = Some (b, e)"
        "\<not> 16 \<le> length acc" "\<not> (?digits = [] \<or> 4 < length ?digits)" "\<not> (?rest \<noteq> [] \<and> hd ?rest = CHR ''.'')"
        "?rest \<noteq> []" "\<not> (hd ?rest \<noteq> CHR '':'' \<or> length ?rest = 1)" "hd (tl ?rest) = CHR '':''" "\<not> ell \<noteq> None"
        "length ?rest \<noteq> 2"
      | (group) "v6_groups (tl ?rest) ?acc ell = Some (b, e)"
        "\<not> 16 \<le> length acc" "\<not> (?digits = [] \<or> 4 < length ?digits)" "\<not> (?rest \<noteq> [] \<and> hd ?rest = CHR ''.'')"
        "?rest \<noteq> []" "\<not> (hd ?rest \<noteq> CHR '':'' \<or> length ?rest = 1)" "hd (tl ?rest) \<noteq> CHR '':''"
      using run False by (fastforce simp: parse_ipv4_def Let_def split: if_splits)
    then show ?thesis
    proof cases
      case ell
      show ?thesis by (rule 1(1) [OF _ refl refl _ _ refl]) (use ell acc in simp_all)
    next
      case group
      show ?thesis by (rule 1(2) [OF _ refl refl _ _ refl]) (use group acc in simp_all)
    qed (use acc in simp_all)
  qed
qed

lemma length_parse_ipv6: "parse_ipv6 s = Some b \<Longrightarrow> length b = 16"
  by (auto simp: parse_ipv6_def Let_def split: if_splits option.splits prod.splits dest!: length_v6)

lemma length_parse_ip: "parse_ip s = Some b \<Longrightarrow> length b = 16"
  by (auto simp: parse_ip_def parse_ipv4_def Let_def split: option.splits if_splits dest!: length_parse_ipv6)

lemma length_to4: "parse_ip s = Some b \<Longrightarrow> to4 b = Some v \<Longrightarrow> length v = 4"
  by (auto simp: to4_def split: if_splits dest!: length_parse_ip)

end
