(* ===== verification/DnsWire.thy ===== *)
theory DnsWire
  imports NetAddr
begin

text \<open>
  The wire format of the agent's DNS server, the second half of
  \<open>agent/internal/runtime/dns_server.go\<close>: reading the question of a query, writing the questions and
  answers of a response. A Go \<open>byte\<close> is an \<open>8 word\<close>, \<open>[]byte\<close> a list of them, a \<open>uint16\<close> a
  \<open>16 word\<close>; \<open>byte(x)\<close> of a larger integer keeps its low eight bits. \<open>net.ParseIP(ip).To4()\<close> is
  modelled by the parsers of package \<open>net/netip\<close>.
\<close>

section \<open>Questions\<close>

type_synonym RecordType = "16 word"

definition RecordTypeA :: RecordType where "RecordTypeA = 1"
definition RecordTypeAAAA :: RecordType where "RecordTypeAAAA = 28"
definition RecordTypeSRV :: RecordType where "RecordTypeSRV = 33"

text \<open>
  The loop of \<open>parseQuestionName\<close> on the bytes from its offset on: the name read and the bytes after
  it; \<open>None\<close> if a label is longer than what is left. The loop also ends where the data does.
\<close>

function parse_labels :: "byte list \<Rightarrow> bool \<Rightarrow> string \<Rightarrow> (string \<times> byte list) option" where
  "parse_labels [] first name = Some (name, [])"
| "parse_labels (b # rest) first name =
     (if b = 0 then Some (name, rest)
      else if length rest < unat b then None
      else parse_labels (drop (unat b) rest) False
        ((if first then name else name @ ''.'') @ string_of (take (unat b) rest)))"
  by pat_completeness auto
termination
  by (relation "measure (\<lambda>(bs, first, name). length bs)") auto

definition parseQuestionName :: "byte list \<Rightarrow> nat \<Rightarrow> string \<times> 16 word \<times> nat" where
  "parseQuestionName data offset =
     (case parse_labels (drop offset data) True [] of
        None \<Rightarrow> ([], 0, 0)
      | Some (name, rest) \<Rightarrow>
          (if length rest < 4 then ([], 0, 0)
           else (name, be16 (rest ! 0) (rest ! 1), length (drop offset data) - length rest + 4)))"

definition encode_label :: "string \<Rightarrow> byte list" where
  "encode_label l = of_nat (length l) # bytes_of l"

definition appendQuestion :: "byte list \<Rightarrow> string \<Rightarrow> RecordType \<Rightarrow> byte list" where
  "appendQuestion b name qtype =
     b @ concat (map encode_label (split_on (CHR ''.'') name)) @ [0, hi16 qtype, lo16 qtype, 0, 1]"

section \<open>Responses\<close>

definition parseIPBytes :: "string \<Rightarrow> byte list" where
  "parseIPBytes ip =
     (case parse_ip ip of
        None \<Rightarrow> [127, 0, 0, 1]
      | Some parsed \<Rightarrow> (case to4 parsed of None \<Rightarrow> [127, 0, 0, 1] | Some ipv4 \<Rightarrow> ipv4))"


definition response_header :: "byte list \<Rightarrow> byte list" where
  "response_header txID = txID @ [0x81, 0x80, 0, 1, 0, 1, 0, 0, 0, 0]"

definition buildARecordResponse :: "byte list \<Rightarrow> string \<Rightarrow> string \<Rightarrow> 32 word \<Rightarrow> byte list" where
  "buildARecordResponse txID name ip ttl =
     appendQuestion (response_header txID) name RecordTypeA
       @ [0xC0, 0x0C, 0, 1, 0, 1] @ be32 ttl @ [0, 4] @ parseIPBytes ip"

definition buildSRVRecordResponse :: "byte list \<Rightarrow> string \<Rightarrow> string \<Rightarrow> int \<Rightarrow> 32 word \<Rightarrow> byte list" where
  "buildSRVRecordResponse txID name ip port ttl =
     appendQuestion (response_header txID) name RecordTypeSRV
       @ [0xC0, 0x0C, 0, 0x21, 0, 1] @ be32 ttl @ [0, 7, 0, 0, 0, 0]
       @ [word_of_int (port div 256), word_of_int port, 0]"

definition buildNXDOMAIN :: "byte list \<Rightarrow> byte list" where
  "buildNXDOMAIN txID = txID @ [0x81, 0x83, 0, 1, 0, 0, 0, 0, 0, 0]"

section \<open>Reading back what was written\<close>

definition wire_name :: "string \<Rightarrow> bool" where
  "wire_name name \<longleftrightarrow> (\<forall>l \<in> set (split_on (CHR ''.'') name). l \<noteq> [] \<and> length l < 256)"

lemma unat_label: "length l < 256 \<Longrightarrow> unat (of_nat (length l) :: byte) = length l"
  by (simp add: unsigned_of_nat take_bit_eq_mod)

lemma label_nonzero: "l \<noteq> [] \<Longrightarrow> length l < 256 \<Longrightarrow> (of_nat (length l) :: byte) \<noteq> 0"
  by (metis length_0_conv unat_label unat_0)

lemma parse_label:
  assumes "l \<noteq> []" and "length l < 256"
  shows "parse_labels (encode_label l @ bs) first name =
    parse_labels bs False ((if first then name else name @ ''.'') @ l)"
  using assms by (simp add: encode_label_def label_nonzero unat_label)

lemma parse_encoded_rest:
  assumes "\<forall>l \<in> set ls. l \<noteq> [] \<and> length l < 256"
  shows "parse_labels (concat (map encode_label ls) @ 0 # rest) False name =
    Some (name @ concat (map (\<lambda>l. ''.'' @ l) ls), rest)"
  using assms by (induction ls arbitrary: name) (simp_all add: parse_label)

lemma join_Cons_concat: "join sep (x # xs) = x @ concat (map (\<lambda>y. sep @ y) xs)"
  by (induction xs arbitrary: x) simp_all

lemma join_split: "join [c] (split_on c s) = s"
proof (induction s)
  case (Cons x s)
  obtain w ws where "split_on c s = w # ws" by (cases "split_on c s") auto
  with Cons show ?case by (simp add: join_Cons_concat)
qed simp

lemma parse_encoded:
  assumes "wire_name name"
  shows "parse_labels (concat (map encode_label (split_on (CHR ''.'') name)) @ 0 # rest) True [] = Some (name, rest)"
proof -
  obtain l ls where ls: "split_on (CHR ''.'') name = l # ls" by (cases "split_on (CHR ''.'') name") auto
  then have ok: "l \<noteq> []" "length l < 256" "\<forall>l \<in> set ls. l \<noteq> [] \<and> length l < 256"
    using assms by (auto simp: wire_name_def)
  have "name = l @ concat (map (\<lambda>y. ''.'' @ y) ls)"
    using join_split [of "CHR ''.''" name] by (simp add: ls join_Cons_concat)
  with ok show ?thesis unfolding ls by (simp add: parse_label parse_encoded_rest)
qed

lemma parse_labels_suffix:
  "parse_labels bs first name = Some (n, rest) \<Longrightarrow> \<exists>pre. bs = pre @ rest"
proof (induction bs first name rule: parse_labels.induct)
  case (2 b rest' first name)
  then show ?case
    by (auto split: if_splits) (metis append_take_drop_id append_Cons append_assoc)+
qed simp

lemma length_parseIPBytes [simp]: "length (parseIPBytes ip) = 4"
  by (auto simp: parseIPBytes_def length_to4 split: option.splits)

lemma parse_labels_length:
  "parse_labels bs first name = Some (nm, rest) \<Longrightarrow> rest \<noteq> [] \<Longrightarrow> first \<longrightarrow> name = [] \<Longrightarrow>
   length name \<le> length nm \<and>
   length bs = length rest + 1 + (length nm - length name) + (if first \<and> nm \<noteq> [] then 1 else 0)"
proof (induction bs first name rule: parse_labels.induct)
  case (2 b tl first name)
  show ?case
  proof (cases "b = 0")
    case True
    with 2 show ?thesis by auto
  next
    case False
    then have u: "0 < unat b" by (simp add: unat_gt_0)
    have le: "unat b \<le> length tl" using 2(2) False by (auto split: if_splits)
    let ?name = "(if first then name else name @ ''.'') @ string_of (take (unat b) tl)"
    have run: "parse_labels (drop (unat b) tl) False ?name = Some (nm, rest)"
      using 2(2) False le by simp
    have len: "length (string_of (take (unat b) tl)) = unat b" using le by (simp add: string_of_def)
    from 2(1) [OF False _ run 2(3)] le len u 2(4) show ?thesis
      by (cases first) auto
  qed
qed auto

lemma parse_appended:
  assumes "wire_name name"
  shows "parseQuestionName (appendQuestion b name qtype @ post) (length b) =
    (name, qtype, length (appendQuestion [] name qtype))"
proof -
  have "drop (length b) (appendQuestion b name qtype @ post) =
      concat (map encode_label (split_on (CHR ''.'') name)) @ 0 # ([hi16 qtype, lo16 qtype, 0, 1] @ post)"
    by (simp add: appendQuestion_def)
  then show ?thesis
    using parse_encoded [OF assms, of "[hi16 qtype, lo16 qtype, 0, 1] @ post"]
    by (simp add: parseQuestionName_def appendQuestion_def)
qed

text \<open>
  Property C17: a question read back. Whatever precedes and follows it, \<open>parseQuestionName\<close> reads from a
  question written by \<open>appendQuestion\<close> its name and type and consumes exactly its bytes, if every
  label of the name has 1 to 255 characters.
\<close>

theorem dns_question_roundtrip:
  assumes "wire_name name"
  shows "parseQuestionName (appendQuestion b name qtype @ post) (length b) =
    (name, qtype, length (appendQuestion [] name qtype))"
  by (rule parse_appended [OF assms])

theorem dns_question_roundtrip_witness:
  "parseQuestionName (appendQuestion [1, 2, 3] ''web.shop.lazyops.internal'' RecordTypeSRV @ [9]) 3 =
    (''web.shop.lazyops.internal'', RecordTypeSRV, 31)"
proof -
  have "wire_name ''web.shop.lazyops.internal''" by (simp add: wire_name_def)
  moreover have "length (appendQuestion [] ''web.shop.lazyops.internal'' RecordTypeSRV) = 31"
    by (simp add: appendQuestion_def encode_label_def)
  moreover have "length [1 :: byte, 2, 3] = 3" by simp
  ultimately show ?thesis
    using dns_question_roundtrip [of _ "[1, 2, 3]" RecordTypeSRV "[9]"] by metis
qed

text \<open>
  Property C18: the parser stays inside the packet. Reading any bytes at any offset inside the data,
  \<open>parseQuestionName\<close> either gives up with an empty name or consumes bytes of the data only, and
  for a non-empty name exactly six more than the name has characters.
\<close>

theorem dns_parse_bounds:
  assumes "parseQuestionName data offset = (name, qtype, n)" and "offset \<le> length data"
  shows "offset + n \<le> length data \<and> (name \<noteq> [] \<longrightarrow> n = length name + 6) \<and> (n = 0 \<longrightarrow> name = [])"
proof (cases "parse_labels (drop offset data) True []")
  case None
  with assms show ?thesis by (simp add: parseQuestionName_def)
next
  case (Some r)
  obtain nm rest where r: "r = (nm, rest)" by (cases r)
  show ?thesis
  proof (cases "length rest < 4")
    case True
    with assms Some r show ?thesis by (simp add: parseQuestionName_def)
  next
    case False
    then have "rest \<noteq> []" by auto
    with parse_labels_length [OF Some [unfolded r]] False Some r assms show ?thesis
      by (auto simp: parseQuestionName_def)
  qed
qed

theorem dns_parse_bounds_witness:
  "\<exists>name qtype n. parseQuestionName (appendQuestion [1, 2, 3] ''db'' RecordTypeA) 3 = (name, qtype, n) \<and> 3 + n \<le> 11"
proof -
  obtain name qtype n where run: "parseQuestionName (appendQuestion [1, 2, 3] ''db'' RecordTypeA) 3 = (name, qtype, n)"
    by (cases "parseQuestionName (appendQuestion [1, 2, 3] ''db'' RecordTypeA) 3") auto
  have len: "length (appendQuestion [1, 2, 3] ''db'' RecordTypeA) = 11"
    by (simp add: appendQuestion_def encode_label_def)
  from dns_parse_bounds [OF run] run show ?thesis by (simp add: len)
qed

end
