(* ===== verification/DnsServer.thy ===== *)
theory DnsServer
  imports DnsWire
begin

text \<open>
  The agent's DNS server, \<open>agent/internal/runtime/dns_server.go\<close>: the table of names, registering and
  unregistering services, starting and stopping, and the answer to one query. The result of resolving
  the listen address and of \<open>net.ListenUDP\<close> is an argument of \<open>StartDNS\<close>; \<open>close\<close> of a closed
  channel panics, which is \<open>None\<close>. \<open>serve\<close>, which reads a socket and calls \<open>handleDNSQuery\<close>, is not
  modelled. \<open>lookupPort\<close> walks a Go map, whose order is an argument.
\<close>

section \<open>State\<close>

definition DefaultDomain :: string where "DefaultDomain = ''lazyops.internal''"
definition DefaultListenAddr :: string where "DefaultListenAddr = ''127.0.0.1:5353''"

record DNSRecord =
  dr_name :: string
  dr_type :: RecordType
  dr_value :: string
  dr_ttl :: duration
  dr_created_at :: time

record ServiceRecord =
  sr_service :: string
  sr_project :: string
  sr_host :: string
  sr_port :: int
  sr_protocol :: string
  sr_health :: string

record DNSServer =
  ds_listen_addr :: string
  ds_records :: "string \<rightharpoonup> DNSRecord"
  ds_services :: "string \<rightharpoonup> ServiceRecord"
  ds_domain :: string
  ds_started :: bool
  ds_listening :: bool
  ds_done_closed :: bool

definition NewDNSServer :: "string \<Rightarrow> DNSServer" where
  "NewDNSServer listenAddr =
     \<lparr> ds_listen_addr = (if listenAddr = [] then DefaultListenAddr else listenAddr),
       ds_records = Map.empty, ds_services = Map.empty, ds_domain = DefaultDomain,
       ds_started = False, ds_listening = False, ds_done_closed = False \<rparr>"

section \<open>Operations\<close>

definition serviceKey :: "string \<Rightarrow> string \<Rightarrow> string" where
  "serviceKey serviceName projectID = serviceName @ ''.'' @ projectID"

definition full_host :: "DNSServer \<Rightarrow> string \<Rightarrow> string \<Rightarrow> string" where
  "full_host d serviceName projectID = serviceName @ ''.'' @ projectID @ ''.'' @ ds_domain d"

definition short_host :: "DNSServer \<Rightarrow> string \<Rightarrow> string" where
  "short_host d serviceName = serviceName @ ''.'' @ ds_domain d"

definition host_record :: "string \<Rightarrow> string \<Rightarrow> time \<Rightarrow> DNSRecord" where
  "host_record hostname host now =
     \<lparr> dr_name = hostname, dr_type = RecordTypeA, dr_value = host, dr_ttl = 30 * second,
       dr_created_at = now \<rparr>"

definition RegisterService :: "ServiceRecord \<Rightarrow> time \<Rightarrow> DNSServer \<Rightarrow> DNSServer" where
  "RegisterService sv now d =
     (let full = full_host d (sr_service sv) (sr_project sv); short = short_host d (sr_service sv)
      in d\<lparr> ds_services := (ds_services d)(serviceKey (sr_service sv) (sr_project sv) \<mapsto> sv),
            ds_records := (ds_records d)(full \<mapsto> host_record full (sr_host sv) now,
              short \<mapsto> host_record short (sr_host sv) now) \<rparr>)"

definition UnregisterService :: "string \<Rightarrow> string \<Rightarrow> DNSServer \<Rightarrow> DNSServer" where
  "UnregisterService serviceName projectID d =
     d\<lparr> ds_services := (ds_services d)(serviceKey serviceName projectID := None),
        ds_records := (ds_records d)(full_host d serviceName projectID := None,
          short_host d serviceName := None) \<rparr>"

definition trim_dot :: "string \<Rightarrow> string" where
  "trim_dot s = (if s \<noteq> [] \<and> last s = CHR ''.'' then butlast s else s)"

definition Lookup :: "DNSServer \<Rightarrow> string \<Rightarrow> string option" where
  "Lookup d name = map_option dr_value (ds_records d (to_lower (trim_dot name)))"

definition ListServices :: "DNSServer \<Rightarrow> string list \<Rightarrow> ServiceRecord list" where
  "ListServices d order = List.map_filter (ds_services d) order"

definition StartDNS :: "unit res \<Rightarrow> unit res \<Rightarrow> DNSServer \<Rightarrow> unit res \<times> DNSServer" where
  "StartDNS resolved bound d =
     (if ds_started d then (Fail (Errorf ''DNS server already started''), d)
      else
        let d1 = d\<lparr> ds_started := True \<rparr>
        in case resolved of
            Inl e \<Rightarrow> (Fail (Wrapped ''failed to resolve DNS address'' e), d1)
          | Inr _ \<Rightarrow>
             (case bound of
                Inl e \<Rightarrow> (Fail (Wrapped ''failed to start DNS server'' e), d1\<lparr> ds_listening := False \<rparr>)
              | Inr _ \<Rightarrow> (Ok (), d1\<lparr> ds_listening := True \<rparr>)))"

definition StopDNS :: "DNSServer \<Rightarrow> DNSServer option" where
  "StopDNS d =
     (if \<not> ds_started d then Some d
      else if ds_done_closed d then None
      else Some (d\<lparr> ds_done_closed := True, ds_listening := False, ds_started := False \<rparr>))"

fun first_port :: "DNSServer \<Rightarrow> string \<Rightarrow> ServiceRecord list \<Rightarrow> int" where
  "first_port d qname [] = 0"
| "first_port d qname (sv # svs) =
     (if qname = full_host d (sr_service sv) (sr_project sv) \<or> qname = short_host d (sr_service sv)
      then sr_port sv else first_port d qname svs)"

definition lookupPort :: "DNSServer \<Rightarrow> string list \<Rightarrow> string \<Rightarrow> int" where
  "lookupPort d order qname = first_port d qname (ListServices d order)"

definition handleDNSQuery :: "DNSServer \<Rightarrow> string list \<Rightarrow> byte list \<Rightarrow> byte list option" where
  "handleDNSQuery d order data =
     (if length data < 12 then None
      else
        let txID = take 2 data; questionCount = be16 (data ! 4) (data ! 5)
        in if questionCount = 0 then None
           else
             let (qname, queryType, n) = parseQuestionName data 12
             in if qname = [] then None
                else case Lookup d qname of
                    None \<Rightarrow> Some (buildNXDOMAIN txID)
                  | Some ip \<Rightarrow>
                     (if queryType = RecordTypeA then Some (buildARecordResponse txID qname ip 30)
                      else if queryType = RecordTypeSRV then
                        (let port = lookupPort d order qname
                         in Some (buildSRVRecordResponse txID qname ip (if port = 0 then 80 else port) 30))
                      else Some (buildNXDOMAIN txID)))"

section \<open>The server as a machine\<close>

datatype dns_call =
    DRegister ServiceRecord time
  | DUnregister string string
  | DStart "unit res" "unit res"
  | DStop

fun dns_step :: "dns_call \<Rightarrow> DNSServer \<Rightarrow> DNSServer" where
  "dns_step (DRegister sv now) d = RegisterService sv now d"
| "dns_step (DUnregister s p) d = UnregisterService s p d"
| "dns_step (DStart r b) d = snd (StartDNS r b d)"
| "dns_step DStop d = (case StopDNS d of None \<Rightarrow> d | Some d' \<Rightarrow> d')"

text \<open>A plain label is what a host name's label is: no dots, no capitals.\<close>

definition plain_label :: "string \<Rightarrow> bool" where
  "plain_label s \<longleftrightarrow> CHR ''.'' \<notin> set s \<and> to_lower s = s"

text \<open>The calls considered: plain names, and no panicking stop.\<close>

fun dns_call_ok :: "DNSServer \<Rightarrow> dns_call \<Rightarrow> bool" where
  "dns_call_ok d (DRegister sv now) = (plain_label (sr_service sv) \<and> plain_label (sr_project sv))"
| "dns_call_ok d (DUnregister s p) = (plain_label s \<and> plain_label p)"
| "dns_call_ok d (DStart r b) = True"
| "dns_call_ok d DStop = (StopDNS d \<noteq> None)"

text \<open>What the server promises: a directory of the services of each project.\<close>

type_synonym directory = "string \<times> string \<rightharpoonup> string"

fun dir_step :: "dns_call \<Rightarrow> directory \<Rightarrow> directory" where
  "dir_step (DRegister sv now) m = m((sr_service sv, sr_project sv) \<mapsto> sr_host sv)"
| "dir_step (DUnregister s p) m = m((s, p) := None)"
| "dir_step (DStart r b) m = m"
| "dir_step DStop m = m"

definition directory_of :: "DNSServer \<Rightarrow> directory" where
  "directory_of d = (\<lambda>(s, p).
     if plain_label s \<and> plain_label p then map_option dr_value (ds_records d (full_host d s p)) else None)"

text \<open>
  The services and the full names are the same: each service is filed under its own key, and its full
  name has a record with its host.
\<close>

definition filed :: "DNSServer \<Rightarrow> string \<Rightarrow> string \<Rightarrow> bool" where
  "filed d s p \<longleftrightarrow>
     (case ds_services d (serviceKey s p) of
        None \<Rightarrow> ds_records d (full_host d s p) = None
      | Some sv \<Rightarrow> sr_service sv = s \<and> sr_project sv = p \<and>
          map_option dr_value (ds_records d (full_host d s p)) = Some (sr_host sv))"

definition dns_inv :: "DNSServer \<Rightarrow> bool" where
  "dns_inv d \<longleftrightarrow> ds_domain d = DefaultDomain \<and>
     (\<forall>s p. plain_label s \<longrightarrow> plain_label p \<longrightarrow> filed d s p)"

lemma host_simps [simp]:
  "full_host (d\<lparr>ds_services := x\<rparr>) = full_host d" "full_host (d\<lparr>ds_records := y\<rparr>) = full_host d"
  "full_host (d\<lparr>ds_started := b\<rparr>) = full_host d" "full_host (d\<lparr>ds_listening := b\<rparr>) = full_host d"
  "full_host (d\<lparr>ds_done_closed := b\<rparr>) = full_host d"
  by (simp_all add: full_host_def fun_eq_iff)

lemma dot_split:
  "CHR ''.'' \<notin> set s \<Longrightarrow> CHR ''.'' \<notin> set t \<Longrightarrow>
   s @ CHR ''.'' # x = t @ CHR ''.'' # y \<longleftrightarrow> s = t \<and> x = y"
proof (induction s arbitrary: t)
  case Nil
  then show ?case by (cases t) auto
next
  case (Cons c s)
  then show ?case by (cases t) auto
qed

lemma full_host_inj [simp]:
  "plain_label s \<Longrightarrow> plain_label p \<Longrightarrow> plain_label t \<Longrightarrow> plain_label q \<Longrightarrow>
   full_host d s p = full_host d t q \<longleftrightarrow> s = t \<and> p = q"
  by (simp add: full_host_def plain_label_def dot_split)

lemma serviceKey_inj [simp]:
  "plain_label s \<Longrightarrow> plain_label t \<Longrightarrow> serviceKey s p = serviceKey t q \<longleftrightarrow> s = t \<and> p = q"
  by (simp add: serviceKey_def plain_label_def dot_split)

lemma full_not_short [simp]:
  assumes "plain_label s" "plain_label p" "plain_label t" "ds_domain d = DefaultDomain"
  shows "full_host d s p \<noteq> short_host d t"
proof
  assume "full_host d s p = short_host d t"
  with assms(1,3) have "p @ CHR ''.'' # DefaultDomain = DefaultDomain"
    by (simp add: full_host_def short_host_def plain_label_def dot_split assms(4))
  from arg_cong [OF this, of length] show False by simp
qed

lemma domain_step [simp]: "ds_domain (dns_step e d) = ds_domain d"
  by (cases e) (auto simp: RegisterService_def UnregisterService_def StartDNS_def StopDNS_def Let_def
      split: option.splits sum.splits)

lemma full_host_step [simp]: "full_host (dns_step e d) = full_host d"
  by (simp add: full_host_def fun_eq_iff)

text \<open>The two tables after a call.\<close>

lemma records_step:
  assumes "ds_domain d = DefaultDomain" and "dns_call_ok d e" and "plain_label s" and "plain_label p"
  shows "ds_records (dns_step e d) (full_host d s p) =
    (case e of
       DRegister sv now \<Rightarrow>
         if (s, p) = (sr_service sv, sr_project sv) then Some (host_record (full_host d s p) (sr_host sv) now)
         else ds_records d (full_host d s p)
     | DUnregister t q \<Rightarrow> if (s, p) = (t, q) then None else ds_records d (full_host d s p)
     | _ \<Rightarrow> ds_records d (full_host d s p))"
  using assms
  by (cases e) (auto simp: RegisterService_def UnregisterService_def StartDNS_def StopDNS_def Let_def
      split: option.splits sum.splits)

lemma services_step:
  assumes "dns_call_ok d e" and "plain_label s" and "plain_label p"
  shows "ds_services (dns_step e d) (serviceKey s p) =
    (case e of
       DRegister sv now \<Rightarrow>
         if (s, p) = (sr_service sv, sr_project sv) then Some sv else ds_services d (serviceKey s p)
     | DUnregister t q \<Rightarrow> if (s, p) = (t, q) then None else ds_services d (serviceKey s p)
     | _ \<Rightarrow> ds_services d (serviceKey s p))"
  using assms
  by (cases e) (auto simp: RegisterService_def UnregisterService_def StartDNS_def StopDNS_def Let_def
      split: option.splits sum.splits)

lemma filed_step:
  assumes "ds_domain d = DefaultDomain" "dns_call_ok d e" "plain_label s" "plain_label p" "filed d s p"
  shows "filed (dns_step e d) s p"
  using assms
  by (cases e) (auto simp: filed_def records_step services_step host_record_def
      simp del: dns_step.simps split: option.splits)

lemma directory_step:
  assumes "ds_domain d = DefaultDomain" and "dns_call_ok d e"
  shows "directory_of (dns_step e d) = dir_step e (directory_of d)"
proof
  fix k :: "string \<times> string"
  obtain s p where k: "k = (s, p)" by (cases k)
  show "directory_of (dns_step e d) k = dir_step e (directory_of d) k"
    using assms(2)
    by (cases e) (auto simp: k directory_of_def records_step [OF assms(1)] host_record_def
        simp del: dns_step.simps)
qed

interpretation dns: refinement dns_step dns_call_ok dns_inv directory_of dir_step
  by unfold_locales (auto intro: filed_step directory_step simp: dns_inv_def)

section \<open>Names and look-ups\<close>

lemma trim_dot_snoc [simp]: "trim_dot (s @ ''.'') = s"
  by (simp add: trim_dot_def)

lemma domain_end: "DefaultDomain = ''lazyops.interna'' @ ''l''"
  by (simp add: DefaultDomain_def)

lemma to_lower_append [simp]: "to_lower (s @ t) = to_lower s @ to_lower t"
  by (simp add: to_lower_def)

lemma to_lower_domain [simp]: "to_lower DefaultDomain = DefaultDomain"
  by (simp add: DefaultDomain_def to_lower_def lower_char_def)

lemma to_lower_dot [simp]: "to_lower (CHR ''.'' # s) = CHR ''.'' # to_lower s"
  by (simp add: to_lower_def lower_char_def)

lemma host_name_normal [simp]:
  "to_lower s = s \<Longrightarrow> to_lower (trim_dot (s @ CHR ''.'' # DefaultDomain)) = s @ CHR ''.'' # DefaultDomain"
  by (simp add: trim_dot_def) (simp add: domain_end)

lemma full_host_normal:
  assumes "plain_label s" "plain_label p" "ds_domain d = DefaultDomain"
  shows "to_lower (trim_dot (full_host d s p)) = full_host d s p"
  using host_name_normal [of "s @ ''.'' @ p"] assms by (simp add: full_host_def plain_label_def)

lemma Lookup_full:
  assumes "plain_label s" "plain_label p" "ds_domain d = DefaultDomain"
  shows "Lookup d (full_host d s p) = directory_of d (s, p)"
    and "Lookup d (full_host d s p @ ''.'') = directory_of d (s, p)"
proof -
  have "to_lower (full_host d s p) = full_host d s p"
    using assms by (simp add: full_host_def plain_label_def)
  then show "Lookup d (full_host d s p) = directory_of d (s, p)"
    and "Lookup d (full_host d s p @ ''.'') = directory_of d (s, p)"
    using assms by (simp_all add: Lookup_def full_host_normal directory_of_def)
qed

lemma dns_inv_new: "dns_inv (NewDNSServer addr)"
  by (simp add: dns_inv_def filed_def NewDNSServer_def)

lemma directory_new: "directory_of (NewDNSServer addr) = Map.empty"
  by (simp add: directory_of_def NewDNSServer_def fun_eq_iff)

lemma dns_domain_run [simp]: "ds_domain (run dns_step es d) = ds_domain d"
  by (induction es arbitrary: d) simp_all

lemma dns_domain_new [simp]: "ds_domain (NewDNSServer addr) = DefaultDomain"
  by (simp add: NewDNSServer_def)

lemma dns_run_directory:
  "calls_ok dns_call_ok dns_step es (NewDNSServer addr) \<Longrightarrow>
   directory_of (run dns_step es (NewDNSServer addr)) = run dir_step es Map.empty"
  using dns.abs_run [OF dns_inv_new] by (simp add: directory_new)

lemma Lookup_directory:
  assumes "calls_ok dns_call_ok dns_step es (NewDNSServer addr)"
    and "plain_label s" and "plain_label p"
  shows "Lookup (run dns_step es (NewDNSServer addr)) (s @ ''.'' @ p @ ''.lazyops.internal'') =
      run dir_step es Map.empty (s, p)"
    and "Lookup (run dns_step es (NewDNSServer addr)) (s @ ''.'' @ p @ ''.lazyops.internal.'') =
      run dir_step es Map.empty (s, p)"
  using Lookup_full [OF assms(2,3), of "run dns_step es (NewDNSServer addr)"]
  by (simp_all add: dns_run_directory [OF assms(1)] full_host_def DefaultDomain_def)

text \<open>
  Property C16: the server implements a directory. After any calls with plain names, looking up the
  full host name of a service, with or without a final dot, gives what a directory from service and
  project to host holds after the same calls.
\<close>

theorem dns_directory:
  assumes "calls_ok dns_call_ok dns_step es (NewDNSServer addr)"
    and "plain_label s" and "plain_label p"
  shows "Lookup (run dns_step es (NewDNSServer addr)) (s @ ''.'' @ p @ ''.lazyops.internal'') =
      run dir_step es Map.empty (s, p) \<and>
    Lookup (run dns_step es (NewDNSServer addr)) (s @ ''.'' @ p @ ''.lazyops.internal.'') =
      run dir_step es Map.empty (s, p)"
  using Lookup_directory [OF assms] by simp

definition demo_service :: "string \<Rightarrow> string \<Rightarrow> string \<Rightarrow> ServiceRecord" where
  "demo_service s p host =
     \<lparr> sr_service = s, sr_project = p, sr_host = host, sr_port = 8080, sr_protocol = ''http'',
       sr_health = ''/health'' \<rparr>"

definition demo_calls :: "dns_call list" where
  "demo_calls =
     [DStart (Ok ()) (Ok ()), DRegister (demo_service ''web'' ''shop'' ''10.0.0.5'') 1,
      DRegister (demo_service ''db'' ''shop'' ''10.0.0.6'') 2, DUnregister ''db'' ''shop'', DStop]"

lemma demo_calls_ok: "calls_ok dns_call_ok dns_step demo_calls (NewDNSServer [])"
  by (simp add: demo_calls_def demo_service_def plain_label_def to_lower_def lower_char_def
      NewDNSServer_def StartDNS_def StopDNS_def RegisterService_def UnregisterService_def Let_def)

lemma demo_plain [simp]:
  "plain_label ''web''" "plain_label ''shop''" "plain_label ''db''" "plain_label ''blog''"
  by (simp_all add: plain_label_def to_lower_def lower_char_def)

lemma demo_directory: "run dir_step demo_calls Map.empty (''web'', ''shop'') = Some ''10.0.0.5''"
  by (simp add: demo_calls_def demo_service_def)

theorem dns_directory_witness:
  "Lookup (run dns_step demo_calls (NewDNSServer [])) ''web.shop.lazyops.internal.'' = Some ''10.0.0.5''"
  using dns_directory [OF demo_calls_ok, of "''web''" "''shop''"] by (simp add: demo_directory)

section \<open>Answers\<close>

definition wire_label :: "string \<Rightarrow> bool" where
  "wire_label s \<longleftrightarrow> plain_label s \<and> s \<noteq> [] \<and> length s < 256"

definition host_name :: "string \<Rightarrow> string \<Rightarrow> string" where
  "host_name s p = s @ ''.'' @ p @ ''.lazyops.internal''"

lemma host_name_wire:
  assumes "wire_label s" and "wire_label p"
  shows "wire_name (host_name s p)"
proof -
  have "split_on (CHR ''.'') (join ''.'' [s, p, ''lazyops'', ''internal'']) = [s, p, ''lazyops'', ''internal'']"
    using assms by (intro split_on_join) (auto simp: wire_label_def plain_label_def)
  then show ?thesis using assms by (simp add: wire_name_def host_name_def wire_label_def)
qed

lemma host_name_ne [simp]: "host_name s p \<noteq> []"
  by (simp add: host_name_def)

text \<open>
  Registered services are answered. If after any calls with plain names the directory
  gives a service of a project the host \<open>ip\<close>, a query of at least one question whose first question
  asks for its address gets a response with the identifier of the query, no error, the question
  repeated at its place, and the four bytes of that host at the end.
\<close>

theorem dns_answers_registered:
  assumes "calls_ok dns_call_ok dns_step es (NewDNSServer addr)"
    and "run dir_step es Map.empty (s, p) = Some ip" and "wire_label s" and "wire_label p"
    and "length hdr = 12" and "be16 (hdr ! 4) (hdr ! 5) \<noteq> 0"
  shows "\<exists>resp. handleDNSQuery (run dns_step es (NewDNSServer addr)) order
        (appendQuestion hdr (host_name s p) RecordTypeA @ post) = Some resp \<and>
      take 4 resp = take 2 hdr @ [0x81, 0x80] \<and>
      (\<exists>n. parseQuestionName resp 12 = (host_name s p, RecordTypeA, n)) \<and>
      drop (length resp - 4) resp = parseIPBytes ip"
proof -
  let ?d = "run dns_step es (NewDNSServer addr)" and ?q = "appendQuestion hdr (host_name s p) RecordTypeA @ post"
  let ?resp = "buildARecordResponse (take 2 hdr) (host_name s p) ip 30"
  note wire = host_name_wire [OF assms(3,4)]
  have "Lookup ?d (host_name s p) = Some ip"
    using Lookup_directory(1) [OF assms(1), of s p] assms(2-4) by (simp add: host_name_def wire_label_def)
  moreover have "take 2 ?q = take 2 hdr" "?q ! 4 = hdr ! 4" "?q ! 5 = hdr ! 5" "\<not> length ?q < 12"
    using assms(5) by (simp_all add: appendQuestion_def nth_append)
  moreover have "\<exists>n. parseQuestionName ?q 12 = (host_name s p, RecordTypeA, n)"
    using parse_appended [OF wire, of hdr RecordTypeA post] assms(5) by simp
  ultimately have "handleDNSQuery ?d order ?q = Some ?resp"
    using assms(6) by (auto simp: handleDNSQuery_def Let_def)
  moreover have "length (response_header (take 2 hdr)) = 12"
    using assms(5) by (simp add: response_header_def)
  then have "\<exists>n. parseQuestionName ?resp 12 = (host_name s p, RecordTypeA, n)"
    using parse_appended [OF wire, of "response_header (take 2 hdr)" RecordTypeA]
    by (simp add: buildARecordResponse_def)
  moreover have "take 4 ?resp = take 2 hdr @ [0x81, 0x80]"
    using assms(5) by (simp add: buildARecordResponse_def appendQuestion_def response_header_def)
  moreover have "drop (length ?resp - 4) ?resp = parseIPBytes ip"
    by (simp add: buildARecordResponse_def be32_def)
  ultimately show ?thesis by blast
qed

theorem dns_answers_registered_witness:
  "\<exists>resp. handleDNSQuery (run dns_step demo_calls (NewDNSServer [])) []
      (appendQuestion [0xAB, 0xCD, 1, 0, 0, 1, 0, 0, 0, 0, 0, 0] (host_name ''web'' ''shop'') RecordTypeA @ []) = Some resp \<and>
    take 4 resp = [0xAB, 0xCD, 0x81, 0x80] \<and> drop (length resp - 4) resp = [10, 0, 0, 5]"
proof -
  have "parseIPBytes ''10.0.0.5'' = [10, 0, 0, 5]" by code_simp
  moreover have "wire_label ''web''" "wire_label ''shop''" by (simp_all add: wire_label_def)
  moreover have "be16 ([0xAB, 0xCD, 1, 0, 0, 1, 0, 0, 0, 0, 0, 0] ! 4) ([0xAB, 0xCD, 1, 0, 0, 1, 0, 0, 0, 0, 0, 0] ! 5) \<noteq> 0"
    by (simp add: be16_def)
  ultimately show ?thesis
    using dns_answers_registered [OF demo_calls_ok demo_directory, of "[0xAB, 0xCD, 1, 0, 0, 1, 0, 0, 0, 0, 0, 0]" "[]" "[]"]
    by auto
qed

text \<open>
  Unregistering a service takes the short name of its namesakes. When two projects have a
  service of the same name and the one of project \<open>q\<close> is unregistered, the service of project \<open>p\<close>
  keeps its full name, but nobody has the short name any more.
\<close>

theorem short_name_dropped:
  assumes "calls_ok dns_call_ok dns_step es (NewDNSServer addr)"
    and "run dir_step es Map.empty (s, p) = Some ip" and "plain_label s" "plain_label p" "plain_label q" and "p \<noteq> q"
  shows "Lookup (UnregisterService s q (run dns_step es (NewDNSServer addr))) (host_name s p) = Some ip \<and>
    Lookup (UnregisterService s q (run dns_step es (NewDNSServer addr))) (s @ ''.lazyops.internal'') = None"
proof
  let ?d = "run dns_step es (NewDNSServer addr)"
  have "ds_records (UnregisterService s q ?d) (full_host ?d s p) = ds_records ?d (full_host ?d s p)"
    using records_step [of ?d "DUnregister s q" s p] assms(3-6) by simp
  moreover have "directory_of ?d (s, p) = Some ip" using dns_run_directory [OF assms(1)] assms(2) by simp
  moreover have "full_host (UnregisterService s q ?d) s p = full_host ?d s p"
    by (simp add: UnregisterService_def)
  ultimately have "directory_of (UnregisterService s q ?d) (s, p) = Some ip"
    using assms(3,4) by (simp add: directory_of_def)
  moreover have "ds_domain (UnregisterService s q ?d) = DefaultDomain" by (simp add: UnregisterService_def)
  ultimately show "Lookup (UnregisterService s q ?d) (host_name s p) = Some ip"
    using Lookup_full(1) [of s p "UnregisterService s q ?d"] assms(3,4)
    by (simp add: full_host_def host_name_def DefaultDomain_def)
  have "to_lower (trim_dot (s @ ''.lazyops.internal'')) = s @ ''.lazyops.internal''"
    using host_name_normal [of s] assms(3) by (simp add: plain_label_def DefaultDomain_def)
  then show "Lookup (UnregisterService s q ?d) (s @ ''.lazyops.internal'') = None"
    by (simp add: Lookup_def UnregisterService_def short_host_def DefaultDomain_def)
qed

theorem short_name_dropped_witness:
  "Lookup (UnregisterService ''web'' ''blog'' (run dns_step demo_calls (NewDNSServer []))) ''web.lazyops.internal'' = None"
  using short_name_dropped [OF demo_calls_ok demo_directory, of "''blog''"] by simp

text \<open>
  A restarted server panics. Whatever the listener does, after start, stop and start
  again the next stop closes the channel \<open>done\<close> a second time; a server that was started once stops
  cleanly.
\<close>

lemma restart_panics:
  assumes "\<not> ds_started d" and "\<not> ds_done_closed d"
  shows "\<exists>d1. StopDNS (snd (StartDNS r b d)) = Some d1 \<and> StopDNS (snd (StartDNS r' b' d1)) = None"
  using assms by (auto simp: StopDNS_def StartDNS_def Let_def split: sum.splits)

end
