(* ===== verification/LogCollector.thy ===== *)
theory LogCollector
  imports Prelude "HOL-Library.Multiset"
begin

text \<open>
  The agent's log collector, \<open>agent/internal/runtime/log_collector.go\<close>: log lines are buffered per
  source and routing labels, collected in batches when they are old or numerous, and reported to the
  backend of the project they belong to. Each reading of the clock is an argument, and so are the
  sorting algorithm of \<open>sort.Slice\<close> (which need not be stable), the order in which a \<open>range\<close> visits
  the batches, the sender, and \<open>PersistLogBatch\<close>, which writes a file. Loggers are not modelled.
\<close>

section \<open>Data\<close>

record LogEntry =
  le_timestamp :: time
  le_severity :: string
  le_source :: string
  le_message :: string
  le_excerpt :: string
  le_labels :: "string \<rightharpoonup> string"

record LogBatchPayload =
  lb_project :: string
  lb_binding :: string
  lb_revision :: string
  lb_service :: string
  lb_entries :: "LogEntry list"
  lb_collected_at :: time

record LogCollectorConfig =
  MaxEntriesPerBatch :: int
  ReportingInterval :: duration
  MaxBufferAge :: duration
  MaxBufferSize :: int
  ExcerptMaxLength :: int
  CooldownDuration :: duration

record logBufferEntry =
  be_entry :: LogEntry
  be_ingested :: time

type_synonym cooldownKey = "string \<times> string \<times> string"

record LogCollector =
  lc_cfg :: LogCollectorConfig
  lc_buffers :: "string \<rightharpoonup> logBufferEntry list"
  lc_cooldowns :: "cooldownKey \<rightharpoonup> time"
  lc_total :: nat
  lc_forwarded :: nat
  lc_dropped :: nat

record LogPattern =
  lp_severity :: string
  lp_bytes :: string

record ReportLogBatchPayload =
  rp_project :: string
  rp_binding :: string
  rp_revision :: string
  rp_service :: string
  rp_runtime_mode :: string
  rp_workspace_root :: string
  rp_sender :: "(LogBatchPayload \<Rightarrow> unit res) option"

record logBufferMeta =
  bm_project :: string
  bm_binding :: string
  bm_revision :: string
  bm_service :: string
  bm_source :: string

definition positive_or :: "int \<Rightarrow> int \<Rightarrow> int" where
  "positive_or v dflt = (if v \<le> 0 then dflt else v)"

definition DefaultLogCollectorConfig :: LogCollectorConfig where
  "DefaultLogCollectorConfig =
     \<lparr> MaxEntriesPerBatch = 100, ReportingInterval = 5 * second, MaxBufferAge = 5 * minute,
       MaxBufferSize = 500, ExcerptMaxLength = 512, CooldownDuration = 60 * second \<rparr>"

definition NewLogCollector :: "LogCollectorConfig \<Rightarrow> LogCollector" where
  "NewLogCollector cfg =
     \<lparr> lc_cfg =
         \<lparr> MaxEntriesPerBatch = positive_or (MaxEntriesPerBatch cfg) 100,
           ReportingInterval = positive_or (ReportingInterval cfg) (5 * second),
           MaxBufferAge = positive_or (MaxBufferAge cfg) (5 * minute),
           MaxBufferSize = positive_or (MaxBufferSize cfg) 500,
           ExcerptMaxLength = positive_or (ExcerptMaxLength cfg) 512,
           CooldownDuration = positive_or (CooldownDuration cfg) (60 * second) \<rparr>,
       lc_buffers = Map.empty, lc_cooldowns = Map.empty, lc_total = 0, lc_forwarded = 0,
       lc_dropped = 0 \<rparr>"

section \<open>Buffer keys\<close>

definition logBufferKeySeparator :: char where "logBufferKeySeparator = CHR 0x1F"

definition logLabel :: "(string \<rightharpoonup> string) \<Rightarrow> string \<Rightarrow> string" where
  "logLabel labels key = map_get [] labels key"

definition buildLogBufferKey :: "LogEntry \<Rightarrow> string" where
  "buildLogBufferKey entry =
     (let source0 = trim_space (le_source entry);
          source = (if source0 = [] then trim_space (logLabel (le_labels entry) ''source'') else source0)
      in if source = [] then []
         else
           let projectID = trim_space (logLabel (le_labels entry) ''project_id'');
               bindingID = trim_space (logLabel (le_labels entry) ''binding_id'');
               revisionID = trim_space (logLabel (le_labels entry) ''revision_id'');
               serviceName = first_non_empty
                 [trim_space (logLabel (le_labels entry) ''service''),
                  trim_space (logLabel (le_labels entry) ''service_name'')]
           in if projectID = [] \<and> bindingID = [] \<and> revisionID = [] \<and> serviceName = [] then source
              else join [logBufferKeySeparator] [projectID, bindingID, revisionID, serviceName, source])"

definition parseLogBufferKey :: "string \<Rightarrow> logBufferMeta" where
  "parseLogBufferKey bufferKey =
     (let parts = split_on logBufferKeySeparator bufferKey
      in if length parts \<noteq> 5 then
           \<lparr> bm_project = [], bm_binding = [], bm_revision = [], bm_service = [],
             bm_source = trim_space bufferKey \<rparr>
         else
           \<lparr> bm_project = trim_space (parts ! 0), bm_binding = trim_space (parts ! 1),
             bm_revision = trim_space (parts ! 2), bm_service = trim_space (parts ! 3),
             bm_source = trim_space (parts ! 4) \<rparr>)"

section \<open>Ingesting\<close>

text \<open>
  \<open>c.now()\<close> is read when a cooldown is checked (\<open>t1\<close>), when an entry is filed (\<open>t2\<close>), and when the
  cooldown starts (\<open>t3\<close>).
\<close>

definition Ingest :: "LogEntry \<Rightarrow> time \<Rightarrow> time \<Rightarrow> time \<Rightarrow> LogCollector \<Rightarrow> LogCollector" where
  "Ingest entry t1 t2 t3 c0 =
     (let c = c0\<lparr> lc_total := lc_total c0 + 1 \<rparr>; bufferKey = buildLogBufferKey entry
      in if bufferKey = [] then c\<lparr> lc_dropped := lc_dropped c + 1 \<rparr>
         else if MaxBufferSize (lc_cfg c) \<le> int (length (map_get [] (lc_buffers c) bufferKey)) then
           c\<lparr> lc_dropped := lc_dropped c + 1 \<rparr>
         else
           let key = (bufferKey, le_severity entry, le_message entry)
           in if (case lc_cooldowns c key of None \<Rightarrow> False
                  | Some started \<Rightarrow> time_sub t1 started < CooldownDuration (lc_cfg c)) then c
              else c\<lparr> lc_buffers := (lc_buffers c)(bufferKey \<mapsto>
                        map_get [] (lc_buffers c) bufferKey @ [\<lparr> be_entry = entry, be_ingested = t2 \<rparr>]),
                      lc_cooldowns := (lc_cooldowns c)(key \<mapsto> t3) \<rparr>)"

definition IngestLine ::
  "string \<Rightarrow> string \<Rightarrow> string \<Rightarrow> time \<Rightarrow> time \<Rightarrow> time \<Rightarrow> time \<Rightarrow> LogCollector \<Rightarrow> LogCollector" where
  "IngestLine source line severity t0 t1 t2 t3 c =
     (if line = [] then c
      else Ingest
        \<lparr> le_timestamp = t0, le_severity = severity, le_source = source, le_message = line,
          le_excerpt = (if ExcerptMaxLength (lc_cfg c) < int (length line)
                        then take (nat (ExcerptMaxLength (lc_cfg c))) line else line),
          le_labels = Map.empty \<rparr> t1 t2 t3 c)"

fun classifySeverity :: "string \<Rightarrow> LogPattern list \<Rightarrow> string" where
  "classifySeverity line [] = []"
| "classifySeverity line (p # ps) =
     (if str_contains (to_lower line) (to_lower (lp_bytes p)) then lp_severity p
      else classifySeverity line ps)"

definition ScanLine ::
  "string \<Rightarrow> string \<Rightarrow> LogPattern list \<Rightarrow> time \<Rightarrow> time \<Rightarrow> time \<Rightarrow> time \<Rightarrow> LogCollector \<Rightarrow> LogCollector" where
  "ScanLine source line patterns t0 t1 t2 t3 c =
     (if line = [] \<or> patterns = [] then c
      else
        let severity = classifySeverity line patterns
        in if severity = [] then c else IngestLine source line severity t0 t1 t2 t3 c)"

definition DetectLogPatterns :: "string \<Rightarrow> LogPattern list" where
  "DetectLogPatterns txt =
     (let has = str_contains (to_lower txt)
      in (if has ''error'' \<or> has ''err:'' \<or> has ''failed''
          then [\<lparr> lp_severity = ''critical'', lp_bytes = ''error'' \<rparr>] else []) @
         (if has ''warn'' \<or> has ''warning''
          then [\<lparr> lp_severity = ''warning'', lp_bytes = ''warn'' \<rparr>] else []) @
         (if has ''info'' \<or> has ''started'' \<or> has ''listening''
          then [\<lparr> lp_severity = ''info'', lp_bytes = ''info'' \<rparr>] else []))"

section \<open>Collecting and reporting\<close>

definition batch_ready :: "LogCollectorConfig \<Rightarrow> time \<Rightarrow> logBufferEntry list \<Rightarrow> bool" where
  "batch_ready cfg now entries \<longleftrightarrow> entries \<noteq> [] \<and>
     (let age = time_sub now (be_ingested (hd entries))
      in ReportingInterval cfg \<le> age \<or> MaxBufferAge cfg \<le> age \<or>
         MaxEntriesPerBatch cfg \<le> int (length entries))"

type_synonym slice_sort = "LogEntry list \<Rightarrow> LogEntry list"

text \<open>
  Each ready buffer leaves the collector and becomes a batch; the iterations of the two loops of
  \<open>CollectExpiredBatches\<close> do not depend on one another, so the result is given by source.
\<close>

definition CollectExpiredBatches ::
  "time \<Rightarrow> slice_sort \<Rightarrow> LogCollector \<Rightarrow> (string \<rightharpoonup> LogEntry list) \<times> LogCollector" where
  "CollectExpiredBatches now srt c =
     ((\<lambda>source. case lc_buffers c source of
         None \<Rightarrow> None
       | Some entries \<Rightarrow>
           if batch_ready (lc_cfg c) now entries then Some (srt (map be_entry entries)) else None),
      c\<lparr> lc_buffers := (\<lambda>source. case lc_buffers c source of
           None \<Rightarrow> None
         | Some entries \<Rightarrow> if batch_ready (lc_cfg c) now entries then None else Some entries) \<rparr>)"

definition BuildLogBatch ::
  "string \<Rightarrow> string \<Rightarrow> string \<Rightarrow> LogEntry list \<Rightarrow> time \<Rightarrow> LogBatchPayload" where
  "BuildLogBatch projectID bindingID revisionID entries now =
     \<lparr> lb_project = projectID, lb_binding = bindingID, lb_revision = revisionID,
       lb_service = (case entries of [] \<Rightarrow> []
         | e # es \<Rightarrow> first_non_empty
             [logLabel (le_labels e) ''service'', logLabel (le_labels e) ''service_name'']),
       lb_entries = entries, lb_collected_at = now \<rparr>"

definition BuildLogBatchForBufferKey ::
  "string \<Rightarrow> ReportLogBatchPayload \<Rightarrow> LogEntry list \<Rightarrow> time \<Rightarrow> LogBatchPayload" where
  "BuildLogBatchForBufferKey bufferKey fallback entries now =
     (let meta = parseLogBufferKey bufferKey
      in \<lparr> lb_project = first_non_empty [bm_project meta, trim_space (rp_project fallback)],
           lb_binding = first_non_empty [bm_binding meta, trim_space (rp_binding fallback)],
           lb_revision = first_non_empty [bm_revision meta, trim_space (rp_revision fallback)],
           lb_service = first_non_empty [bm_service meta, trim_space (rp_service fallback)],
           lb_entries = entries, lb_collected_at = now \<rparr>)"

text \<open>
  \<open>PersistLogBatch\<close> gets the workspace root, the project, the binding and the source. The loop of
  \<open>HandleReportLogBatch\<close> yields the number of reported batches, the batches handed to the sender
  (whether or not it took them) and the collector.
\<close>

type_synonym persister = "string \<Rightarrow> string \<Rightarrow> string \<Rightarrow> string \<Rightarrow> LogBatchPayload \<Rightarrow> string res"

fun report_loop ::
  "(string \<Rightarrow> time) \<Rightarrow> persister \<Rightarrow> ReportLogBatchPayload \<Rightarrow> (string \<rightharpoonup> LogEntry list) \<Rightarrow> string list
   \<Rightarrow> nat \<times> LogBatchPayload list \<times> LogCollector \<Rightarrow> nat \<times> LogBatchPayload list \<times> LogCollector" where
  "report_loop clock persist payload batches [] st = st"
| "report_loop clock persist payload batches (bufferKey # ks) (reported, sent, c) =
     report_loop clock persist payload batches ks
       (let entries = map_get [] batches bufferKey;
            meta = parseLogBufferKey bufferKey;
            batch = BuildLogBatchForBufferKey bufferKey payload entries (clock bufferKey)
        in if trim_space (lb_project batch) = [] \<or> trim_space (lb_binding batch) = [] then (reported, sent, c)
           else
             let (taken, sent') = (case rp_sender payload of None \<Rightarrow> (True, sent)
                   | Some send \<Rightarrow> (is_ok (send batch), sent @ [batch]));
                 workspaceRoot = (if rp_workspace_root payload = [] then ''/var/lib/lazyops''
                   else rp_workspace_root payload)
             in if \<not> taken then (reported, sent', c)
                else case persist workspaceRoot (lb_project batch) (lb_binding batch)
                       (first_non_empty [bm_source meta, lb_service batch, ''logs'']) batch of
                    Inl e \<Rightarrow> (reported, sent', c)
                  | Inr logPath \<Rightarrow>
                      (reported + 1, sent', c\<lparr> lc_forwarded := lc_forwarded c + length entries \<rparr>))"

definition HandleReportLogBatch ::
  "time \<Rightarrow> (string \<Rightarrow> time) \<Rightarrow> slice_sort \<Rightarrow> persister \<Rightarrow> string list \<Rightarrow> ReportLogBatchPayload
   \<Rightarrow> LogCollector \<Rightarrow> nat \<times> LogBatchPayload list \<times> LogCollector" where
  "HandleReportLogBatch now clock srt persist order payload c =
     (let (batches, c') = CollectExpiredBatches now srt c
      in report_loop clock persist payload batches order (0, [], c'))"

definition LogStats :: "string list \<Rightarrow> LogCollector \<Rightarrow> nat \<times> nat \<times> nat \<times> nat" where
  "LogStats order c = (lc_total c, lc_forwarded c, lc_dropped c, length order)"

section \<open>Keys and routing labels\<close>

text \<open>The routing labels of an entry, as a batch should carry them.\<close>

definition entry_meta :: "LogEntry \<Rightarrow> logBufferMeta" where
  "entry_meta e =
     \<lparr> bm_project = trim_space (logLabel (le_labels e) ''project_id''),
       bm_binding = trim_space (logLabel (le_labels e) ''binding_id''),
       bm_revision = trim_space (logLabel (le_labels e) ''revision_id''),
       bm_service = first_non_empty
         [logLabel (le_labels e) ''service'', logLabel (le_labels e) ''service_name''],
       bm_source = first_non_empty [le_source e, logLabel (le_labels e) ''source''] \<rparr>"

text \<open>No field that goes into the key contains the separator.\<close>

definition separator_free :: "LogEntry \<Rightarrow> bool" where
  "separator_free e \<longleftrightarrow> logBufferKeySeparator \<notin> set (le_source e) \<and>
     (\<forall>l \<in> {''project_id'', ''binding_id'', ''revision_id'', ''service'', ''service_name'', ''source''}.
        logBufferKeySeparator \<notin> set (logLabel (le_labels e) l))"

lemma set_trim_space: "set (trim_space s) \<subseteq> set s"
  by (auto simp: trim_space_def trim_left_def trim_right_def dest!: set_dropWhileD)

lemma notin_trim_space: "x \<notin> set s \<Longrightarrow> x \<notin> set (trim_space s)"
  using set_trim_space by blast

lemma notin_first_non_empty:
  "\<forall>v \<in> set vs. x \<notin> set v \<Longrightarrow> x \<notin> set (first_non_empty vs)"
  by (induction vs) (auto simp: notin_trim_space)

lemma split_on_single: "c \<notin> set s \<Longrightarrow> split_on c s = [s]"
  by (induction s) auto

lemma first_non_empty_trims: "first_non_empty [trim_space a, trim_space b] = first_non_empty [a, b]"
  by simp

lemma entry_meta_trimmed [simp]:
  "trim_space (bm_project (entry_meta e)) = bm_project (entry_meta e)"
  "trim_space (bm_binding (entry_meta e)) = bm_binding (entry_meta e)"
  "trim_space (bm_revision (entry_meta e)) = bm_revision (entry_meta e)"
  "trim_space (bm_service (entry_meta e)) = bm_service (entry_meta e)"
  "trim_space (bm_source (entry_meta e)) = bm_source (entry_meta e)"
  by (simp_all add: entry_meta_def del: first_non_empty.simps)

lemma buildLogBufferKey_meta:
  "buildLogBufferKey e =
     (let m = entry_meta e
      in if bm_source m = [] then []
         else if bm_project m = [] \<and> bm_binding m = [] \<and> bm_revision m = [] \<and> bm_service m = []
         then bm_source m
         else join [logBufferKeySeparator]
           [bm_project m, bm_binding m, bm_revision m, bm_service m, bm_source m])"
  by (simp add: buildLogBufferKey_def entry_meta_def Let_def)

lemma separator_free_meta:
  assumes "separator_free e"
  shows "logBufferKeySeparator \<notin> set (bm_project (entry_meta e))"
    "logBufferKeySeparator \<notin> set (bm_binding (entry_meta e))"
    "logBufferKeySeparator \<notin> set (bm_revision (entry_meta e))"
    "logBufferKeySeparator \<notin> set (bm_service (entry_meta e))"
    "logBufferKeySeparator \<notin> set (bm_source (entry_meta e))"
  using assms
  by (simp_all add: separator_free_def entry_meta_def notin_trim_space notin_first_non_empty
      del: first_non_empty.simps)

lemma key_parsed:
  assumes "separator_free e" and "bm_source (entry_meta e) \<noteq> []"
  shows "parseLogBufferKey (buildLogBufferKey e) = entry_meta e"
proof -
  let ?m = "entry_meta e"
  note free = separator_free_meta [OF assms(1)]
  show ?thesis
  proof (cases "bm_project ?m = [] \<and> bm_binding ?m = [] \<and> bm_revision ?m = [] \<and> bm_service ?m = []")
    case True
    then have key: "buildLogBufferKey e = bm_source ?m"
      using assms(2) by (simp add: buildLogBufferKey_meta Let_def)
    have "split_on logBufferKeySeparator (bm_source ?m) = [bm_source ?m]"
      by (simp add: split_on_single free)
    with True show ?thesis
      by (intro logBufferMeta.equality) (simp_all add: key parseLogBufferKey_def Let_def)
  next
    case False
    let ?fs = "[bm_project ?m, bm_binding ?m, bm_revision ?m, bm_service ?m, bm_source ?m]"
    have "split_on logBufferKeySeparator (join [logBufferKeySeparator] ?fs) = ?fs"
      using free by (intro split_on_join) auto
    moreover have "buildLogBufferKey e = join [logBufferKeySeparator] ?fs"
      using False assms(2) by (auto simp: buildLogBufferKey_meta Let_def)
    ultimately have parts: "split_on logBufferKeySeparator (buildLogBufferKey e) = ?fs" by simp
    show ?thesis unfolding parseLogBufferKey_def parts by (simp add: Let_def)
  qed
qed

lemma key_Nil_iff: "buildLogBufferKey e = [] \<longleftrightarrow> bm_source (entry_meta e) = []"
  by (auto simp: buildLogBufferKey_meta Let_def)

text \<open>
  A buffer key keeps the routing labels. If no label of an entry with a source contains
  the separator, parsing the key of its buffer gives back its trimmed project, binding, revision,
  service and source.
\<close>

theorem log_key_roundtrip:
  assumes "separator_free e" and "buildLogBufferKey e \<noteq> []"
  shows "parseLogBufferKey (buildLogBufferKey e) = entry_meta e"
  using key_parsed assms by (simp add: key_Nil_iff)

definition demo_entry :: LogEntry where
  "demo_entry =
     \<lparr> le_timestamp = 7, le_severity = ''warning'', le_source = ''stdout'', le_message = ''slow query'',
       le_excerpt = ''slow query'',
       le_labels = [''project_id'' \<mapsto> '' prj_1'', ''binding_id'' \<mapsto> ''bind_1'', ''service'' \<mapsto> ''db''] \<rparr>"

lemma demo_entry_free: "separator_free demo_entry"
  by (simp add: separator_free_def demo_entry_def logLabel_def map_get_def logBufferKeySeparator_def)

lemma demo_entry_meta: "entry_meta demo_entry =
  \<lparr> bm_project = ''prj_1'', bm_binding = ''bind_1'', bm_revision = [], bm_service = ''db'', bm_source = ''stdout'' \<rparr>"
  by (simp add: entry_meta_def demo_entry_def logLabel_def map_get_def trim_space_def trim_left_def
      trim_right_def is_space_def)

theorem log_key_roundtrip_witness:
  "bm_project (parseLogBufferKey (buildLogBufferKey demo_entry)) = ''prj_1''"
  using log_key_roundtrip [OF demo_entry_free] by (simp add: demo_entry_meta key_Nil_iff)

section \<open>The collector as a machine\<close>

datatype log_call =
    LIngest LogEntry time time time
  | LLine string string string time time time time
  | LScan string string "LogPattern list" time time time time
  | LReport time "string \<Rightarrow> time" slice_sort persister "string list" ReportLogBatchPayload

fun log_step :: "log_call \<Rightarrow> LogCollector \<Rightarrow> LogCollector" where
  "log_step (LIngest e t1 t2 t3) c = Ingest e t1 t2 t3 c"
| "log_step (LLine source line sev t0 t1 t2 t3) c = IngestLine source line sev t0 t1 t2 t3 c"
| "log_step (LScan source line ps t0 t1 t2 t3) c = ScanLine source line ps t0 t1 t2 t3 c"
| "log_step (LReport now clock srt persist order payload) c =
     snd (snd (HandleReportLogBatch now clock srt persist order payload c))"

text \<open>What \<open>sort.Slice\<close> with this comparison may do: any arrangement in the order of the time stamps.\<close>

definition sorts :: "slice_sort \<Rightarrow> bool" where
  "sorts srt \<longleftrightarrow> (\<forall>es. mset (srt es) = mset es \<and> sorted (map le_timestamp (srt es)))"

fun log_call_ok :: "LogCollector \<Rightarrow> log_call \<Rightarrow> bool" where
  "log_call_ok c (LReport now clock srt persist order payload) =
     (sorts srt \<and> range_order (fst (CollectExpiredBatches now srt c)) order)"
| "log_call_ok c call = True"

definition buffer_ok :: "LogCollector \<Rightarrow> string \<Rightarrow> logBufferEntry list \<Rightarrow> bool" where
  "buffer_ok c k es \<longleftrightarrow> k \<noteq> [] \<and> es \<noteq> [] \<and> int (length es) \<le> MaxBufferSize (lc_cfg c) \<and>
     (\<forall>x \<in> set es. buildLogBufferKey (be_entry x) = k)"

definition log_inv :: "LogCollector \<Rightarrow> bool" where
  "log_inv c \<longleftrightarrow> 0 < MaxBufferSize (lc_cfg c) \<and> finite (dom (lc_buffers c)) \<and>
     (\<forall>k es. lc_buffers c k = Some es \<longrightarrow> buffer_ok c k es) \<and>
     lc_dropped c + lc_forwarded c + held_count (lc_buffers c) \<le> lc_total c"

lemma log_inv_new: "log_inv (NewLogCollector cfg)"
  by (simp add: log_inv_def NewLogCollector_def positive_or_def)

text \<open>An entry is dropped, suppressed by a cooldown, or filed in its buffer.\<close>

lemma Ingest_cases:
  obtains (dropped) "Ingest e t1 t2 t3 c = c\<lparr> lc_total := lc_total c + 1, lc_dropped := lc_dropped c + 1 \<rparr>"
    | (suppressed) "Ingest e t1 t2 t3 c = c\<lparr> lc_total := lc_total c + 1 \<rparr>"
    | (filed) cool where
      "Ingest e t1 t2 t3 c = c\<lparr> lc_total := lc_total c + 1,
         lc_buffers := (lc_buffers c)(buildLogBufferKey e \<mapsto>
           map_get [] (lc_buffers c) (buildLogBufferKey e) @ [\<lparr> be_entry = e, be_ingested = t2 \<rparr>]),
         lc_cooldowns := cool \<rparr>"
      "buildLogBufferKey e \<noteq> []"
      "int (length (map_get [] (lc_buffers c) (buildLogBufferKey e))) < MaxBufferSize (lc_cfg c)"
proof -
  let ?k = "buildLogBufferKey e"
  show thesis
  proof (cases "?k = [] \<or> MaxBufferSize (lc_cfg c) \<le> int (length (map_get [] (lc_buffers c) ?k))")
    case True
    then show thesis by (intro dropped) (auto simp: Ingest_def Let_def)
  next
    case room: False
    show thesis
    proof (cases "case lc_cooldowns c (?k, le_severity e, le_message e) of None \<Rightarrow> False
        | Some started \<Rightarrow> time_sub t1 started < CooldownDuration (lc_cfg c)")
      case True
      with room show thesis by (intro suppressed) (auto simp: Ingest_def Let_def split: option.splits)
    next
      case False
      with room show thesis by (intro filed) (auto simp: Ingest_def Let_def split: option.splits)
    qed
  qed
qed

lemma log_inv_Ingest [inv_step]:
  assumes "log_inv c"
  shows "log_inv (Ingest e t1 t2 t3 c)"
proof (cases rule: Ingest_cases [of e t1 t2 t3 c])
  case (filed cool)
  have "\<forall>y \<in> set (map_get [] (lc_buffers c) (buildLogBufferKey e)).
      buildLogBufferKey (be_entry y) = buildLogBufferKey e"
    using assms by (cases "lc_buffers c (buildLogBufferKey e)") (auto simp: log_inv_def buffer_ok_def)
  with filed assms show ?thesis
    using held_count_remove [of "lc_buffers c" "buildLogBufferKey e"]
    by (auto simp: log_inv_def buffer_ok_def held_count_put)
qed (use assms in \<open>auto simp: log_inv_def buffer_ok_def\<close>)

lemma log_inv_IngestLine [inv_step]: "log_inv c \<Longrightarrow> log_inv (IngestLine source line sev t0 t1 t2 t3 c)"
  by (simp add: IngestLine_def log_inv_Ingest)

lemma log_inv_ScanLine [inv_step]: "log_inv c \<Longrightarrow> log_inv (ScanLine source line ps t0 t1 t2 t3 c)"
  by (simp add: ScanLine_def Let_def log_inv_IngestLine)

text \<open>One round of the report: what it may change.\<close>

lemma report_loop_frame:
  assumes "report_loop clock persist payload batches ks (n, sent, c) = (n', sent', c')"
  shows "\<exists>f. c' = c\<lparr> lc_forwarded := f \<rparr> \<and> lc_forwarded c \<le> f \<and>
    f \<le> lc_forwarded c + sum_list (map (\<lambda>k. length (map_get [] batches k)) ks)"
  using assms
proof (induction ks arbitrary: n sent c)
  case Nil
  then have "c' = c\<lparr> lc_forwarded := lc_forwarded c \<rparr>" by simp
  then show ?case by (intro exI [of _ "lc_forwarded c"]) simp
next
  case (Cons k ks)
  obtain n1 sent1 c1 where one:
    "report_loop clock persist payload batches ks (n1, sent1, c1) = (n', sent', c')"
    "c1 = c \<or> c1 = c\<lparr> lc_forwarded := lc_forwarded c + length (map_get [] batches k) \<rparr>"
    using Cons.prems by (fastforce simp: Let_def split: if_splits option.splits sum.splits)
  from Cons.IH [OF one(1)] one(2) show ?case by auto
qed

lemma collect_counts:
  assumes "finite (dom (lc_buffers c))" and "sorts srt"
    and "CollectExpiredBatches now srt c = (batches, c')"
  shows "held_count (lc_buffers c') + held_count batches = held_count (lc_buffers c)"
proof -
  let ?ready = "{k. \<exists>es. lc_buffers c k = Some es \<and> batch_ready (lc_cfg c) now es}"
  have len: "length (srt es) = length es" for es
    using assms(2) by (metis sorts_def size_mset)
  have batches: "batches k = map_option (\<lambda>es. srt (map be_entry es)) (if k \<in> ?ready then lc_buffers c k else None)"
    and rest: "lc_buffers c' k = (if k \<in> ?ready then None else lc_buffers c k)" for k
    using assms(3) by (auto simp: CollectExpiredBatches_def split: option.splits)
  have doms: "dom batches = dom (lc_buffers c) \<inter> ?ready" "dom (lc_buffers c') = dom (lc_buffers c) - ?ready"
    by (auto simp: batches rest dom_def)
  have "held_count batches = (\<Sum>k \<in> dom (lc_buffers c) \<inter> ?ready. length (the (lc_buffers c k)))"
    unfolding held_count_def doms by (intro sum.cong) (auto simp: batches len)
  moreover have "held_count (lc_buffers c') = (\<Sum>k \<in> dom (lc_buffers c) - ?ready. length (the (lc_buffers c k)))"
    unfolding held_count_def doms by (intro sum.cong) (auto simp: rest)
  ultimately show ?thesis
    unfolding held_count_def
    using sum.Int_Diff [OF assms(1), of "\<lambda>k. length (the (lc_buffers c k))" ?ready] by simp
qed

lemma log_inv_report [inv_step]:
  assumes "log_inv c" and "sorts srt" and "range_order (fst (CollectExpiredBatches now srt c)) order"
  shows "log_inv (snd (snd (HandleReportLogBatch now clock srt persist order payload c)))"
proof -
  obtain batches c1 where col: "CollectExpiredBatches now srt c = (batches, c1)"
    by (cases "CollectExpiredBatches now srt c")
  obtain n sent c2 where rep: "report_loop clock persist payload batches order (0, [], c1) = (n, sent, c2)"
    by (metis prod_cases3)
  obtain f where f: "c2 = c1\<lparr> lc_forwarded := f \<rparr>"
    "f \<le> lc_forwarded c1 + held_count batches"
    using report_loop_frame [OF rep] held_count_order [of batches order] assms(3) col by auto
  have c1: "lc_cfg c1 = lc_cfg c" "lc_total c1 = lc_total c" "lc_dropped c1 = lc_dropped c"
    "lc_forwarded c1 = lc_forwarded c" "\<And>k es. lc_buffers c1 k = Some es \<Longrightarrow> lc_buffers c k = Some es"
    "dom (lc_buffers c1) \<subseteq> dom (lc_buffers c)"
    using col by (auto simp: CollectExpiredBatches_def split: option.splits if_splits)
  have "held_count (lc_buffers c1) + held_count batches = held_count (lc_buffers c)"
    using collect_counts [OF _ assms(2) col] assms(1) by (simp add: log_inv_def)
  moreover have "finite (dom (lc_buffers c1))"
    using assms(1) c1(6) by (auto simp: log_inv_def intro: finite_subset)
  ultimately have "log_inv c2"
    using assms(1) c1(1-4) f by (auto simp: log_inv_def buffer_ok_def dest: c1(5))
  then show ?thesis by (simp add: HandleReportLogBatch_def col rep)
qed

interpretation collector: machine log_step log_call_ok log_inv
proof
  fix c e
  assume "log_inv c" and "log_call_ok c e"
  then show "log_inv (log_step e c)" by (cases e) (auto intro: inv_step)
qed

lemmas log_inv_reachable = collector.invar_run [OF log_inv_new]

text \<open>
  Property C20: no log line is counted twice. After any calls the dropped, forwarded and buffered lines
  together are at most the lines ingested, and every buffer holds between one and the maximal number of
  entries, all of them with the key of the buffer.
\<close>

theorem log_accounting:
  assumes "calls_ok log_call_ok log_step es (NewLogCollector cfg)"
    and "c = run log_step es (NewLogCollector cfg)"
  shows "lc_dropped c + lc_forwarded c + held_count (lc_buffers c) \<le> lc_total c \<and>
    (\<forall>k es. lc_buffers c k = Some es \<longrightarrow>
       es \<noteq> [] \<and> int (length es) \<le> MaxBufferSize (lc_cfg c) \<and>
       (\<forall>x \<in> set es. buildLogBufferKey (be_entry x) = k))"
  using log_inv_reachable [OF assms(1)] by (auto simp: assms(2) log_inv_def buffer_ok_def)

section \<open>Batches reach the project of their entries\<close>

lemma report_loop_sent:
  assumes "report_loop clock persist payload batches ks (n, sent, c) = (n', sent', c')"
    and "b \<in> set sent'"
  shows "b \<in> set sent \<or> (\<exists>k \<in> set ks.
    b = BuildLogBatchForBufferKey k payload (map_get [] batches k) (clock k) \<and>
    trim_space (lb_project b) \<noteq> [] \<and> trim_space (lb_binding b) \<noteq> [])"
  using assms
proof (induction ks arbitrary: n sent c)
  case (Cons k ks)
  let ?b = "BuildLogBatchForBufferKey k payload (map_get [] batches k) (clock k)"
  obtain n1 sent1 c1 where one:
    "report_loop clock persist payload batches ks (n1, sent1, c1) = (n', sent', c')"
    "sent1 = sent \<or> sent1 = sent @ [?b] \<and> trim_space (lb_project ?b) \<noteq> [] \<and> trim_space (lb_binding ?b) \<noteq> []"
    using Cons.prems(1) by (fastforce simp: Let_def split: if_splits option.splits sum.splits)
  from Cons.IH [OF one(1) Cons.prems(2)] one(2) show ?case by auto
qed simp

lemma batch_of_buffer:
  assumes "log_inv c" and "sorts srt" and "CollectExpiredBatches now srt c = (batches, c')"
    and "batches k = Some es" and "e \<in> set es"
  shows "buildLogBufferKey e = k" and "k \<noteq> []" and "sorted (map le_timestamp es)"
proof -
  obtain bs where bs: "lc_buffers c k = Some bs" "es = srt (map be_entry bs)"
    using assms(3,4) by (auto simp: CollectExpiredBatches_def split: option.splits if_splits)
  have "mset es = mset (map be_entry bs)" "sorted (map le_timestamp es)"
    using assms(2) by (simp_all add: sorts_def bs(2))
  then have "e \<in> be_entry ` set bs" and "sorted (map le_timestamp es)"
    using assms(5) by (metis mset_eq_setD set_map, simp)
  then show "buildLogBufferKey e = k" and "k \<noteq> []" and "sorted (map le_timestamp es)"
    using assms(1) bs(1) by (auto simp: log_inv_def buffer_ok_def)
qed

text \<open>
  Property C19: logs stay in their project. Every batch a report hands to the backend names a project
  and a binding, is sorted by time, and each of its entries whose labels are free of the separator is
  in the batch of the project and binding its own labels name; only entries without such a label go
  to the project or binding of the report command.
\<close>

theorem logs_stay_in_project:
  assumes "calls_ok log_call_ok log_step es (NewLogCollector cfg)"
    and "c = run log_step es (NewLogCollector cfg)" and "sorts srt"
    and "HandleReportLogBatch now clock srt persist order payload c = (n, sent, c')"
    and "b \<in> set sent" and "e \<in> set (lb_entries b)" and "separator_free e"
  shows "lb_project b \<noteq> [] \<and> lb_binding b \<noteq> [] \<and> sorted (map le_timestamp (lb_entries b)) \<and>
    lb_project b = first_non_empty [logLabel (le_labels e) ''project_id'', rp_project payload] \<and>
    lb_binding b = first_non_empty [logLabel (le_labels e) ''binding_id'', rp_binding payload]"
proof -
  have inv: "log_inv c" using log_inv_reachable [OF assms(1)] by (simp add: assms(2))
  obtain batches c1 where col: "CollectExpiredBatches now srt c = (batches, c1)"
    by (cases "CollectExpiredBatches now srt c")
  have "report_loop clock persist payload batches order (0, [], c1) = (n, sent, c')"
    using assms(4) by (simp add: HandleReportLogBatch_def col)
  from report_loop_sent [OF this assms(5)] obtain k where k:
    "b = BuildLogBatchForBufferKey k payload (map_get [] batches k) (clock k)"
    "trim_space (lb_project b) \<noteq> []" "trim_space (lb_binding b) \<noteq> []" by auto
  then have entries: "lb_entries b = map_get [] batches k" by (simp add: BuildLogBatchForBufferKey_def Let_def)
  then obtain bs where bs: "batches k = Some bs" "lb_entries b = bs"
    using assms(6) by (cases "batches k") auto
  note key = batch_of_buffer [OF inv assms(3) col bs(1) assms(6) [unfolded bs(2)]]
  have "bm_source (entry_meta e) \<noteq> []" using key(1,2) key_Nil_iff by metis
  then have "parseLogBufferKey k = entry_meta e"
    using key_parsed [OF assms(7)] key(1) by simp
  then have "lb_project b = first_non_empty [bm_project (entry_meta e), trim_space (rp_project payload)]"
    and "lb_binding b = first_non_empty [bm_binding (entry_meta e), trim_space (rp_binding payload)]"
    by (simp_all add: k(1) BuildLogBatchForBufferKey_def Let_def)
  with key bs k(2,3) show ?thesis by (auto simp: entry_meta_def)
qed

text \<open>A ready batch whose sending fails is neither buffered nor counted as dropped any more.\<close>

lemma failed_send_loses_lines:
  assumes "rp_sender payload = Some (\<lambda>_. Fail err)"
    and "HandleReportLogBatch now clock srt persist order payload c = (n, sent, c')"
    and "lc_buffers c k = Some es" and "batch_ready (lc_cfg c) now es"
  shows "n = 0 \<and> lc_buffers c' k = None \<and> lc_dropped c' = lc_dropped c \<and> lc_forwarded c' = lc_forwarded c"
proof -
  have stuck: "report_loop clock persist payload batches ks (n0, sent0, c0) = (n1, sent1, c1) \<Longrightarrow> n1 = n0 \<and> c1 = c0"
    for batches ks n0 sent0 c0 n1 sent1 c1
    by (induction ks arbitrary: n0 sent0) (auto simp: assms(1) Let_def split: if_splits)
  have "n = 0 \<and> c' = snd (CollectExpiredBatches now srt c)"
    using assms(2) by (auto simp: HandleReportLogBatch_def case_prod_beta dest!: stuck)
  then show ?thesis
    using assms(3,4) by (simp add: CollectExpiredBatches_def)
qed

definition demo_report :: "ReportLogBatchPayload" where
  "demo_report =
     \<lparr> rp_project = ''prj_0'', rp_binding = ''bind_0'', rp_revision = [], rp_service = [],
       rp_runtime_mode = [], rp_workspace_root = [], rp_sender = Some (\<lambda>_. Ok ()) \<rparr>"

definition demo_log_calls :: "log_call list" where
  "demo_log_calls = [LIngest demo_entry 0 0 0, LLine ''agent'' ''started'' ''info'' 1 1 1 1]"

lemma demo_log_calls_ok: "calls_ok log_call_ok log_step demo_log_calls (NewLogCollector DefaultLogCollectorConfig)"
  by (simp add: demo_log_calls_def)

theorem log_accounting_witness:
  "held_count (lc_buffers (run log_step demo_log_calls (NewLogCollector DefaultLogCollectorConfig))) \<le> 2"
proof -
  let ?c = "run log_step demo_log_calls (NewLogCollector DefaultLogCollectorConfig)"
  have "lc_total (IngestLine s l v t0 t1 t2 t3 c) \<le> lc_total c + 1" and "lc_total (Ingest x t1 t2 t3 c) = lc_total c + 1"
    for s l v t0 t1 t2 t3 c x
    by (simp_all add: IngestLine_def Ingest_def Let_def)
  note bound = this(1) and one = this(2)
  have "lc_total ?c \<le> 2"
    using bound [of "''agent''" "''started''" "''info''" 1 1 1 1 "Ingest demo_entry 0 0 0 (NewLogCollector DefaultLogCollectorConfig)"]
    by (simp add: demo_log_calls_def one NewLogCollector_def)
  then show ?thesis using log_accounting [OF demo_log_calls_ok refl] by linarith
qed

definition demo_batch :: LogBatchPayload where
  "demo_batch = BuildLogBatchForBufferKey (buildLogBufferKey demo_entry) demo_report [demo_entry] 9000000000"

lemma demo_key: "buildLogBufferKey demo_entry \<noteq> []"
  by (simp add: key_Nil_iff demo_entry_meta)

lemma demo_parse: "parseLogBufferKey (buildLogBufferKey demo_entry) = entry_meta demo_entry"
  using key_parsed [OF demo_entry_free] by (simp add: demo_entry_meta)

lemma demo_sort: "sorts (sort_key le_timestamp)"
  by (simp add: sorts_def)

lemma demo_report_runs:
  "fst (snd (HandleReportLogBatch 9000000000 (\<lambda>_. 9000000000) (sort_key le_timestamp)
     (\<lambda>_ _ _ _ _. Ok ''log.json'') [buildLogBufferKey demo_entry] demo_report
     (run log_step [LIngest demo_entry 0 0 0] (NewLogCollector DefaultLogCollectorConfig)))) = [demo_batch]"
proof -
  let ?c0 = "NewLogCollector DefaultLogCollectorConfig" and ?k = "buildLogBufferKey demo_entry"
  have c: "lc_buffers (Ingest demo_entry 0 0 0 ?c0) = [?k \<mapsto> [\<lparr> be_entry = demo_entry, be_ingested = 0 \<rparr>]]"
    "lc_cfg (Ingest demo_entry 0 0 0 ?c0) = DefaultLogCollectorConfig"
    by (simp_all add: Ingest_def Let_def demo_key NewLogCollector_def DefaultLogCollectorConfig_def positive_or_def
        second_def minute_def)
  have ready: "batch_ready DefaultLogCollectorConfig 9000000000 [\<lparr> be_entry = demo_entry, be_ingested = 0 \<rparr>]"
    by (simp add: batch_ready_def DefaultLogCollectorConfig_def second_def time_sub_def max_duration_def min_duration_def)
  have b: "trim_space (lb_project demo_batch) = ''prj_1''" "trim_space (lb_binding demo_batch) = ''bind_1''"
    by (simp_all add: demo_batch_def BuildLogBatchForBufferKey_def Let_def demo_parse demo_entry_meta
        trim_space_def trim_left_def trim_right_def is_space_def)
  have "snd (CollectExpiredBatches 9000000000 (sort_key le_timestamp) (Ingest demo_entry 0 0 0 ?c0)) = c' \<Longrightarrow>
    fst (CollectExpiredBatches 9000000000 (sort_key le_timestamp) (Ingest demo_entry 0 0 0 ?c0)) ?k = Some [demo_entry]" for c'
    by (simp add: CollectExpiredBatches_def c ready)
  then show ?thesis
    using b by (simp add: HandleReportLogBatch_def case_prod_beta Let_def map_get_def demo_report_def
        demo_batch_def [unfolded demo_report_def, symmetric])
qed

theorem logs_stay_in_project_witness:
  "lb_project demo_batch = ''prj_1'' \<and> lb_binding demo_batch = ''bind_1''"
proof -
  let ?r = "HandleReportLogBatch 9000000000 (\<lambda>_. 9000000000) (sort_key le_timestamp)
     (\<lambda>_ _ _ _ _. Ok ''log.json'') [buildLogBufferKey demo_entry] demo_report
     (run log_step [LIngest demo_entry 0 0 0] (NewLogCollector DefaultLogCollectorConfig))"
  have r: "?r = (fst ?r, [demo_batch], snd (snd ?r))"
    by (simp only: demo_report_runs [symmetric] prod.collapse)
  have "demo_entry \<in> set (lb_entries demo_batch)"
    by (simp add: demo_batch_def BuildLogBatchForBufferKey_def Let_def)
  moreover have "calls_ok log_call_ok log_step [LIngest demo_entry 0 0 0] (NewLogCollector DefaultLogCollectorConfig)"
    by simp
  ultimately show ?thesis
    using logs_stay_in_project [OF _ refl demo_sort r, of demo_batch demo_entry] demo_entry_free
    by (simp add: demo_entry_def logLabel_def map_get_def trim_space_def trim_left_def trim_right_def is_space_def)
qed

end
