(* ===== verification/Identity.thy ===== *)
theory Identity
  imports Prog Commands
begin

text \<open>
  The tables of users, machines and credentials (\<open>backend/internal/models\<close>) and the repository calls
  on them (\<open>backend/internal/repository\<close>), as in theory Store: a table is a list of rows, every call
  of the database may fail, clock and random numbers are streams. An insert that breaks a unique
  index of the table fails; GORM sets \<open>created_at\<close> and \<open>updated_at\<close> from the clock.
  Columns that no modelled code reads are left out.
\<close>

section \<open>Rows\<close>

record User =
  us_id :: string
  us_display_name :: string
  us_email :: string
  us_password_hash :: string
  us_role :: string
  us_status :: string
  us_last_login :: "time option"

record PersonalAccessToken =
  pt_id :: string
  pt_user_id :: string
  pt_name :: string
  pt_hash :: string
  pt_prefix :: string
  pt_last_used :: "time option"
  pt_expires_at :: "time option"
  pt_revoked_at :: "time option"
  pt_created_at :: time

record AgentToken =
  tk_id :: string
  tk_user_id :: string
  tk_instance_id :: string
  tk_agent_id :: string
  tk_hash :: string
  tk_prefix :: string
  tk_last_used :: "time option"
  tk_expires_at :: "time option"
  tk_revoked_at :: "time option"
  tk_created_at :: time

record BootstrapToken =
  bt_id :: string
  bt_user_id :: string
  bt_instance_id :: string
  bt_hash :: string
  bt_runtime_mode :: string
  bt_agent_kind :: string
  bt_target_ref :: string
  bt_expires_at :: time
  bt_used_at :: "time option"

record Agent =
  ag_id :: string
  ag_user_id :: string
  ag_agent_id :: string
  ag_name :: string
  ag_status :: string
  ag_last_seen :: "time option"
  ag_updated_at :: time

record Machine =
  mc_id :: string
  mc_user_id :: string
  mc_name :: string
  mc_public_ip :: "string option"
  mc_private_ip :: "string option"
  mc_agent_id :: "string option"
  mc_status :: string
  mc_labels :: "string \<rightharpoonup> string"
  mc_capabilities :: payload
  mc_created_at :: time
  mc_updated_at :: time

record identity =
  id_users :: "User list"
  id_pats :: "PersonalAccessToken list"
  id_agent_tokens :: "AgentToken list"
  id_bootstrap :: "BootstrapToken list"
  id_agents :: "Agent list"
  id_machines :: "Machine list"
  id_faults :: "bool list"
  id_clock :: "nat \<Rightarrow> time"
  id_tick :: nat
  id_fresh :: "nat \<Rightarrow> string"
  id_next :: nat
  id_random :: "nat \<Rightarrow> string option"
  id_drawn :: nat

type_synonym 'a iprog = "(identity, 'a) prog"

section \<open>Clock, identifiers, secrets\<close>

definition clock_now :: "time iprog" where
  "clock_now = (\<lambda>w. (Ok (id_clock w (id_tick w)), w\<lparr>id_tick := id_tick w + 1\<rparr>))"

definition prefixed_id :: "string \<Rightarrow> string iprog" where
  "prefixed_id p = (\<lambda>w. (Ok (p @ ''_'' @ id_fresh w (id_next w)), w\<lparr>id_next := id_next w + 1\<rparr>))"

text \<open>32 random bytes in base64 without padding, or the error of \<open>rand.Read\<close>.\<close>

definition random_secret :: "string iprog" where
  "random_secret = (\<lambda>w.
     ((case id_random w (id_drawn w) of None \<Rightarrow> Fail (Errorf ''rand'') | Some s \<Rightarrow> Ok s),
      w\<lparr>id_drawn := id_drawn w + 1\<rparr>))"

section \<open>Database calls\<close>

definition db_query :: "(identity \<Rightarrow> 'a) \<Rightarrow> 'a iprog" where
  "db_query f = (\<lambda>w.
     (case id_faults w of
        True # fs \<Rightarrow> (Fail DbFailure, w\<lparr>id_faults := fs\<rparr>)
      | fs \<Rightarrow> (Ok (f w), w\<lparr>id_faults := tl fs\<rparr>)))"

text \<open>A statement that changes rows; \<open>clash\<close> says that it breaks a unique index.\<close>

definition db_exec :: "(identity \<Rightarrow> bool) \<Rightarrow> (identity \<Rightarrow> identity) \<Rightarrow> unit iprog" where
  "db_exec clash f = (\<lambda>w.
     (case id_faults w of
        True # fs \<Rightarrow> (Fail DbFailure, w\<lparr>id_faults := fs\<rparr>)
      | fs \<Rightarrow> if clash w then (Fail DbFailure, w\<lparr>id_faults := tl fs\<rparr>)
              else (Ok (), f (w\<lparr>id_faults := tl fs\<rparr>))))"

definition update_rows :: "('r \<Rightarrow> bool) \<Rightarrow> ('r \<Rightarrow> 'r) \<Rightarrow> 'r list \<Rightarrow> 'r list" where
  "update_rows P f rows = map (\<lambda>r. if P r then f r else r) rows"

subsection \<open>Users\<close>

definition UserGetByEmail :: "string \<Rightarrow> User option iprog" where
  "UserGetByEmail email = db_query (\<lambda>w. List.find (\<lambda>u. us_email u = email) (id_users w))"

definition UserGetByID :: "string \<Rightarrow> User option iprog" where
  "UserGetByID uid = db_query (\<lambda>w. List.find (\<lambda>u. us_id u = uid) (id_users w))"

definition UserCreate :: "User \<Rightarrow> unit iprog" where
  "UserCreate u = db_exec (\<lambda>w. \<exists>v \<in> set (id_users w). us_id v = us_id u \<or> us_email v = us_email u)
     (\<lambda>w. w\<lparr>id_users := id_users w @ [u]\<rparr>)"

definition TouchLastLogin :: "string \<Rightarrow> time \<Rightarrow> unit iprog" where
  "TouchLastLogin uid at = db_exec (\<lambda>_. False) (\<lambda>w. w\<lparr>id_users :=
     update_rows (\<lambda>u. us_id u = uid) (\<lambda>u. u\<lparr>us_last_login := Some at\<rparr>) (id_users w)\<rparr>)"

subsection \<open>Tokens\<close>

definition PATCreate :: "PersonalAccessToken \<Rightarrow> unit iprog" where
  "PATCreate t = andThen clock_now (\<lambda>now.
     db_exec (\<lambda>w. \<exists>v \<in> set (id_pats w). pt_id v = pt_id t \<or> pt_hash v = pt_hash t)
       (\<lambda>w. w\<lparr>id_pats := id_pats w @ [t\<lparr>pt_created_at := now\<rparr>]\<rparr>))"

definition find_pat :: "string \<Rightarrow> identity \<Rightarrow> PersonalAccessToken option" where
  "find_pat h w = List.find (\<lambda>t. pt_hash t = h) (id_pats w)"

definition PATGetByHash :: "string \<Rightarrow> PersonalAccessToken option iprog" where
  "PATGetByHash h = db_query (find_pat h)"

definition PATGetByID :: "string \<Rightarrow> PersonalAccessToken option iprog" where
  "PATGetByID tid = db_query (\<lambda>w. List.find (\<lambda>t. pt_id t = tid) (id_pats w))"

definition PATRevokeByIDForUser :: "string \<Rightarrow> string \<Rightarrow> time \<Rightarrow> unit iprog" where
  "PATRevokeByIDForUser uid tid at = db_exec (\<lambda>_. False) (\<lambda>w. w\<lparr>id_pats :=
     update_rows (\<lambda>t. pt_id t = tid \<and> pt_user_id t = uid) (\<lambda>t. t\<lparr>pt_revoked_at := Some at\<rparr>) (id_pats w)\<rparr>)"

definition PATTouchLastUsed :: "string \<Rightarrow> time \<Rightarrow> unit iprog" where
  "PATTouchLastUsed tid at = db_exec (\<lambda>_. False) (\<lambda>w. w\<lparr>id_pats :=
     update_rows (\<lambda>t. pt_id t = tid) (\<lambda>t. t\<lparr>pt_last_used := Some at\<rparr>) (id_pats w)\<rparr>)"

definition AgentTokenCreate :: "AgentToken \<Rightarrow> unit iprog" where
  "AgentTokenCreate t = andThen clock_now (\<lambda>now.
     db_exec (\<lambda>w. \<exists>v \<in> set (id_agent_tokens w). tk_id v = tk_id t \<or> tk_hash v = tk_hash t)
       (\<lambda>w. w\<lparr>id_agent_tokens := id_agent_tokens w @ [t\<lparr>tk_created_at := now\<rparr>]\<rparr>))"

definition find_agent_token :: "string \<Rightarrow> identity \<Rightarrow> AgentToken option" where
  "find_agent_token h w = List.find (\<lambda>t. tk_hash t = h) (id_agent_tokens w)"

definition AgentTokenGetByHash :: "string \<Rightarrow> AgentToken option iprog" where
  "AgentTokenGetByHash h = db_query (find_agent_token h)"

definition AgentTokenTouchLastUsed :: "string \<Rightarrow> time \<Rightarrow> unit iprog" where
  "AgentTokenTouchLastUsed tid at = db_exec (\<lambda>_. False) (\<lambda>w. w\<lparr>id_agent_tokens :=
     update_rows (\<lambda>t. tk_id t = tid) (\<lambda>t. t\<lparr>tk_last_used := Some at\<rparr>) (id_agent_tokens w)\<rparr>)"

definition AgentTokenRevokeByAgent :: "string \<Rightarrow> time \<Rightarrow> unit iprog" where
  "AgentTokenRevokeByAgent aid at = db_exec (\<lambda>_. False) (\<lambda>w. w\<lparr>id_agent_tokens :=
     update_rows (\<lambda>t. tk_agent_id t = aid \<and> tk_revoked_at t = None) (\<lambda>t. t\<lparr>tk_revoked_at := Some at\<rparr>)
       (id_agent_tokens w)\<rparr>)"

definition BootstrapCreate :: "BootstrapToken \<Rightarrow> unit iprog" where
  "BootstrapCreate t =
     db_exec (\<lambda>w. \<exists>v \<in> set (id_bootstrap w). bt_id v = bt_id t \<or> bt_hash v = bt_hash t)
       (\<lambda>w. w\<lparr>id_bootstrap := id_bootstrap w @ [t]\<rparr>)"

definition find_bootstrap :: "string \<Rightarrow> identity \<Rightarrow> BootstrapToken option" where
  "find_bootstrap h w = List.find (\<lambda>t. bt_hash t = h) (id_bootstrap w)"

definition BootstrapGetByHash :: "string \<Rightarrow> BootstrapToken option iprog" where
  "BootstrapGetByHash h = db_query (find_bootstrap h)"

definition MarkUsed :: "string \<Rightarrow> time \<Rightarrow> unit iprog" where
  "MarkUsed tid at = db_exec (\<lambda>_. False) (\<lambda>w. w\<lparr>id_bootstrap :=
     update_rows (\<lambda>t. bt_id t = tid) (\<lambda>t. t\<lparr>bt_used_at := Some at\<rparr>) (id_bootstrap w)\<rparr>)"

definition RevokeActiveForInstance :: "string \<Rightarrow> string \<Rightarrow> time \<Rightarrow> unit iprog" where
  "RevokeActiveForInstance uid iid at = db_exec (\<lambda>_. False) (\<lambda>w. w\<lparr>id_bootstrap :=
     update_rows (\<lambda>t. bt_user_id t = uid \<and> bt_instance_id t = iid \<and> bt_used_at t = None \<and> at < bt_expires_at t)
       (\<lambda>t. t\<lparr>bt_used_at := Some at\<rparr>) (id_bootstrap w)\<rparr>)"

subsection \<open>Agents\<close>

definition AgentCreate :: "Agent \<Rightarrow> Agent iprog" where
  "AgentCreate a = andThen clock_now (\<lambda>now.
     andThen (db_exec (\<lambda>w. \<exists>v \<in> set (id_agents w). ag_id v = ag_id a \<or>
         ag_user_id v = ag_user_id a \<and> ag_agent_id v = ag_agent_id a)
       (\<lambda>w. w\<lparr>id_agents := id_agents w @ [a\<lparr>ag_updated_at := now\<rparr>]\<rparr>)) (\<lambda>_.
     return (a\<lparr>ag_updated_at := now\<rparr>)))"

definition AgentListByUser :: "string \<Rightarrow> Agent list iprog" where
  "AgentListByUser uid =
     db_query (\<lambda>w. sort_key (\<lambda>a. - ag_updated_at a) (filter (\<lambda>a. ag_user_id a = uid) (id_agents w)))"

definition GetByAgentIDForUser :: "string \<Rightarrow> string \<Rightarrow> Agent option iprog" where
  "GetByAgentIDForUser uid aid =
     db_query (\<lambda>w. List.find (\<lambda>a. ag_user_id a = uid \<and> ag_agent_id a = aid) (id_agents w))"

definition UpdateStatusForUser :: "string \<Rightarrow> string \<Rightarrow> string \<Rightarrow> string \<Rightarrow> time \<Rightarrow> Agent option iprog" where
  "UpdateStatusForUser uid aid name status at =
     andThen (GetByAgentIDForUser uid aid) (\<lambda>found.
     case found of
       None \<Rightarrow> return None
     | Some agent \<Rightarrow>
         andThen clock_now (\<lambda>now.
         let saved = agent\<lparr>ag_name := (if name \<noteq> [] then name else ag_name agent), ag_status := status,
               ag_last_seen := Some at, ag_updated_at := now\<rparr>
         in andThen (db_exec (\<lambda>_. False) (\<lambda>w. w\<lparr>id_agents :=
              update_rows (\<lambda>a. ag_id a = ag_id agent) (\<lambda>_. saved) (id_agents w)\<rparr>)) (\<lambda>_.
            return (Some saved))))"

subsection \<open>Machines\<close>

definition MachineCreate :: "Machine \<Rightarrow> Machine iprog" where
  "MachineCreate m = andThen clock_now (\<lambda>now.
     let row = m\<lparr>mc_created_at := now, mc_updated_at := now\<rparr>
     in andThen (db_exec (\<lambda>w. \<exists>v \<in> set (id_machines w). mc_id v = mc_id m \<or>
            mc_user_id v = mc_user_id m \<and> mc_name v = mc_name m)
          (\<lambda>w. w\<lparr>id_machines := id_machines w @ [row]\<rparr>)) (\<lambda>_.
        return row))"

definition MachineListByUser :: "string \<Rightarrow> Machine list iprog" where
  "MachineListByUser uid = db_query (\<lambda>w. sort_key (\<lambda>m. - mc_created_at m)
     (sort_key mc_name (filter (\<lambda>m. mc_user_id m = uid) (id_machines w))))"

definition MachineGetByNameForUser :: "string \<Rightarrow> string \<Rightarrow> Machine option iprog" where
  "MachineGetByNameForUser uid name =
     db_query (\<lambda>w. List.find (\<lambda>m. mc_user_id m = uid \<and> mc_name m = name) (id_machines w))"

definition MachineGetByIDForUser :: "string \<Rightarrow> string \<Rightarrow> Machine option iprog" where
  "MachineGetByIDForUser uid iid =
     db_query (\<lambda>w. List.find (\<lambda>m. mc_user_id m = uid \<and> mc_id m = iid) (id_machines w))"

definition find_machine :: "string \<Rightarrow> identity \<Rightarrow> Machine option" where
  "find_machine iid w = List.find (\<lambda>m. mc_id m = iid) (id_machines w)"

definition MachineGetByID :: "string \<Rightarrow> Machine option iprog" where
  "MachineGetByID iid = db_query (find_machine iid)"

definition UpdateAgentState ::
  "string \<Rightarrow> string \<Rightarrow> string \<Rightarrow> payload option \<Rightarrow> time \<Rightarrow> Machine option iprog" where
  "UpdateAgentState iid aid status capabilities at =
     andThen (db_exec (\<lambda>_. False) (\<lambda>w. w\<lparr>id_machines :=
       update_rows (\<lambda>m. mc_id m = iid)
         (\<lambda>m. m\<lparr>mc_status := status, mc_updated_at := at,
                mc_agent_id := (if aid \<noteq> [] then Some aid else mc_agent_id m),
                mc_capabilities := (case capabilities of None \<Rightarrow> mc_capabilities m | Some c \<Rightarrow> c)\<rparr>)
         (id_machines w)\<rparr>)) (\<lambda>_.
     MachineGetByID iid)"

section \<open>What every call keeps\<close>

text \<open>
  Rows are never deleted, never change owner, and used or revoked tokens stay so. \<open>persists w w'\<close>
  says this of two states.
\<close>

definition keeps :: "('r \<Rightarrow> 'k) \<Rightarrow> ('r \<Rightarrow> 'r \<Rightarrow> bool) \<Rightarrow> 'r list \<Rightarrow> 'r list \<Rightarrow> bool" where
  "keeps key same rows rows' \<longleftrightarrow>
     (\<forall>k r. List.find (\<lambda>r. key r = k) rows = Some r \<longrightarrow>
        (\<exists>r'. List.find (\<lambda>r. key r = k) rows' = Some r' \<and> same r r'))"

definition same_bootstrap :: "BootstrapToken \<Rightarrow> BootstrapToken \<Rightarrow> bool" where
  "same_bootstrap t t' \<longleftrightarrow> bt_id t' = bt_id t \<and> bt_user_id t' = bt_user_id t \<and>
     bt_instance_id t' = bt_instance_id t \<and> (bt_used_at t \<noteq> None \<longrightarrow> bt_used_at t' \<noteq> None)"

definition same_agent_token :: "AgentToken \<Rightarrow> AgentToken \<Rightarrow> bool" where
  "same_agent_token t t' \<longleftrightarrow> tk_id t' = tk_id t \<and> tk_user_id t' = tk_user_id t \<and>
     tk_instance_id t' = tk_instance_id t \<and> tk_agent_id t' = tk_agent_id t \<and>
     (tk_revoked_at t \<noteq> None \<longrightarrow> tk_revoked_at t' \<noteq> None)"

definition same_pat :: "PersonalAccessToken \<Rightarrow> PersonalAccessToken \<Rightarrow> bool" where
  "same_pat t t' \<longleftrightarrow> pt_id t' = pt_id t \<and> pt_user_id t' = pt_user_id t \<and>
     (pt_revoked_at t \<noteq> None \<longrightarrow> pt_revoked_at t' \<noteq> None)"

definition same_machine :: "Machine \<Rightarrow> Machine \<Rightarrow> bool" where
  "same_machine m m' \<longleftrightarrow> mc_user_id m' = mc_user_id m"

definition persists :: "identity \<Rightarrow> identity \<Rightarrow> bool" where
  "persists w w' \<longleftrightarrow>
     keeps bt_hash same_bootstrap (id_bootstrap w) (id_bootstrap w') \<and>
     keeps tk_hash same_agent_token (id_agent_tokens w) (id_agent_tokens w') \<and>
     keeps pt_hash same_pat (id_pats w) (id_pats w') \<and>
     keeps mc_id same_machine (id_machines w) (id_machines w')"

lemma keeps_refl: "(\<And>r. same r r) \<Longrightarrow> keeps key same rows rows"
  by (auto simp: keeps_def)

lemma keeps_trans:
  assumes "keeps key same rows rows'" and "keeps key same rows' rows''"
    and "\<And>a b c. same a b \<Longrightarrow> same b c \<Longrightarrow> same a c"
  shows "keeps key same rows rows''"
  using assms unfolding keeps_def by meson

lemma find_append: "List.find P (xs @ ys) = (case List.find P xs of None \<Rightarrow> List.find P ys | Some x \<Rightarrow> Some x)"
  by (induction xs) auto

lemma keeps_insert: "(\<And>r. same r r) \<Longrightarrow> keeps key same rows (rows @ [r])"
  by (auto simp: keeps_def find_append)

lemma find_update_rows:
  "(\<And>r. P r \<Longrightarrow> Q (f r) = Q r) \<Longrightarrow>
   List.find Q (update_rows P f rows) = map_option (\<lambda>r. if P r then f r else r) (List.find Q rows)"
  by (induction rows) (auto simp: update_rows_def)

lemma keeps_update:
  assumes "\<And>r. P r \<Longrightarrow> key (f r) = key r" and "\<And>r. same r r" and "\<And>r. P r \<Longrightarrow> same r (f r)"
  shows "keeps key same rows (update_rows P f rows)"
  using assms by (auto simp: keeps_def find_update_rows)

lemma same_refl [simp]:
  "same_bootstrap b b" "same_agent_token t t" "same_pat p p" "same_machine m m"
  by (simp_all add: same_bootstrap_def same_agent_token_def same_pat_def same_machine_def)

lemma persists_refl [simp]: "persists w w"
  by (simp add: persists_def keeps_refl)

lemma persists_trans:
  assumes "persists u v" and "persists v w"
  shows "persists u w"
  using assms unfolding persists_def
  by (auto elim!: keeps_trans simp: same_bootstrap_def same_agent_token_def same_pat_def same_machine_def)

lemma persists_io [simp]:
  "persists w (w\<lparr>id_faults := f\<rparr>)" "persists w (w\<lparr>id_tick := t\<rparr>)" "persists w (w\<lparr>id_next := n\<rparr>)"
  "persists w (w\<lparr>id_drawn := d\<rparr>)"
  by (simp_all add: persists_def keeps_refl)

interpretation identity: guarantee I persists for I
  by unfold_locales (simp, rule persists_trans)

section \<open>Ownership\<close>

text \<open>
  Every token names a machine and a user; \<open>owned\<close> says that the machine is the user's, and that the
  identifiers of machines are distinct.
\<close>

definition owns :: "string \<Rightarrow> string \<Rightarrow> identity \<Rightarrow> bool" where
  "owns uid iid w \<longleftrightarrow> (\<exists>m. find_machine iid w = Some m \<and> mc_user_id m = uid)"

definition token_ties :: "identity \<Rightarrow> (string \<times> string) set" where
  "token_ties w = (\<lambda>t. (tk_user_id t, tk_instance_id t)) ` set (id_agent_tokens w) \<union>
     (\<lambda>t. (bt_user_id t, bt_instance_id t)) ` set (id_bootstrap w)"

definition owned :: "identity \<Rightarrow> bool" where
  "owned w \<longleftrightarrow> distinct (map mc_id (id_machines w)) \<and> (\<forall>(uid, iid) \<in> token_ties w. owns uid iid w)"

text \<open>A fact that calls cannot undo.\<close>

definition persistent :: "(identity \<Rightarrow> bool) \<Rightarrow> bool" where
  "persistent F \<longleftrightarrow> (\<forall>w w'. F w \<longrightarrow> persists w w' \<longrightarrow> F w')"

definition secured :: "(identity \<Rightarrow> bool) \<Rightarrow> identity \<Rightarrow> bool" where
  "secured F w \<longleftrightarrow> owned w \<and> F w"

lemma persistent_True [simp]: "persistent (\<lambda>_. True)"
  by (simp add: persistent_def)

lemma persistent_conj [simp]: "persistent F \<Longrightarrow> persistent G \<Longrightarrow> persistent (\<lambda>w. F w \<and> G w)"
  by (auto simp: persistent_def)

lemma persistent_owns [simp]: "persistent (owns uid iid)"
  unfolding persistent_def owns_def persists_def keeps_def same_machine_def find_machine_def by metis

lemma persistent_imp [simp]: "(b \<Longrightarrow> persistent F) \<Longrightarrow> persistent (\<lambda>w. b \<longrightarrow> F w)"
  by (auto simp: persistent_def)

lemma owned_step:
  "owned w \<Longrightarrow> persists w w' \<Longrightarrow> token_ties w' \<subseteq> token_ties w \<Longrightarrow>
   map mc_id (id_machines w') = map mc_id (id_machines w) \<Longrightarrow> owned w'"
  using persistent_owns unfolding owned_def persistent_def by (simp add: case_prod_beta) blast

lemma image_update_rows:
  "(\<And>r. P r \<Longrightarrow> g (f r) = g r) \<Longrightarrow> g ` set (update_rows P f rows) = g ` set rows"
  by (induction rows) (auto simp: update_rows_def)

lemma map_update_rows:
  "(\<And>r. P r \<Longrightarrow> g (f r) = g r) \<Longrightarrow> map g (update_rows P f rows) = map g rows"
  by (induction rows) (auto simp: update_rows_def)

lemma secured_exec:
  assumes "persistent F"
    and "\<And>w. persists w (f w)"
    and "\<And>w. F w \<Longrightarrow> \<forall>(u, i) \<in> token_ties (f w) - token_ties w. owns u i w"
    and "\<And>w. \<not> clash w \<Longrightarrow> distinct (map mc_id (id_machines w)) \<Longrightarrow> distinct (map mc_id (id_machines (f w)))"
    and "\<And>w fs. clash (w\<lparr>id_faults := fs\<rparr>) = clash w"
  shows "within (secured F) persists (db_exec clash f)"
  unfolding within_def
proof (intro allI impI)
  fix w assume w: "secured F w"
  have io: "secured F (w\<lparr>id_faults := fs\<rparr>)" for fs
    using w assms(1) persists_io(1) owned_step [of w "w\<lparr>id_faults := fs\<rparr>"]
    unfolding secured_def persistent_def token_ties_def by auto
  have step: "secured F (f v)" if "secured F v" "\<not> clash v" for v
  proof -
    have "owns u i (f v)" if "(u, i) \<in> token_ties (f v)" for u i
    proof -
      have "owns u i v"
        using assms(3) [of v] \<open>secured F v\<close> that unfolding secured_def owned_def by blast
      then show ?thesis using persistent_owns assms(2) unfolding persistent_def by blast
    qed
    then show ?thesis
      using that assms(1,2,4) unfolding secured_def owned_def persistent_def by blast
  qed
  have "persists w (f (w\<lparr>id_faults := fs\<rparr>))" for fs
    using persists_trans [OF persists_io(1) assms(2)] by blast
  then show "secured F (snd (db_exec clash f w)) \<and> persists w (snd (db_exec clash f w))"
    using io step w assms(5) by (auto simp: db_exec_def split: list.splits bool.splits)
qed

lemma secured_io:
  assumes "persistent F" and "secured F w" and "persists w w'" and "token_ties w' = token_ties w"
    and "id_machines w' = id_machines w"
  shows "secured F w'"
  using assms owned_step [of w w'] unfolding secured_def persistent_def by auto

lemma ties_io [simp]:
  "token_ties (w\<lparr>id_faults := f\<rparr>) = token_ties w" "token_ties (w\<lparr>id_tick := t\<rparr>) = token_ties w"
  "token_ties (w\<lparr>id_next := n\<rparr>) = token_ties w" "token_ties (w\<lparr>id_drawn := d\<rparr>) = token_ties w"
  by (simp_all add: token_ties_def)

named_theorems id_within "what the repository calls keep"

lemma within_reads [id_within]:
  assumes "persistent F"
  shows "within (secured F) persists clock_now"
    and "within (secured F) persists (prefixed_id p)"
    and "within (secured F) persists random_secret"
    and "within (secured F) persists (db_query f)"
  using secured_io [OF assms]
  by (auto simp: within_def clock_now_def prefixed_id_def random_secret_def db_query_def split: list.splits bool.splits)

lemma ties_other [simp]:
  "token_ties (w\<lparr>id_users := us\<rparr>) = token_ties w" "token_ties (w\<lparr>id_pats := ps\<rparr>) = token_ties w"
  "token_ties (w\<lparr>id_agents := ags\<rparr>) = token_ties w" "token_ties (w\<lparr>id_machines := ms\<rparr>) = token_ties w"
  by (simp_all add: token_ties_def)

lemma ties_tokens [simp]:
  "(\<And>t. P t \<Longrightarrow> tk_user_id (f t) = tk_user_id t \<and> tk_instance_id (f t) = tk_instance_id t) \<Longrightarrow>
   token_ties (w\<lparr>id_agent_tokens := update_rows P f (id_agent_tokens w)\<rparr>) = token_ties w"
  "(\<And>b. Q b \<Longrightarrow> bt_user_id (g b) = bt_user_id b \<and> bt_instance_id (g b) = bt_instance_id b) \<Longrightarrow>
   token_ties (w\<lparr>id_bootstrap := update_rows Q g (id_bootstrap w)\<rparr>) = token_ties w"
  by (simp_all add: token_ties_def image_update_rows)

lemma within_queries [id_within]:
  assumes "persistent F"
  shows "within (secured F) persists (UserGetByEmail e)" "within (secured F) persists (UserGetByID u)"
    "within (secured F) persists (PATGetByHash h)" "within (secured F) persists (PATGetByID i)"
    "within (secured F) persists (AgentTokenGetByHash h)" "within (secured F) persists (BootstrapGetByHash h)"
    "within (secured F) persists (AgentListByUser u)" "within (secured F) persists (GetByAgentIDForUser u a)"
    "within (secured F) persists (MachineListByUser u)" "within (secured F) persists (MachineGetByNameForUser u n)"
    "within (secured F) persists (MachineGetByIDForUser u i)" "within (secured F) persists (MachineGetByID i)"
  using within_reads(4) [OF assms]
  by (simp_all add: UserGetByEmail_def UserGetByID_def PATGetByHash_def PATGetByID_def AgentTokenGetByHash_def
      BootstrapGetByHash_def AgentListByUser_def GetByAgentIDForUser_def MachineListByUser_def
      MachineGetByNameForUser_def MachineGetByIDForUser_def MachineGetByID_def)

lemma persists_other [simp]:
  "persists w (w\<lparr>id_users := us\<rparr>)" "persists w (w\<lparr>id_agents := ags\<rparr>)"
  by (simp_all add: persists_def keeps_refl)

lemma within_writes [id_within]:
  assumes "persistent F"
  shows "within (secured F) persists (UserCreate u)" "within (secured F) persists (TouchLastLogin uid at)"
    "within (secured F) persists (PATRevokeByIDForUser uid tid at)" "within (secured F) persists (PATTouchLastUsed tid at)"
    "within (secured F) persists (AgentTokenTouchLastUsed tid at)"
    "within (secured F) persists (AgentTokenRevokeByAgent aid at)"
    "within (secured F) persists (MarkUsed tid at)" "within (secured F) persists (RevokeActiveForInstance uid iid at)"
  unfolding UserCreate_def TouchLastLogin_def PATRevokeByIDForUser_def PATTouchLastUsed_def
    AgentTokenTouchLastUsed_def AgentTokenRevokeByAgent_def MarkUsed_def RevokeActiveForInstance_def
  by (rule secured_exec [OF assms];
      auto simp: persists_def same_pat_def same_agent_token_def same_bootstrap_def intro!: keeps_update keeps_refl)+

lemma within_inserts [id_within]:
  assumes "persistent F"
  shows "within (secured F) persists (PATCreate t)" "within (secured F) persists (AgentCreate a)"
    "within (secured F) persists (MachineCreate m)"
    "within (secured F) persists (UpdateStatusForUser uid aid name status at)"
    "within (secured F) persists (UpdateAgentState iid aid status caps at)"
  unfolding PATCreate_def AgentCreate_def MachineCreate_def UpdateStatusForUser_def UpdateAgentState_def Let_def
  by (intro identity.within_rules id_within assms secured_exec;
      auto simp: persists_def same_machine_def map_update_rows intro!: keeps_insert keeps_refl keeps_update)+

lemma within_token_inserts [id_within]:
  assumes "persistent F"
  shows "(\<And>w. F w \<Longrightarrow> owns (tk_user_id t) (tk_instance_id t) w) \<Longrightarrow> within (secured F) persists (AgentTokenCreate t)"
    and "(\<And>w. F w \<Longrightarrow> owns (bt_user_id b) (bt_instance_id b) w) \<Longrightarrow> within (secured F) persists (BootstrapCreate b)"
  unfolding AgentTokenCreate_def BootstrapCreate_def
  by (intro identity.within_rules id_within assms secured_exec;
      auto simp: persists_def token_ties_def intro!: keeps_insert keeps_refl)+

end
