(* ===== verification/AuthService.thy ===== *)
theory AuthService
  imports Identity
begin

text \<open>
  \<open>backend/internal/service/auth_service.go\<close>: accounts, web sessions, personal access tokens, and the
  reading of every kind of credential. Arguments of the model, in the record \<open>auth_env\<close>: SHA-256 in
  hex, bcrypt, the JWT library, \<open>mail.ParseAddress\<close>, and the configuration. \<open>jwt.NewNumericDate\<close> cuts
  times to seconds; the claims below hold the times it is given. The empty capability map of agent
  claims is left out.
\<close>

section \<open>Credentials\<close>

record Claims =
  cm_auth_kind :: string
  cm_subject_type :: string
  cm_user_id :: string
  cm_email :: string
  cm_role :: string
  cm_token_id :: string
  cm_agent_id :: string
  cm_instance_id :: string
  cm_issuer :: string
  cm_subject :: string
  cm_jti :: string
  cm_issued_at :: "time option"
  cm_expires_at :: "time option"
  cm_not_before :: "time option"

text \<open>What \<open>jwt.ParseWithClaims\<close> makes of a token: claims and \<open>Valid\<close>, or an error.\<close>

datatype jwt_outcome = JwtClaims Claims bool | JwtStale | JwtInvalid

record auth_env =
  en_hash :: "string \<Rightarrow> string"
  en_bcrypt :: "nat \<Rightarrow> string \<Rightarrow> string res"
  en_bcrypt_ok :: "string \<Rightarrow> string \<Rightarrow> bool"
  en_parse_address :: "string \<Rightarrow> string option"
  en_jwt_parse :: "time \<Rightarrow> string \<Rightarrow> jwt_outcome"
  en_jwt_sign :: "Claims \<Rightarrow> string res"
  en_jwt_issuer :: string
  en_jwt_expires_in :: duration
  en_pat_expires_in :: duration
  en_agent_tokens :: bool
  en_agent_token_ttl :: duration
  en_bootstrap_token_ttl :: duration

definition RoleAdmin :: string where "RoleAdmin = ''admin''"
definition RoleOperator :: string where "RoleOperator = ''operator''"
definition RoleViewer :: string where "RoleViewer = ''viewer''"
definition AuthKindWebSession :: string where "AuthKindWebSession = ''web_session''"
definition AuthKindCLIPAT :: string where "AuthKindCLIPAT = ''cli_pat''"
definition AuthKindAgentToken :: string where "AuthKindAgentToken = ''agent_token''"

record UserProfile =
  up_id :: string
  up_display_name :: string
  up_email :: string
  up_role :: string
  up_status :: string
  up_last_login :: "time option"

record AuthResult =
  ar_access_token :: string
  ar_token_type :: string
  ar_expires_in :: duration
  ar_user :: UserProfile

record CLIAuthResult =
  ca_token :: string
  ca_token_type :: string
  ca_token_id :: string
  ca_expires_at :: "time option"
  ca_user :: UserProfile

definition ToUserProfile :: "User \<Rightarrow> UserProfile" where
  "ToUserProfile u =
     \<lparr> up_id = us_id u, up_display_name = us_display_name u, up_email = us_email u, up_role = us_role u,
       up_status = us_status u, up_last_login = us_last_login u \<rparr>"

definition hashOpaqueToken :: "auth_env \<Rightarrow> string \<Rightarrow> string" where
  "hashOpaqueToken env token = en_hash env token"

definition looksLikeJWT :: "string \<Rightarrow> bool" where
  "looksLikeJWT token \<longleftrightarrow> length (filter (\<lambda>c. c = CHR ''.'') token) = 2"

definition looksLikePAT :: "string \<Rightarrow> bool" where
  "looksLikePAT token \<longleftrightarrow> has_prefix (trim_space token) ''lop_pat_''"

definition looksLikeAgentToken :: "string \<Rightarrow> bool" where
  "looksLikeAgentToken token \<longleftrightarrow> has_prefix (trim_space token) ''lop_atok_''"

definition isValidEmail :: "auth_env \<Rightarrow> string \<Rightarrow> bool" where
  "isValidEmail env email \<longleftrightarrow> email \<noteq> [] \<and>
     (case en_parse_address env email of None \<Rightarrow> False | Some a \<Rightarrow> equal_fold a email)"

definition in_range :: "nat \<Rightarrow> nat \<Rightarrow> char \<Rightarrow> bool" where
  "in_range a b c \<longleftrightarrow> a \<le> (of_char c :: nat) \<and> (of_char c :: nat) \<le> b"

definition validatePassword :: "string \<Rightarrow> unit res" where
  "validatePassword password =
     (if length password < 8 \<or> 72 < length password then Fail (Sentinel ErrWeakPassword)
      else if list_ex (in_range 65 90) password \<and> list_ex (in_range 97 122) password \<and>
              list_ex (in_range 48 57) password then Ok ()
      else Fail (Sentinel ErrWeakPassword))"

definition token_prefix :: "string \<Rightarrow> string" where
  "token_prefix token = (if 16 < length token then take 16 token else token)"

definition newOpaquePAT :: "(string \<times> string) iprog" where
  "newOpaquePAT = andThen random_secret (\<lambda>s.
     let token = ''lop_pat_'' @ s in return (token, token_prefix token))"

section \<open>Signing in\<close>

definition validateActiveUser :: "string \<Rightarrow> User iprog" where
  "validateActiveUser uid = andThen (UserGetByID uid) (\<lambda>found.
     case found of
       None \<Rightarrow> raise (Sentinel ErrUnauthorized)
     | Some u \<Rightarrow> if us_status u \<noteq> ''active'' then raise (Sentinel ErrAccountDisabled) else return u)"

definition issueWebSession :: "auth_env \<Rightarrow> User \<Rightarrow> AuthResult iprog" where
  "issueWebSession env u =
     andThen clock_now (\<lambda>now.
     andThen (prefixed_id ''sess'') (\<lambda>jti.
     andThen (from_res (en_jwt_sign env
       \<lparr> cm_auth_kind = AuthKindWebSession, cm_subject_type = ''user'', cm_user_id = us_id u,
         cm_email = us_email u, cm_role = us_role u, cm_token_id = [], cm_agent_id = [], cm_instance_id = [],
         cm_issuer = en_jwt_issuer env, cm_subject = us_id u, cm_jti = jti, cm_issued_at = Some now,
         cm_expires_at = Some (now + en_jwt_expires_in env), cm_not_before = Some now \<rparr>)) (\<lambda>signed.
     return \<lparr> ar_access_token = signed, ar_token_type = ''Bearer'', ar_expires_in = en_jwt_expires_in env,
              ar_user = ToUserProfile u \<rparr>)))"

definition bcrypt_hash :: "auth_env \<Rightarrow> string \<Rightarrow> string iprog" where
  "bcrypt_hash env password = (\<lambda>w. (en_bcrypt env (id_drawn w) password, w\<lparr>id_drawn := id_drawn w + 1\<rparr>))"

definition RegisterUser :: "auth_env \<Rightarrow> string \<Rightarrow> string \<Rightarrow> string \<Rightarrow> AuthResult iprog" where
  "RegisterUser env name emailInput password =
     (let email = to_lower (trim_space emailInput); displayName = NormalizeSpace name
      in if \<not> isValidEmail env email \<or> trim_space password = [] \<or> displayName = [] then
           raise (Sentinel ErrInvalidInput)
         else
           andThen (from_res (validatePassword password)) (\<lambda>_.
           andThen (UserGetByEmail email) (\<lambda>existing.
           if existing \<noteq> None then raise (Sentinel ErrEmailExists)
           else
             andThen (bcrypt_hash env password) (\<lambda>passwordHash.
             andThen (prefixed_id ''usr'') (\<lambda>uid.
             let u = \<lparr> us_id = uid, us_display_name = displayName, us_email = email,
                       us_password_hash = passwordHash, us_role = RoleViewer, us_status = ''active'',
                       us_last_login = None \<rparr>
             in andThen (UserCreate u) (\<lambda>_. issueWebSession env u))))))"

definition authenticatePasswordUser :: "auth_env \<Rightarrow> string \<Rightarrow> string \<Rightarrow> User iprog" where
  "authenticatePasswordUser env email password =
     (let normalizedEmail = to_lower (trim_space email)
      in if \<not> isValidEmail env normalizedEmail \<or> trim_space password = [] then
           raise (Sentinel ErrInvalidInput)
         else
           andThen (UserGetByEmail normalizedEmail) (\<lambda>found.
           case found of
             None \<Rightarrow> raise (Sentinel ErrInvalidCredentials)
           | Some u \<Rightarrow>
               if us_status u \<noteq> ''active'' then raise (Sentinel ErrAccountDisabled)
               else if \<not> en_bcrypt_ok env (us_password_hash u) password then
                 raise (Sentinel ErrInvalidCredentials)
               else
                 andThen clock_now (\<lambda>now.
                 andThen (TouchLastLogin (us_id u) now) (\<lambda>_.
                 return (u\<lparr>us_last_login := Some now\<rparr>)))))"

definition Login :: "auth_env \<Rightarrow> string \<Rightarrow> string \<Rightarrow> AuthResult iprog" where
  "Login env email password =
     andThen (authenticatePasswordUser env email password) (issueWebSession env)"

definition issuePAT :: "auth_env \<Rightarrow> User \<Rightarrow> string \<Rightarrow> CLIAuthResult iprog" where
  "issuePAT env u deviceName =
     andThen newOpaquePAT (\<lambda>(rawToken, tokenPrefix).
     andThen clock_now (\<lambda>now.
     andThen (prefixed_id ''pat'') (\<lambda>tid.
     let expiresAt = Some (now + en_pat_expires_in env)
     in andThen (PATCreate
          \<lparr> pt_id = tid, pt_user_id = us_id u, pt_name = deviceName, pt_hash = hashOpaqueToken env rawToken,
            pt_prefix = tokenPrefix, pt_last_used = None, pt_expires_at = expiresAt, pt_revoked_at = None,
            pt_created_at = zero_time \<rparr>) (\<lambda>_.
        return \<lparr> ca_token = rawToken, ca_token_type = ''Bearer'', ca_token_id = tid,
                 ca_expires_at = expiresAt, ca_user = ToUserProfile u \<rparr>))))"

definition CLILogin :: "auth_env \<Rightarrow> string \<Rightarrow> string \<Rightarrow> string \<Rightarrow> string \<Rightarrow> CLIAuthResult iprog" where
  "CLILogin env authFlow email password deviceInput =
     (if to_lower (trim_space authFlow) \<noteq> ''password'' then raise (Sentinel ErrInvalidInput)
      else
        let deviceName = NormalizeSpace deviceInput
        in if deviceName = [] then raise (Sentinel ErrInvalidInput)
           else andThen (authenticatePasswordUser env email password) (\<lambda>u. issuePAT env u deviceName))"

text \<open>\<open>RevokePAT\<close> returns the token's id with \<open>Revoked: true\<close>.\<close>

definition RevokePAT :: "string \<Rightarrow> string \<Rightarrow> (string \<times> bool) iprog" where
  "RevokePAT uid tokenInput =
     (let tokenID = trim_space tokenInput
      in if trim_space uid = [] \<or> tokenID = [] then raise (Sentinel ErrInvalidInput)
         else
           andThen (PATGetByID tokenID) (\<lambda>found.
           case found of
             None \<Rightarrow> raise (Sentinel ErrTokenNotFound)
           | Some token \<Rightarrow>
               if pt_user_id token \<noteq> uid then raise (Sentinel ErrTokenAccessDenied)
               else
                 andThen (if pt_revoked_at token = None then
                     andThen clock_now (PATRevokeByIDForUser uid (pt_id token)) else return ()) (\<lambda>_.
                 return (pt_id token, True))))"

section \<open>Reading a credential\<close>

definition parseWebSessionToken :: "auth_env \<Rightarrow> string \<Rightarrow> Claims iprog" where
  "parseWebSessionToken env token =
     andThen clock_now (\<lambda>now.
     case en_jwt_parse env now token of
       JwtStale \<Rightarrow> raise (Sentinel ErrTokenExpired)
     | JwtInvalid \<Rightarrow> raise (Sentinel ErrUnauthorized)
     | JwtClaims claims valid \<Rightarrow>
         if \<not> valid then raise (Sentinel ErrUnauthorized)
         else if cm_auth_kind claims \<noteq> AuthKindWebSession \<or> cm_user_id claims = [] then
           raise (Sentinel ErrUnauthorized)
         else
           andThen (validateActiveUser (cm_user_id claims)) (\<lambda>u.
           return (claims\<lparr> cm_email := us_email u, cm_role := us_role u, cm_subject_type := ''user'',
             cm_subject := us_id u \<rparr>)))"

text \<open>\<open>expiresAt != nil && time.Now().UTC().After(*expiresAt)\<close>\<close>

definition past :: "time option \<Rightarrow> bool iprog" where
  "past expiresAt = (case expiresAt of None \<Rightarrow> return False
     | Some e \<Rightarrow> andThen clock_now (\<lambda>now. return (e < now)))"

definition created_claim :: "time \<Rightarrow> time option" where
  "created_claim t = (if is_zero t then None else Some t)"

definition parsePATToken :: "auth_env \<Rightarrow> string \<Rightarrow> Claims iprog" where
  "parsePATToken env token =
     andThen (PATGetByHash (hashOpaqueToken env token)) (\<lambda>found.
     case found of
       None \<Rightarrow> raise (Sentinel ErrUnauthorized)
     | Some rec \<Rightarrow>
         if pt_revoked_at rec \<noteq> None then raise (Sentinel ErrTokenRevoked)
         else
           andThen (past (pt_expires_at rec)) (\<lambda>expired.
           if expired then raise (Sentinel ErrTokenExpired)
           else
             andThen (validateActiveUser (pt_user_id rec)) (\<lambda>u.
             andThen clock_now (\<lambda>now.
             andThen (PATTouchLastUsed (pt_id rec) now) (\<lambda>_.
             return \<lparr> cm_auth_kind = AuthKindCLIPAT, cm_subject_type = ''user'', cm_user_id = us_id u,
               cm_email = us_email u, cm_role = us_role u, cm_token_id = pt_id rec, cm_agent_id = [],
               cm_instance_id = [], cm_issuer = en_jwt_issuer env, cm_subject = us_id u, cm_jti = pt_id rec,
               cm_issued_at = created_claim (pt_created_at rec), cm_expires_at = pt_expires_at rec,
               cm_not_before = None \<rparr>)))))"

definition parseAgentToken :: "auth_env \<Rightarrow> string \<Rightarrow> Claims iprog" where
  "parseAgentToken env token =
     (if \<not> en_agent_tokens env then raise (Sentinel ErrUnauthorized)
      else
        andThen (AgentTokenGetByHash (hashOpaqueToken env token)) (\<lambda>found.
        case found of
          None \<Rightarrow> raise (Sentinel ErrUnauthorized)
        | Some rec \<Rightarrow>
            if tk_revoked_at rec \<noteq> None then raise (Sentinel ErrTokenRevoked)
            else
              andThen (past (tk_expires_at rec)) (\<lambda>expired.
              if expired then raise (Sentinel ErrTokenExpired)
              else
                andThen (validateActiveUser (tk_user_id rec)) (\<lambda>u.
                andThen clock_now (\<lambda>now.
                andThen (AgentTokenTouchLastUsed (tk_id rec) now) (\<lambda>_.
                return \<lparr> cm_auth_kind = AuthKindAgentToken, cm_subject_type = ''agent'',
                  cm_user_id = us_id u, cm_email = us_email u, cm_role = us_role u, cm_token_id = tk_id rec,
                  cm_agent_id = tk_agent_id rec, cm_instance_id = tk_instance_id rec,
                  cm_issuer = en_jwt_issuer env, cm_subject = tk_agent_id rec, cm_jti = tk_id rec,
                  cm_issued_at = created_claim (tk_created_at rec), cm_expires_at = tk_expires_at rec,
                  cm_not_before = None \<rparr>))))))"

definition ParseToken :: "auth_env \<Rightarrow> string \<Rightarrow> Claims iprog" where
  "ParseToken env token =
     (if looksLikeJWT token then parseWebSessionToken env token
      else if looksLikePAT token then parsePATToken env token
      else if looksLikeAgentToken token then parseAgentToken env token
      else
        andThen (attempt (parsePATToken env token)) (\<lambda>r.
        case r of
          Inr claims \<Rightarrow> return claims
        | Inl e \<Rightarrow> if err_is e ErrUnauthorized then parseAgentToken env token else raise e))"

section \<open>What the operations keep\<close>

lemma within_bcrypt [id_within]:
  "persistent F \<Longrightarrow> within (secured F) persists (bcrypt_hash env pw)"
  using secured_io [of F] by (auto simp: within_def bcrypt_hash_def)

lemma within_auth [id_within]:
  assumes "persistent F"
  shows "within (secured F) persists (validateActiveUser uid)"
    and "within (secured F) persists (past e)"
    and "within (secured F) persists (issueWebSession env u)"
    and "within (secured F) persists (authenticatePasswordUser env email pw)"
    and "within (secured F) persists (issuePAT env u dev)"
    and "within (secured F) persists (RevokePAT uid tid)"
  unfolding validateActiveUser_def past_def issueWebSession_def authenticatePasswordUser_def issuePAT_def
    newOpaquePAT_def RevokePAT_def
  by (intro identity.within_rules id_within assms)+

lemma within_auth_calls [id_within]:
  assumes "persistent F"
  shows "within (secured F) persists (RegisterUser env n e pw)"
    and "within (secured F) persists (Login env email pw)"
    and "within (secured F) persists (CLILogin env flow email pw dev)"
    and "within (secured F) persists (parsePATToken env token)"
    and "within (secured F) persists (parseAgentToken env token)"
  unfolding RegisterUser_def Login_def CLILogin_def parsePATToken_def parseAgentToken_def
  by (intro identity.within_rules id_within assms)+

lemma within_parse [id_within]:
  assumes "persistent F"
  shows "within (secured F) persists (parseWebSessionToken env token)"
    and "within (secured F) persists (ParseToken env token)"
proof -
  show web: "within (secured F) persists (parseWebSessionToken env token)"
    unfolding parseWebSessionToken_def
    by (intro identity.within_andThen id_within assms)
      (auto split: jwt_outcome.split intro!: identity.within_rules id_within assms)
  show "within (secured F) persists (ParseToken env token)"
    unfolding ParseToken_def by (intro identity.within_rules id_within assms web)
qed

end
