(* ===== verification/Enrollment.thy ===== *)
theory Enrollment
  imports AuthService NetAddr
begin

text \<open>
  Machines and their agents: \<open>instance_service.go\<close> creates instances and issues bootstrap tokens,
  \<open>agent_enrollment_service.go\<close> trades a bootstrap token for an agent token and takes heartbeats,
  \<open>agent_service.go\<close> lists and updates agents (all under \<open>backend/internal/service\<close>). Label and
  capability documents are stored as the maps they encode. The labels given in a command are the list
  of their entries in the order in which \<open>range\<close> visits them. Fields of commands that no code reads are left
  out.
\<close>

section \<open>Instances\<close>

record BootstrapTokenProfile =
  bp_runtime_mode :: string
  bp_agent_kind :: string
  bp_target_ref :: string

record BootstrapTokenIssue =
  bi_token :: string
  bi_token_id :: string
  bi_expires_at :: time
  bi_single_use :: bool

record CreateInstanceCommand =
  ci_user_id :: string
  ci_name :: string
  ci_public_ip :: string
  ci_private_ip :: string
  ci_labels :: "(string \<times> string) list"

record InstanceSummary =
  is_id :: string
  is_target_kind :: string
  is_name :: string
  is_public_ip :: "string option"
  is_private_ip :: "string option"
  is_agent_id :: "string option"
  is_status :: string
  is_labels :: "string \<rightharpoonup> string"
  is_capabilities :: payload
  is_created_at :: time
  is_updated_at :: time

definition normalizeInstanceStatus :: "string \<Rightarrow> string" where
  "normalizeInstanceStatus status =
     (let s = trim_space (to_lower status)
      in if s \<in> {''online'', ''offline'', ''degraded'', ''revoked''} then s else ''pending_enrollment'')"

definition instanceBootstrapAllowed :: "Machine \<Rightarrow> bool" where
  "instanceBootstrapAllowed m \<longleftrightarrow> normalizeInstanceStatus (mc_status m)
     \<in> {''pending_enrollment'', ''online'', ''offline'', ''degraded'', ''revoked''}"

definition ToInstanceSummary :: "Machine \<Rightarrow> InstanceSummary" where
  "ToInstanceSummary m =
     \<lparr> is_id = mc_id m, is_target_kind = ''instance'', is_name = mc_name m, is_public_ip = mc_public_ip m,
       is_private_ip = mc_private_ip m, is_agent_id = mc_agent_id m,
       is_status = normalizeInstanceStatus (mc_status m), is_labels = mc_labels m,
       is_capabilities = mc_capabilities m, is_created_at = mc_created_at m, is_updated_at = mc_updated_at m \<rparr>"

definition normalizeIPAddress :: "string \<Rightarrow> string option res" where
  "normalizeIPAddress raw =
     (let value = trim_space raw
      in if value = [] then Ok None
         else case parse_ip value of None \<Rightarrow> Fail (Sentinel ErrInvalidIP) | Some ip \<Rightarrow> Ok (Some (ip_string ip)))"

definition normalizeInstanceIPs :: "string \<Rightarrow> string \<Rightarrow> (string option \<times> string option) res" where
  "normalizeInstanceIPs publicIPInput privateIPInput =
     res_bind (normalizeIPAddress publicIPInput) (\<lambda>publicIP.
     res_bind (normalizeIPAddress privateIPInput) (\<lambda>privateIP. Ok (publicIP, privateIP)))"

text \<open>The loop over the letters of a label key: what is written so far, and whether it ends in a separator.\<close>

fun label_key_loop :: "string \<Rightarrow> string \<Rightarrow> bool \<Rightarrow> string" where
  "label_key_loop [] b lastSeparator = b"
| "label_key_loop (r # rs) b lastSeparator =
     (if in_range 97 122 r \<or> in_range 48 57 r then label_key_loop rs (b @ [r]) False
      else if b \<noteq> [] \<and> \<not> lastSeparator then
        label_key_loop rs (b @ [if r \<in> {CHR ''-'', CHR ''_'', CHR ''.''} then r else CHR ''-'']) True
      else label_key_loop rs b lastSeparator)"

definition trim_seps :: "string \<Rightarrow> string" where
  "trim_seps s =
     (let sep = (\<lambda>c. c \<in> {CHR ''-'', CHR ''_'', CHR ''.''})
      in rev (dropWhile sep (rev (dropWhile sep s))))"

definition normalizeInstanceLabelKey :: "string \<Rightarrow> string" where
  "normalizeInstanceLabelKey key0 =
     (let key = trim_space (to_lower key0) in if key = [] then [] else trim_seps (label_key_loop key [] False))"

fun normalize_labels :: "(string \<times> string) list \<Rightarrow> (string \<rightharpoonup> string) \<Rightarrow> (string \<rightharpoonup> string) res" where
  "normalize_labels [] normalized = Ok normalized"
| "normalize_labels ((rawKey, rawValue) # rest) normalized =
     (let key = normalizeInstanceLabelKey rawKey; value = NormalizeSpace rawValue
      in if key = [] \<or> value = [] \<or> 255 < length value then Fail (Sentinel ErrInvalidInput)
         else if normalized key \<noteq> None then Fail (Sentinel ErrInvalidInput)
         else normalize_labels rest (normalized(key \<mapsto> value)))"

definition normalizeInstanceLabels :: "(string \<times> string) list \<Rightarrow> (string \<rightharpoonup> string) res" where
  "normalizeInstanceLabels labels = normalize_labels labels Map.empty"

definition newOpaqueBootstrapToken :: "string iprog" where
  "newOpaqueBootstrapToken = andThen random_secret (\<lambda>s. return (''lop_boot_'' @ s))"

definition bootstrapTokenTTL :: "auth_env \<Rightarrow> duration" where
  "bootstrapTokenTTL env = (if en_bootstrap_token_ttl env \<le> 0 then 15 * minute else en_bootstrap_token_ttl env)"

definition issueBootstrapToken ::
  "auth_env \<Rightarrow> string \<Rightarrow> string \<Rightarrow> BootstrapTokenProfile \<Rightarrow> BootstrapTokenIssue iprog" where
  "issueBootstrapToken env userID instanceID profile =
     andThen newOpaqueBootstrapToken (\<lambda>rawToken.
     andThen clock_now (\<lambda>now.
     andThen (prefixed_id ''boot'') (\<lambda>tid.
     let expiresAt = now + bootstrapTokenTTL env
     in andThen (BootstrapCreate
          \<lparr> bt_id = tid, bt_user_id = userID, bt_instance_id = instanceID, bt_hash = hashOpaqueToken env rawToken,
            bt_runtime_mode = trim_space (bp_runtime_mode profile), bt_agent_kind = trim_space (bp_agent_kind profile),
            bt_target_ref = trim_space (bp_target_ref profile), bt_expires_at = expiresAt, bt_used_at = None \<rparr>) (\<lambda>_.
        return \<lparr> bi_token = rawToken, bi_token_id = tid, bi_expires_at = expiresAt, bi_single_use = True \<rparr>))))"

definition no_profile :: BootstrapTokenProfile where
  "no_profile = \<lparr> bp_runtime_mode = [], bp_agent_kind = [], bp_target_ref = [] \<rparr>"

definition InstanceCreate :: "auth_env \<Rightarrow> CreateInstanceCommand \<Rightarrow> (InstanceSummary \<times> BootstrapTokenIssue) iprog" where
  "InstanceCreate env cmd =
     (let userID = trim_space (ci_user_id cmd); name = NormalizeSpace (ci_name cmd)
      in if userID = [] \<or> name = [] \<or> 255 < length name then raise (Sentinel ErrInvalidInput)
         else
           andThen (from_res (normalizeInstanceIPs (ci_public_ip cmd) (ci_private_ip cmd))) (\<lambda>(publicIP, privateIP).
           andThen (from_res (normalizeInstanceLabels (ci_labels cmd))) (\<lambda>labels.
           andThen (MachineGetByNameForUser userID name) (\<lambda>existing.
           if existing \<noteq> None then raise (Sentinel ErrInstanceNameExists)
           else
             andThen (prefixed_id ''inst'') (\<lambda>iid.
             andThen (MachineCreate
               \<lparr> mc_id = iid, mc_user_id = userID, mc_name = name, mc_public_ip = publicIP,
                 mc_private_ip = privateIP, mc_agent_id = None, mc_status = ''pending_enrollment'',
                 mc_labels = labels, mc_capabilities = Map.empty, mc_created_at = zero_time,
                 mc_updated_at = zero_time \<rparr>) (\<lambda>inst.
             andThen (issueBootstrapToken env userID (mc_id inst) no_profile) (\<lambda>issue.
             return (ToInstanceSummary inst, issue))))))))"

definition IssueBootstrapTokenWithProfile ::
  "auth_env \<Rightarrow> string \<Rightarrow> string \<Rightarrow> BootstrapTokenProfile \<Rightarrow> BootstrapTokenIssue iprog" where
  "IssueBootstrapTokenWithProfile env userInput instanceInput profile =
     (let userID = trim_space userInput; instanceID = trim_space instanceInput
      in if userID = [] \<or> instanceID = [] then raise (Sentinel ErrInvalidInput)
         else
           andThen (MachineGetByIDForUser userID instanceID) (\<lambda>found.
           case found of
             None \<Rightarrow> raise (Sentinel ErrInstanceNotFound)
           | Some inst \<Rightarrow>
               if \<not> instanceBootstrapAllowed inst then raise (Sentinel ErrInstanceBootstrapNotAllowed)
               else
                 andThen clock_now (\<lambda>now.
                 andThen (RevokeActiveForInstance userID instanceID now) (\<lambda>_.
                 issueBootstrapToken env userID instanceID profile))))"

definition IssueBootstrapToken :: "auth_env \<Rightarrow> string \<Rightarrow> string \<Rightarrow> BootstrapTokenIssue iprog" where
  "IssueBootstrapToken env userID instanceID = IssueBootstrapTokenWithProfile env userID instanceID no_profile"

definition InstanceList :: "string \<Rightarrow> InstanceSummary list iprog" where
  "InstanceList userInput =
     (let userID = trim_space userInput
      in if userID = [] then raise (Sentinel ErrInvalidInput)
         else andThen (MachineListByUser userID) (\<lambda>ms. return (map ToInstanceSummary ms)))"

section \<open>Enrollment\<close>

record AgentMachineInfo =
  mi_hostname :: string
  mi_ips :: "string list"
  mi_labels :: "string \<rightharpoonup> string"

record EnrollmentCommand =
  ec_bootstrap_token :: string
  ec_runtime_mode :: string
  ec_agent_kind :: string
  ec_machine :: AgentMachineInfo
  ec_capabilities :: "payload option"

record EnrollmentResult =
  er_agent_id :: string
  er_agent_token :: string
  er_instance_id :: string
  er_issued_at :: time
  er_expires_at :: "time option"

definition validateEnrollmentMode :: "string \<Rightarrow> string \<Rightarrow> unit res" where
  "validateEnrollmentMode modeInput kindInput =
     (let runtimeMode = trim_space modeInput; agentKind = trim_space kindInput
      in if runtimeMode = [] \<or> agentKind = [] then Fail (Sentinel ErrInvalidInput)
         else if agentKind = ''instance_agent'' then
           (if runtimeMode \<noteq> ''standalone'' \<and> runtimeMode \<noteq> ''distributed-mesh''
            then Fail (Sentinel ErrInvalidInput) else Ok ())
         else if agentKind = ''node_agent'' then
           (if runtimeMode \<noteq> ''distributed-k3s'' then Fail (Sentinel ErrInvalidInput) else Ok ())
         else Fail (Sentinel ErrInvalidInput))"

definition validateBootstrapTokenProfile ::
  "BootstrapToken \<Rightarrow> string \<Rightarrow> string \<Rightarrow> AgentMachineInfo \<Rightarrow> unit res" where
  "validateBootstrapTokenProfile rec runtimeMode agentKind info =
     (let expectedMode = trim_space (bt_runtime_mode rec); expectedKind = trim_space (bt_agent_kind rec);
          expectedRef = trim_space (bt_target_ref rec)
      in if expectedMode \<noteq> [] \<and> expectedMode \<noteq> trim_space runtimeMode then Fail (Sentinel ErrInvalidInput)
         else if expectedKind \<noteq> [] \<and> expectedKind \<noteq> trim_space agentKind then Fail (Sentinel ErrInvalidInput)
         else if expectedRef = [] then Ok ()
         else if trim_space (map_get [] (mi_labels info) ''target_ref'') \<noteq> expectedRef
         then Fail (Sentinel ErrBootstrapOwnershipMismatch)
         else Ok ())"

text \<open>The loop over the reported addresses: whether one of them is allowed, and whether one is valid.\<close>

fun reported_ips :: "string list \<Rightarrow> string list \<Rightarrow> bool \<Rightarrow> bool \<times> bool" where
  "reported_ips allowed [] hasValid = (False, hasValid)"
| "reported_ips allowed (rawIP # rest) hasValid =
     (let value = trim_space rawIP
      in if value = [] then reported_ips allowed rest hasValid
         else case parse_ip value of
             None \<Rightarrow> reported_ips allowed rest hasValid
           | Some ip \<Rightarrow> if ip_string ip \<in> set allowed then (True, True) else reported_ips allowed rest True)"

definition validateEnrollmentMachineOwnership :: "Machine \<Rightarrow> AgentMachineInfo \<Rightarrow> string \<Rightarrow> unit res" where
  "validateEnrollmentMachineOwnership inst info agentKind =
     (if trim_space agentKind = ''node_agent'' then Ok ()
      else
        let known = (\<lambda>ip. case ip of None \<Rightarrow> [] | Some s \<Rightarrow> if s = [] then [] else [s]);
            allowed = known (mc_public_ip inst) @ known (mc_private_ip inst)
        in if allowed = [] then Ok ()
           else if (case mc_private_ip inst of None \<Rightarrow> True | Some ip \<Rightarrow> trim_space ip = []) then Ok ()
           else if mi_ips info = [] then Ok ()
           else
             let (matched, hasValidReportedIP) = reported_ips allowed (mi_ips info) False
             in if matched then Ok () else if \<not> hasValidReportedIP then Ok () else Ok ())"

definition normalizeEnrollmentAgentName :: "string \<Rightarrow> string \<Rightarrow> string" where
  "normalizeEnrollmentAgentName hostname fallback =
     (if NormalizeSpace hostname \<noteq> [] then NormalizeSpace hostname
      else if NormalizeSpace fallback \<noteq> [] then NormalizeSpace fallback
      else ''LazyOps Agent'')"

definition capabilities_document :: "payload option \<Rightarrow> payload" where
  "capabilities_document capabilities = (case capabilities of None \<Rightarrow> Map.empty | Some c \<Rightarrow> c)"

definition create_agent :: "Machine \<Rightarrow> string \<Rightarrow> time \<Rightarrow> Agent option iprog" where
  "create_agent inst agentName at =
     andThen (prefixed_id ''agt'') (\<lambda>aid.
     andThen (AgentCreate
       \<lparr> ag_id = aid, ag_user_id = mc_user_id inst, ag_agent_id = aid, ag_name = agentName,
         ag_status = ''online'', ag_last_seen = Some at, ag_updated_at = zero_time \<rparr>) (\<lambda>agent.
     return (Some agent)))"

definition resolveOrCreateAgent :: "Machine \<Rightarrow> string \<Rightarrow> time \<Rightarrow> Agent option iprog" where
  "resolveOrCreateAgent inst agentName at =
     (case mc_agent_id inst of
        None \<Rightarrow> create_agent inst agentName at
      | Some aid \<Rightarrow>
          if trim_space aid = [] then create_agent inst agentName at
          else
            andThen (GetByAgentIDForUser (mc_user_id inst) (trim_space aid)) (\<lambda>found.
            case found of
              None \<Rightarrow> create_agent inst agentName at
            | Some agent \<Rightarrow> UpdateStatusForUser (mc_user_id inst) (ag_agent_id agent) agentName ''online'' at))"

definition newOpaqueAgentToken :: "(string \<times> string) iprog" where
  "newOpaqueAgentToken = andThen random_secret (\<lambda>s.
     let token = ''lop_atok_'' @ s in return (token, token_prefix token))"

definition agentTokenTTL :: "auth_env \<Rightarrow> duration" where
  "agentTokenTTL env = (if en_agent_token_ttl env \<le> 0 then 30 * 24 * hour else en_agent_token_ttl env)"

text \<open>
  \<open>Enroll\<close> after its checks: agent, token, instance state, and last the mark on the bootstrap token.
  An update that finds no agent returns nil, and reading its fields panics.
\<close>

definition enroll_checked ::
  "auth_env \<Rightarrow> EnrollmentCommand \<Rightarrow> BootstrapToken \<Rightarrow> Machine \<Rightarrow> time \<Rightarrow> EnrollmentResult iprog" where
  "enroll_checked env cmd rec inst now =
     andThen (resolveOrCreateAgent inst
       (normalizeEnrollmentAgentName (mi_hostname (ec_machine cmd)) (mc_name inst)) now) (\<lambda>resolved.
     case resolved of
       None \<Rightarrow> raise (Errorf ''panic: nil pointer dereference'')
     | Some agent \<Rightarrow>
         andThen newOpaqueAgentToken (\<lambda>(rawToken, tokenPrefix).
         andThen (AgentTokenRevokeByAgent (ag_agent_id agent) now) (\<lambda>_.
         let expiresAt = Some (now + agentTokenTTL env)
         in andThen (prefixed_id ''atok'') (\<lambda>tid.
            andThen (AgentTokenCreate
              \<lparr> tk_id = tid, tk_user_id = mc_user_id inst, tk_instance_id = mc_id inst,
                tk_agent_id = ag_agent_id agent, tk_hash = hashOpaqueToken env rawToken, tk_prefix = tokenPrefix,
                tk_last_used = None, tk_expires_at = expiresAt, tk_revoked_at = None,
                tk_created_at = zero_time \<rparr>) (\<lambda>_.
            andThen (UpdateAgentState (mc_id inst) (ag_agent_id agent) ''online''
              (Some (capabilities_document (ec_capabilities cmd))) now) (\<lambda>_.
            andThen (MarkUsed (bt_id rec) now) (\<lambda>_.
            return \<lparr> er_agent_id = ag_agent_id agent, er_agent_token = rawToken, er_instance_id = mc_id inst,
                     er_issued_at = now, er_expires_at = expiresAt \<rparr>)))))))"

definition Enroll :: "auth_env \<Rightarrow> EnrollmentCommand \<Rightarrow> EnrollmentResult iprog" where
  "Enroll env cmd =
     (let bootstrapToken = trim_space (ec_bootstrap_token cmd)
      in if bootstrapToken = [] then raise (Sentinel ErrInvalidInput)
         else
           andThen (from_res (validateEnrollmentMode (ec_runtime_mode cmd) (ec_agent_kind cmd))) (\<lambda>_.
           andThen (BootstrapGetByHash (hashOpaqueToken env bootstrapToken)) (\<lambda>found.
           case found of
             None \<Rightarrow> raise (Sentinel ErrBootstrapTokenUnknown)
           | Some rec \<Rightarrow>
               andThen (from_res (validateBootstrapTokenProfile rec (ec_runtime_mode cmd) (ec_agent_kind cmd)
                 (ec_machine cmd))) (\<lambda>_.
               andThen clock_now (\<lambda>now.
               if bt_used_at rec \<noteq> None then raise (Sentinel ErrBootstrapTokenReused)
               else if bt_expires_at rec < now then raise (Sentinel ErrBootstrapTokenExpired)
               else
                 andThen (MachineGetByID (bt_instance_id rec)) (\<lambda>machine.
                 case machine of
                   None \<Rightarrow> raise (Sentinel ErrBootstrapOwnershipMismatch)
                 | Some inst \<Rightarrow>
                     if mc_user_id inst \<noteq> bt_user_id rec then raise (Sentinel ErrBootstrapOwnershipMismatch)
                     else
                       andThen (from_res (validateEnrollmentMachineOwnership inst (ec_machine cmd)
                         (ec_agent_kind cmd))) (\<lambda>_.
                       enroll_checked env cmd rec inst now)))))))"

section \<open>Heartbeats\<close>

record HeartbeatCommand =
  hb_user_id :: string
  hb_agent_id :: string
  hb_instance_id :: string
  hb_state :: string
  hb_health_status :: string
  hb_runtime_mode :: string
  hb_agent_kind :: string
  hb_sent_at :: time
  hb_capabilities :: "payload option"

record HeartbeatResult =
  hr_agent_id :: string
  hr_instance_id :: string
  hr_agent_status :: string
  hr_instance_status :: string
  hr_received_at :: time

definition normalizeAgentHeartbeatStatus :: "string \<Rightarrow> string \<Rightarrow> string" where
  "normalizeAgentHeartbeatStatus healthStatus state =
     (let h = trim_space (to_lower healthStatus); s = trim_space (to_lower state)
      in if h = ''busy'' then ''busy'' else if h = ''degraded'' then ''error''
         else if h = ''offline'' then ''offline'' else if h = ''online'' then ''online''
         else if s = ''reconciling'' then ''busy'' else if s = ''degraded'' then ''error''
         else if s = ''disconnected'' then ''offline'' else ''online'')"

definition normalizeInstanceHeartbeatStatus :: "string \<Rightarrow> string \<Rightarrow> string" where
  "normalizeInstanceHeartbeatStatus healthStatus state =
     (let h = trim_space (to_lower healthStatus); s = trim_space (to_lower state)
      in if h = ''degraded'' then ''degraded'' else if h = ''offline'' then ''offline''
         else if h = ''busy'' then ''online'' else if h = ''online'' then ''online''
         else if s = ''degraded'' then ''degraded'' else if s = ''disconnected'' then ''offline''
         else ''online'')"

definition Heartbeat :: "HeartbeatCommand \<Rightarrow> HeartbeatResult iprog" where
  "Heartbeat cmd =
     (let userID = trim_space (hb_user_id cmd); agentID = trim_space (hb_agent_id cmd);
          instanceID = trim_space (hb_instance_id cmd)
      in if userID = [] \<or> agentID = [] \<or> instanceID = [] then raise (Sentinel ErrInvalidInput)
         else
           andThen (from_res (validateEnrollmentMode (hb_runtime_mode cmd) (hb_agent_kind cmd))) (\<lambda>_.
           andThen (if is_zero (hb_sent_at cmd) then clock_now else return (hb_sent_at cmd)) (\<lambda>at.
           let agentStatus = normalizeAgentHeartbeatStatus (hb_health_status cmd) (hb_state cmd);
               instanceStatus = normalizeInstanceHeartbeatStatus (hb_health_status cmd) (hb_state cmd)
           in andThen (UpdateStatusForUser userID agentID [] agentStatus at) (\<lambda>agent.
              if agent = None then raise (Sentinel ErrAgentNotFound)
              else
                andThen (UpdateAgentState instanceID agentID instanceStatus (hb_capabilities cmd) at) (\<lambda>machine.
                case machine of
                  None \<Rightarrow> raise (Sentinel ErrBootstrapOwnershipMismatch)
                | Some inst \<Rightarrow>
                    if mc_user_id inst \<noteq> userID then raise (Sentinel ErrBootstrapOwnershipMismatch)
                    else
                      andThen clock_now (\<lambda>received.
                      return \<lparr> hr_agent_id = agentID, hr_instance_id = instanceID, hr_agent_status = agentStatus,
                               hr_instance_status = instanceStatus, hr_received_at = received \<rparr>))))))"

section \<open>Agents\<close>

definition normalizeAgentStatus :: "string \<Rightarrow> string" where
  "normalizeAgentStatus status =
     (let s = to_lower (trim_space status) in if s \<in> {''online'', ''busy'', ''error''} then s else ''offline'')"

definition AgentList :: "string \<Rightarrow> Agent list iprog" where
  "AgentList userID =
     (if trim_space userID = [] then raise (Sentinel ErrInvalidInput) else AgentListByUser (trim_space userID))"

definition AgentServiceCreate :: "string \<Rightarrow> string \<Rightarrow> string \<Rightarrow> string \<Rightarrow> Agent iprog" where
  "AgentServiceCreate userID agentID name status =
     (if trim_space userID = [] \<or> trim_space agentID = [] \<or> trim_space name = [] then
        raise (Sentinel ErrInvalidInput)
      else
        andThen (prefixed_id ''agt'') (\<lambda>aid.
        AgentCreate
          \<lparr> ag_id = aid, ag_user_id = trim_space userID, ag_agent_id = trim_space agentID,
            ag_name = trim_space name, ag_status = normalizeAgentStatus status, ag_last_seen = None,
            ag_updated_at = zero_time \<rparr>))"

definition AgentServiceUpdateStatus :: "string \<Rightarrow> string \<Rightarrow> string \<Rightarrow> string \<Rightarrow> time \<Rightarrow> Agent iprog" where
  "AgentServiceUpdateStatus userID agentID name status at =
     (if trim_space userID = [] \<or> trim_space agentID = [] then raise (Sentinel ErrInvalidInput)
      else
        andThen (if is_zero at then clock_now else return at) (\<lambda>when.
        andThen (UpdateStatusForUser (trim_space userID) (trim_space agentID) (trim_space name)
          (normalizeAgentStatus status) when) (\<lambda>agent.
        case agent of None \<Rightarrow> raise (Sentinel ErrAgentNotFound) | Some a \<Rightarrow> return a)))"

section \<open>What the operations keep\<close>

lemma within_issue [id_within]:
  assumes "persistent F" and "\<And>w. F w \<Longrightarrow> owns userID instanceID w"
  shows "within (secured F) persists (issueBootstrapToken env userID instanceID profile)"
  unfolding issueBootstrapToken_def newOpaqueBootstrapToken_def
  by (intro identity.within_rules id_within assms(1)) (simp add: assms(2))

lemma query_Ok: "db_query f w = (Inr x, w1) \<Longrightarrow> \<exists>fs. x = f w \<and> w1 = w\<lparr>id_faults := fs\<rparr>"
  by (auto simp: db_query_def split: list.splits bool.splits)

lemma owns_io [simp]:
  "owns u i (w\<lparr>id_faults := f\<rparr>) = owns u i w" "owns u i (w\<lparr>id_tick := t\<rparr>) = owns u i w"
  by (simp_all add: owns_def find_machine_def)

lemma secured_conj: "(\<lambda>w. secured F w \<and> G w) = secured (\<lambda>w. F w \<and> G w)"
  by (auto simp: secured_def fun_eq_iff)

lemma find_distinct:
  "distinct (map key rows) \<Longrightarrow> r \<in> set rows \<Longrightarrow> List.find (\<lambda>x. key x = key r) rows = Some r"
  by (induction rows) (auto simp: image_iff)

lemma machine_for_user_owned:
  assumes "secured F w" and "MachineGetByIDForUser uid iid w = (Inr (Some m), w1)"
  shows "owns uid iid w1"
proof -
  obtain fs where fs: "Some m = List.find (\<lambda>m. mc_user_id m = uid \<and> mc_id m = iid) (id_machines w)"
    "w1 = w\<lparr>id_faults := fs\<rparr>"
    using query_Ok [OF assms(2) [unfolded MachineGetByIDForUser_def]] by blast
  then have "m \<in> set (id_machines w)" "mc_user_id m = uid" "mc_id m = iid"
    by (auto simp: eq_commute [of "Some m"] find_Some_iff)
  then have "find_machine iid w = Some m"
    using assms(1) find_distinct [of mc_id "id_machines w" m] by (simp add: secured_def owned_def find_machine_def)
  with \<open>mc_user_id m = uid\<close> fs(2) show ?thesis by (auto simp: owns_def find_machine_def)
qed

lemma machine_by_id_owned:
  assumes "MachineGetByID iid w = (Inr (Some m), w1)"
  shows "owns (mc_user_id m) (mc_id m) w1" and "mc_id m = iid"
proof -
  obtain fs where "find_machine iid w = Some m" "w1 = w\<lparr>id_faults := fs\<rparr>"
    using query_Ok [OF assms [unfolded MachineGetByID_def]] by auto
  then show "owns (mc_user_id m) (mc_id m) w1" and "mc_id m = iid"
    by (auto simp: owns_def find_machine_def find_Some_iff)
qed

lemma created_machine_owned:
  assumes "MachineCreate m w = (Inr row, w1)"
  shows "owns (mc_user_id m) (mc_id row) w1"
proof -
  have "\<forall>v \<in> set (id_machines w). mc_id v \<noteq> mc_id m \<Longrightarrow> List.find (\<lambda>x. mc_id x = mc_id m) (id_machines w) = None"
    by (auto simp: find_None_iff)
  then show ?thesis
    using assms
    by (auto simp: MachineCreate_def andThen_Ok_iff clock_now_def db_exec_def Let_def owns_def find_machine_def
        find_append split: list.splits bool.splits if_splits)
qed

lemma within_instances [id_within]:
  assumes F: "persistent F"
  shows "within (secured F) persists (IssueBootstrapTokenWithProfile env uid iid profile)"
    and "within (secured F) persists (InstanceCreate env cmd)"
    and "within (secured F) persists (InstanceList uid)"
proof -
  have issue: "within (secured (\<lambda>w. F w \<and> (m \<noteq> None \<longrightarrow> owns u i w))) persists (case m of
      None \<Rightarrow> raise (Sentinel ErrInstanceNotFound)
    | Some inst \<Rightarrow>
        if \<not> instanceBootstrapAllowed inst then raise (Sentinel ErrInstanceBootstrapNotAllowed)
        else
          andThen clock_now (\<lambda>now.
          andThen (RevokeActiveForInstance u i now) (\<lambda>_.
          issueBootstrapToken env u i profile)))" for m :: "Machine option" and u i
    using F by (cases m) (auto intro!: identity.within_rules id_within)
  show "within (secured F) persists (IssueBootstrapTokenWithProfile env uid iid profile)"
    unfolding IssueBootstrapTokenWithProfile_def Let_def
    by (intro identity.within_if identity.within_raise
        identity.within_andThen_learn [where J = "\<lambda>m w. m \<noteq> None \<longrightarrow> owns (trim_space uid) (trim_space iid) w"]
        id_within F)
      (auto simp: secured_conj simp del: not_None_eq intro: issue machine_for_user_owned)
  have created: "within (secured (\<lambda>w. F w \<and> owns u (mc_id m) w)) persists
      (andThen (issueBootstrapToken env u (mc_id m) no_profile) (\<lambda>issue. return (ToInstanceSummary m, issue)))"
    for m and u
    using F by (auto intro!: identity.within_rules id_within)
  show "within (secured F) persists (InstanceCreate env cmd)"
    unfolding InstanceCreate_def Let_def
    by (intro identity.within_if identity.within_raise identity.within_andThen_from_res identity.within_prod
        identity.within_andThen [OF within_queries(10) [OF F]] identity.within_andThen [OF within_reads(2) [OF F]]
        identity.within_andThen_learn [where J = "\<lambda>m w. owns (trim_space (ci_user_id cmd)) (mc_id m) w"]
        within_inserts(3) F)
      (auto simp: secured_conj intro: created dest: created_machine_owned)
  show "within (secured F) persists (InstanceList uid)"
    unfolding InstanceList_def Let_def by (intro identity.within_rules id_within F)
qed

lemma within_agents [id_within]:
  assumes "persistent F"
  shows "within (secured F) persists (resolveOrCreateAgent inst name at)"
    and "within (secured F) persists (Heartbeat cmd)"
    and "within (secured F) persists (AgentList uid)"
    and "within (secured F) persists (AgentServiceCreate uid aid name status)"
    and "within (secured F) persists (AgentServiceUpdateStatus uid aid name status at)"
  unfolding resolveOrCreateAgent_def create_agent_def Heartbeat_def AgentList_def AgentServiceCreate_def
    AgentServiceUpdateStatus_def
  by (intro identity.within_rules id_within assms)+

lemma within_enroll_checked:
  assumes "persistent F" and "\<And>w. F w \<Longrightarrow> owns (mc_user_id inst) (mc_id inst) w"
  shows "within (secured F) persists (enroll_checked env cmd rec inst now)"
  unfolding enroll_checked_def newOpaqueAgentToken_def
  by (intro identity.within_rules id_within assms(1)) (simp add: assms(2))

lemma within_Enroll [id_within]:
  assumes F: "persistent F"
  shows "within (secured F) persists (Enroll env cmd)"
proof -
  have rest: "within (secured (\<lambda>w. F w \<and> (m \<noteq> None \<longrightarrow> owns (mc_user_id (the m)) (mc_id (the m)) w))) persists
    (case m of
       None \<Rightarrow> raise (Sentinel ErrBootstrapOwnershipMismatch)
     | Some inst \<Rightarrow>
         if mc_user_id inst \<noteq> bt_user_id rec then raise (Sentinel ErrBootstrapOwnershipMismatch)
         else
           andThen (from_res (validateEnrollmentMachineOwnership inst (ec_machine cmd)
             (ec_agent_kind cmd))) (\<lambda>_.
           enroll_checked env cmd rec inst now))" for m rec now
    using F by (cases m) (auto intro!: identity.within_rules within_enroll_checked)
  have learn: "within (secured F) persists (andThen (MachineGetByID i) (\<lambda>machine. f machine))"
    if "\<And>m. within (secured (\<lambda>w. F w \<and> (m \<noteq> None \<longrightarrow> owns (mc_user_id (the m)) (mc_id (the m)) w))) persists (f m)"
    for i f
    by (rule identity.within_andThen_learn
        [where J = "\<lambda>m w. m \<noteq> None \<longrightarrow> owns (mc_user_id (the m)) (mc_id (the m)) w"])
      (use that F in \<open>auto simp: secured_conj intro: id_within dest: machine_by_id_owned\<close>)
  show ?thesis
    unfolding Enroll_def Let_def
    by (intro identity.within_if identity.within_raise identity.within_andThen_from_res identity.within_option
        identity.within_andThen [OF within_queries(6) [OF F]] identity.within_andThen [OF within_reads(1) [OF F]]
        learn rest)
qed

end
