(* ===== verification/Credentials.thy ===== *)
theory Credentials
  imports Enrollment
begin

text \<open>
  What the credential services of theories AuthService and Enrollment guarantee together, over any
  sequence of requests and database failures: bootstrap tokens work once, a new enrollment ends the
  old agent tokens, revoked tokens never come back, and an authenticated agent touches the machines
  of its own user only.
\<close>

section \<open>The services as a machine\<close>

datatype identity_call =
    CRegister string string string
  | CLogin string string
  | CCLILogin string string string string
  | CRevokePAT string string
  | CParseToken string
  | CInstanceCreate CreateInstanceCommand
  | CInstanceList string
  | CIssueBootstrap string string BootstrapTokenProfile
  | CEnroll EnrollmentCommand
  | CHeartbeat HeartbeatCommand
  | CAgentList string
  | CAgentCreate string string string string
  | CAgentStatus string string string string time

fun identity_step :: "auth_env \<Rightarrow> identity_call \<Rightarrow> identity \<Rightarrow> identity" where
  "identity_step env (CRegister n e p) w = snd (RegisterUser env n e p w)"
| "identity_step env (CLogin e p) w = snd (Login env e p w)"
| "identity_step env (CCLILogin f e p d) w = snd (CLILogin env f e p d w)"
| "identity_step env (CRevokePAT u t) w = snd (RevokePAT u t w)"
| "identity_step env (CParseToken t) w = snd (ParseToken env t w)"
| "identity_step env (CInstanceCreate c) w = snd (InstanceCreate env c w)"
| "identity_step env (CInstanceList u) w = snd (InstanceList u w)"
| "identity_step env (CIssueBootstrap u i p) w = snd (IssueBootstrapTokenWithProfile env u i p w)"
| "identity_step env (CEnroll c) w = snd (Enroll env c w)"
| "identity_step env (CHeartbeat c) w = snd (Heartbeat c w)"
| "identity_step env (CAgentList u) w = snd (AgentList u w)"
| "identity_step env (CAgentCreate u a n s) w = snd (AgentServiceCreate u a n s w)"
| "identity_step env (CAgentStatus u a n s t) w = snd (AgentServiceUpdateStatus u a n s t w)"

lemma identity_step_keeps:
  assumes "persistent F" and "secured F w"
  shows "secured F (identity_step env e w) \<and> persists w (identity_step env e w)"
  by (cases e; simp only: identity_step.simps; rule within_snd [where I = "secured F", OF _ assms(2)]; rule id_within [OF assms(1)])

text \<open>The databases considered: those reachable from empty tables.\<close>

definition NewIdentity ::
  "bool list \<Rightarrow> (nat \<Rightarrow> time) \<Rightarrow> (nat \<Rightarrow> string) \<Rightarrow> (nat \<Rightarrow> string option) \<Rightarrow> identity" where
  "NewIdentity faults clock fresh random =
     \<lparr> id_users = [], id_pats = [], id_agent_tokens = [], id_bootstrap = [], id_agents = [], id_machines = [],
       id_faults = faults, id_clock = clock, id_tick = 0, id_fresh = fresh, id_next = 0,
       id_random = random, id_drawn = 0 \<rparr>"

lemma owned_new: "owned (NewIdentity faults clock fresh random)"
  by (simp add: owned_def token_ties_def NewIdentity_def)

interpretation credentials: machine "identity_step env" "\<lambda>_ _. True" owned for env
proof
  fix w e
  assume "owned w"
  then have "secured (\<lambda>_. True) w" by (simp add: secured_def)
  then show "owned (identity_step env e w)"
    using identity_step_keeps [of "\<lambda>_. True" w env e] by (simp add: secured_def)
qed

lemma calls_always_ok [simp]: "calls_ok (\<lambda>_ _. True) step es s"
  by (induction es arbitrary: s) simp_all

lemma run_owned: "owned w \<Longrightarrow> owned (run (identity_step env) es w)"
  by (rule credentials.invar_run) simp_all

lemma run_persists: "owned w \<Longrightarrow> persists w (run (identity_step env) es w)"
proof (rule credentials.invar_run_rel)
  fix a e assume "owned a"
  then show "persists a (identity_step env e a)"
    using identity_step_keeps [of "\<lambda>_. True" a env e] by (simp add: secured_def)
qed (auto intro: persists_trans)

section \<open>A successful enrollment\<close>

text \<open>Making or finding the agent leaves all tokens and machines alone.\<close>

definition same_tokens :: "identity \<Rightarrow> identity \<Rightarrow> bool" where
  "same_tokens w w' \<longleftrightarrow> id_agent_tokens w' = id_agent_tokens w \<and> id_bootstrap w' = id_bootstrap w \<and>
     id_machines w' = id_machines w \<and> id_users w' = id_users w \<and> id_pats w' = id_pats w \<and> id_random w' = id_random w"

interpretation agents_only: guarantee "\<lambda>_. True" same_tokens
  by unfold_locales (auto simp: same_tokens_def)

lemma same_tokens_calls:
  "within (\<lambda>_. True) same_tokens clock_now" "within (\<lambda>_. True) same_tokens (prefixed_id p)"
  "within (\<lambda>_. True) same_tokens random_secret" "within (\<lambda>_. True) same_tokens (db_query f)"
  by (auto simp: within_def same_tokens_def clock_now_def prefixed_id_def random_secret_def db_query_def
      split: list.splits bool.splits)

lemma same_tokens_exec:
  "(\<And>w. same_tokens w (f w)) \<Longrightarrow> within (\<lambda>_. True) same_tokens (db_exec clash f)"
  by (auto simp: within_def db_exec_def same_tokens_def split: list.splits bool.splits)

lemma same_tokens_agent:
  "within (\<lambda>_. True) same_tokens (resolveOrCreateAgent inst name at)"
  unfolding resolveOrCreateAgent_def create_agent_def GetByAgentIDForUser_def UpdateStatusForUser_def AgentCreate_def
  by (intro agents_only.within_rules same_tokens_calls same_tokens_exec; simp add: same_tokens_def)

lemma clock_Ok: "clock_now w = (Inr x, w1) \<longleftrightarrow> x = id_clock w (id_tick w) \<and> w1 = w\<lparr>id_tick := id_tick w + 1\<rparr>"
  by (auto simp: clock_now_def)

lemma id_Ok: "prefixed_id p w = (Inr x, w1) \<longleftrightarrow>
    x = p @ ''_'' @ id_fresh w (id_next w) \<and> w1 = w\<lparr>id_next := id_next w + 1\<rparr>"
  by (auto simp: prefixed_id_def)

lemma secret_Ok: "random_secret w = (Inr x, w1) \<longleftrightarrow>
    id_random w (id_drawn w) = Some x \<and> w1 = w\<lparr>id_drawn := id_drawn w + 1\<rparr>"
  by (auto simp: random_secret_def split: option.splits)

lemma exec_Ok: "db_exec clash f w = (Inr x, w1) \<Longrightarrow> \<exists>fs. \<not> clash w \<and> w1 = f (w\<lparr>id_faults := fs\<rparr>)"
  by (auto simp: db_exec_def split: list.splits bool.splits if_splits)

definition issued_token :: "auth_env \<Rightarrow> Machine \<Rightarrow> EnrollmentResult \<Rightarrow> AgentToken \<Rightarrow> bool" where
  "issued_token env inst r t \<longleftrightarrow>
     tk_hash t = hashOpaqueToken env (er_agent_token r) \<and> tk_user_id t = mc_user_id inst \<and>
     tk_instance_id t = mc_id inst \<and> tk_agent_id t = er_agent_id r \<and> tk_revoked_at t = None \<and>
     tk_expires_at t = er_expires_at r"

text \<open>The tables a successful enrollment leaves behind, given those it found.\<close>

lemma enroll_checked_Ok:
  assumes "enroll_checked env cmd rec inst now w = (Inr r, w1)"
  obtains t s n where "issued_token env inst r t"
    and "er_agent_token r = ''lop_atok_'' @ s" and "id_random w n = Some s"
    and "er_instance_id r = mc_id inst" and "er_expires_at r = Some (now + agentTokenTTL env)"
    and "find_agent_token (tk_hash t) w = None"
    and "id_agent_tokens w1 = update_rows (\<lambda>t. tk_agent_id t = er_agent_id r \<and> tk_revoked_at t = None)
      (\<lambda>t. t\<lparr>tk_revoked_at := Some now\<rparr>) (id_agent_tokens w) @ [t]"
    and "id_bootstrap w1 = update_rows (\<lambda>b. bt_id b = bt_id rec) (\<lambda>b. b\<lparr>bt_used_at := Some now\<rparr>) (id_bootstrap w)"
    and "id_users w1 = id_users w"
proof -
  obtain agent w2 where res: "resolveOrCreateAgent inst (normalizeEnrollmentAgentName (mi_hostname (ec_machine cmd))
      (mc_name inst)) now w = (Inr (Some agent), w2)"
    and rest: "(andThen newOpaqueAgentToken (\<lambda>(rawToken, tokenPrefix).
         andThen (AgentTokenRevokeByAgent (ag_agent_id agent) now) (\<lambda>_.
         let expiresAt = Some (now + agentTokenTTL env)
         in andThen (prefixed_id ''atok'') (\<lambda>tid.
            andThen (AgentTokenCreate
              \<lparr> tk_id = tid, tk_user_id = mc_user_id inst, tk_instance_id = mc_id inst,
                tk_agent_id = ag_agent_id agent, tk_hash = hashOpaqueToken env rawToken, tk_prefix = tokenPrefix,
                tk_last_used = None, tk_expires_at = expiresAt, tk_revoked_at = None,
                tk_created_at = zero_time \<rparr>) (\<lambda>_.
            andThen (UpdateAgentState (mc_id inst) (ag_agent_id agent) ''online''
              (Some (capabilities_document (ec_capabilities cmd))) now) (\<lambda>_.
            andThen (MarkUsed (bt_id rec) now) (\<lambda>_.
            return \<lparr> er_agent_id = ag_agent_id agent, er_agent_token = rawToken, er_instance_id = mc_id inst,
                     er_issued_at = now, er_expires_at = expiresAt \<rparr>))))))) w2 = (Inr r, w1)"
    using assms unfolding enroll_checked_def andThen_Ok_iff [of "resolveOrCreateAgent _ _ _"]
    by (auto split: option.splits)
  have same: "same_tokens w w2"
    using withinD [OF same_tokens_agent _ res] by simp
  let ?row = "\<lambda>tid s. \<lparr> tk_id = tid, tk_user_id = mc_user_id inst, tk_instance_id = mc_id inst,
        tk_agent_id = ag_agent_id agent, tk_hash = hashOpaqueToken env (''lop_atok_'' @ s),
        tk_prefix = token_prefix (''lop_atok_'' @ s), tk_last_used = None,
        tk_expires_at = Some (now + agentTokenTTL env), tk_revoked_at = None, tk_created_at = zero_time \<rparr>"
  from rest obtain s tid w3 w4 w5 w6 w7 m where
    steps: "random_secret w2 = (Inr s, w3)"
      "AgentTokenRevokeByAgent (ag_agent_id agent) now w3 = (Inr (), w4)"
      "prefixed_id ''atok'' w4 = (Inr tid, w5)"
      "AgentTokenCreate (?row tid s) w5 = (Inr (), w6)"
      "UpdateAgentState (mc_id inst) (ag_agent_id agent) ''online''
        (Some (capabilities_document (ec_capabilities cmd))) now w6 = (Inr m, w7)"
      "MarkUsed (bt_id rec) now w7 = (Inr (), w1)"
    and r: "r = \<lparr> er_agent_id = ag_agent_id agent, er_agent_token = ''lop_atok_'' @ s, er_instance_id = mc_id inst,
           er_issued_at = now, er_expires_at = Some (now + agentTokenTTL env) \<rparr>"
    by (auto simp: newOpaqueAgentToken_def andThen_Ok_iff Let_def)
  have 3: "id_random w2 (id_drawn w2) = Some s" "same_tokens w2 w3"
    using steps(1) by (auto simp: secret_Ok same_tokens_def)
  have 4: "id_agent_tokens w4 = update_rows (\<lambda>t. tk_agent_id t = ag_agent_id agent \<and> tk_revoked_at t = None)
      (\<lambda>t. t\<lparr>tk_revoked_at := Some now\<rparr>) (id_agent_tokens w3)" "id_bootstrap w4 = id_bootstrap w3" "id_users w4 = id_users w3"
    using exec_Ok [OF steps(2) [unfolded AgentTokenRevokeByAgent_def]] by auto
  have 5: "same_tokens w4 w5" using steps(3) by (auto simp: id_Ok same_tokens_def)
  obtain c where 6: "id_agent_tokens w6 = id_agent_tokens w5 @ [(?row tid s)\<lparr>tk_created_at := c\<rparr>]"
      "id_bootstrap w6 = id_bootstrap w5" "id_users w6 = id_users w5"
      "\<forall>v \<in> set (id_agent_tokens w5). tk_hash v \<noteq> hashOpaqueToken env (''lop_atok_'' @ s)"
    using steps(4) by (auto simp: AgentTokenCreate_def andThen_Ok_iff clock_Ok dest!: exec_Ok)
  have 7: "id_agent_tokens w7 = id_agent_tokens w6" "id_bootstrap w7 = id_bootstrap w6" "id_users w7 = id_users w6"
    using steps(5) by (auto simp: UpdateAgentState_def MachineGetByID_def andThen_Ok_iff dest!: exec_Ok query_Ok)
  have 8: "id_agent_tokens w1 = id_agent_tokens w7" "id_users w1 = id_users w7"
      "id_bootstrap w1 = update_rows (\<lambda>b. bt_id b = bt_id rec) (\<lambda>b. b\<lparr>bt_used_at := Some now\<rparr>) (id_bootstrap w7)"
    using exec_Ok [OF steps(6) [unfolded MarkUsed_def]] by auto
  have "id_agent_tokens w5 = update_rows (\<lambda>t. tk_agent_id t = ag_agent_id agent \<and> tk_revoked_at t = None)
      (\<lambda>t. t\<lparr>tk_revoked_at := Some now\<rparr>) (id_agent_tokens w)"
    using 4(1) 5 3(2) same by (simp add: same_tokens_def)
  moreover have "find_agent_token (hashOpaqueToken env (''lop_atok_'' @ s)) w5 = None"
    using 6(4) by (simp add: find_agent_token_def find_None_iff)
  ultimately have unseen: "find_agent_token (hashOpaqueToken env (''lop_atok_'' @ s)) w = None"
    by (simp add: find_agent_token_def find_update_rows)
  have tokens: "id_agent_tokens w1 = update_rows (\<lambda>t. tk_agent_id t = er_agent_id r \<and> tk_revoked_at t = None)
      (\<lambda>t. t\<lparr>tk_revoked_at := Some now\<rparr>) (id_agent_tokens w) @ [(?row tid s)\<lparr>tk_created_at := c\<rparr>]"
    and boots: "id_bootstrap w1 =
      update_rows (\<lambda>b. bt_id b = bt_id rec) (\<lambda>b. b\<lparr>bt_used_at := Some now\<rparr>) (id_bootstrap w)"
    and users: "id_users w1 = id_users w"
    using 3(2) 4 5 6(1-3) 7 8 same by (simp_all add: same_tokens_def r)
  have drawn: "id_random w (id_drawn w2) = Some s" using 3(1) same by (simp add: same_tokens_def)
  show thesis
    by (rule that [OF _ _ drawn _ _ _ tokens boots users])
      (use unseen in \<open>simp_all add: issued_token_def r\<close>)
qed

text \<open>What a successful \<open>Enroll\<close> has checked before.\<close>

lemma Enroll_Ok:
  assumes "Enroll env cmd w = (Inr r, w1)"
  obtains rec inst now w2 where
    "find_bootstrap (hashOpaqueToken env (trim_space (ec_bootstrap_token cmd))) w = Some rec"
    "bt_used_at rec = None" "now \<le> bt_expires_at rec" "find_machine (bt_instance_id rec) w = Some inst"
    "mc_user_id inst = bt_user_id rec" "same_tokens w w2" "enroll_checked env cmd rec inst now w2 = (Inr r, w1)"
proof -
  from assms obtain w1' w2' w3' rec inst now where
    steps: "BootstrapGetByHash (hashOpaqueToken env (trim_space (ec_bootstrap_token cmd))) w = (Inr (Some rec), w1')"
      "clock_now w1' = (Inr now, w2')" "MachineGetByID (bt_instance_id rec) w2' = (Inr (Some inst), w3')"
      "bt_used_at rec = None" "\<not> bt_expires_at rec < now" "mc_user_id inst = bt_user_id rec"
      "enroll_checked env cmd rec inst now w3' = (Inr r, w1)"
    unfolding Enroll_def Let_def
    by (auto simp: andThen_Ok_iff split: if_splits option.splits)
  show thesis
    by (rule that [OF _ steps(4) _ _ steps(6) _ steps(7)])
      (use steps in \<open>auto simp: BootstrapGetByHash_def MachineGetByID_def clock_Ok find_bootstrap_def
        find_machine_def same_tokens_def dest!: query_Ok\<close>)
qed

text \<open>An enrollment needs an unused token; its own it leaves used.\<close>

lemma enroll_uses_token:
  assumes "Enroll env cmd w = (Inr r, w1)"
  shows "\<exists>b. find_bootstrap (hashOpaqueToken env (trim_space (ec_bootstrap_token cmd))) w1 = Some b \<and>
    bt_used_at b \<noteq> None"
proof (rule Enroll_Ok [OF assms])
  fix rec inst now w2
  assume rec: "find_bootstrap (hashOpaqueToken env (trim_space (ec_bootstrap_token cmd))) w = Some rec"
    and same: "same_tokens w w2" and run: "enroll_checked env cmd rec inst now w2 = (Inr r, w1)"
  obtain t s n where "id_bootstrap w1 =
      update_rows (\<lambda>b. bt_id b = bt_id rec) (\<lambda>b. b\<lparr>bt_used_at := Some now\<rparr>) (id_bootstrap w)"
    by (rule enroll_checked_Ok [OF run]) (use same in \<open>simp add: same_tokens_def\<close>)
  then show ?thesis
    using rec by (simp add: find_bootstrap_def find_update_rows)
qed

text \<open>
  Property C12: a bootstrap token works once. After a successful enrollment, whatever requests and
  database failures follow, no enrollment with a bootstrap token of the same hash succeeds.
\<close>

theorem bootstrap_token_single_use:
  assumes "w = run (identity_step env) before (NewIdentity faults clock fresh random)"
    and "Enroll env cmd w = (Inr r, w1)"
    and "hashOpaqueToken env (trim_space (ec_bootstrap_token cmd')) =
      hashOpaqueToken env (trim_space (ec_bootstrap_token cmd))"
  shows "\<not> is_ok (fst (Enroll env cmd' (run (identity_step env) after w1)))"
proof
  let ?w2 = "run (identity_step env) after w1" and ?h = "hashOpaqueToken env (trim_space (ec_bootstrap_token cmd))"
  assume "is_ok (fst (Enroll env cmd' ?w2))"
  then obtain r' w3 where ok: "Enroll env cmd' ?w2 = (Inr r', w3)" by (cases "Enroll env cmd' ?w2") (auto simp: is_ok_iff)
  have "owned w" unfolding assms(1) by (intro run_owned owned_new)
  then have "owned w1"
    using identity_step_keeps [of "\<lambda>_. True" w env "CEnroll cmd"] assms(2) by (simp add: secured_def)
  then have later: "persists w1 ?w2" by (rule run_persists)
  obtain b where b: "find_bootstrap ?h w1 = Some b" "bt_used_at b \<noteq> None"
    using enroll_uses_token [OF assms(2)] by blast
  then obtain b' where "find_bootstrap ?h ?w2 = Some b'" "bt_used_at b' \<noteq> None"
    using later unfolding persists_def keeps_def find_bootstrap_def same_bootstrap_def by metis
  then show False by (rule_tac Enroll_Ok [OF ok]) (simp add: assms(3))
qed

definition demo_env :: auth_env where
  "demo_env =
     \<lparr> en_hash = (\<lambda>s. CHR ''h'' # s), en_bcrypt = (\<lambda>n pw. Ok pw), en_bcrypt_ok = (\<lambda>h pw. h = pw),
       en_parse_address = Some, en_jwt_parse = (\<lambda>_ _. JwtInvalid), en_jwt_sign = (\<lambda>_. Ok ''jwt''),
       en_jwt_issuer = ''lazyops'', en_jwt_expires_in = hour, en_pat_expires_in = hour, en_agent_tokens = True,
       en_agent_token_ttl = 0, en_bootstrap_token_ttl = 0 \<rparr>"

text \<open>A user, her machine with a first agent, and a second bootstrap token for it.\<close>

definition demo_instance :: CreateInstanceCommand where
  "demo_instance =
     \<lparr> ci_user_id = ''usr_0'', ci_name = ''edge'', ci_public_ip = [], ci_private_ip = [], ci_labels = [] \<rparr>"

definition demo_enroll :: "string \<Rightarrow> EnrollmentCommand" where
  "demo_enroll token =
     \<lparr> ec_bootstrap_token = token, ec_runtime_mode = ''standalone'', ec_agent_kind = ''instance_agent'',
       ec_machine = \<lparr> mi_hostname = [], mi_ips = [], mi_labels = Map.empty \<rparr>, ec_capabilities = None \<rparr>"

definition demo_requests :: "identity_call list" where
  "demo_requests =
     [CRegister ''Ada'' ''ada@x.io'' ''Secret123'', CInstanceCreate demo_instance,
      CEnroll (demo_enroll ''lop_boot_1''), CIssueBootstrap ''usr_0'' ''inst_2'' no_profile]"

definition demo_identity :: identity where
  "demo_identity = NewIdentity [] (\<lambda>_. 5) digits_of (\<lambda>n. Some (digits_of n))"

definition demo_world :: identity where
  "demo_world = run (identity_step demo_env) demo_requests demo_identity"

lemma demo_enroll_token [simp]: "ec_bootstrap_token (demo_enroll t) = t"
  by (simp add: demo_enroll_def)

lemma demo_world_run: "demo_world = run (identity_step demo_env) demo_requests
    (NewIdentity [] (\<lambda>_. 5) digits_of (\<lambda>n. Some (digits_of n)))"
  by (simp add: demo_world_def demo_identity_def)

lemma demo_enroll_ok: "is_ok (fst (Enroll demo_env (demo_enroll ''lop_boot_3'') demo_world))"
  by code_simp

theorem bootstrap_token_single_use_witness:
  "\<not> is_ok (fst (Enroll demo_env (demo_enroll '' lop_boot_3'')
     (run (identity_step demo_env) [CAgentList ''usr_0'']
       (snd (Enroll demo_env (demo_enroll ''lop_boot_3'') demo_world)))))"
proof -
  obtain r w1 where run: "Enroll demo_env (demo_enroll ''lop_boot_3'') demo_world = (Inr r, w1)"
    using demo_enroll_ok by (cases "Enroll demo_env (demo_enroll ''lop_boot_3'') demo_world") (auto simp: is_ok_iff)
  have "trim_space '' lop_boot_3'' = trim_space ''lop_boot_3''"
    by (simp add: trim_space_def trim_left_def trim_right_def is_space_def)
  then show ?thesis
    using bootstrap_token_single_use [OF demo_world_run run, where cmd' = "demo_enroll '' lop_boot_3''"
        and after = "[CAgentList ''usr_0'']"] run by simp
qed

section \<open>Agent tokens\<close>

lemma trim_right_append: "trim_right (s @ t) = (if trim_right t = [] then trim_right s else s @ trim_right t)"
proof (cases "\<forall>c \<in> set t. is_space c")
  case True
  then show ?thesis by (simp add: trim_right_def dropWhile_append dropWhile_eq_Nil_conv)
next
  case False
  then show ?thesis by (auto simp: trim_right_def dropWhile_append dropWhile_eq_Nil_conv)
qed

lemma agent_token_form:
  assumes "CHR ''.'' \<notin> set s"
  shows "ParseToken env (''lop_atok_'' @ s) = parseAgentToken env (''lop_atok_'' @ s)"
proof -
  have left: "trim_left (''lop_atok_'' @ s) = ''lop_atok_'' @ s" by (rule trim_left_id) (simp add: is_space_def)
  have "trim_right ''lop_atok_'' = ''lop_atok_''" by (simp add: trim_right_def is_space_def)
  then have "\<exists>t. trim_space (''lop_atok_'' @ s) = ''lop_atok_'' @ t"
    unfolding trim_space_def left trim_right_append by (metis append_Nil2)
  then obtain t where t: "trim_space (''lop_atok_'' @ s) = ''lop_atok_'' @ t" ..
  have "looksLikeAgentToken (''lop_atok_'' @ s)" unfolding looksLikeAgentToken_def t by simp
  moreover have "\<not> looksLikePAT (''lop_atok_'' @ s)" unfolding looksLikePAT_def t by simp
  moreover have "filter (\<lambda>c. c = CHR ''.'') (''lop_atok_'' @ s) = []"
    using assms by (auto simp: filter_empty_conv)
  then have "\<not> looksLikeJWT (''lop_atok_'' @ s)" unfolding looksLikeJWT_def by simp
  ultimately show ?thesis by (simp only: ParseToken_def if_False if_True)
qed

lemma query_find:
  "db_query (\<lambda>w. List.find P (rows w)) w = (Inr (Some x), w1) \<Longrightarrow> P x \<and> x \<in> set (rows w)"
  using query_Ok [of "\<lambda>w. List.find P (rows w)" w "Some x" w1] find_Some_iff [of P "rows w" x] by (metis nth_mem)

lemma parseAgentToken_Ok:
  assumes "parseAgentToken env token w = (Inr claims, w1)"
  obtains t where "find_agent_token (hashOpaqueToken env token) w = Some t" "tk_revoked_at t = None"
    "cm_auth_kind claims = AuthKindAgentToken" "cm_user_id claims = tk_user_id t"
    "cm_agent_id claims = tk_agent_id t" "cm_instance_id claims = tk_instance_id t"
proof -
  from assms obtain t u w2 w3 w4 where
    steps: "AgentTokenGetByHash (hashOpaqueToken env token) w = (Inr (Some t), w2)" "tk_revoked_at t = None"
      "validateActiveUser (tk_user_id t) w3 = (Inr u, w4)"
      "cm_auth_kind claims = AuthKindAgentToken" "cm_user_id claims = us_id u"
      "cm_agent_id claims = tk_agent_id t" "cm_instance_id claims = tk_instance_id t"
    unfolding parseAgentToken_def by (auto simp: andThen_Ok_iff split: if_splits option.splits)
  have "us_id u = tk_user_id t"
    using steps(3) unfolding validateActiveUser_def UserGetByID_def
    by (auto simp: andThen_Ok_iff dest!: query_find split: option.splits if_splits)
  moreover have "find_agent_token (hashOpaqueToken env token) w = Some t"
    using steps(1) by (auto simp: AgentTokenGetByHash_def dest!: query_Ok)
  ultimately show thesis using that steps by simp
qed

lemma no_faults_id: "id_faults w = [] \<Longrightarrow> w\<lparr>id_faults := []\<rparr> = w"
  by simp

lemma no_fault_runs [simp]:
  "id_faults w = [] \<Longrightarrow> db_query f w = (Ok (f w), w)"
  "id_faults w = [] \<Longrightarrow> \<not> clash w \<Longrightarrow> db_exec clash g w = (Ok (), g w)"
  "clock_now w = (Ok (id_clock w (id_tick w)), w\<lparr>id_tick := id_tick w + 1\<rparr>)"
  by (simp_all add: db_query_def db_exec_def clock_now_def no_faults_id)

lemma revoked_for_good:
  assumes "owned w" and "find_agent_token (hashOpaqueToken env token) w = Some t" and "tk_revoked_at t \<noteq> None"
  shows "\<not> is_ok (fst (parseAgentToken env token (run (identity_step env) es w)))"
proof
  let ?w = "run (identity_step env) es w"
  assume "is_ok (fst (parseAgentToken env token ?w))"
  then obtain claims w1 where "parseAgentToken env token ?w = (Inr claims, w1)"
    by (cases "parseAgentToken env token ?w") (auto simp: is_ok_iff)
  moreover obtain t' where "find_agent_token (hashOpaqueToken env token) ?w = Some t'" "tk_revoked_at t' \<noteq> None"
    using run_persists [OF assms(1), of env es] assms(2,3)
    unfolding persists_def keeps_def find_agent_token_def same_agent_token_def by metis
  ultimately show False by (auto elim: parseAgentToken_Ok)
qed

lemma reachable_after:
  assumes "w = run (identity_step env) before (NewIdentity faults clock fresh random)" and "f w = (r, w1)"
    and "identity_step env e w = snd (f w)"
  shows "owned w" and "owned w1" and "persists w w1"
proof -
  show w: "owned w" unfolding assms(1) by (intro run_owned owned_new)
  show "owned w1" and "persists w w1"
    using identity_step_keeps [of "\<lambda>_. True" w env e] w assms(2,3) by (simp_all add: secured_def)
qed

text \<open>
  Property C13: a new enrollment ends the old agent tokens. After a successful enrollment every token
  that its agent had before is refused, whatever requests and database failures follow.
\<close>

theorem enrollment_ends_old_tokens:
  assumes "w = run (identity_step env) before (NewIdentity faults clock fresh random)"
    and "Enroll env cmd w = (Inr r, w1)"
    and "find_agent_token (hashOpaqueToken env (''lop_atok_'' @ s)) w = Some t" and "tk_agent_id t = er_agent_id r"
    and "CHR ''.'' \<notin> set s"
  shows "\<not> is_ok (fst (ParseToken env (''lop_atok_'' @ s) (run (identity_step env) after w1)))"
proof -
  note reach = reachable_after [where f = "Enroll env cmd" and e = "CEnroll cmd", OF assms(1,2) identity_step.simps(9)]
  have "\<exists>t'. find_agent_token (hashOpaqueToken env (''lop_atok_'' @ s)) w1 = Some t' \<and> tk_revoked_at t' \<noteq> None"
  proof (rule Enroll_Ok [OF assms(2)])
    fix rec inst now w2
    assume same: "same_tokens w w2" and run: "enroll_checked env cmd rec inst now w2 = (Inr r, w1)"
    obtain t0 where "id_agent_tokens w1 = update_rows (\<lambda>t. tk_agent_id t = er_agent_id r \<and> tk_revoked_at t = None)
      (\<lambda>t. t\<lparr>tk_revoked_at := Some now\<rparr>) (id_agent_tokens w) @ [t0]"
      by (rule enroll_checked_Ok [OF run]) (use same in \<open>auto simp: same_tokens_def\<close>)
    with assms(3,4) show ?thesis
      unfolding find_agent_token_def by (simp add: find_append find_update_rows)
  qed
  then show ?thesis
    using revoked_for_good [OF reach(2)] unfolding agent_token_form [OF assms(5)] by blast
qed

theorem enrollment_ends_old_tokens_witness:
  "\<not> is_ok (fst (ParseToken demo_env ''lop_atok_2''
     (run (identity_step demo_env) [CRevokePAT ''usr_0'' ''x'']
       (snd (Enroll demo_env (demo_enroll ''lop_boot_3'') demo_world)))))"
proof -
  obtain r w1 where run: "Enroll demo_env (demo_enroll ''lop_boot_3'') demo_world = (Inr r, w1)"
    using demo_enroll_ok by (cases "Enroll demo_env (demo_enroll ''lop_boot_3'') demo_world") (auto simp: is_ok_iff)
  have "(case Enroll demo_env (demo_enroll ''lop_boot_3'') demo_world of (r, w1) \<Rightarrow>
      (case r of Inl e \<Rightarrow> False | Inr r' \<Rightarrow>
        (case find_agent_token (hashOpaqueToken demo_env (''lop_atok_'' @ ''2'')) demo_world of
           None \<Rightarrow> False | Some t \<Rightarrow> tk_agent_id t = er_agent_id r')))" by code_simp
  then obtain t where "find_agent_token (hashOpaqueToken demo_env (''lop_atok_'' @ ''2'')) demo_world = Some t"
    "tk_agent_id t = er_agent_id r" by (auto simp: run split: option.splits)
  then show ?thesis
    using enrollment_ends_old_tokens [OF demo_world_run run, where s = "''2''" and t = t
        and after = "[CRevokePAT ''usr_0'' ''x'']"] run by simp
qed

text \<open>
  An enrolled agent authenticates as its machine. With the database up, an active owner,
  a clock that has not passed the expiry, and a token without dots (as base64 is), the token an enrollment returns is accepted, and its
  claims name the owner of the machine, the agent and the machine.
\<close>

theorem enrolled_agent_authenticates:
  assumes "Enroll env cmd w = (Inr r, w1)" and "id_faults w1 = []" and "en_agent_tokens env"
    and "find_machine (er_instance_id r) w = Some inst" and "List.find (\<lambda>u. us_id u = mc_user_id inst) (id_users w) = Some u"
    and "us_status u = ''active''" and "id_clock w1 (id_tick w1) \<le> the (er_expires_at r)"
    and "CHR ''.'' \<notin> set (er_agent_token r)"
  shows "\<exists>claims w2. ParseToken env (er_agent_token r) w1 = (Inr claims, w2) \<and>
    cm_auth_kind claims = AuthKindAgentToken \<and> cm_user_id claims = mc_user_id inst \<and>
    cm_agent_id claims = er_agent_id r \<and> cm_instance_id claims = er_instance_id r"
proof (rule Enroll_Ok [OF assms(1)])
  fix rec inst' now w2
  assume inst': "find_machine (bt_instance_id rec) w = Some inst'" and same: "same_tokens w w2"
    and run: "enroll_checked env cmd rec inst' now w2 = (Inr r, w1)"
  show ?thesis
  proof (rule enroll_checked_Ok [OF run])
    fix t s n
    assume t: "issued_token env inst' r t" and raw: "er_agent_token r = ''lop_atok_'' @ s" "id_random w2 n = Some s"
      and r: "er_instance_id r = mc_id inst'" "er_expires_at r = Some (now + agentTokenTTL env)"
      and new: "find_agent_token (tk_hash t) w2 = None"
      and tokens: "id_agent_tokens w1 = update_rows (\<lambda>t. tk_agent_id t = er_agent_id r \<and> tk_revoked_at t = None)
        (\<lambda>t. t\<lparr>tk_revoked_at := Some now\<rparr>) (id_agent_tokens w2) @ [t]"
      and users: "id_users w1 = id_users w2"
    have "mc_id inst' = bt_instance_id rec" using inst' by (auto simp: find_machine_def find_Some_iff)
    then have "inst' = inst" using inst' assms(4) r(1) by simp
    have found: "find_agent_token (hashOpaqueToken env (er_agent_token r)) w1 = Some t"
      using new t unfolding find_agent_token_def tokens issued_token_def
      by (simp add: find_append find_update_rows)
    have user: "List.find (\<lambda>u. us_id u = mc_user_id inst) (id_users w1) = Some u"
      using assms(5) same users by (simp add: same_tokens_def)
    have nodot: "CHR ''.'' \<notin> set s" using assms(8) raw(1) by simp
    have "us_id u = mc_user_id inst" using assms(5) by (auto simp: find_Some_iff)
    then have "\<exists>claims w2. parseAgentToken env (er_agent_token r) w1 = (Inr claims, w2) \<and>
      cm_auth_kind claims = AuthKindAgentToken \<and> cm_user_id claims = mc_user_id inst \<and>
      cm_agent_id claims = er_agent_id r \<and> cm_instance_id claims = er_instance_id r"
      using assms(2,3,6,7) t r user \<open>inst' = inst\<close>
      by (simp add: parseAgentToken_def AgentTokenGetByHash_def found issued_token_def past_def
          validateActiveUser_def UserGetByID_def AgentTokenTouchLastUsed_def andThen_assoc)
    then show ?thesis unfolding raw(1) agent_token_form [OF nodot] .
  qed
qed

theorem enrolled_agent_authenticates_witness:
  "\<exists>claims w2. ParseToken demo_env ''lop_atok_4''
      (snd (Enroll demo_env (demo_enroll ''lop_boot_3'') demo_world)) = (Inr claims, w2) \<and>
    cm_user_id claims = ''usr_0'' \<and> cm_instance_id claims = ''inst_2''"
proof -
  obtain r w1 where run: "Enroll demo_env (demo_enroll ''lop_boot_3'') demo_world = (Inr r, w1)"
    using demo_enroll_ok by (cases "Enroll demo_env (demo_enroll ''lop_boot_3'') demo_world") (auto simp: is_ok_iff)
  have "(case Enroll demo_env (demo_enroll ''lop_boot_3'') demo_world of (r, w1) \<Rightarrow>
      (case r of Inl e \<Rightarrow> False | Inr r' \<Rightarrow> id_faults w1 = [] \<and> er_instance_id r' = ''inst_2'' \<and>
        er_agent_token r' = ''lop_atok_4'' \<and> id_clock w1 (id_tick w1) \<le> the (er_expires_at r')))" by code_simp
  then have r: "id_faults w1 = []" "er_instance_id r = ''inst_2''" "er_agent_token r = ''lop_atok_4''"
    "id_clock w1 (id_tick w1) \<le> the (er_expires_at r)" by (simp_all add: run)
  have "(case find_machine ''inst_2'' demo_world of None \<Rightarrow> False | Some m \<Rightarrow> mc_user_id m = ''usr_0'')"
    and "(case List.find (\<lambda>u. us_id u = ''usr_0'') (id_users demo_world) of None \<Rightarrow> False
      | Some u \<Rightarrow> us_status u = ''active'')" by code_simp+
  then obtain m u where "find_machine ''inst_2'' demo_world = Some m" "mc_user_id m = ''usr_0''"
    "List.find (\<lambda>u. us_id u = ''usr_0'') (id_users demo_world) = Some u" "us_status u = ''active''"
    by (auto split: option.splits)
  moreover have "en_agent_tokens demo_env" by (simp add: demo_env_def)
  ultimately show ?thesis
    using enrolled_agent_authenticates [OF run r(1), of m u] r by (auto simp: run)
qed

section \<open>Heartbeats and owners\<close>

text \<open>Only the row of one machine changes.\<close>

definition same_but :: "string \<Rightarrow> identity \<Rightarrow> identity \<Rightarrow> bool" where
  "same_but iid w w' \<longleftrightarrow> (\<forall>i. i \<noteq> iid \<longrightarrow> find_machine i w' = find_machine i w)"

interpretation one_machine: guarantee "\<lambda>_. True" "same_but iid" for iid
  by unfold_locales (auto simp: same_but_def)

lemma find_update_other:
  "iid \<noteq> i \<Longrightarrow> (\<And>m. mc_id (f m) = mc_id m) \<Longrightarrow>
   List.find (\<lambda>m. mc_id m = i) (update_rows (\<lambda>m. mc_id m = iid) f ms) = List.find (\<lambda>m. mc_id m = i) ms"
  by (induction ms) (auto simp: update_rows_def)

lemma within_same_but:
  "within (\<lambda>_. True) (same_but iid) clock_now" "within (\<lambda>_. True) (same_but iid) (db_query f)"
  "within (\<lambda>_. True) (same_but iid) (db_exec clash (\<lambda>w. w\<lparr>id_agents := g w\<rparr>))"
  "within (\<lambda>_. True) (same_but iid) (UpdateAgentState iid aid status caps at)"
  unfolding UpdateAgentState_def MachineGetByID_def
  by (auto simp: within_def same_but_def find_machine_def clock_now_def db_query_def db_exec_def andThen_def
      find_update_other split: list.splits bool.splits option.splits if_splits)

lemma within_Heartbeat:
  "within (\<lambda>_. True) (same_but (trim_space (hb_instance_id cmd))) (Heartbeat cmd)"
  unfolding Heartbeat_def Let_def UpdateStatusForUser_def GetByAgentIDForUser_def
  by (intro one_machine.within_rules within_same_but)

lemma ParseToken_agent:
  assumes "ParseToken env token w = (Inr claims, w1)" and "cm_auth_kind claims = AuthKindAgentToken"
  obtains w0 where "parseAgentToken env token w0 = (Inr claims, w1)" and "persists w w0 \<and> owned w0 \<or> \<not> owned w"
proof -
  have web: "cm_auth_kind c = AuthKindWebSession" if "parseWebSessionToken env token w = (Inr c, w1)" for c
    using that by (auto simp: parseWebSessionToken_def andThen_Ok_iff split: jwt_outcome.splits if_splits)
  have pat: "cm_auth_kind c = AuthKindCLIPAT" if "parsePATToken env token w = (Inr c, v)" for c v
    using that by (auto simp: parsePATToken_def andThen_Ok_iff split: option.splits if_splits)
  have kinds: "AuthKindAgentToken \<noteq> AuthKindWebSession" "AuthKindAgentToken \<noteq> AuthKindCLIPAT"
    by (simp_all add: AuthKindAgentToken_def AuthKindWebSession_def AuthKindCLIPAT_def)
  have keep: "owned w \<Longrightarrow> persists w (snd (parsePATToken env token w)) \<and> owned (snd (parsePATToken env token w))"
    using within_snd [OF within_auth_calls(4) [OF persistent_True], of w env token] by (simp add: secured_def)
  consider "parseAgentToken env token w = (Inr claims, w1)"
    | "parseAgentToken env token (snd (parsePATToken env token w)) = (Inr claims, w1)"
    using assms(1) web pat assms(2) kinds
    by (auto simp: ParseToken_def run_attempt andThen_Ok_iff surjective_pairing [symmetric] split: if_splits sum.splits)
      (metis prod.collapse)+
  then show thesis
  proof cases
    case 1
    with that show thesis by auto
  next
    case 2
    with that keep show thesis by blast
  qed
qed

text \<open>
  Property C14: heartbeats stay with the owner. If a token was accepted as an agent's and later a
  heartbeat is taken for the user, agent and machine of its claims, every machine whose row changes
  belongs to the user of the claims (for machine identifiers without surrounding blanks).
\<close>

theorem heartbeats_stay_with_owner:
  assumes "w = run (identity_step env) before (NewIdentity faults clock fresh random)"
    and "ParseToken env token w = (Inr claims, w1)" and "cm_auth_kind claims = AuthKindAgentToken"
    and "w2 = run (identity_step env) after w1"
    and "hb_instance_id cmd = cm_instance_id claims" and "trim_space (cm_instance_id claims) = cm_instance_id claims"
    and "find_machine i (snd (Heartbeat cmd w2)) \<noteq> find_machine i w2"
  shows "\<exists>m. find_machine i w2 = Some m \<and> mc_user_id m = cm_user_id claims"
proof -
  note reach = reachable_after [where f = "ParseToken env token" and e = "CParseToken token",
      OF assms(1,2) identity_step.simps(5)]
  have i: "i = cm_instance_id claims"
    using within_snd [OF within_Heartbeat [of cmd], of w2] assms(5-7) by (auto simp: same_but_def)
  obtain w0 where w0: "parseAgentToken env token w0 = (Inr claims, w1)" "owned w0" "persists w w0"
    using ParseToken_agent [OF assms(2,3)] reach(1) by metis
  obtain t where t: "find_agent_token (hashOpaqueToken env token) w0 = Some t"
    "cm_user_id claims = tk_user_id t" "cm_instance_id claims = tk_instance_id t"
    by (rule parseAgentToken_Ok [OF w0(1)])
  then have "(tk_user_id t, tk_instance_id t) \<in> token_ties w0"
    unfolding token_ties_def find_agent_token_def by (auto simp: find_Some_iff)
  then have "owns (tk_user_id t) (tk_instance_id t) w0" using w0(2) by (auto simp: owned_def)
  moreover have "persists w0 w1"
    using within_snd [OF within_auth_calls(5) [OF persistent_True], of w0 env token] w0(1,2)
    by (simp add: secured_def)
  then have "persists w0 w2"
    unfolding assms(4) using run_persists [OF reach(2)] persists_trans by blast
  ultimately have "owns (tk_user_id t) (tk_instance_id t) w2"
    using persistent_owns unfolding persistent_def by blast
  then show ?thesis unfolding i t(2,3) owns_def by blast
qed

text \<open>
  The service itself looks at the owner only after it has written: a heartbeat that names another
  user's machine is refused, with the machine's state and agent already changed.
\<close>

lemma foreign_heartbeat_writes:
  assumes "find_machine (trim_space (hb_instance_id cmd)) w = Some m" and "mc_user_id m \<noteq> trim_space (hb_user_id cmd)"
    and "id_faults w = []" and "List.find (\<lambda>a. ag_user_id a = trim_space (hb_user_id cmd) \<and>
      ag_agent_id a = trim_space (hb_agent_id cmd)) (id_agents w) = Some a"
    and "validateEnrollmentMode (hb_runtime_mode cmd) (hb_agent_kind cmd) = Ok ()"
    and "trim_space (hb_user_id cmd) \<noteq> []" "trim_space (hb_agent_id cmd) \<noteq> []" "trim_space (hb_instance_id cmd) \<noteq> []"
  shows "fst (Heartbeat cmd w) = Fail (Sentinel ErrBootstrapOwnershipMismatch) \<and>
    (\<exists>m'. find_machine (trim_space (hb_instance_id cmd)) (snd (Heartbeat cmd w)) = Some m' \<and>
       mc_agent_id m' = Some (trim_space (hb_agent_id cmd)))"
proof -
  have "mc_id m = trim_space (hb_instance_id cmd)"
    using assms(1) by (auto simp: find_machine_def find_Some_iff)
  then show ?thesis
    using assms
    by (cases "is_zero (hb_sent_at cmd)")
      (simp_all add: Heartbeat_def Let_def UpdateStatusForUser_def GetByAgentIDForUser_def UpdateAgentState_def
        MachineGetByID_def andThen_assoc find_machine_def find_update_rows)
qed

definition demo_heartbeat :: HeartbeatCommand where
  "demo_heartbeat =
     \<lparr> hb_user_id = ''usr_0'', hb_agent_id = ''agt_4'', hb_instance_id = ''inst_2'', hb_state = [],
       hb_health_status = ''degraded'', hb_runtime_mode = ''standalone'', hb_agent_kind = ''instance_agent'',
       hb_sent_at = 9, hb_capabilities = None \<rparr>"

theorem heartbeats_stay_with_owner_witness:
  "find_machine ''inst_2'' (snd (Heartbeat demo_heartbeat (snd (ParseToken demo_env ''lop_atok_2'' demo_world)))) \<noteq>
     find_machine ''inst_2'' (snd (ParseToken demo_env ''lop_atok_2'' demo_world)) \<and>
   (\<exists>m. find_machine ''inst_2'' (snd (ParseToken demo_env ''lop_atok_2'' demo_world)) = Some m \<and>
     mc_user_id m = ''usr_0'')"
proof -
  have ok: "(case ParseToken demo_env ''lop_atok_2'' demo_world of (r, w1) \<Rightarrow>
      (case r of Inl e \<Rightarrow> False | Inr c \<Rightarrow> cm_auth_kind c = AuthKindAgentToken \<and>
        cm_instance_id c = ''inst_2'' \<and> cm_user_id c = ''usr_0''))" by code_simp
  then obtain c w1 where run: "ParseToken demo_env ''lop_atok_2'' demo_world = (Inr c, w1)"
    and c: "cm_auth_kind c = AuthKindAgentToken" "cm_instance_id c = ''inst_2''" "cm_user_id c = ''usr_0''"
    by (auto split: prod.splits sum.splits)
  have "map_option mc_status (find_machine ''inst_2'' (snd (Heartbeat demo_heartbeat
      (snd (ParseToken demo_env ''lop_atok_2'' demo_world))))) \<noteq>
    map_option mc_status (find_machine ''inst_2'' (snd (ParseToken demo_env ''lop_atok_2'' demo_world)))"
    by code_simp
  then have changed: "find_machine ''inst_2'' (snd (Heartbeat demo_heartbeat w1)) \<noteq> find_machine ''inst_2'' w1"
    by (auto simp: run)
  have "trim_space ''inst_2'' = ''inst_2''"
    by (simp add: trim_space_def trim_left_def trim_right_def is_space_def)
  then show ?thesis
    using heartbeats_stay_with_owner [OF demo_world_run run c(1), where cmd = demo_heartbeat and after = "[]"]
      c changed by (auto simp: run demo_heartbeat_def)
qed

section \<open>Refusals\<close>

text \<open>A program that raises none of the service's own errors.\<close>

definition never_refuses :: "'a iprog \<Rightarrow> bool" where
  "never_refuses m \<longleftrightarrow> (\<forall>w x w'. m w \<noteq> (Inl (Sentinel x), w'))"

lemma never_refuses_andThen: "never_refuses m \<Longrightarrow> (\<And>x. never_refuses (f x)) \<Longrightarrow> never_refuses (andThen m f)"
  by (auto simp: never_refuses_def elim!: andThen_cases)

lemma never_refuses_calls:
  "never_refuses (return x)" "never_refuses (raise (Errorf msg))" "never_refuses clock_now"
  "never_refuses (prefixed_id p)" "never_refuses random_secret" "never_refuses (db_query f)"
  "never_refuses (db_exec clash g)"
  by (auto simp: never_refuses_def clock_now_def prefixed_id_def random_secret_def db_query_def db_exec_def
      split: option.splits list.splits bool.splits if_splits)

lemma never_refuses_split:
  "(x = None \<Longrightarrow> never_refuses m) \<Longrightarrow> (\<And>y. x = Some y \<Longrightarrow> never_refuses (f y)) \<Longrightarrow>
   never_refuses (case x of None \<Rightarrow> m | Some y \<Rightarrow> f y)"
  "(b \<Longrightarrow> never_refuses m) \<Longrightarrow> (\<not> b \<Longrightarrow> never_refuses n) \<Longrightarrow> never_refuses (if b then m else n)"
  "(\<And>a c. z = (a, c) \<Longrightarrow> never_refuses (g a c)) \<Longrightarrow> never_refuses (case z of (a, c) \<Rightarrow> g a c)"
  by (auto split: option.split prod.split)

lemma never_refuses_enroll_checked: "never_refuses (enroll_checked env cmd rec inst now)"
  unfolding enroll_checked_def resolveOrCreateAgent_def create_agent_def newOpaqueAgentToken_def
    GetByAgentIDForUser_def UpdateStatusForUser_def AgentCreate_def AgentTokenRevokeByAgent_def AgentTokenCreate_def
    UpdateAgentState_def MachineGetByID_def MarkUsed_def Let_def
  by (intro never_refuses_andThen never_refuses_calls never_refuses_split)

text \<open>A program whose refusals come before its writes.\<close>

definition same_rows :: "identity \<Rightarrow> identity \<Rightarrow> bool" where
  "same_rows w w' \<longleftrightarrow> id_agent_tokens w' = id_agent_tokens w \<and> id_bootstrap w' = id_bootstrap w \<and>
     id_machines w' = id_machines w \<and> id_agents w' = id_agents w \<and> id_users w' = id_users w \<and>
     id_pats w' = id_pats w"

definition refuses_clean :: "'a iprog \<Rightarrow> bool" where
  "refuses_clean m \<longleftrightarrow> (\<forall>w x w'. m w = (Inl (Sentinel x), w') \<longrightarrow> same_rows w w')"

interpretation reading: guarantee "\<lambda>_. True" same_rows
  by unfold_locales (simp_all add: same_rows_def)

lemma reading_calls:
  "within (\<lambda>_. True) same_rows clock_now" "within (\<lambda>_. True) same_rows (db_query f)"
  by (auto simp: within_def same_rows_def clock_now_def db_query_def split: list.splits bool.splits)

lemma refuses_clean_andThen:
  assumes "within (\<lambda>_. True) same_rows m" and "\<And>x. refuses_clean (f x)"
  shows "refuses_clean (andThen m f)"
  unfolding refuses_clean_def
proof (intro allI impI)
  fix w x w' assume "andThen m f w = (Inl (Sentinel x), w')"
  then show "same_rows w w'"
  proof (cases rule: andThen_cases)
    case (fail e)
    then show ?thesis using withinD [OF assms(1)] by blast
  next
    case (ok y w1)
    then have "same_rows w w1" and "same_rows w1 w'"
      using withinD [OF assms(1)] assms(2) [of y] by (auto simp: refuses_clean_def)
    then show ?thesis by (rule reading.trans)
  qed
qed

lemma refuses_clean_rules:
  "refuses_clean (raise e)" "never_refuses m \<Longrightarrow> refuses_clean m"
  "refuses_clean m \<Longrightarrow> (\<And>y. refuses_clean (f y)) \<Longrightarrow> refuses_clean (case x of None \<Rightarrow> m | Some y \<Rightarrow> f y)"
  "refuses_clean m \<Longrightarrow> refuses_clean n \<Longrightarrow> refuses_clean (if b then m else n)"
  by (auto simp: refuses_clean_def never_refuses_def same_rows_def split: option.split)

lemma Enroll_refuses_clean: "refuses_clean (Enroll env cmd)"
  unfolding Enroll_def BootstrapGetByHash_def MachineGetByID_def Let_def
  by (intro refuses_clean_rules(1,3,4) refuses_clean_andThen reading_calls reading.within_from_res
      refuses_clean_rules(2) [OF never_refuses_enroll_checked])

text \<open>
  A refused enrollment changes nothing. Whenever \<open>Enroll\<close> answers with one of its own
  errors (invalid input, an unknown, used or expired token, an ownership mismatch), no table differs
  from what it was; only failures of the database or the random source can leave traces.
\<close>

theorem refused_enrollment_is_harmless:
  assumes "Enroll env cmd w = (Inl (Sentinel e), w')"
  shows "id_agent_tokens w' = id_agent_tokens w \<and> id_bootstrap w' = id_bootstrap w \<and>
    id_machines w' = id_machines w \<and> id_agents w' = id_agents w \<and> id_users w' = id_users w \<and>
    id_pats w' = id_pats w"
  using Enroll_refuses_clean assms unfolding refuses_clean_def same_rows_def by blast

theorem refused_enrollment_is_harmless_witness:
  "id_agent_tokens (snd (Enroll demo_env (demo_enroll ''lop_boot_1'') demo_world)) = id_agent_tokens demo_world"
proof -
  have "fst (Enroll demo_env (demo_enroll ''lop_boot_1'') demo_world) = Inl (Sentinel ErrBootstrapTokenReused)"
    by code_simp
  then have "Enroll demo_env (demo_enroll ''lop_boot_1'') demo_world =
      (Inl (Sentinel ErrBootstrapTokenReused), snd (Enroll demo_env (demo_enroll ''lop_boot_1'') demo_world))"
    by (metis prod.collapse)
  from refused_enrollment_is_harmless [OF this] show ?thesis by blast
qed

section \<open>Personal access tokens\<close>

lemma pat_form:
  assumes "CHR ''.'' \<notin> set s"
  shows "ParseToken env (''lop_pat_'' @ s) = parsePATToken env (''lop_pat_'' @ s)"
proof -
  have left: "trim_left (''lop_pat_'' @ s) = ''lop_pat_'' @ s" by (rule trim_left_id) (simp add: is_space_def)
  have "trim_right ''lop_pat_'' = ''lop_pat_''" by (simp add: trim_right_def is_space_def)
  then have "\<exists>t. trim_space (''lop_pat_'' @ s) = ''lop_pat_'' @ t"
    unfolding trim_space_def left trim_right_append by (metis append_Nil2)
  then have "looksLikePAT (''lop_pat_'' @ s)" unfolding looksLikePAT_def by auto
  moreover have "filter (\<lambda>c. c = CHR ''.'') (''lop_pat_'' @ s) = []"
    using assms by (auto simp: filter_empty_conv)
  then have "\<not> looksLikeJWT (''lop_pat_'' @ s)" unfolding looksLikeJWT_def by simp
  ultimately show ?thesis by (simp only: ParseToken_def if_False if_True)
qed

text \<open>
  Property C15: a revoked personal access token stays revoked. After its owner has revoked it, a token
  is refused whatever requests and database failures follow.
\<close>

theorem revoked_pat_stays_revoked:
  assumes "w = run (identity_step env) before (NewIdentity faults clock fresh random)"
    and "RevokePAT uid tid w = (Inr res, w1)"
    and "find_pat (hashOpaqueToken env (''lop_pat_'' @ s)) w = Some t"
    and "List.find (\<lambda>v. pt_id v = trim_space tid) (id_pats w) = Some t" and "CHR ''.'' \<notin> set s"
  shows "\<not> is_ok (fst (ParseToken env (''lop_pat_'' @ s) (run (identity_step env) after w1)))"
proof
  let ?h = "hashOpaqueToken env (''lop_pat_'' @ s)" and ?w2 = "run (identity_step env) after w1"
  note reach = reachable_after [where f = "RevokePAT uid tid" and e = "CRevokePAT uid tid",
      OF assms(1,2) identity_step.simps(4)]
  have "\<exists>t1. find_pat ?h w1 = Some t1 \<and> pt_revoked_at t1 \<noteq> None"
  proof (cases "pt_revoked_at t = None")
    case True
    obtain wa where get: "PATGetByID (trim_space tid) w = (Inr (Some t), wa)" and pats: "id_pats wa = id_pats w"
    proof (cases "PATGetByID (trim_space tid) w")
      case (Pair r wa)
      with assms(2) obtain x where "r = Inr x" by (cases r) (auto simp: RevokePAT_def Let_def split: if_splits)
      with Pair assms(4) that show thesis by (auto simp: PATGetByID_def dest!: query_Ok)
    qed
    from get True assms(2) have "\<exists>at wb. id_pats wb = id_pats w \<and> PATRevokeByIDForUser uid (pt_id t) at wb = (Inr (), w1)"
      by (auto simp: RevokePAT_def Let_def andThen_Ok_iff clock_Ok split: if_splits)
        (intro exI [of _ "id_clock wa (id_tick wa)"] exI [of _ "wa\<lparr>id_tick := Suc (id_tick wa)\<rparr>"], simp add: pats)
    then have "\<exists>at. id_pats w1 = update_rows (\<lambda>v. pt_id v = pt_id t \<and> pt_user_id v = uid)
        (\<lambda>v. v\<lparr>pt_revoked_at := Some at\<rparr>) (id_pats w)"
      by (auto simp: PATRevokeByIDForUser_def dest!: exec_Ok)
    moreover have "pt_user_id t = uid"
      using get assms(2) by (auto simp: RevokePAT_def Let_def split: if_splits)
    ultimately show ?thesis
      using assms(3) by (auto simp: find_pat_def find_update_rows)
  next
    case False
    then show ?thesis
      using reach(3) assms(3) unfolding persists_def keeps_def find_pat_def same_pat_def by metis
  qed
  then obtain t2 where t2: "find_pat ?h ?w2 = Some t2" "pt_revoked_at t2 \<noteq> None"
    using run_persists [OF reach(2)] unfolding persists_def keeps_def find_pat_def same_pat_def by metis
  assume "is_ok (fst (ParseToken env (''lop_pat_'' @ s) ?w2))"
  then obtain claims w3 where "parsePATToken env (''lop_pat_'' @ s) ?w2 = (Inr claims, w3)"
    unfolding pat_form [OF assms(5)]
    by (cases "parsePATToken env (''lop_pat_'' @ s) ?w2") (auto simp: is_ok_iff)
  then show False
    using t2 unfolding parsePATToken_def PATGetByHash_def
    by (auto simp: andThen_Ok_iff dest!: query_Ok split: option.splits if_splits)
qed

definition demo_cli :: identity where
  "demo_cli = run (identity_step demo_env)
     [CRegister ''Ada'' ''ada@x.io'' ''Secret123'', CCLILogin ''password'' ''ada@x.io'' ''Secret123'' ''laptop''] demo_identity"
theorem revoked_pat_stays_revoked_witness:
  "\<not> is_ok (fst (ParseToken demo_env ''lop_pat_1'' (snd (RevokePAT ''usr_0'' ''pat_2'' demo_cli))))"
proof -
  have "is_ok (fst (RevokePAT ''usr_0'' ''pat_2'' demo_cli))" by code_simp
  then obtain res w1 where run: "RevokePAT ''usr_0'' ''pat_2'' demo_cli = (Inr res, w1)"
    by (cases "RevokePAT ''usr_0'' ''pat_2'' demo_cli") (auto simp: is_ok_iff)
  have trim: "trim_space ''pat_2'' = ''pat_2''"
    by (simp add: trim_space_def trim_left_def trim_right_def is_space_def)
  have "(case id_pats demo_cli of [t] \<Rightarrow> pt_hash t = hashOpaqueToken demo_env (''lop_pat_'' @ ''1'') \<and> pt_id t = ''pat_2''
      | _ \<Rightarrow> False)" by code_simp
  then obtain t where t: "id_pats demo_cli = [t]" "pt_hash t = hashOpaqueToken demo_env (''lop_pat_'' @ ''1'')" "pt_id t = ''pat_2''"
    by (auto split: list.splits)
  show ?thesis
    using revoked_pat_stays_revoked [OF demo_cli_def [unfolded demo_identity_def] run, where s = "''1''" and t = t
        and after = "[]"] t
    by (simp add: run trim find_pat_def)
qed

end
