(* ===== verification/Routing.thy ===== *)
theory Routing
  imports Store
begin

text \<open>
  The rules of path routing (\<open>backend/internal/service/routing_service.go\<close> and the helpers it
  calls): which service is a frontend, an API or a websocket server, how a route is normalised, and
  the policy a project has by convention when nobody configured one
  (\<open>buildDefaultRoutingPolicy\<close>).
  \<^item> \<open>RoutingRouteRecord\<close> is the \<open>Route\<close> of theory Store; its creation time, which the code only
    copies into the answer, is left out.
  \<^item> The set \<open>seenPaths\<close> is the list of its keys. The loop that appends \<open>-alt\<close> until the path is
    free is \<open>free_path\<close>: it is shown to end after at most as many rounds as there are keys.
\<close>

named_theorems route_norm "normal forms of paths and modes"

section \<open>Paths and modes\<close>

definition normalizedPublicPath :: "string \<Rightarrow> string" where
  "normalizedPublicPath p =
     (let t = trim_space p in
      if t = [] then ''/'' else if \<not> has_prefix t ''/'' then ''/'' @ t else t)"

definition public_path :: "string \<Rightarrow> bool" where
  "public_path p \<longleftrightarrow> has_prefix p ''/'' \<and> trim_space p = p"

definition routingStripPrefixModeAuto :: string where "routingStripPrefixModeAuto = ''auto''"
definition routingStripPrefixModeAlways :: string where "routingStripPrefixModeAlways = ''always''"
definition routingStripPrefixModeNever :: string where "routingStripPrefixModeNever = ''never''"

lemmas strip_modes =
  routingStripPrefixModeAuto_def routingStripPrefixModeAlways_def routingStripPrefixModeNever_def

definition normalizeStripPrefixMode :: "string \<Rightarrow> string" where
  "normalizeStripPrefixMode mode =
     (let m = to_lower (trim_space mode) in
      if m = routingStripPrefixModeAuto then routingStripPrefixModeAuto
      else if m = routingStripPrefixModeAlways then routingStripPrefixModeAlways
      else if m = routingStripPrefixModeNever then routingStripPrefixModeNever
      else [])"

definition strip_mode :: "string \<Rightarrow> bool" where
  "strip_mode m \<longleftrightarrow> m \<in> {[], routingStripPrefixModeAuto, routingStripPrefixModeAlways, routingStripPrefixModeNever}"

lemma trim_space_trimmed: "trim_space s = s \<Longrightarrow> trim_right s = s"
  by (metis trim_right_idem trim_space_def)

lemma slash_no_space [simp]: "\<not> is_space (CHR ''/'')"
  by (simp add: is_space_def)

lemma trim_slash [simp]: "trim_space (CHR ''/'' # s) = CHR ''/'' # trim_right s"
  by (simp add: trim_space_Cons)

interpretation paths: normaliser normalizedPublicPath public_path
proof
  show "public_path (normalizedPublicPath x)" for x
    by (auto simp: public_path_def normalizedPublicPath_def Let_def trim_space_trimmed)
  show "public_path x \<Longrightarrow> normalizedPublicPath x = x" for x
    by (auto simp: public_path_def normalizedPublicPath_def Let_def)
qed

interpretation modes: normaliser normalizeStripPrefixMode strip_mode
proof
  show "strip_mode (normalizeStripPrefixMode x)" for x
    by (simp add: strip_mode_def normalizeStripPrefixMode_def Let_def)
  show "strip_mode x \<Longrightarrow> normalizeStripPrefixMode x = x" for x
    by (auto simp: strip_mode_def normalizeStripPrefixMode_def strip_modes Let_def
        trim_space_def trim_left_def trim_right_def is_space_def to_lower_def lower_char_def)
qed

lemmas [route_norm] = paths.norm_id paths.norm_idem modes.norm_id modes.norm_idem

section \<open>What a service is\<close>

record routingDescriptor =
  ds_name :: string
  ds_kind :: string
  ds_profile :: string
  ds_public :: bool

definition zero_descriptor :: routingDescriptor where
  "zero_descriptor = \<lparr>ds_name = [], ds_kind = [], ds_profile = [], ds_public = False\<rparr>"

definition isFrontendDescriptor :: "routingDescriptor \<Rightarrow> bool" where
  "isFrontendDescriptor d =
     (let n = to_lower (trim_space (ds_name d)); k = to_lower (trim_space (ds_kind d));
          p = to_lower (trim_space (ds_profile d)) in
      if k \<noteq> [] \<and> k \<noteq> ''app'' then k = ''web'' \<or> k = ''frontend''
      else p = ''web'' \<or> str_contains n ''front'' \<or> str_contains n ''fe'' \<or>
           str_contains n ''web'' \<or> str_contains n ''ui'')"

definition isBackendDescriptor :: "routingDescriptor \<Rightarrow> bool" where
  "isBackendDescriptor d =
     (let n = to_lower (trim_space (ds_name d)); k = to_lower (trim_space (ds_kind d)) in
      if k \<noteq> [] \<and> k \<noteq> ''app'' then k = ''backend'' \<or> k = ''server'' \<or> k = ''api''
      else str_contains n ''backend'' \<or> str_contains n ''server'' \<or> n = ''be'')"

definition isAPIDescriptor :: "routingDescriptor \<Rightarrow> bool" where
  "isAPIDescriptor d =
     (let n = to_lower (trim_space (ds_name d)); k = to_lower (trim_space (ds_kind d)) in
      if k \<noteq> [] \<and> k \<noteq> ''app'' then k = ''api'' \<or> k = ''backend'' \<or> k = ''server''
      else str_contains n ''api'' \<or> str_contains n ''backend'' \<or> n = ''be'')"

definition isWebSocketDescriptor :: "routingDescriptor \<Rightarrow> bool" where
  "isWebSocketDescriptor d =
     (let n = to_lower (trim_space (ds_name d)) in
      str_contains n ''ws'' \<or> str_contains n ''socket'' \<or> str_contains n ''realtime'')"

section \<open>Normal form of a route\<close>

definition shouldDefaultAutoStripPrefix :: "Route \<Rightarrow> routingDescriptor \<Rightarrow> bool" where
  "shouldDefaultAutoStripPrefix r d =
     (if rt_websocket r then False
      else if normalizedPublicPath (rt_path r) \<noteq> ''/api'' then False
      else isAPIDescriptor d \<or> isBackendDescriptor d)"

definition defaultStripPrefixMode :: "Route \<Rightarrow> routingDescriptor \<Rightarrow> string" where
  "defaultStripPrefixMode r d =
     (if rt_websocket r then []
      else if normalizedPublicPath (rt_path r) = ''/api'' \<and> (isAPIDescriptor d \<or> isBackendDescriptor d)
      then routingStripPrefixModeAuto
      else [])"

definition resolveEffectiveStripPrefix :: "Route \<Rightarrow> routingDescriptor \<Rightarrow> bool" where
  "resolveEffectiveStripPrefix r d =
     (if rt_strip_prefix_mode r = routingStripPrefixModeAlways then True
      else if rt_strip_prefix_mode r = routingStripPrefixModeNever then False
      else if rt_strip_prefix_mode r = routingStripPrefixModeAuto then shouldDefaultAutoStripPrefix r d
      else if rt_strip_prefix r then True
      else shouldDefaultAutoStripPrefix r d)"

definition normalizeRoutingRoute :: "routingDescriptor \<Rightarrow> Route \<Rightarrow> Route" where
  "normalizeRoutingRoute d r =
     (let r1 = r\<lparr>rt_path := normalizedPublicPath (rt_path r),
                 rt_strip_prefix_mode := normalizeStripPrefixMode (rt_strip_prefix_mode r)\<rparr>;
          r2 = (if rt_strip_prefix_mode r1 = []
                then r1\<lparr>rt_strip_prefix_mode := defaultStripPrefixMode r1 d\<rparr> else r1)
      in r2\<lparr>rt_strip_prefix := resolveEffectiveStripPrefix r2 d\<rparr>)"

definition route_normal :: "routingDescriptor \<Rightarrow> Route \<Rightarrow> bool" where
  "route_normal d r \<longleftrightarrow> public_path (rt_path r) \<and> strip_mode (rt_strip_prefix_mode r) \<and>
     (rt_strip_prefix_mode r = [] \<longrightarrow> defaultStripPrefixMode r d = []) \<and>
     rt_strip_prefix r = resolveEffectiveStripPrefix r d"

lemma normalizeRoutingRoute_simps [simp]:
  "rt_path (normalizeRoutingRoute d r) = normalizedPublicPath (rt_path r)"
  "rt_service (normalizeRoutingRoute d r) = rt_service r"
  "rt_websocket (normalizeRoutingRoute d r) = rt_websocket r"
  "rt_port (normalizeRoutingRoute d r) = rt_port r"
  by (simp_all add: normalizeRoutingRoute_def Let_def)

lemma defaultStripPrefixMode_mode: "strip_mode (defaultStripPrefixMode r d)"
  by (simp add: defaultStripPrefixMode_def strip_mode_def)

lemma auto_strip_only:
  "shouldDefaultAutoStripPrefix r d \<longleftrightarrow> defaultStripPrefixMode r d = routingStripPrefixModeAuto"
  by (simp add: shouldDefaultAutoStripPrefix_def defaultStripPrefixMode_def strip_modes)

lemma route_depends:
  "defaultStripPrefixMode (r\<lparr>rt_strip_prefix_mode := m\<rparr>) d = defaultStripPrefixMode r d"
  "defaultStripPrefixMode (r\<lparr>rt_strip_prefix := b\<rparr>) d = defaultStripPrefixMode r d"
  "shouldDefaultAutoStripPrefix (r\<lparr>rt_strip_prefix_mode := m\<rparr>) d = shouldDefaultAutoStripPrefix r d"
  "shouldDefaultAutoStripPrefix (r\<lparr>rt_strip_prefix := b\<rparr>) d = shouldDefaultAutoStripPrefix r d"
  by (simp_all add: defaultStripPrefixMode_def shouldDefaultAutoStripPrefix_def)

lemma route_same:
  "rt_path r = p \<Longrightarrow> r\<lparr>rt_path := p\<rparr> = (r :: Route)"
  "rt_strip_prefix_mode r = m \<Longrightarrow> r\<lparr>rt_strip_prefix_mode := m\<rparr> = (r :: Route)"
  "rt_strip_prefix r = b \<Longrightarrow> r\<lparr>rt_strip_prefix := b\<rparr> = (r :: Route)"
  by (cases r; simp)+

interpretation routes: normaliser "normalizeRoutingRoute d" "route_normal d" for d
proof
  show "route_normal d (normalizeRoutingRoute d x)" for x
    by (auto simp: route_normal_def normalizeRoutingRoute_def Let_def paths.norm_canonical
        modes.norm_canonical defaultStripPrefixMode_mode route_depends
        resolveEffectiveStripPrefix_def)
  show "normalizeRoutingRoute d x = x" if "route_normal d x" for x
  proof -
    have "x\<lparr>rt_path := normalizedPublicPath (rt_path x),
        rt_strip_prefix_mode := normalizeStripPrefixMode (rt_strip_prefix_mode x)\<rparr> = x"
      using that by (simp add: route_normal_def route_norm)
    then have "normalizeRoutingRoute d x =
        (let r2 = (if rt_strip_prefix_mode x = []
                   then x\<lparr>rt_strip_prefix_mode := defaultStripPrefixMode x d\<rparr> else x)
         in r2\<lparr>rt_strip_prefix := resolveEffectiveStripPrefix r2 d\<rparr>)"
      by (simp add: normalizeRoutingRoute_def)
    then show ?thesis using that by (simp add: route_normal_def route_same)
  qed
qed

section \<open>The policy by convention\<close>

text \<open>\<open>sanitizeDomainLabel\<close>: letters and digits, everything between them one dash.\<close>

fun label_loop :: "string \<Rightarrow> bool \<Rightarrow> string \<Rightarrow> string" where
  "label_loop out last_dash [] = out"
| "label_loop out last_dash (c # s) =
     (if (CHR ''a'' \<le> c \<and> c \<le> CHR ''z'') \<or> (CHR ''0'' \<le> c \<and> c \<le> CHR ''9'')
      then label_loop (out @ [c]) False s
      else if length out > 0 \<and> \<not> last_dash then label_loop (out @ ''-'') True s
      else label_loop out last_dash s)"

definition trim_dashes :: "string \<Rightarrow> string" where
  "trim_dashes s = rev (dropWhile (\<lambda>c. c = CHR ''-'') (rev (dropWhile (\<lambda>c. c = CHR ''-'') s)))"

definition sanitizeDomainLabel :: "string \<Rightarrow> string" where
  "sanitizeDomainLabel raw =
     (let r = to_lower (trim_space raw) in
      if r = [] then ''app'' else trim_dashes (label_loop [] False r))"

text \<open>The keys at least as long as a path. The loop below appends to a path that is a key, which leaves one of them behind.\<close>

definition longer_keys :: "string list \<Rightarrow> string \<Rightarrow> string set" where
  "longer_keys seen p = {q \<in> set seen. length p \<le> length q}"

lemma longer_keys_alt:
  assumes "p \<in> set seen"
  shows "longer_keys seen (p @ ''-alt'') \<subset> longer_keys seen p"
proof
  show "longer_keys seen (p @ ''-alt'') \<subseteq> longer_keys seen p" by (auto simp: longer_keys_def)
  have "p \<in> longer_keys seen p" "p \<notin> longer_keys seen (p @ ''-alt'')"
    using assms by (simp_all add: longer_keys_def)
  then show "longer_keys seen (p @ ''-alt'') \<noteq> longer_keys seen p" by metis
qed

lemma finite_longer_keys [simp]: "finite (longer_keys seen p)"
  by (simp add: longer_keys_def)

text \<open>\<open>for pathExists(path, seenPaths) { path = path + "-alt" }\<close>\<close>

function free_path :: "string list \<Rightarrow> string \<Rightarrow> string" where
  "free_path seen p = (if p \<in> set seen then free_path seen (p @ ''-alt'') else p)"
  by pat_completeness auto

termination
  by (relation "measure (\<lambda>(seen, p). card (longer_keys seen p))")
    (simp_all add: psubset_card_mono longer_keys_alt del: append.simps)

declare free_path.simps [simp del]

definition firstMatchingService ::
    "routingDescriptor list \<Rightarrow> (routingDescriptor \<Rightarrow> bool) \<Rightarrow> routingDescriptor" where
  "firstMatchingService ds P = (case List.find P ds of Some d \<Rightarrow> d | None \<Rightarrow> zero_descriptor)"

definition firstNonMatchingPublicService ::
    "routingDescriptor list \<Rightarrow> string list \<Rightarrow> routingDescriptor" where
  "firstNonMatchingPublicService ds disallowed =
     (let blocked = filter (\<lambda>n. n \<noteq> []) (map trim_space disallowed) in
      case List.find (\<lambda>d. ds_name d \<notin> set blocked) ds of Some d \<Rightarrow> d | None \<Rightarrow> zero_descriptor)"

definition new_route :: "string \<Rightarrow> string \<Rightarrow> bool \<Rightarrow> string \<Rightarrow> Route" where
  "new_route p svc ws mode = \<lparr>rt_path = p, rt_service = svc, rt_port = 0, rt_websocket = ws,
     rt_strip_prefix = False, rt_strip_prefix_mode = mode\<rparr>"

definition defaultRouteForSinglePublicService :: "routingDescriptor \<Rightarrow> Route" where
  "defaultRouteForSinglePublicService d =
     (if isWebSocketDescriptor d then normalizeRoutingRoute d (new_route ''/ws'' (ds_name d) True [])
      else if isAPIDescriptor d \<or> isBackendDescriptor d
      then normalizeRoutingRoute d (new_route ''/api'' (ds_name d) False routingStripPrefixModeAuto)
      else normalizeRoutingRoute d (new_route ''/'' (ds_name d) False []))"

text \<open>The path of a service that is neither websocket, API nor root.\<close>

definition own_path :: "routingDescriptor \<Rightarrow> string" where
  "own_path d =
     (let p = ''/'' @ sanitizeDomainLabel (ds_name d) in
      if p \<noteq> ''/'' then p
      else let q = ''/'' @ sanitizeDomainLabel (ds_kind d) in
           if q \<noteq> ''/'' then q else ''/service'')"

text \<open>The loop over the public services: routes so far, \<open>seenPaths\<close>, \<open>seenServices\<close>.\<close>

fun other_routes ::
    "routingDescriptor list \<Rightarrow> Route list \<Rightarrow> string list \<Rightarrow> string list \<Rightarrow> Route list" where
  "other_routes [] routes paths services = routes"
| "other_routes (d # ds) routes paths services =
     (if ds_name d \<in> set services then other_routes ds routes paths services
      else let p = free_path paths (own_path d);
               r = normalizeRoutingRoute d (new_route p (ds_name d) False []);
               r' = (if isWebSocketDescriptor d then r\<lparr>rt_websocket := True\<rparr> else r)
           in other_routes ds (routes @ [r']) (p # paths) (ds_name d # services))"

definition api_service :: "routingDescriptor list \<Rightarrow> routingDescriptor" where
  "api_service ps = (let a = firstMatchingService ps isAPIDescriptor in
     if ds_name a = [] then firstMatchingService ps isBackendDescriptor else a)"

definition root_service :: "routingDescriptor list \<Rightarrow> routingDescriptor" where
  "root_service ps =
     (let f = firstMatchingService ps isFrontendDescriptor;
          g = (if ds_name f = []
               then firstNonMatchingPublicService ps
                      [ds_name (firstMatchingService ps isWebSocketDescriptor), ds_name (api_service ps)]
               else f)
      in if ds_name g = [] then ps ! 0 else g)"

text \<open>The routes the conventions fix: \<open>/ws\<close>, \<open>/api\<close>, \<open>/\<close>.\<close>

definition fixed_routes :: "routingDescriptor list \<Rightarrow> Route list" where
  "fixed_routes ps =
     (let ws = firstMatchingService ps isWebSocketDescriptor; api = api_service ps; root = root_service ps in
      (if ds_name ws \<noteq> [] then [normalizeRoutingRoute ws (new_route ''/ws'' (ds_name ws) True [])] else []) @
      (if ds_name api \<noteq> [] \<and> ds_name api \<noteq> ds_name root
       then [normalizeRoutingRoute api (new_route ''/api'' (ds_name api) False [])] else []) @
      [normalizeRoutingRoute root (new_route ''/'' (ds_name root) False [])])"

definition buildDefaultRoutingPolicy :: "string \<Rightarrow> routingDescriptor list \<Rightarrow> RoutingPolicy" where
  "buildDefaultRoutingPolicy domain services =
     (let ps = filter ds_public services in
      \<lparr>rp_shared_domain = trim_space domain,
       rp_routes =
         (if length ps = 0 then []
          else if length ps = 1 then [defaultRouteForSinglePublicService (ps ! 0)]
          else let fixed = fixed_routes ps in
               other_routes ps fixed (map rt_path fixed) (map rt_service fixed))\<rparr>)"

subsection \<open>Facts on the conventions\<close>

lemma free_path_free: "free_path seen p \<notin> set seen"
  by (induction seen p rule: free_path.induct) (subst free_path.simps, simp)

lemma free_path_rounds:
  "\<exists>k \<le> card (longer_keys seen p). free_path seen p = p @ concat (replicate k ''-alt'') \<and>
     (\<forall>j < k. p @ concat (replicate j ''-alt'') \<in> set seen)"
proof (induction seen p rule: free_path.induct)
  case (1 seen p)
  show ?case
  proof (cases "p \<in> set seen")
    case False
    then show ?thesis by (intro exI [of _ 0]) (simp add: free_path.simps [of seen p])
  next
    case True
    with "1.IH" obtain k where k: "k \<le> card (longer_keys seen (p @ ''-alt''))"
      "free_path seen (p @ ''-alt'') = (p @ ''-alt'') @ concat (replicate k ''-alt'')"
      "\<And>j. j < k \<Longrightarrow> (p @ ''-alt'') @ concat (replicate j ''-alt'') \<in> set seen"
      by blast
    have "card (longer_keys seen (p @ ''-alt'')) < card (longer_keys seen p)"
      using True by (intro psubset_card_mono longer_keys_alt) simp_all
    with k(1) have "Suc k \<le> card (longer_keys seen p)" by simp
    moreover have "free_path seen p = p @ concat (replicate (Suc k) ''-alt'')"
      using True k(2) by (simp add: free_path.simps [of seen p])
    moreover have "p @ concat (replicate j ''-alt'') \<in> set seen" if "j < Suc k" for j
      using that True k(3) by (cases j) auto
    ultimately show ?thesis by blast
  qed
qed

lemma public_path_slash: "public_path (CHR ''/'' # s) \<longleftrightarrow> trim_right s = s"
  by (simp add: public_path_def)

lemma public_path_alt: "public_path p \<Longrightarrow> public_path (p @ concat (replicate k ''-alt''))"
proof (induction k)
  case (Suc k)
  have snoc: "concat (replicate (Suc k) ''-alt'') = concat (replicate k ''-alt'') @ ''-alt''"
    by (metis append_Nil2 concat.simps(1,2) concat_append replicate_Suc replicate_append_same)
  obtain t where t: "p @ concat (replicate k ''-alt'') = CHR ''/'' # t"
    using Suc by (auto simp: public_path_def has_prefix_iff)
  have "trim_right ((t @ ''-al'') @ [CHR ''t'']) = (t @ ''-al'') @ [CHR ''t'']"
    by (subst trim_right_snoc) (simp add: is_space_def)
  then have "public_path ((CHR ''/'' # t) @ ''-alt'')" by (simp add: public_path_slash)
  then show ?case unfolding snoc by (metis append_assoc t)
qed simp

lemma public_path_free: "public_path p \<Longrightarrow> public_path (free_path seen p)"
  using free_path_rounds [of seen p] public_path_alt by metis

lemma label_char_no_space:
  "(CHR ''a'' \<le> c \<and> c \<le> CHR ''z'') \<or> (CHR ''0'' \<le> c \<and> c \<le> CHR ''9'') \<Longrightarrow> \<not> is_space c"
proof -
  have "\<forall>c \<in> {CHR 0x20, CHR 0x09, CHR 0x0A, CHR 0x0B, CHR 0x0C, CHR 0x0D}.
      \<not> ((CHR ''a'' \<le> c \<and> c \<le> CHR ''z'') \<or> (CHR ''0'' \<le> c \<and> c \<le> CHR ''9''))"
    by code_simp
  then show "(CHR ''a'' \<le> c \<and> c \<le> CHR ''z'') \<or> (CHR ''0'' \<le> c \<and> c \<le> CHR ''9'') \<Longrightarrow> \<not> is_space c"
    unfolding is_space_def by blast
qed

lemma label_loop_chars:
  "\<forall>c \<in> set out. \<not> is_space c \<Longrightarrow> \<forall>c \<in> set (label_loop out b s). \<not> is_space c"
proof (induction out b s rule: label_loop.induct)
  case (2 out b c s)
  have "\<not> is_space (CHR ''-'')" by (simp add: is_space_def)
  then show ?case using 2 label_char_no_space [of c] by (auto split: if_splits)
qed simp

lemma sanitize_chars: "\<forall>c \<in> set (sanitizeDomainLabel raw). \<not> is_space c"
proof -
  have sub: "c \<in> set s" if "c \<in> set (trim_dashes s)" for c s
    using that unfolding trim_dashes_def set_rev by (auto dest!: set_dropWhileD)
  have "\<forall>c \<in> set ''app''. \<not> is_space c" by (simp add: is_space_def)
  moreover have "\<forall>c \<in> set (trim_dashes (label_loop [] False r)). \<not> is_space c" for r
    using label_loop_chars [of "[]" False r] by (auto dest: sub)
  ultimately show ?thesis by (simp add: sanitizeDomainLabel_def Let_def)
qed

lemma public_path_own: "public_path (own_path d)"
proof -
  have "public_path (''/'' @ sanitizeDomainLabel n)" for n
    using sanitize_chars [of n] by (simp add: public_path_slash trim_right_nospace)
  moreover have "public_path ''/service''" by (simp add: public_path_slash trim_right_def is_space_def)
  ultimately show ?thesis by (simp add: own_path_def Let_def)
qed

text \<open>What the loop over the public services maintains.\<close>

definition route_book :: "Route list \<Rightarrow> string list \<Rightarrow> string list \<Rightarrow> bool" where
  "route_book routes paths services \<longleftrightarrow>
     distinct (map rt_path routes) \<and> set paths = rt_path ` set routes \<and>
     set services = rt_service ` set routes \<and> (\<forall>r \<in> set routes. public_path (rt_path r))"

lemma other_routes_book:
  "route_book routes paths services \<Longrightarrow>
   (\<exists>more paths'. other_routes ds routes paths services = routes @ more \<and>
      route_book (routes @ more) paths' (map rt_service (routes @ more)) \<and>
      rt_service ` set (routes @ more) = set services \<union> ds_name ` set ds)"
proof (induction ds routes paths services rule: other_routes.induct)
  case (1 routes paths services)
  then show ?case by (intro exI [of _ "[]"] exI [of _ paths]) (auto simp: route_book_def)
next
  case (2 d ds routes paths services)
  show ?case
  proof (cases "ds_name d \<in> set services")
    case True
    then show ?thesis using "2.IH"(1) "2.prems" by (auto simp: insert_absorb)
  next
    case False
    define p where "p = free_path paths (own_path d)"
    define r where "r = normalizeRoutingRoute d (new_route p (ds_name d) False [])"
    define r' where "r' = (if isWebSocketDescriptor d then r\<lparr>rt_websocket := True\<rparr> else r)"
    have pub: "public_path p" by (simp add: p_def public_path_free public_path_own)
    then have r': "rt_path r' = p" "rt_service r' = ds_name d"
      by (simp_all add: r'_def r_def new_route_def paths.norm_id)
    have "p \<notin> set paths" by (simp add: p_def free_path_free)
    with "2.prems" pub r' have "route_book (routes @ [r']) (p # paths) (ds_name d # services)"
      by (auto simp: route_book_def)
    then have "\<exists>more paths'. other_routes ds (routes @ [r']) (p # paths) (ds_name d # services) =
        (routes @ [r']) @ more \<and>
        route_book ((routes @ [r']) @ more) paths' (map rt_service ((routes @ [r']) @ more)) \<and>
        rt_service ` set ((routes @ [r']) @ more) = set (ds_name d # services) \<union> ds_name ` set ds"
      using "2.IH"(2) [OF False p_def r_def r'_def] by blast
    then obtain more paths' where more:
      "other_routes ds (routes @ [r']) (p # paths) (ds_name d # services) = (routes @ [r']) @ more"
      "route_book ((routes @ [r']) @ more) paths' (map rt_service ((routes @ [r']) @ more))"
      "rt_service ` set ((routes @ [r']) @ more) = set (ds_name d # services) \<union> ds_name ` set ds"
      by blast
    have "other_routes (d # ds) routes paths services =
        other_routes ds (routes @ [r']) (p # paths) (ds_name d # services)"
      using False by (simp add: p_def r_def r'_def Let_def)
    then show ?thesis using more by (intro exI [of _ "r' # more"] exI [of _ paths']) auto
  qed
qed

lemma firstMatchingService_in:
  "ds_name (firstMatchingService ds P) \<noteq> [] \<Longrightarrow>
     firstMatchingService ds P \<in> set ds \<and> P (firstMatchingService ds P)"
  by (auto simp: firstMatchingService_def zero_descriptor_def dest: find_SomeD split: option.splits)

lemma firstNonMatching_in:
  "ds_name (firstNonMatchingPublicService ds bs) \<noteq> [] \<Longrightarrow>
     firstNonMatchingPublicService ds bs \<in> set ds"
  unfolding firstNonMatchingPublicService_def Let_def
  by (auto simp: zero_descriptor_def simp del: set_filter set_map dest: find_SomeD split: option.splits)

lemma api_service_in: "ds_name (api_service ps) \<noteq> [] \<Longrightarrow> api_service ps \<in> set ps"
  using firstMatchingService_in [of ps isAPIDescriptor] firstMatchingService_in [of ps isBackendDescriptor]
  by (auto simp: api_service_def Let_def split: if_splits)

lemma root_service_in: "ps \<noteq> [] \<Longrightarrow> root_service ps \<in> set ps"
  using firstMatchingService_in [of ps isFrontendDescriptor] firstNonMatching_in [of ps]
  by (auto simp: root_service_def Let_def split: if_splits)

lemma public_path_fixed [simp]:
  "normalizedPublicPath ''/ws'' = ''/ws''" "normalizedPublicPath ''/api'' = ''/api''"
  "normalizedPublicPath ''/'' = ''/''"
  "public_path ''/ws''" "public_path ''/api''" "public_path ''/''"
  by (simp_all add: normalizedPublicPath_def public_path_def trim_right_def is_space_def)

lemma fixed_routes_book:
  "route_book (fixed_routes ps) (map rt_path (fixed_routes ps)) (map rt_service (fixed_routes ps))"
  by (auto simp: route_book_def fixed_routes_def Let_def new_route_def)

lemma fixed_routes_services:
  "ps \<noteq> [] \<Longrightarrow> rt_service ` set (fixed_routes ps) \<subseteq> ds_name ` set ps"
  using firstMatchingService_in [of ps isWebSocketDescriptor] api_service_in [of ps] root_service_in [of ps]
  by (auto simp: fixed_routes_def Let_def new_route_def)

lemma fixed_routes_root: "''/'' \<in> rt_path ` set (fixed_routes ps)"
  by (simp add: fixed_routes_def Let_def new_route_def)

lemma default_single:
  "rt_service (defaultRouteForSinglePublicService d) = ds_name d"
  "public_path (rt_path (defaultRouteForSinglePublicService d))"
  by (simp_all add: defaultRouteForSinglePublicService_def new_route_def)

lemma default_routes_book:
  fixes services :: "routingDescriptor list" and domain :: string
  defines "ps \<equiv> filter ds_public services"
    and "routes \<equiv> rp_routes (buildDefaultRoutingPolicy domain services)"
  shows "distinct (map rt_path routes)"
    and "rt_service ` set routes = ds_name ` set ps"
    and "\<And>r. r \<in> set routes \<Longrightarrow> public_path (rt_path r)"
    and "1 < length ps \<Longrightarrow> ''/'' \<in> rt_path ` set routes"
proof -
  consider "ps = []" | d where "ps = [d]" | "1 < length ps" by (cases ps rule: remdups_adj.cases) auto
  then have "distinct (map rt_path routes) \<and> rt_service ` set routes = ds_name ` set ps \<and>
    (\<forall>r \<in> set routes. public_path (rt_path r)) \<and> (1 < length ps \<longrightarrow> ''/'' \<in> rt_path ` set routes)"
  proof cases
    case 3
    let ?f = "fixed_routes ps"
    have routes: "routes = other_routes ps ?f (map rt_path ?f) (map rt_service ?f)"
      using 3 by (auto simp: routes_def buildDefaultRoutingPolicy_def ps_def [symmetric] Let_def)
    obtain more paths' where "routes = ?f @ more" "route_book (?f @ more) paths' (map rt_service (?f @ more))"
      "rt_service ` set (?f @ more) = rt_service ` set ?f \<union> ds_name ` set ps"
      using other_routes_book [OF fixed_routes_book] unfolding routes by (metis list.set_map)
    moreover have "rt_service ` set ?f \<subseteq> ds_name ` set ps" using 3 by (intro fixed_routes_services) auto
    ultimately show ?thesis using fixed_routes_root [of ps] by (auto simp: route_book_def)
  qed (simp_all add: routes_def buildDefaultRoutingPolicy_def ps_def [symmetric] default_single)
  then show "distinct (map rt_path routes)" "rt_service ` set routes = ds_name ` set ps"
    "\<And>r. r \<in> set routes \<Longrightarrow> public_path (rt_path r)" "1 < length ps \<Longrightarrow> ''/'' \<in> rt_path ` set routes"
    by auto
qed

lemma distinct_count_list: "distinct xs \<Longrightarrow> count_list xs x = (if x \<in> set xs then 1 else 0)"
  by (induction xs) auto

section \<open>Properties\<close>

text \<open>
  Property C36: the loop that appends \<open>-alt\<close> to a path until \<open>seenPaths\<close> does not hold it ends, after
  at most as many rounds as there are keys, with the first free path.
\<close>

theorem alt_loop_terminates:
  "\<exists>k \<le> length seen. free_path seen p = p @ concat (replicate k ''-alt'') \<and>
     free_path seen p \<notin> set seen \<and> (\<forall>j < k. p @ concat (replicate j ''-alt'') \<in> set seen)"
proof -
  have "card (longer_keys seen p) \<le> length seen"
    by (metis (no_types, lifting) List.finite_set card_length card_mono le_trans longer_keys_def mem_Collect_eq subsetI)
  then show ?thesis using free_path_rounds [of seen p] free_path_free by (meson le_trans)
qed

theorem alt_loop_terminates_witness:
  "free_path [''/ws'', ''/ws-alt''] ''/ws'' \<notin> {''/ws'', ''/ws-alt''}"
  using alt_loop_terminates [of "[''/ws'', ''/ws-alt'']" "''/ws''"] by auto

text \<open>
  Property C35: the policy by convention is well formed: its paths are normal and distinct, and it
  routes the public services and only them. With more than one public service exactly one route is
  the root; with one public service there is one route, which need not be the root (an API service
  alone gets \<open>/api\<close>), and with none there is no route.
\<close>

theorem default_policy_well_formed:
  fixes domain :: string and services :: "routingDescriptor list"
  defines "ps \<equiv> filter ds_public services"
    and "routes \<equiv> rp_routes (buildDefaultRoutingPolicy domain services)"
  shows "distinct (map rt_path routes) \<and> list_all (\<lambda>r. public_path (rt_path r)) routes \<and>
    rt_service ` set routes = ds_name ` set ps \<and>
    (if 1 < length ps then length (filter (\<lambda>r. rt_path r = ''/'') routes) = 1
     else length routes = length ps)"
proof -
  note book = default_routes_book [where domain = domain and services = services, folded ps_def routes_def]
  have "length (filter (\<lambda>r. rt_path r = ''/'') routes) = 1" if "1 < length ps"
  proof -
    have "length (filter (\<lambda>r. rt_path r = ''/'') routes) = count_list (map rt_path routes) ''/''"
      by (simp add: count_list_eq_length_filter filter_map o_def eq_commute [of "''/''"])
    also have "\<dots> = 1"
      using book(1) book(4) [OF that] by (simp add: distinct_count_list)
    finally show ?thesis .
  qed
  moreover have "length routes = length ps" if "\<not> 1 < length ps"
    using that by (cases ps rule: remdups_adj.cases)
      (simp_all add: routes_def buildDefaultRoutingPolicy_def ps_def [symmetric])
  ultimately show ?thesis using book by (auto simp: list_all_iff)
qed

end
