(* ===== verification/RoutingService.thy ===== *)
theory RoutingService
  imports Routing GoFmt
begin

text \<open>
  The routing service (\<open>backend/internal/service/routing_service.go\<close>) on the table of policies
  (\<open>backend/internal/repository/routing_policy_repository.go\<close>), the services of a project and its
  managed domain. As in theory Store a call of the database may fail, a JSON column is a
  \<open>json_text\<close>, clock and identifiers are streams.
\<close>

section \<open>Tables\<close>

record PolicyRow =
  pr_id :: string
  pr_project_id :: string
  pr_shared_domain :: string
  pr_routes_json :: "Route list json_text"
  pr_created_at :: time
  pr_updated_at :: time

record ServiceRow =
  sr_project_id :: string
  sr_name :: string
  sr_kind :: string
  sr_runtime_profile :: "string option"
  sr_public :: bool

record DomainRow =
  dm_project_id :: string
  dm_kind :: string
  dm_hostname :: string

record routing_db =
  rd_policies :: "PolicyRow list"
  rd_services :: "ServiceRow list"
  rd_domains :: "DomainRow list"
  rd_has_domains :: bool
  rd_faults :: "bool list"
  rd_clock :: "nat \<Rightarrow> time"
  rd_tick :: nat
  rd_fresh :: "nat \<Rightarrow> string"
  rd_next :: nat

type_synonym 'a rprog = "(routing_db, 'a) prog"

definition rd_now :: "time rprog" where
  "rd_now = (\<lambda>w. (Ok (rd_clock w (rd_tick w)), w\<lparr>rd_tick := rd_tick w + 1\<rparr>))"

definition rd_prefixed_id :: "string \<Rightarrow> string rprog" where
  "rd_prefixed_id p = (\<lambda>w. (Ok (p @ ''_'' @ rd_fresh w (rd_next w)), w\<lparr>rd_next := rd_next w + 1\<rparr>))"

definition rd_call :: "string \<Rightarrow> (routing_db \<Rightarrow> 'a \<times> routing_db) \<Rightarrow> 'a rprog" where
  "rd_call msg f = (\<lambda>w.
     (case rd_faults w of
        True # fs \<Rightarrow> (Fail (if msg = [] then DbFailure else Wrapped msg DbFailure), w\<lparr>rd_faults := fs\<rparr>)
      | fs \<Rightarrow> (let r = f (w\<lparr>rd_faults := tl fs\<rparr>) in (Ok (fst r), snd r))))"

definition PolicyGetByProjectID :: "string \<Rightarrow> PolicyRow option rprog" where
  "PolicyGetByProjectID pid =
     rd_call ''query routing policy'' (\<lambda>w. (List.find (\<lambda>p. pr_project_id p = pid) (rd_policies w), w))"

text \<open>
  \<open>Upsert\<close>: \<open>ON CONFLICT (project_id) DO UPDATE\<close> of domain, routes and \<open>updated_at\<close>; the identifier
  and creation time of an existing row stay.
\<close>

definition upsert_rows :: "PolicyRow \<Rightarrow> PolicyRow list \<Rightarrow> PolicyRow list" where
  "upsert_rows p rows =
     (if \<exists>q \<in> set rows. pr_project_id q = pr_project_id p
      then update_where (\<lambda>q. pr_project_id q = pr_project_id p)
             (\<lambda>q. q\<lparr>pr_shared_domain := pr_shared_domain p, pr_routes_json := pr_routes_json p,
                    pr_updated_at := pr_updated_at p\<rparr>) rows
      else rows @ [p])"

definition Upsert :: "PolicyRow \<Rightarrow> unit rprog" where
  "Upsert p =
     andThen (if pr_id p = [] then rd_prefixed_id ''rp'' else return (pr_id p)) (\<lambda>pid.
     andThen rd_now (\<lambda>now.
       let p' = p\<lparr>pr_id := pid, pr_created_at := (if is_zero (pr_created_at p) then now else pr_created_at p),
                  pr_updated_at := now\<rparr>
       in rd_call ''upsert routing policy'' (\<lambda>w. ((), w\<lparr>rd_policies := upsert_rows p' (rd_policies w)\<rparr>))))"

definition DeleteByProjectID :: "string \<Rightarrow> unit rprog" where
  "DeleteByProjectID pid = rd_call ''delete routing policy''
     (\<lambda>w. ((), w\<lparr>rd_policies := filter (\<lambda>p. pr_project_id p \<noteq> pid) (rd_policies w)\<rparr>))"

definition ServicesListByProject :: "string \<Rightarrow> ServiceRow list rprog" where
  "ServicesListByProject pid =
     rd_call [] (\<lambda>w. (sort_key sr_name (filter (\<lambda>s. sr_project_id s = pid) (rd_services w)), w))"

definition GetPrimaryManagedByProjectID :: "string \<Rightarrow> DomainRow rprog" where
  "GetPrimaryManagedByProjectID pid =
     (if trim_space pid = [] then raise (Sentinel ErrInvalidInput)
      else andThen (rd_call ''query project domain by project and kind''
             (\<lambda>w. (List.find (\<lambda>d. dm_project_id d = pid \<and> dm_kind d = ''managed'') (rd_domains w), w)))
           (\<lambda>item. case item of None \<Rightarrow> raise (Sentinel ErrProjectDomainNotFound) | Some d \<Rightarrow> return d))"

definition parseRoutes :: "Route list json_text \<Rightarrow> Route list res" where
  "parseRoutes doc = (case doc of
       JsonBlank \<Rightarrow> Ok []
     | JsonDoc routes \<Rightarrow> Ok routes
     | JsonBraces \<Rightarrow> Fail (Wrapped ''parse routes JSON'' (Errorf ''cannot unmarshal object''))
     | JsonBad \<Rightarrow> Fail (Wrapped ''parse routes JSON'' (Errorf ''invalid'')))"

section \<open>Descriptors\<close>

definition routingDescriptorsFromModels :: "ServiceRow list \<Rightarrow> routingDescriptor list" where
  "routingDescriptorsFromModels items = map (\<lambda>s. \<lparr>ds_name = sr_name s, ds_kind = sr_kind s,
     ds_profile = (case sr_runtime_profile s of None \<Rightarrow> [] | Some p \<Rightarrow> trim_space p),
     ds_public = sr_public s\<rparr>) items"

definition routingDescriptorsFromContracts :: "ServiceContract list \<Rightarrow> routingDescriptor list" where
  "routingDescriptorsFromContracts items = map (\<lambda>s. \<lparr>ds_name = sv_name s, ds_kind = sv_kind s,
     ds_profile = sv_runtime_profile s, ds_public = sv_public s\<rparr>) items"

text \<open>\<open>serviceIndex\<close>: a later descriptor of the same name replaces an earlier one.\<close>

definition descriptor_index :: "routingDescriptor list \<Rightarrow> string \<rightharpoonup> routingDescriptor" where
  "descriptor_index ds = foldl (\<lambda>m d. m(ds_name d \<mapsto> d)) Map.empty ds"

definition indexed :: "routingDescriptor list \<Rightarrow> string \<Rightarrow> routingDescriptor" where
  "indexed ds n = map_get zero_descriptor (descriptor_index ds) n"

section \<open>Guidance and warnings\<close>

record GuidanceRoute =
  gd_path :: string
  gd_service :: string
  gd_audience :: string
  gd_source :: string
  gd_websocket :: bool

definition buildRoutingGuidanceRoutes ::
    "RoutingPolicy \<Rightarrow> routingDescriptor list \<Rightarrow> string \<Rightarrow> GuidanceRoute list" where
  "buildRoutingGuidanceRoutes policy services source = map (\<lambda>r.
     let d = indexed services (rt_service r) in
     \<lparr>gd_path = rt_path r, gd_service = rt_service r,
      gd_audience = (if rt_websocket r then ''websocket''
                     else if rt_path r = ''/'' \<and> isFrontendDescriptor d then ''frontend-root''
                     else if isAPIDescriptor d \<or> isBackendDescriptor d then ''browser-api''
                     else ''frontend-browser''),
      gd_source = source, gd_websocket = rt_websocket r\<rparr>) (rp_routes policy)"

definition suggestion_key :: "Route \<Rightarrow> string" where
  "suggestion_key r = rt_service r @ (if rt_websocket r then ''|true'' else ''|false'')"

definition suggested_by_service :: "Route list \<Rightarrow> string \<rightharpoonup> Route" where
  "suggested_by_service routes = foldl (\<lambda>m r. m(suggestion_key r \<mapsto> r)) Map.empty routes"

definition moved_warning :: "routingDescriptor \<Rightarrow> Route \<Rightarrow> string" where
  "moved_warning d r =
     (let svc = go_quote (rt_service r); path = go_quote (normalizedPublicPath (rt_path r)) in
      if rt_websocket r
      then ''WebSocket service '' @ svc @ '' now uses '' @ path @
           '' instead of the default /ws. Update browser clients and snippets to match.''
      else if isAPIDescriptor d \<or> isBackendDescriptor d
      then ''API service '' @ svc @ '' now uses '' @ path @
           '' instead of the default /api. Browser and client examples must use the effective path.''
      else if isFrontendDescriptor d
      then ''Frontend service '' @ svc @ '' now uses '' @ path @
           '' instead of the default /. Make sure the primary app URL and docs follow the custom path.''
      else ''Public service '' @ svc @ '' uses custom path '' @ path @
           ''. Update any client configuration to match the effective route.'')"

definition moved_warnings :: "RoutingPolicy \<Rightarrow> RoutingPolicy \<Rightarrow> routingDescriptor list \<Rightarrow> string list" where
  "moved_warnings suggested effective services = concat (map (\<lambda>r.
     case suggested_by_service (rp_routes suggested) (suggestion_key r) of
       None \<Rightarrow> []
     | Some s \<Rightarrow> if normalizedPublicPath (rt_path s) \<noteq> normalizedPublicPath (rt_path r)
                then [moved_warning (indexed services (rt_service r)) r] else [])
     (rp_routes effective))"

definition root_owner :: "Route list \<Rightarrow> string" where
  "root_owner routes =
     foldl (\<lambda>owner r. if normalizedPublicPath (rt_path r) = ''/'' then rt_service r else owner) [] routes"

definition buildRoutingWarnings ::
    "RoutingPolicy \<Rightarrow> RoutingPolicy \<Rightarrow> routingDescriptor list \<Rightarrow> string list" where
  "buildRoutingWarnings suggested effective services =
     (if rp_routes effective = [] then []
      else let frontend = (case List.find (\<lambda>d. ds_public d \<and> isFrontendDescriptor d) services of
                             None \<Rightarrow> [] | Some d \<Rightarrow> ds_name d);
               root = root_owner (rp_routes effective)
           in moved_warnings suggested effective services @
              (if frontend \<noteq> [] \<and> root \<noteq> [] \<and> root \<noteq> frontend
               then [''Root path / currently points to '' @ go_quote root @
                     '', not the detected frontend service '' @ go_quote frontend @
                     ''. This is valid custom mode, but browser entrypoints and docs should use the effective route.'']
               else []))"

section \<open>The service\<close>

record ProjectRoutingResult =
  rr_policy :: RoutingPolicy
  rr_available :: "string list"
  rr_suggested :: "GuidanceRoute list"
  rr_effective :: "GuidanceRoute list"
  rr_warnings :: "string list"

record UpdateRoutingCommand =
  ur_user_id :: string
  ur_role :: string
  ur_project_id :: string
  ur_shared_domain :: string
  ur_routes :: "Route list"

definition routing_result ::
    "RoutingPolicy \<Rightarrow> RoutingPolicy \<Rightarrow> string \<Rightarrow> string list \<Rightarrow> routingDescriptor list \<Rightarrow> ProjectRoutingResult" where
  "routing_result suggested effective source available ds =
     \<lparr>rr_policy = effective, rr_available = available,
      rr_suggested = buildRoutingGuidanceRoutes suggested ds ''suggested'',
      rr_effective = buildRoutingGuidanceRoutes effective ds source,
      rr_warnings = buildRoutingWarnings suggested effective ds\<rparr>"

definition resolveManagedSharedDomain :: "string \<Rightarrow> string rprog" where
  "resolveManagedSharedDomain pid = (\<lambda>w.
     if \<not> rd_has_domains w then (Ok [], w)
     else (case GetPrimaryManagedByProjectID pid w of
             (Inl e, w') \<Rightarrow> (Ok [], w')
           | (Inr d, w') \<Rightarrow> (Ok (trim_space (dm_hostname d)), w')))"

definition GetRouting :: "string \<Rightarrow> string \<Rightarrow> string \<Rightarrow> ProjectRoutingResult rprog" where
  "GetRouting uid role pid =
     (if trim_space pid = [] then raise (Sentinel ErrInvalidInput)
      else andThen (wrapping ''failed to list services'' (ServicesListByProject pid)) (\<lambda>services.
        let available = sort (map sr_name services);
            ds = routingDescriptorsFromModels services
        in andThen (wrapping ''failed to load routing policy'' (PolicyGetByProjectID pid)) (\<lambda>policy.
           andThen (resolveManagedSharedDomain pid) (\<lambda>shared.
           case policy of
             None \<Rightarrow> let sug = buildDefaultRoutingPolicy shared ds
                     in return (routing_result sug sug ''convention'' available ds)
           | Some p \<Rightarrow>
               andThen (wrapping ''failed to parse routes'' (from_res (parseRoutes (pr_routes_json p)))) (\<lambda>routes.
               let records = map (\<lambda>r. normalizeRoutingRoute (indexed ds (rt_service r)) r) routes;
                   domain = first_non_empty [pr_shared_domain p, shared];
                   sug = buildDefaultRoutingPolicy domain ds
               in if records = [] then return (routing_result sug sug ''convention'' available ds)
                  else return (routing_result sug \<lparr>rp_shared_domain = domain, rp_routes = records\<rparr>
                                 ''configured'' available ds))))))"

text \<open>The checks of \<open>UpdateRouting\<close> on the routes, first those on one route after the other.\<close>

fun check_routes :: "string list \<Rightarrow> string set \<Rightarrow> nat \<Rightarrow> nat \<Rightarrow> Route list \<Rightarrow> unit res" where
  "check_routes paths names i roots [] =
     (if roots > 1
      then Fail (Errorf ''only one service can own the root path \"/\"; move backend traffic to /api or use a separate domain'')
      else Ok ())"
| "check_routes paths names i roots (r # rs) =
     (let route = ''route '' @ itoa (int i + 1); p = normalizedPublicPath (rt_path r) in
      if trim_space (rt_path r) = [] then Fail (Errorf (route @ '': path is required''))
      else if trim_space (rt_service r) = [] then Fail (Errorf (route @ '': service is required''))
      else if rt_service r \<notin> names
      then Fail (Errorf (route @ '': service '' @ go_quote (rt_service r) @ '' not found''))
      else if p \<in> set paths
      then Fail (Errorf (route @ '': path '' @ go_quote p @ '' is already assigned to another service''))
      else check_routes (p # paths) names (i + 1) (if p = ''/'' then roots + 1 else roots) rs)"

definition paths_overlap :: "Route \<Rightarrow> Route \<Rightarrow> bool" where
  "paths_overlap a b \<longleftrightarrow> rt_path a \<noteq> ''/'' \<and> rt_path b \<noteq> ''/'' \<and>
     (has_prefix (rt_path a) (rt_path b) \<or> has_prefix (rt_path b) (rt_path a))"

definition first_overlap :: "Route list \<Rightarrow> (nat \<times> nat) option" where
  "first_overlap rs =
     List.find (\<lambda>(i, j). i \<noteq> j \<and> paths_overlap (rs ! i) (rs ! j))
       (List.product [0..<length rs] [0..<length rs])"

definition check_overlaps :: "Route list \<Rightarrow> unit res" where
  "check_overlaps rs = (case first_overlap rs of
       None \<Rightarrow> Ok ()
     | Some (i, j) \<Rightarrow> Fail (Errorf (''route '' @ itoa (int i + 1) @ '' path '' @ go_quote (rt_path (rs ! i)) @
         '' overlaps with route '' @ itoa (int j + 1) @ '' path '' @ go_quote (rt_path (rs ! j)))))"

definition model_routes :: "routingDescriptor list \<Rightarrow> Route list \<Rightarrow> Route list" where
  "model_routes ds rs = map (\<lambda>r. normalizeRoutingRoute (indexed ds (trim_space (rt_service r))) r) rs"

definition UpdateRouting :: "UpdateRoutingCommand \<Rightarrow> ProjectRoutingResult rprog" where
  "UpdateRouting cmd =
     (if ur_project_id cmd = [] \<or> ur_user_id cmd = [] then raise (Sentinel ErrInvalidInput)
      else andThen (wrapping ''failed to list services for validation''
             (ServicesListByProject (ur_project_id cmd))) (\<lambda>services.
        andThen (from_res (check_routes [] (set (map sr_name services)) 0 0 (ur_routes cmd))) (\<lambda>_.
        andThen (from_res (check_overlaps (ur_routes cmd))) (\<lambda>_.
        andThen rd_now (\<lambda>now.
        let ds = routingDescriptorsFromModels services;
            routes = model_routes ds (ur_routes cmd);
            policy = \<lparr>pr_id = [], pr_project_id = ur_project_id cmd, pr_shared_domain = ur_shared_domain cmd,
                      pr_routes_json = JsonDoc routes, pr_created_at = zero_time, pr_updated_at = zero_time\<rparr>
        in andThen (wrapping ''failed to save routing policy'' (Upsert policy)) (\<lambda>_.
           let effective = \<lparr>rp_shared_domain = ur_shared_domain cmd,
                 rp_routes = map (\<lambda>r. r\<lparr>rt_strip_prefix_mode := []\<rparr>) routes\<rparr>;
               sug = buildDefaultRoutingPolicy (ur_shared_domain cmd) ds
           in return (routing_result sug effective ''configured'' (sort (map sr_name services)) ds)))))))"

text \<open>\<open>ResolveEffectiveRouting\<close>, which the rollout planner calls.\<close>

definition ResolveEffectiveRouting :: "string \<Rightarrow> ServiceContract list \<Rightarrow> string \<Rightarrow> RoutingPolicy rprog" where
  "ResolveEffectiveRouting pid services hint =
     (if trim_space pid = [] then raise (Sentinel ErrInvalidInput)
      else andThen (wrapping ''failed to load routing policy'' (PolicyGetByProjectID pid)) (\<lambda>policy.
        andThen (resolveManagedSharedDomain pid) (\<lambda>managed.
        let shared = first_non_empty [hint, managed]; ds = routingDescriptorsFromContracts services in
        case policy of
          None \<Rightarrow> return (buildDefaultRoutingPolicy shared ds)
        | Some p \<Rightarrow>
            andThen (wrapping ''failed to parse routes'' (from_res (parseRoutes (pr_routes_json p)))) (\<lambda>routes.
            let domain = first_non_empty [pr_shared_domain p, shared] in
            if routes = [] then return (buildDefaultRoutingPolicy domain ds)
            else return \<lparr>rp_shared_domain = domain,
                   rp_routes = map (\<lambda>r. normalizeRoutingRoute (indexed ds (rt_service r)) r) routes\<rparr>))))"

section \<open>Facts on the service\<close>

lemma rd_call_Ok:
  "rd_call msg f w = (Inr x, w') \<Longrightarrow>
     x = fst (f (w\<lparr>rd_faults := tl (rd_faults w)\<rparr>)) \<and> w' = snd (f (w\<lparr>rd_faults := tl (rd_faults w)\<rparr>))"
  by (auto simp: rd_call_def Let_def split: list.splits bool.splits)

lemma rd_call_Fail: "rd_call msg f w = (Inl e, w') \<Longrightarrow> w' = w\<lparr>rd_faults := tl (rd_faults w)\<rparr>"
  by (auto simp: rd_call_def Let_def split: list.splits bool.splits)

lemma rd_call_no_fault: "rd_faults w = [] \<Longrightarrow> rd_call msg f w = (Ok (fst (f w)), snd (f w))"
  by (cases w) (simp add: rd_call_def Let_def)

text \<open>The rows the service reads and leaves alone.\<close>

definition routing_frame :: "routing_db \<Rightarrow> routing_db \<Rightarrow> bool" where
  "routing_frame w w' \<longleftrightarrow> rd_services w' = rd_services w \<and> rd_domains w' = rd_domains w \<and>
     rd_has_domains w' = rd_has_domains w"

lemma find_upsert:
  "List.find (\<lambda>p. pr_project_id p = pid) (upsert_rows q rows) =
    (if pid = pr_project_id q
     then (case List.find (\<lambda>p. pr_project_id p = pid) rows of None \<Rightarrow> Some q
           | Some p \<Rightarrow> Some (p\<lparr>pr_shared_domain := pr_shared_domain q, pr_routes_json := pr_routes_json q,
                               pr_updated_at := pr_updated_at q\<rparr>))
     else List.find (\<lambda>p. pr_project_id p = pid) rows)"
proof -
  let ?f = "\<lambda>p. p\<lparr>pr_shared_domain := pr_shared_domain q, pr_routes_json := pr_routes_json q,
                  pr_updated_at := pr_updated_at q\<rparr>"
  have upd: "List.find (\<lambda>p. pr_project_id p = pid) (update_where (\<lambda>p. pr_project_id p = pr_project_id q) ?f rows) =
      (if pid = pr_project_id q then map_option ?f (List.find (\<lambda>p. pr_project_id p = pid) rows)
       else List.find (\<lambda>p. pr_project_id p = pid) rows)" for rows
    by (induction rows) (auto simp: update_where_def)
  have snoc: "List.find P (rows @ [q]) = (case List.find P rows of None \<Rightarrow> if P q then Some q else None | x \<Rightarrow> x)" for P
    by (induction rows) auto
  show ?thesis
  proof (cases "\<exists>p \<in> set rows. pr_project_id p = pr_project_id q")
    case True
    then have "List.find (\<lambda>p. pr_project_id p = pr_project_id q) rows \<noteq> None" by (auto simp: find_None_iff)
    then obtain p where "List.find (\<lambda>p. pr_project_id p = pr_project_id q) rows = Some p" by blast
    with True show ?thesis by (simp add: upsert_rows_def upd)
  next
    case False
    then have none: "List.find (\<lambda>p. pr_project_id p = pr_project_id q) rows = None" by (auto simp: find_None_iff)
    have "upsert_rows q rows = rows @ [q]" using False by (simp add: upsert_rows_def)
    with none show ?thesis by (cases "pid = pr_project_id q") (simp_all add: snoc split: option.split)
  qed
qed

lemma Upsert_run:
  assumes "Upsert p w = (r, w')"
  shows "routing_frame w w'"
    and "r = Inr () \<Longrightarrow> \<exists>q. rd_policies w' = upsert_rows q (rd_policies w) \<and> pr_project_id q = pr_project_id p \<and>
       pr_shared_domain q = pr_shared_domain p \<and> pr_routes_json q = pr_routes_json p"
    and "r = Inl e \<Longrightarrow> rd_policies w' = rd_policies w"
proof -
  define pid where "pid = (if pr_id p = [] then ''rp_'' @ rd_fresh w (rd_next w) else pr_id p)"
  define w1 where "w1 = (if pr_id p = [] then w\<lparr>rd_next := rd_next w + 1\<rparr> else w)"
  define now where "now = rd_clock w1 (rd_tick w1)"
  define q where "q = p\<lparr>pr_id := pid, pr_created_at := (if is_zero (pr_created_at p) then now else pr_created_at p),
                  pr_updated_at := now\<rparr>"
  define w2 where "w2 = w1\<lparr>rd_tick := rd_tick w1 + 1\<rparr>"
  have call: "(r, w') = rd_call ''upsert routing policy'' (\<lambda>w. ((), w\<lparr>rd_policies := upsert_rows q (rd_policies w)\<rparr>)) w2"
    using assms by (simp add: Upsert_def rd_prefixed_id_def rd_now_def andThen_def w2_def w1_def q_def
        pid_def now_def Let_def split: if_splits)
  have w2: "routing_frame w w2" "rd_policies w2 = rd_policies w"
    by (simp_all add: w2_def w1_def routing_frame_def)
  show "routing_frame w w'"
    using call w2(1) by (cases r) (auto dest!: rd_call_Ok [OF sym] rd_call_Fail [OF sym] simp: routing_frame_def)
  show "\<exists>q. rd_policies w' = upsert_rows q (rd_policies w) \<and> pr_project_id q = pr_project_id p \<and>
       pr_shared_domain q = pr_shared_domain p \<and> pr_routes_json q = pr_routes_json p" if "r = Inr ()"
    using call w2(2) that by (intro exI [of _ q]) (auto dest!: rd_call_Ok [OF sym] simp: q_def)
  show "rd_policies w' = rd_policies w" if "r = Inl e"
    using call w2(2) that by (auto dest!: rd_call_Fail [OF sym])
qed

definition project_services :: "string \<Rightarrow> routing_db \<Rightarrow> ServiceRow list" where
  "project_services pid w = sort_key sr_name (filter (\<lambda>s. sr_project_id s = pid) (rd_services w))"

definition stored_policy :: "string \<Rightarrow> routing_db \<Rightarrow> PolicyRow option" where
  "stored_policy pid w = List.find (\<lambda>p. pr_project_id p = pid) (rd_policies w)"

lemma ServicesListByProject_Ok:
  "ServicesListByProject pid w = (Inr x, w') \<Longrightarrow> x = project_services pid w \<and> routing_frame w w' \<and>
     rd_policies w' = rd_policies w"
  unfolding ServicesListByProject_def by (drule rd_call_Ok) (simp add: project_services_def routing_frame_def)

lemma ServicesListByProject_policies:
  "ServicesListByProject pid w = (r, w') \<Longrightarrow> rd_policies w' = rd_policies w"
  unfolding ServicesListByProject_def by (cases r) (auto dest!: rd_call_Ok rd_call_Fail)

lemma routing_frame_trans: "routing_frame u v \<Longrightarrow> routing_frame v w \<Longrightarrow> routing_frame u w"
  by (simp add: routing_frame_def)

lemma UpdateRouting_Ok:
  fixes cmd w
  defines "services \<equiv> project_services (ur_project_id cmd) w"
    and "ds \<equiv> routingDescriptorsFromModels (project_services (ur_project_id cmd) w)"
  defines "routes \<equiv> model_routes ds (ur_routes cmd)"
  assumes "UpdateRouting cmd w = (Inr res, w')"
  shows "ur_project_id cmd \<noteq> []" and "check_routes [] (set (map sr_name services)) 0 0 (ur_routes cmd) = Ok ()"
    and "check_overlaps (ur_routes cmd) = Ok ()" and "routing_frame w w'"
    and "\<exists>q. rd_policies w' = upsert_rows q (rd_policies w) \<and> pr_project_id q = ur_project_id cmd \<and>
       pr_shared_domain q = ur_shared_domain cmd \<and> pr_routes_json q = JsonDoc routes"
    and "res = routing_result (buildDefaultRoutingPolicy (ur_shared_domain cmd) ds)
       \<lparr>rp_shared_domain = ur_shared_domain cmd, rp_routes = map (\<lambda>r. r\<lparr>rt_strip_prefix_mode := []\<rparr>) routes\<rparr>
       ''configured'' (sort (map sr_name services)) ds"
proof -
  define policy where "policy = \<lparr>pr_id = [], pr_project_id = ur_project_id cmd,
     pr_shared_domain = ur_shared_domain cmd, pr_routes_json = JsonDoc routes,
     pr_created_at = zero_time, pr_updated_at = zero_time\<rparr>"
  obtain w1 w2 w3 where *: "ur_project_id cmd \<noteq> []"
    "ServicesListByProject (ur_project_id cmd) w = (Inr services, w1)"
    "check_routes [] (set (map sr_name services)) 0 0 (ur_routes cmd) = Ok ()"
    "check_overlaps (ur_routes cmd) = Ok ()" "w2 = w1\<lparr>rd_tick := rd_tick w1 + 1\<rparr>"
    "Upsert policy w2 = (Inr (), w')"
    "res = routing_result (buildDefaultRoutingPolicy (ur_shared_domain cmd) ds)
       \<lparr>rp_shared_domain = ur_shared_domain cmd, rp_routes = map (\<lambda>r. r\<lparr>rt_strip_prefix_mode := []\<rparr>) routes\<rparr>
       ''configured'' (sort (map sr_name services)) ds"
    using assms(4) unfolding UpdateRouting_def
    by (auto simp: andThen_Ok_iff Let_def policy_def routes_def ds_def services_def
        rd_now_def split: if_splits dest: ServicesListByProject_Ok)
  then show "ur_project_id cmd \<noteq> []" "check_routes [] (set (map sr_name services)) 0 0 (ur_routes cmd) = Ok ()"
    "check_overlaps (ur_routes cmd) = Ok ()" "res = routing_result (buildDefaultRoutingPolicy (ur_shared_domain cmd) ds)
       \<lparr>rp_shared_domain = ur_shared_domain cmd, rp_routes = map (\<lambda>r. r\<lparr>rt_strip_prefix_mode := []\<rparr>) routes\<rparr>
       ''configured'' (sort (map sr_name services)) ds" by simp_all
  have 1: "routing_frame w w2" "rd_policies w2 = rd_policies w"
    using ServicesListByProject_Ok [OF *(2)] *(5) by (simp_all add: routing_frame_def)
  show "routing_frame w w'" using 1(1) Upsert_run(1) [OF *(6)] by (rule routing_frame_trans)
  show "\<exists>q. rd_policies w' = upsert_rows q (rd_policies w) \<and> pr_project_id q = ur_project_id cmd \<and>
       pr_shared_domain q = ur_shared_domain cmd \<and> pr_routes_json q = JsonDoc routes"
    using Upsert_run(2) [OF *(6)] 1(2) by (simp add: policy_def)
qed

lemma check_routes_sound:
  "check_routes paths names i n rs = Inr () \<Longrightarrow>
     distinct (map (normalizedPublicPath \<circ> rt_path) rs) \<and>
     set (map (normalizedPublicPath \<circ> rt_path) rs) \<inter> set paths = {} \<and>
     rt_service ` set rs \<subseteq> names"
  by (induction paths names i n rs rule: check_routes.induct) (auto simp: Let_def split: if_splits)

lemma model_routes_simps:
  "map rt_path (model_routes ds rs) = map (normalizedPublicPath \<circ> rt_path) rs"
  "map rt_service (model_routes ds rs) = map rt_service rs"
  "length (model_routes ds rs) = length rs"
  by (simp_all add: model_routes_def o_def)

text \<open>Reading a stored policy back normalises its routes again, which changes nothing.\<close>

lemma reread_routes:
  assumes "\<And>r. r \<in> set rs \<Longrightarrow> trim_space (rt_service r) = rt_service r"
  shows "map (\<lambda>r. normalizeRoutingRoute (indexed ds (rt_service r)) r) (model_routes ds rs) = model_routes ds rs"
  using assms by (simp add: model_routes_def routes.norm_idem)

lemma managed_domain_no_fault: "rd_faults w = [] \<Longrightarrow> \<exists>d. resolveManagedSharedDomain pid w = (Ok d, w)"
  by (auto simp: resolveManagedSharedDomain_def GetPrimaryManagedByProjectID_def rd_call_no_fault andThen_def
      split: option.splits)

lemma GetRouting_configured:
  assumes "trim_space pid \<noteq> []" and "rd_faults w = []" and "stored_policy pid w = Some p"
    and "pr_routes_json p = JsonDoc routes" and "routes \<noteq> []"
  defines "ds \<equiv> routingDescriptorsFromModels (project_services pid w)"
  shows "\<exists>domain sug. GetRouting uid role pid w =
     (Ok (routing_result sug \<lparr>rp_shared_domain = domain,
            rp_routes = map (\<lambda>r. normalizeRoutingRoute (indexed ds (rt_service r)) r) routes\<rparr>
          ''configured'' (sort (map sr_name (project_services pid w))) ds), w)"
proof -
  obtain d where d: "resolveManagedSharedDomain pid w = (Ok d, w)"
    using managed_domain_no_fault [OF assms(2)] by blast
  have "ServicesListByProject pid w = (Ok (project_services pid w), w)"
    "PolicyGetByProjectID pid w = (Ok (Some p), w)"
    using assms by (simp_all add: ServicesListByProject_def PolicyGetByProjectID_def rd_call_no_fault
        project_services_def stored_policy_def)
  with assms d show ?thesis
    by (auto simp: GetRouting_def andThen_def wrapping_def Let_def parseRoutes_def simp del: first_non_empty.simps)
qed

lemma stored_after_upsert:
  assumes "rd_policies w' = upsert_rows q (rd_policies w)" and "pr_project_id q = pid"
    and "pr_routes_json q = doc"
  shows "\<exists>p. stored_policy pid w' = Some p \<and> pr_routes_json p = doc"
  using assms by (cases "List.find (\<lambda>p. pr_project_id p = pid) (rd_policies w)")
    (simp_all add: stored_policy_def find_upsert)

lemma wrapping_Fail: "wrapping msg m w = (Inl e, w') \<Longrightarrow> \<exists>e'. m w = (Inl e', w')"
  by (auto simp: wrapping_def split: prod.splits sum.splits)

section \<open>An example\<close>

text \<open>A project with a web frontend, an API and the documentation of the API.\<close>

definition demo_row :: "string \<Rightarrow> string \<Rightarrow> ServiceRow" where
  "demo_row n k = \<lparr>sr_project_id = ''p1'', sr_name = n, sr_kind = k, sr_runtime_profile = None, sr_public = True\<rparr>"

definition demo_routing_db :: routing_db where
  "demo_routing_db = \<lparr>rd_policies = [],
     rd_services = [demo_row ''api'' ''api'', demo_row ''api-docs'' ''docs'', demo_row ''shop'' ''web''],
     rd_domains = [], rd_has_domains = True, rd_faults = [], rd_clock = (\<lambda>n. 1000 + int n), rd_tick = 0,
     rd_fresh = (\<lambda>n. ''x''), rd_next = 0\<rparr>"

definition demo_route :: "string \<Rightarrow> string \<Rightarrow> Route" where
  "demo_route p s = new_route p s False []"

definition demo_update :: "string \<Rightarrow> Route list \<Rightarrow> UpdateRoutingCommand" where
  "demo_update u rs = \<lparr>ur_user_id = u, ur_role = ''operator'', ur_project_id = ''p1'',
     ur_shared_domain = ''shop.example.com'', ur_routes = rs\<rparr>"

section \<open>Properties\<close>

text \<open>
  Property C34: what \<open>UpdateRouting\<close> has stored is what \<open>GetRouting\<close> shows. Let an update with at least one
  route succeed, whose service names are given without blanks around them, for a project with a non-blank id. Then a
  \<open>GetRouting\<close> of that project right after it, whose reads of the database do not fail, shows to whichever
  user the routes of the update's own answer (compared without the strip mode, which that answer leaves
  out), the same services and the same effective paths. Neither operation looks at who is asking. (An update with no routes is accepted
  too, but \<open>GetRouting\<close> then shows the routes by convention.)
\<close>

theorem update_then_get:
  assumes "UpdateRouting cmd w = (Inr res, w')" and "rd_faults w' = []"
    and "ur_routes cmd \<noteq> []" and "trim_space (ur_project_id cmd) \<noteq> []"
    and "\<And>r. r \<in> set (ur_routes cmd) \<Longrightarrow> trim_space (rt_service r) = rt_service r"
  shows "\<exists>res'. GetRouting uid role (ur_project_id cmd) w' = (Inr res', w') \<and>
    map (\<lambda>r. r\<lparr>rt_strip_prefix_mode := []\<rparr>) (rp_routes (rr_policy res')) = rp_routes (rr_policy res) \<and>
    rr_available res' = rr_available res \<and> rr_effective res' = rr_effective res"
proof -
  note upd = UpdateRouting_Ok [OF assms(1)]
  let ?ds = "routingDescriptorsFromModels (project_services (ur_project_id cmd) w)"
  obtain q where q: "rd_policies w' = upsert_rows q (rd_policies w)" "pr_project_id q = ur_project_id cmd"
    "pr_routes_json q = JsonDoc (model_routes ?ds (ur_routes cmd))" using upd(5) by blast
  then obtain p where p: "stored_policy (ur_project_id cmd) w' = Some p"
    "pr_routes_json p = JsonDoc (model_routes ?ds (ur_routes cmd))"
    using stored_after_upsert by blast
  have same: "project_services (ur_project_id cmd) w' = project_services (ur_project_id cmd) w"
    using upd(4) by (simp add: project_services_def routing_frame_def)
  have "model_routes ?ds (ur_routes cmd) \<noteq> []" using assms(3) by (simp add: model_routes_def)
  from GetRouting_configured [OF assms(4,2) p this, where uid = uid and role = role]
  obtain domain sug where "GetRouting uid role (ur_project_id cmd) w' =
     (Ok (routing_result sug \<lparr>rp_shared_domain = domain, rp_routes = model_routes ?ds (ur_routes cmd)\<rparr>
          ''configured'' (sort (map sr_name (project_services (ur_project_id cmd) w))) ?ds), w')"
    using reread_routes [OF assms(5)] by (auto simp: same)
  then show ?thesis
    by (simp add: upd(6) routing_result_def buildRoutingGuidanceRoutes_def o_def Let_def)
qed

text \<open>
  Property C33: an update is safe: when it succeeds, the stored routes have distinct normal paths, at
  most one of them the root, and name services of the project; when it fails nothing is stored; the
  policies of other projects stay as they were.
\<close>

theorem update_is_safe:
  assumes "UpdateRouting cmd w = (r, w')"
  shows "(case r of
      Inr res \<Rightarrow> \<exists>p routes. stored_policy (ur_project_id cmd) w' = Some p \<and> pr_routes_json p = JsonDoc routes \<and>
        distinct (map rt_path routes) \<and> (\<forall>x \<in> set routes. public_path (rt_path x)) \<and>
        length (filter (\<lambda>x. rt_path x = ''/'') routes) \<le> 1 \<and>
        rt_service ` set routes \<subseteq> sr_name ` set (project_services (ur_project_id cmd) w)
    | Inl e \<Rightarrow> rd_policies w' = rd_policies w) \<and>
    (\<forall>pid. pid \<noteq> ur_project_id cmd \<longrightarrow> stored_policy pid w' = stored_policy pid w)"
proof (cases r)
  case (Inl e)
  have "rd_policies w' = rd_policies w"
    using assms Inl
    by (auto simp: UpdateRouting_def Let_def rd_now_def raise_def from_res_def return_def
        dest!: wrapping_Fail Upsert_run(3) [OF _ refl] ServicesListByProject_policies elim!: andThen_cases split: if_splits prod.splits sum.splits)
  with Inl show ?thesis by (simp add: stored_policy_def)
next
  case (Inr res)
  note upd = UpdateRouting_Ok [OF assms [unfolded Inr]]
  let ?ds = "routingDescriptorsFromModels (project_services (ur_project_id cmd) w)"
  let ?rs = "model_routes ?ds (ur_routes cmd)"
  obtain q where q: "rd_policies w' = upsert_rows q (rd_policies w)" "pr_project_id q = ur_project_id cmd"
    "pr_routes_json q = JsonDoc ?rs" using upd(5) by blast
  then have p: "\<exists>p. stored_policy (ur_project_id cmd) w' = Some p \<and> pr_routes_json p = JsonDoc ?rs"
    by (rule stored_after_upsert)
  have other: "\<forall>pid. pid \<noteq> ur_project_id cmd \<longrightarrow> stored_policy pid w' = stored_policy pid w"
    using q(1,2) by (simp add: stored_policy_def find_upsert)
  have dist: "distinct (map rt_path ?rs)"
    using check_routes_sound [OF upd(2)] by (simp add: model_routes_simps)
  have "length (filter (\<lambda>x. rt_path x = ''/'') ?rs) = count_list (map rt_path ?rs) ''/''"
    by (simp add: count_list_eq_length_filter filter_map o_def eq_commute [of "''/''"])
  then have root: "length (filter (\<lambda>x. rt_path x = ''/'') ?rs) \<le> 1"
    using dist by (simp add: distinct_count_list)
  have "rt_service ` set ?rs = rt_service ` set (ur_routes cmd)"
    by (metis list.set_map model_routes_simps(2))
  then have svc: "rt_service ` set ?rs \<subseteq> sr_name ` set (project_services (ur_project_id cmd) w)"
    using check_routes_sound [OF upd(2)] by simp
  have "\<forall>x \<in> set ?rs. public_path (rt_path x)"
    by (auto simp: model_routes_def paths.norm_canonical)
  with Inr p other dist root svc show ?thesis by auto
qed

text \<open>
  The test for overlapping prefixes compares the paths as typed, character by
  character. It refuses the service's own suggestion for an API beside its documentation, and it
  stores the routes \<open>/api\<close> and \<open>/api/v1\<close> when the first is typed without its slash.
\<close>

theorem overlap_test_on_raw_paths:
  fixes w defines "w \<equiv> demo_routing_db"
  defines "ds \<equiv> routingDescriptorsFromModels (project_services ''p1'' w)"
  defines "suggested \<equiv> demo_update ''u1'' (rp_routes (buildDefaultRoutingPolicy ''shop.example.com'' ds))"
    and "typed \<equiv> demo_update ''u1'' [demo_route ''/'' ''shop'', demo_route ''api'' ''api'', demo_route ''/api/v1'' ''api-docs'']"
  shows "\<not> is_ok (fst (UpdateRouting suggested w)) \<and>
    map rt_path (rp_routes (buildDefaultRoutingPolicy ''shop.example.com'' ds)) = [''/api'', ''/'', ''/api-docs''] \<and>
    map_option (pr_routes_json) (stored_policy ''p1'' (snd (UpdateRouting typed w))) =
      Some (JsonDoc [\<lparr>rt_path = ''/'', rt_service = ''shop'', rt_port = 0, rt_websocket = False,
                      rt_strip_prefix = False, rt_strip_prefix_mode = []\<rparr>,
                     \<lparr>rt_path = ''/api'', rt_service = ''api'', rt_port = 0, rt_websocket = False,
                      rt_strip_prefix = True, rt_strip_prefix_mode = ''auto''\<rparr>,
                     \<lparr>rt_path = ''/api/v1'', rt_service = ''api-docs'', rt_port = 0, rt_websocket = False,
                      rt_strip_prefix = False, rt_strip_prefix_mode = []\<rparr>])"
  unfolding assms by code_simp

section \<open>The properties at work\<close>

lemma demo_update_runs:
  "is_ok (fst (UpdateRouting (demo_update ''u1'' [demo_route ''/'' ''shop'', demo_route ''/api'' ''api'']) demo_routing_db)) \<and>
   rd_faults (snd (UpdateRouting (demo_update ''u1'' [demo_route ''/'' ''shop'', demo_route ''/api'' ''api'']) demo_routing_db)) = []"
  by code_simp

theorem update_then_get_witness:
  "\<exists>res'. fst (GetRouting ''someone-else'' ''viewer'' ''p1''
     (snd (UpdateRouting (demo_update ''u1'' [demo_route ''/'' ''shop'', demo_route ''/api'' ''api'']) demo_routing_db))) = Inr res'"
proof -
  let ?c = "demo_update ''u1'' [demo_route ''/'' ''shop'', demo_route ''/api'' ''api'']"
  obtain res w' where run: "UpdateRouting ?c demo_routing_db = (Inr res, w')" "rd_faults w' = []"
    using demo_update_runs by (cases "UpdateRouting ?c demo_routing_db") (auto simp: is_ok_iff)
  have "ur_routes ?c \<noteq> []" "trim_space (ur_project_id ?c) \<noteq> []"
    "\<And>r. r \<in> set (ur_routes ?c) \<Longrightarrow> trim_space (rt_service r) = rt_service r"
    by (auto simp: demo_update_def demo_route_def new_route_def trim_space_def trim_left_def trim_right_def is_space_def)
  moreover have "ur_project_id ?c = ''p1''" by (simp add: demo_update_def)
  ultimately show ?thesis using update_then_get [OF run, of "''someone-else''" "''viewer''"] run(1) by auto
qed

theorem update_is_safe_witness:
  "\<exists>p. stored_policy ''p1'' (snd (UpdateRouting (demo_update ''u1'' [demo_route ''/'' ''shop'']) demo_routing_db)) = Some p"
proof -
  let ?c = "demo_update ''u1'' [demo_route ''/'' ''shop'']"
  have ok: "is_ok (fst (UpdateRouting ?c demo_routing_db))" by code_simp
  obtain r w' where run: "UpdateRouting ?c demo_routing_db = (r, w')" by fastforce
  with ok obtain res where "r = Inr res" by (auto simp: is_ok_iff)
  with update_is_safe [OF run] run show ?thesis by (auto simp: demo_update_def)
qed

end
