(* ===== verification/GoText.thy ===== *)
theory GoText
  imports Durations GoFmt
begin

text \<open>
  Functions of the Go library on text that the CLI's contract code uses: \<open>strings.HasSuffix\<close> and
  \<open>Trim\<close>, \<open>strconv.Atoi\<close>, \<open>path.Clean\<close>, \<open>net.SplitHostPort\<close>, \<open>bufio.ScanLines\<close>, and a search for the one
  regular expression that finds IPv4 addresses. The lemmas say what the code relies on: \<open>Atoi\<close> reads
  back what \<open>%d\<close> prints, \<open>ScanLines\<close> returns the lines that were written, and \<open>Clean\<close> tells whether
  a relative path leaves its root.
\<close>

section \<open>Strings\<close>

definition has_suffix :: "string \<Rightarrow> string \<Rightarrow> bool" where
  "has_suffix s t = has_prefix (rev s) (rev t)"

definition trim_set :: "char list \<Rightarrow> string \<Rightarrow> string" where
  "trim_set cs s = rev (dropWhile (\<lambda>c. c \<in> set cs) (rev (dropWhile (\<lambda>c. c \<in> set cs) s)))"

definition double_char :: "char \<Rightarrow> string \<Rightarrow> string" where
  "double_char c s = concat (map (\<lambda>d. if d = c then [c, c] else [d]) s)"

lemma double_char_id: "c \<notin> set s \<Longrightarrow> double_char c s = s"
  by (induction s) (auto simp: double_char_def)

section \<open>Integers\<close>

text \<open>\<open>strconv.Atoi\<close>: an optional sign and digits, within 64 bits.\<close>

definition atoi :: "string \<Rightarrow> int option" where
  "atoi s =
     (let neg = (s \<noteq> [] \<and> hd s = CHR ''-'');
          ds = (if s \<noteq> [] \<and> (hd s = CHR ''-'' \<or> hd s = CHR ''+'') then tl s else s);
          v = num_value ds in
      if ds = [] \<or> (\<exists>c \<in> set ds. \<not> is_digit c) then None
      else if neg then (if v \<le> 2 ^ 63 then Some (- v) else None)
      else if v < 2 ^ 63 then Some v else None)"

lemma digit_char: "n < 10 \<Longrightarrow> is_digit (char_of (48 + n)) \<and> digit_val (char_of (48 + n)) = int n"
  by (simp add: is_digit_def digit_val_def of_char_of)

lemma digits_of_digits: "\<forall>c \<in> set (digits_of n). is_digit c"
proof (induction n rule: digits_of.induct)
  case (1 n)
  then show ?case
    by (subst digits_of.simps) (auto simp: digit_char [THEN conjunct1])
qed

lemma num_value_snoc: "num_value (s @ [c]) = num_value s * 10 + digit_val c"
  by (simp add: num_value_def)

lemma num_value_digits: "num_value (digits_of n) = int n"
proof (induction n rule: digits_of.induct)
  case (1 n)
  show ?case
  proof (cases "n < 10")
    case True
    then show ?thesis
      by (subst digits_of.simps) (simp add: num_value_def digit_char [THEN conjunct2])
  next
    case False
    then have "num_value (digits_of n) = num_value (digits_of (n div 10)) * 10 + digit_val (char_of (48 + n mod 10))"
      by (subst digits_of.simps) (simp add: num_value_snoc)
    also have "\<dots> = int (n div 10) * 10 + int (n mod 10)"
      using 1 False by (simp add: digit_char [THEN conjunct2])
    also have "\<dots> = int n" by (simp add: zdiv_int zmod_int)
    finally show ?thesis .
  qed
qed

lemma digits_of_ne [simp]: "digits_of n \<noteq> []"
  by (subst digits_of.simps) simp

lemma digit_not_sign: "is_digit c \<Longrightarrow> c \<noteq> CHR ''-'' \<and> c \<noteq> CHR ''+''"
  by (auto simp: is_digit_def)

lemma atoi_itoa: "0 \<le> i \<Longrightarrow> i < 2 ^ 63 \<Longrightarrow> atoi (itoa i) = Some i"
proof -
  assume i: "0 \<le> i" "i < 2 ^ 63"
  have "\<forall>c \<in> set (digits_of (nat i)). is_digit c" by (rule digits_of_digits)
  moreover from this have "is_digit (hd (digits_of (nat i)))" by simp
  ultimately show ?thesis
    using i digit_not_sign [of "hd (digits_of (nat i))"]
    by (auto simp: atoi_def itoa_def num_value_digits Let_def)
qed

section \<open>Paths\<close>

text \<open>
  \<open>path.Clean\<close> on the components of a path: \<open>out\<close> holds the components kept so far, innermost
  first.
\<close>

fun clean_components :: "bool \<Rightarrow> string list \<Rightarrow> string list \<Rightarrow> string list" where
  "clean_components rooted out [] = rev out"
| "clean_components rooted out (c # cs) =
     (if c = [] \<or> c = ''.'' then clean_components rooted out cs
      else if c = ''..'' then
        (case out of
           d # ds \<Rightarrow> if d \<noteq> ''..'' then clean_components rooted ds cs
                    else clean_components rooted (''..'' # out) cs
         | [] \<Rightarrow> if rooted then clean_components rooted [] cs else clean_components rooted [''..''] cs)
      else clean_components rooted (c # out) cs)"

definition path_clean :: "string \<Rightarrow> string" where
  "path_clean p =
     (if p = [] then ''.''
      else let rooted = has_prefix p ''/'';
               body = join ''/'' (clean_components rooted [] (split_on (CHR ''/'') p))
           in if rooted then ''/'' @ body else if body = [] then ''.'' else body)"

text \<open>
  What \<open>Clean\<close> computes symbolically: the depth below the starting directory while the path is
  walked; \<open>None\<close> when a \<open>..\<close> leads above it.
\<close>

fun walk :: "nat \<Rightarrow> string list \<Rightarrow> nat option" where
  "walk n [] = Some n"
| "walk n (c # cs) =
     (if c = [] \<or> c = ''.'' then walk n cs
      else if c = ''..'' then (case n of 0 \<Rightarrow> None | Suc m \<Rightarrow> walk m cs)
      else walk (Suc n) cs)"

lemma clean_escaped:
  "out \<noteq> [] \<Longrightarrow> last out = ''..'' \<Longrightarrow> \<exists>ds. clean_components False out cs = ''..'' # ds"
proof (induction cs arbitrary: out)
  case Nil
  then show ?case by (cases out rule: rev_cases) auto
next
  case (Cons c cs)
  then obtain d ds where out: "out = d # ds" by (cases out) auto
  have keep: "\<exists>e. clean_components False (x # out) cs = ''..'' # e" for x
    using Cons.IH [of "x # out"] Cons.prems by simp
  show ?case
  proof (cases "c = ''..'' \<and> d \<noteq> ''..''")
    case True
    then have "ds \<noteq> []" "last ds = ''..''" using Cons.prems out by (auto split: if_splits)
    with Cons.IH [of ds] True out show ?thesis by simp
  next
    case False
    then show ?thesis using keep [of "''..''"] keep [of c] Cons.IH [OF Cons.prems] out by auto
  qed
qed

lemma clean_walk:
  "\<forall>d \<in> set out. d \<noteq> ''..'' \<Longrightarrow>
   (case walk (length out) cs of
      None \<Rightarrow> \<exists>ds. clean_components False out cs = ''..'' # ds
    | Some n \<Rightarrow> length (clean_components False out cs) = n \<and>
        (\<forall>d \<in> set (clean_components False out cs). d \<noteq> ''..'') \<and>
        set (clean_components False out cs) \<subseteq> set out \<union> (set cs - {[]}))"
proof (induction cs arbitrary: out)
  case Nil
  then show ?case by simp
next
  case (Cons c cs)
  show ?case
  proof (cases "c = ''..''")
    case True
    show ?thesis
    proof (cases out)
      case Nil
      then show ?thesis using True clean_escaped [of "[''..'']" cs] by simp
    next
      case (Cons d ds)
      with Cons.prems have "\<forall>d \<in> set ds. d \<noteq> ''..''" "d \<noteq> ''..''" by auto
      from Cons.IH [OF this(1)] this(2) show ?thesis
        using True Cons by (auto split: option.splits)
    qed
  next
    case False
    have "\<forall>d \<in> set (c # out). d \<noteq> ''..''" using Cons.prems False by simp
    from Cons.IH [OF this] Cons.IH [OF Cons.prems] False show ?thesis
      by (auto split: option.splits)
  qed
qed

lemma split_on_chars: "w \<in> set (split_on c s) \<Longrightarrow> c \<notin> set w"
  by (induction s arbitrary: w) (fastforce split: if_splits list.splits)+

lemma join_dotdot: "join ''/'' (''..'' # ds) = ''..'' \<or> has_prefix (join ''/'' (''..'' # ds)) ''../''"
  by (cases ds) auto

lemma join_head:
  "CHR ''/'' \<notin> set d \<Longrightarrow> join ''/'' (d # ds) = ''..'' \<or> has_prefix (join ''/'' (d # ds)) ''../'' \<Longrightarrow> d = ''..''"
proof -
  assume d: "CHR ''/'' \<notin> set d" "join ''/'' (d # ds) = ''..'' \<or> has_prefix (join ''/'' (d # ds)) ''../''"
  show "d = ''..''"
  proof (cases ds)
    case Nil
    then show ?thesis using d by (auto simp: has_prefix_iff)
  next
    case (Cons e es)
    then have j: "join ''/'' (d # ds) = d @ CHR ''/'' # join ''/'' ds" by simp
    consider "d = []" | a where "d = [a]" | a b where "d = [a, b]" | a b c r where "d = a # b # c # r"
      by (metis remdups_adj.cases)
    then show ?thesis using d unfolding j by cases (auto simp: has_prefix_iff)
  qed
qed

text \<open>The test of the sources for a relative path, and what it decides.\<close>

theorem clean_stays_inside:
  assumes "\<not> has_prefix p ''/''" and "p \<noteq> []"
  shows "path_clean p \<noteq> ''..'' \<and> \<not> has_prefix (path_clean p) ''../'' \<longleftrightarrow> walk 0 (split_on (CHR ''/'') p) \<noteq> None"
proof -
  let ?cs = "split_on (CHR ''/'') p" and ?out = "clean_components False [] (split_on (CHR ''/'') p)"
  have clean: "path_clean p = (if join ''/'' ?out = [] then ''.'' else join ''/'' ?out)"
    using assms by (simp add: path_clean_def Let_def)
  note step = clean_walk [of "[]" ?cs, simplified]
  show ?thesis
  proof (cases "walk 0 ?cs")
    case None
    with step obtain ds where "?out = ''..'' # ds" by auto
    moreover have "join ''/'' (''..'' # ds) \<noteq> []" by (cases ds) simp_all
    ultimately show ?thesis using None join_dotdot [of ds] by (simp add: clean)
  next
    case (Some n)
    with step have ok: "\<forall>d \<in> set ?out. d \<noteq> ''..''" "set ?out \<subseteq> set ?cs" by auto
    have "path_clean p \<noteq> ''..'' \<and> \<not> has_prefix (path_clean p) ''../''"
    proof (cases ?out)
      case Nil
      then show ?thesis by (simp add: clean)
    next
      case (Cons d ds)
      then have "CHR ''/'' \<notin> set d" "d \<noteq> ''..''" using ok split_on_chars by auto
      with join_head [of d ds] Cons show ?thesis by (auto simp: clean)
    qed
    with Some show ?thesis by simp
  qed
qed

section \<open>Host and port\<close>

definition last_index :: "char \<Rightarrow> string \<Rightarrow> nat option" where
  "last_index c s = (if c \<in> set s then Some (length s - 1 - length (takeWhile (\<lambda>d. d \<noteq> c) (rev s))) else None)"

definition first_index :: "char \<Rightarrow> string \<Rightarrow> nat option" where
  "first_index c s = (if c \<in> set s then Some (length (takeWhile (\<lambda>d. d \<noteq> c) s)) else None)"

definition SplitHostPort :: "string \<Rightarrow> (string \<times> string) option" where
  "SplitHostPort s =
     (case last_index (CHR '':'') s of
        None \<Rightarrow> None
      | Some i \<Rightarrow>
          if s ! 0 = CHR ''['' then
            (case first_index (CHR '']'') s of
               None \<Rightarrow> None
             | Some e \<Rightarrow>
                 if e + 1 \<noteq> i then None
                 else if CHR ''['' \<in> set (drop 1 s) \<or> CHR '']'' \<in> set (drop (e + 1) s) then None
                 else Some (take (e - 1) (drop 1 s), drop (i + 1) s))
          else if CHR '':'' \<in> set (take i s) then None
          else if CHR ''['' \<in> set s \<or> CHR '']'' \<in> set s then None
          else Some (take i s, drop (i + 1) s))"

section \<open>IPv4 addresses in a text\<close>

text \<open>
  The regular expression of the sources: four decimal numbers up to 255 without leading zeros,
  separated by dots, at word boundaries. \<open>octet_rests\<close> lists what may remain after one number.
\<close>

definition is_word :: "char \<Rightarrow> bool" where
  "is_word c \<longleftrightarrow> is_digit c \<or> (CHR ''a'' \<le> c \<and> c \<le> CHR ''z'') \<or> (CHR ''A'' \<le> c \<and> c \<le> CHR ''Z'') \<or> c = CHR ''_''"

definition word_at :: "string \<Rightarrow> bool" where
  "word_at s \<longleftrightarrow> s \<noteq> [] \<and> is_word (hd s)"

definition octet_rests :: "string \<Rightarrow> string list" where
  "octet_rests s =
     (let d = (\<lambda>i. i < length s \<and> is_digit (s ! i)) in
      (if has_prefix s ''25'' \<and> d 2 \<and> s ! 2 \<le> CHR ''5'' then [drop 3 s] else []) @
      (if has_prefix s ''2'' \<and> d 1 \<and> s ! 1 \<le> CHR ''4'' \<and> d 2 then [drop 3 s] else []) @
      (if has_prefix s ''1'' \<and> d 1 \<and> d 2 then [drop 3 s] else []) @
      (if d 0 \<and> s ! 0 \<noteq> CHR ''0'' \<and> d 1 then [drop 2 s] else []) @
      (if d 0 then [drop 1 s] else []))"

definition dot_octet :: "string \<Rightarrow> string list" where
  "dot_octet s = (case s of c # r \<Rightarrow> if c = CHR ''.'' then octet_rests r else [] | [] \<Rightarrow> [])"

definition ipv4_here :: "bool \<Rightarrow> string \<Rightarrow> bool" where
  "ipv4_here prev s \<longleftrightarrow> prev \<noteq> word_at s \<and>
     list_ex (\<lambda>a. list_ex (\<lambda>b. list_ex (\<lambda>c. list_ex (\<lambda>r. \<not> word_at r)
       (dot_octet c)) (dot_octet b)) (dot_octet a)) (octet_rests s)"

fun ipv4_search :: "bool \<Rightarrow> string \<Rightarrow> bool" where
  "ipv4_search prev [] = ipv4_here prev []"
| "ipv4_search prev (c # s) = (ipv4_here prev (c # s) \<or> ipv4_search (is_word c) s)"

definition ipv4Pattern :: "string \<Rightarrow> bool" where
  "ipv4Pattern s = ipv4_search False s"

section \<open>Lines\<close>

text \<open>
  \<open>bufio.ScanLines\<close>: the lines without their line ends, a carriage return before the line end
  removed; an empty last line is none. The scanner gives up on a line of 64 KiB or more.
\<close>

definition MaxScanTokenSize :: nat where "MaxScanTokenSize = 65536"

definition drop_cr :: "string \<Rightarrow> string" where
  "drop_cr l = (if l \<noteq> [] \<and> last l = CHR 0x0D then butlast l else l)"

definition raw_lines :: "string \<Rightarrow> string list" where
  "raw_lines s = (let ls = split_on (CHR 0x0A) s in if last ls = [] then butlast ls else ls)"

definition unlines :: "string list \<Rightarrow> string" where
  "unlines ls = concat (map (\<lambda>l. l @ [CHR 0x0A]) ls)"

lemma split_on_line: "c \<notin> set l \<Longrightarrow> split_on c (l @ c # s) = l # split_on c s"
  by (induction l) auto

lemma raw_lines_unlines: "(\<forall>l \<in> set ls. CHR 0x0A \<notin> set l) \<Longrightarrow> raw_lines (unlines ls) = ls"
proof -
  assume "\<forall>l \<in> set ls. CHR 0x0A \<notin> set l"
  then have "split_on (CHR 0x0A) (unlines ls) = ls @ [[]]"
    by (induction ls) (simp_all add: unlines_def split_on_line)
  then show ?thesis by (simp add: raw_lines_def)
qed

end
