(* ===== verification/InitPlan.thy ===== *)
theory InitPlan
  imports GoText
begin

text \<open>
  The plan of \<open>lazyops init\<close> (\<open>cli/internal/initplan/models.go\<close>): what the scan of the repository
  found, and the user's choice of project, runtime mode, target and binding.
  \<open>ApplyDiscovery\<close> and \<open>ApplyBindings\<close> are its two operations; both return the plan changed or an
  error. A pointer that may be nil is an option. The columns of the API's records that this code
  does not read are left out.
\<close>

section \<open>Data\<close>

record ProjectSummary =
  ps_id :: string
  ps_slug :: string
  ps_name :: string
  ps_default_branch :: string

record TargetSummary =
  ts_id :: string
  ts_name :: string
  ts_kind :: string
  ts_status :: string
  ts_runtime_mode :: string

record BindingSummary =
  bs_id :: string
  bs_name :: string
  bs_target_ref :: string
  bs_runtime_mode :: string
  bs_target_kind :: string
  bs_target_id :: string
  bs_target_status :: string
  bs_reusable :: bool

record HealthcheckHint =
  hh_path :: string
  hh_port :: int

record ServiceCandidate =
  sc_name :: string
  sc_path :: string
  sc_signals :: "string list"
  sc_start_hint :: string
  sc_healthcheck :: HealthcheckHint
  sc_warnings :: "string list"

record DependencyBindingDraft =
  dd_service :: string
  dd_alias :: string
  dd_target_service :: string
  dd_protocol :: string
  dd_local_endpoint :: string

record CompatibilityPolicyDraft =
  cd_env_injection :: bool
  cd_managed_credentials :: bool
  cd_localhost_rescue :: bool

record InitPlan =
  ip_repo_root :: string
  ip_layout :: string
  ip_projects :: "ProjectSummary list"
  ip_selected_project :: "ProjectSummary option"
  ip_runtime_mode :: string
  ip_targets :: "TargetSummary list"
  ip_selected_target :: "TargetSummary option"
  ip_bindings :: "BindingSummary list"
  ip_selected_binding :: "BindingSummary option"
  ip_services :: "ServiceCandidate list"
  ip_dependency_bindings :: "DependencyBindingDraft list"
  ip_compatibility :: CompatibilityPolicyDraft

record SelectionInput =
  si_project :: string
  si_runtime_mode :: string
  si_target :: string

record BindingSelectionInput =
  bi_binding :: string
  bi_create :: bool
  bi_binding_name :: string

text \<open>The records of the API (\<open>cli/internal/contracts/models.go\<close>) and of the scanner.\<close>

record CliTarget =
  ct_id :: string
  ct_name :: string
  ct_status :: string

record CliBinding =
  cb_id :: string
  cb_name :: string
  cb_target_ref :: string
  cb_runtime_mode :: string
  cb_target_kind :: string
  cb_target_id :: string

record RepoScanResult =
  sr_repo_root :: string
  sr_monorepo :: bool

definition LayoutLabel :: "RepoScanResult \<Rightarrow> string" where
  "LayoutLabel r = (if sr_monorepo r then ''monorepo'' else ''single-service'')"

section \<open>Validation\<close>

text \<open>\<open>for _, x := range xs { if err := f(x); err != nil { return err } }\<close>\<close>

fun each_ok :: "('a \<Rightarrow> unit res) \<Rightarrow> 'a list \<Rightarrow> unit res" where
  "each_ok f [] = Ok ()"
| "each_ok f (x # xs) = (case f x of Inl e \<Rightarrow> Inl e | Inr _ \<Rightarrow> each_ok f xs)"

lemma each_ok_iff: "each_ok f xs = Ok () \<longleftrightarrow> (\<forall>x \<in> set xs. f x = Ok ())"
  by (induction xs) (auto split: sum.splits)

definition need :: "bool \<Rightarrow> string \<Rightarrow> unit res" where
  "need b msg = (if b then Ok () else Fail (Errorf msg))"

lemma need_Ok [simp]: "need b msg = Ok () \<longleftrightarrow> b"
  by (simp add: need_def)

text \<open>One check after the other.\<close>

definition also_ok :: "unit res \<Rightarrow> unit res \<Rightarrow> unit res" where
  "also_ok a b = (case a of Inl e \<Rightarrow> Inl e | Inr _ \<Rightarrow> b)"

lemma also_ok_Ok [simp]: "also_ok a b = Ok () \<longleftrightarrow> a = Ok () \<and> b = Ok ()"
  by (auto simp: also_ok_def split: sum.splits)

definition all_ok :: "unit res list \<Rightarrow> unit res" where
  "all_ok cs = foldr also_ok cs (Ok ())"

lemma all_ok_Nil [simp]: "all_ok [] = Ok ()"
  by (simp add: all_ok_def)

lemma all_ok_Cons [simp]: "all_ok (c # cs) = Ok () \<longleftrightarrow> c = Ok () \<and> all_ok cs = Ok ()"
  by (simp add: all_ok_def)

definition blank :: "string \<Rightarrow> bool" where
  "blank s \<longleftrightarrow> trim_space s = []"

definition ValidateMode :: "string \<Rightarrow> unit res" where
  "ValidateMode mode =
     need (mode \<in> {RuntimeModeStandalone, RuntimeModeDistributedMesh, RuntimeModeDistributedK3s, []})
       (''runtime mode '' @ go_quote mode @ '' is invalid. next: use standalone, distributed-mesh, or distributed-k3s'')"

definition ParseRuntimeMode :: "string \<Rightarrow> string res" where
  "ParseRuntimeMode value =
     (let mode = trim_space value in
      if mode = [] then Ok []
      else (case ValidateMode mode of Inl e \<Rightarrow> Inl e | Inr _ \<Rightarrow> Ok mode))"

definition ValidateProject :: "ProjectSummary \<Rightarrow> unit res" where
  "ValidateProject p = all_ok
     [need (\<not> blank (ps_id p)) ''project summary id is required'',
      need (\<not> blank (ps_name p)) ''project summary name is required'',
      need (\<not> blank (ps_slug p)) ''project summary slug is required'']"

definition ValidateTarget :: "TargetSummary \<Rightarrow> unit res" where
  "ValidateTarget t = all_ok
     [need (\<not> blank (ts_id t)) ''target summary id is required'',
      need (\<not> blank (ts_name t)) ''target summary name is required'',
      need (\<not> blank (ts_kind t)) ''target summary kind is required'',
      need (\<not> blank (ts_status t)) ''target summary status is required'',
      ValidateMode (ts_runtime_mode t)]"

definition ValidateBinding :: "BindingSummary \<Rightarrow> unit res" where
  "ValidateBinding b = all_ok
     [need (\<not> blank (bs_name b)) ''binding summary name is required'',
      need (\<not> blank (bs_target_ref b)) ''binding summary target_ref is required'',
      need (\<not> blank (bs_target_kind b)) ''binding summary target_kind is required'',
      need (\<not> blank (bs_target_id b)) ''binding summary target_id is required'',
      ValidateMode (bs_runtime_mode b)]"

definition ValidateCandidate :: "ServiceCandidate \<Rightarrow> unit res" where
  "ValidateCandidate s = all_ok
     [need (\<not> blank (sc_name s)) ''service candidate name is required'',
      need (\<not> blank (sc_path s)) ''service candidate path is required'']"

definition draft_blank :: "DependencyBindingDraft \<Rightarrow> bool" where
  "draft_blank d \<longleftrightarrow> blank (dd_service d) \<and> blank (dd_alias d) \<and> blank (dd_target_service d) \<and>
     blank (dd_protocol d) \<and> blank (dd_local_endpoint d)"

definition ValidateDraft :: "DependencyBindingDraft \<Rightarrow> unit res" where
  "ValidateDraft d =
     (if draft_blank d then Ok ()
      else all_ok
        [need (\<not> blank (dd_service d)) ''dependency binding service is required'',
         need (\<not> blank (dd_alias d)) ''dependency binding alias is required'',
         need (\<not> blank (dd_target_service d)) ''dependency binding target_service is required'',
         need (\<not> blank (dd_protocol d)) ''dependency binding protocol is required''])"

definition ValidateCompatibility :: "CompatibilityPolicyDraft \<Rightarrow> unit res" where
  "ValidateCompatibility p = need (cd_env_injection p \<or> cd_managed_credentials p \<or> cd_localhost_rescue p)
     ''compatibility policy must keep at least one compatibility flag enabled''"

fun validate_candidates :: "string list \<Rightarrow> string list \<Rightarrow> ServiceCandidate list \<Rightarrow> unit res" where
  "validate_candidates names paths [] = Ok ()"
| "validate_candidates names paths (s # ss) =
     also_ok (all_ok
       [ValidateCandidate s,
        need (sc_name s \<notin> set names) (''init plan has duplicate service name '' @ go_quote (sc_name s)),
        need (sc_path s \<notin> set paths) (''init plan has duplicate service path '' @ go_quote (sc_path s))])
       (validate_candidates (sc_name s # names) (sc_path s # paths) ss)"

definition ValidatePlan :: "InitPlan \<Rightarrow> unit res" where
  "ValidatePlan p =
     (let mode = ip_runtime_mode p; names = map sc_name (ip_services p) in all_ok
       [need (\<not> blank (ip_repo_root p)) ''init plan repo root is required'',
        need (\<not> blank (ip_layout p)) ''init plan layout is required'',
        each_ok ValidateProject (ip_projects p),
        (case ip_selected_project p of None \<Rightarrow> Ok () | Some x \<Rightarrow> ValidateProject x),
        (if mode \<noteq> [] then ValidateMode mode else Ok ()),
        each_ok ValidateTarget (ip_targets p),
        each_ok ValidateBinding (ip_bindings p),
        (case ip_selected_target p of
           None \<Rightarrow> Ok ()
         | Some t \<Rightarrow> all_ok
             [ValidateTarget t,
              need (mode \<noteq> []) ''selected target requires a runtime mode'',
              need (ts_runtime_mode t = mode)
                (''selected target '' @ go_quote (ts_name t) @ '' is incompatible with runtime mode '' @ go_quote mode)]),
        (case ip_selected_binding p of
           None \<Rightarrow> Ok ()
         | Some b \<Rightarrow> all_ok
             [ValidateBinding b,
              need (mode = [] \<or> bs_runtime_mode b = mode)
                (''selected binding '' @ go_quote (bs_name b) @ '' is incompatible with runtime mode '' @ go_quote mode),
              (case ip_selected_target p of
                 None \<Rightarrow> Ok ()
               | Some t \<Rightarrow> need (bs_target_kind b = ts_kind t \<and> bs_target_id b = ts_id t)
                   (''selected binding '' @ go_quote (bs_name b) @ '' does not match target '' @ go_quote (ts_name t)))]),
        validate_candidates [] [] (ip_services p),
        each_ok (\<lambda>d. all_ok
          [ValidateDraft d,
           need (dd_service d \<in> set names)
             (''dependency binding service '' @ go_quote (dd_service d) @ '' is not declared in init plan services''),
           need (dd_target_service d \<in> set names)
             (''dependency binding target_service '' @ go_quote (dd_target_service d) @ '' is not declared in init plan services''),
           need (\<not> (mode = RuntimeModeDistributedK3s \<and> \<not> blank (dd_local_endpoint d)))
             ''distributed-k3s init must not inject local dependency endpoints; K3s scheduling must stay cluster-native''])
          (ip_dependency_bindings p),
        ValidateCompatibility (ip_compatibility p)])"

definition validated :: "InitPlan \<Rightarrow> InitPlan res" where
  "validated p = (case ValidatePlan p of Inl e \<Rightarrow> Inl e | Inr _ \<Rightarrow> Ok p)"

section \<open>Building the plan\<close>

definition DefaultCompatibilityPolicyDraft :: CompatibilityPolicyDraft where
  "DefaultCompatibilityPolicyDraft =
     \<lparr>cd_env_injection = True, cd_managed_credentials = True, cd_localhost_rescue = True\<rparr>"

definition BuildPlan :: "RepoScanResult \<Rightarrow> ServiceCandidate list \<Rightarrow> InitPlan res" where
  "BuildPlan scan candidates = validated
     \<lparr>ip_repo_root = sr_repo_root scan, ip_layout = LayoutLabel scan, ip_projects = [],
      ip_selected_project = None, ip_runtime_mode = [], ip_targets = [], ip_selected_target = None,
      ip_bindings = [], ip_selected_binding = None, ip_services = candidates,
      ip_dependency_bindings = [], ip_compatibility = DefaultCompatibilityPolicyDraft\<rparr>"

definition summarize_targets :: "string \<Rightarrow> string \<Rightarrow> CliTarget list \<Rightarrow> TargetSummary list" where
  "summarize_targets kind mode items = map (\<lambda>t. \<lparr>ts_id = ct_id t, ts_name = ct_name t, ts_kind = kind,
     ts_status = ct_status t, ts_runtime_mode = mode\<rparr>) items"

definition SummarizeTargets :: "CliTarget list \<Rightarrow> CliTarget list \<Rightarrow> CliTarget list \<Rightarrow> TargetSummary list" where
  "SummarizeTargets instances meshes clusters =
     summarize_targets ''instance'' RuntimeModeStandalone instances @
     summarize_targets ''mesh'' RuntimeModeDistributedMesh meshes @
     summarize_targets ''cluster'' RuntimeModeDistributedK3s clusters"

definition SummarizeBindings :: "CliBinding list \<Rightarrow> BindingSummary list" where
  "SummarizeBindings bs = map (\<lambda>b. \<lparr>bs_id = cb_id b, bs_name = cb_name b, bs_target_ref = cb_target_ref b,
     bs_runtime_mode = cb_runtime_mode b, bs_target_kind = cb_target_kind b, bs_target_id = cb_target_id b,
     bs_target_status = [], bs_reusable = False\<rparr>) bs"

definition inferredHTTPPort :: "ServiceCandidate \<Rightarrow> int" where
  "inferredHTTPPort s = (if hh_port (sc_healthcheck s) > 0 then hh_port (sc_healthcheck s) else 8080)"

definition service_by_name :: "ServiceCandidate list \<Rightarrow> string \<rightharpoonup> ServiceCandidate" where
  "service_by_name ss = foldl (\<lambda>m s. m(to_lower (trim_space (sc_name s)) \<mapsto> s)) Map.empty ss"

definition inferDependencyBindings :: "ServiceCandidate list \<Rightarrow> DependencyBindingDraft list" where
  "inferDependencyBindings ss =
     (if length ss < 2 then []
      else (case service_by_name ss ''api'' of
         None \<Rightarrow> []
       | Some api \<Rightarrow> concat (map (\<lambda>n. case service_by_name ss n of
             None \<Rightarrow> []
           | Some src \<Rightarrow> [\<lparr>dd_service = sc_name src, dd_alias = ''api'', dd_target_service = sc_name api,
               dd_protocol = ''http'',
               dd_local_endpoint = ''localhost:'' @ itoa (inferredHTTPPort api)\<rparr>])
           [''web'', ''gateway''])))"

section \<open>Choosing a target\<close>

definition targetSelectableForProject :: "TargetSummary \<Rightarrow> ProjectSummary option \<Rightarrow> bool \<times> string" where
  "targetSelectableForProject t project =
     (if ts_runtime_mode t = RuntimeModeStandalone \<or> ts_runtime_mode t = RuntimeModeDistributedMesh
      then (if \<not> equal_fold (ts_status t) ''online'' then (False, ''offline'') else (True, []))
      else if ts_runtime_mode t = RuntimeModeDistributedK3s
      then (if \<not> equal_fold (ts_status t) ''registered'' \<and> \<not> equal_fold (ts_status t) ''online'' \<and>
               \<not> equal_fold (ts_status t) ''available''
            then (False, ''unavailable'') else (True, []))
      else (True, []))"

definition invalidTargetSelectionError :: "TargetSummary \<Rightarrow> string \<Rightarrow> go_err" where
  "invalidTargetSelectionError t reason =
     (let who = ts_kind t @ '' target '' @ go_quote (ts_name t) in
      if reason = ''ownership'' then Errorf (who @ '' is not owned by the selected project user. next: choose a ''
           @ ts_kind t @ '' target that belongs to the project owner or switch `--project`'')
      else if reason = ''offline'' then Errorf (who @ '' is not currently online. next: bring the target online or choose a different ''
           @ ts_kind t @ '' target'')
      else if reason = ''unavailable'' then Errorf (who @ '' is not currently available. next: wait for the target to register or choose a different ''
           @ ts_kind t @ '' target'')
      else Errorf (who @ '' is not selectable. next: choose a different target''))"

definition eligibleTargetsForMode :: "TargetSummary list \<Rightarrow> string \<Rightarrow> ProjectSummary option \<Rightarrow> TargetSummary list" where
  "eligibleTargetsForMode ts mode project =
     filter (\<lambda>t. ts_runtime_mode t = mode \<and> fst (targetSelectableForProject t project)) ts"

definition pickProject :: "ProjectSummary list \<Rightarrow> string \<Rightarrow> ProjectSummary option res" where
  "pickProject projects sel =
     (let sel = trim_space sel in
      if length projects = 0
      then Fail (Errorf ''no projects are available for init. next: create a project or verify CLI auth'')
      else if sel = [] then (if length projects = 1 then Ok (Some (projects ! 0)) else Ok None)
      else (case List.find (\<lambda>p. sel = ps_id p \<or> sel = ps_slug p \<or> sel = ps_name p) projects of
              Some p \<Rightarrow> Ok (Some p)
            | None \<Rightarrow> Fail (Errorf (''project '' @ go_quote sel @
                '' was not found. next: rerun `lazyops init --project <project-id-or-slug>` with one of the listed projects''))))"

definition pickTarget ::
    "TargetSummary list \<Rightarrow> string \<Rightarrow> ProjectSummary option \<Rightarrow> string \<Rightarrow> TargetSummary option res" where
  "pickTarget targets mode project sel =
     (let compatible = filter (\<lambda>t. ts_runtime_mode t = mode) targets;
          incompatible = filter (\<lambda>t. ts_runtime_mode t \<noteq> mode) targets;
          sel = trim_space sel;
          named = (\<lambda>t. sel = ts_id t \<or> sel = ts_name t)
      in if sel = [] then
           (case eligibleTargetsForMode compatible mode project of [t] \<Rightarrow> Ok (Some t) | _ \<Rightarrow> Ok None)
         else (case List.find named compatible of
             Some t \<Rightarrow> (case targetSelectableForProject t project of
                 (ok, reason) \<Rightarrow> if ok then Ok (Some t) else Fail (invalidTargetSelectionError t reason))
           | None \<Rightarrow> (case List.find named incompatible of
                 Some t \<Rightarrow> Fail (Errorf (''target '' @ go_quote sel @ '' is incompatible with runtime mode '' @ go_quote mode
                     @ ''. next: pick a '' @ mode @ '' target or change `--runtime-mode`''))
               | None \<Rightarrow> Fail (Errorf (''target '' @ go_quote sel @ '' was not found for runtime mode '' @ go_quote mode
                     @ ''. next: rerun `lazyops init --runtime-mode '' @ mode @ '' --target <id|name>` with a listed target'')))))"

text \<open>The choice of a target in \<open>ApplyDiscovery\<close>, once the plan has a runtime mode.\<close>

definition no_target :: "string \<Rightarrow> go_err" where
  "no_target mode = Errorf (''no valid target exists for runtime mode '' @ go_quote mode @
     ''. next: enroll a compatible target or choose a different runtime mode'')"

definition select_target :: "InitPlan \<Rightarrow> string \<Rightarrow> InitPlan res" where
  "select_target p sel =
     (let mode = ip_runtime_mode p; project = ip_selected_project p;
          eligible = eligibleTargetsForMode (ip_targets p) mode project in
      if length eligible = 0 \<and> blank sel then Fail (no_target mode)
      else res_bind (pickTarget (ip_targets p) mode project sel) (\<lambda>t.
           if length eligible = 0 \<and> t = None then Fail (no_target mode)
           else Ok (p\<lparr>ip_selected_target := t\<rparr>)))"

definition set_mode :: "InitPlan \<Rightarrow> string \<Rightarrow> InitPlan res" where
  "set_mode p mode =
     (if mode \<noteq> [] then
        (case ValidateMode mode of
           Inl e \<Rightarrow> Inl e
         | Inr _ \<Rightarrow> Ok (p\<lparr>ip_runtime_mode := mode, ip_dependency_bindings :=
             (if mode = RuntimeModeDistributedMesh then inferDependencyBindings (ip_services p) else [])\<rparr>))
      else Ok p)"

definition ApplyDiscovery ::
    "InitPlan \<Rightarrow> ProjectSummary list \<Rightarrow> CliTarget list \<Rightarrow> CliTarget list \<Rightarrow> CliTarget list \<Rightarrow> SelectionInput \<Rightarrow>
     InitPlan res" where
  "ApplyDiscovery plan projects instances meshes clusters sel =
     res_bind (set_mode (plan\<lparr>ip_projects := projects, ip_targets := SummarizeTargets instances meshes clusters\<rparr>)
                 (si_runtime_mode sel)) (\<lambda>p.
     res_bind (pickProject (ip_projects p) (si_project sel)) (\<lambda>project.
     let p = p\<lparr>ip_selected_project := project\<rparr> in
     if \<not> blank (si_target sel) \<and> ip_runtime_mode p = []
     then Fail (Errorf ''target selection requires a runtime mode first. next: rerun `lazyops init --runtime-mode <standalone|distributed-mesh|distributed-k3s> --target <id|name>`'')
     else res_bind (if ip_runtime_mode p \<noteq> [] then select_target p (si_target sel) else Ok p) validated))"

section \<open>Choosing a binding\<close>

definition FilterBindingsByRuntimeMode :: "BindingSummary list \<Rightarrow> string \<Rightarrow> BindingSummary list" where
  "FilterBindingsByRuntimeMode bs mode = filter (\<lambda>b. bs_runtime_mode b = mode) bs"

definition binding_of_target :: "TargetSummary \<Rightarrow> BindingSummary \<Rightarrow> bool" where
  "binding_of_target t b \<longleftrightarrow> bs_target_kind b = ts_kind t \<and> bs_target_id b = ts_id t"

definition FilterBindingsByTarget :: "BindingSummary list \<Rightarrow> TargetSummary \<Rightarrow> BindingSummary list" where
  "FilterBindingsByTarget bs t = filter (binding_of_target t) bs"

definition pickBinding ::
    "BindingSummary list \<Rightarrow> string \<Rightarrow> string \<Rightarrow> TargetSummary option \<Rightarrow> BindingSummary res" where
  "pickBinding bs sel mode target =
     (let sel = trim_space sel in
      case List.find (\<lambda>b. sel = bs_id b \<or> sel = bs_name b \<or> sel = bs_target_ref b) bs of
        None \<Rightarrow> Fail (Errorf (''binding '' @ go_quote sel @
          '' was not found. next: rerun `lazyops init --binding <binding-id|name|target-ref>` with one of the listed bindings''))
      | Some b \<Rightarrow>
          if mode \<noteq> [] \<and> bs_runtime_mode b \<noteq> mode
          then Fail (Errorf (''binding '' @ go_quote sel @ '' is incompatible with runtime mode '' @ go_quote mode @
                 ''. next: pick a binding for '' @ mode @ '' or change `--runtime-mode`''))
          else (case target of
              Some t \<Rightarrow> if \<not> binding_of_target t b
                then Fail (Errorf (''binding '' @ go_quote sel @ '' does not match target '' @ go_quote (ts_name t) @
                       ''. next: pick a binding for the selected target or change `--target`''))
                else Ok b
            | None \<Rightarrow> Ok b))"

definition mode_suffix :: "string \<Rightarrow> string" where
  "mode_suffix mode = (if mode = RuntimeModeStandalone then ''standalone''
     else if mode = RuntimeModeDistributedMesh then ''mesh''
     else if mode = RuntimeModeDistributedK3s then ''k3s'' else [])"

definition defaultBindingName :: "TargetSummary \<Rightarrow> string" where
  "defaultBindingName t =
     (let n = replace_char (CHR '' '') (CHR ''-'') (to_lower (trim_space (ts_name t))) in
      (if n = [] then ''binding'' else n) @ ''-'' @ mode_suffix (ts_runtime_mode t))"

definition new_binding :: "InitPlan \<Rightarrow> TargetSummary \<Rightarrow> string \<Rightarrow> BindingSummary" where
  "new_binding p t name =
     \<lparr>bs_id = [], bs_name = (if blank name then defaultBindingName t else trim_space name),
      bs_target_ref = ts_name t, bs_runtime_mode = ip_runtime_mode p, bs_target_kind = ts_kind t,
      bs_target_id = ts_id t, bs_target_status = [], bs_reusable = False\<rparr>"

definition ApplyBindings :: "InitPlan \<Rightarrow> CliBinding list \<Rightarrow> BindingSelectionInput \<Rightarrow> InitPlan res" where
  "ApplyBindings plan bindings sel =
     (let p = plan\<lparr>ip_bindings := SummarizeBindings bindings\<rparr> in
      if ip_selected_project p = None then Ok p
      else
        let f1 = (if ip_runtime_mode p \<noteq> [] then FilterBindingsByRuntimeMode (ip_bindings p) (ip_runtime_mode p)
                  else ip_bindings p);
            f2 = (case ip_selected_target p of None \<Rightarrow> f1 | Some t \<Rightarrow> FilterBindingsByTarget f1 t)
        in if \<not> blank (bi_binding sel) then
             res_bind (pickBinding (ip_bindings p) (bi_binding sel) (ip_runtime_mode p) (ip_selected_target p))
               (\<lambda>b. validated (p\<lparr>ip_selected_binding := Some b\<rparr>))
           else if bi_create sel then
             (case ip_selected_target p of
                Some t \<Rightarrow>
                  if ip_runtime_mode p = []
                  then Fail (Errorf ''binding creation requires a runtime mode and target first. next: rerun `lazyops init --runtime-mode <mode> --target <id|name> --create-binding`'')
                  else validated (p\<lparr>ip_selected_binding := Some (new_binding p t (bi_binding_name sel))\<rparr>)
              | None \<Rightarrow> Fail (Errorf ''binding creation requires a runtime mode and target first. next: rerun `lazyops init --runtime-mode <mode> --target <id|name> --create-binding`''))
           else (case f2 of
                [b] \<Rightarrow> validated (p\<lparr>ip_selected_binding := Some b\<rparr>)
              | _ \<Rightarrow> validated p))"

section \<open>Listing bindings\<close>

text \<open>What \<open>lazyops bindings\<close> shows: bindings with the state of their target, and its filters.\<close>

definition bindingTargetKey :: "string \<Rightarrow> string \<Rightarrow> string" where
  "bindingTargetKey kind tid = trim_space kind @ ''::'' @ trim_space tid"

definition indexed_targets :: "TargetSummary list \<Rightarrow> string \<rightharpoonup> TargetSummary" where
  "indexed_targets ts = foldl (\<lambda>m t. m(bindingTargetKey (ts_kind t) (ts_id t) \<mapsto> t)) Map.empty ts"

definition AnnotateBindingsWithTargets ::
    "BindingSummary list \<Rightarrow> TargetSummary list \<Rightarrow> ProjectSummary option \<Rightarrow> BindingSummary list" where
  "AnnotateBindingsWithTargets bs ts project = map (\<lambda>b.
     case indexed_targets ts (bindingTargetKey (bs_target_kind b) (bs_target_id b)) of
       None \<Rightarrow> b\<lparr>bs_target_status := ''missing'', bs_reusable := False\<rparr>
     | Some t \<Rightarrow> b\<lparr>bs_target_status := ts_status t,
                   bs_reusable := fst (targetSelectableForProject t project)\<rparr>) bs"

definition FilterBindingsByTargetRef :: "BindingSummary list \<Rightarrow> string \<Rightarrow> BindingSummary list" where
  "FilterBindingsByTargetRef bs r = (if blank r then bs else filter (\<lambda>b. bs_target_ref b = trim_space r) bs)"

definition FilterBindingsByTargetKind :: "BindingSummary list \<Rightarrow> string \<Rightarrow> BindingSummary list" where
  "FilterBindingsByTargetKind bs k = (if blank k then bs else filter (\<lambda>b. bs_target_kind b = trim_space k) bs)"

definition FilterBindingsByStatus :: "BindingSummary list \<Rightarrow> string \<Rightarrow> BindingSummary list" where
  "FilterBindingsByStatus bs st =
     (if blank st then bs else filter (\<lambda>b. equal_fold (bs_target_status b) (trim_space st)) bs)"

definition ReusableBindings :: "BindingSummary list \<Rightarrow> BindingSummary list" where
  "ReusableBindings bs = filter bs_reusable bs"

section \<open>What a choice guarantees\<close>

definition runtime_mode_set :: "string set" where
  "runtime_mode_set = {RuntimeModeStandalone, RuntimeModeDistributedMesh, RuntimeModeDistributedK3s, []}"

definition choice_ok :: "InitPlan \<Rightarrow> bool" where
  "choice_ok p \<longleftrightarrow>
     ip_runtime_mode p \<in> runtime_mode_set \<and>
     set_option (ip_selected_project p) \<subseteq> set (ip_projects p) \<and>
     (case ip_selected_target p of None \<Rightarrow> True
      | Some t \<Rightarrow> t \<in> set (ip_targets p) \<and> ip_runtime_mode p \<noteq> [] \<and> ts_runtime_mode t = ip_runtime_mode p \<and>
          fst (targetSelectableForProject t (ip_selected_project p))) \<and>
     (case ip_selected_binding p of None \<Rightarrow> True
      | Some b \<Rightarrow> (ip_runtime_mode p = [] \<or> bs_runtime_mode b = ip_runtime_mode p) \<and>
          (case ip_selected_target p of None \<Rightarrow> True | Some t \<Rightarrow> binding_of_target t b))"

lemma validated_Ok: "validated p = Inr q \<longleftrightarrow> q = p \<and> ValidatePlan p = Ok ()"
  by (auto simp: validated_def split: sum.splits)

lemma ValidateMode_Ok: "ValidateMode m = Ok () \<longleftrightarrow> m \<in> runtime_mode_set"
  by (simp add: ValidateMode_def runtime_mode_set_def)

lemma ValidatePlan_choice:
  assumes "ValidatePlan p = Ok ()"
  shows "ip_runtime_mode p \<in> runtime_mode_set"
    and "ip_selected_target p = Some t \<Longrightarrow> ip_runtime_mode p \<noteq> [] \<and> ts_runtime_mode t = ip_runtime_mode p"
    and "ip_selected_binding p = Some b \<Longrightarrow> (ip_runtime_mode p = [] \<or> bs_runtime_mode b = ip_runtime_mode p) \<and>
          (case ip_selected_target p of None \<Rightarrow> True | Some t \<Rightarrow> binding_of_target t b)"
  using assms
  by (auto simp: ValidatePlan_def Let_def ValidateMode_Ok runtime_mode_set_def binding_of_target_def
      split: option.splits if_splits)

lemma pickProject_in: "pickProject ps sel = Inr (Some p) \<Longrightarrow> p \<in> set ps"
  by (auto simp: pickProject_def Let_def split: if_splits option.splits dest: find_SomeD)

lemma pickTarget_ok:
  assumes "pickTarget ts mode project sel = Inr (Some t)"
  shows "t \<in> set ts \<and> fst (targetSelectableForProject t project)"
proof -
  have elig: "eligibleTargetsForMode (filter (\<lambda>t. ts_runtime_mode t = mode) ts) mode project = [t] \<Longrightarrow> ?thesis"
  proof -
    assume "eligibleTargetsForMode (filter (\<lambda>t. ts_runtime_mode t = mode) ts) mode project = [t]"
    then have "t \<in> set (eligibleTargetsForMode (filter (\<lambda>t. ts_runtime_mode t = mode) ts) mode project)" by simp
    then show ?thesis by (simp add: eligibleTargetsForMode_def)
  qed
  show ?thesis
    using assms elig
    by (auto simp: pickTarget_def Let_def split: if_splits option.splits list.splits prod.splits
        dest!: find_SomeD)
qed

lemma select_target_ok:
  assumes "select_target p sel = Inr q"
  shows "\<exists>t. q = p\<lparr>ip_selected_target := t\<rparr> \<and>
    (\<forall>x. t = Some x \<longrightarrow> x \<in> set (ip_targets p) \<and> fst (targetSelectableForProject x (ip_selected_project p)))"
  using assms pickTarget_ok
  by (auto simp: select_target_def Let_def res_bind_eq_Inr split: if_splits)

lemma ApplyDiscovery_choice:
  assumes "ApplyDiscovery plan projects instances meshes clusters sel = Inr p"
  shows "choice_ok p"
proof -
  obtain p0 project q where *: "pickProject (ip_projects p0) (si_project sel) = Inr project"
    "(if ip_runtime_mode p0 \<noteq> [] then select_target (p0\<lparr>ip_selected_project := project\<rparr>) (si_target sel)
      else Inr (p0\<lparr>ip_selected_project := project\<rparr>)) = Inr q" "validated q = Inr p"
    using assms by (auto simp: ApplyDiscovery_def Let_def res_bind_eq_Inr split: if_splits)
  then have val: "ValidatePlan p = Ok ()" and pq: "p = q" by (auto simp: validated_Ok)
  note v = ValidatePlan_choice [OF val]
  have proj: "set_option project \<subseteq> set (ip_projects p0)" using pickProject_in *(1) by (cases project) auto
  show ?thesis
  proof (cases "ip_runtime_mode p0 = []")
    case True
    then have q: "q = p0\<lparr>ip_selected_project := project\<rparr>" using *(2) by simp
    have "ip_selected_target p = None" using v(2) True by (cases "ip_selected_target p") (auto simp: pq q)
    with v proj show ?thesis by (auto simp: choice_ok_def pq q split: option.splits)
  next
    case False
    then obtain t where q: "q = p0\<lparr>ip_selected_project := project, ip_selected_target := t\<rparr>"
      "\<forall>x. t = Some x \<longrightarrow> x \<in> set (ip_targets p0) \<and> fst (targetSelectableForProject x project)"
      using *(2) select_target_ok by fastforce
    with v proj show ?thesis by (auto simp: choice_ok_def pq split: option.splits)
  qed
qed

lemma ApplyBindings_choice:
  assumes "choice_ok plan" and "ApplyBindings plan bindings sel = Inr p"
  shows "choice_ok p"
proof -
  let ?p = "plan\<lparr>ip_bindings := SummarizeBindings bindings\<rparr>"
  consider "p = ?p" | b where "p = ?p\<lparr>ip_selected_binding := b\<rparr>" "ValidatePlan p = Ok ()"
    using assms(2)
    by (auto simp: ApplyBindings_def Let_def res_bind_eq_Inr validated_Ok
        split: if_splits option.splits list.splits)
  then show ?thesis
  proof cases
    case 1
    with assms(1) show ?thesis by (auto simp: choice_ok_def split: option.splits)
  next
    case 2
    with assms(1) ValidatePlan_choice(3) [OF 2(2)] show ?thesis
      by (auto simp: choice_ok_def split: option.splits)
  qed
qed

end
