(* ===== verification/LazyYaml.thy ===== *)
theory LazyYaml
  imports InitPlan
begin

text \<open>
  The deploy contract \<open>lazyops.yaml\<close> of the CLI: its schema and validation
  (\<open>cli/internal/lazyyaml/schema.go\<close>), and how \<open>lazyops init\<close> builds it from a plan
  (\<open>cli/internal/lazyyaml/generator.go\<close>). The code walks the document by reflection to look at every
  string in it; here \<open>document_strings\<close> lists the fields it meets, in its order and with the paths
  it builds. \<open>ValidateSchemaLock\<close>, which looks for forbidden field names in the Go types, works on
  \<open>go_type\<close>, a description of those types.
\<close>

section \<open>The document\<close>

record Healthcheck =
  hc_path :: string
  hc_port :: int

record YamlService =
  ys_name :: string
  ys_path :: string
  ys_start_hint :: string
  ys_public :: bool
  ys_healthcheck :: Healthcheck

record YamlDependency =
  yd_service :: string
  yd_alias :: string
  yd_target_service :: string
  yd_protocol :: string
  yd_local_endpoint :: string

record CompatibilityPolicy =
  cp_env_injection :: bool
  cp_managed_credentials :: bool
  cp_localhost_rescue :: bool

record MagicDomainPolicy =
  md_enabled :: bool
  md_provider :: string

record YamlScalePolicy =
  sz_enabled :: bool
  sz_idle_window :: string
  sz_gateway_hold_timeout :: string

record Document =
  dc_project_slug :: string
  dc_runtime_mode :: string
  dc_target_ref :: string
  dc_services :: "YamlService list"
  dc_dependencies :: "YamlDependency list"
  dc_compatibility :: CompatibilityPolicy
  dc_magic :: MagicDomainPolicy
  dc_preview_enabled :: bool
  dc_scale :: YamlScalePolicy

section \<open>The schema lock\<close>

text \<open>Field name, JSON name, type.\<close>

datatype go_type = GoBasic | GoList go_type | GoStruct string "(string \<times> string \<times> go_type) list"

definition forbiddenJSONFields :: "(string \<times> string) list" where
  "forbiddenJSONFields =
    [(''ssh'', ''repo contracts must not carry SSH access''),
     (''ssh_key'', ''repo contracts must not carry SSH access''),
     (''private_key'', ''repo contracts must not carry private keys''),
     (''password'', ''repo contracts must not carry passwords''),
     (''pat'', ''repo contracts must not carry PATs''),
     (''token'', ''repo contracts must not carry tokens''),
     (''agent_token'', ''repo contracts must not carry agent credentials''),
     (''github_token'', ''repo contracts must not carry GitHub credentials''),
     (''secret'', ''repo contracts must not carry raw secrets''),
     (''kubeconfig'', ''repo contracts must not carry kubeconfig data''),
     (''kubeconfig_secret_ref'', ''repo contracts must not carry kubeconfig refs''),
     (''public_ip'', ''repo contracts must not carry raw target IPs''),
     (''private_ip'', ''repo contracts must not carry raw target IPs''),
     (''server_ip'', ''repo contracts must not carry raw target IPs''),
     (''project_id'', ''repo contracts must stay logical and avoid backend ids''),
     (''deployment_binding_id'', ''repo contracts must stay logical and avoid backend ids''),
     (''target_id'', ''repo contracts must stay logical and avoid concrete target ids''),
     (''target_kind'', ''repo contracts must stay logical and avoid concrete target kinds''),
     (''instance_id'', ''repo contracts must stay logical and avoid concrete target ids''),
     (''mesh_network_id'', ''repo contracts must stay logical and avoid concrete target ids''),
     (''cluster_id'', ''repo contracts must stay logical and avoid concrete target ids''),
     (''deploy_command'', ''repo contracts must not bypass git-push deploy triggers'')]"

text \<open>The walk over the types; \<open>visited\<close> holds the names of the structs seen.\<close>

fun validateSchemaType :: "go_type \<Rightarrow> string \<Rightarrow> string list \<Rightarrow> (unit res) \<times> string list"
  and validateSchemaFields ::
    "(string \<times> string \<times> go_type) list \<Rightarrow> string \<Rightarrow> string list \<Rightarrow> (unit res) \<times> string list" where
  "validateSchemaType GoBasic path visited = (Ok (), visited)"
| "validateSchemaType (GoList t) path visited = validateSchemaType t path visited"
| "validateSchemaType (GoStruct name fs) path visited =
     (if name \<in> set visited then (Ok (), visited)
      else validateSchemaFields fs path (name # visited))"
| "validateSchemaFields [] path visited = (Ok (), visited)"
| "validateSchemaFields ((field, json, t) # fs) path visited =
     (case map_of forbiddenJSONFields json of
        Some reason \<Rightarrow> (Fail (Errorf (''schema lock violation at '' @ path @ ''.'' @ field @ '': field '' @
          go_quote json @ '' is forbidden because '' @ reason)), visited)
      | None \<Rightarrow> (case validateSchemaType t (path @ ''.'' @ field) visited of
            (Inl e, v) \<Rightarrow> (Inl e, v)
          | (Inr _, v) \<Rightarrow> validateSchemaFields fs path v))"

definition document_type :: go_type where
  "document_type = GoStruct ''Document''
    [(''ProjectSlug'', ''project_slug'', GoBasic),
     (''RuntimeMode'', ''runtime_mode'', GoBasic),
     (''DeploymentBinding'', ''deployment_binding'',
        GoStruct ''DeploymentBindingRef'' [(''TargetRef'', ''target_ref'', GoBasic)]),
     (''Services'', ''services'', GoList (GoStruct ''Service''
        [(''Name'', ''name'', GoBasic), (''Path'', ''path'', GoBasic), (''StartHint'', ''start_hint'', GoBasic),
         (''Public'', ''public'', GoBasic),
         (''Healthcheck'', ''healthcheck'', GoStruct ''Healthcheck''
            [(''Path'', ''path'', GoBasic), (''Port'', ''port'', GoBasic)])])),
     (''DependencyBindings'', ''dependency_bindings'', GoList (GoStruct ''DependencyBinding''
        [(''Service'', ''service'', GoBasic), (''Alias'', ''alias'', GoBasic),
         (''TargetService'', ''target_service'', GoBasic), (''Protocol'', ''protocol'', GoBasic),
         (''LocalEndpoint'', ''local_endpoint'', GoBasic)])),
     (''CompatibilityPolicy'', ''compatibility_policy'', GoStruct ''CompatibilityPolicy''
        [(''EnvInjection'', ''env_injection'', GoBasic), (''ManagedCredentials'', ''managed_credentials'', GoBasic),
         (''LocalhostRescue'', ''localhost_rescue'', GoBasic)]),
     (''MagicDomainPolicy'', ''magic_domain_policy'', GoStruct ''MagicDomainPolicy''
        [(''Enabled'', ''enabled'', GoBasic), (''Provider'', ''provider'', GoBasic)]),
     (''PreviewPolicy'', ''preview_policy'', GoStruct ''PreviewPolicy'' [(''Enabled'', ''enabled'', GoBasic)]),
     (''ScaleToZeroPolicy'', ''scale_to_zero_policy'', GoStruct ''ScaleToZeroPolicy''
        [(''Enabled'', ''enabled'', GoBasic), (''IdleWindow'', ''idle_window'', GoBasic),
         (''GatewayHoldTimeout'', ''gateway_hold_timeout'', GoBasic)])]"

definition ValidateSchemaLock :: "unit res" where
  "ValidateSchemaLock = fst (validateSchemaType document_type ''Document'' [])"

lemma schema_lock_holds: "ValidateSchemaLock = Ok ()"
  by code_simp

section \<open>Values\<close>

definition slug_char :: "char \<Rightarrow> bool" where
  "slug_char c \<longleftrightarrow> is_digit c \<or> (CHR ''a'' \<le> c \<and> c \<le> CHR ''z'')"

definition projectSlugPattern :: "string \<Rightarrow> bool" where
  "projectSlugPattern s \<longleftrightarrow>
     (case s of [] \<Rightarrow> False | c # r \<Rightarrow> slug_char c \<and> list_all (\<lambda>d. slug_char d \<or> d = CHR ''-'') r)"

definition alnum :: "char \<Rightarrow> bool" where
  "alnum c \<longleftrightarrow> slug_char c \<or> (CHR ''A'' \<le> c \<and> c \<le> CHR ''Z'')"

definition logicalNamePattern :: "string \<Rightarrow> bool" where
  "logicalNamePattern s \<longleftrightarrow>
     (case s of [] \<Rightarrow> False
      | c # r \<Rightarrow> alnum c \<and> list_all (\<lambda>d. alnum d \<or> d = CHR ''.'' \<or> d = CHR ''_'' \<or> d = CHR ''-'') r)"

definition forbiddenMarkers :: "string list" where
  "forbiddenMarkers =
    [''secret://'', ''kubeconfig'', ''-----begin private key-----'', ''-----begin rsa private key-----'',
     ''-----begin openssh private key-----'', ''ssh-rsa '', ''github_pat_'', ''ghp_'', ''glpat-'', ''bearer '']"

definition AllowedMagicDomainProviders :: "string list" where
  "AllowedMagicDomainProviders = [''sslip.io'', ''nip.io'']"

definition allowedDependencyProtocols :: "string list" where
  "allowedDependencyProtocols = [''http'', ''https'', ''tcp'', ''grpc'']"

definition validateRepoRelativePath :: "string \<Rightarrow> string \<Rightarrow> unit res" where
  "validateRepoRelativePath field value =
     (let t = trim_space value; c = path_clean t in all_ok
       [need (t \<noteq> []) (field @ '' is required''),
        need (\<not> (has_prefix t ''/'' \<or> has_prefix t ''~'')) (field @ '' must stay repo-relative''),
        need (\<not> (c = ''..'' \<or> has_prefix c ''../'')) (field @ '' must not escape the repository root'')])"

definition validateLocalEndpoint :: "string \<Rightarrow> unit res" where
  "validateLocalEndpoint value =
     (case SplitHostPort (trim_space value) of
        None \<Rightarrow> Fail (Errorf ''dependency_binding.local_endpoint must be a host:port pair'')
      | Some (host, port) \<Rightarrow> all_ok
          [need (\<not> str_contains host ''@'') ''dependency_binding.local_endpoint must not contain credentials'',
           need (trim_set [CHR ''['', CHR '']''] host \<in> {''localhost'', ''127.0.0.1'', ''::1''})
             ''dependency_binding.local_endpoint must stay local to the workstation'',
           need (\<not> blank port) ''dependency_binding.local_endpoint port is required''])"

definition validateStringValue :: "string \<Rightarrow> string \<Rightarrow> unit res" where
  "validateStringValue path value =
     (let t = trim_space value in
      if t = [] then Ok ()
      else if has_suffix path ''.local_endpoint'' then validateLocalEndpoint t
      else all_ok
        [need (\<not> list_ex (\<lambda>m. str_contains (to_lower t) m) forbiddenMarkers)
           (path @ '' must not contain secrets, kubeconfig material, or raw credentials''),
         need (\<not> ipv4Pattern t)
           (path @ '' must stay logical and must not contain raw infrastructure IP addresses'')])"

section \<open>Validation\<close>

definition ValidateTargetRef :: "string \<Rightarrow> unit res" where
  "ValidateTargetRef r = all_ok
     [need (\<not> blank r) ''lazyops.yaml deployment_binding.target_ref is required'',
      need (logicalNamePattern r)
        ''lazyops.yaml deployment_binding.target_ref must stay a logical reference, not raw infrastructure data'']"

definition ValidateHealthcheck :: "Healthcheck \<Rightarrow> unit res" where
  "ValidateHealthcheck h =
     (if blank (hc_path h) \<and> hc_port h = 0 then Ok ()
      else all_ok
        [need (\<not> (blank (hc_path h) \<or> hc_port h = 0)) ''service.healthcheck requires both path and port once started'',
         need (has_prefix (hc_path h) ''/'') ''service.healthcheck.path must start with `/`'',
         need (\<not> (hc_port h < 1 \<or> hc_port h > 65535)) ''service.healthcheck.port must be between 1 and 65535''])"

definition ValidateService :: "YamlService \<Rightarrow> unit res" where
  "ValidateService s = all_ok
     [need (\<not> blank (ys_name s)) ''service.name is required'',
      need (logicalNamePattern (ys_name s))
        ''service.name must contain only letters, digits, dots, underscores, or hyphens'',
      validateRepoRelativePath ''service.path'' (ys_path s),
      ValidateHealthcheck (ys_healthcheck s)]"

definition ValidateDependency :: "string list \<Rightarrow> YamlDependency \<Rightarrow> unit res" where
  "ValidateDependency known b =
     (let proto = to_lower (trim_space (yd_protocol b)) in all_ok
       [need (\<not> blank (yd_service b)) ''service is required'',
        need (yd_service b \<in> set known) (''service '' @ go_quote (yd_service b) @ '' is not declared in services''),
        need (\<not> blank (yd_alias b)) ''alias is required'',
        need (\<not> blank (yd_target_service b)) ''target_service is required'',
        need (logicalNamePattern (yd_target_service b)) ''target_service must stay a logical service name'',
        need (proto \<noteq> []) ''protocol is required'',
        need (proto \<in> set allowedDependencyProtocols)
          (''protocol '' @ go_quote (yd_protocol b) @ '' is invalid. next: use http, https, tcp, or grpc''),
        (if \<not> blank (yd_local_endpoint b) then validateLocalEndpoint (yd_local_endpoint b) else Ok ())])"

definition ValidateCompatibilityPolicy :: "CompatibilityPolicy \<Rightarrow> unit res" where
  "ValidateCompatibilityPolicy p =
     need (cp_env_injection p \<or> cp_managed_credentials p \<or> cp_localhost_rescue p)
       ''lazyops.yaml compatibility_policy must keep at least one compatibility flag enabled''"

definition ValidateMagicDomain :: "MagicDomainPolicy \<Rightarrow> unit res" where
  "ValidateMagicDomain p =
     (let provider = to_lower (trim_space (md_provider p)) in
      if provider = []
      then need (\<not> md_enabled p)
        ''lazyops.yaml magic_domain_policy.provider is required when magic domains are enabled''
      else need (provider \<in> set AllowedMagicDomainProviders)
        ''lazyops.yaml magic_domain_policy.provider must be `sslip.io` or `nip.io`'')"

text \<open>\<open>fmt.Errorf("lazyops.yaml name[%d]: %w", index, err)\<close>\<close>

definition at_index :: "string \<Rightarrow> nat \<Rightarrow> unit res \<Rightarrow> unit res" where
  "at_index name i r =
     (case r of Inl e \<Rightarrow> Fail (Wrapped (''lazyops.yaml '' @ name @ ''['' @ itoa (int i) @ '']'') e) | Inr _ \<Rightarrow> Ok ())"

lemma at_index_Ok [simp]: "at_index name i r = Ok () \<longleftrightarrow> r = Ok ()"
  by (cases r) (auto simp: at_index_def)

fun validate_services :: "nat \<Rightarrow> string list \<Rightarrow> string list \<Rightarrow> YamlService list \<Rightarrow> unit res" where
  "validate_services i names paths [] = Ok ()"
| "validate_services i names paths (s # ss) = also_ok (all_ok
     [at_index ''services'' i (ValidateService s),
      need (ys_name s \<notin> set names)
        (''lazyops.yaml services['' @ itoa (int i) @ '']: duplicate service name '' @ go_quote (ys_name s)),
      need (ys_path s \<notin> set paths)
        (''lazyops.yaml services['' @ itoa (int i) @ '']: duplicate service path '' @ go_quote (ys_path s))])
     (validate_services (i + 1) (ys_name s # names) (ys_path s # paths) ss)"

fun validate_dependencies :: "nat \<Rightarrow> string list \<Rightarrow> YamlDependency list \<Rightarrow> unit res" where
  "validate_dependencies i known [] = Ok ()"
| "validate_dependencies i known (b # bs) =
     also_ok (at_index ''dependency_bindings'' i (ValidateDependency known b)) (validate_dependencies (i + 1) known bs)"

text \<open>Every string field of the document with its path.\<close>

definition service_strings :: "nat \<Rightarrow> YamlService \<Rightarrow> (string \<times> string) list" where
  "service_strings i s =
     (let p = ''lazyops.yaml.services['' @ itoa (int i) @ '']'' in
      [(p @ ''.name'', ys_name s), (p @ ''.path'', ys_path s), (p @ ''.start_hint'', ys_start_hint s),
       (p @ ''.healthcheck.path'', hc_path (ys_healthcheck s))])"

definition dependency_strings :: "nat \<Rightarrow> YamlDependency \<Rightarrow> (string \<times> string) list" where
  "dependency_strings i b =
     (let p = ''lazyops.yaml.dependency_bindings['' @ itoa (int i) @ '']'' in
      [(p @ ''.service'', yd_service b), (p @ ''.alias'', yd_alias b),
       (p @ ''.target_service'', yd_target_service b), (p @ ''.protocol'', yd_protocol b),
       (p @ ''.local_endpoint'', yd_local_endpoint b)])"

definition document_strings :: "Document \<Rightarrow> (string \<times> string) list" where
  "document_strings d =
     [(''lazyops.yaml.project_slug'', dc_project_slug d), (''lazyops.yaml.runtime_mode'', dc_runtime_mode d),
      (''lazyops.yaml.deployment_binding.target_ref'', dc_target_ref d)] @
     concat (map2 service_strings [0..<length (dc_services d)] (dc_services d)) @
     concat (map2 dependency_strings [0..<length (dc_dependencies d)] (dc_dependencies d)) @
     [(''lazyops.yaml.magic_domain_policy.provider'', md_provider (dc_magic d)),
      (''lazyops.yaml.scale_to_zero_policy.idle_window'', sz_idle_window (dc_scale d)),
      (''lazyops.yaml.scale_to_zero_policy.gateway_hold_timeout'', sz_gateway_hold_timeout (dc_scale d))]"

definition validateNoForbiddenValues :: "Document \<Rightarrow> unit res" where
  "validateNoForbiddenValues d = each_ok (\<lambda>(path, value). validateStringValue path value) (document_strings d)"

definition ValidateDocument :: "Document \<Rightarrow> unit res" where
  "ValidateDocument d = all_ok
     [ValidateSchemaLock,
      need (\<not> blank (dc_project_slug d)) ''lazyops.yaml project_slug is required'',
      need (projectSlugPattern (dc_project_slug d))
        ''lazyops.yaml project_slug must be a stable slug like `acme-shop`'',
      ValidateMode (dc_runtime_mode d),
      need (dc_runtime_mode d \<noteq> []) ''lazyops.yaml runtime_mode is required'',
      ValidateTargetRef (dc_target_ref d),
      need (length (dc_services d) \<noteq> 0) ''lazyops.yaml services must include at least one service'',
      validate_services 0 [] [] (dc_services d),
      validate_dependencies 0 (map ys_name (dc_services d)) (dc_dependencies d),
      ValidateCompatibilityPolicy (dc_compatibility d),
      ValidateMagicDomain (dc_magic d),
      validateNoForbiddenValues d]"

section \<open>Building the document from a plan\<close>

record GenerateOptions =
  go_provider :: string
  go_magic :: "bool option"
  go_preview :: "bool option"
  go_scale :: "bool option"

definition DefaultGenerateOptions :: GenerateOptions where
  "DefaultGenerateOptions =
     \<lparr>go_provider = ''sslip.io'', go_magic = Some True, go_preview = Some True, go_scale = Some False\<rparr>"

definition or_default :: "'a option \<Rightarrow> 'a option \<Rightarrow> 'a option" where
  "or_default x d = (case x of None \<Rightarrow> d | Some y \<Rightarrow> Some y)"

definition normalizeGenerateOptions :: "GenerateOptions \<Rightarrow> GenerateOptions" where
  "normalizeGenerateOptions o1 =
     \<lparr>go_provider = (if blank (go_provider o1) then go_provider DefaultGenerateOptions else go_provider o1),
      go_magic = or_default (go_magic o1) (go_magic DefaultGenerateOptions),
      go_preview = or_default (go_preview o1) (go_preview DefaultGenerateOptions),
      go_scale = or_default (go_scale o1) (go_scale DefaultGenerateOptions)\<rparr>"

definition boolValue :: "bool option \<Rightarrow> bool \<Rightarrow> bool" where
  "boolValue v fallback = (case v of None \<Rightarrow> fallback | Some b \<Rightarrow> b)"

definition resolveCompatibilityPolicy :: "CompatibilityPolicyDraft \<Rightarrow> CompatibilityPolicy" where
  "resolveCompatibilityPolicy p =
     (let q = (if \<not> cd_env_injection p \<and> \<not> cd_managed_credentials p \<and> \<not> cd_localhost_rescue p
               then DefaultCompatibilityPolicyDraft else p)
      in \<lparr>cp_env_injection = cd_env_injection q, cp_managed_credentials = cd_managed_credentials q,
          cp_localhost_rescue = cd_localhost_rescue q\<rparr>)"

definition candidate_service :: "ServiceCandidate \<Rightarrow> YamlService" where
  "candidate_service c =
     (let h = sc_healthcheck c in
      \<lparr>ys_name = sc_name c, ys_path = sc_path c, ys_start_hint = sc_start_hint c, ys_public = False,
       ys_healthcheck = (if \<not> blank (hh_path h) \<or> hh_port h > 0
                         then \<lparr>hc_path = hh_path h, hc_port = hh_port h\<rparr> else \<lparr>hc_path = [], hc_port = 0\<rparr>)\<rparr>)"

definition draft_dependency :: "DependencyBindingDraft \<Rightarrow> YamlDependency" where
  "draft_dependency d = \<lparr>yd_service = dd_service d, yd_alias = dd_alias d, yd_target_service = dd_target_service d,
     yd_protocol = dd_protocol d, yd_local_endpoint = dd_local_endpoint d\<rparr>"

definition plan_document :: "InitPlan \<Rightarrow> string \<Rightarrow> string \<Rightarrow> GenerateOptions \<Rightarrow> Document" where
  "plan_document plan slug target_ref opts =
     (let o1 = normalizeGenerateOptions opts in
      \<lparr>dc_project_slug = slug, dc_runtime_mode = ip_runtime_mode plan, dc_target_ref = target_ref,
       dc_services = map candidate_service (ip_services plan),
       dc_dependencies = map draft_dependency (filter (\<lambda>d. \<not> draft_blank d) (ip_dependency_bindings plan)),
       dc_compatibility = resolveCompatibilityPolicy (ip_compatibility plan),
       dc_magic = \<lparr>md_enabled = boolValue (go_magic o1) True, md_provider = go_provider o1\<rparr>,
       dc_preview_enabled = boolValue (go_preview o1) True,
       dc_scale = \<lparr>sz_enabled = boolValue (go_scale o1) False, sz_idle_window = [], sz_gateway_hold_timeout = []\<rparr>\<rparr>)"

definition BuildDocument :: "InitPlan \<Rightarrow> GenerateOptions \<Rightarrow> Document res" where
  "BuildDocument plan opts =
     (case ip_selected_project plan of
        None \<Rightarrow> Fail (Errorf ''lazyops.yaml generation requires a selected project'')
      | Some project \<Rightarrow>
          if ip_runtime_mode plan = []
          then Fail (Errorf ''lazyops.yaml generation requires a selected runtime mode'')
          else (case ip_selected_binding plan of
             None \<Rightarrow> Fail (Errorf ''lazyops.yaml generation requires a selected deployment binding'')
           | Some binding \<Rightarrow>
               let d = plan_document plan (ps_slug project) (bs_target_ref binding) opts in
               (case ValidateDocument d of Inl e \<Rightarrow> Inl e | Inr _ \<Rightarrow> Ok d)))"

end
