(* ===== verification/LazyYamlText.thy ===== *)
theory LazyYamlText
  imports LazyYaml
begin

text \<open>
  The text of \<open>lazyops.yaml\<close>: \<open>Render\<close> (\<open>cli/internal/lazyyaml/generator.go\<close>), the security check on the
  raw text (\<open>write.go\<close>) and the line-based reader \<open>ParseDocument\<close> (\<open>document_read.go\<close>, with the scalars
  of \<open>metadata.go\<close>).
  The reader is a machine over the lines: its state is the document so far, the current section and
  subsection, and the service or dependency being read. The main result is the round trip: what
  \<open>Render\<close> writes, \<open>ParseDocument\<close> reads back.
\<close>

section \<open>Writing\<close>

definition isPlainYAMLScalar :: "string \<Rightarrow> bool" where
  "isPlainYAMLScalar v \<longleftrightarrow>
     \<not> list_ex (equal_fold v) [''true'', ''false'', ''null'', ''~''] \<and>
     \<not> (has_prefix v ''-'' \<or> has_prefix v ''{'' \<or> has_prefix v ''['') \<and>
     list_all (\<lambda>c. alnum c \<or> c = CHR ''.'' \<or> c = CHR ''_'' \<or> c = CHR ''-'' \<or> c = CHR ''/'') v"

definition quote :: char where "quote = CHR 0x27"

definition yamlScalar :: "string \<Rightarrow> string" where
  "yamlScalar v =
     (if v = [] then [quote, quote]
      else if isPlainYAMLScalar v then v
      else [quote] @ double_char quote v @ [quote])"

definition yaml_bool :: "bool \<Rightarrow> string" where
  "yaml_bool b = (if b then ''true'' else ''false'')"

definition yaml_line :: "nat \<Rightarrow> string \<Rightarrow> string" where
  "yaml_line indent s = concat (replicate indent ''  '') @ s"

definition key_line :: "nat \<Rightarrow> string \<Rightarrow> string \<Rightarrow> string" where
  "key_line indent key v = yaml_line indent (key @ '': '' @ v)"

definition service_lines :: "YamlService \<Rightarrow> string list" where
  "service_lines s =
     [key_line 1 ''- name'' (yamlScalar (ys_name s)), key_line 2 ''path'' (yamlScalar (ys_path s))] @
     (if \<not> blank (ys_start_hint s) then [key_line 2 ''start_hint'' (yamlScalar (ys_start_hint s))] else []) @
     (if ys_public s then [key_line 2 ''public'' ''true''] else []) @
     (let h = ys_healthcheck s in
      if \<not> blank (hc_path h) \<or> hc_port h > 0
      then [yaml_line 2 ''healthcheck:'', key_line 3 ''path'' (yamlScalar (hc_path h)),
            key_line 3 ''port'' (itoa (hc_port h))]
      else [])"

definition dependency_lines :: "YamlDependency \<Rightarrow> string list" where
  "dependency_lines b =
     [key_line 1 ''- service'' (yamlScalar (yd_service b)), key_line 2 ''alias'' (yamlScalar (yd_alias b)),
      key_line 2 ''target_service'' (yamlScalar (yd_target_service b)),
      key_line 2 ''protocol'' (yamlScalar (yd_protocol b))] @
     (if \<not> blank (yd_local_endpoint b) then [key_line 2 ''local_endpoint'' (yamlScalar (yd_local_endpoint b))] else [])"

definition document_lines :: "Document \<Rightarrow> string list" where
  "document_lines d =
     [key_line 0 ''project_slug'' (yamlScalar (dc_project_slug d)),
      key_line 0 ''runtime_mode'' (yamlScalar (dc_runtime_mode d)), [],
      yaml_line 0 ''deployment_binding:'', key_line 1 ''target_ref'' (yamlScalar (dc_target_ref d)), [],
      yaml_line 0 ''services:''] @
     concat (map service_lines (dc_services d)) @
     (if dc_dependencies d \<noteq> []
      then [[], yaml_line 0 ''dependency_bindings:''] @ concat (map dependency_lines (dc_dependencies d)) else []) @
     [[], yaml_line 0 ''compatibility_policy:'',
      key_line 1 ''env_injection'' (yaml_bool (cp_env_injection (dc_compatibility d))),
      key_line 1 ''managed_credentials'' (yaml_bool (cp_managed_credentials (dc_compatibility d))),
      key_line 1 ''localhost_rescue'' (yaml_bool (cp_localhost_rescue (dc_compatibility d))),
      [], yaml_line 0 ''magic_domain_policy:'',
      key_line 1 ''enabled'' (yaml_bool (md_enabled (dc_magic d))),
      key_line 1 ''provider'' (yamlScalar (md_provider (dc_magic d))),
      [], yaml_line 0 ''preview_policy:'', key_line 1 ''enabled'' (yaml_bool (dc_preview_enabled d)),
      [], yaml_line 0 ''scale_to_zero_policy:'', key_line 1 ''enabled'' (yaml_bool (sz_enabled (dc_scale d)))]"

definition Render :: "Document \<Rightarrow> string res" where
  "Render d = (case ValidateDocument d of Inl e \<Rightarrow> Inl e | Inr _ \<Rightarrow> Ok (unlines (document_lines d)))"

section \<open>The check on the raw text\<close>

definition forbiddenContentMarkers :: "string list" where
  "forbiddenContentMarkers =
    [''secret://'', ''-----begin private key-----'', ''-----begin rsa private key-----'',
     ''-----begin openssh private key-----'', ''ssh-rsa '', ''github_pat_'', ''ghp_'', ''glpat-'', ''bearer '']"

definition secret_fields :: "string list" where
  "secret_fields =
    [''ssh_key'', ''ssh'', ''private_key'', ''password'', ''pat'', ''token'', ''agent_token'', ''github_token'',
     ''secret'', ''kubeconfig'', ''public_ip'', ''private_ip'', ''server_ip'', ''project_id'',
     ''deployment_binding_id'', ''target_id'', ''target_kind'', ''instance_id'', ''mesh_network_id'',
     ''cluster_id'', ''deploy_command'']"

definition regex_space :: "char \<Rightarrow> bool" where
  "regex_space c \<longleftrightarrow> c \<in> {CHR 0x20, CHR 0x09, CHR 0x0A, CHR 0x0C, CHR 0x0D}"

text \<open>\<open>^\s*(name|...)\s*:\<close> at the beginning of a line, ignoring case.\<close>

definition secret_field_here :: "string \<Rightarrow> bool" where
  "secret_field_here s =
     (let r = dropWhile regex_space s in
      list_ex (\<lambda>k. has_prefix (to_lower r) k \<and>
        has_prefix (dropWhile regex_space (drop (length k) r)) '':'') secret_fields)"

fun secret_field_search :: "bool \<Rightarrow> string \<Rightarrow> bool" where
  "secret_field_search bol [] = False"
| "secret_field_search bol (c # s) = ((bol \<and> secret_field_here (c # s)) \<or> secret_field_search (c = CHR 0x0A) s)"

definition validatePayloadSecurity :: "string \<Rightarrow> unit res" where
  "validatePayloadSecurity s = all_ok
     [need (\<not> list_ex (\<lambda>m. str_contains (to_lower s) (to_lower m)) forbiddenContentMarkers)
        ''lazyops.yaml must not contain secrets, kubeconfig material, or raw credentials. next: verify the deploy contract stays logical and retry `lazyops init --write`'',
      need (\<not> secret_field_search True s)
        ''lazyops.yaml contains forbidden field names. next: remove SSH keys, passwords, tokens, IPs, or backend IDs from the deploy contract and retry `lazyops init --write`'',
      need (\<not> ipv4Pattern s)
        ''lazyops.yaml must not contain raw infrastructure IP addresses. next: use logical target references instead of server IPs and retry `lazyops init --write`'']"

section \<open>Scalars\<close>

definition parseMetadataScalar :: "string \<Rightarrow> string" where
  "parseMetadataScalar v =
     (let t = trim_space v in
      if length t \<ge> 2 \<and> ((hd t = quote \<and> last t = quote) \<or> (hd t = CHR 0x22 \<and> last t = CHR 0x22))
      then butlast (tl t) else t)"

definition parseMetadataBoolStrict :: "string \<Rightarrow> string \<Rightarrow> bool res" where
  "parseMetadataBoolStrict value field =
     (let n = to_lower (trim_space (parseMetadataScalar value)) in
      if n = ''true'' then Ok True else if n = ''false'' then Ok False
      else if field = [] then Ok False
      else Fail (Errorf (field @ '' must be true or false'')))"

definition parseMetadataBool :: "string \<Rightarrow> bool" where
  "parseMetadataBool value = (case parseMetadataBoolStrict value [] of Inl _ \<Rightarrow> False | Inr b \<Rightarrow> b)"

definition parseMetadataInt :: "string \<Rightarrow> string \<Rightarrow> int res" where
  "parseMetadataInt value field =
     (case atoi (trim_space (parseMetadataScalar value)) of
        None \<Rightarrow> Fail (Errorf (field @ '' must be a valid integer''))
      | Some i \<Rightarrow> Ok i)"

fun indent_width :: "nat \<Rightarrow> string \<Rightarrow> nat" where
  "indent_width w [] = w div 2"
| "indent_width w (c # s) =
     (if c = CHR '' '' then indent_width (w + 1) s
      else if c = CHR 0x09 then indent_width (w + 2) s
      else w div 2)"

definition countLeadingIndent :: "string \<Rightarrow> nat" where
  "countLeadingIndent line = indent_width 0 line"

text \<open>\<open>strings.HasPrefix(line, key)\<close>, and what follows the key.\<close>

definition after :: "string \<Rightarrow> string \<Rightarrow> string option" where
  "after key line = (if has_prefix line key then Some (drop (length key) line) else None)"

section \<open>Fields\<close>

definition parseServiceField :: "YamlService \<Rightarrow> string \<Rightarrow> YamlService" where
  "parseServiceField s line =
     (case after ''name:'' line of Some v \<Rightarrow> s\<lparr>ys_name := parseMetadataScalar v\<rparr>
      | None \<Rightarrow> (case after ''path:'' line of Some v \<Rightarrow> s\<lparr>ys_path := parseMetadataScalar v\<rparr>
      | None \<Rightarrow> (case after ''start_hint:'' line of Some v \<Rightarrow> s\<lparr>ys_start_hint := parseMetadataScalar v\<rparr>
      | None \<Rightarrow> (case after ''public:'' line of Some v \<Rightarrow> s\<lparr>ys_public := parseMetadataBool v\<rparr>
      | None \<Rightarrow> s))))"

definition parseHealthcheckField :: "Healthcheck \<Rightarrow> string \<Rightarrow> Healthcheck res" where
  "parseHealthcheckField h line =
     (case after ''path:'' line of Some v \<Rightarrow> Ok (h\<lparr>hc_path := parseMetadataScalar v\<rparr>)
      | None \<Rightarrow> (case after ''port:'' line of
          Some v \<Rightarrow> res_bind (parseMetadataInt v ''service.healthcheck.port'') (\<lambda>i. Ok (h\<lparr>hc_port := i\<rparr>))
        | None \<Rightarrow> Ok h))"

definition parseDependencyBindingField :: "YamlDependency \<Rightarrow> string \<Rightarrow> YamlDependency" where
  "parseDependencyBindingField b line =
     (case after ''service:'' line of Some v \<Rightarrow> b\<lparr>yd_service := parseMetadataScalar v\<rparr>
      | None \<Rightarrow> (case after ''alias:'' line of Some v \<Rightarrow> b\<lparr>yd_alias := parseMetadataScalar v\<rparr>
      | None \<Rightarrow> (case after ''target_service:'' line of Some v \<Rightarrow> b\<lparr>yd_target_service := parseMetadataScalar v\<rparr>
      | None \<Rightarrow> (case after ''protocol:'' line of Some v \<Rightarrow> b\<lparr>yd_protocol := parseMetadataScalar v\<rparr>
      | None \<Rightarrow> (case after ''local_endpoint:'' line of Some v \<Rightarrow> b\<lparr>yd_local_endpoint := parseMetadataScalar v\<rparr>
      | None \<Rightarrow> b)))))"

definition parseCompatibilityPolicyField :: "CompatibilityPolicy \<Rightarrow> string \<Rightarrow> CompatibilityPolicy res" where
  "parseCompatibilityPolicyField p line =
     (case after ''env_injection:'' line of
        Some v \<Rightarrow> res_bind (parseMetadataBoolStrict v ''compatibility_policy.env_injection'')
                    (\<lambda>b. Ok (p\<lparr>cp_env_injection := b\<rparr>))
      | None \<Rightarrow> (case after ''managed_credentials:'' line of
          Some v \<Rightarrow> res_bind (parseMetadataBoolStrict v ''compatibility_policy.managed_credentials'')
                      (\<lambda>b. Ok (p\<lparr>cp_managed_credentials := b\<rparr>))
        | None \<Rightarrow> (case after ''localhost_rescue:'' line of
            Some v \<Rightarrow> res_bind (parseMetadataBoolStrict v ''compatibility_policy.localhost_rescue'')
                        (\<lambda>b. Ok (p\<lparr>cp_localhost_rescue := b\<rparr>))
          | None \<Rightarrow> Ok p)))"

definition parseMagicDomainPolicyField :: "MagicDomainPolicy \<Rightarrow> string \<Rightarrow> MagicDomainPolicy res" where
  "parseMagicDomainPolicyField p line =
     (case after ''enabled:'' line of
        Some v \<Rightarrow> res_bind (parseMetadataBoolStrict v ''magic_domain_policy.enabled'') (\<lambda>b. Ok (p\<lparr>md_enabled := b\<rparr>))
      | None \<Rightarrow> (case after ''provider:'' line of
          Some v \<Rightarrow> Ok (p\<lparr>md_provider := parseMetadataScalar v\<rparr>)
        | None \<Rightarrow> Ok p))"

definition parsePreviewPolicyField :: "bool \<Rightarrow> string \<Rightarrow> bool res" where
  "parsePreviewPolicyField p line =
     (case after ''enabled:'' line of
        Some v \<Rightarrow> parseMetadataBoolStrict v ''preview_policy.enabled''
      | None \<Rightarrow> Ok p)"

definition parseScaleToZeroPolicyField :: "YamlScalePolicy \<Rightarrow> string \<Rightarrow> YamlScalePolicy res" where
  "parseScaleToZeroPolicyField p line =
     (case after ''enabled:'' line of
        Some v \<Rightarrow> res_bind (parseMetadataBoolStrict v ''scale_to_zero_policy.enabled'') (\<lambda>b. Ok (p\<lparr>sz_enabled := b\<rparr>))
      | None \<Rightarrow> Ok p)"

section \<open>The reader\<close>

record reader =
  rd_doc :: Document
  rd_section :: string
  rd_sub :: string
  rd_service :: "YamlService option"
  rd_dependency :: "YamlDependency option"

definition zero_service :: YamlService where
  "zero_service = \<lparr>ys_name = [], ys_path = [], ys_start_hint = [], ys_public = False,
     ys_healthcheck = \<lparr>hc_path = [], hc_port = 0\<rparr>\<rparr>"

definition zero_dependency :: YamlDependency where
  "zero_dependency = \<lparr>yd_service = [], yd_alias = [], yd_target_service = [], yd_protocol = [], yd_local_endpoint = []\<rparr>"

definition zero_document :: Document where
  "zero_document = \<lparr>dc_project_slug = [], dc_runtime_mode = [], dc_target_ref = [], dc_services = [],
     dc_dependencies = [],
     dc_compatibility = \<lparr>cp_env_injection = False, cp_managed_credentials = False, cp_localhost_rescue = False\<rparr>,
     dc_magic = \<lparr>md_enabled = False, md_provider = []\<rparr>, dc_preview_enabled = False,
     dc_scale = \<lparr>sz_enabled = False, sz_idle_window = [], sz_gateway_hold_timeout = []\<rparr>\<rparr>"

text \<open>The service or dependency being read goes into the document.\<close>

definition put_service :: "reader \<Rightarrow> reader" where
  "put_service r = (case rd_service r of None \<Rightarrow> r
     | Some s \<Rightarrow> r\<lparr>rd_doc := (rd_doc r)\<lparr>dc_services := dc_services (rd_doc r) @ [s]\<rparr>, rd_service := None\<rparr>)"

definition put_dependency :: "reader \<Rightarrow> reader" where
  "put_dependency r = (case rd_dependency r of None \<Rightarrow> r
     | Some b \<Rightarrow> r\<lparr>rd_doc := (rd_doc r)\<lparr>dc_dependencies := dc_dependencies (rd_doc r) @ [b]\<rparr>, rd_dependency := None\<rparr>)"

definition yaml_sections :: "string list" where
  "yaml_sections = [''deployment_binding'', ''services'', ''dependency_bindings'', ''compatibility_policy'',
     ''magic_domain_policy'', ''preview_policy'', ''scale_to_zero_policy'']"

definition top_line :: "reader \<Rightarrow> string \<Rightarrow> reader res" where
  "top_line r0 t =
     (let r = (put_dependency (put_service r0))\<lparr>rd_section := [], rd_sub := []\<rparr> in
      case after ''project_slug:'' t of
        Some v \<Rightarrow> Ok (r\<lparr>rd_doc := (rd_doc r)\<lparr>dc_project_slug := parseMetadataScalar v\<rparr>\<rparr>)
      | None \<Rightarrow> (case after ''runtime_mode:'' t of
          Some v \<Rightarrow> res_bind (ParseRuntimeMode (parseMetadataScalar v))
                      (\<lambda>m. Ok (r\<lparr>rd_doc := (rd_doc r)\<lparr>dc_runtime_mode := m\<rparr>\<rparr>))
        | None \<Rightarrow> (case List.find (\<lambda>s. t = s @ '':'') yaml_sections of
            Some s \<Rightarrow> Ok (r\<lparr>rd_section := s\<rparr>)
          | None \<Rightarrow> Ok r)))"

definition services_line :: "reader \<Rightarrow> nat \<Rightarrow> string \<Rightarrow> reader res" where
  "services_line r indent t =
     (if indent = 1 \<and> has_prefix t ''- ''
      then Ok ((put_service r)\<lparr>rd_service := Some (parseServiceField zero_service (trim_space (drop 2 t))), rd_sub := []\<rparr>)
      else case rd_service r of
        None \<Rightarrow> Ok r
      | Some s \<Rightarrow>
          if indent = 2 \<and> t = ''healthcheck:'' then Ok (r\<lparr>rd_sub := ''healthcheck''\<rparr>)
          else if indent = 2 then Ok (r\<lparr>rd_sub := [], rd_service := Some (parseServiceField s t)\<rparr>)
          else if indent = 3 \<and> rd_sub r = ''healthcheck''
          then res_bind (parseHealthcheckField (ys_healthcheck s) t)
                 (\<lambda>h. Ok (r\<lparr>rd_service := Some (s\<lparr>ys_healthcheck := h\<rparr>)\<rparr>))
          else Ok r)"

definition dependencies_line :: "reader \<Rightarrow> nat \<Rightarrow> string \<Rightarrow> reader res" where
  "dependencies_line r indent t =
     (if indent = 1 \<and> has_prefix t ''- ''
      then Ok ((put_dependency r)\<lparr>rd_dependency :=
             Some (parseDependencyBindingField zero_dependency (trim_space (drop 2 t)))\<rparr>)
      else case rd_dependency r of
        Some b \<Rightarrow> if indent = 2 then Ok (r\<lparr>rd_dependency := Some (parseDependencyBindingField b t)\<rparr>) else Ok r
      | None \<Rightarrow> Ok r)"

definition section_line :: "reader \<Rightarrow> nat \<Rightarrow> string \<Rightarrow> reader res" where
  "section_line r indent t =
     (let d = rd_doc r; sec = rd_section r in
      if sec = ''services'' then services_line r indent t
      else if sec = ''dependency_bindings'' then dependencies_line r indent t
      else if indent \<noteq> 1 then Ok r
      else if sec = ''deployment_binding'' then
        (case after ''target_ref:'' t of
           Some v \<Rightarrow> Ok (r\<lparr>rd_doc := d\<lparr>dc_target_ref := parseMetadataScalar v\<rparr>\<rparr>) | None \<Rightarrow> Ok r)
      else if sec = ''compatibility_policy'' then
        res_bind (parseCompatibilityPolicyField (dc_compatibility d) t)
          (\<lambda>p. Ok (r\<lparr>rd_doc := d\<lparr>dc_compatibility := p\<rparr>\<rparr>))
      else if sec = ''magic_domain_policy'' then
        res_bind (parseMagicDomainPolicyField (dc_magic d) t) (\<lambda>p. Ok (r\<lparr>rd_doc := d\<lparr>dc_magic := p\<rparr>\<rparr>))
      else if sec = ''preview_policy'' then
        res_bind (parsePreviewPolicyField (dc_preview_enabled d) t) (\<lambda>p. Ok (r\<lparr>rd_doc := d\<lparr>dc_preview_enabled := p\<rparr>\<rparr>))
      else if sec = ''scale_to_zero_policy'' then
        res_bind (parseScaleToZeroPolicyField (dc_scale d) t) (\<lambda>p. Ok (r\<lparr>rd_doc := d\<lparr>dc_scale := p\<rparr>\<rparr>))
      else Ok r)"

definition read_line :: "reader \<Rightarrow> string \<Rightarrow> reader res" where
  "read_line r raw =
     (let t = trim_space raw; indent = countLeadingIndent raw in
      if t = [] \<or> has_prefix t ''#'' then Ok r
      else if indent = 0 then top_line r t
      else section_line r indent t)"

fun read_lines :: "reader \<Rightarrow> string list \<Rightarrow> reader res" where
  "read_lines r [] = Ok r"
| "read_lines r (l # ls) =
     (if length l \<ge> MaxScanTokenSize
      then Fail (Wrapped ''read lazyops.yaml document'' (Errorf ''bufio.Scanner: token too long''))
      else res_bind (read_line r (drop_cr l)) (\<lambda>r'. read_lines r' ls))"

definition start_reader :: reader where
  "start_reader = \<lparr>rd_doc = zero_document, rd_section = [], rd_sub = [], rd_service = None, rd_dependency = None\<rparr>"

definition ParseDocument :: "string \<Rightarrow> Document res" where
  "ParseDocument payload =
     (case validatePayloadSecurity payload of
        Inl e \<Rightarrow> Inl e
      | Inr _ \<Rightarrow> res_bind (read_lines start_reader (raw_lines payload))
          (\<lambda>r. Ok (rd_doc (put_dependency (put_service r)))))"

section \<open>Lines that are read back\<close>

definition text_ok :: "string \<Rightarrow> bool" where
  "text_ok s \<longleftrightarrow> s \<noteq> [] \<and> \<not> is_space (hd s) \<and> \<not> is_space (last s) \<and> hd s \<noteq> CHR ''#''"

lemma trim_left_line: "trim_left (yaml_line n s) = trim_left s"
  by (induction n) (simp_all add: yaml_line_def trim_left_def is_space_def)

lemma trim_line: "text_ok s \<Longrightarrow> trim_space (yaml_line n s) = s"
  by (simp add: trim_space_def trim_left_line trim_left_id trim_right_id text_ok_def)

lemma indent_line: "text_ok s \<Longrightarrow> countLeadingIndent (yaml_line n s) = n"
proof -
  assume "text_ok s"
  then obtain c t where s: "s = c # t" "\<not> is_space c" by (cases s) (auto simp: text_ok_def)
  then have c: "c \<noteq> CHR '' ''" "c \<noteq> CHR 0x09" by (auto simp: is_space_def)
  have "indent_width w (concat (replicate n ''  '') @ c # t) = (w + 2 * n) div 2" for w
    using c by (induction n arbitrary: w) (simp_all add: algebra_simps)
  from this [of 0] show ?thesis by (simp add: countLeadingIndent_def yaml_line_def s)
qed

lemma last_line: "s \<noteq> [] \<Longrightarrow> last (yaml_line n s) = last s"
  by (simp add: yaml_line_def)

lemma drop_cr_line: "text_ok s \<Longrightarrow> drop_cr (yaml_line n s) = yaml_line n s"
  by (auto simp: drop_cr_def last_line text_ok_def is_space_def yaml_line_def)

lemma read_text_line:
  "text_ok s \<Longrightarrow> read_line r (drop_cr (yaml_line n s)) = (if n = 0 then top_line r s else section_line r n s)"
proof -
  assume s: "text_ok s"
  then have "s \<noteq> []" "\<not> has_prefix s ''#''" by (cases s; auto simp: text_ok_def has_prefix_iff)+
  with s show ?thesis by (simp add: read_line_def drop_cr_line trim_line indent_line Let_def)
qed

lemma read_blank_line: "read_line r (drop_cr []) = Ok r"
  by (simp add: read_line_def drop_cr_def)

subsection \<open>Scalars\<close>

definition scalar_ok :: "string \<Rightarrow> bool" where
  "scalar_ok v \<longleftrightarrow> quote \<notin> set v \<and> CHR 0x0A \<notin> set v"

definition end_ok :: "string \<Rightarrow> bool" where
  "end_ok x \<longleftrightarrow> x \<noteq> [] \<and> \<not> is_space (last x)"

lemma text_key: "text_ok (key @ '':'') \<Longrightarrow> end_ok x \<Longrightarrow> text_ok (key @ '': '' @ x)"
  by (cases key) (simp_all add: text_ok_def end_ok_def is_space_def)

lemma plain_char_no_space:
  "alnum c \<or> c = CHR ''.'' \<or> c = CHR ''_'' \<or> c = CHR ''-'' \<or> c = CHR ''/'' \<Longrightarrow>
     \<not> is_space c \<and> c \<noteq> quote \<and> c \<noteq> CHR 0x22 \<and> c \<noteq> CHR 0x0A"
proof -
  have "\<forall>c \<in> {CHR 0x20, CHR 0x09, CHR 0x0A, CHR 0x0B, CHR 0x0C, CHR 0x0D, CHR 0x27, CHR 0x22}.
      \<not> (alnum c \<or> c = CHR ''.'' \<or> c = CHR ''_'' \<or> c = CHR ''-'' \<or> c = CHR ''/'')" by code_simp
  then show "alnum c \<or> c = CHR ''.'' \<or> c = CHR ''_'' \<or> c = CHR ''-'' \<or> c = CHR ''/'' \<Longrightarrow> ?thesis"
    unfolding is_space_def quote_def by blast
qed

lemma plain_chars:
  assumes "isPlainYAMLScalar v" and "c \<in> set v"
  shows "\<not> is_space c \<and> c \<noteq> quote \<and> c \<noteq> CHR 0x22 \<and> c \<noteq> CHR 0x0A"
  using assms plain_char_no_space unfolding isPlainYAMLScalar_def list_all_iff by blast

lemma end_ok_scalar [simp]: "end_ok (yamlScalar v)"
proof (cases "v \<noteq> [] \<and> isPlainYAMLScalar v")
  case True
  then show ?thesis using plain_chars [of v "last v"] by (simp add: end_ok_def yamlScalar_def)
next
  case False
  then show ?thesis by (auto simp: end_ok_def yamlScalar_def is_space_def quote_def)
qed

lemma scalar_no_newline: "CHR 0x0A \<notin> set v \<Longrightarrow> CHR 0x0A \<notin> set (yamlScalar v)"
  by (auto simp: yamlScalar_def double_char_def quote_def)

lemma parse_scalar: "scalar_ok v \<Longrightarrow> parseMetadataScalar (CHR '' '' # yamlScalar v) = v"
proof -
  assume v: "scalar_ok v"
  have sp: "trim_space (CHR '' '' # s) = trim_space s" for s
    by (simp add: trim_space_def trim_left_def is_space_def)
  consider "v = []" | "v \<noteq> []" "isPlainYAMLScalar v" | "v \<noteq> []" "\<not> isPlainYAMLScalar v" by blast
  then show ?thesis
  proof cases
    case 1
    then show ?thesis
      by (simp add: parseMetadataScalar_def yamlScalar_def sp trim_space_def trim_left_def trim_right_def
          is_space_def quote_def)
  next
    case 2
    have *: "\<not> is_space (hd v) \<and> hd v \<noteq> quote \<and> hd v \<noteq> CHR 0x22"
      "\<not> is_space (last v)" using 2 plain_chars [of v "hd v"] plain_chars [of v "last v"] by simp_all
    then have "trim_space v = v" using 2 by (simp add: trim_space_def trim_left_id trim_right_id)
    with 2 * show ?thesis by (simp add: parseMetadataScalar_def yamlScalar_def sp)
  next
    case 3
    let ?q = "[quote] @ v @ [quote]"
    have "yamlScalar v = ?q" using 3 v by (simp add: yamlScalar_def double_char_id scalar_ok_def)
    moreover have "trim_space ?q = ?q"
      by (simp add: trim_space_def trim_left_id trim_right_id is_space_def quote_def)
    moreover have "2 \<le> length ?q" "hd ?q = quote" "last ?q = quote" "butlast (tl ?q) = v" by simp_all
    ultimately show ?thesis unfolding parseMetadataScalar_def sp by (simp add: Let_def)
  qed
qed

lemma end_ok_bool [simp]: "end_ok (yaml_bool b)"
  by (simp add: end_ok_def yaml_bool_def is_space_def)

lemma parse_bool: "parseMetadataBoolStrict (CHR '' '' # yaml_bool b) field = Ok b"
  by (cases b) (simp_all add: parseMetadataBoolStrict_def parseMetadataScalar_def yaml_bool_def trim_space_def
      trim_left_def trim_right_def is_space_def quote_def to_lower_def lower_char_def)

lemma digit_no_space: "is_digit c \<Longrightarrow> \<not> is_space c \<and> c \<noteq> quote \<and> c \<noteq> CHR 0x22 \<and> c \<noteq> CHR 0x0A"
  using plain_char_no_space [of c] by (simp add: alnum_def slug_char_def)

lemma itoa_digits: "0 \<le> i \<Longrightarrow> itoa i \<noteq> [] \<and> (\<forall>c \<in> set (itoa i). is_digit c)"
  using digits_of_digits by (simp add: itoa_def)

lemma end_ok_itoa: "0 \<le> i \<Longrightarrow> end_ok (itoa i)"
  using itoa_digits [of i] digit_no_space by (simp add: end_ok_def)

lemma parse_int: "0 \<le> i \<Longrightarrow> i < 2 ^ 63 \<Longrightarrow> parseMetadataInt (CHR '' '' # itoa i) field = Ok i"
proof -
  assume i: "0 \<le> i" "i < 2 ^ 63"
  note d = itoa_digits [OF i(1)]
  have sp: "trim_space (CHR '' '' # s) = trim_space s" for s
    by (simp add: trim_space_def trim_left_def is_space_def)
  have ends: "hd (itoa i) \<in> set (itoa i)" "last (itoa i) \<in> set (itoa i)" using d by auto
  then have e: "\<not> is_space (hd (itoa i))" "\<not> is_space (last (itoa i))" "hd (itoa i) \<noteq> quote" "hd (itoa i) \<noteq> CHR 0x22"
    using d digit_no_space by blast+
  then have "trim_space (itoa i) = itoa i" using d by (simp add: trim_space_def trim_left_id trim_right_id)
  with e have "parseMetadataScalar (CHR '' '' # itoa i) = itoa i" by (simp add: parseMetadataScalar_def sp)
  with \<open>trim_space (itoa i) = itoa i\<close> show ?thesis using atoi_itoa [OF i] by (simp add: parseMetadataInt_def)
qed

lemma public_true: "parseMetadataBool '' true''"
  using parse_bool [of True "[]"] by (simp add: parseMetadataBool_def yaml_bool_def)

subsection \<open>Blocks of lines\<close>

definition short_lines :: "string list \<Rightarrow> bool" where
  "short_lines ls \<longleftrightarrow> (\<forall>l \<in> set ls. length l < MaxScanTokenSize)"

lemma short_lines_simps [simp]:
  "short_lines []" "short_lines (l # ls) \<longleftrightarrow> length l < MaxScanTokenSize \<and> short_lines ls"
  "short_lines (xs @ ys) \<longleftrightarrow> short_lines xs \<and> short_lines ys"
  by (auto simp: short_lines_def)

lemma read_lines_append: "read_lines r (xs @ ys) = res_bind (read_lines r xs) (\<lambda>r. read_lines r ys)"
proof (induction xs arbitrary: r)
  case (Cons x xs)
  then show ?case by (cases "read_line r (drop_cr x)") simp_all
qed simp

declare read_lines.simps(2) [simp del]

definition take_line :: "reader \<Rightarrow> nat \<Rightarrow> string \<Rightarrow> reader res" where
  "take_line r n s = (if n = 0 then top_line r s else section_line r n s)"

lemma read_step:
  assumes "take_line r n s = Ok r'" and "text_ok s" and "length (yaml_line n s) < MaxScanTokenSize"
  shows "read_lines r (yaml_line n s # ls) = read_lines r' ls"
  using assms by (simp add: read_lines.simps(2) read_text_line take_line_def)

lemma key_step:
  assumes "take_line r n (key @ '': '' @ x) = Ok r'" and "length (key_line n key x) < MaxScanTokenSize"
    and "text_ok (key @ '':'')" and "end_ok x"
  shows "read_lines r (key_line n key x # ls) = read_lines r' ls"
  using assms unfolding key_line_def by (intro read_step text_key)

lemma blank_step: "read_lines r ([] # ls) = read_lines r ls"
  by (simp add: read_lines.simps(2) read_blank_line MaxScanTokenSize_def)

lemma trim_item: "end_ok x \<Longrightarrow> k \<noteq> [] \<Longrightarrow> \<not> is_space (hd k) \<Longrightarrow> trim_space (k @ x) = k @ x"
  by (simp add: trim_space_def trim_left_id trim_right_id end_ok_def)

lemmas line_defs = take_line_def section_line_def services_line_def dependencies_line_def after_def Let_def

subsubsection \<open>Services\<close>

definition health_ok :: "Healthcheck \<Rightarrow> bool" where
  "health_ok h \<longleftrightarrow> scalar_ok (hc_path h) \<and> 0 \<le> hc_port h \<and> hc_port h < 2 ^ 63 \<and>
     (blank (hc_path h) \<and> hc_port h \<le> 0 \<longrightarrow> h = \<lparr>hc_path = [], hc_port = 0\<rparr>)"

definition service_ok :: "YamlService \<Rightarrow> bool" where
  "service_ok s \<longleftrightarrow> scalar_ok (ys_name s) \<and> scalar_ok (ys_path s) \<and> scalar_ok (ys_start_hint s) \<and>
     (blank (ys_start_hint s) \<longrightarrow> ys_start_hint s = []) \<and> health_ok (ys_healthcheck s)"

text \<open>The reader while it reads a service.\<close>

definition in_service :: "Document \<Rightarrow> string \<Rightarrow> YamlService \<Rightarrow> reader" where
  "in_service d sub s = \<lparr>rd_doc = d, rd_section = ''services'', rd_sub = sub, rd_service = Some s, rd_dependency = None\<rparr>"

definition before_services :: "Document \<Rightarrow> reader" where
  "before_services d = \<lparr>rd_doc = d, rd_section = ''services'', rd_sub = [], rd_service = None, rd_dependency = None\<rparr>"

lemma service_head:
  assumes "scalar_ok v"
  shows "take_line (before_services d) 1 (''- name'' @ '': '' @ yamlScalar v) = Ok (in_service d [] (zero_service\<lparr>ys_name := v\<rparr>))"
    and "take_line (in_service d sub s) 1 (''- name'' @ '': '' @ yamlScalar v) =
      Ok (in_service (d\<lparr>dc_services := dc_services d @ [s]\<rparr>) [] (zero_service\<lparr>ys_name := v\<rparr>))"
  using parse_scalar [OF assms] trim_item [of "yamlScalar v" "''name: ''"]
  by (simp_all add: line_defs in_service_def before_services_def put_service_def parseServiceField_def is_space_def)

lemma service_fields:
  "scalar_ok v \<Longrightarrow> take_line (in_service d sub s) 2 (''path'' @ '': '' @ yamlScalar v) = Ok (in_service d [] (s\<lparr>ys_path := v\<rparr>))"
  "scalar_ok v \<Longrightarrow> take_line (in_service d sub s) 2 (''start_hint'' @ '': '' @ yamlScalar v) = Ok (in_service d [] (s\<lparr>ys_start_hint := v\<rparr>))"
  "take_line (in_service d sub s) 2 (''public'' @ '': '' @ ''true'') = Ok (in_service d [] (s\<lparr>ys_public := True\<rparr>))"
  "take_line (in_service d sub s) 2 ''healthcheck:'' = Ok (in_service d ''healthcheck'' s)"
  "scalar_ok v \<Longrightarrow> take_line (in_service d ''healthcheck'' s) 3 (''path'' @ '': '' @ yamlScalar v) =
     Ok (in_service d ''healthcheck'' (s\<lparr>ys_healthcheck := (ys_healthcheck s)\<lparr>hc_path := v\<rparr>\<rparr>))"
  "0 \<le> i \<Longrightarrow> i < 2 ^ 63 \<Longrightarrow> take_line (in_service d ''healthcheck'' s) 3 (''port'' @ '': '' @ itoa i) =
     Ok (in_service d ''healthcheck'' (s\<lparr>ys_healthcheck := (ys_healthcheck s)\<lparr>hc_port := i\<rparr>\<rparr>))"
  using parse_scalar [of v] public_true parse_int [of i]
  by (simp_all add: line_defs in_service_def parseServiceField_def parseHealthcheckField_def)

lemma end_ok_true: "end_ok ''true''"
  by (simp add: end_ok_def is_space_def)

lemma read_hint:
  assumes "short_lines ls1" and "ls1 = (if \<not> blank h then [key_line 2 ''start_hint'' (yamlScalar h)] else [])"
    and "scalar_ok h" and "blank h \<longrightarrow> h = []" and "ys_start_hint s = []"
  shows "read_lines (in_service d [] s) (ls1 @ ls) = read_lines (in_service d [] (s\<lparr>ys_start_hint := h\<rparr>)) ls"
proof (cases "blank h")
  case True
  with assms have same: "s\<lparr>ys_start_hint := h\<rparr> = s" by (cases s) simp
  show ?thesis unfolding same using True assms by simp
next
  case False
  have "read_lines (in_service d [] s) (key_line 2 ''start_hint'' (yamlScalar h) # ls) =
      read_lines (in_service d [] (s\<lparr>ys_start_hint := h\<rparr>)) ls"
    by (rule key_step [OF service_fields(2)])
      (use False assms in \<open>simp_all add: text_ok_def is_space_def\<close>)
  with False assms show ?thesis by simp
qed

lemma read_public:
  assumes "short_lines ls1" and "ls1 = (if b then [key_line 2 ''public'' ''true''] else [])" and "\<not> ys_public s"
  shows "read_lines (in_service d [] s) (ls1 @ ls) = read_lines (in_service d [] (s\<lparr>ys_public := b\<rparr>)) ls"
proof (cases b)
  case False
  with assms have same: "s\<lparr>ys_public := b\<rparr> = s" by (cases s) simp
  show ?thesis unfolding same using False assms by simp
next
  case True
  have "read_lines (in_service d [] s) (key_line 2 ''public'' ''true'' # ls) =
      read_lines (in_service d [] (s\<lparr>ys_public := True\<rparr>)) ls"
    by (rule key_step [OF service_fields(3)])
      (use True assms end_ok_true in \<open>simp_all add: text_ok_def is_space_def\<close>)
  with True assms show ?thesis by simp
qed

lemma read_health:
  assumes "short_lines ls1" and "health_ok h" and "ys_healthcheck s = \<lparr>hc_path = [], hc_port = 0\<rparr>"
    and "ls1 = (if \<not> blank (hc_path h) \<or> hc_port h > 0
      then [yaml_line 2 ''healthcheck:'', key_line 3 ''path'' (yamlScalar (hc_path h)), key_line 3 ''port'' (itoa (hc_port h))]
      else [])"
  shows "\<exists>sub. read_lines (in_service d [] s) (ls1 @ ls) = read_lines (in_service d sub (s\<lparr>ys_healthcheck := h\<rparr>)) ls"
proof (cases "\<not> blank (hc_path h) \<or> hc_port h > 0")
  case False
  with assms have same: "s\<lparr>ys_healthcheck := h\<rparr> = s" by (cases s) (simp add: health_ok_def)
  show ?thesis unfolding same using False assms by (intro exI [of _ "[]"]) simp
next
  case True
  then have ls1: "ls1 = [yaml_line 2 ''healthcheck:'', key_line 3 ''path'' (yamlScalar (hc_path h)),
      key_line 3 ''port'' (itoa (hc_port h))]" using assms(4) by simp
  let ?s1 = "s\<lparr>ys_healthcheck := (ys_healthcheck s)\<lparr>hc_path := hc_path h\<rparr>\<rparr>"
  let ?s2 = "?s1\<lparr>ys_healthcheck := (ys_healthcheck ?s1)\<lparr>hc_port := hc_port h\<rparr>\<rparr>"
  note short = assms(1) [unfolded ls1 short_lines_simps]
  have h: "scalar_ok (hc_path h)" "0 \<le> hc_port h" "hc_port h < 2 ^ 63" using assms(2) by (simp_all add: health_ok_def)
  have "read_lines (in_service d [] s) (ls1 @ ls) =
      read_lines (in_service d ''healthcheck'' s)
        (key_line 3 ''path'' (yamlScalar (hc_path h)) # key_line 3 ''port'' (itoa (hc_port h)) # ls)"
    unfolding ls1 append.simps by (rule read_step [OF service_fields(4)]) (use short in \<open>simp_all add: text_ok_def is_space_def\<close>)
  also have "\<dots> = read_lines (in_service d ''healthcheck'' ?s1) (key_line 3 ''port'' (itoa (hc_port h)) # ls)"
    by (rule key_step [OF service_fields(5) [OF h(1)]]) (use short in \<open>simp_all add: text_ok_def is_space_def\<close>)
  also have "\<dots> = read_lines (in_service d ''healthcheck'' ?s2) ls"
    by (rule key_step [OF service_fields(6) [OF h(2,3)]])
      (use short end_ok_itoa [OF h(2)] in \<open>simp_all add: text_ok_def is_space_def\<close>)
  also have "?s2 = s\<lparr>ys_healthcheck := h\<rparr>" by (cases s; cases h) simp
  finally show ?thesis by blast
qed

lemma read_service_rest:
  assumes "service_ok s" and "short_lines (service_lines s)"
  shows "\<exists>sub. read_lines (in_service d [] (zero_service\<lparr>ys_name := ys_name s\<rparr>)) (tl (service_lines s) @ ls) =
     read_lines (in_service d sub s) ls"
proof -
  obtain n p sh pub h where s: "s = \<lparr>ys_name = n, ys_path = p, ys_start_hint = sh, ys_public = pub, ys_healthcheck = h\<rparr>"
    by (cases s)
  have ok: "scalar_ok p" "scalar_ok sh" "blank sh \<longrightarrow> sh = []" "health_ok h"
    using assms(1) by (simp_all add: service_ok_def s)
  define h1 where "h1 = (if \<not> blank sh then [key_line 2 ''start_hint'' (yamlScalar sh)] else [])"
  define h2 where "h2 = (if pub then [key_line 2 ''public'' ''true''] else [])"
  define h3 where "h3 = (if \<not> blank (hc_path h) \<or> hc_port h > 0
      then [yaml_line 2 ''healthcheck:'', key_line 3 ''path'' (yamlScalar (hc_path h)), key_line 3 ''port'' (itoa (hc_port h))]
      else [])"
  have lines: "service_lines s = key_line 1 ''- name'' (yamlScalar n) # key_line 2 ''path'' (yamlScalar p) # h1 @ h2 @ h3"
    by (simp add: service_lines_def s h1_def h2_def h3_def Let_def)
  note short = assms(2) [unfolded lines short_lines_simps]
  let ?z = "zero_service\<lparr>ys_name := n\<rparr>"
  have "read_lines (in_service d [] ?z) (tl (service_lines s) @ ls) =
      read_lines (in_service d [] (?z\<lparr>ys_path := p\<rparr>)) (h1 @ h2 @ h3 @ ls)"
    unfolding lines list.sel append.simps append_assoc
    by (rule key_step [OF service_fields(1) [OF ok(1)]]) (use short in \<open>simp_all add: text_ok_def is_space_def\<close>)
  also have "\<dots> = read_lines (in_service d [] (?z\<lparr>ys_path := p, ys_start_hint := sh\<rparr>)) (h2 @ h3 @ ls)"
    by (rule read_hint [OF _ h1_def ok(2,3)]) (use short in \<open>simp_all add: zero_service_def\<close>)
  also have "\<dots> = read_lines (in_service d [] (?z\<lparr>ys_path := p, ys_start_hint := sh, ys_public := pub\<rparr>)) (h3 @ ls)"
    by (rule read_public [OF _ h2_def]) (use short in \<open>simp_all add: zero_service_def\<close>)
  finally have 1: "read_lines (in_service d [] ?z) (tl (service_lines s) @ ls) =
      read_lines (in_service d [] (?z\<lparr>ys_path := p, ys_start_hint := sh, ys_public := pub\<rparr>)) (h3 @ ls)" .
  have "\<exists>sub. read_lines (in_service d [] (?z\<lparr>ys_path := p, ys_start_hint := sh, ys_public := pub\<rparr>)) (h3 @ ls) =
      read_lines (in_service d sub (?z\<lparr>ys_path := p, ys_start_hint := sh, ys_public := pub, ys_healthcheck := h\<rparr>)) ls"
    by (rule read_health [OF _ ok(4) _ h3_def]) (use short in \<open>simp_all add: zero_service_def\<close>)
  moreover have "ys_name s = n" "?z\<lparr>ys_path := p, ys_start_hint := sh, ys_public := pub, ys_healthcheck := h\<rparr> = s"
    by (simp_all add: s zero_service_def)
  ultimately show ?thesis by (metis 1)
qed

lemma service_lines_head: "service_lines s = key_line 1 ''- name'' (yamlScalar (ys_name s)) # tl (service_lines s)"
  by (simp add: service_lines_def)

lemma read_service:
  assumes "service_ok s" and "short_lines (service_lines s)"
  shows "\<exists>sub. read_lines (before_services d) (service_lines s @ ls) = read_lines (in_service d sub s) ls"
    and "\<exists>sub. read_lines (in_service d sub0 s0) (service_lines s @ ls) =
      read_lines (in_service (d\<lparr>dc_services := dc_services d @ [s0]\<rparr>) sub s) ls"
proof -
  have len: "length (key_line 1 ''- name'' (yamlScalar (ys_name s))) < MaxScanTokenSize"
    using assms(2) by (subst (asm) service_lines_head) simp
  have name: "scalar_ok (ys_name s)" using assms(1) by (simp add: service_ok_def)
  have tx: "text_ok (''- name'' @ '':'')" by (simp add: text_ok_def is_space_def)
  show "\<exists>sub. read_lines (before_services d) (service_lines s @ ls) = read_lines (in_service d sub s) ls"
    using key_step [OF service_head(1) [OF name] len tx end_ok_scalar] read_service_rest [OF assms, of d ls]
    by (metis append_Cons service_lines_head)
  show "\<exists>sub. read_lines (in_service d sub0 s0) (service_lines s @ ls) =
      read_lines (in_service (d\<lparr>dc_services := dc_services d @ [s0]\<rparr>) sub s) ls"
    using key_step [OF service_head(2) [OF name] len tx end_ok_scalar]
      read_service_rest [OF assms, of "d\<lparr>dc_services := dc_services d @ [s0]\<rparr>" ls]
    by (metis append_Cons service_lines_head)
qed

lemma read_more_services:
  "\<forall>s \<in> set ss. service_ok s \<Longrightarrow> short_lines (concat (map service_lines ss)) \<Longrightarrow>
   \<exists>sub. read_lines (in_service d sub0 s0) (concat (map service_lines ss) @ ls) =
     read_lines (in_service (d\<lparr>dc_services := dc_services d @ butlast (s0 # ss)\<rparr>) sub (last (s0 # ss))) ls"
proof (induction ss arbitrary: d sub0 s0)
  case Nil
  have "d\<lparr>dc_services := dc_services d @ []\<rparr> = d" by simp
  then show ?case by auto
next
  case (Cons s ss)
  obtain sub where 1: "read_lines (in_service d sub0 s0) (service_lines s @ concat (map service_lines ss) @ ls) =
      read_lines (in_service (d\<lparr>dc_services := dc_services d @ [s0]\<rparr>) sub s) (concat (map service_lines ss) @ ls)"
    using read_service(2) Cons.prems by (metis concat.simps(2) list.set_intros(1) list.simps(9) short_lines_simps(3))
  show ?case using Cons.IH [of "d\<lparr>dc_services := dc_services d @ [s0]\<rparr>" sub s] Cons.prems 1 by auto
qed

lemma read_services:
  assumes "ss \<noteq> []" and "\<forall>s \<in> set ss. service_ok s" and "short_lines (concat (map service_lines ss))"
    and "dc_services d = []"
  shows "\<exists>sub. read_lines (before_services d) (concat (map service_lines ss) @ ls) =
     read_lines (in_service (d\<lparr>dc_services := butlast ss\<rparr>) sub (last ss)) ls"
proof -
  obtain s ss' where ss: "ss = s # ss'" using assms(1) by (cases ss) auto
  obtain sub where "read_lines (before_services d) (service_lines s @ concat (map service_lines ss') @ ls) =
      read_lines (in_service d sub s) (concat (map service_lines ss') @ ls)"
    using read_service(1) assms ss by (metis concat.simps(2) list.set_intros(1) list.simps(9) short_lines_simps(3))
  then show ?thesis using read_more_services [of ss' d sub s ls] assms by (auto simp: ss)
qed

subsubsection \<open>Dependencies\<close>

definition dependency_ok :: "YamlDependency \<Rightarrow> bool" where
  "dependency_ok b \<longleftrightarrow> scalar_ok (yd_service b) \<and> scalar_ok (yd_alias b) \<and> scalar_ok (yd_target_service b) \<and>
     scalar_ok (yd_protocol b) \<and> scalar_ok (yd_local_endpoint b) \<and>
     (blank (yd_local_endpoint b) \<longrightarrow> yd_local_endpoint b = [])"

definition at_section :: "Document \<Rightarrow> string \<Rightarrow> reader" where
  "at_section d sec = \<lparr>rd_doc = d, rd_section = sec, rd_sub = [], rd_service = None, rd_dependency = None\<rparr>"

definition in_dependency :: "Document \<Rightarrow> YamlDependency \<Rightarrow> reader" where
  "in_dependency d b =
     \<lparr>rd_doc = d, rd_section = ''dependency_bindings'', rd_sub = [], rd_service = None, rd_dependency = Some b\<rparr>"

lemma dependency_head:
  assumes "scalar_ok v"
  shows "take_line (at_section d ''dependency_bindings'') 1 (''- service'' @ '': '' @ yamlScalar v) =
      Ok (in_dependency d (zero_dependency\<lparr>yd_service := v\<rparr>))"
    and "take_line (in_dependency d b) 1 (''- service'' @ '': '' @ yamlScalar v) =
      Ok (in_dependency (d\<lparr>dc_dependencies := dc_dependencies d @ [b]\<rparr>) (zero_dependency\<lparr>yd_service := v\<rparr>))"
  using parse_scalar [OF assms] trim_item [of "yamlScalar v" "''service: ''"]
  by (simp_all add: line_defs in_dependency_def at_section_def put_dependency_def parseDependencyBindingField_def
      is_space_def)

lemma dependency_fields:
  assumes "scalar_ok v"
  shows "take_line (in_dependency d b) 2 (''alias'' @ '': '' @ yamlScalar v) = Ok (in_dependency d (b\<lparr>yd_alias := v\<rparr>))"
    and "take_line (in_dependency d b) 2 (''target_service'' @ '': '' @ yamlScalar v) =
      Ok (in_dependency d (b\<lparr>yd_target_service := v\<rparr>))"
    and "take_line (in_dependency d b) 2 (''protocol'' @ '': '' @ yamlScalar v) = Ok (in_dependency d (b\<lparr>yd_protocol := v\<rparr>))"
    and "take_line (in_dependency d b) 2 (''local_endpoint'' @ '': '' @ yamlScalar v) =
      Ok (in_dependency d (b\<lparr>yd_local_endpoint := v\<rparr>))"
  using parse_scalar [OF assms] by (simp_all add: line_defs in_dependency_def parseDependencyBindingField_def)

lemma dependency_lines_head:
  "dependency_lines b = key_line 1 ''- service'' (yamlScalar (yd_service b)) # tl (dependency_lines b)"
  by (simp add: dependency_lines_def)

lemma read_endpoint:
  assumes "short_lines ls1" and "scalar_ok e" and "blank e \<longrightarrow> e = []" and "yd_local_endpoint b = []"
    and "ls1 = (if \<not> blank e then [key_line 2 ''local_endpoint'' (yamlScalar e)] else [])"
  shows "read_lines (in_dependency d b) (ls1 @ ls) = read_lines (in_dependency d (b\<lparr>yd_local_endpoint := e\<rparr>)) ls"
proof (cases "blank e")
  case True
  with assms have same: "b\<lparr>yd_local_endpoint := e\<rparr> = b" by (cases b) simp
  show ?thesis unfolding same using True assms by simp
next
  case False
  have "read_lines (in_dependency d b) (key_line 2 ''local_endpoint'' (yamlScalar e) # ls) =
      read_lines (in_dependency d (b\<lparr>yd_local_endpoint := e\<rparr>)) ls"
    by (rule key_step [OF dependency_fields(4)]) (use False assms in \<open>simp_all add: text_ok_def is_space_def\<close>)
  with False assms show ?thesis by simp
qed

lemma read_dependency_rest:
  assumes "dependency_ok b" and "short_lines (dependency_lines b)"
  shows "read_lines (in_dependency d (zero_dependency\<lparr>yd_service := yd_service b\<rparr>)) (tl (dependency_lines b) @ ls) =
     read_lines (in_dependency d b) ls"
proof -
  obtain sv al ts pr e where b: "b = \<lparr>yd_service = sv, yd_alias = al, yd_target_service = ts, yd_protocol = pr, yd_local_endpoint = e\<rparr>"
    by (cases b)
  have ok: "scalar_ok al" "scalar_ok ts" "scalar_ok pr" "scalar_ok e" "blank e \<longrightarrow> e = []"
    using assms(1) by (simp_all add: dependency_ok_def b)
  define h1 where "h1 = (if \<not> blank e then [key_line 2 ''local_endpoint'' (yamlScalar e)] else [])"
  have lines: "dependency_lines b = key_line 1 ''- service'' (yamlScalar sv) # key_line 2 ''alias'' (yamlScalar al) #
      key_line 2 ''target_service'' (yamlScalar ts) # key_line 2 ''protocol'' (yamlScalar pr) # h1"
    by (simp add: dependency_lines_def b h1_def)
  note short = assms(2) [unfolded lines short_lines_simps]
  let ?z = "zero_dependency\<lparr>yd_service := sv\<rparr>"
  have "read_lines (in_dependency d ?z) (tl (dependency_lines b) @ ls) = read_lines (in_dependency d (?z\<lparr>yd_alias := al\<rparr>))
      (key_line 2 ''target_service'' (yamlScalar ts) # key_line 2 ''protocol'' (yamlScalar pr) # h1 @ ls)"
    unfolding lines list.sel append.simps
    by (rule key_step [OF dependency_fields(1) [OF ok(1)]]) (use short in \<open>simp_all add: text_ok_def is_space_def\<close>)
  also have "\<dots> = read_lines (in_dependency d (?z\<lparr>yd_alias := al, yd_target_service := ts\<rparr>))
      (key_line 2 ''protocol'' (yamlScalar pr) # h1 @ ls)"
    by (rule key_step [OF dependency_fields(2) [OF ok(2)]]) (use short in \<open>simp_all add: text_ok_def is_space_def\<close>)
  also have "\<dots> = read_lines (in_dependency d (?z\<lparr>yd_alias := al, yd_target_service := ts, yd_protocol := pr\<rparr>)) (h1 @ ls)"
    by (rule key_step [OF dependency_fields(3) [OF ok(3)]]) (use short in \<open>simp_all add: text_ok_def is_space_def\<close>)
  also have "\<dots> = read_lines (in_dependency d
      (?z\<lparr>yd_alias := al, yd_target_service := ts, yd_protocol := pr, yd_local_endpoint := e\<rparr>)) ls"
    by (rule read_endpoint [OF _ ok(4,5) _ h1_def]) (use short in \<open>simp_all add: zero_dependency_def\<close>)
  finally show ?thesis by (simp add: b zero_dependency_def)
qed

lemma read_dependency:
  assumes "dependency_ok b" and "short_lines (dependency_lines b)"
  shows "read_lines (at_section d ''dependency_bindings'') (dependency_lines b @ ls) = read_lines (in_dependency d b) ls"
    and "read_lines (in_dependency d b0) (dependency_lines b @ ls) =
      read_lines (in_dependency (d\<lparr>dc_dependencies := dc_dependencies d @ [b0]\<rparr>) b) ls"
proof -
  have len: "length (key_line 1 ''- service'' (yamlScalar (yd_service b))) < MaxScanTokenSize"
    using assms(2) by (subst (asm) dependency_lines_head) simp
  have svc: "scalar_ok (yd_service b)" using assms(1) by (simp add: dependency_ok_def)
  have tx: "text_ok (''- service'' @ '':'')" by (simp add: text_ok_def is_space_def)
  show "read_lines (at_section d ''dependency_bindings'') (dependency_lines b @ ls) = read_lines (in_dependency d b) ls"
    using key_step [OF dependency_head(1) [OF svc] len tx end_ok_scalar] read_dependency_rest [OF assms, of d ls]
    by (metis append_Cons dependency_lines_head)
  show "read_lines (in_dependency d b0) (dependency_lines b @ ls) =
      read_lines (in_dependency (d\<lparr>dc_dependencies := dc_dependencies d @ [b0]\<rparr>) b) ls"
    using key_step [OF dependency_head(2) [OF svc] len tx end_ok_scalar]
      read_dependency_rest [OF assms, of "d\<lparr>dc_dependencies := dc_dependencies d @ [b0]\<rparr>" ls]
    by (metis append_Cons dependency_lines_head)
qed

lemma read_more_dependencies:
  "\<forall>b \<in> set bs. dependency_ok b \<Longrightarrow> short_lines (concat (map dependency_lines bs)) \<Longrightarrow>
   read_lines (in_dependency d b0) (concat (map dependency_lines bs) @ ls) =
     read_lines (in_dependency (d\<lparr>dc_dependencies := dc_dependencies d @ butlast (b0 # bs)\<rparr>) (last (b0 # bs))) ls"
proof (induction bs arbitrary: d b0)
  case Nil
  then show ?case by simp
next
  case (Cons b bs)
  then show ?case
    using read_dependency(2) [of b d b0 "concat (map dependency_lines bs) @ ls"]
      Cons.IH [of "d\<lparr>dc_dependencies := dc_dependencies d @ [b0]\<rparr>" b] by auto
qed

lemma read_dependencies:
  assumes "bs \<noteq> []" and "\<forall>b \<in> set bs. dependency_ok b" and "short_lines (concat (map dependency_lines bs))"
    and "dc_dependencies d = []"
  shows "read_lines (at_section d ''dependency_bindings'') (concat (map dependency_lines bs) @ ls) =
     read_lines (in_dependency (d\<lparr>dc_dependencies := butlast bs\<rparr>) (last bs)) ls"
proof -
  obtain b bs' where bs: "bs = b # bs'" using assms(1) by (cases bs) auto
  show ?thesis
    using read_dependency(1) [of b d "concat (map dependency_lines bs') @ ls"] read_more_dependencies [of bs' d b ls] assms
    by (simp add: bs)
qed

subsubsection \<open>The other sections\<close>

definition settled :: "reader \<Rightarrow> Document" where
  "settled r = rd_doc (put_dependency (put_service r))"

lemma settled_simps [simp]:
  "settled (at_section d sec) = d"
  "settled (in_service d sub s) = d\<lparr>dc_services := dc_services d @ [s]\<rparr>"
  "settled (in_dependency d b) = d\<lparr>dc_dependencies := dc_dependencies d @ [b]\<rparr>"
  by (simp_all add: settled_def at_section_def in_service_def in_dependency_def put_service_def put_dependency_def)

lemma put_both: "(put_dependency (put_service r))\<lparr>rd_section := sec, rd_sub := []\<rparr> = at_section (settled r) sec"
  by (cases r) (auto simp: settled_def at_section_def put_service_def put_dependency_def split: option.splits)

lemma top_unfold:
  "take_line r 0 t =
     (case after ''project_slug:'' t of
        Some v \<Rightarrow> Ok (at_section ((settled r)\<lparr>dc_project_slug := parseMetadataScalar v\<rparr>) [])
      | None \<Rightarrow> (case after ''runtime_mode:'' t of
          Some v \<Rightarrow> res_bind (ParseRuntimeMode (parseMetadataScalar v))
                      (\<lambda>m. Ok (at_section ((settled r)\<lparr>dc_runtime_mode := m\<rparr>) []))
        | None \<Rightarrow> (case List.find (\<lambda>s. t = s @ '':'') yaml_sections of
            Some s \<Rightarrow> Ok (at_section (settled r) s)
          | None \<Rightarrow> Ok (at_section (settled r) []))))"
  by (simp add: take_line_def top_line_def put_both) (simp add: at_section_def Let_def split: option.split)

lemma slug_line:
  "scalar_ok v \<Longrightarrow> take_line r 0 (''project_slug'' @ '': '' @ yamlScalar v) =
     Ok (at_section ((settled r)\<lparr>dc_project_slug := v\<rparr>) [])"
  by (simp add: top_unfold after_def parse_scalar)

lemma mode_line:
  "scalar_ok m \<Longrightarrow> trim_space m = m \<Longrightarrow> m \<in> runtime_mode_set \<Longrightarrow>
   take_line r 0 (''runtime_mode'' @ '': '' @ yamlScalar m) = Ok (at_section ((settled r)\<lparr>dc_runtime_mode := m\<rparr>) [])"
  by (simp add: top_unfold after_def parse_scalar ParseRuntimeMode_def ValidateMode_Ok [THEN iffD2])

lemma section_heads:
  "take_line r 0 ''deployment_binding:'' = Ok (at_section (settled r) ''deployment_binding'')"
  "take_line r 0 ''services:'' = Ok (at_section (settled r) ''services'')"
  "take_line r 0 ''dependency_bindings:'' = Ok (at_section (settled r) ''dependency_bindings'')"
  "take_line r 0 ''compatibility_policy:'' = Ok (at_section (settled r) ''compatibility_policy'')"
  "take_line r 0 ''magic_domain_policy:'' = Ok (at_section (settled r) ''magic_domain_policy'')"
  "take_line r 0 ''preview_policy:'' = Ok (at_section (settled r) ''preview_policy'')"
  "take_line r 0 ''scale_to_zero_policy:'' = Ok (at_section (settled r) ''scale_to_zero_policy'')"
  by (simp_all add: top_unfold after_def yaml_sections_def)

lemmas section_defs = take_line_def section_line_def after_def at_section_def

lemma target_line:
  "scalar_ok v \<Longrightarrow> take_line (at_section d ''deployment_binding'') 1 (''target_ref'' @ '': '' @ yamlScalar v) =
     Ok (at_section (d\<lparr>dc_target_ref := v\<rparr>) ''deployment_binding'')"
  by (simp add: section_defs parse_scalar)

lemma compatibility_lines:
  "take_line (at_section d ''compatibility_policy'') 1 (''env_injection'' @ '': '' @ yaml_bool b) =
     Ok (at_section (d\<lparr>dc_compatibility := (dc_compatibility d)\<lparr>cp_env_injection := b\<rparr>\<rparr>) ''compatibility_policy'')"
  "take_line (at_section d ''compatibility_policy'') 1 (''managed_credentials'' @ '': '' @ yaml_bool b) =
     Ok (at_section (d\<lparr>dc_compatibility := (dc_compatibility d)\<lparr>cp_managed_credentials := b\<rparr>\<rparr>) ''compatibility_policy'')"
  "take_line (at_section d ''compatibility_policy'') 1 (''localhost_rescue'' @ '': '' @ yaml_bool b) =
     Ok (at_section (d\<lparr>dc_compatibility := (dc_compatibility d)\<lparr>cp_localhost_rescue := b\<rparr>\<rparr>) ''compatibility_policy'')"
  by (simp_all add: section_defs parse_bool parseCompatibilityPolicyField_def)

lemma magic_lines:
  "take_line (at_section d ''magic_domain_policy'') 1 (''enabled'' @ '': '' @ yaml_bool b) =
     Ok (at_section (d\<lparr>dc_magic := (dc_magic d)\<lparr>md_enabled := b\<rparr>\<rparr>) ''magic_domain_policy'')"
  "scalar_ok v \<Longrightarrow> take_line (at_section d ''magic_domain_policy'') 1 (''provider'' @ '': '' @ yamlScalar v) =
     Ok (at_section (d\<lparr>dc_magic := (dc_magic d)\<lparr>md_provider := v\<rparr>\<rparr>) ''magic_domain_policy'')"
  by (simp_all add: section_defs parse_bool parse_scalar parseMagicDomainPolicyField_def)

lemma preview_line:
  "take_line (at_section d ''preview_policy'') 1 (''enabled'' @ '': '' @ yaml_bool b) =
     Ok (at_section (d\<lparr>dc_preview_enabled := b\<rparr>) ''preview_policy'')"
  by (simp add: section_defs parse_bool parsePreviewPolicyField_def)

lemma scale_line:
  "take_line (at_section d ''scale_to_zero_policy'') 1 (''enabled'' @ '': '' @ yaml_bool b) =
     Ok (at_section (d\<lparr>dc_scale := (dc_scale d)\<lparr>sz_enabled := b\<rparr>\<rparr>) ''scale_to_zero_policy'')"
  by (simp add: section_defs parse_bool parseScaleToZeroPolicyField_def)

section \<open>The round trip\<close>

text \<open>
  The documents that survive: the text the schema leaves free (paths, hints, aliases, protocols,
  endpoints, the provider) holds no single quote and no line end, optional text is empty or not
  blank, and the two windows of the scale-to-zero policy, which \<open>Render\<close> does not write, are empty.
\<close>

definition plain_service :: "YamlService \<Rightarrow> bool" where
  "plain_service s \<longleftrightarrow> list_all scalar_ok [ys_path s, ys_start_hint s, hc_path (ys_healthcheck s)] \<and>
     (blank (ys_start_hint s) \<longrightarrow> ys_start_hint s = []) \<and>
     (blank (hc_path (ys_healthcheck s)) \<longrightarrow> hc_path (ys_healthcheck s) = [])"

definition plain_dependency :: "YamlDependency \<Rightarrow> bool" where
  "plain_dependency b \<longleftrightarrow> list_all scalar_ok [yd_alias b, yd_protocol b, yd_local_endpoint b] \<and>
     (blank (yd_local_endpoint b) \<longrightarrow> yd_local_endpoint b = [])"

definition plain_document :: "Document \<Rightarrow> bool" where
  "plain_document d \<longleftrightarrow> list_all plain_service (dc_services d) \<and> list_all plain_dependency (dc_dependencies d) \<and>
     scalar_ok (md_provider (dc_magic d)) \<and> sz_idle_window (dc_scale d) = [] \<and> sz_gateway_hold_timeout (dc_scale d) = []"

lemma name_chars_ok: "logicalNamePattern v \<Longrightarrow> scalar_ok v"
  using plain_char_no_space
  by (auto simp: logicalNamePattern_def scalar_ok_def list_all_iff split: list.splits)

lemma slug_chars_ok: "projectSlugPattern v \<Longrightarrow> scalar_ok v"
  using plain_char_no_space
  by (auto simp: projectSlugPattern_def scalar_ok_def alnum_def list_all_iff split: list.splits)

lemma validate_services_all: "validate_services i names paths ss = Ok () \<Longrightarrow> \<forall>s \<in> set ss. ValidateService s = Ok ()"
  by (induction i names paths ss rule: validate_services.induct) auto

lemma validate_dependencies_all:
  "validate_dependencies i known bs = Ok () \<Longrightarrow> \<forall>b \<in> set bs. ValidateDependency known b = Ok ()"
  by (induction i known bs rule: validate_dependencies.induct) auto

lemma health_valid_ok:
  "ValidateHealthcheck h = Ok () \<Longrightarrow> scalar_ok (hc_path h) \<Longrightarrow> (blank (hc_path h) \<longrightarrow> hc_path h = []) \<Longrightarrow> health_ok h"
  by (cases h) (auto simp: ValidateHealthcheck_def health_ok_def split: if_splits)

lemma service_valid_ok: "ValidateService s = Ok () \<Longrightarrow> plain_service s \<Longrightarrow> service_ok s"
  by (auto simp: ValidateService_def plain_service_def service_ok_def name_chars_ok health_valid_ok)

lemma dependency_valid_ok:
  "ValidateDependency known b = Ok () \<Longrightarrow> \<forall>n \<in> set known. scalar_ok n \<Longrightarrow> plain_dependency b \<Longrightarrow> dependency_ok b"
  by (auto simp: ValidateDependency_def Let_def plain_dependency_def dependency_ok_def name_chars_ok)

definition readable :: "Document \<Rightarrow> bool" where
  "readable d \<longleftrightarrow> scalar_ok (dc_project_slug d) \<and> dc_runtime_mode d \<in> runtime_mode_set \<and> scalar_ok (dc_target_ref d) \<and>
     dc_services d \<noteq> [] \<and> (\<forall>s \<in> set (dc_services d). service_ok s) \<and>
     (\<forall>b \<in> set (dc_dependencies d). dependency_ok b) \<and> scalar_ok (md_provider (dc_magic d)) \<and>
     sz_idle_window (dc_scale d) = [] \<and> sz_gateway_hold_timeout (dc_scale d) = []"

lemma ValidateDocument_parts:
  assumes "ValidateDocument d = Ok ()"
  shows "projectSlugPattern (dc_project_slug d)" and "ValidateMode (dc_runtime_mode d) = Ok ()"
    and "dc_runtime_mode d \<noteq> []" and "ValidateTargetRef (dc_target_ref d) = Ok ()" and "dc_services d \<noteq> []"
    and "validate_services 0 [] [] (dc_services d) = Ok ()"
    and "validate_dependencies 0 (map ys_name (dc_services d)) (dc_dependencies d) = Ok ()"
    and "ValidateCompatibilityPolicy (dc_compatibility d) = Ok ()" and "ValidateMagicDomain (dc_magic d) = Ok ()"
    and "validateNoForbiddenValues d = Ok ()"
  using assms unfolding ValidateDocument_def by simp_all

lemma valid_readable: "ValidateDocument d = Ok () \<Longrightarrow> plain_document d \<Longrightarrow> readable d"
proof -
  assume v: "ValidateDocument d = Ok ()" and p: "plain_document d"
  note parts = ValidateDocument_parts [OF v]
  have svc: "\<forall>s \<in> set (dc_services d). service_ok s"
    using p validate_services_all [OF parts(6)] service_valid_ok by (auto simp: plain_document_def list_all_iff)
  then have "\<forall>n \<in> set (map ys_name (dc_services d)). scalar_ok n" by (auto simp: service_ok_def)
  then have dep: "\<forall>b \<in> set (dc_dependencies d). dependency_ok b"
    using p validate_dependencies_all [OF parts(7)]
    by (auto simp only: plain_document_def list_all_iff intro: dependency_valid_ok)
  show ?thesis
    using parts(1-5) p svc dep
    by (simp add: readable_def plain_document_def ValidateMode_Ok ValidateTargetRef_def slug_chars_ok name_chars_ok)
qed

lemma mode_scalar: "m \<in> runtime_mode_set \<Longrightarrow> scalar_ok m \<and> trim_space m = m"
  by (auto simp: runtime_mode_set_def runtime_modes scalar_ok_def quote_def trim_space_def trim_left_def
      trim_right_def is_space_def)

lemma newline_key:
  "CHR 0x0A \<notin> set key \<Longrightarrow> CHR 0x0A \<notin> set x \<Longrightarrow> CHR 0x0A \<notin> set (key_line n key x)"
  by (auto simp: key_line_def yaml_line_def)

lemma newline_line: "CHR 0x0A \<notin> set x \<Longrightarrow> CHR 0x0A \<notin> set (yaml_line n x)"
  by (auto simp: yaml_line_def)

lemma newline_values:
  "scalar_ok v \<Longrightarrow> CHR 0x0A \<notin> set (yamlScalar v)" "CHR 0x0A \<notin> set (yaml_bool b)"
  "0 \<le> i \<Longrightarrow> CHR 0x0A \<notin> set (itoa i)"
  using digit_no_space itoa_digits [of i] by (auto simp: scalar_ok_def scalar_no_newline yaml_bool_def)

lemma service_lines_newline: "service_ok s \<Longrightarrow> \<forall>l \<in> set (service_lines s). CHR 0x0A \<notin> set l"
  by (auto simp: service_lines_def Let_def service_ok_def health_ok_def newline_key newline_line newline_values)

lemma dependency_lines_newline: "dependency_ok b \<Longrightarrow> \<forall>l \<in> set (dependency_lines b). CHR 0x0A \<notin> set l"
  by (auto simp: dependency_lines_def dependency_ok_def newline_key newline_values)

lemma document_lines_newline: "readable d \<Longrightarrow> \<forall>l \<in> set (document_lines d). CHR 0x0A \<notin> set l"
proof -
  assume d: "readable d"
  have "\<forall>l \<in> set (concat (map service_lines (dc_services d))). CHR 0x0A \<notin> set l"
    "\<forall>l \<in> set (concat (map dependency_lines (dc_dependencies d))). CHR 0x0A \<notin> set l"
    using d service_lines_newline dependency_lines_newline by (auto simp: readable_def)
  moreover have "scalar_ok (dc_runtime_mode d)" using d mode_scalar by (simp add: readable_def)
  ultimately show ?thesis
    using d unfolding document_lines_def
    by (simp only: readable_def set_append ball_Un list.set ball_simps newline_key newline_line newline_values
        HOL.simp_thms split: if_splits) (simp add: newline_key newline_line newline_values)
qed

text \<open>Reading the text of a document section by section.\<close>

definition tail_lines :: "Document \<Rightarrow> string list" where
  "tail_lines d =
     [[], yaml_line 0 ''compatibility_policy:'',
      key_line 1 ''env_injection'' (yaml_bool (cp_env_injection (dc_compatibility d))),
      key_line 1 ''managed_credentials'' (yaml_bool (cp_managed_credentials (dc_compatibility d))),
      key_line 1 ''localhost_rescue'' (yaml_bool (cp_localhost_rescue (dc_compatibility d))),
      [], yaml_line 0 ''magic_domain_policy:'',
      key_line 1 ''enabled'' (yaml_bool (md_enabled (dc_magic d))),
      key_line 1 ''provider'' (yamlScalar (md_provider (dc_magic d))),
      [], yaml_line 0 ''preview_policy:'', key_line 1 ''enabled'' (yaml_bool (dc_preview_enabled d)),
      [], yaml_line 0 ''scale_to_zero_policy:'', key_line 1 ''enabled'' (yaml_bool (sz_enabled (dc_scale d)))]"

definition head_lines :: "Document \<Rightarrow> string list" where
  "head_lines d =
     [key_line 0 ''project_slug'' (yamlScalar (dc_project_slug d)),
      key_line 0 ''runtime_mode'' (yamlScalar (dc_runtime_mode d)), [],
      yaml_line 0 ''deployment_binding:'', key_line 1 ''target_ref'' (yamlScalar (dc_target_ref d)), [],
      yaml_line 0 ''services:'']"

definition dependency_block :: "Document \<Rightarrow> string list" where
  "dependency_block d = (if dc_dependencies d \<noteq> []
     then [[], yaml_line 0 ''dependency_bindings:''] @ concat (map dependency_lines (dc_dependencies d)) else [])"

lemma document_blocks:
  "document_lines d = head_lines d @ concat (map service_lines (dc_services d)) @ dependency_block d @ tail_lines d"
  by (simp add: document_lines_def head_lines_def dependency_block_def tail_lines_def)

lemma key_texts:
  "text_ok (''project_slug'' @ '':'')" "text_ok (''runtime_mode'' @ '':'')" "text_ok ''deployment_binding:''"
  "text_ok (''target_ref'' @ '':'')" "text_ok ''services:''" "text_ok ''dependency_bindings:''"
  "text_ok ''compatibility_policy:''" "text_ok (''env_injection'' @ '':'')" "text_ok (''managed_credentials'' @ '':'')"
  "text_ok (''localhost_rescue'' @ '':'')" "text_ok ''magic_domain_policy:''" "text_ok (''enabled'' @ '':'')"
  "text_ok (''provider'' @ '':'')" "text_ok ''preview_policy:''" "text_ok ''scale_to_zero_policy:''"
  by (simp_all add: text_ok_def is_space_def)

lemma read_head:
  assumes "readable d" and "short_lines (head_lines d)"
  shows "read_lines start_reader (head_lines d @ ls) = read_lines (before_services
    (zero_document\<lparr>dc_project_slug := dc_project_slug d, dc_runtime_mode := dc_runtime_mode d, dc_target_ref := dc_target_ref d\<rparr>)) ls"
proof -
  note short = assms(2) [unfolded head_lines_def short_lines_simps]
  have ok: "scalar_ok (dc_project_slug d)" "scalar_ok (dc_target_ref d)" "scalar_ok (dc_runtime_mode d)"
    "trim_space (dc_runtime_mode d) = dc_runtime_mode d" "dc_runtime_mode d \<in> runtime_mode_set"
    using assms(1) mode_scalar by (simp_all add: readable_def)
  let ?r = "\<lambda>x sec. at_section x sec"
  let ?d1 = "zero_document\<lparr>dc_project_slug := dc_project_slug d\<rparr>"
  let ?d2 = "?d1\<lparr>dc_runtime_mode := dc_runtime_mode d\<rparr>"
  let ?d3 = "?d2\<lparr>dc_target_ref := dc_target_ref d\<rparr>"
  have start: "settled start_reader = zero_document"
    by (simp add: settled_def start_reader_def put_service_def put_dependency_def)
  have "read_lines start_reader (head_lines d @ ls) = read_lines (?r ?d1 [])
     (key_line 0 ''runtime_mode'' (yamlScalar (dc_runtime_mode d)) # [] # yaml_line 0 ''deployment_binding:'' #
      key_line 1 ''target_ref'' (yamlScalar (dc_target_ref d)) # [] # yaml_line 0 ''services:'' # ls)"
    unfolding head_lines_def append.simps
    by (rule key_step [OF slug_line [OF ok(1), of start_reader, unfolded start]]) (use short key_texts in simp_all)
  also have "\<dots> = read_lines (?r ?d2 [])
     (yaml_line 0 ''deployment_binding:'' # key_line 1 ''target_ref'' (yamlScalar (dc_target_ref d)) # [] #
      yaml_line 0 ''services:'' # ls)"
    by (subst blank_step [symmetric], rule key_step [OF mode_line [OF ok(3-5), of "?r ?d1 []", unfolded settled_simps]])
      (use short key_texts in simp_all)
  also have "\<dots> = read_lines (?r ?d2 ''deployment_binding'')
     (key_line 1 ''target_ref'' (yamlScalar (dc_target_ref d)) # [] # yaml_line 0 ''services:'' # ls)"
    by (rule read_step [OF section_heads(1) [of "?r ?d2 []", unfolded settled_simps]]) (use short key_texts in simp_all)
  also have "\<dots> = read_lines (?r ?d3 ''deployment_binding'') (yaml_line 0 ''services:'' # ls)"
    by (subst blank_step [symmetric], rule key_step [OF target_line [OF ok(2)]]) (use short key_texts in simp_all)
  also have "\<dots> = read_lines (?r ?d3 ''services'') ls"
    by (rule read_step [OF section_heads(2) [of "?r ?d3 ''deployment_binding''", unfolded settled_simps]])
      (use short key_texts in simp_all)
  finally show ?thesis by (simp add: at_section_def before_services_def)
qed

lemma read_section_head:
  assumes "take_line r 0 (sec @ '':'') = Ok r'" and "length (yaml_line 0 (sec @ '':'')) < MaxScanTokenSize"
    and "text_ok (sec @ '':'')"
  shows "read_lines r ([] # yaml_line 0 (sec @ '':'') # ls) = read_lines r' ls"
  using read_step [OF assms(1,3,2)] by (simp only: blank_step)

definition compatibility_block :: "CompatibilityPolicy \<Rightarrow> string list" where
  "compatibility_block p = [[], yaml_line 0 (''compatibility_policy'' @ '':''),
      key_line 1 ''env_injection'' (yaml_bool (cp_env_injection p)),
      key_line 1 ''managed_credentials'' (yaml_bool (cp_managed_credentials p)),
      key_line 1 ''localhost_rescue'' (yaml_bool (cp_localhost_rescue p))]"

definition magic_block :: "MagicDomainPolicy \<Rightarrow> string list" where
  "magic_block p = [[], yaml_line 0 (''magic_domain_policy'' @ '':''), key_line 1 ''enabled'' (yaml_bool (md_enabled p)),
      key_line 1 ''provider'' (yamlScalar (md_provider p))]"

definition switch_block :: "string \<Rightarrow> bool \<Rightarrow> string list" where
  "switch_block sec b = [[], yaml_line 0 (sec @ '':''), key_line 1 ''enabled'' (yaml_bool b)]"

lemma tail_blocks:
  "tail_lines d = compatibility_block (dc_compatibility d) @ magic_block (dc_magic d) @
     switch_block ''preview_policy'' (dc_preview_enabled d) @ switch_block ''scale_to_zero_policy'' (sz_enabled (dc_scale d))"
  by (simp add: tail_lines_def compatibility_block_def magic_block_def switch_block_def)

lemma read_compatibility:
  assumes "short_lines (compatibility_block p)"
  shows "read_lines r (compatibility_block p @ ls) =
     read_lines (at_section ((settled r)\<lparr>dc_compatibility := p\<rparr>) ''compatibility_policy'') ls"
proof -
  note short = assms [unfolded compatibility_block_def short_lines_simps]
  let ?at = "\<lambda>x. at_section x ''compatibility_policy''"
  let ?x1 = "(settled r)\<lparr>dc_compatibility := (dc_compatibility (settled r))\<lparr>cp_env_injection := cp_env_injection p\<rparr>\<rparr>"
  let ?x2 = "?x1\<lparr>dc_compatibility := (dc_compatibility ?x1)\<lparr>cp_managed_credentials := cp_managed_credentials p\<rparr>\<rparr>"
  let ?x3 = "?x2\<lparr>dc_compatibility := (dc_compatibility ?x2)\<lparr>cp_localhost_rescue := cp_localhost_rescue p\<rparr>\<rparr>"
  have t: "take_line r 0 (''compatibility_policy'' @ '':'') = Ok (?at (settled r))" by (simp add: section_heads)
  have "read_lines r (compatibility_block p @ ls) = read_lines (?at (settled r))
     (key_line 1 ''env_injection'' (yaml_bool (cp_env_injection p)) #
      key_line 1 ''managed_credentials'' (yaml_bool (cp_managed_credentials p)) #
      key_line 1 ''localhost_rescue'' (yaml_bool (cp_localhost_rescue p)) # ls)"
    unfolding compatibility_block_def append_Cons append_Nil
    by (rule read_section_head [OF t, unfolded append_Cons append_Nil]) (use short key_texts in simp_all)
  also have "\<dots> = read_lines (?at ?x1)
     (key_line 1 ''managed_credentials'' (yaml_bool (cp_managed_credentials p)) #
      key_line 1 ''localhost_rescue'' (yaml_bool (cp_localhost_rescue p)) # ls)"
    by (rule key_step [OF compatibility_lines(1)]) (use short key_texts in simp_all)
  also have "\<dots> = read_lines (?at ?x2) (key_line 1 ''localhost_rescue'' (yaml_bool (cp_localhost_rescue p)) # ls)"
    by (rule key_step [OF compatibility_lines(2)]) (use short key_texts in simp_all)
  also have "\<dots> = read_lines (?at ?x3) ls"
    by (rule key_step [OF compatibility_lines(3)]) (use short key_texts in simp_all)
  finally show ?thesis by (cases p; cases "dc_compatibility (settled r)") simp
qed

lemma read_magic:
  assumes "short_lines (magic_block p)" and "scalar_ok (md_provider p)"
  shows "read_lines r (magic_block p @ ls) =
     read_lines (at_section ((settled r)\<lparr>dc_magic := p\<rparr>) ''magic_domain_policy'') ls"
proof -
  note short = assms(1) [unfolded magic_block_def short_lines_simps]
  let ?at = "\<lambda>x. at_section x ''magic_domain_policy''"
  let ?x1 = "(settled r)\<lparr>dc_magic := (dc_magic (settled r))\<lparr>md_enabled := md_enabled p\<rparr>\<rparr>"
  let ?x2 = "?x1\<lparr>dc_magic := (dc_magic ?x1)\<lparr>md_provider := md_provider p\<rparr>\<rparr>"
  have t: "take_line r 0 (''magic_domain_policy'' @ '':'') = Ok (?at (settled r))" by (simp add: section_heads)
  have "read_lines r (magic_block p @ ls) = read_lines (?at (settled r))
     (key_line 1 ''enabled'' (yaml_bool (md_enabled p)) # key_line 1 ''provider'' (yamlScalar (md_provider p)) # ls)"
    unfolding magic_block_def append_Cons append_Nil
    by (rule read_section_head [OF t, unfolded append_Cons append_Nil]) (use short key_texts in simp_all)
  also have "\<dots> = read_lines (?at ?x1) (key_line 1 ''provider'' (yamlScalar (md_provider p)) # ls)"
    by (rule key_step [OF magic_lines(1)]) (use short key_texts in simp_all)
  also have "\<dots> = read_lines (?at ?x2) ls"
    by (rule key_step [OF magic_lines(2) [OF assms(2)]]) (use short key_texts in simp_all)
  finally show ?thesis by (cases p; cases "dc_magic (settled r)") simp
qed

lemma read_switches:
  assumes "short_lines (switch_block ''preview_policy'' a)" and "short_lines (switch_block ''scale_to_zero_policy'' b)"
  shows "read_lines r (switch_block ''preview_policy'' a @ switch_block ''scale_to_zero_policy'' b) =
     Ok (at_section ((settled r)\<lparr>dc_preview_enabled := a, dc_scale := (dc_scale (settled r))\<lparr>sz_enabled := b\<rparr>\<rparr>)
       ''scale_to_zero_policy'')"
proof -
  note short = assms [unfolded switch_block_def short_lines_simps]
  let ?x = "(settled r)\<lparr>dc_preview_enabled := a\<rparr>"
  have t: "take_line r 0 (''preview_policy'' @ '':'') = Ok (at_section (settled r) ''preview_policy'')"
    "take_line (at_section ?x ''preview_policy'') 0 (''scale_to_zero_policy'' @ '':'') = Ok (at_section ?x ''scale_to_zero_policy'')"
    by (simp_all add: section_heads)
  have "read_lines r (switch_block ''preview_policy'' a @ switch_block ''scale_to_zero_policy'' b) =
     read_lines (at_section (settled r) ''preview_policy'')
       (key_line 1 ''enabled'' (yaml_bool a) # switch_block ''scale_to_zero_policy'' b)"
    unfolding switch_block_def append_Cons append_Nil
    by (rule read_section_head [OF t(1), unfolded append_Cons append_Nil]) (use short key_texts in simp_all)
  also have "\<dots> = read_lines (at_section ?x ''preview_policy'') (switch_block ''scale_to_zero_policy'' b)"
    by (rule key_step [OF preview_line]) (use short key_texts in simp_all)
  also have "\<dots> = read_lines (at_section ?x ''scale_to_zero_policy'') [key_line 1 ''enabled'' (yaml_bool b)]"
    unfolding switch_block_def append_Cons append_Nil
    by (rule read_section_head [OF t(2), unfolded append_Cons append_Nil]) (use short key_texts in simp_all)
  also have "\<dots> = read_lines (at_section (?x\<lparr>dc_scale := (dc_scale ?x)\<lparr>sz_enabled := b\<rparr>\<rparr>) ''scale_to_zero_policy'') []"
    by (rule key_step [OF scale_line]) (use short key_texts in simp_all)
  finally show ?thesis by simp
qed

lemma read_tail:
  assumes "short_lines (tail_lines d)" and "scalar_ok (md_provider (dc_magic d))"
    and "sz_idle_window (dc_scale d) = []" and "sz_gateway_hold_timeout (dc_scale d) = []"
    and "dc_scale (settled r) = dc_scale zero_document"
  shows "\<exists>r'. read_lines r (tail_lines d) = Ok r' \<and> settled r' =
    (settled r)\<lparr>dc_compatibility := dc_compatibility d, dc_magic := dc_magic d,
       dc_preview_enabled := dc_preview_enabled d, dc_scale := dc_scale d\<rparr>"
proof -
  note short = assms(1) [unfolded tail_blocks short_lines_simps]
  have "(dc_scale zero_document)\<lparr>sz_enabled := sz_enabled (dc_scale d)\<rparr> = dc_scale d"
    using assms(3,4) by (cases "dc_scale d") (simp add: zero_document_def)
  then show ?thesis
    unfolding tail_blocks using short assms(2,5)
    by (simp add: read_compatibility read_magic read_switches)
qed

lemma document_eq:
  "zero_document\<lparr>dc_project_slug := dc_project_slug d, dc_runtime_mode := dc_runtime_mode d, dc_target_ref := dc_target_ref d,
     dc_services := dc_services d, dc_dependencies := dc_dependencies d, dc_compatibility := dc_compatibility d,
     dc_magic := dc_magic d, dc_preview_enabled := dc_preview_enabled d, dc_scale := dc_scale d\<rparr> = d"
  by (cases d) (simp add: zero_document_def)

lemma read_document:
  assumes "readable d" and "short_lines (document_lines d)"
  shows "\<exists>r. read_lines start_reader (document_lines d) = Ok r \<and> settled r = d"
proof -
  note short = assms(2) [unfolded document_blocks short_lines_simps]
  note d = assms(1) [unfolded readable_def]
  let ?d1 = "zero_document\<lparr>dc_project_slug := dc_project_slug d, dc_runtime_mode := dc_runtime_mode d, dc_target_ref := dc_target_ref d\<rparr>"
  let ?d2 = "?d1\<lparr>dc_services := dc_services d\<rparr>"
  let ?d3 = "?d2\<lparr>dc_dependencies := dc_dependencies d\<rparr>"
  obtain sub where svc: "read_lines start_reader (document_lines d) =
      read_lines (in_service (?d1\<lparr>dc_services := butlast (dc_services d)\<rparr>) sub (last (dc_services d))) (dependency_block d @ tail_lines d)"
    using read_services [of "dc_services d" ?d1 "dependency_block d @ tail_lines d"] d short read_head [OF assms(1)]
    unfolding document_blocks by (auto simp: zero_document_def)
  define r1 where "r1 = in_service (?d1\<lparr>dc_services := butlast (dc_services d)\<rparr>) sub (last (dc_services d))"
  have r1: "settled r1 = ?d2" using d by (simp add: r1_def)
  have "\<exists>r2. read_lines r1 (dependency_block d @ tail_lines d) = read_lines r2 (tail_lines d) \<and> settled r2 = ?d3"
  proof (cases "dc_dependencies d = []")
    case True
    then have "?d2 = ?d3" by (simp add: zero_document_def)
    with True r1 show ?thesis by (auto simp: dependency_block_def)
  next
    case False
    let ?r2 = "in_dependency (?d2\<lparr>dc_dependencies := butlast (dc_dependencies d)\<rparr>) (last (dc_dependencies d))"
    have blk: "dependency_block d = [] # yaml_line 0 ''dependency_bindings:'' # concat (map dependency_lines (dc_dependencies d))"
      using False by (simp add: dependency_block_def)
    have "read_lines r1 (dependency_block d @ tail_lines d) =
        read_lines (at_section ?d2 ''dependency_bindings'') (concat (map dependency_lines (dc_dependencies d)) @ tail_lines d)"
      using read_step [OF section_heads(3) [of r1]] key_texts short r1
      unfolding blk short_lines_simps by (simp only: append_Cons append_Nil blank_step)
    also have "\<dots> = read_lines ?r2 (tail_lines d)"
      using read_dependencies [OF False, of ?d2 "tail_lines d"] d short False
      unfolding blk short_lines_simps by (simp add: zero_document_def)
    finally show ?thesis using False by (intro exI [of _ ?r2]) simp
  qed
  then obtain r2 where r2: "read_lines r1 (dependency_block d @ tail_lines d) = read_lines r2 (tail_lines d)"
    "settled r2 = ?d3" by blast
  obtain r' where "read_lines r2 (tail_lines d) = Ok r'" "settled r' =
    ?d3\<lparr>dc_compatibility := dc_compatibility d, dc_magic := dc_magic d, dc_preview_enabled := dc_preview_enabled d,
        dc_scale := dc_scale d\<rparr>"
    using read_tail [of d r2] short d r2(2) by auto
  then show ?thesis using svc r2(1) document_eq [of d] by (simp add: r1_def)
qed

section \<open>The security check line by line\<close>

text \<open>
  Its searches may look across line ends, yet a text is free of what they look for when its lines are.
\<close>

lemma has_prefix_line: "n \<notin> set m \<Longrightarrow> has_prefix (a @ n # b) m \<longleftrightarrow> has_prefix a m"
proof (induction m arbitrary: a)
  case (Cons c m)
  then show ?case by (cases a) auto
qed simp

lemma str_contains_line:
  "m \<noteq> [] \<Longrightarrow> n \<notin> set m \<Longrightarrow> str_contains (a @ n # b) m \<longleftrightarrow> str_contains a m \<or> str_contains b m"
proof (induction a)
  case Nil
  then show ?case by (cases m) auto
next
  case (Cons c a)
  then show ?case using has_prefix_line [of n m "c # a" b] by simp
qed

lemma str_contains_unlines:
  "m \<noteq> [] \<Longrightarrow> CHR 0x0A \<notin> set m \<Longrightarrow> str_contains (unlines ls) m \<longleftrightarrow> (\<exists>l \<in> set ls. str_contains l m)"
  by (induction ls) (simp_all add: unlines_def str_contains_line)

lemma to_lower_unlines: "to_lower (unlines ls) = unlines (map to_lower ls)"
  by (induction ls) (simp_all add: unlines_def to_lower_def lower_char_def)

definition secret_line :: "string \<Rightarrow> bool" where
  "secret_line l = (let r = dropWhile regex_space l in
     list_ex (\<lambda>k. has_prefix (to_lower r) k \<and>
       (case dropWhile regex_space (drop (length k) r) of [] \<Rightarrow> True | c # t \<Rightarrow> c = CHR '':'')) secret_fields)"

lemma secret_fields_chars: "k \<in> set secret_fields \<Longrightarrow> CHR 0x0A \<notin> set k"
  by (auto simp: secret_fields_def)

lemma newline_space: "regex_space (CHR 0x0A)"
  by (simp add: regex_space_def)

lemma lower_newline: "lower_char (CHR 0x0A) = CHR 0x0A"
  by (simp add: lower_char_def)

lemma dropWhile_line: "dropWhile regex_space (l @ CHR 0x0A # s) =
    (if dropWhile regex_space l = [] then dropWhile regex_space s else dropWhile regex_space l @ CHR 0x0A # s)"
  by (induction l) (simp_all add: newline_space)

lemma secret_here_line:
  assumes "secret_field_here (l @ CHR 0x0A # s)"
  shows "secret_line l \<or> secret_field_here s"
proof (cases "dropWhile regex_space l = []")
  case True
  then show ?thesis using assms by (simp add: secret_field_here_def dropWhile_line)
next
  case False
  let ?r = "dropWhile regex_space l"
  have dw: "dropWhile regex_space (l @ CHR 0x0A # s) = ?r @ CHR 0x0A # s"
    using False by (simp only: dropWhile_line if_False)
  obtain k where k: "k \<in> set secret_fields" "has_prefix (to_lower (?r @ CHR 0x0A # s)) k"
    "has_prefix (dropWhile regex_space (drop (length k) (?r @ CHR 0x0A # s))) '':''"
    using assms unfolding secret_field_here_def Let_def dw list_ex_iff by blast
  have p: "has_prefix (to_lower ?r) k"
    using k(2) has_prefix_line [OF secret_fields_chars [OF k(1)]] by (simp add: to_lower_def lower_newline)
  then have "length k \<le> length ?r" by (auto simp: has_prefix_iff to_lower_def dest: arg_cong [where f = length])
  then have e: "drop (length k) (?r @ CHR 0x0A # s) = drop (length k) ?r @ CHR 0x0A # s" by simp
  from k(3) have "case dropWhile regex_space (drop (length k) ?r) of [] \<Rightarrow> True | c # t \<Rightarrow> c = CHR '':''"
    unfolding e dropWhile_line
    by (cases "dropWhile regex_space (drop (length k) ?r)") (simp_all del: dropWhile_eq_Nil_conv)
  with p k(1) show ?thesis by (auto simp: secret_line_def Let_def list_ex_iff)
qed

lemma secret_here_unlines: "secret_field_here (unlines ls) \<Longrightarrow> \<exists>l \<in> set ls. secret_line l"
proof (induction ls)
  case Nil
  then show ?case by (auto simp: unlines_def secret_field_here_def secret_fields_def)
next
  case (Cons l ls)
  then show ?case using secret_here_line [of l "unlines ls"] by (auto simp: unlines_def)
qed

lemma secret_search_line:
  "CHR 0x0A \<notin> set l \<Longrightarrow> secret_field_search bol (l @ CHR 0x0A # s) \<Longrightarrow>
   (bol \<and> secret_field_here (l @ CHR 0x0A # s)) \<or> secret_field_search True s"
proof (induction l arbitrary: bol)
  case (Cons c l)
  then show ?case using Cons.IH [of False] by auto
qed auto

lemma secret_search_unlines:
  "\<forall>l \<in> set ls. CHR 0x0A \<notin> set l \<Longrightarrow> secret_field_search True (unlines ls) \<Longrightarrow> \<exists>l \<in> set ls. secret_line l"
proof (induction ls)
  case Nil
  then show ?case by (simp add: unlines_def)
next
  case (Cons l ls)
  then show ?case
    using secret_search_line [of l True "unlines ls"] secret_here_unlines [of "l # ls"] by (auto simp: unlines_def)
qed

lemma octet_rests_line: "octet_rests (a @ CHR 0x0A # b) = map (\<lambda>r. r @ CHR 0x0A # b) (octet_rests a)"
proof -
  have d: "\<not> is_digit (CHR 0x0A)" by (simp add: is_digit_def)
  consider "a = []" | x where "a = [x]" | x y where "a = [x, y]" | x y z r where "a = x # y # z # r"
    by (metis remdups_adj.cases)
  then show ?thesis by cases (simp_all add: octet_rests_def Let_def d)
qed

lemma dot_octet_line: "dot_octet (a @ CHR 0x0A # b) = map (\<lambda>r. r @ CHR 0x0A # b) (dot_octet a)"
  by (cases a) (simp_all add: dot_octet_def octet_rests_line)

lemma word_at_line: "word_at (a @ CHR 0x0A # b) = word_at a"
  by (cases a) (simp_all add: word_at_def is_word_def is_digit_def)

lemma ipv4_here_line: "ipv4_here prev (a @ CHR 0x0A # b) = ipv4_here prev a"
  by (simp add: ipv4_here_def octet_rests_line dot_octet_line word_at_line list_ex_iff)

lemma ipv4_search_line: "ipv4_search prev (a @ CHR 0x0A # b) \<longleftrightarrow> ipv4_search prev a \<or> ipv4_search False b"
proof (induction a arbitrary: prev)
  case Nil
  have "ipv4_here prev (CHR 0x0A # b) = ipv4_here prev []" using ipv4_here_line [of prev "[]" b] by simp
  then show ?case by (simp add: is_word_def is_digit_def)
next
  case (Cons c a)
  then show ?case using ipv4_here_line [of prev "c # a" b] by simp
qed

lemma ipv4_unlines: "ipv4Pattern (unlines ls) \<longleftrightarrow> (\<exists>l \<in> set ls. ipv4Pattern l)"
  by (induction ls) (simp_all add: unlines_def ipv4Pattern_def ipv4_search_line ipv4_here_def octet_rests_def)

text \<open>What the check asks of each line.\<close>

definition clean_line :: "string \<Rightarrow> bool" where
  "clean_line l \<longleftrightarrow> CHR 0x0A \<notin> set l \<and> \<not> secret_line l \<and> \<not> ipv4Pattern l \<and>
     list_all (\<lambda>m. \<not> str_contains (to_lower l) m) forbiddenContentMarkers"

lemma markers_shape: "list_all (\<lambda>m. m \<noteq> [] \<and> CHR 0x0A \<notin> set m \<and> to_lower m = m) forbiddenContentMarkers"
  by code_simp

lemma clean_lines_secure: "list_all clean_line ls \<Longrightarrow> validatePayloadSecurity (unlines ls) = Ok ()"
proof -
  assume ls: "list_all clean_line ls"
  have "\<not> str_contains (to_lower (unlines ls)) (to_lower m)" if "m \<in> set forbiddenContentMarkers" for m
    using ls that markers_shape
    by (auto simp: to_lower_unlines str_contains_unlines list_all_iff clean_line_def)
  moreover have "\<not> secret_field_search True (unlines ls)"
    using ls secret_search_unlines [of ls] by (auto simp: list_all_iff clean_line_def)
  moreover have "\<not> ipv4Pattern (unlines ls)"
    using ls by (auto simp: ipv4_unlines list_all_iff clean_line_def)
  ultimately show ?thesis by (simp add: validatePayloadSecurity_def list_ex_iff)
qed

section \<open>An example\<close>

definition demo_service :: YamlService where
  "demo_service = \<lparr>ys_name = ''api'', ys_path = ''apps/api'', ys_start_hint = ''go run .'', ys_public = True,
     ys_healthcheck = \<lparr>hc_path = ''/healthz'', hc_port = 80\<rparr>\<rparr>"

definition demo_dependency :: YamlDependency where
  "demo_dependency = \<lparr>yd_service = ''api'', yd_alias = ''db'', yd_target_service = ''postgres'', yd_protocol = ''tcp'',
     yd_local_endpoint = ''localhost:5432''\<rparr>"

definition demo_document :: Document where
  "demo_document = \<lparr>dc_project_slug = ''acme-shop'', dc_runtime_mode = ''standalone'', dc_target_ref = ''prod-1'',
     dc_services = [demo_service], dc_dependencies = [demo_dependency],
     dc_compatibility = \<lparr>cp_env_injection = True, cp_managed_credentials = False, cp_localhost_rescue = True\<rparr>,
     dc_magic = \<lparr>md_enabled = True, md_provider = ''sslip.io''\<rparr>, dc_preview_enabled = True,
     dc_scale = \<lparr>sz_enabled = False, sz_idle_window = [], sz_gateway_hold_timeout = []\<rparr>\<rparr>"

definition demo_payload :: string where
  "demo_payload = unlines (document_lines demo_document)"

lemma demo_payload_ok: "Render demo_document = Ok demo_payload" "validatePayloadSecurity demo_payload = Ok ()"
proof -
  have "is_ok (ValidateDocument demo_document)" by code_simp
  then show "Render demo_document = Ok demo_payload"
    by (auto simp: Render_def demo_payload_def is_ok_iff)
  have "list_all clean_line (document_lines demo_document)" by code_simp
  then show "validatePayloadSecurity demo_payload = Ok ()"
    unfolding demo_payload_def by (rule clean_lines_secure)
qed

lemma demo_document_short: "short_lines (document_lines demo_document)"
proof -
  have "list_all (\<lambda>l. length l < 100) (document_lines demo_document)" by code_simp
  then show ?thesis by (auto simp: short_lines_def MaxScanTokenSize_def list_all_iff)
qed

section \<open>Properties\<close>

text \<open>
  Property C30: a contract that \<open>Render\<close> writes is read back unchanged by \<open>ParseDocument\<close>, when its
  text passes the security check of the reader and its free text is plain.
\<close>

theorem contract_round_trip:
  assumes "Render d = Ok payload" and "validatePayloadSecurity payload = Ok ()"
    and "plain_document d" and "short_lines (document_lines d)"
  shows "ParseDocument payload = Ok d"
proof -
  have valid: "ValidateDocument d = Ok ()" and t: "payload = unlines (document_lines d)"
    using assms(1) by (auto simp: Render_def split: sum.splits)
  note r = valid_readable [OF valid assms(3)]
  obtain r' where "read_lines start_reader (document_lines d) = Ok r'" "settled r' = d"
    using read_document [OF r assms(4)] by blast
  then show ?thesis
    using assms(2) raw_lines_unlines [OF document_lines_newline [OF r]] by (simp add: ParseDocument_def t settled_def)
qed

theorem contract_round_trip_witness: "ParseDocument demo_payload = Ok demo_document"
proof -
  have "plain_document demo_document" by code_simp
  then show ?thesis by (rule contract_round_trip [OF demo_payload_ok _ demo_document_short])
qed

end
