(* ===== verification/Contract.thy ===== *)
theory Contract
  imports LazyYamlText
begin

text \<open>
  What the CLI's contract code promises: the documents \<open>Validate\<close> accepts are those of a declarative
  type \<open>wf_document\<close>; the run of \<open>lazyops init\<close> (\<open>cli/internal/command/init.go\<close>) from its flags to the text
  it writes, and that this text is such a document and names a target that was selectable; and where the text cannot be read back.
\<close>

section \<open>The type of contracts\<close>

text \<open>A path that never leaves the repository, however its components are walked.\<close>

definition inside_repo :: "string \<Rightarrow> bool" where
  "inside_repo p \<longleftrightarrow>
     (let t = trim_space p in t \<noteq> [] \<and> hd t \<noteq> CHR ''/'' \<and> hd t \<noteq> CHR ''~'' \<and> walk 0 (split_on (CHR ''/'') t) \<noteq> None)"

definition local_endpoint :: "string \<Rightarrow> bool" where
  "local_endpoint e \<longleftrightarrow> (case SplitHostPort (trim_space e) of None \<Rightarrow> False
     | Some (host, port) \<Rightarrow> \<not> str_contains host ''@'' \<and> \<not> blank port \<and>
         trim_set [CHR ''['', CHR '']''] host \<in> {''localhost'', ''127.0.0.1'', ''::1''})"

definition secret_free :: "string \<Rightarrow> bool" where
  "secret_free v \<longleftrightarrow> (\<forall>m \<in> set forbiddenMarkers. \<not> str_contains (to_lower (trim_space v)) m) \<and> \<not> ipv4Pattern (trim_space v)"

definition wf_health :: "Healthcheck \<Rightarrow> bool" where
  "wf_health h \<longleftrightarrow> (blank (hc_path h) \<and> hc_port h = 0) \<or>
     (has_prefix (hc_path h) ''/'' \<and> 1 \<le> hc_port h \<and> hc_port h \<le> 65535)"

definition wf_service :: "YamlService \<Rightarrow> bool" where
  "wf_service s \<longleftrightarrow> logicalNamePattern (ys_name s) \<and> inside_repo (ys_path s) \<and> wf_health (ys_healthcheck s) \<and>
     (\<forall>v \<in> {ys_name s, ys_path s, ys_start_hint s, hc_path (ys_healthcheck s)}. blank v \<or> secret_free v)"

definition wf_dependency :: "string set \<Rightarrow> YamlDependency \<Rightarrow> bool" where
  "wf_dependency names b \<longleftrightarrow> yd_service b \<in> names \<and> \<not> blank (yd_alias b) \<and> logicalNamePattern (yd_target_service b) \<and>
     to_lower (trim_space (yd_protocol b)) \<in> set allowedDependencyProtocols \<and>
     (blank (yd_local_endpoint b) \<or> local_endpoint (yd_local_endpoint b)) \<and>
     (\<forall>v \<in> {yd_service b, yd_alias b, yd_target_service b, yd_protocol b}. secret_free v)"

definition wf_document :: "Document \<Rightarrow> bool" where
  "wf_document d \<longleftrightarrow>
     projectSlugPattern (dc_project_slug d) \<and> secret_free (dc_project_slug d) \<and>
     dc_runtime_mode d \<in> {RuntimeModeStandalone, RuntimeModeDistributedMesh, RuntimeModeDistributedK3s} \<and>
     logicalNamePattern (dc_target_ref d) \<and> secret_free (dc_target_ref d) \<and>
     dc_services d \<noteq> [] \<and> distinct (map ys_name (dc_services d)) \<and> distinct (map ys_path (dc_services d)) \<and>
     list_all wf_service (dc_services d) \<and>
     list_all (wf_dependency (ys_name ` set (dc_services d))) (dc_dependencies d) \<and>
     (cp_env_injection (dc_compatibility d) \<or> cp_managed_credentials (dc_compatibility d) \<or>
      cp_localhost_rescue (dc_compatibility d)) \<and>
     (if blank (md_provider (dc_magic d)) then \<not> md_enabled (dc_magic d)
      else to_lower (trim_space (md_provider (dc_magic d))) \<in> set AllowedMagicDomainProviders) \<and>
     (\<forall>v \<in> {md_provider (dc_magic d), sz_idle_window (dc_scale d), sz_gateway_hold_timeout (dc_scale d)}.
        blank v \<or> secret_free v)"

subsection \<open>Validation decides the type\<close>

lemma validate_path_iff: "validateRepoRelativePath f p = Ok () \<longleftrightarrow> inside_repo p"
proof (cases "trim_space p")
  case Nil
  then show ?thesis by (simp add: validateRepoRelativePath_def inside_repo_def Let_def)
next
  case (Cons c r)
  have "has_prefix (c # r) ''/'' \<longleftrightarrow> c = CHR ''/''" "has_prefix (c # r) ''~'' \<longleftrightarrow> c = CHR ''~''" by auto
  then show ?thesis
    using clean_stays_inside [of "trim_space p"] Cons
    by (auto simp: validateRepoRelativePath_def inside_repo_def Let_def)
qed

lemma validate_endpoint_iff: "validateLocalEndpoint e = Ok () \<longleftrightarrow> local_endpoint e"
  by (auto simp: validateLocalEndpoint_def local_endpoint_def split: option.splits)

lemma local_endpoint_trim [simp]: "local_endpoint (trim_space e) = local_endpoint e"
  by (simp add: local_endpoint_def)

lemma has_suffix_append: "has_suffix (a @ b) b"
  by (simp add: has_suffix_def)

lemma value_iff:
  "\<not> has_suffix path ''.local_endpoint'' \<Longrightarrow> validateStringValue path v = Ok () \<longleftrightarrow> blank v \<or> secret_free v"
  "has_suffix path ''.local_endpoint'' \<Longrightarrow> validateStringValue path v = Ok () \<longleftrightarrow> blank v \<or> local_endpoint v"
  by (auto simp: validateStringValue_def Let_def secret_free_def blank_def list_ex_iff validate_endpoint_iff)

lemma health_iff: "ValidateHealthcheck h = Ok () \<longleftrightarrow> wf_health h"
proof -
  have "has_prefix (hc_path h) ''/'' \<Longrightarrow> \<not> blank (hc_path h)"
    by (auto simp: has_prefix_iff blank_def trim_space_Cons is_space_def)
  then show ?thesis by (auto simp: ValidateHealthcheck_def wf_health_def)
qed

lemma name_not_blank: "logicalNamePattern v \<Longrightarrow> \<not> blank v"
  using plain_char_no_space
  by (auto simp: logicalNamePattern_def blank_def trim_space_Cons split: list.splits)

lemma slug_not_blank: "projectSlugPattern v \<Longrightarrow> \<not> blank v"
  using plain_char_no_space
  by (auto simp: projectSlugPattern_def blank_def alnum_def trim_space_Cons split: list.splits)

lemma validate_services_iff:
  "validate_services i names paths ss = Ok () \<longleftrightarrow>
     (\<forall>s \<in> set ss. ValidateService s = Ok ()) \<and> distinct (map ys_name ss) \<and> distinct (map ys_path ss) \<and>
     ys_name ` set ss \<inter> set names = {} \<and> ys_path ` set ss \<inter> set paths = {}"
  by (induction i names paths ss rule: validate_services.induct) auto

lemma validate_dependencies_iff:
  "validate_dependencies i known bs = Ok () \<longleftrightarrow> (\<forall>b \<in> set bs. ValidateDependency known b = Ok ())"
  by (induction i known bs rule: validate_dependencies.induct) auto

lemma ball_map2:
  assumes "\<And>i x. (\<forall>y \<in> set (f i x). P y) \<longleftrightarrow> Q x"
  shows "(\<forall>y \<in> set (concat (map2 f [k..<k + length xs] xs)). P y) \<longleftrightarrow> (\<forall>x \<in> set xs. Q x)"
  using assms
proof (induction xs arbitrary: k)
  case (Cons x xs)
  have upt: "[k..<k + length (x # xs)] = k # [Suc k..<Suc k + length xs]"
    by (simp add: upt_conv_Cons del: upt_Suc)
  show ?case
    unfolding upt zip_Cons_Cons list.map concat.simps set_append ball_Un Cons.IH [of "Suc k", OF Cons.prems]
    by (simp add: Cons.prems)
qed simp

lemma service_strings_ok:
  "(\<forall>x \<in> set (service_strings i s). validateStringValue (fst x) (snd x) = Ok ()) \<longleftrightarrow>
     (\<forall>v \<in> {ys_name s, ys_path s, ys_start_hint s, hc_path (ys_healthcheck s)}. blank v \<or> secret_free v)"
  by (simp add: service_strings_def Let_def value_iff has_suffix_def)

lemma dependency_strings_ok:
  "(\<forall>x \<in> set (dependency_strings i b). validateStringValue (fst x) (snd x) = Ok ()) \<longleftrightarrow>
     (\<forall>v \<in> {yd_service b, yd_alias b, yd_target_service b, yd_protocol b}. blank v \<or> secret_free v) \<and>
     (blank (yd_local_endpoint b) \<or> local_endpoint (yd_local_endpoint b))"
  by (simp add: dependency_strings_def Let_def value_iff has_suffix_def)

lemma strings_iff:
  "validateNoForbiddenValues d = Ok () \<longleftrightarrow>
     (\<forall>v \<in> {dc_project_slug d, dc_runtime_mode d, dc_target_ref d, md_provider (dc_magic d),
            sz_idle_window (dc_scale d), sz_gateway_hold_timeout (dc_scale d)}. blank v \<or> secret_free v) \<and>
     (\<forall>s \<in> set (dc_services d).
        \<forall>v \<in> {ys_name s, ys_path s, ys_start_hint s, hc_path (ys_healthcheck s)}. blank v \<or> secret_free v) \<and>
     (\<forall>b \<in> set (dc_dependencies d).
        \<forall>v \<in> {yd_service b, yd_alias b, yd_target_service b, yd_protocol b}. blank v \<or> secret_free v) \<and>
     (\<forall>b \<in> set (dc_dependencies d). blank (yd_local_endpoint b) \<or> local_endpoint (yd_local_endpoint b))"
proof -
  have all: "validateNoForbiddenValues d = Ok () \<longleftrightarrow>
      (\<forall>x \<in> set (document_strings d). validateStringValue (fst x) (snd x) = Ok ())"
    by (simp add: validateNoForbiddenValues_def each_ok_iff split_beta)
  have s: "(\<forall>x \<in> set (concat (map2 service_strings [0..<length ss] ss)). validateStringValue (fst x) (snd x) = Ok ()) \<longleftrightarrow>
      (\<forall>s \<in> set ss. \<forall>v \<in> {ys_name s, ys_path s, ys_start_hint s, hc_path (ys_healthcheck s)}. blank v \<or> secret_free v)" for ss
    using ball_map2 [where f = service_strings and k = 0 and xs = ss, OF service_strings_ok] by simp
  have b: "(\<forall>x \<in> set (concat (map2 dependency_strings [0..<length bs] bs)). validateStringValue (fst x) (snd x) = Ok ()) \<longleftrightarrow>
      (\<forall>b \<in> set bs. (\<forall>v \<in> {yd_service b, yd_alias b, yd_target_service b, yd_protocol b}. blank v \<or> secret_free v) \<and>
        (blank (yd_local_endpoint b) \<or> local_endpoint (yd_local_endpoint b)))" for bs
    using ball_map2 [where f = dependency_strings and k = 0 and xs = bs, OF dependency_strings_ok] by simp
  show ?thesis
    unfolding all document_strings_def set_append ball_Un s b
    by (simp add: value_iff has_suffix_def conj_ac ball_conj_distrib)
qed

lemma service_iff:
  "ValidateService s = Ok () \<longleftrightarrow> logicalNamePattern (ys_name s) \<and> inside_repo (ys_path s) \<and> wf_health (ys_healthcheck s)"
  using name_not_blank by (auto simp: ValidateService_def validate_path_iff health_iff)

lemma dependency_iff:
  assumes "\<forall>n \<in> set known. logicalNamePattern n"
  shows "ValidateDependency known b = Ok () \<and>
      (\<forall>v \<in> {yd_service b, yd_alias b, yd_target_service b, yd_protocol b}. blank v \<or> secret_free v) \<longleftrightarrow>
    wf_dependency (set known) b"
proof -
  have "yd_service b \<in> set known \<Longrightarrow> \<not> blank (yd_service b)" using assms name_not_blank by blast
  moreover have "to_lower (trim_space (yd_protocol b)) \<in> set allowedDependencyProtocols \<Longrightarrow> \<not> blank (yd_protocol b)"
    by (auto simp: blank_def allowedDependencyProtocols_def)
  ultimately show ?thesis
    using name_not_blank [of "yd_target_service b"]
    by (auto simp: ValidateDependency_def Let_def wf_dependency_def validate_endpoint_iff blank_def)
qed

lemma wf_service_iff:
  "ValidateService s = Ok () \<and>
     (\<forall>v \<in> {ys_name s, ys_path s, ys_start_hint s, hc_path (ys_healthcheck s)}. blank v \<or> secret_free v) \<longleftrightarrow> wf_service s"
  by (auto simp: service_iff wf_service_def)

lemma mode_iff:
  "ValidateMode m = Ok () \<and> m \<noteq> [] \<longleftrightarrow> m \<in> {RuntimeModeStandalone, RuntimeModeDistributedMesh, RuntimeModeDistributedK3s}"
  by (auto simp: ValidateMode_Ok runtime_mode_set_def runtime_modes)

lemma mode_secret_free:
  "m \<in> {RuntimeModeStandalone, RuntimeModeDistributedMesh, RuntimeModeDistributedK3s} \<Longrightarrow> secret_free m"
proof -
  have "list_all (\<lambda>m. list_all (\<lambda>x. \<not> str_contains (to_lower (trim_space m)) x) forbiddenMarkers \<and> \<not> ipv4Pattern (trim_space m))
      [RuntimeModeStandalone, RuntimeModeDistributedMesh, RuntimeModeDistributedK3s]"
    by code_simp
  then show "m \<in> {RuntimeModeStandalone, RuntimeModeDistributedMesh, RuntimeModeDistributedK3s} \<Longrightarrow> secret_free m"
    by (auto simp: secret_free_def list_all_iff)
qed

lemma magic_iff:
  "ValidateMagicDomain p = Ok () \<longleftrightarrow>
     (if blank (md_provider p) then \<not> md_enabled p
      else to_lower (trim_space (md_provider p)) \<in> set AllowedMagicDomainProviders)"
  by (simp add: ValidateMagicDomain_def Let_def blank_def)

lemma target_ref_iff: "ValidateTargetRef r = Ok () \<longleftrightarrow> logicalNamePattern r"
  using name_not_blank by (auto simp: ValidateTargetRef_def)

section \<open>The run of \<open>lazyops init\<close>\<close>

text \<open>
  \<open>runInit\<close> (\<open>cli/internal/command/init.go\<close>) up to the text it writes. The scan of the working tree and the calls
  of the control plane's API are parameters: what they list, and for the request of a new binding (\<open>post\<close>) the
  binding the control plane answers with. The flags are those of the flag set; the printed review and
  the write of the file itself (\<open>lazyyaml.WriteFile\<close>) are left out.
\<close>

record init_args =
  ia_project :: string
  ia_runtime_mode :: string
  ia_target :: string
  ia_binding :: string
  ia_create :: bool
  ia_binding_name :: string
  ia_write :: bool
  ia_overwrite :: bool
  ia_provider :: string
  ia_scale_to_zero :: bool

definition isAllowedMagicDomainProvider :: "string \<Rightarrow> bool" where
  "isAllowedMagicDomainProvider provider \<longleftrightarrow> to_lower (trim_space provider) \<in> set AllowedMagicDomainProviders"

definition parseInitArgs :: "init_args \<Rightarrow> init_args res" where
  "parseInitArgs flags =
     res_bind (ParseRuntimeMode (ia_runtime_mode flags)) (\<lambda>mode.
     if \<not> blank (ia_binding flags) \<and> ia_create flags
     then Fail (Errorf ''choose one binding action only. next: use either `--binding <binding-id|name|target-ref>` or `--create-binding`'')
     else if \<not> blank (ia_binding_name flags) \<and> \<not> ia_create flags
     then Fail (Errorf ''`--binding-name` requires `--create-binding`. next: rerun `lazyops init --create-binding --binding-name <name>`'')
     else if ia_overwrite flags \<and> \<not> ia_write flags
     then Fail (Errorf ''`--overwrite` requires `--write`. next: rerun `lazyops init --write --overwrite`'')
     else let provider = trim_space (ia_provider flags) in
       if provider \<noteq> [] \<and> \<not> isAllowedMagicDomainProvider provider
       then Fail (Errorf (''magic domain provider '' @ go_quote provider @
         '' is invalid. next: use `--magic-domain-provider sslip.io` or `--magic-domain-provider nip.io`''))
       else Ok \<lparr>ia_project = trim_space (ia_project flags), ia_runtime_mode = mode,
         ia_target = trim_space (ia_target flags), ia_binding = trim_space (ia_binding flags),
         ia_create = ia_create flags, ia_binding_name = trim_space (ia_binding_name flags),
         ia_write = ia_write flags, ia_overwrite = ia_overwrite flags, ia_provider = provider,
         ia_scale_to_zero = ia_scale_to_zero flags\<rparr>)"

text \<open>\<open>createDeploymentBinding\<close>: the answer to the posted request is decoded and must be a complete binding.\<close>

record PostedBinding = CliBinding +
  po_project_id :: string

definition requireValue :: "string \<Rightarrow> string \<Rightarrow> unit res" where
  "requireValue field value = need (\<not> blank value) (field @ '' is required'')"

definition isOneOf :: "string \<Rightarrow> string list \<Rightarrow> bool" where
  "isOneOf value allowed = list_ex (equal_fold (trim_space value)) allowed"

definition ValidateDeploymentBinding :: "PostedBinding \<Rightarrow> unit res" where
  "ValidateDeploymentBinding b = all_ok
     [requireValue ''deployment_binding.id'' (cb_id b),
      requireValue ''deployment_binding.project_id'' (po_project_id b),
      requireValue ''deployment_binding.name'' (cb_name b),
      requireValue ''deployment_binding.target_ref'' (cb_target_ref b),
      requireValue ''deployment_binding.runtime_mode'' (cb_runtime_mode b),
      need (isOneOf (cb_runtime_mode b) [''standalone'', ''distributed-mesh'', ''distributed-k3s''])
        ''deployment_binding.runtime_mode is invalid'',
      requireValue ''deployment_binding.target_kind'' (cb_target_kind b),
      need (isOneOf (cb_target_kind b) [''instance'', ''mesh'', ''cluster'']) ''deployment_binding.target_kind is invalid'',
      requireValue ''deployment_binding.target_id'' (cb_target_id b)]"

definition createDeploymentBinding ::
    "(string \<Rightarrow> BindingSummary \<Rightarrow> PostedBinding res) \<Rightarrow> string \<Rightarrow> BindingSummary \<Rightarrow> CliBinding res" where
  "createDeploymentBinding post project b =
     res_bind (post project b) (\<lambda>answer.
       case ValidateDeploymentBinding answer of Inl e \<Rightarrow> Inl e | Inr _ \<Rightarrow> Ok (CliBinding.truncate answer))"

definition bind_init ::
    "(string \<Rightarrow> BindingSummary \<Rightarrow> CliBinding res) \<Rightarrow> CliBinding list \<Rightarrow> init_args \<Rightarrow> InitPlan \<Rightarrow> InitPlan res" where
  "bind_init create bindings args plan =
     res_bind (ApplyBindings plan bindings
       \<lparr>bi_binding = ia_binding args, bi_create = ia_create args, bi_binding_name = ia_binding_name args\<rparr>) (\<lambda>p.
     case (ip_selected_project p, ip_selected_binding p) of
       (Some project, Some b) \<Rightarrow>
         if ia_create args \<and> blank (bs_id b)
         then res_bind (create (ps_id project) b) (\<lambda>created.
           ApplyBindings p (bindings @ [created])
             \<lparr>bi_binding = cb_id created, bi_create = False, bi_binding_name = []\<rparr>)
         else Ok p
     | _ \<Rightarrow> Ok p)"

definition missingLazyopsYAMLRequirements :: "InitPlan \<Rightarrow> string list" where
  "missingLazyopsYAMLRequirements plan =
     (if ip_selected_project plan = None then [''project selection''] else []) @
     (if ip_runtime_mode plan = [] then [''runtime mode selection''] else []) @
     (if ip_selected_binding plan = None then [''deployment binding selection''] else [])"

definition generateOptionsFromInitArgs :: "init_args \<Rightarrow> GenerateOptions" where
  "generateOptionsFromInitArgs args =
     \<lparr>go_provider = (if blank (ia_provider args) then [] else ia_provider args), go_magic = None,
      go_preview = None, go_scale = (if ia_scale_to_zero args then Some True else None)\<rparr>"

definition Generate :: "InitPlan \<Rightarrow> GenerateOptions \<Rightarrow> string res" where
  "Generate plan opts = res_bind (BuildDocument plan opts) Render"

text \<open>The text to write, if it is to be written (\<open>validatePreviewAndMaybeWriteLazyopsYAML\<close>).\<close>

definition text_to_write :: "InitPlan \<Rightarrow> init_args \<Rightarrow> string option res" where
  "text_to_write plan args =
     (let missing = missingLazyopsYAMLRequirements plan in
      if missing \<noteq> [] then
        (if ia_write args
         then Fail (Errorf (''cannot write lazyops.yaml yet. next: select '' @ join '', '' missing @
                '' before rerunning `lazyops init --write`''))
         else Ok None)
      else (case Generate plan (generateOptionsFromInitArgs args) of
          Inl e \<Rightarrow> Fail (Wrapped ''lazyops.yaml local validation failed. next: fix the init selections or detected services and retry'' e)
        | Inr payload \<Rightarrow> Ok (if ia_write args then Some payload else None)))"

definition runInit ::
    "RepoScanResult \<Rightarrow> ServiceCandidate list \<Rightarrow>
     (ProjectSummary list \<times> CliTarget list \<times> CliTarget list \<times> CliTarget list) res \<Rightarrow>
     (string \<Rightarrow> CliBinding list res) \<Rightarrow> (string \<Rightarrow> BindingSummary \<Rightarrow> PostedBinding res) \<Rightarrow> init_args \<Rightarrow>
     (InitPlan \<times> string option) res" where
  "runInit scan candidates discovery fetchBindings post flags =
     res_bind (parseInitArgs flags) (\<lambda>args.
     case BuildPlan scan candidates of
       Inl e \<Rightarrow> Fail (Wrapped ''could not build the init plan review. next: fix the detected service layout and retry `lazyops init`'' e)
     | Inr plan \<Rightarrow>
         res_bind discovery (\<lambda>(projects, instances, meshes, clusters).
         res_bind (ApplyDiscovery plan projects instances meshes clusters
           \<lparr>si_project = ia_project args, si_runtime_mode = ia_runtime_mode args, si_target = ia_target args\<rparr>) (\<lambda>plan.
         res_bind (case ip_selected_project plan of
             None \<Rightarrow> Ok plan
           | Some project \<Rightarrow> res_bind (fetchBindings (ps_id project)) (\<lambda>bindings.
               bind_init (createDeploymentBinding post) bindings args plan)) (\<lambda>plan.
         res_bind (text_to_write plan args) (\<lambda>text. Ok (plan, text))))))"

section \<open>The choices of \<open>lazyops init\<close>\<close>

lemma set_mode_frame:
  "set_mode p mode = Inr q \<Longrightarrow> ip_projects q = ip_projects p \<and> ip_targets q = ip_targets p \<and>
     ip_selected_binding q = ip_selected_binding p \<and> ip_services q = ip_services p"
  by (auto simp: set_mode_def split: if_splits sum.splits)

lemma ApplyDiscovery_frame:
  assumes "ApplyDiscovery plan projects instances meshes clusters sel = Inr p"
  shows "ip_projects p = projects \<and> ip_targets p = SummarizeTargets instances meshes clusters \<and>
    ip_selected_binding p = ip_selected_binding plan \<and> ip_services p = ip_services plan"
  using assms
  by (auto simp: ApplyDiscovery_def Let_def res_bind_eq_Inr validated_Ok split: if_splits
      dest!: set_mode_frame select_target_ok)

lemma pickBinding_in: "pickBinding bs sel mode target = Inr b \<Longrightarrow> b \<in> set bs"
  by (auto simp: pickBinding_def Let_def split: option.splits if_splits dest: find_SomeD)

text \<open>What a run of \<open>ApplyBindings\<close> selects, when the plan has a project.\<close>

lemma ApplyBindings_cases [consumes 2, case_names same listed fresh]:
  assumes "ApplyBindings p bindings sel = Inr q" and project: "ip_selected_project p \<noteq> None"
  defines "p' \<equiv> p\<lparr>ip_bindings := SummarizeBindings bindings\<rparr>"
  obtains (same) "q = p'" "blank (bi_binding sel)" "\<not> bi_create sel"
    | (listed) b where "q = p'\<lparr>ip_selected_binding := Some b\<rparr>" "b \<in> set (SummarizeBindings bindings)"
        "\<not> (blank (bi_binding sel) \<and> bi_create sel)"
    | (fresh) t where "q = p'\<lparr>ip_selected_binding := Some (new_binding p' t (bi_binding_name sel))\<rparr>"
        "ip_selected_target p = Some t" "blank (bi_binding sel)" "bi_create sel"
proof -
  have sub: "set (FilterBindingsByTarget bs t) \<subseteq> set bs" "set (FilterBindingsByRuntimeMode bs m) \<subseteq> set bs" for bs t m
    by (auto simp: FilterBindingsByTarget_def FilterBindingsByRuntimeMode_def)
  have one: "(case ip_selected_target p of None \<Rightarrow> f | Some t \<Rightarrow> FilterBindingsByTarget f t) = [b] \<Longrightarrow>
      set f \<subseteq> set (SummarizeBindings bindings) \<Longrightarrow> b \<in> set (SummarizeBindings bindings)" for f b
    using sub(1) by (cases "ip_selected_target p") (force, metis list.set_intros(1) option.simps(5) subsetD)
  let ?f = "if ip_runtime_mode p \<noteq> [] then FilterBindingsByRuntimeMode (SummarizeBindings bindings) (ip_runtime_mode p)
    else SummarizeBindings bindings"
  have f: "set ?f \<subseteq> set (SummarizeBindings bindings)" using sub(2) by simp
  let ?g = "case ip_selected_target p of None \<Rightarrow> ?f | Some t \<Rightarrow> FilterBindingsByTarget ?f t"
  show ?thesis
  proof (cases "blank (bi_binding sel)")
    case False
    then obtain b where "pickBinding (SummarizeBindings bindings) (bi_binding sel) (ip_runtime_mode p) (ip_selected_target p) = Inr b"
      "q = p'\<lparr>ip_selected_binding := Some b\<rparr>"
      using assms(1) project by (auto simp: ApplyBindings_def Let_def res_bind_eq_Inr validated_Ok p'_def)
    with False show ?thesis using listed pickBinding_in by blast
  next
    case blank: True
    show ?thesis
    proof (cases "bi_create sel")
      case True
      then show ?thesis using assms(1) project blank fresh
        by (cases "ip_selected_target p") (simp_all add: ApplyBindings_def Let_def validated_Ok p'_def split: if_splits)
    next
      case False
      then have q: "(case ?g of [b] \<Rightarrow> validated (p'\<lparr>ip_selected_binding := Some b\<rparr>) | _ \<Rightarrow> validated p') = Inr q"
        unfolding p'_def using assms(1) project blank
        by (cases "ip_runtime_mode p = []"; cases "ip_selected_target p") (simp_all add: ApplyBindings_def Let_def)
      show ?thesis
      proof (cases "\<exists>b. ?g = [b]")
        case True
        then obtain b where b: "?g = [b]" by blast
        then show ?thesis using q one [OF b f] False listed by (simp add: validated_Ok)
      next
        case no_one: False
        then have "validated p' = Inr q" using q by (auto split: list.splits)
        with blank False show ?thesis using same by (simp add: validated_Ok)
      qed
    qed
  qed
qed

definition same_choice :: "InitPlan \<Rightarrow> InitPlan \<Rightarrow> bool" where
  "same_choice p q \<longleftrightarrow> ip_projects q = ip_projects p \<and> ip_targets q = ip_targets p \<and>
     ip_selected_project q = ip_selected_project p \<and> ip_selected_target q = ip_selected_target p \<and>
     ip_runtime_mode q = ip_runtime_mode p"

lemma new_binding_mode: "ip_runtime_mode q = ip_runtime_mode p \<Longrightarrow> new_binding q t n = new_binding p t n"
  by (simp add: new_binding_def)

text \<open>
  The binding selected at the end of a run: one of the project's, or, with \<open>--create-binding\<close>, what the
  control plane answered to the request for a new binding of the selected target.
\<close>

definition bound_by :: "(string \<Rightarrow> BindingSummary \<Rightarrow> CliBinding res) \<Rightarrow> ProjectSummary \<Rightarrow> CliBinding list \<Rightarrow> bool \<Rightarrow>
    string \<Rightarrow> InitPlan \<Rightarrow> BindingSummary \<Rightarrow> bool" where
  "bound_by create project bindings new name q b \<longleftrightarrow>
     b \<in> set (SummarizeBindings bindings) \<or>
     (new \<and> (\<exists>t created. ip_selected_target q = Some t \<and> create (ps_id project) (new_binding q t name) = Ok created \<and>
        b \<in> set (SummarizeBindings [created])))"

lemma createDeploymentBinding_Ok:
  "createDeploymentBinding post project b = Inr c \<longleftrightarrow>
     (\<exists>a. post project b = Ok a \<and> ValidateDeploymentBinding a = Ok () \<and> c = CliBinding.truncate a)"
proof -
  have "(case ValidateDeploymentBinding a of Inl e \<Rightarrow> Inl e | Inr _ \<Rightarrow> Ok (CliBinding.truncate a)) = Inr c \<longleftrightarrow>
      ValidateDeploymentBinding a = Ok () \<and> c = CliBinding.truncate a" for a
    by (cases "ValidateDeploymentBinding a") auto
  then show ?thesis by (simp add: createDeploymentBinding_def res_bind_eq_Inr)
qed

lemma createDeploymentBinding_id: "createDeploymentBinding post project b = Inr c \<Longrightarrow> \<not> blank (cb_id c)"
  by (auto simp: createDeploymentBinding_Ok ValidateDeploymentBinding_def requireValue_def CliBinding.truncate_def)

lemma bind_init_outcome:
  assumes run: "bind_init create bindings args p = Inr q" and project: "ip_selected_project p = Some project"
    and none: "ip_selected_binding p = None" and one: "ia_create args \<longrightarrow> blank (ia_binding args)"
    and id: "\<And>project b c. create project b = Inr c \<Longrightarrow> \<not> blank (cb_id c)"
  shows "same_choice p q \<and> (choice_ok p \<longrightarrow> choice_ok q) \<and>
    (\<forall>b. ip_selected_binding q = Some b \<longrightarrow>
       bound_by create project bindings (ia_create args) (ia_binding_name args) q b)"
proof -
  let ?sel = "\<lparr>bi_binding = ia_binding args, bi_create = ia_create args, bi_binding_name = ia_binding_name args\<rparr>"
  obtain p1 where p1: "ApplyBindings p bindings ?sel = Inr p1"
    and rest: "(case (ip_selected_project p1, ip_selected_binding p1) of
        (Some project, Some b) \<Rightarrow>
          if ia_create args \<and> blank (bs_id b)
          then res_bind (create (ps_id project) b) (\<lambda>created.
            ApplyBindings p1 (bindings @ [created])
              \<lparr>bi_binding = cb_id created, bi_create = False, bi_binding_name = []\<rparr>)
          else Ok p1
      | _ \<Rightarrow> Ok p1) = Inr q"
    using run by (auto simp: bind_init_def res_bind_eq_Inr)
  have ok1: "choice_ok p \<longrightarrow> choice_ok p1" using ApplyBindings_choice p1 by blast
  have "ip_selected_project p \<noteq> None" using project by simp
  with p1 show ?thesis
  proof (cases rule: ApplyBindings_cases)
    case same
    have "q = p1" using rest same(3) by (auto split: option.splits)
    with same ok1 none show ?thesis by (simp add: same_choice_def)
  next
    case (listed b)
    with one have "\<not> ia_create args" by auto
    with rest have "q = p1" by (auto split: option.splits)
    with listed ok1 show ?thesis by (simp add: same_choice_def bound_by_def)
  next
    case (fresh t)
    let ?b = "new_binding p t (ia_binding_name args)"
    have p1_choice: "same_choice p p1" and b: "ip_selected_binding p1 = Some ?b" and create: "ia_create args"
      using fresh by (simp_all add: same_choice_def new_binding_def)
    then obtain created where created: "create (ps_id project) ?b = Inr created"
      and q: "ApplyBindings p1 (bindings @ [created])
        \<lparr>bi_binding = cb_id created, bi_create = False, bi_binding_name = []\<rparr> = Inr q"
      using rest project by (auto simp: same_choice_def new_binding_def blank_def trim_space_def
          trim_left_def trim_right_def res_bind_eq_Inr)
    have ok: "choice_ok p \<longrightarrow> choice_ok q" using ApplyBindings_choice q ok1 by blast
    have "ip_selected_project p1 \<noteq> None" using p1_choice project by (simp add: same_choice_def)
    with q show ?thesis
    proof (cases rule: ApplyBindings_cases)
      case same
      with id [OF created] show ?thesis by simp
    next
      case (listed c)
      then have q': "same_choice p q" "ip_selected_binding q = Some c" "ip_selected_target q = Some t"
        using p1_choice b fresh(2) by (simp_all add: same_choice_def)
      then have new: "new_binding q t n = new_binding p t n" for n by (intro new_binding_mode) (simp add: same_choice_def)
      have "c \<in> set (SummarizeBindings bindings) \<or> c \<in> set (SummarizeBindings [created])"
        using listed(2) by (auto simp: SummarizeBindings_def)
      then have "bound_by create project bindings (ia_create args) (ia_binding_name args) q c"
        using created create by (auto simp: bound_by_def new q'(3))
      with q' ok show ?thesis by simp
    qed auto
  qed
qed

lemma text_to_write_Some:
  assumes "text_to_write q args = Inr (Some payload)"
  shows "\<exists>d project b. ip_selected_project q = Some project \<and> ip_selected_binding q = Some b \<and> ip_runtime_mode q \<noteq> [] \<and>
    ValidateDocument d = Ok () \<and> Render d = Ok payload \<and> dc_runtime_mode d = ip_runtime_mode q \<and>
    dc_project_slug d = ps_slug project \<and> dc_target_ref d = bs_target_ref b"
proof -
  from assms obtain d where "BuildDocument q (generateOptionsFromInitArgs args) = Ok d" "Render d = Ok payload"
    by (auto simp: text_to_write_def Generate_def Let_def res_bind_eq_Inr split: if_splits sum.splits)
  moreover from this obtain project b where "ip_selected_project q = Some project" "ip_selected_binding q = Some b"
    "d = plan_document q (ps_slug project) (bs_target_ref b) (generateOptionsFromInitArgs args)" "ValidateDocument d = Ok ()"
    "ip_runtime_mode q \<noteq> []"
    by (auto simp: BuildDocument_def Let_def split: option.splits if_splits sum.splits)
  moreover from this have "dc_runtime_mode d = ip_runtime_mode q \<and> dc_project_slug d = ps_slug project \<and>
      dc_target_ref d = bs_target_ref b"
    by (simp add: plan_document_def Let_def)
  ultimately show ?thesis by blast
qed

lemma validation_decides_document: "ValidateDocument d = Ok () \<longleftrightarrow> wf_document d"
proof -
  let ?names = "map ys_name (dc_services d)"
  have services: "validate_services 0 [] [] (dc_services d) = Ok () \<and>
      (\<forall>s \<in> set (dc_services d).
        \<forall>v \<in> {ys_name s, ys_path s, ys_start_hint s, hc_path (ys_healthcheck s)}. blank v \<or> secret_free v) \<longleftrightarrow>
      list_all wf_service (dc_services d) \<and> distinct ?names \<and> distinct (map ys_path (dc_services d))"
    by (auto simp: validate_services_iff list_all_iff wf_service_iff [symmetric])
  have names: "list_all wf_service (dc_services d) \<Longrightarrow> \<forall>n \<in> set ?names. logicalNamePattern n"
    by (auto simp: list_all_iff wf_service_def)
  have dependencies: "list_all wf_service (dc_services d) \<Longrightarrow> validate_dependencies 0 ?names (dc_dependencies d) = Ok () \<and>
      (\<forall>b \<in> set (dc_dependencies d).
        \<forall>v \<in> {yd_service b, yd_alias b, yd_target_service b, yd_protocol b}. blank v \<or> secret_free v) \<longleftrightarrow>
      list_all (wf_dependency (ys_name ` set (dc_services d))) (dc_dependencies d)"
    using dependency_iff [OF names] by (auto simp: validate_dependencies_iff list_all_iff)
  have endpoints: "list_all (wf_dependency N) (dc_dependencies d) \<Longrightarrow>
      \<forall>b \<in> set (dc_dependencies d). blank (yd_local_endpoint b) \<or> local_endpoint (yd_local_endpoint b)" for N
    by (auto simp: list_all_iff wf_dependency_def)
  have regroup: "(VS \<and> SV \<longleftrightarrow> A \<and> D1 \<and> D2) \<Longrightarrow> (A \<Longrightarrow> VD \<and> DV \<longleftrightarrow> B) \<Longrightarrow> (B \<Longrightarrow> EP) \<Longrightarrow>
      (p \<and> q \<and> r \<and> n \<and> VS \<and> VD \<and> c \<and> m \<and> H \<and> SV \<and> DV \<and> EP) \<longleftrightarrow>
      (p \<and> q \<and> r \<and> n \<and> (A \<and> D1 \<and> D2) \<and> B \<and> c \<and> m \<and> H)" for VS SV A D1 D2 VD DV B EP p q r n c m H
    by blast
  have "ValidateDocument d = Ok () \<longleftrightarrow> projectSlugPattern (dc_project_slug d) \<and>
      (ValidateMode (dc_runtime_mode d) = Ok () \<and> dc_runtime_mode d \<noteq> []) \<and> logicalNamePattern (dc_target_ref d) \<and>
      dc_services d \<noteq> [] \<and> validate_services 0 [] [] (dc_services d) = Ok () \<and>
      validate_dependencies 0 ?names (dc_dependencies d) = Ok () \<and>
      ValidateCompatibilityPolicy (dc_compatibility d) = Ok () \<and> ValidateMagicDomain (dc_magic d) = Ok () \<and>
      validateNoForbiddenValues d = Ok ()"
    using slug_not_blank [of "dc_project_slug d"]
    unfolding ValidateDocument_def all_ok_Cons all_ok_Nil schema_lock_holds target_ref_iff need_Ok by auto
  also have "\<dots> \<longleftrightarrow> projectSlugPattern (dc_project_slug d) \<and>
      (ValidateMode (dc_runtime_mode d) = Ok () \<and> dc_runtime_mode d \<noteq> []) \<and> logicalNamePattern (dc_target_ref d) \<and>
      dc_services d \<noteq> [] \<and>
      (list_all wf_service (dc_services d) \<and> distinct ?names \<and> distinct (map ys_path (dc_services d))) \<and>
      list_all (wf_dependency (ys_name ` set (dc_services d))) (dc_dependencies d) \<and>
      ValidateCompatibilityPolicy (dc_compatibility d) = Ok () \<and> ValidateMagicDomain (dc_magic d) = Ok () \<and>
      (\<forall>v \<in> {dc_project_slug d, dc_runtime_mode d, dc_target_ref d, md_provider (dc_magic d),
            sz_idle_window (dc_scale d), sz_gateway_hold_timeout (dc_scale d)}. blank v \<or> secret_free v)"
    unfolding strings_iff by (rule regroup [OF services dependencies endpoints])
  also have "\<dots> \<longleftrightarrow> wf_document d"
    using slug_not_blank [of "dc_project_slug d"] name_not_blank [of "dc_target_ref d"] mode_secret_free [of "dc_runtime_mode d"]
    unfolding mode_iff magic_iff ValidateCompatibilityPolicy_def need_Ok wf_document_def ball_simps(7) by blast
  finally show ?thesis .
qed

section \<open>Properties\<close>

text \<open>
  Property C29: \<open>Validate\<close> decides the type of contracts. A document is accepted exactly if its project is a slug, its
  mode is one of the three, its target is a logical name, its services have distinct logical names and distinct
  paths that never leave the repository, its dependencies start at a declared service and end at a local endpoint,
  and no text of it holds a secret or an IP address. So the error texts and the order of the checks do not matter
  to what is accepted.
\<close>

theorem validation_decides_type: "ValidateDocument d = Ok () \<longleftrightarrow> wf_document d"
  by (rule validation_decides_document)

text \<open>
  Property C28: \<open>lazyops init\<close> writes only contracts that can be deployed. For all flags, and whatever the scan finds
  and the control plane lists and answers, a text that a run writes is the rendering of a well formed document. It names a
  listed project and the plan's mode, and its target reference is that of a binding with this mode: one the
  project had, or, with \<open>--create-binding\<close>, the one the control plane answered when it was asked for a new
  binding of the selected target. A selected target is one of the listed
  targets, has this mode, was selectable and is the binding's.
\<close>

theorem init_writes_deployable_contracts:
  assumes run: "runInit scan candidates (Ok (projects, instances, meshes, clusters)) fetchBindings post flags = Ok (q, Some payload)"
  shows "\<exists>d project bindings b. Render d = Ok payload \<and> wf_document d \<and> dc_runtime_mode d = ip_runtime_mode q \<and>
    project \<in> set projects \<and> dc_project_slug d = ps_slug project \<and> fetchBindings (ps_id project) = Ok bindings \<and>
    dc_target_ref d = bs_target_ref b \<and> bs_runtime_mode b = dc_runtime_mode d \<and>
    bound_by (createDeploymentBinding post) project bindings (ia_create flags) (trim_space (ia_binding_name flags)) q b \<and>
    (case ip_selected_target q of None \<Rightarrow> True | Some t \<Rightarrow>
       t \<in> set (SummarizeTargets instances meshes clusters) \<and> ts_runtime_mode t = dc_runtime_mode d \<and>
       fst (targetSelectableForProject t (Some project)) \<and> binding_of_target t b)"
proof -
  obtain args plan p where args: "parseInitArgs flags = Ok args" and plan: "BuildPlan scan candidates = Ok plan"
    and p: "ApplyDiscovery plan projects instances meshes clusters
      \<lparr>si_project = ia_project args, si_runtime_mode = ia_runtime_mode args, si_target = ia_target args\<rparr> = Ok p"
    and q: "(case ip_selected_project p of None \<Rightarrow> Ok p
      | Some project \<Rightarrow> res_bind (fetchBindings (ps_id project)) (\<lambda>bindings.
          bind_init (createDeploymentBinding post) bindings args p)) = Ok q"
    and written: "text_to_write q args = Ok (Some payload)"
    using run by (cases "BuildPlan scan candidates") (auto simp: runInit_def res_bind_eq_Inr)
  from text_to_write_Some [OF written] obtain d project b where
    d: "ip_selected_project q = Some project" "ip_selected_binding q = Some b" "ip_runtime_mode q \<noteq> []"
      "ValidateDocument d = Ok ()" and render: "Render d = Ok payload"
    and doc: "dc_runtime_mode d = ip_runtime_mode q" "dc_project_slug d = ps_slug project" "dc_target_ref d = bs_target_ref b"
    by blast
  have a: "ia_create args = ia_create flags" "ia_binding_name args = trim_space (ia_binding_name flags)"
    "ia_create args \<longrightarrow> blank (ia_binding args)"
    using args by (auto simp: parseInitArgs_def res_bind_eq_Inr Let_def blank_def split: if_splits)
  have "ip_selected_binding plan = None" using plan by (auto simp: BuildPlan_def validated_Ok)
  then have p': "ip_projects p = projects" "ip_targets p = SummarizeTargets instances meshes clusters"
    "ip_selected_binding p = None"
    using ApplyDiscovery_frame [OF p] by auto
  have "ip_selected_project p \<noteq> None" using q d(1) by (auto split: option.splits)
  then obtain project' bindings where pp: "ip_selected_project p = Some project'"
    "fetchBindings (ps_id project') = Ok bindings" "bind_init (createDeploymentBinding post) bindings args p = Ok q"
    using q by (auto simp: res_bind_eq_Inr)
  note out = bind_init_outcome [OF pp(3,1) p'(3) a(3) createDeploymentBinding_id]
  then have same: "same_choice p q" and ok: "choice_ok q"
    and bound: "bound_by (createDeploymentBinding post) project' bindings (ia_create args) (ia_binding_name args) q b"
    using ApplyDiscovery_choice [OF p] d(2) by auto
  have project: "project' = project" using same pp(1) d(1) by (simp add: same_choice_def)
  have "project \<in> set projects" using ok same p' d(1) by (auto simp: choice_ok_def same_choice_def)
  moreover have "bs_runtime_mode b = dc_runtime_mode d" using ok d(2,3) by (simp add: choice_ok_def doc(1))
  moreover have "case ip_selected_target q of None \<Rightarrow> True | Some t \<Rightarrow>
      t \<in> set (SummarizeTargets instances meshes clusters) \<and> ts_runtime_mode t = dc_runtime_mode d \<and>
      fst (targetSelectableForProject t (Some project)) \<and> binding_of_target t b"
    using ok same p' d(1,2) by (auto simp: choice_ok_def same_choice_def doc(1) split: option.splits)
  moreover have "wf_document d" using d(4) validation_decides_document by simp
  moreover have "fetchBindings (ps_id project) = Ok bindings" using pp(2) by (simp add: project)
  moreover have "bound_by (createDeploymentBinding post) project bindings (ia_create flags) (trim_space (ia_binding_name flags)) q b"
    using bound by (simp add: project a)
  ultimately show ?thesis using doc render by blast
qed

text \<open>A run with \<open>--create-binding\<close>: the control plane has no binding yet and answers with the one it made.\<close>

definition demo_flags :: init_args where
  "demo_flags = \<lparr>ia_project = ''acme-shop'', ia_runtime_mode = ''standalone'', ia_target = '' prod-1'', ia_binding = [],
     ia_create = True, ia_binding_name = ''main'', ia_write = True, ia_overwrite = False, ia_provider = [],
     ia_scale_to_zero = True\<rparr>"

definition demo_post :: "string \<Rightarrow> BindingSummary \<Rightarrow> PostedBinding res" where
  "demo_post project b = Ok \<lparr>cb_id = ''bind_1'', cb_name = bs_name b, cb_target_ref = bs_target_ref b,
     cb_runtime_mode = bs_runtime_mode b, cb_target_kind = bs_target_kind b, cb_target_id = bs_target_id b,
     po_project_id = project\<rparr>"

definition demo_init :: "(InitPlan \<times> string option) res" where
  "demo_init = runInit \<lparr>sr_repo_root = ''/srv/shop'', sr_monorepo = False\<rparr>
     [\<lparr>sc_name = ''api'', sc_path = ''apps/api'', sc_signals = [], sc_start_hint = [],
       sc_healthcheck = \<lparr>hh_path = [], hh_port = 0\<rparr>, sc_warnings = []\<rparr>]
     (Ok ([\<lparr>ps_id = ''prj_1'', ps_slug = ''acme-shop'', ps_name = ''Shop'', ps_default_branch = ''main''\<rparr>],
       [\<lparr>ct_id = ''inst_1'', ct_name = ''prod-1'', ct_status = ''online''\<rparr>], [], []))
     (\<lambda>project. Ok []) demo_post demo_flags"

theorem init_writes_deployable_contracts_witness:
  "\<exists>q payload d (b :: BindingSummary). demo_init = Ok (q, Some payload) \<and> Render d = Ok payload \<and> wf_document d \<and>
     dc_target_ref d = bs_target_ref b \<and> bs_id b = ''bind_1''"
proof -
  have "(case demo_init of Inr (q, Some payload) \<Rightarrow> True | _ \<Rightarrow> False)" by code_simp
  then obtain q payload where run: "demo_init = Ok (q, Some payload)"
    by (auto split: sum.splits option.splits)
  from init_writes_deployable_contracts [OF run [unfolded demo_init_def]] obtain d project b where
    d: "Render d = Ok payload" "wf_document d" "dc_target_ref d = bs_target_ref b"
      "bound_by (createDeploymentBinding demo_post) project [] (ia_create demo_flags) (trim_space (ia_binding_name demo_flags)) q b"
    by auto
  from d(4) have "bs_id b = ''bind_1''"
    by (auto simp: bound_by_def SummarizeBindings_def createDeploymentBinding_Ok demo_post_def CliBinding.truncate_def)
  with run d show ?thesis by blast
qed

definition loopback_document :: Document where
  "loopback_document = demo_document\<lparr>dc_dependencies := [demo_dependency\<lparr>yd_local_endpoint := ''127.0.0.1:5432''\<rparr>]\<rparr>"

lemma length_double_char: "length (double_char c s) = length s + count_list s c"
  by (induction s) (simp_all add: double_char_def)

lemma quoted_scalar:
  assumes "quote \<in> set v"
  shows "parseMetadataScalar (CHR '' '' # yamlScalar v) = double_char quote v"
proof -
  have "\<not> (alnum quote \<or> quote = CHR ''.'' \<or> quote = CHR ''_'' \<or> quote = CHR ''-'' \<or> quote = CHR ''/'')"
    by code_simp
  then have "\<not> isPlainYAMLScalar v"
    using assms unfolding isPlainYAMLScalar_def list_all_iff by blast
  moreover have "v \<noteq> []" using assms by auto
  ultimately have y: "yamlScalar v = quote # double_char quote v @ [quote]" by (simp add: yamlScalar_def)
  have "trim_space (CHR '' '' # quote # double_char quote v @ [quote]) = quote # double_char quote v @ [quote]"
    by (simp add: trim_space_def trim_left_def trim_right_def quote_def is_space_def)
  then show ?thesis by (simp add: y parseMetadataScalar_def Let_def butlast_append)
qed

text \<open>
  Where the text is not read back. A quote in a free text is written doubled inside quotes, and the reader
  takes the quotes off but leaves it doubled; and a contract with the local endpoint \<open>127.0.0.1\<close>, which validation
  allows, is rendered but refused by the reader as one that holds an IP address.
\<close>

theorem contract_text_gaps:
  "parseMetadataScalar (CHR '' '' # yamlScalar (a @ quote # b)) = double_char quote (a @ quote # b) \<and>
   double_char quote (a @ quote # b) \<noteq> a @ quote # b \<and>
   is_ok (Render loopback_document) \<and> \<not> is_ok (ParseDocument (unlines (document_lines loopback_document)))"
proof -
  have "list_ex ipv4Pattern (document_lines loopback_document)" by code_simp
  then have "ipv4Pattern (unlines (document_lines loopback_document))"
    by (auto simp: ipv4_unlines list_ex_iff)
  then have "validatePayloadSecurity (unlines (document_lines loopback_document)) \<noteq> Ok ()"
    by (simp add: validatePayloadSecurity_def)
  then have "\<not> is_ok (ParseDocument (unlines (document_lines loopback_document)))"
    by (auto simp: ParseDocument_def split: sum.splits)
  moreover have "is_ok (ValidateDocument loopback_document)" by code_simp
  then have "is_ok (Render loopback_document)" by (auto simp: Render_def is_ok_iff)
  moreover have "double_char quote (a @ quote # b) \<noteq> a @ quote # b"
    using length_double_char [of quote "a @ quote # b"] by (metis add_cancel_right_right count_list_0_iff in_set_conv_decomp)
  ultimately show ?thesis using quoted_scalar [of "a @ quote # b"] by simp
qed

end
