(* ===== verification/Dispatcher.thy ===== *)
theory Dispatcher
  imports CommandTracker GoFmt
begin

text \<open>
  The command dispatcher of the agent, \<open>agent/internal/dispatcher/dispatcher.go\<close>, with the commands and
  messages of \<open>agent/internal/contracts/commands.go\<close> and \<open>control.go\<close>. A handler changes the agent's state
  \<open>'s\<close> and returns a result. The response writer may fail at any call, depending on all it was given before;
  what it took is the list \<open>sent\<close>. \<open>deliver\<close> is the control plane's side of the wire
  (\<open>runControlLoop\<close> in \<open>agent_control_controller.go\<close>): the JSON names of the agent's structures and of the
  controller's agree field by field, and \<open>omitempty\<close> drops an empty map.
\<close>

section \<open>Commands\<close>

definition MinimumCommandSet :: "string list" where
  "MinimumCommandSet =
     [''reconcile_revision'', ''prepare_release_workspace'', ''ensure_mesh_peer'',
      ''sync_overlay_routes'', ''render_sidecars'', ''render_gateway_config'',
      ''provision_internal_services'', ''start_release_candidate'', ''run_health_gate'',
      ''promote_release'', ''rollback_release'', ''wake_service'',
      ''sleep_service'', ''report_topology_state'', ''report_trace_summary'',
      ''report_metric_rollup'', ''report_log_batch'', ''garbage_collect_runtime'',
      ''restart_k3s_service'', ''label_k3s_node'']"

record CommandHandlerSpec =
  hs_command :: string
  hs_module :: string
  hs_handler_key :: string
  hs_description :: string

definition spec :: "string \<Rightarrow> string \<Rightarrow> string \<Rightarrow> string \<Rightarrow> string \<times> CommandHandlerSpec" where
  "spec c m k d = (c, \<lparr>hs_command = c, hs_module = m, hs_handler_key = k, hs_description = d\<rparr>)"

definition CommandHandlerBindings :: "string \<rightharpoonup> CommandHandlerSpec" where
  "CommandHandlerBindings = map_of
     [spec ''reconcile_revision'' ''instance/deploy'' ''deploy.reconcile_revision''
        ''Entry point for revision reconciliation and downstream rollout work.'',
      spec ''prepare_release_workspace'' ''instance/runtime'' ''runtime.prepare_release_workspace''
        ''Prepare local revision workspace, assets, and rendered config directories.'',
      spec ''ensure_mesh_peer'' ''instance/mesh'' ''mesh.ensure_mesh_peer''
        ''Ensure the desired peer exists and matches provider state.'',
      spec ''sync_overlay_routes'' ''instance/mesh'' ''mesh.sync_overlay_routes''
        ''Sync mesh routes from placement and peer health state.'',
      spec ''render_sidecars'' ''instance/sidecar'' ''sidecar.render_sidecars''
        ''Render sidecar configuration from compatibility and dependency policies.'',
      spec ''render_gateway_config'' ''instance/gateway'' ''gateway.render_gateway_config''
        ''Render Caddy gateway configuration for public ingress and traffic shift.'',
      spec ''provision_internal_services'' ''instance/internal_services'' ''internal_services.provision''
        ''Provision project internal services (postgres/mysql/redis/rabbitmq) on target instance.'',
      spec ''start_release_candidate'' ''instance/deploy'' ''deploy.start_release_candidate''
        ''Start the candidate workload for a desired revision.'',
      spec ''run_health_gate'' ''instance/health'' ''health.run_health_gate''
        ''Run rollout health checks and report promotable state.'',
      spec ''promote_release'' ''instance/deploy'' ''deploy.promote_release''
        ''Promote a healthy candidate and shift traffic.'',
      spec ''rollback_release'' ''instance/rollback'' ''rollback.rollback_release''
        ''Return traffic to the last known stable revision.'',
      spec ''wake_service'' ''instance/autosleep'' ''autosleep.wake_service''
        ''Wake a sleeping service workload so held requests can resume.'',
      spec ''sleep_service'' ''instance/autosleep'' ''autosleep.sleep_service''
        ''Sleep a workload that has opted into scale-to-zero.'',
      spec ''report_topology_state'' ''telemetry/topology'' ''topology.report_topology_state''
        ''Report service placement, node health, gateway health, and mesh health.'',
      spec ''report_trace_summary'' ''telemetry/tracing'' ''tracing.report_trace_summary''
        ''Report summarized request trace hops and latency signals.'',
      spec ''report_metric_rollup'' ''telemetry/metrics'' ''metrics.report_metric_rollup''
        ''Report edge-downsampled metric windows to the backend.'',
      spec ''report_log_batch'' ''telemetry/logs'' ''logs.report_log_batch''
        ''Report filtered log excerpts and incident-relevant log snippets.'',
      spec ''garbage_collect_runtime'' ''instance/runtime'' ''runtime.garbage_collect_runtime''
        ''Clean stale workspaces, revisions, and rendered runtime artifacts.'',
      spec ''restart_k3s_service'' ''instance/deploy'' ''deploy.restart_k3s_service''
        ''Restart a specific Kubernetes deployment inside a managed K3s namespace.'',
      spec ''label_k3s_node'' ''instance/cluster'' ''cluster.label_k3s_node''
        ''Label a Kubernetes node so service placement can pin workloads by LazyOps instance id.'']"

section \<open>Messages\<close>

record AgentEnvelope =
  ae_type :: string
  ae_request_id :: string
  ae_correlation_id :: string
  ae_agent_id :: string
  ae_project_id :: string
  ae_revision_id :: string
  ae_source :: string
  ae_occurred_at :: time
  ae_payload :: string

record CommandAckEnvelope =
  ak_type :: string
  ak_request_id :: string
  ak_correlation_id :: string
  ak_agent_id :: string
  ak_command_type :: string
  ak_status :: string
  ak_source :: string
  ak_occurred_at :: time
  ak_summary :: string
  ak_details :: "entries option"

record CommandNackEnvelope =
  nk_type :: string
  nk_request_id :: string
  nk_correlation_id :: string
  nk_agent_id :: string
  nk_command_type :: string
  nk_code :: string
  nk_message :: string
  nk_source :: string
  nk_occurred_at :: time
  nk_details :: "entries option"

record CommandErrorEnvelope =
  er_type :: string
  er_request_id :: string
  er_correlation_id :: string
  er_agent_id :: string
  er_command_type :: string
  er_code :: string
  er_message :: string
  er_retryable :: bool
  er_source :: string
  er_occurred_at :: time
  er_details :: "entries option"

datatype agent_message =
  SendCommandAck CommandAckEnvelope | SendCommandNack CommandNackEnvelope | SendCommandError CommandErrorEnvelope

section \<open>Results\<close>

record DispatchError =
  de_code :: string
  de_message :: string
  de_retryable :: bool
  de_details :: "entries option"

record Result =
  rs_status :: string
  rs_summary :: string
  rs_details :: "entries option"
  rs_error :: "DispatchError option"

definition Done :: "string \<Rightarrow> Result" where
  "Done summary = \<lparr>rs_status = ''done'', rs_summary = summary, rs_details = None, rs_error = None\<rparr>"

definition DoneWithDetails :: "string \<Rightarrow> entries option \<Rightarrow> Result" where
  "DoneWithDetails summary details =
     \<lparr>rs_status = ''done'', rs_summary = summary, rs_details = details, rs_error = None\<rparr>"

definition Retryable :: "string \<Rightarrow> string \<Rightarrow> entries option \<Rightarrow> Result" where
  "Retryable code message details = \<lparr>rs_status = [], rs_summary = [], rs_details = None,
     rs_error = Some \<lparr>de_code = code, de_message = message, de_retryable = True, de_details = details\<rparr>\<rparr>"

definition NonRetryable :: "string \<Rightarrow> string \<Rightarrow> entries option \<Rightarrow> Result" where
  "NonRetryable code message details = \<lparr>rs_status = [], rs_summary = [], rs_details = None,
     rs_error = Some \<lparr>de_code = code, de_message = message, de_retryable = False, de_details = details\<rparr>\<rparr>"

definition UnknownCommandResult :: "string \<Rightarrow> Result" where
  "UnknownCommandResult command = NonRetryable ''command_not_supported''
     (''command '' @ go_quote command @ '' is not registered'') (Some [(''command_type'', AnyStr command)])"

section \<open>The registry\<close>

type_synonym 's handler = "AgentEnvelope \<Rightarrow> 's \<Rightarrow> Result \<times> 's"
type_synonym 's command_registry = "string \<rightharpoonup> 's handler"

definition RegisterHandler :: "string \<Rightarrow> 's handler \<Rightarrow> 's command_registry \<Rightarrow> 's command_registry" where
  "RegisterHandler command h r = r(command \<mapsto> h)"

definition pending_handler :: "CommandHandlerSpec \<Rightarrow> 's handler" where
  "pending_handler sp env s =
     (NonRetryable ''command_not_implemented'' ''handler is registered but implementation is still pending''
        (Some [(''module'', AnyStr (hs_module sp)), (''handler_key'', AnyStr (hs_handler_key sp)),
               (''command'', AnyStr (hs_command sp))]), s)"

text \<open>The Go map yields a zero value for a command without a binding.\<close>

definition zero_spec :: CommandHandlerSpec where
  "zero_spec = \<lparr>hs_command = [], hs_module = [], hs_handler_key = [], hs_description = []\<rparr>"

definition NewDefaultRegistry :: "'s command_registry" where
  "NewDefaultRegistry = fold (\<lambda>c. RegisterHandler c (pending_handler
       (case CommandHandlerBindings c of None \<Rightarrow> zero_spec | Some sp \<Rightarrow> sp))) MinimumCommandSet Map.empty"

section \<open>Dispatching\<close>

definition newAck :: "time \<Rightarrow> AgentEnvelope \<Rightarrow> string \<Rightarrow> string \<Rightarrow> entries option \<Rightarrow> CommandAckEnvelope" where
  "newAck now env status summary details =
     \<lparr>ak_type = ''command.ack'', ak_request_id = ae_request_id env, ak_correlation_id = ae_correlation_id env,
      ak_agent_id = ae_agent_id env, ak_command_type = ae_type env, ak_status = status, ak_source = ''agent'',
      ak_occurred_at = now, ak_summary = summary, ak_details = details\<rparr>"

definition newNack :: "time \<Rightarrow> AgentEnvelope \<Rightarrow> string \<Rightarrow> string \<Rightarrow> entries option \<Rightarrow> CommandNackEnvelope" where
  "newNack now env code message details =
     \<lparr>nk_type = ''command.nack'', nk_request_id = ae_request_id env, nk_correlation_id = ae_correlation_id env,
      nk_agent_id = ae_agent_id env, nk_command_type = ae_type env, nk_code = code, nk_message = message,
      nk_source = ''agent'', nk_occurred_at = now, nk_details = details\<rparr>"

definition newError :: "time \<Rightarrow> AgentEnvelope \<Rightarrow> DispatchError \<Rightarrow> CommandErrorEnvelope" where
  "newError now env e =
     (let code = trim_space (de_code e); message = trim_space (de_message e) in
      \<lparr>er_type = ''command.error'', er_request_id = ae_request_id env, er_correlation_id = ae_correlation_id env,
       er_agent_id = ae_agent_id env, er_command_type = ae_type env,
       er_code = (if code = [] then ''command_handler_failed'' else code),
       er_message = (if message = [] then ''command handler failed'' else message),
       er_retryable = de_retryable e, er_source = ''agent'', er_occurred_at = now, er_details = de_details e\<rparr>)"

definition validateEnvelope :: "time \<Rightarrow> AgentEnvelope \<Rightarrow> CommandNackEnvelope option" where
  "validateEnvelope now env =
     (if ae_source env \<noteq> ''backend''
      then Some (newNack now env ''invalid_source'' ''dispatcher only accepts backend command envelopes''
        (Some [(''source'', AnyStr (ae_source env))]))
      else if trim_space (ae_request_id env) = []
      then Some (newNack now env ''missing_request_id'' ''command envelope is missing request_id'' None)
      else if trim_space (ae_correlation_id env) = []
      then Some (newNack now env ''missing_correlation_id'' ''command envelope is missing correlation_id'' None)
      else if trim_space (ae_type env) = []
      then Some (newNack now env ''missing_command_type'' ''command envelope is missing type'' None)
      else None)"

type_synonym writer = "agent_message list \<Rightarrow> agent_message \<Rightarrow> go_err option"

definition write_message :: "writer \<Rightarrow> agent_message \<Rightarrow> agent_message list \<Rightarrow> go_err option \<times> agent_message list" where
  "write_message w m sent = (case w sent m of None \<Rightarrow> (None, sent @ [m]) | Some e \<Rightarrow> (Some e, sent))"

definition handler_reply :: "time \<Rightarrow> AgentEnvelope \<Rightarrow> Result \<Rightarrow> agent_message" where
  "handler_reply now env result =
     (case rs_error result of
        Some e \<Rightarrow> SendCommandError (newError now env e)
      | None \<Rightarrow>
          let status = (if rs_status result = [] then ''done'' else rs_status result);
              summary = trim_space (rs_summary result)
          in SendCommandAck (newAck now env status (if summary = [] then ''command completed'' else summary)
               (rs_details result)))"

text \<open>\<open>t1\<close> and \<open>t2\<close> are the clock at the first and the second message.\<close>

definition Dispatch ::
    "time \<Rightarrow> time \<Rightarrow> 's command_registry \<Rightarrow> writer \<Rightarrow> AgentEnvelope \<Rightarrow> 's \<times> agent_message list \<Rightarrow>
     go_err option \<times> 's \<times> agent_message list" where
  "Dispatch t1 t2 registry w env st =
     (case st of (s, sent) \<Rightarrow>
       (case validateEnvelope t1 env of
          Some nack \<Rightarrow> (case write_message w (SendCommandNack nack) sent of (e, sent') \<Rightarrow> (e, s, sent'))
        | None \<Rightarrow>
            (case registry (ae_type env) of
               None \<Rightarrow>
                 (case write_message w (SendCommandNack (newNack t1 env ''command_not_supported''
                      ''no handler is registered for the requested command''
                      (Some [(''command_type'', AnyStr (ae_type env))]))) sent of (e, sent') \<Rightarrow> (e, s, sent'))
             | Some handle \<Rightarrow>
                 (case write_message w (SendCommandAck (newAck t1 env ''accepted''
                      ''command accepted by dispatcher'' None)) sent of
                    (Some e, sent') \<Rightarrow> (Some e, s, sent')
                  | (None, sent') \<Rightarrow>
                      (case handle env s of (result, s') \<Rightarrow>
                        (case write_message w (handler_reply t2 env result) sent' of
                           (e, sent'') \<Rightarrow> (e, s', sent'')))))))"

section \<open>At the control plane\<close>

definition json_details :: "entries option \<Rightarrow> entries option" where
  "json_details d = (case d of Some [] \<Rightarrow> None | _ \<Rightarrow> d)"

definition blank_reply :: agent_reply where
  "blank_reply = \<lparr>ar_request_id = [], ar_status = [], ar_output = [], ar_error = [], ar_code = [],
     ar_message = [], ar_summary = [], ar_retryable = False, ar_details = None\<rparr>"

fun as_reply :: "agent_message \<Rightarrow> string \<times> agent_reply" where
  "as_reply (SendCommandAck a) = (ak_type a, blank_reply\<lparr>ar_request_id := ak_request_id a,
     ar_status := ak_status a, ar_summary := ak_summary a, ar_details := json_details (ak_details a)\<rparr>)"
| "as_reply (SendCommandNack n) = (nk_type n, blank_reply\<lparr>ar_request_id := nk_request_id n,
     ar_code := nk_code n, ar_message := nk_message n, ar_details := json_details (nk_details n)\<rparr>)"
| "as_reply (SendCommandError e) = (er_type e, blank_reply\<lparr>ar_request_id := er_request_id e,
     ar_code := er_code e, ar_message := er_message e, ar_retryable := er_retryable e,
     ar_details := json_details (er_details e)\<rparr>)"

definition deliver :: "time \<Rightarrow> agent_message \<Rightarrow> tracker_call option" where
  "deliver now m =
     (case as_reply m of (ty, r) \<Rightarrow>
        if ty = ''command_response'' then handleCommandResponse now (Some r)
        else if ty = ''command.ack'' then handleCommandAck now (Some r)
        else if ty = ''command.nack'' then handleCommandNack now (Some r)
        else if ty = ''command.error'' then handleCommandError now (Some r)
        else None)"

section \<open>The script of a dispatch\<close>

text \<open>The messages a dispatch sends when the writer takes all of them.\<close>

definition dispatch_script :: "time \<Rightarrow> time \<Rightarrow> 's command_registry \<Rightarrow> AgentEnvelope \<Rightarrow> 's \<Rightarrow> agent_message list" where
  "dispatch_script t1 t2 registry env s =
     (case validateEnvelope t1 env of
        Some nack \<Rightarrow> [SendCommandNack nack]
      | None \<Rightarrow> (case registry (ae_type env) of
          None \<Rightarrow> [SendCommandNack (newNack t1 env ''command_not_supported''
            ''no handler is registered for the requested command'' (Some [(''command_type'', AnyStr (ae_type env))]))]
        | Some handle \<Rightarrow>
            [SendCommandAck (newAck t1 env ''accepted'' ''command accepted by dispatcher'' None),
             handler_reply t2 env (fst (handle env s))]))"

text \<open>The reference: hand the messages over in order, up to the first the writer refuses.\<close>

fun write_script ::
  "writer \<Rightarrow> agent_message list \<Rightarrow> agent_message list \<Rightarrow> go_err option \<times> agent_message list" where
  "write_script w [] sent = (None, sent)"
| "write_script w (m # ms) sent =
     (case w sent m of Some e \<Rightarrow> (Some e, sent) | None \<Rightarrow> write_script w ms (sent @ [m]))"

definition accepts :: "'s command_registry \<Rightarrow> AgentEnvelope \<Rightarrow> 's handler option" where
  "accepts registry env = (if validateEnvelope 0 env = None then registry (ae_type env) else None)"

lemma validateEnvelope_clock: "validateEnvelope now env = None \<longleftrightarrow> validateEnvelope 0 env = None"
  by (simp add: validateEnvelope_def)

definition settles :: "Result \<Rightarrow> bool" where
  "settles r \<longleftrightarrow> rs_error r \<noteq> None \<or> rs_status r \<in> {[], ''done''}"

definition succeeds :: "Result \<Rightarrow> bool" where
  "succeeds r \<longleftrightarrow> rs_error r = None \<and> rs_status r \<in> {[], ''done''}"

lemma succeeds_settles: "succeeds r \<Longrightarrow> settles r"
  by (simp add: succeeds_def settles_def)

text \<open>What the tracker gets from an envelope's script.\<close>

lemma reply_update:
  assumes "ae_request_id env = rid" "rid \<noteq> []"
  shows "\<exists>call out err. deliver now (handler_reply t2 env r) = Some call \<and>
    updates_of rid [call] = [(if succeeds r then CommandStateDone else if settles r then CommandStateFailed
      else CommandStateRunning, out, err)] \<and> keeps_request rid call"
  using assms
  by (cases "rs_error r")
    (auto simp: handler_reply_def Let_def deliver_def newAck_def newError_def blank_reply_def
      handleCommandAck_def handleCommandError_def succeeds_def settles_def)

lemma accepted_update:
  assumes "ae_request_id env = rid" "rid \<noteq> []"
  shows "\<exists>call out err. deliver now (SendCommandAck (newAck t1 env ''accepted'' summary d)) = Some call \<and>
    updates_of rid [call] = [(CommandStateRunning, out, err)] \<and> keeps_request rid call"
  using assms by (auto simp: deliver_def newAck_def blank_reply_def handleCommandAck_def)

lemma nack_update:
  assumes "nk_request_id n = rid" "rid \<noteq> []" "nk_type n = ''command.nack''"
  shows "\<exists>call out err. deliver now (SendCommandNack n) = Some call \<and>
    updates_of rid [call] = [(CommandStateFailed, out, err)] \<and> keeps_request rid call"
  using assms by (auto simp: deliver_def blank_reply_def handleCommandNack_def)

lemma validateEnvelope_nack:
  "validateEnvelope now env = Some n \<Longrightarrow> nk_request_id n = ae_request_id env \<and> nk_type n = ''command.nack''"
  by (auto simp: validateEnvelope_def newNack_def split: if_splits)

lemma script_updates:
  assumes "ae_request_id env = rid" "rid \<noteq> []"
  shows "\<exists>us. updates_of rid (List.map_filter (deliver now) (dispatch_script t1 t2 registry env s)) = us \<and> us \<noteq> [] \<and>
    ((\<exists>u \<in> set us. final_update u) \<longleftrightarrow> (case accepts registry env of None \<Rightarrow> True | Some h \<Rightarrow> settles (fst (h env s)))) \<and>
    (fst (last us) = CommandStateDone \<longleftrightarrow> (case accepts registry env of None \<Rightarrow> False | Some h \<Rightarrow> succeeds (fst (h env s))))"
proof (cases "validateEnvelope t1 env")
  case (Some n)
  with nack_update [of n rid now] validateEnvelope_nack [OF Some] assms validateEnvelope_clock [of t1 env] show ?thesis
    by (auto simp: dispatch_script_def accepts_def List.map_filter_simps final_update_def)
next
  case None
  then have ok: "validateEnvelope 0 env = None" using validateEnvelope_clock by blast
  show ?thesis
  proof (cases "registry (ae_type env)")
    case None
    with nack_update [of "newNack t1 env ''command_not_supported''
       ''no handler is registered for the requested command'' (Some [(''command_type'', AnyStr (ae_type env))])" rid now]
      assms ok \<open>validateEnvelope t1 env = None\<close> show ?thesis
      by (auto simp: dispatch_script_def accepts_def List.map_filter_simps final_update_def newNack_def)
  next
    case (Some h)
    obtain a b out err out' err' where
      "deliver now (SendCommandAck (newAck t1 env ''accepted'' ''command accepted by dispatcher'' None)) = Some a"
      "updates_of rid [a] = [(CommandStateRunning, out, err)]"
      "deliver now (handler_reply t2 env (fst (h env s))) = Some b"
      "updates_of rid [b] = [(if succeeds (fst (h env s)) then CommandStateDone
         else if settles (fst (h env s)) then CommandStateFailed else CommandStateRunning, out', err')]"
      using accepted_update [OF assms] reply_update [OF assms] by metis
    then show ?thesis
      using Some ok \<open>validateEnvelope t1 env = None\<close> succeeds_settles updates_of_Cons [of rid a "[b]"]
      by (auto simp: dispatch_script_def accepts_def List.map_filter_simps final_update_def)
  qed
qed

section \<open>The default registry\<close>

lemma fold_register:
  "fold (\<lambda>c. RegisterHandler c (f c)) cs m c = (if c \<in> set cs then Some (f c) else m c)"
  by (induction cs arbitrary: m) (auto simp: RegisterHandler_def)

lemma default_registry:
  "NewDefaultRegistry c = (if c \<in> set MinimumCommandSet then Some (pending_handler
     (case CommandHandlerBindings c of None \<Rightarrow> zero_spec | Some sp \<Rightarrow> sp)) else None)"
  unfolding NewDefaultRegistry_def by (subst fold_register) simp

lemma same_commands: "set MinimumCommandSet = set ValidAgentCommands"
  by code_simp

lemma every_command_bound:
  "\<forall>c \<in> set MinimumCommandSet. case CommandHandlerBindings c of None \<Rightarrow> False | Some sp \<Rightarrow> hs_command sp = c"
  by code_simp

section \<open>Writing\<close>

lemma write_message_eq: "write_message w m sent = (w sent m, if w sent m = None then sent @ [m] else sent)"
  by (auto simp: write_message_def split: option.splits)

lemma rejected_dispatch:
  assumes "\<not> (validateEnvelope t1 env = None \<and> registry (ae_type env) \<noteq> None)"
  shows "\<exists>m. dispatch_script t1 t2 registry env s = [m] \<and>
    Dispatch t1 t2 registry w env (s, sent) = (w sent m, s, if w sent m = None then sent @ [m] else sent)"
proof (cases "validateEnvelope t1 env")
  case None
  with assms have "registry (ae_type env) = None" by simp
  with None show ?thesis by (simp add: Dispatch_def dispatch_script_def write_message_eq)
next
  case (Some n)
  then show ?thesis by (simp add: Dispatch_def dispatch_script_def write_message_eq)
qed

lemma dispatch_all_sent:
  "\<exists>s'. Dispatch t1 t2 registry (\<lambda>_ _. None) env (s, []) = (None, s', dispatch_script t1 t2 registry env s)"
  by (auto simp: Dispatch_def dispatch_script_def write_message_eq split: option.splits prod.splits)

section \<open>Properties\<close>

text \<open>
  Property C31: for every writer, registry and envelope, a dispatch is the plain loop that hands the messages
  of its script to the writer in order and stops at the first error of the writer: it returns that error, or
  nil if the writer took all of them, and the writer has taken exactly the messages before the error. The
  script is one nack for an invalid or unknown command, and otherwise the acknowledgement \<open>accepted\<close> and the
  handler's answer, an acknowledgement or an error. The agent's state changes only by the handler, which runs
  once, only for an accepted command and only if the writer took the acknowledgement.
\<close>

theorem dispatch_follows_script:
  "Dispatch t1 t2 registry w env (s, sent) =
     (let script = dispatch_script t1 t2 registry env s
      in (fst (write_script w script sent),
          (case accepts registry env of
             None \<Rightarrow> s
           | Some h \<Rightarrow> if w sent (hd script) = None then snd (h env s) else s),
          snd (write_script w script sent)))"
proof (cases "validateEnvelope t1 env = None \<and> registry (ae_type env) \<noteq> None")
  case True
  then obtain h where h: "registry (ae_type env) = Some h" "validateEnvelope t1 env = None" "accepts registry env = Some h"
    by (auto simp: accepts_def simp flip: validateEnvelope_clock [of t1 env])
  then show ?thesis
    by (cases "h env s") (simp add: Dispatch_def dispatch_script_def write_message_eq Let_def split: option.split)
next
  case False
  then have "accepts registry env = None"
    by (auto simp: accepts_def simp flip: validateEnvelope_clock [of t1 env])
  moreover obtain m where "dispatch_script t1 t2 registry env s = [m]"
    "Dispatch t1 t2 registry w env (s, sent) = (w sent m, s, if w sent m = None then sent @ [m] else sent)"
    using rejected_dispatch [where ?t1.0 = t1 and registry = registry and env = env, OF False, of t2 s w sent] by blast
  ultimately show ?thesis by (cases "w sent m") (simp_all add: Let_def)
qed

definition demo_envelope :: AgentEnvelope where
  "demo_envelope = \<lparr>ae_type = ''run_health_gate'', ae_request_id = ''req_1'', ae_correlation_id = ''c'',
     ae_agent_id = ''a'', ae_project_id = ''p'', ae_revision_id = [], ae_source = ''backend'', ae_occurred_at = 1,
     ae_payload = []\<rparr>"

definition demo_registry :: "nat command_registry" where
  "demo_registry = RegisterHandler ''run_health_gate'' (\<lambda>env n. (Done '' healthy '', n + 1)) Map.empty"

text \<open>
  Property C32: what the messages of a fully sent dispatch do to a waiting command. The command is tracked and
  its channel is open; the dispatch sent its whole script (it returned nil); all its messages, and no other
  update of this request, reach the tracker, which meanwhile serves any calls for other requests: the request
  is not registered again or cleaned up, and its waiter does not time out. Then the channel is closed exactly
  if the command was rejected, its handler failed, or its handler reported completion, and the command is done
  exactly if it was accepted and its handler succeeded. A handler that reports another status, such as
  \<open>running\<close>, leaves the channel open.
\<close>

theorem dispatched_command_settles:
  assumes "tracker_inv t" and "ct_commands t rid = Some c" and "ct_ready t rid = Some ch" and "ch \<notin> ct_closed t"
    and "ae_request_id env = rid" and "rid \<noteq> []"
    and "Dispatch t1 t2 registry w env (s, []) = (None, s', msgs)"
    and "\<forall>e \<in> set es. keeps_request rid e"
    and "updates_of rid es = updates_of rid (List.map_filter (deliver now) msgs)"
    and "run tracker_step es (Some t) = Some t'"
  shows "(ch \<in> ct_closed t' \<longleftrightarrow> (case accepts registry env of None \<Rightarrow> True | Some h \<Rightarrow> settles (fst (h env s)))) \<and>
    (\<exists>c'. ct_commands t' rid = Some c' \<and> tc_command_type c' = tc_command_type c \<and>
      (tc_state c' = CommandStateDone \<longleftrightarrow>
        (case accepts registry env of None \<Rightarrow> False | Some h \<Rightarrow> succeeds (fst (h env s)))))"
proof -
  have script: "msgs = dispatch_script t1 t2 registry env s"
    using assms(7)
    by (auto simp: Dispatch_def dispatch_script_def write_message_def split: option.splits prod.splits)
  obtain us where us: "updates_of rid es = us" "us \<noteq> []"
    "(\<exists>u \<in> set us. final_update u) \<longleftrightarrow> (case accepts registry env of None \<Rightarrow> True | Some h \<Rightarrow> settles (fst (h env s)))"
    "fst (last us) = CommandStateDone \<longleftrightarrow> (case accepts registry env of None \<Rightarrow> False | Some h \<Rightarrow> succeeds (fst (h env s)))"
    using script_updates [OF assms(5,6), of now t1 t2 registry s] assms(9) script by auto
  have last: "last (x # us) = last us" for x using us(2) by simp
  obtain c' where c': "ct_commands t' rid = Some c'" "tc_command_type c' = tc_command_type c" "tc_report c' = last us"
    "ch \<in> ct_closed t' \<longleftrightarrow> (\<exists>u \<in> set us. final_update u)"
    using run_tracker_request [OF assms(1,8,3,2,10)] assms(4) unfolding us(1) last by blast
  from c'(3) have "tc_state c' = fst (last us)" by (simp add: tc_report_def flip: c'(3))
  with c' us(3,4) show ?thesis by simp
qed

definition demo_tracked :: CommandTracker where
  "demo_tracked = Register 5 ''req_1'' ''a'' ''run_health_gate'' NewCommandTracker"

definition demo_calls :: "tracker_call list" where
  "demo_calls = List.map_filter (deliver 7) (dispatch_script 1 2 demo_registry demo_envelope 0)"

theorem dispatched_command_settles_witness:
  "0 \<in> ct_closed (the (run tracker_step demo_calls (Some demo_tracked)))"
proof -
  let ?t' = "the (run tracker_step demo_calls (Some demo_tracked))"
  have run: "run tracker_step demo_calls (Some demo_tracked) = Some ?t'"
    by (rule option.collapse [symmetric])
      (simp add: demo_calls_def demo_tracked_def dispatch_script_def validateEnvelope_def demo_envelope_def
        demo_registry_def RegisterHandler_def List.map_filter_simps deliver_def newAck_def blank_reply_def
        handleCommandAck_def handler_reply_def Done_def Register_def UpdateState_def close_chan_def Let_def trim_space_Cons is_space_def)
  have reg: "ct_commands demo_tracked ''req_1'' \<noteq> None" "ct_ready demo_tracked ''req_1'' = Some 0"
    "0 \<notin> ct_closed demo_tracked"
    unfolding demo_tracked_def by (simp_all add: Register_def NewCommandTracker_def)
  have inv: "tracker_inv demo_tracked"
    unfolding demo_tracked_def by (intro inv_step)
  obtain s' where "Dispatch 1 2 demo_registry (\<lambda>_ _. None) demo_envelope (0, []) =
      (None, s', dispatch_script 1 2 demo_registry demo_envelope 0)"
    using dispatch_all_sent [of 1 2 demo_registry demo_envelope 0] by blast
  moreover have "\<forall>e \<in> set demo_calls. keeps_request ''req_1'' e" by code_simp
  moreover have "\<exists>h. accepts demo_registry demo_envelope = Some h \<and> settles (fst (h demo_envelope 0))"
    by (simp add: accepts_def validateEnvelope_def demo_envelope_def demo_registry_def RegisterHandler_def Done_def settles_def
        trim_space_Cons is_space_def)
  ultimately show ?thesis
    using dispatched_command_settles [of demo_tracked "''req_1''" _ 0 demo_envelope 1 2 demo_registry "\<lambda>_ _. None" 0 s'
      _ demo_calls 7, OF inv _ reg(2,3) _ _ _ _ _ run] reg(1)
    by (fastforce simp: demo_calls_def demo_envelope_def)
qed

text \<open>
  Control plane and agent name the same commands, and each has a binding. A new agent's registry knows
  exactly these, and answers every well-formed command with \<open>accepted\<close> and then the non-retryable error
  \<open>command_not_implemented\<close> that names the module the command is bound to.
\<close>

theorem default_registry_answers:
  "set MinimumCommandSet = {c. IsValidAgentCommand c} \<and> dom NewDefaultRegistry = set MinimumCommandSet \<and>
   (validateEnvelope t1 env = None \<and> IsValidAgentCommand (ae_type env) \<longrightarrow>
     (\<exists>sp. CommandHandlerBindings (ae_type env) = Some sp \<and> hs_command sp = ae_type env \<and>
        Dispatch t1 t2 NewDefaultRegistry (\<lambda>_ _. None) env (s, []) =
          (None, s, [SendCommandAck (newAck t1 env ''accepted'' ''command accepted by dispatcher'' None),
             SendCommandError (newError t2 env \<lparr>de_code = ''command_not_implemented'',
               de_message = ''handler is registered but implementation is still pending'', de_retryable = False,
               de_details = Some [(''module'', AnyStr (hs_module sp)), (''handler_key'', AnyStr (hs_handler_key sp)),
                 (''command'', AnyStr (ae_type env))]\<rparr>)])))"
proof -
  have "\<exists>sp. CommandHandlerBindings c = Some sp \<and> hs_command sp = c" if "c \<in> set MinimumCommandSet" for c
    using every_command_bound that by (auto split: option.splits)
  then show ?thesis
    using same_commands
    by (fastforce simp: IsValidAgentCommand_def dom_def default_registry Dispatch_def write_message_def
        pending_handler_def handler_reply_def NonRetryable_def)
qed

theorem default_registry_answers_witness:
  "length (snd (snd (Dispatch 1 2 NewDefaultRegistry (\<lambda>_ _. None) demo_envelope (0 :: nat, [])))) = 2"
proof -
  have "validateEnvelope 1 demo_envelope = None \<and> IsValidAgentCommand (ae_type demo_envelope)" by code_simp
  with default_registry_answers [of 1 demo_envelope 2 "0 :: nat"] show ?thesis by auto
qed

end
