(* ===== verification/Mesh.thy ===== *)
theory Mesh
  imports RevisionContract GoText
begin

text \<open>
  Mesh planning (\<open>backend/internal/service/mesh_planning_service.go\<close>) with its repositories
  (\<open>tunnel_session_repository.go\<close>, \<open>topology_state_repository.go\<close>) and the HTTP side of tunnels
  (\<open>internal/api/v1/controller/tunnel_controller.go\<close>, \<open>project_access.go\<close>).
  The state is the world of theory Store with two more tables and the address columns of the instances. The tables
  share the script of database faults. A handler's answer is its status code, its error code and the session.
\<close>

section \<open>State\<close>

record TunnelSession =
  tu_id :: string
  tu_project_id :: string
  tu_target_kind :: string
  tu_target_id :: string
  tu_instance_id :: string
  tu_session_type :: string
  tu_local_port :: int
  tu_remote_port :: int
  tu_status :: string
  tu_token :: string
  tu_expires_at :: time
  tu_created_at :: time
  tu_updated_at :: time

text \<open>The metadata column holds a JSON object; nil metadata are stored as the empty one.\<close>

record TopologyState =
  tp_id :: string
  tp_instance_id :: string
  tp_mesh_id :: string
  tp_state :: string
  tp_metadata :: "entries option"
  tp_last_seen_at :: time
  tp_created_at :: time
  tp_updated_at :: time

record mesh_db =
  mw_world :: world
  mw_tunnels :: "TunnelSession list"
  mw_topology :: "TopologyState list"
  mw_private_ip :: "string \<rightharpoonup> string"
  mw_public_ip :: "string \<rightharpoonup> string"

type_synonym 'a mprog = "(mesh_db, 'a) prog"

definition in_world :: "'a wprog \<Rightarrow> 'a mprog" where
  "in_world p = (\<lambda>m. case p (mw_world m) of (r, w) \<Rightarrow> (r, m\<lparr>mw_world := w\<rparr>))"

definition mesh_call :: "(mesh_db \<Rightarrow> 'a \<times> mesh_db) \<Rightarrow> 'a mprog" where
  "mesh_call f = (\<lambda>m. let w = mw_world m in
     (case w_faults w of
        True # fs \<Rightarrow> (Fail DbFailure, m\<lparr>mw_world := w\<lparr>w_faults := fs\<rparr>\<rparr>)
      | fs \<Rightarrow> (let r = f (m\<lparr>mw_world := w\<lparr>w_faults := tl fs\<rparr>\<rparr>) in (Ok (fst r), snd r))))"

section \<open>Repositories\<close>

definition TunnelCreate :: "TunnelSession \<Rightarrow> unit mprog" where
  "TunnelCreate s = mesh_call (\<lambda>m. ((), m\<lparr>mw_tunnels := mw_tunnels m @ [s]\<rparr>))"

definition TunnelGetByID :: "string \<Rightarrow> TunnelSession option mprog" where
  "TunnelGetByID sid = mesh_call (\<lambda>m. (List.find (\<lambda>s. tu_id s = sid) (mw_tunnels m), m))"

definition ListByTarget :: "string \<Rightarrow> string \<Rightarrow> TunnelSession list mprog" where
  "ListByTarget kind tid = mesh_call (\<lambda>m. (sort_key (\<lambda>s. - tu_created_at s)
     (filter (\<lambda>s. tu_target_kind s = kind \<and> tu_target_id s = tid) (mw_tunnels m)), m))"

definition CloseSession :: "string \<Rightarrow> time \<Rightarrow> unit mprog" where
  "CloseSession sid at = mesh_call (\<lambda>m. ((), m\<lparr>mw_tunnels :=
     update_where (\<lambda>s. tu_id s = sid) (\<lambda>s. s\<lparr>tu_status := ''closed'', tu_updated_at := at\<rparr>) (mw_tunnels m)\<rparr>))"

definition CleanupExpired :: "time \<Rightarrow> unit mprog" where
  "CleanupExpired before = andThen (in_world now_utc) (\<lambda>now. mesh_call (\<lambda>m. ((), m\<lparr>mw_tunnels :=
     update_where (\<lambda>s. tu_status s = ''active'' \<and> tu_expires_at s < before)
       (\<lambda>s. s\<lparr>tu_status := ''expired'', tu_updated_at := now\<rparr>) (mw_tunnels m)\<rparr>)))"

definition upsert_topology :: "TopologyState \<Rightarrow> TopologyState list \<Rightarrow> TopologyState list" where
  "upsert_topology t rows =
     (if \<exists>q \<in> set rows. tp_instance_id q = tp_instance_id t
      then update_where (\<lambda>q. tp_instance_id q = tp_instance_id t)
        (\<lambda>q. q\<lparr>tp_state := tp_state t, tp_metadata := tp_metadata t, tp_mesh_id := tp_mesh_id t,
               tp_last_seen_at := tp_last_seen_at t, tp_updated_at := tp_updated_at t\<rparr>) rows
      else rows @ [t])"

definition TopologyUpsert :: "TopologyState \<Rightarrow> unit mprog" where
  "TopologyUpsert t = mesh_call (\<lambda>m. ((), m\<lparr>mw_topology := upsert_topology t (mw_topology m)\<rparr>))"

definition TopologyGetByInstance :: "string \<Rightarrow> TopologyState option mprog" where
  "TopologyGetByInstance iid = mesh_call (\<lambda>m. (List.find (\<lambda>t. tp_instance_id t = iid) (mw_topology m), m))"

text \<open>The states of the instances of the project's owner, a join over the instances.\<close>

definition TopologyListByProject :: "string \<Rightarrow> TopologyState list mprog" where
  "TopologyListByProject pid = mesh_call (\<lambda>m.
     let t = w_tables (mw_world m); owners = map pj_user_id (filter (\<lambda>p. pj_id p = pid) (t_projects t)) in
     (sort_key (\<lambda>s. - tp_last_seen_at s)
        (concat (map (\<lambda>s. map (\<lambda>i. s) (filter (\<lambda>i. in_id i = tp_instance_id s \<and> in_user_id i \<in> set owners)
           (t_instances t))) (mw_topology m))), m))"

definition ListActiveByMesh :: "string \<Rightarrow> TopologyState list mprog" where
  "ListActiveByMesh mid = mesh_call (\<lambda>m. (sort_key (\<lambda>s. - tp_last_seen_at s)
     (filter (\<lambda>s. tp_mesh_id s = mid \<and> tp_state s \<noteq> ''offline'') (mw_topology m)), m))"

section \<open>Tunnels\<close>

definition findTargetInstance :: "string \<Rightarrow> string \<Rightarrow> Instance mprog" where
  "findTargetInstance kind tid =
     (if kind \<noteq> ''instance''
      then raise (Errorf (''tunnel sessions only support instance targets, got '' @ go_quote kind))
      else andThen (in_world (InstanceGetByID tid)) (\<lambda>i.
        case i of None \<Rightarrow> raise (Sentinel ErrTargetNotFound) | Some x \<Rightarrow> return x))"

definition offline_state :: "TopologyState option \<Rightarrow> bool" where
  "offline_state t \<longleftrightarrow> (case t of None \<Rightarrow> True | Some s \<Rightarrow> tp_state s = ''offline'')"

fun close_stale :: "time \<Rightarrow> int \<Rightarrow> TunnelSession list \<Rightarrow> unit mprog" where
  "close_stale now port [] = return ()"
| "close_stale now port (s # ss) =
     (if tu_status s = ''active'' \<and> tu_local_port s = port then
        (if tu_expires_at s > now
         then raise (Errorf (''local port '' @ itoa port @ '' already in use by active tunnel session '' @ go_quote (tu_id s)))
         else andThen (wrapping (''close expired tunnel session '' @ go_quote (tu_id s) @ '' before creating new one'')
                        (CloseSession (tu_id s) now)) (\<lambda>_. close_stale now port ss))
      else close_stale now port ss)"

text \<open>The first half of \<open>CreateTunnelSession\<close> finds the instance, refuses an offline one and lists its sessions.\<close>

definition target_sessions :: "string \<Rightarrow> string \<Rightarrow> (Instance \<times> TunnelSession list) mprog" where
  "target_sessions kind tid =
     andThen (findTargetInstance kind tid) (\<lambda>i.
     andThen (TopologyGetByInstance (in_id i)) (\<lambda>topo.
     if offline_state topo then raise (Wrapped ''cannot create tunnel to offline target'' (Sentinel ErrTargetOffline))
     else andThen (wrapping ''check existing tunnel sessions'' (ListByTarget kind tid)) (\<lambda>existing.
          return (i, existing))))"

definition new_session ::
    "string \<Rightarrow> string \<Rightarrow> string \<Rightarrow> string \<Rightarrow> string \<Rightarrow> int \<Rightarrow> int \<Rightarrow> duration \<Rightarrow> time \<Rightarrow> string \<Rightarrow> string \<Rightarrow> TunnelSession" where
  "new_session pid kind tid iid ty port remote ttl now sid tok =
     \<lparr>tu_id = sid, tu_project_id = pid, tu_target_kind = kind, tu_target_id = tid,
      tu_instance_id = iid, tu_session_type = ty, tu_local_port = port, tu_remote_port = remote,
      tu_status = ''active'', tu_token = tok, tu_expires_at = now + ttl, tu_created_at = now,
      tu_updated_at = now\<rparr>"

definition CreateTunnelSession ::
    "string \<Rightarrow> string \<Rightarrow> string \<Rightarrow> string \<Rightarrow> int \<Rightarrow> int \<Rightarrow> duration \<Rightarrow> TunnelSession mprog" where
  "CreateTunnelSession pid kind tid ty port remote ttl =
     andThen (target_sessions kind tid) (\<lambda>(i, existing).
     andThen (in_world now_utc) (\<lambda>now.
     andThen (close_stale now port existing) (\<lambda>_.
     andThen (in_world (NewPrefixedID ''tun'')) (\<lambda>sid.
     andThen (in_world (NewPrefixedID ''tok'')) (\<lambda>tok.
     let s = new_session pid kind tid (in_id i) ty port remote ttl now sid tok
     in andThen (TunnelCreate s) (\<lambda>_. return s))))))"

definition CloseTunnelSession :: "string \<Rightarrow> TunnelSession mprog" where
  "CloseTunnelSession sid =
     andThen (TunnelGetByID sid) (\<lambda>s. case s of
       None \<Rightarrow> raise (Sentinel ErrTunnelSessionNotFound)
     | Some x \<Rightarrow>
         andThen (in_world now_utc) (\<lambda>now.
         andThen (CloseSession sid now) (\<lambda>_. return (x\<lparr>tu_status := ''closed'', tu_updated_at := now\<rparr>))))"

section \<open>Topology\<close>

definition normalizeTopologyState :: "string \<Rightarrow> string" where
  "normalizeTopologyState raw =
     (let s = to_lower (trim_space raw) in
      if s = ''online'' then ''online'' else if s = ''offline'' then ''offline''
      else if s = ''degraded'' then ''degraded'' else ''offline'')"

text \<open>The metadata are stored as JSON: \<open>null\<close> for a nil map (\<open>marshalOrEmpty\<close> replaces only an untyped nil).\<close>

definition IngestTopologyState :: "string \<Rightarrow> string \<Rightarrow> string \<Rightarrow> entries option \<Rightarrow> TopologyState mprog" where
  "IngestTopologyState iid mid st metadata =
     andThen (in_world now_utc) (\<lambda>now.
     andThen (in_world (NewPrefixedID ''topo'')) (\<lambda>tid.
     let t = \<lparr>tp_id = tid, tp_instance_id = iid, tp_mesh_id = mid, tp_state = normalizeTopologyState st,
              tp_metadata = metadata, tp_last_seen_at = now,
              tp_created_at = now, tp_updated_at = now\<rparr>
     in andThen (TopologyUpsert t) (\<lambda>_. return t)))"

definition ListMeshTopology :: "string \<Rightarrow> TopologyState list mprog" where
  "ListMeshTopology pid = TopologyListByProject pid"

section \<open>Dependencies\<close>

definition resolveInstanceIP :: "string \<Rightarrow> mesh_db \<Rightarrow> string" where
  "resolveInstanceIP iid m =
     (case mw_private_ip m iid of
        Some a \<Rightarrow> if a \<noteq> [] then a else (case mw_public_ip m iid of Some b \<Rightarrow> b | None \<Rightarrow> [])
      | None \<Rightarrow> (case mw_public_ip m iid of Some b \<Rightarrow> b | None \<Rightarrow> []))"

text \<open>\<open>fmt.Sscanf(port, "%d", &p)\<close>, whose error is ignored: \<open>p\<close> stays 0.\<close>

definition sscan_int :: "string \<Rightarrow> int" where
  "sscan_int s =
     (let r = dropWhile (\<lambda>c. is_space c \<and> c \<noteq> CHR 0x0A) s;
          sign = (if r \<noteq> [] \<and> hd r \<in> {CHR ''-'', CHR ''+''} then [hd r] else []);
          ds = takeWhile is_digit (drop (length sign) r)
      in case atoi (sign @ ds) of None \<Rightarrow> 0 | Some i \<Rightarrow> i)"

definition extractPortFromDependencyBinding :: "DependencyBinding \<Rightarrow> int \<Rightarrow> int" where
  "extractPortFromDependencyBinding b hport =
     (let p = (if db_local_endpoint b \<noteq> [] then
                 (case SplitHostPort (db_local_endpoint b) of None \<Rightarrow> 0 | Some (host, port) \<Rightarrow> sscan_int port) else 0)
      in if p > 0 then p else if hport > 0 then hport else 0)"

text \<open>The port of the first healthcheck of a service, over the revisions of a binding.\<close>

definition healthcheck_port :: "ServiceContract \<Rightarrow> int option" where
  "healthcheck_port s =
     (case sv_healthcheck s of
        None \<Rightarrow> None
      | Some h \<Rightarrow> (case map_of h ''port'' of Some (AnyInt p) \<Rightarrow> if p > 0 then Some p else None | _ \<Rightarrow> None))"

fun first_some :: "('a \<Rightarrow> 'b option) \<Rightarrow> 'a list \<Rightarrow> 'b option" where
  "first_some f [] = None"
| "first_some f (x # xs) = (case f x of Some y \<Rightarrow> Some y | None \<Rightarrow> first_some f xs)"

definition revision_port :: "string \<Rightarrow> DesiredStateRevision \<Rightarrow> int option" where
  "revision_port name r =
     (case parseCompiledRevision (rv_compiled r) of
        Inl _ \<Rightarrow> None
      | Inr c \<Rightarrow> first_some (\<lambda>s. if sv_name s = name then healthcheck_port s else None) (cp_services c))"

fun binding_port :: "string \<Rightarrow> string \<Rightarrow> DeploymentBinding list \<Rightarrow> int mprog" where
  "binding_port pid name [] = return 0"
| "binding_port pid name (b # bs) =
     (if bi_target_kind b \<noteq> ''instance'' then binding_port pid name bs
      else andThen (attempt (in_world (RevisionListByProject pid))) (\<lambda>r. case r of
          Inl _ \<Rightarrow> binding_port pid name bs
        | Inr revs \<Rightarrow>
            (case first_some (revision_port name) (filter (\<lambda>r. rv_binding_id r = bi_id b) revs) of
               Some p \<Rightarrow> return p
             | None \<Rightarrow> binding_port pid name bs)))"

definition resolveServiceHealthcheckPort :: "string \<Rightarrow> string \<Rightarrow> int mprog" where
  "resolveServiceHealthcheckPort pid name =
     andThen (attempt (in_world (BindingListByProject pid))) (\<lambda>r. case r of
       Inl _ \<Rightarrow> return 0 | Inr bs \<Rightarrow> binding_port pid name bs)"

definition placed_by :: "string \<Rightarrow> DeploymentBinding \<Rightarrow> DesiredStateRevision \<Rightarrow> bool" where
  "placed_by name b r \<longleftrightarrow> rv_binding_id r = bi_id b \<and>
     (case parseCompiledRevision (rv_compiled r) of
        Inl _ \<Rightarrow> False
      | Inr c \<Rightarrow> list_ex (\<lambda>a. pa_service_name a = name \<and> pa_target_id a = bi_target_id b) (cp_placement_assignments c))"

text \<open>The loop of \<open>findInstanceForService\<close> with its fallback so far.\<close>

fun service_instance ::
    "string \<Rightarrow> string \<Rightarrow> Instance option \<Rightarrow> DeploymentBinding list \<Rightarrow> Instance option mprog" where
  "service_instance pid name fallback [] = return fallback"
| "service_instance pid name fallback (b # bs) =
     (if bi_target_kind b \<noteq> ''instance'' then service_instance pid name fallback bs
      else andThen (attempt (in_world (InstanceGetByID (bi_target_id b)))) (\<lambda>r. case r of
          Inl _ \<Rightarrow> service_instance pid name fallback bs
        | Inr None \<Rightarrow> service_instance pid name fallback bs
        | Inr (Some i) \<Rightarrow>
            if equal_fold (in_status i) ''offline'' then service_instance pid name fallback bs
            else let fb = (case fallback of None \<Rightarrow> Some i | Some f \<Rightarrow> Some f) in
              if equal_fold (bi_name b) name then return (Some i)
              else andThen (attempt (in_world (RevisionListByProject pid))) (\<lambda>rr. case rr of
                  Inl _ \<Rightarrow> service_instance pid name fb bs
                | Inr revs \<Rightarrow> if list_ex (placed_by name b) revs then return (Some i)
                              else service_instance pid name fb bs)))"

definition findInstanceForService :: "string \<Rightarrow> string \<Rightarrow> Instance mprog" where
  "findInstanceForService pid name =
     andThen (wrapping (''resolve project bindings for service '' @ go_quote name) (in_world (BindingListByProject pid))) (\<lambda>bs.
     if bs = [] then raise (Errorf (''no deployment binding found for project '' @ go_quote pid))
     else andThen (service_instance pid name None bs) (\<lambda>i. case i of
         Some x \<Rightarrow> return x
       | None \<Rightarrow> raise (Errorf (''no online instance found for service '' @ go_quote name @ '' in project '' @ go_quote pid))))"

record PrivatePathConfig =
  pp_via :: string
  pp_target_ip :: string
  pp_target_port :: int
  pp_protocol :: string
  pp_encrypted :: bool

record DependencyResolutionResult =
  rr_service_name :: string
  rr_target_service :: string
  rr_alias :: string
  rr_protocol :: string
  rr_local_endpoint :: string
  rr_target_endpoint :: string
  rr_target_kind :: string
  rr_target_id :: string
  rr_private_path :: PrivatePathConfig
  rr_env_injection :: "string \<rightharpoonup> string"

definition allowedMeshProtocols :: "string list" where
  "allowedMeshProtocols = [''tcp'', ''http'', ''grpc'', ''tls'']"

definition buildPrivatePath :: "string \<Rightarrow> int \<Rightarrow> string \<Rightarrow> PrivatePathConfig" where
  "buildPrivatePath ip port proto =
     \<lparr>pp_via = ''mesh'', pp_target_ip = ip, pp_target_port = port, pp_protocol = proto, pp_encrypted = True\<rparr>"

definition buildEnvInjection :: "string \<Rightarrow> string \<Rightarrow> int \<Rightarrow> string \<Rightarrow> string \<rightharpoonup> string" where
  "buildEnvInjection alias ip port proto =
     (let var = to_upper (replace_char (CHR ''-'') (CHR ''_'') alias);
          scheme = (if proto = ''tls'' \<or> proto = ''grpc'' then ''https'' else ''http'')
      in [var @ ''_HOST'' \<mapsto> ip, var @ ''_PORT'' \<mapsto> itoa port,
          var @ ''_URL'' \<mapsto> scheme @ ''://'' @ ip @ '':'' @ itoa port])"

definition ResolveDependencyBinding :: "string \<Rightarrow> string \<Rightarrow> DependencyBinding \<Rightarrow> DependencyResolutionResult mprog" where
  "ResolveDependencyBinding pid serviceName b =
     (let proto = to_lower (trim_space (db_protocol b)); target = db_target_service b in
      if proto \<notin> set allowedMeshProtocols
      then raise (Wrapped (go_quote (db_protocol b)) (Sentinel ErrUnsupportedProtocol))
      else
        andThen (findInstanceForService pid target) (\<lambda>i.
        andThen (TopologyGetByInstance (in_id i)) (\<lambda>topo.
        if offline_state topo
        then raise (Wrapped (''instance '' @ go_quote (in_id i) @ '' for service '' @ go_quote target) (Sentinel ErrTargetOffline))
        else andThen (\<lambda>m. (Ok (resolveInstanceIP (in_id i) m), m)) (\<lambda>ip.
          if ip = [] then raise (Errorf (''no routable IP for instance '' @ go_quote (in_id i)))
          else andThen (resolveServiceHealthcheckPort pid target) (\<lambda>hport.
            let port = extractPortFromDependencyBinding b hport in
            if port = 0 then raise (Errorf (''cannot resolve port for service '' @ go_quote target @
                '': no local_endpoint configured and no healthcheck port available''))
            else return
              \<lparr>rr_service_name = serviceName, rr_target_service = target, rr_alias = db_alias b, rr_protocol = proto,
               rr_local_endpoint = db_local_endpoint b, rr_target_endpoint = ip @ '':'' @ itoa port,
               rr_target_kind = ''instance'', rr_target_id = in_id i, rr_private_path = buildPrivatePath ip port proto,
               rr_env_injection = buildEnvInjection (db_alias b) ip port proto\<rparr>)))))"

fun ResolveAllDependencies :: "string \<Rightarrow> DependencyBinding list \<Rightarrow> DependencyResolutionResult list mprog" where
  "ResolveAllDependencies pid [] = return []"
| "ResolveAllDependencies pid (d # ds) =
     andThen (wrapping (''resolve dependency '' @ db_service d @ '' -> '' @ db_target_service d)
               (ResolveDependencyBinding pid (db_service d) d)) (\<lambda>r.
     andThen (ResolveAllDependencies pid ds) (\<lambda>rs. return (r # rs)))"

section \<open>The HTTP side of tunnels\<close>

definition resolveProjectForClaims :: "(string \<times> string) option \<Rightarrow> string \<Rightarrow> Project wprog" where
  "resolveProjectForClaims claims pid0 =
     (let pid = trim_space pid0 in
      case claims of
        None \<Rightarrow> raise (Sentinel ErrInvalidInput)
      | Some (uid, role) \<Rightarrow>
          if trim_space uid = [] \<or> pid = [] then raise (Sentinel ErrInvalidInput)
          else if role = ''admin'' then
            andThen (ProjectGetByID pid) (\<lambda>p. case p of
              None \<Rightarrow> raise (Sentinel ErrProjectNotFound) | Some x \<Rightarrow> return x)
          else andThen (ProjectGetByIDForUser uid pid) (\<lambda>p. case p of
              Some x \<Rightarrow> return x
            | None \<Rightarrow> andThen (ProjectGetByID pid) (\<lambda>other. case other of
                  None \<Rightarrow> raise (Sentinel ErrProjectNotFound)
                | Some _ \<Rightarrow> raise (Sentinel ErrProjectAccessDenied))))"

record http_answer =
  ha_status :: int
  ha_code :: string
  ha_session :: "TunnelSession option"

definition answer_error :: "int \<Rightarrow> string \<Rightarrow> http_answer" where
  "answer_error st code = \<lparr>ha_status = st, ha_code = code, ha_session = None\<rparr>"

record CreateTunnelSessionRequest =
  tr_project_id :: string
  tr_target_ref :: string
  tr_local_port :: int
  tr_remote :: string
  tr_timeout :: string

definition parseTunnelRemotePort :: "string \<Rightarrow> int option" where
  "parseTunnelRemotePort remote =
     (if remote = [] then None
      else case SplitHostPort remote of
          None \<Rightarrow> None
        | Some (host, port) \<Rightarrow> (case atoi port of None \<Rightarrow> None | Some v \<Rightarrow> if v \<le> 0 then None else Some v))"

definition parseTunnelTTL :: "string \<Rightarrow> duration option" where
  "parseTunnelTTL raw =
     (if trim_space raw = [] then Some (30 * minute)
      else case ParseDuration (trim_space raw) of None \<Rightarrow> None | Some d \<Rightarrow> if d \<le> 0 then None else Some d)"

definition project_error :: "go_err \<Rightarrow> http_answer" where
  "project_error e =
     (if err_is e ErrInvalidInput then answer_error 400 ''invalid_input''
      else if err_is e ErrProjectNotFound then answer_error 404 ''project_not_found''
      else if err_is e ErrProjectAccessDenied then answer_error 403 ''project_access_denied''
      else answer_error 500 ''internal_error'')"

definition create_error :: "go_err \<Rightarrow> http_answer" where
  "create_error e =
     (if err_is e ErrTargetNotFound then answer_error 404 ''target_not_found''
      else if err_is e ErrTargetOffline then answer_error 409 ''target_offline''
      else if err_is e ErrTunnelSessionPortConflict then answer_error 409 ''port_conflict''
      else if err_is e ErrTunnelSessionCloseFailed then answer_error 409 ''session_cleanup_failed''
      else if err_is e ErrInvalidInput then answer_error 400 ''invalid_input''
      else answer_error 500 ''internal_error'')"

definition createSession ::
    "string \<Rightarrow> (string \<times> string) option \<Rightarrow> CreateTunnelSessionRequest option \<Rightarrow> http_answer mprog" where
  "createSession ty claims body =
     (case body of
        None \<Rightarrow> return (answer_error 400 ''invalid_payload'')
      | Some req \<Rightarrow>
          andThen (attempt (in_world (resolveProjectForClaims claims (tr_project_id req)))) (\<lambda>pr. case pr of
            Inl e \<Rightarrow> return (project_error e)
          | Inr project \<Rightarrow>
              andThen (attempt (in_world (GetByTargetRefForProject (pj_id project) (trim_space (tr_target_ref req))))) (\<lambda>br.
              case br of
                Inl e \<Rightarrow> return (answer_error 500 ''internal_error'')
              | Inr None \<Rightarrow> return (answer_error 404 ''deployment_binding_not_found'')
              | Inr (Some b) \<Rightarrow>
                  if bi_target_kind b \<noteq> ''instance'' then return (answer_error 422 ''unsupported_tunnel_target'')
                  else if tr_local_port req \<le> 0 then return (answer_error 400 ''invalid_input'')
                  else (case parseTunnelRemotePort (trim_space (tr_remote req)) of
                      None \<Rightarrow> return (answer_error 400 ''invalid_input'')
                    | Some remotePort \<Rightarrow> (case parseTunnelTTL (tr_timeout req) of
                          None \<Rightarrow> return (answer_error 400 ''invalid_input'')
                        | Some ttl \<Rightarrow>
                            andThen (attempt (CreateTunnelSession (pj_id project) (bi_target_kind b) (bi_target_id b) ty
                                (tr_local_port req) remotePort ttl)) (\<lambda>r. case r of
                              Inl e \<Rightarrow> return (create_error e)
                            | Inr s \<Rightarrow> return \<lparr>ha_status = 201, ha_code = [], ha_session = Some s\<rparr>))))))"

definition CreateDBSession :: "(string \<times> string) option \<Rightarrow> CreateTunnelSessionRequest option \<Rightarrow> http_answer mprog" where
  "CreateDBSession = createSession ''db''"

definition CreateTCPSession :: "(string \<times> string) option \<Rightarrow> CreateTunnelSessionRequest option \<Rightarrow> http_answer mprog" where
  "CreateTCPSession = createSession ''tcp''"

definition HandleCloseSession :: "(string \<times> string) option \<Rightarrow> string \<Rightarrow> http_answer mprog" where
  "HandleCloseSession claims param =
     (let sid = trim_space param in
      if sid = [] then return (answer_error 400 ''invalid_input'')
      else andThen (attempt (TunnelGetByID sid)) (\<lambda>sr. case sr of
          Inl e \<Rightarrow> return (answer_error 500 ''internal_error'')
        | Inr None \<Rightarrow> return (answer_error 404 ''tunnel_session_not_found'')
        | Inr (Some s) \<Rightarrow>
            andThen (attempt (in_world (resolveProjectForClaims claims (tu_project_id s)))) (\<lambda>pr. case pr of
              Inl e \<Rightarrow> return (if err_is e ErrProjectNotFound then answer_error 404 ''project_not_found''
                 else if err_is e ErrProjectAccessDenied then answer_error 403 ''project_access_denied''
                 else answer_error 500 ''internal_error'')
            | Inr _ \<Rightarrow>
                andThen (attempt (CloseTunnelSession sid)) (\<lambda>r. case r of
                  Inl e \<Rightarrow> return (if err_is e ErrTunnelSessionNotFound then answer_error 404 ''tunnel_session_not_found''
                     else answer_error 500 ''internal_error'')
                | Inr x \<Rightarrow> return \<lparr>ha_status = 200, ha_code = [], ha_session = Some x\<rparr>))))"

section \<open>What the calls do\<close>

lemma mesh_callD:
  assumes "mesh_call f m = (r, m')"
  shows "\<exists>fs. (r = Fail DbFailure \<and> m' = m\<lparr>mw_world := (mw_world m)\<lparr>w_faults := fs\<rparr>\<rparr>) \<or>
    (r = Ok (fst (f (m\<lparr>mw_world := (mw_world m)\<lparr>w_faults := fs\<rparr>\<rparr>))) \<and>
     m' = snd (f (m\<lparr>mw_world := (mw_world m)\<lparr>w_faults := fs\<rparr>\<rparr>)))"
  using assms by (auto simp: mesh_call_def Let_def split: list.splits bool.splits)

lemma in_worldD: "in_world p m = (r, m') \<Longrightarrow> \<exists>w. p (mw_world m) = (r, w) \<and> m' = m\<lparr>mw_world := w\<rparr>"
  by (auto simp: in_world_def split: prod.splits)

text \<open>The data that only writes change.\<close>

definition same_data :: "mesh_db \<Rightarrow> mesh_db \<Rightarrow> bool" where
  "same_data m m' \<longleftrightarrow> w_tables (mw_world m') = w_tables (mw_world m) \<and> mw_tunnels m' = mw_tunnels m \<and>
     mw_topology m' = mw_topology m \<and> mw_private_ip m' = mw_private_ip m \<and> mw_public_ip m' = mw_public_ip m"

abbreviation reads :: "'a mprog \<Rightarrow> bool" where
  "reads p \<equiv> within (\<lambda>_. True) same_data p"

interpretation reading: guarantee "\<lambda>_. True" same_data
  by unfold_locales (simp_all add: same_data_def)

lemma reads_mesh_call:
  assumes "\<And>m. snd (f m) = m"
  shows "reads (mesh_call f)"
  unfolding within_def
proof (intro allI impI conjI TrueI)
  fix m
  obtain r m' where r: "mesh_call f m = (r, m')" by (cases "mesh_call f m")
  then obtain fs where "m' = m\<lparr>mw_world := (mw_world m)\<lparr>w_faults := fs\<rparr>\<rparr>" using mesh_callD [OF r] assms by auto
  with r show "same_data m (snd (mesh_call f m))" by (simp add: same_data_def)
qed

lemma reads_in_world: "(\<And>w. w_tables (snd (p w)) = w_tables w) \<Longrightarrow> reads (in_world p)"
  by (simp add: within_def same_data_def in_world_def split_beta)

lemma same_dataD: "reads p \<Longrightarrow> p m = (r, m') \<Longrightarrow> same_data m m'"
  by (auto simp: within_def dest: spec [where x = m])

section \<open>Sessions that are open\<close>

definition open_sessions :: "mesh_db \<Rightarrow> TunnelSession list" where
  "open_sessions m = filter (\<lambda>s. tu_status s = ''active'') (mw_tunnels m)"

definition tunnel_key :: "TunnelSession \<Rightarrow> string \<times> string \<times> int" where
  "tunnel_key s = (tu_target_kind s, tu_target_id s, tu_local_port s)"

definition ports_free :: "mesh_db \<Rightarrow> bool" where
  "ports_free m \<longleftrightarrow> distinct (map tunnel_key (open_sessions m))"

lemma open_sessions_world [simp]: "open_sessions (m\<lparr>mw_world := w\<rparr>) = open_sessions m"
  by (simp add: open_sessions_def)

lemma open_sessions_in_world: "in_world p m = (r, m') \<Longrightarrow> open_sessions m' = open_sessions m \<and> mw_tunnels m' = mw_tunnels m"
  by (auto dest: in_worldD)

lemma open_sessions_same: "same_data m m' \<Longrightarrow> open_sessions m' = open_sessions m"
  by (simp add: same_data_def open_sessions_def)

lemma filter_update_status:
  "\<lbrakk>\<And>s. P s \<Longrightarrow> tu_status (f s) \<noteq> ''active''\<rbrakk> \<Longrightarrow>
   filter (\<lambda>s. tu_status s = ''active'') (update_where P f xs) = filter (\<lambda>s. \<not> P s) (filter (\<lambda>s. tu_status s = ''active'') xs)"
  by (induction xs) (auto simp: update_where_def)

lemma open_sessions_CloseSession:
  assumes "CloseSession sid at m = (r, m')"
  shows "open_sessions m' = open_sessions m \<and> (\<exists>e. r = Inl e \<and> \<not> err_is e x) \<or> r = Ok () \<and> open_sessions m' = filter (\<lambda>s. tu_id s \<noteq> sid) (open_sessions m)"
  using mesh_callD [OF assms [unfolded CloseSession_def]]
  by (auto simp: open_sessions_def filter_update_status)

lemma open_sessions_CleanupExpired:
  assumes "CleanupExpired before m = (r, m')"
  shows "\<exists>P. open_sessions m' = filter P (open_sessions m)"
proof -
  have same: "open_sessions m = filter (\<lambda>_. True) (open_sessions m)" by simp
  obtain r1 m1 where n: "in_world now_utc m = (r1, m1)" by (cases "in_world now_utc m")
  note l = open_sessions_in_world [OF n]
  show ?thesis
  proof (cases r1)
    case (Inl e)
    with assms n l same show ?thesis by (auto simp: CleanupExpired_def intro!: exI [of _ "\<lambda>_. True"])
  next
    case (Inr now)
    then have c: "mesh_call (\<lambda>m. ((), m\<lparr>mw_tunnels :=
       update_where (\<lambda>s. tu_status s = ''active'' \<and> tu_expires_at s < before)
         (\<lambda>s. s\<lparr>tu_status := ''expired'', tu_updated_at := now\<rparr>) (mw_tunnels m)\<rparr>)) m1 = (r, m')"
      using assms n by (simp add: CleanupExpired_def)
    have "open_sessions m' = open_sessions m1 \<or> open_sessions m' = filter (\<lambda>s. \<not> (tu_status s = ''active'' \<and> tu_expires_at s < before)) (open_sessions m1)"
      using mesh_callD [OF c] by (auto simp: open_sessions_def filter_update_status)
    then show ?thesis using l same by metis
  qed
qed

text \<open>Closing what has expired: it stops at a session that has not, and closes no other.\<close>

lemma open_sessions_close_stale:
  assumes "close_stale now port ss m = (r, m')"
  shows "(\<exists>ids. open_sessions m' = filter (\<lambda>s. tu_id s \<notin> ids) (open_sessions m) \<and>
      (\<forall>i \<in> ids. \<exists>s \<in> set ss. tu_id s = i \<and> tu_status s = ''active'' \<and> tu_local_port s = port \<and> tu_expires_at s \<le> now) \<and>
      (r = Ok () \<longrightarrow> (\<forall>s \<in> set ss. tu_status s = ''active'' \<and> tu_local_port s = port \<longrightarrow> tu_id s \<in> ids))) \<and>
    (\<forall>e. r = Inl e \<longrightarrow> \<not> err_is e x)"
  using assms
proof (induction ss arbitrary: m)
  case Nil
  then show ?case by (auto intro!: exI [of _ "{}"])
next
  case (Cons s ss)
  let ?hit = "tu_status s = ''active'' \<and> tu_local_port s = port"
  consider (skip) "\<not> ?hit" | (busy) "?hit" "tu_expires_at s > now" | (stale) "?hit" "tu_expires_at s \<le> now" by fastforce
  then show ?case
  proof cases
    case skip
    then have "close_stale now port ss m = (r, m')" using Cons.prems by auto
    from Cons.IH [OF this] skip show ?thesis by auto
  next
    case busy
    then show ?thesis using Cons.prems by (auto intro!: exI [of _ "{}"])
  next
    case stale
    obtain r1 m1 where c: "CloseSession (tu_id s) now m = (r1, m1)" by (cases "CloseSession (tu_id s) now m")
    show ?thesis
    proof (cases r1)
      case (Inl e)
      then have "r = Inl (Wrapped (''close expired tunnel session '' @ go_quote (tu_id s) @ '' before creating new one'') e)" "m' = m1"
        using Cons.prems stale c by (auto simp: wrapping_def andThen_def)
      then show ?thesis using open_sessions_CloseSession [OF c, of x] Inl by (auto intro!: exI [of _ "{}"])
    next
      case (Inr u)
      then have rest: "close_stale now port ss m1 = (r, m')"
        using Cons.prems stale c by (auto simp: wrapping_def andThen_def)
      have l: "open_sessions m1 = filter (\<lambda>t. tu_id t \<noteq> tu_id s) (open_sessions m)" using open_sessions_CloseSession [OF c] Inr by auto
      from Cons.IH [OF rest] obtain ids where ids: "open_sessions m' = filter (\<lambda>s. tu_id s \<notin> ids) (open_sessions m1)"
        "\<forall>i \<in> ids. \<exists>s \<in> set ss. tu_id s = i \<and> tu_status s = ''active'' \<and> tu_local_port s = port \<and> tu_expires_at s \<le> now"
        "r = Ok () \<longrightarrow> (\<forall>s \<in> set ss. tu_status s = ''active'' \<and> tu_local_port s = port \<longrightarrow> tu_id s \<in> ids)"
        "\<forall>e. r = Inl e \<longrightarrow> \<not> err_is e x" by blast
      have "open_sessions m' = filter (\<lambda>t. tu_id t \<notin> insert (tu_id s) ids) (open_sessions m)"
        by (simp add: ids(1) l conj_commute)
      with ids(2-4) stale show ?thesis by (intro conjI exI [of _ "insert (tu_id s) ids"]) auto
    qed
  qed
qed

section \<open>Which errors a call can return\<close>

definition never :: "sentinel \<Rightarrow> ('w, 'a) prog \<Rightarrow> bool" where
  "never x p \<longleftrightarrow> (\<forall>m e m'. p m = (Inl e, m') \<longrightarrow> \<not> err_is e x)"

lemma never_return: "never x (return y)"
  by (simp add: never_def)

lemma never_raise: "\<not> err_is e x \<Longrightarrow> never x (raise e)"
  by (simp add: never_def)

lemma never_andThen: "never x p \<Longrightarrow> (\<And>y. never x (f y)) \<Longrightarrow> never x (andThen p f)"
  unfolding never_def by (metis andThen_cases sum.sel(1))

lemma never_wrapping: "never x p \<Longrightarrow> never x (wrapping msg p)"
  by (fastforce simp: never_def wrapping_def split: prod.splits sum.splits)

lemma never_mesh_call: "never x (mesh_call f)"
  by (auto simp: never_def dest!: mesh_callD)

lemma never_in_world: "never x p \<Longrightarrow> never x (in_world p)"
  by (auto simp: never_def dest!: in_worldD)

lemma never_db_read: "never x (db_read f)"
  by (auto simp: never_def dest!: db_readD)

lemma never_tick: "never x now_utc" "never x (NewPrefixedID p)"
  by (simp_all add: never_def now_utc_def NewPrefixedID_def)

lemma never_close_stale: "never x (close_stale now port ss)"
  using open_sessions_close_stale [of now port ss _ _ _ x] by (fastforce simp: never_def)

lemmas never_rules = never_return never_raise never_andThen never_wrapping never_mesh_call never_in_world
  never_db_read never_tick never_close_stale

lemma create_never:
  assumes "x \<notin> {ErrTargetNotFound, ErrTargetOffline}"
  shows "never x (CreateTunnelSession pid kind tid ty port remote ttl)"
proof -
  have find: "never x (findTargetInstance kind tid)"
    using assms unfolding findTargetInstance_def InstanceGetByID_def
    by (auto intro!: never_rules split: option.split)
  show ?thesis
    using assms
    unfolding CreateTunnelSession_def target_sessions_def TopologyGetByInstance_def ListByTarget_def TunnelCreate_def Let_def
    by (auto intro!: never_rules find)
qed

section \<open>What creating a session does\<close>

lemma reads_calls:
  "reads (in_world now_utc)" "reads (in_world (NewPrefixedID pre))" "reads (in_world (db_read g))"
  "reads (TopologyGetByInstance iid)" "reads (ListByTarget kind tid)" "reads (TunnelGetByID sid)"
  "reads (target_sessions kind tid)"
proof -
  have db: "reads (in_world (db_read g))" for g :: "tables \<Rightarrow> 'x" by (rule reads_in_world) simp
  then show "reads (in_world (db_read g))" by blast
  show "reads (in_world now_utc)" "reads (in_world (NewPrefixedID pre))"
    by (rule reads_in_world, simp add: now_utc_def NewPrefixedID_def)+
  have t: "reads (TopologyGetByInstance iid)" "reads (ListByTarget kind tid)" "reads (TunnelGetByID sid)" for iid kind tid sid
    unfolding TopologyGetByInstance_def ListByTarget_def TunnelGetByID_def by (rule reads_mesh_call, simp)+
  then show "reads (TopologyGetByInstance iid)" "reads (ListByTarget kind tid)" "reads (TunnelGetByID sid)" by blast+
  show "reads (target_sessions kind tid)"
    unfolding target_sessions_def findTargetInstance_def InstanceGetByID_def
    by (auto intro!: reading.within_rules db t)
qed

lemma same_data_trans: "same_data a b \<Longrightarrow> same_data b c \<Longrightarrow> same_data a c"
  by (simp add: same_data_def)

text \<open>Reading back what a read found.\<close>

lemma read_value:
  "in_world (db_read g) m = (Inr y, m') \<Longrightarrow> y = g (w_tables (mw_world m)) \<and> same_data m m'"
  "TopologyGetByInstance iid m = (Inr t, m') \<Longrightarrow>
     t = List.find (\<lambda>t. tp_instance_id t = iid) (mw_topology m) \<and> same_data m m'"
  "ListByTarget kind tid m = (Inr ss, m') \<Longrightarrow>
     set ss = {s \<in> set (mw_tunnels m). tu_target_kind s = kind \<and> tu_target_id s = tid} \<and> same_data m m'"
  by (auto simp: TopologyGetByInstance_def ListByTarget_def same_data_def dest!: in_worldD mesh_callD db_readD)

lemma target_sessions_Ok:
  assumes "target_sessions kind tid m = (Inr (i, existing), m')"
  shows "same_data m m' \<and> kind = ''instance'' \<and> in_id i = tid \<and> i \<in> set (t_instances (w_tables (mw_world m))) \<and>
    \<not> offline_state (List.find (\<lambda>t. tp_instance_id t = tid) (mw_topology m)) \<and>
    set existing = {s \<in> set (mw_tunnels m). tu_target_kind s = kind \<and> tu_target_id s = tid}"
proof -
  have same: "same_data m m'" by (rule same_dataD [OF reads_calls(7) assms])
  obtain m1 topo m2 where *: "findTargetInstance kind tid m = (Inr i, m1)"
    "TopologyGetByInstance (in_id i) m1 = (Inr topo, m2)" "\<not> offline_state topo" "ListByTarget kind tid m2 = (Inr existing, m')"
    using assms by (auto simp: target_sessions_def andThen_Ok_iff split: if_splits)
  obtain x where x: "kind = ''instance''" "in_world (InstanceGetByID tid) m = (Inr (Some i), m1)"
    using *(1) by (auto simp: findTargetInstance_def andThen_Ok_iff split: if_splits option.splits)
  then have i: "List.find (\<lambda>i. in_id i = tid) (t_instances (w_tables (mw_world m))) = Some i" "same_data m m1"
    unfolding InstanceGetByID_def by (auto dest: read_value(1))
  then have "in_id i = tid" "i \<in> set (t_instances (w_tables (mw_world m)))" by (auto dest: find_SomeD)
  moreover have "mw_topology m1 = mw_topology m" "mw_tunnels m2 = mw_tunnels m"
    using i(2) read_value(2) [OF *(2)] by (auto simp: same_data_def)
  ultimately show ?thesis
    using same x(1) read_value(2) [OF *(2)] read_value(3) [OF *(4)] *(3) by simp
qed

lemma create_live:
  assumes "CreateTunnelSession pid kind tid ty port remote ttl m = (r, m')"
  shows "\<exists>now ids. (\<forall>i \<in> ids. \<exists>s \<in> set (open_sessions m). tu_id s = i \<and> tunnel_key s = (kind, tid, port) \<and> tu_expires_at s \<le> now) \<and>
    (case r of
       Inl e \<Rightarrow> open_sessions m' = filter (\<lambda>s. tu_id s \<notin> ids) (open_sessions m)
     | Inr s \<Rightarrow> open_sessions m' = filter (\<lambda>s. tu_id s \<notin> ids) (open_sessions m) @ [s] \<and>
         (\<forall>x \<in> set (open_sessions m). tunnel_key x = (kind, tid, port) \<longrightarrow> tu_id x \<in> ids) \<and>
         (\<exists>i sid tok. s = new_session pid kind tid (in_id i) ty port remote ttl now sid tok \<and>
            in_id i = tid \<and> i \<in> set (t_instances (w_tables (mw_world m)))) \<and> kind = ''instance'' \<and>
         \<not> offline_state (List.find (\<lambda>t. tp_instance_id t = tid) (mw_topology m)))"
    (is "?P r m'")
proof -
  have failed: "?P (Inl e) m'" if "open_sessions m' = open_sessions m" for e m'
    using that by (intro exI [of _ 0] exI [of _ "{}"]) simp
  from assms [unfolded CreateTunnelSession_def] show ?thesis
  proof (cases rule: andThen_cases)
    case (fail e)
    then have "open_sessions m' = open_sessions m" using same_dataD [OF reads_calls(7)] open_sessions_same by blast
    then show ?thesis unfolding fail(2) by (rule failed)
  next
    case (ok x m1)
    obtain i existing where x: "x = (i, existing)" by (cases x)
    note ts = target_sessions_Ok [OF ok(1) [unfolded x]]
    then have l1: "open_sessions m1 = open_sessions m" by (simp add: open_sessions_same)
    from ok(2) [unfolded x prod.case] show ?thesis
    proof (cases rule: andThen_cases)
      case (fail e)
      then have "open_sessions m' = open_sessions m" using l1 open_sessions_in_world [OF fail(1)] by simp
      then show ?thesis unfolding fail(2) by (rule failed)
    next
      case (ok now m2)
      then have l2: "open_sessions m2 = open_sessions m" using l1 open_sessions_in_world [OF ok(1)] by simp
      have hit: "tu_status s = ''active'' \<and> tu_local_port s = port \<and> s \<in> set existing \<longleftrightarrow>
          s \<in> set (open_sessions m) \<and> tunnel_key s = (kind, tid, port)" for s
        using ts by (auto simp: open_sessions_def tunnel_key_def)
      obtain rc m3 where c: "close_stale now port existing m2 = (rc, m3)" by (cases "close_stale now port existing m2")
      obtain ids where ids: "open_sessions m3 = filter (\<lambda>s. tu_id s \<notin> ids) (open_sessions m2)"
        "\<forall>i \<in> ids. \<exists>s \<in> set existing. tu_id s = i \<and> tu_status s = ''active'' \<and> tu_local_port s = port \<and> tu_expires_at s \<le> now"
        "rc = Ok () \<longrightarrow> (\<forall>s \<in> set existing. tu_status s = ''active'' \<and> tu_local_port s = port \<longrightarrow> tu_id s \<in> ids)"
        using open_sessions_close_stale [OF c, of ErrInvalidInput] by blast
      have old: "\<forall>i \<in> ids. \<exists>s \<in> set (open_sessions m). tu_id s = i \<and> tunnel_key s = (kind, tid, port) \<and> tu_expires_at s \<le> now"
        using ids(2) hit by blast
      have failed': "?P (Inl e) m'" if "open_sessions m' = open_sessions m3" for e m'
        using that old ids(1) l2 by (intro exI [of _ now] exI [of _ ids]) simp
      from ok(2) show ?thesis
      proof (cases rule: andThen_cases)
        case (fail e)
        then have "open_sessions m' = open_sessions m3" using c by simp
        then show ?thesis unfolding fail(2) by (rule failed')
      next
        case (ok u m4)
        then have u: "rc = Ok ()" "m4 = m3" using c by auto
        from ok(2) show ?thesis
        proof (cases rule: andThen_cases)
          case (fail e)
          then have "open_sessions m' = open_sessions m3" using open_sessions_in_world [OF fail(1)] u(2) by simp
          then show ?thesis unfolding fail(2) by (rule failed')
        next
          case (ok sid m5)
          then have l5: "open_sessions m5 = open_sessions m3" using open_sessions_in_world [OF ok(1)] u(2) by simp
          from ok(2) show ?thesis
          proof (cases rule: andThen_cases)
            case (fail e)
            then have "open_sessions m' = open_sessions m3" using open_sessions_in_world [OF fail(1)] l5 by simp
            then show ?thesis unfolding fail(2) by (rule failed')
          next
            case (ok tok m6)
            let ?s = "new_session pid kind tid (in_id i) ty port remote ttl now sid tok"
            have l6: "open_sessions m6 = open_sessions m3" using open_sessions_in_world [OF ok(1)] l5 by simp
            obtain rr where t: "TunnelCreate ?s m6 = (rr, m')" "r = (case rr of Inl e \<Rightarrow> Inl e | Inr _ \<Rightarrow> Inr ?s)"
              using ok(2) by (auto simp: Let_def andThen_def split: prod.splits sum.splits)
            show ?thesis
            proof (cases rr)
              case (Inl e)
              then have "open_sessions m' = open_sessions m6"
                using mesh_callD [OF t(1) [unfolded TunnelCreate_def]] by auto
              then have "open_sessions m' = open_sessions m3" using l6 by simp
              then have "?P (Inl e) m'" by (rule failed')
              then show ?thesis using t(2) Inl by simp
            next
              case (Inr v)
              then have "open_sessions m' = open_sessions m6 @ [?s]"
                using mesh_callD [OF t(1) [unfolded TunnelCreate_def]] by (auto simp: open_sessions_def new_session_def)
              moreover have "\<forall>x \<in> set (open_sessions m). tunnel_key x = (kind, tid, port) \<longrightarrow> tu_id x \<in> ids"
                using ids(3) u(1) hit by blast
              ultimately show ?thesis
                using t(2) Inr old ts ids(1) l2 l6 by (intro exI [of _ now] exI [of _ ids]) auto
            qed
          qed
        qed
      qed
    qed
  qed
qed

section \<open>Requests\<close>

datatype mesh_op =
    ReqCreate string "(string \<times> string) option" "CreateTunnelSessionRequest option"
  | ReqClose "(string \<times> string) option" string
  | ReqCleanup time
  | ReqIngest string string string "entries option"
  | Outside "world \<Rightarrow> world"

fun mesh_step :: "mesh_op \<Rightarrow> mesh_db \<Rightarrow> mesh_db" where
  "mesh_step (ReqCreate ty claims body) m = snd (createSession ty claims body m)"
| "mesh_step (ReqClose claims param) m = snd (HandleCloseSession claims param m)"
| "mesh_step (ReqCleanup before) m = snd (CleanupExpired before m)"
| "mesh_step (ReqIngest iid mid st md) m = snd (IngestTopologyState iid mid st md m)"
| "mesh_step (Outside f) m = m\<lparr>mw_world := f (mw_world m)\<rparr>"

interpretation porting: guarantee ports_free "\<lambda>_ _. True"
  by unfold_locales simp_all

abbreviation keeps_ports :: "'a mprog \<Rightarrow> bool" where
  "keeps_ports p \<equiv> within ports_free (\<lambda>_ _. True) p"

lemma distinct_map_filter: "distinct (map f xs) \<Longrightarrow> distinct (map f (filter P xs))"
  by (induction xs) auto

lemma keeps_ports_live:
  assumes "\<And>m r m'. p m = (r, m') \<Longrightarrow> \<exists>P. open_sessions m' = filter P (open_sessions m)"
  shows "keeps_ports p"
  unfolding within_def ports_free_def using assms by (metis distinct_map_filter prod.collapse)

lemma filter_all: "xs = filter (\<lambda>_. True) xs"
  by simp

lemma keeps_ports_reads: "reads p \<Longrightarrow> keeps_ports p"
  by (rule keeps_ports_live) (metis filter_all open_sessions_same same_dataD)

lemma keeps_ports_in_world: "keeps_ports (in_world p)"
  by (rule keeps_ports_live) (metis filter_all open_sessions_in_world)

lemma keeps_ports_CloseSession: "keeps_ports (CloseSession sid at)"
  by (rule keeps_ports_live) (metis filter_all open_sessions_CloseSession [where x = ErrInvalidInput])

lemma keeps_ports_Cleanup: "keeps_ports (CleanupExpired before)"
  by (rule keeps_ports_live) (rule open_sessions_CleanupExpired)

lemma keeps_ports_Upsert: "keeps_ports (TopologyUpsert t)"
proof (rule keeps_ports_live)
  fix m r m' assume "TopologyUpsert t m = (r, m')"
  then have "open_sessions m' = open_sessions m" unfolding TopologyUpsert_def by (auto simp: open_sessions_def dest!: mesh_callD)
  then show "\<exists>P. open_sessions m' = filter P (open_sessions m)" using filter_all by metis
qed

lemma keeps_ports_Create: "keeps_ports (CreateTunnelSession pid kind tid ty port remote ttl)"
  unfolding within_def
proof (intro allI impI conjI TrueI)
  fix m assume free: "ports_free m"
  obtain r m' where r: "CreateTunnelSession pid kind tid ty port remote ttl m = (r, m')"
    by (cases "CreateTunnelSession pid kind tid ty port remote ttl m")
  have "ports_free m'"
  proof (cases r)
    case (Inl e)
    then obtain ids where "open_sessions m' = filter (\<lambda>s. tu_id s \<notin> ids) (open_sessions m)"
      using create_live [OF r] by auto
    then show ?thesis using free by (simp add: ports_free_def distinct_map_filter)
  next
    case (Inr s)
    then obtain ids where l: "open_sessions m' = filter (\<lambda>s. tu_id s \<notin> ids) (open_sessions m) @ [s]"
      "\<forall>x \<in> set (open_sessions m). tunnel_key x = (kind, tid, port) \<longrightarrow> tu_id x \<in> ids" "tunnel_key s = (kind, tid, port)"
      using create_live [OF r] by (auto simp: new_session_def tunnel_key_def)
    then show ?thesis using free by (auto simp: ports_free_def distinct_map_filter)
  qed
  with r show "ports_free (snd (CreateTunnelSession pid kind tid ty port remote ttl m))" by simp
qed

lemmas port_rules = keeps_ports_in_world keeps_ports_CloseSession keeps_ports_Cleanup keeps_ports_Upsert
  keeps_ports_Create keeps_ports_reads [OF reads_calls(6)]

lemma keeps_ports_handlers:
  "keeps_ports (createSession ty claims body)" "keeps_ports (HandleCloseSession claims param)"
  "keeps_ports (IngestTopologyState iid mid st md)"
  unfolding createSession_def HandleCloseSession_def CloseTunnelSession_def IngestTopologyState_def Let_def
  by (auto intro!: porting.within_rules port_rules split: sum.split option.split)

interpretation tunnels: machine mesh_step "\<lambda>_ _. True" ports_free
proof
  fix m e assume "ports_free m"
  then show "ports_free (mesh_step e m)"
    using keeps_ports_handlers keeps_ports_Cleanup
    by (cases e) (auto simp: within_def, simp add: ports_free_def)
qed

interpretation topology: normaliser normalizeTopologyState "\<lambda>s. s \<in> {''online'', ''offline'', ''degraded''}"
proof
  show "normalizeTopologyState x \<in> {''online'', ''offline'', ''degraded''}" for x
    by (simp add: normalizeTopologyState_def Let_def)
  have "list_all (\<lambda>s. normalizeTopologyState s = s) [''online'', ''offline'', ''degraded'']" by code_simp
  then show "x \<in> {''online'', ''offline'', ''degraded''} \<Longrightarrow> normalizeTopologyState x = x" for x by auto
qed

section \<open>What a resolution relies on\<close>

lemma find_topology_upsert:
  "\<exists>x. List.find (\<lambda>q. tp_instance_id q = tp_instance_id t) (upsert_topology t rows) = Some x \<and> tp_state x = tp_state t"
proof (cases "\<exists>q \<in> set rows. tp_instance_id q = tp_instance_id t")
  case True
  then show ?thesis
    by (induction rows) (auto simp: upsert_topology_def update_where_def split: if_splits)
next
  case False
  then have "List.find (\<lambda>q. tp_instance_id q = tp_instance_id t) rows = None" by (auto simp: find_None_iff)
  then show ?thesis using False by (induction rows) (auto simp: upsert_topology_def)
qed

lemma ingest_state:
  assumes "IngestTopologyState iid mid st md m = (Inr t, m')"
  shows "tp_state t = normalizeTopologyState st \<and> tp_instance_id t = iid \<and>
    (\<exists>x. List.find (\<lambda>q. tp_instance_id q = iid) (mw_topology m') = Some x \<and> tp_state x = normalizeTopologyState st)"
proof -
  obtain m1 m2 now tid where m: "in_world now_utc m = (Inr now, m1)" "in_world (NewPrefixedID ''topo'') m1 = (Inr tid, m2)"
    "TopologyUpsert t m2 = (Inr (), m')" "tp_state t = normalizeTopologyState st" "tp_instance_id t = iid"
    using assms by (auto simp: IngestTopologyState_def andThen_Ok_iff Let_def)
  then have "mw_topology m' = upsert_topology t (mw_topology m2)"
    using mesh_callD [OF m(3) [unfolded TopologyUpsert_def]] by auto
  with m(4,5) find_topology_upsert [of t "mw_topology m2"] show ?thesis by auto
qed

lemma attempt_read:
  assumes "andThen (attempt p) f m = (r, m')" and "reads p"
  obtains x m1 where "p m = (x, m1)" "same_data m m1" "f x m1 = (r, m')"
proof -
  obtain x m1 where p: "p m = (x, m1)" by (cases "p m")
  with assms show thesis by (auto simp: andThen_def run_attempt intro!: that dest: same_dataD)
qed

definition usable :: "string \<Rightarrow> mesh_db \<Rightarrow> DeploymentBinding list \<Rightarrow> Instance \<Rightarrow> bool" where
  "usable pid m bs i \<longleftrightarrow> i \<in> set (t_instances (w_tables (mw_world m))) \<and> \<not> equal_fold (in_status i) ''offline'' \<and>
     (\<exists>b \<in> set bs. bi_target_kind b = ''instance'' \<and> bi_target_id b = in_id i)"

lemma usable_same: "same_data m m1 \<Longrightarrow> usable pid m1 bs i = usable pid m bs i"
  by (simp add: usable_def same_data_def)

lemma usable_more: "usable pid m bs i \<Longrightarrow> usable pid m (b # bs) i"
  by (auto simp: usable_def)

lemma instance_read:
  "InstanceGetByID iid w = (Inr (Some i), w') \<Longrightarrow> in_id i = iid \<and> i \<in> set (t_instances (w_tables w))"
  unfolding InstanceGetByID_def by (auto dest!: db_read_Ok simp: eq_commute [of "Some i"] dest: find_SomeD)

lemma reads_store: "reads (in_world (InstanceGetByID iid))" "reads (in_world (RevisionListByProject pid))"
  "reads (in_world (BindingListByProject pid))"
  unfolding InstanceGetByID_def RevisionListByProject_def BindingListByProject_def by (rule reads_calls(3))+

lemma service_instance_usable:
  "service_instance pid name fb bs m = (Inr (Some i), m') \<Longrightarrow> fb = Some i \<or> usable pid m bs i"
proof (induction bs arbitrary: fb m)
  case Nil
  then show ?case by simp
next
  case (Cons b bs)
  have skip: "fb' = Some i \<or> usable pid m (b # bs) i" if "service_instance pid name fb' bs m1 = (Inr (Some i), m')" "same_data m m1" for fb' m1
    using Cons.IH [OF that(1)] usable_same [OF that(2)] usable_more by blast
  show ?case
  proof (cases "bi_target_kind b = ''instance''")
    case False
    then show ?thesis using Cons.prems skip [of fb m] by (simp add: same_data_def)
  next
    case kind: True
    then have "andThen (attempt (in_world (InstanceGetByID (bi_target_id b)))) (\<lambda>r. case r of
          Inl _ \<Rightarrow> service_instance pid name fb bs
        | Inr None \<Rightarrow> service_instance pid name fb bs
        | Inr (Some i) \<Rightarrow>
            if equal_fold (in_status i) ''offline'' then service_instance pid name fb bs
            else let fb = (case fb of None \<Rightarrow> Some i | Some f \<Rightarrow> Some f) in
              if equal_fold (bi_name b) name then return (Some i)
              else andThen (attempt (in_world (RevisionListByProject pid))) (\<lambda>rr. case rr of
                  Inl _ \<Rightarrow> service_instance pid name fb bs
                | Inr revs \<Rightarrow> if list_ex (placed_by name b) revs then return (Some i)
                              else service_instance pid name fb bs)) m = (Inr (Some i), m')"
      using Cons.prems by simp
    then show ?thesis
    proof (rule attempt_read [OF _ reads_store(1)])
      fix x m1
      assume x: "in_world (InstanceGetByID (bi_target_id b)) m = (x, m1)" "same_data m m1"
        and rest: "(case x of
          Inl _ \<Rightarrow> service_instance pid name fb bs
        | Inr None \<Rightarrow> service_instance pid name fb bs
        | Inr (Some i) \<Rightarrow>
            if equal_fold (in_status i) ''offline'' then service_instance pid name fb bs
            else let fb = (case fb of None \<Rightarrow> Some i | Some f \<Rightarrow> Some f) in
              if equal_fold (bi_name b) name then return (Some i)
              else andThen (attempt (in_world (RevisionListByProject pid))) (\<lambda>rr. case rr of
                  Inl _ \<Rightarrow> service_instance pid name fb bs
                | Inr revs \<Rightarrow> if list_ex (placed_by name b) revs then return (Some i)
                              else service_instance pid name fb bs)) m1 = (Inr (Some i), m')"
      show "fb = Some i \<or> usable pid m (b # bs) i"
      proof (cases "\<exists>j. x = Inr (Some j) \<and> \<not> equal_fold (in_status j) ''offline''")
        case False
        then have "service_instance pid name fb bs m1 = (Inr (Some i), m')"
          using rest by (auto split: sum.splits option.splits if_splits)
        then show ?thesis using skip x(2) by blast
      next
        case True
        then obtain j where j: "x = Inr (Some j)" "\<not> equal_fold (in_status j) ''offline''" by blast
        have uj: "usable pid m (b # bs) j"
          using x(1) j kind by (auto simp: usable_def dest!: in_worldD instance_read)
        let ?fb = "case fb of None \<Rightarrow> Some j | Some f \<Rightarrow> Some f"
        have fbj: "?fb = Some i \<Longrightarrow> fb = Some i \<or> usable pid m (b # bs) i"
          using uj by (cases fb) auto
        show ?thesis
        proof (cases "equal_fold (bi_name b) name")
          case True
          then show ?thesis using rest j uj by (simp add: Let_def)
        next
          case False
          then have "andThen (attempt (in_world (RevisionListByProject pid))) (\<lambda>rr. case rr of
                  Inl _ \<Rightarrow> service_instance pid name ?fb bs
                | Inr revs \<Rightarrow> if list_ex (placed_by name b) revs then return (Some j)
                              else service_instance pid name ?fb bs) m1 = (Inr (Some i), m')"
            using rest j by (simp add: Let_def)
          then show ?thesis
          proof (rule attempt_read [OF _ reads_store(2)])
            fix y m2
            assume "same_data m1 m2"
              and "(case y of
                  Inl _ \<Rightarrow> service_instance pid name ?fb bs
                | Inr revs \<Rightarrow> if list_ex (placed_by name b) revs then return (Some j)
                              else service_instance pid name ?fb bs) m2 = (Inr (Some i), m')"
            then show ?thesis
              using skip [of ?fb m2] same_data_trans [OF x(2)] fbj uj
              by (auto split: sum.splits if_splits)
          qed
        qed
      qed
    qed
  qed
qed

lemma reads_service_instance: "reads (service_instance pid name fb bs)"
  by (induction bs arbitrary: fb) (auto intro!: reading.within_rules reads_store split: sum.split option.split simp: Let_def)

lemma findInstanceForService_usable:
  assumes "findInstanceForService pid name m = (Inr i, m')"
  shows "usable pid m (filter (\<lambda>b. bi_project_id b = pid) (t_bindings (w_tables (mw_world m)))) i \<and> same_data m m'"
proof -
  obtain bs m1 where b: "in_world (BindingListByProject pid) m = (Inr bs, m1)"
    "service_instance pid name None bs m1 = (Inr (Some i), m')"
    using assms by (auto simp: findInstanceForService_def andThen_Ok_iff split: if_splits option.splits)
  have bs: "bs = sort_key bi_created_at (filter (\<lambda>b. bi_project_id b = pid) (t_bindings (w_tables (mw_world m))))"
    "same_data m m1"
    using b(1) unfolding BindingListByProject_def by (auto dest: read_value(1))
  have "same_data m1 m'" by (rule same_dataD [OF reads_service_instance b(2)])
  then show ?thesis
    using service_instance_usable [OF b(2)] usable_same [OF bs(2), of pid bs i] same_data_trans [OF bs(2)]
    by (simp add: usable_def bs(1) cong: conj_cong)
qed

lemma reads_binding_port: "reads (binding_port pid name bs)"
  by (induction bs) (auto intro!: reading.within_rules reads_store split: sum.split option.split simp del: run_return)

lemma reads_port: "reads (resolveServiceHealthcheckPort pid name)"
  unfolding resolveServiceHealthcheckPort_def
  by (auto intro!: reading.within_rules reads_store reads_binding_port split: sum.split)

lemma port_positive: "extractPortFromDependencyBinding b h \<noteq> 0 \<Longrightarrow> 0 < extractPortFromDependencyBinding b h"
  by (simp add: extractPortFromDependencyBinding_def Let_def split: if_splits)

section \<open>Examples\<close>

definition demo_mesh_tables :: tables where
  "demo_mesh_tables = \<lparr>t_projects = [\<lparr>pj_id = ''prj_1'', pj_user_id = ''usr_1'', pj_slug = ''shop'', pj_created_at = 1\<rparr>],
     t_blueprints = [], t_revisions = [], t_deployments = [],
     t_bindings = [\<lparr>bi_id = ''bind_1'', bi_project_id = ''prj_1'', bi_name = ''db'', bi_target_ref = ''prod-1'',
       bi_target_environment = [], bi_runtime_mode = ''distributed-mesh'', bi_target_kind = ''instance'',
       bi_target_id = ''inst_1'', bi_created_at = 1\<rparr>],
     t_instances = [\<lparr>in_id = ''inst_1'', in_user_id = ''usr_1'', in_name = ''prod-1'', in_agent_id = None,
       in_status = ''online'', in_created_at = 1\<rparr>],
     t_clusters = [], t_incidents = []\<rparr>"

definition demo_mesh :: mesh_db where
  "demo_mesh = \<lparr>mw_world = \<lparr>w_tables = demo_mesh_tables, w_faults = [], w_clock = int, w_tick = 10, w_fresh = (\<lambda>n. itoa (int n)),
       w_next_id = 1, w_events = [], w_sent = [], w_turns = [], w_awaiting = None, w_recovering = {}\<rparr>,
     mw_tunnels = [],
     mw_topology = [\<lparr>tp_id = ''topo_1'', tp_instance_id = ''inst_1'', tp_mesh_id = ''mesh_1'', tp_state = ''online'',
       tp_metadata = Some [], tp_last_seen_at = 1, tp_created_at = 1, tp_updated_at = 1\<rparr>],
     mw_private_ip = [''inst_1'' \<mapsto> ''10.0.0.5''], mw_public_ip = Map.empty\<rparr>"

definition demo_tunnel_request :: CreateTunnelSessionRequest where
  "demo_tunnel_request = \<lparr>tr_project_id = ''prj_1'', tr_target_ref = ''prod-1'', tr_local_port = 80,
     tr_remote = ''db:5432'', tr_timeout = []\<rparr>"

definition demo_open :: mesh_db where
  "demo_open = snd (CreateTCPSession (Some (''usr_1'', ''user'')) (Some demo_tunnel_request) demo_mesh)"

lemma demo_open_sessions: "map tunnel_key (open_sessions demo_open) = [(''instance'', ''inst_1'', 80)]"
  by code_simp

text \<open>Programs that always give an answer, with a property.\<close>

definition answers :: "('a \<Rightarrow> bool) \<Rightarrow> ('w, 'a) prog \<Rightarrow> bool" where
  "answers P p \<longleftrightarrow> (\<forall>m. \<exists>a. fst (p m) = Ok a \<and> P a)"

lemma answers_return: "P a \<Longrightarrow> answers P (return a)"
  by (simp add: answers_def)

lemma answers_attempt:
  "(\<And>r m m'. p m = (r, m') \<Longrightarrow> answers P (f r)) \<Longrightarrow> answers P (andThen (attempt p) f)"
  unfolding answers_def by (simp add: andThen_def run_attempt) (metis prod.collapse)

section \<open>Properties\<close>

text \<open>
  Property C25: no local port carries two open tunnels. From a table without sessions, over any requests of any users, clock
  values and database failures, the active sessions of one target all have different local ports.
\<close>

theorem one_session_per_port:
  assumes "mw_tunnels m = []"
  shows "distinct (map tunnel_key (open_sessions (run mesh_step es m)))"
proof -
  have "ports_free m" using assms by (simp add: ports_free_def open_sessions_def)
  then have "ports_free (run mesh_step es m)" by (rule tunnels.invar_run) simp
  then show ?thesis by (simp add: ports_free_def)
qed

theorem one_session_per_port_witness:
  "distinct (map tunnel_key (open_sessions (run mesh_step [ReqCreate ''tcp'' (Some (''usr_1'', ''user'')) (Some demo_tunnel_request),
     ReqCreate ''db'' (Some (''usr_1'', ''user'')) (Some demo_tunnel_request), ReqCleanup 5] demo_mesh)))"
  by (rule one_session_per_port) (simp add: demo_mesh_def)

text \<open>
  What creating a tunnel does. When it succeeds the target is an instance that exists and is not offline, every
  active session on the same port of the target had expired and is the only thing closed, and the new session is added,
  active until its time to live has passed.
\<close>

theorem created_session_displaces_only_expired:
  assumes "CreateTunnelSession pid kind tid ty port remote ttl m = (Ok s, m')"
    and "distinct (map tu_id (mw_tunnels m))"
  shows "open_sessions m' = filter (\<lambda>x. tunnel_key x \<noteq> tunnel_key s) (open_sessions m) @ [s] \<and>
    (\<forall>x \<in> set (open_sessions m). tunnel_key x = tunnel_key s \<longrightarrow> tu_expires_at x \<le> tu_created_at s) \<and>
    tunnel_key s = (kind, tid, port) \<and> tu_expires_at s = tu_created_at s + ttl \<and> tu_project_id s = pid \<and>
    (\<exists>i \<in> set (t_instances (w_tables (mw_world m))). in_id i = tid \<and> tu_instance_id s = tid) \<and>
    \<not> offline_state (List.find (\<lambda>t. tp_instance_id t = tid) (mw_topology m))"
proof -
  obtain now ids where l: "\<forall>i \<in> ids. \<exists>s \<in> set (open_sessions m). tu_id s = i \<and> tunnel_key s = (kind, tid, port) \<and> tu_expires_at s \<le> now"
    "open_sessions m' = filter (\<lambda>s. tu_id s \<notin> ids) (open_sessions m) @ [s]"
    "\<forall>x \<in> set (open_sessions m). tunnel_key x = (kind, tid, port) \<longrightarrow> tu_id x \<in> ids"
    "\<exists>i sid tok. s = new_session pid kind tid (in_id i) ty port remote ttl now sid tok \<and>
            in_id i = tid \<and> i \<in> set (t_instances (w_tables (mw_world m)))"
    "\<not> offline_state (List.find (\<lambda>t. tp_instance_id t = tid) (mw_topology m))"
    using create_live [OF assms(1), unfolded sum.case] by blast
  have "set (open_sessions m) \<subseteq> set (mw_tunnels m)" by (auto simp: open_sessions_def)
  then have same: "x = y" if "x \<in> set (open_sessions m)" "y \<in> set (open_sessions m)" "tu_id x = tu_id y" for x y
    using that assms(2) by (meson distinct_map inj_on_def subset_iff)
  have hit: "tu_id x \<in> ids \<longleftrightarrow> tunnel_key x = (kind, tid, port)" "tu_id x \<in> ids \<Longrightarrow> tu_expires_at x \<le> now"
    if "x \<in> set (open_sessions m)" for x
    using l(1,3) same that by metis+
  have k: "tunnel_key s = (kind, tid, port)" "tu_created_at s = now" "tu_expires_at s = now + ttl" "tu_project_id s = pid"
    "\<exists>i \<in> set (t_instances (w_tables (mw_world m))). in_id i = tid \<and> tu_instance_id s = tid"
    using l(4) by (auto simp: new_session_def tunnel_key_def)
  have "filter (\<lambda>s. tu_id s \<notin> ids) (open_sessions m) = filter (\<lambda>x. tunnel_key x \<noteq> tunnel_key s) (open_sessions m)"
    using hit(1) by (intro filter_cong) (auto simp: k(1))
  with l(2,5) k hit show ?thesis by auto
qed

theorem created_session_displaces_only_expired_witness:
  "\<exists>s m'. CreateTunnelSession ''prj_1'' ''instance'' ''inst_1'' ''db'' 81 22 (30 * minute) demo_mesh = (Ok s, m') \<and>
     open_sessions m' = [s] \<and> tu_expires_at s = tu_created_at s + 30 * minute"
proof -
  let ?r = "CreateTunnelSession ''prj_1'' ''instance'' ''inst_1'' ''db'' 81 22 (30 * minute) demo_mesh"
  have "is_ok (fst ?r)" by code_simp
  then obtain s m' where r: "?r = (Ok s, m')" by (metis is_ok_iff prod.collapse)
  have "mw_tunnels demo_mesh = []" by (simp add: demo_mesh_def)
  then show ?thesis
    using created_session_displaces_only_expired [OF r] r by (auto simp: open_sessions_def)
qed

text \<open>
  The controller's answers for a busy port are never given. Whatever the request and the state, its error code is
  neither \<open>port_conflict\<close> nor \<open>session_cleanup_failed\<close>, because the service's errors are not the sentinels the
  controller compares with: a request for a port in use is answered with status 500.
\<close>

theorem busy_port_is_internal_error:
  "(\<exists>a. fst (createSession ty claims body m) = Ok a \<and> ha_code a \<noteq> ''port_conflict'' \<and> ha_code a \<noteq> ''session_cleanup_failed'') \<and>
   fst (createSession ''tcp'' (Some (''usr_1'', ''user'')) (Some demo_tunnel_request) demo_open) = Ok (answer_error 500 ''internal_error'')"
proof -
  have create: "ha_code (create_error e) \<noteq> ''port_conflict'' \<and> ha_code (create_error e) \<noteq> ''session_cleanup_failed''"
    if "CreateTunnelSession pid kind tid ty port remote ttl m1 = (Inl e, m2)" for pid kind tid port remote ttl m1 m2 e
  proof -
    have "\<not> err_is e x" if "x \<notin> {ErrTargetNotFound, ErrTargetOffline}" for x
      using create_never [OF that] \<open>CreateTunnelSession pid kind tid ty port remote ttl m1 = (Inl e, m2)\<close>
      unfolding never_def by blast
    then show ?thesis by (simp add: create_error_def answer_error_def)
  qed
  have "is_ok (fst (createSession ''tcp'' (Some (''usr_1'', ''user'')) (Some demo_tunnel_request) demo_open)) \<and>
      (case fst (createSession ''tcp'' (Some (''usr_1'', ''user'')) (Some demo_tunnel_request) demo_open) of
         Inr a \<Rightarrow> ha_status a = 500 \<and> ha_code a = ''internal_error'' \<and> ha_session a = None | Inl e \<Rightarrow> False)"
    by code_simp
  then have "fst (createSession ''tcp'' (Some (''usr_1'', ''user'')) (Some demo_tunnel_request) demo_open) = Ok (answer_error 500 ''internal_error'')"
    by (auto simp: answer_error_def split: sum.splits)
  moreover have "answers (\<lambda>a. ha_code a \<noteq> ''port_conflict'' \<and> ha_code a \<noteq> ''session_cleanup_failed'') (createSession ty claims body)"
    unfolding createSession_def
    by (auto intro!: answers_return answers_attempt create simp: project_error_def answer_error_def
        split: option.split sum.split simp del: run_return)
  then have "\<exists>a. fst (createSession ty claims body m) = Ok a \<and> ha_code a \<noteq> ''port_conflict'' \<and> ha_code a \<noteq> ''session_cleanup_failed''"
    by (simp add: answers_def)
  ultimately show ?thesis by blast
qed

lemma target_sessions_offline:
  assumes "offline_state (List.find (\<lambda>t. tp_instance_id t = tid) (mw_topology m))"
  shows "\<not> is_ok (fst (CreateTunnelSession pid kind tid ty port remote ttl m))"
proof
  assume "is_ok (fst (CreateTunnelSession pid kind tid ty port remote ttl m))"
  then obtain s m' where "CreateTunnelSession pid kind tid ty port remote ttl m = (Inr s, m')"
    by (metis is_ok_iff prod.collapse)
  with create_live [OF this, unfolded sum.case] assms show False by blast
qed

lemma same_ip: "same_data m m1 \<Longrightarrow> resolveInstanceIP iid m1 = resolveInstanceIP iid m"
  unfolding same_data_def resolveInstanceIP_def by (simp split: option.split)

lemma resolve_Ok:
  assumes "ResolveDependencyBinding pid name b m = (Inr r, m')"
  shows "same_data m m' \<and> to_lower (trim_space (db_protocol b)) \<in> set allowedMeshProtocols \<and>
    rr_protocol r = to_lower (trim_space (db_protocol b)) \<and>
    (\<exists>i port. usable pid m (filter (\<lambda>b. bi_project_id b = pid) (t_bindings (w_tables (mw_world m)))) i \<and>
       rr_target_id r = in_id i \<and> \<not> offline_state (List.find (\<lambda>t. tp_instance_id t = in_id i) (mw_topology m)) \<and>
       resolveInstanceIP (in_id i) m \<noteq> [] \<and> port > 0 \<and>
       rr_target_endpoint r = resolveInstanceIP (in_id i) m @ '':'' @ itoa port)"
proof -
  obtain i m1 topo m2 where a: "findInstanceForService pid (db_target_service b) m = (Inr i, m1)"
    "TopologyGetByInstance (in_id i) m1 = (Inr topo, m2)" "\<not> offline_state topo"
    "to_lower (trim_space (db_protocol b)) \<in> set allowedMeshProtocols"
    and ip: "resolveInstanceIP (in_id i) m2 \<noteq> []"
    and rest: "andThen (resolveServiceHealthcheckPort pid (db_target_service b)) (\<lambda>hport.
            let port = extractPortFromDependencyBinding b hport in
            if port = 0 then raise (Errorf (''cannot resolve port for service '' @ go_quote (db_target_service b) @
                '': no local_endpoint configured and no healthcheck port available''))
            else return
              \<lparr>rr_service_name = name, rr_target_service = db_target_service b, rr_alias = db_alias b,
               rr_protocol = to_lower (trim_space (db_protocol b)),
               rr_local_endpoint = db_local_endpoint b,
               rr_target_endpoint = resolveInstanceIP (in_id i) m2 @ '':'' @ itoa port,
               rr_target_kind = ''instance'', rr_target_id = in_id i,
               rr_private_path = buildPrivatePath (resolveInstanceIP (in_id i) m2) port (to_lower (trim_space (db_protocol b))),
               rr_env_injection = buildEnvInjection (db_alias b) (resolveInstanceIP (in_id i) m2) port
                 (to_lower (trim_space (db_protocol b)))\<rparr>) m2 = (Inr r, m')"
    using assms unfolding ResolveDependencyBinding_def Let_def andThen_Ok_iff
    by (auto simp: andThen_Ok_iff Let_def split: if_splits)
  note u = findInstanceForService_usable [OF a(1)]
  note t = read_value(2) [OF a(2)]
  obtain hport m3 where h: "resolveServiceHealthcheckPort pid (db_target_service b) m2 = (Inr hport, m3)" "m' = m3"
    "extractPortFromDependencyBinding b hport \<noteq> 0"
    "rr_target_endpoint r = resolveInstanceIP (in_id i) m2 @ '':'' @ itoa (extractPortFromDependencyBinding b hport)"
    "rr_target_id r = in_id i" "rr_protocol r = to_lower (trim_space (db_protocol b))"
    using rest by (auto simp: andThen_Ok_iff Let_def split: if_splits)
  have "same_data m2 m3" by (rule same_dataD [OF reads_port h(1)])
  then have "same_data m m'" using u t same_data_trans h(2) by blast
  moreover have "resolveInstanceIP (in_id i) m2 = resolveInstanceIP (in_id i) m"
    using u t same_ip by metis
  moreover have "topo = List.find (\<lambda>t. tp_instance_id t = in_id i) (mw_topology m)"
    using t u by (simp add: same_data_def)
  ultimately show ?thesis
    using u a(3,4) ip h(3-6) port_positive [OF h(3)] by auto
qed

text \<open>
  Property C37: where a resolved dependency points. The endpoint is the known address, with a positive port, of an instance
  that a binding of the project targets and that is neither marked offline in its row nor reported offline by the mesh
  (it need not be online: a pending, revoked or degraded instance passes); the protocol of the result is that of the
  dependency binding, in lower case, and an allowed one; and resolving changes no data.
\<close>

theorem resolved_dependency_is_reachable:
  assumes "ResolveDependencyBinding pid name b m = (Ok r, m')"
  shows "same_data m m' \<and> rr_protocol r = to_lower (trim_space (db_protocol b)) \<and>
    rr_protocol r \<in> set allowedMeshProtocols \<and>
    (\<exists>i \<in> set (t_instances (w_tables (mw_world m))). \<exists>d \<in> set (t_bindings (w_tables (mw_world m))). \<exists>port > 0.
       bi_project_id d = pid \<and> bi_target_kind d = ''instance'' \<and> bi_target_id d = in_id i \<and>
       rr_target_id r = in_id i \<and> \<not> equal_fold (in_status i) ''offline'' \<and>
       \<not> offline_state (List.find (\<lambda>t. tp_instance_id t = in_id i) (mw_topology m)) \<and>
       resolveInstanceIP (in_id i) m \<noteq> [] \<and>
       rr_target_endpoint r = resolveInstanceIP (in_id i) m @ '':'' @ itoa port)"
proof -
  obtain i port where r: "same_data m m'" "to_lower (trim_space (db_protocol b)) \<in> set allowedMeshProtocols"
    "rr_protocol r = to_lower (trim_space (db_protocol b))"
    "usable pid m (filter (\<lambda>b. bi_project_id b = pid) (t_bindings (w_tables (mw_world m)))) i"
    "rr_target_id r = in_id i" "\<not> offline_state (List.find (\<lambda>t. tp_instance_id t = in_id i) (mw_topology m))"
    "resolveInstanceIP (in_id i) m \<noteq> []" "port > 0"
    "rr_target_endpoint r = resolveInstanceIP (in_id i) m @ '':'' @ itoa port"
    using resolve_Ok [OF assms] by blast
  then show ?thesis unfolding usable_def by (simp only: r(3)) auto
qed

definition demo_binding :: DependencyBinding where
  "demo_binding = \<lparr>db_service = ''api'', db_alias = ''main-db'', db_target_service = ''db'', db_protocol = ''TCP'',
     db_local_endpoint = ''localhost:80''\<rparr>"

theorem resolved_dependency_is_reachable_witness:
  "\<exists>r m'. ResolveDependencyBinding ''prj_1'' ''api'' demo_binding demo_mesh = (Ok r, m') \<and> same_data demo_mesh m' \<and>
     (\<exists>port. rr_target_endpoint r = resolveInstanceIP ''inst_1'' demo_mesh @ '':'' @ itoa port)"
proof -
  let ?r = "ResolveDependencyBinding ''prj_1'' ''api'' demo_binding demo_mesh"
  have "is_ok (fst ?r)" by code_simp
  then obtain r m' where r: "?r = (Ok r, m')" by (metis is_ok_iff prod.collapse)
  have "\<forall>i \<in> set (t_instances (w_tables (mw_world demo_mesh))). in_id i = ''inst_1''"
    by (simp add: demo_mesh_def demo_mesh_tables_def)
  with resolved_dependency_is_reachable [OF r] r show ?thesis by (metis (no_types, lifting))
qed

text \<open>
  Property C38: a report that an instance is offline, or in any state the mesh does not know, closes it. After such a report no
  tunnel to it is created and no dependency resolves to it.
\<close>

theorem offline_report_closes_target:
  assumes "IngestTopologyState iid mid st md m = (Ok t, m1)" and "to_lower (trim_space st) \<notin> {''online'', ''degraded''}"
  shows "tp_state t = ''offline'' \<and> \<not> is_ok (fst (CreateTunnelSession pid kind iid ty port remote ttl m1)) \<and>
    (case fst (ResolveDependencyBinding prj name b m1) of Inl e \<Rightarrow> True | Inr r \<Rightarrow> rr_target_id r \<noteq> iid)"
proof -
  have st: "normalizeTopologyState st = ''offline''" using assms(2) by (simp add: normalizeTopologyState_def Let_def)
  then have off: "offline_state (List.find (\<lambda>q. tp_instance_id q = iid) (mw_topology m1))" "tp_state t = ''offline''"
    using ingest_state [OF assms(1)] by (auto simp: offline_state_def)
  moreover have "rr_target_id r \<noteq> iid" if "fst (ResolveDependencyBinding prj name b m1) = Inr r" for r
    using resolve_Ok [of prj name b m1 r "snd (ResolveDependencyBinding prj name b m1)"] that off(1)
    by (metis prod.collapse)
  ultimately show ?thesis using target_sessions_offline [OF off(1)] by (auto split: sum.split)
qed

theorem offline_report_closes_target_witness:
  "\<exists>t m1. IngestTopologyState ''inst_1'' ''mesh_1'' ''Draining'' None demo_mesh = (Ok t, m1) \<and> tp_state t = ''offline'' \<and>
     \<not> is_ok (fst (CreateTunnelSession ''prj_1'' ''instance'' ''inst_1'' ''db'' 81 22 minute m1))"
proof -
  let ?r = "IngestTopologyState ''inst_1'' ''mesh_1'' ''Draining'' None demo_mesh"
  have "is_ok (fst ?r)" by code_simp
  then obtain t m1 where r: "?r = (Ok t, m1)" by (metis is_ok_iff prod.collapse)
  have "to_lower (trim_space ''Draining'') \<notin> {''online'', ''degraded''}" by code_simp
  with offline_report_closes_target [OF r] r show ?thesis by blast
qed

end
