(* ===== verification/ProjectDomains.thy ===== *)
theory ProjectDomains
  imports Deployment RoutingService GoText NetAddr
begin

text \<open>
  Managed domains of projects (\<open>backend/internal/service/project_domain_service.go\<close>) with their table
  (\<open>project_domain_repository.go\<close>) and the DNS client (\<open>project_domain_dns.go\<close>).
  The state is the world of theory Store with the domains, the services of the projects and the address
  columns of instances and clusters. The provider of DNS records is a parameter: its answer to every request in turn; all requests
  are logged with their answers. Random suffixes are a stream, \<open>None\<close> where \<open>rand.Read\<close> fails.
  The table has the unique indexes of the model: a write that would break one fails.
\<close>

section \<open>State\<close>

record ProjectDomain =
  pdm_id :: string
  pdm_project_id :: string
  pdm_hostname :: string
  pdm_label :: string
  pdm_kind :: string
  pdm_status :: string
  pdm_status_reason :: string
  pdm_record_id :: string
  pdm_target_kind :: string
  pdm_target_id :: string
  pdm_synced_ip :: string
  pdm_created_at :: time
  pdm_updated_at :: time

record DnsUpsertRequest =
  dq_hostname :: string
  dq_ipv4 :: string
  dq_proxied :: bool
  dq_record_id :: string

record domain_db =
  dd_world :: world
  dd_domains :: "ProjectDomain list"
  dd_services :: "ServiceRow list"
  dd_instance_ip :: "string \<rightharpoonup> string"
  dd_cluster_ip :: "string \<rightharpoonup> string"
  dd_random :: "nat \<Rightarrow> byte list option"
  dd_drawn :: nat
  dd_provider :: "nat \<Rightarrow> DnsUpsertRequest \<Rightarrow> string res"
  dd_requests :: "(DnsUpsertRequest \<times> string res) list"

type_synonym 'a dprog = "(domain_db, 'a) prog"

record domain_config =
  cfg_base_domain :: string
  cfg_proxied :: bool

definition on_world :: "'a wprog \<Rightarrow> 'a dprog" where
  "on_world p = (\<lambda>m. case p (dd_world m) of (r, w) \<Rightarrow> (r, m\<lparr>dd_world := w\<rparr>))"

text \<open>A call of the database. It fails if the script says so, or if the statement itself is refused.\<close>

definition domain_call :: "string \<Rightarrow> (domain_db \<Rightarrow> 'a option \<times> domain_db) \<Rightarrow> 'a dprog" where
  "domain_call msg f = (\<lambda>m. let w = dd_world m in
     (case w_faults w of
        True # fs \<Rightarrow> (Fail (Wrapped msg DbFailure), m\<lparr>dd_world := w\<lparr>w_faults := fs\<rparr>\<rparr>)
      | fs \<Rightarrow> (case f (m\<lparr>dd_world := w\<lparr>w_faults := tl fs\<rparr>\<rparr>) of
                 (None, m') \<Rightarrow> (Fail (Wrapped msg DbFailure), m')
               | (Some x, m') \<Rightarrow> (Ok x, m'))))"

section \<open>Repository\<close>

definition DomainGetByProjectIDAndKind :: "string \<Rightarrow> string \<Rightarrow> ProjectDomain option dprog" where
  "DomainGetByProjectIDAndKind pid kind = domain_call ''query project domain by project and kind'' (\<lambda>m.
     (Some (List.find (\<lambda>d. pdm_project_id d = pid \<and> pdm_kind d = kind) (dd_domains m)), m))"

definition DomainGetByHostname :: "string \<Rightarrow> ProjectDomain option dprog" where
  "DomainGetByHostname h = domain_call ''query project domain by hostname'' (\<lambda>m.
     (Some (List.find (\<lambda>d. pdm_hostname d = h) (dd_domains m)), m))"

text \<open>The unique indexes on the host name and on project and kind.\<close>

definition same_domain_key :: "ProjectDomain \<Rightarrow> ProjectDomain \<Rightarrow> bool" where
  "same_domain_key a b \<longleftrightarrow> pdm_hostname a = pdm_hostname b \<or>
     pdm_project_id a = pdm_project_id b \<and> pdm_kind a = pdm_kind b"

definition DomainCreate :: "ProjectDomain \<Rightarrow> unit dprog" where
  "DomainCreate d = domain_call ''create project domain'' (\<lambda>m.
     if \<exists>r \<in> set (dd_domains m). pdm_id r = pdm_id d \<or> same_domain_key r d then (None, m)
     else (Some (), m\<lparr>dd_domains := dd_domains m @ [d]\<rparr>))"

text \<open>\<open>Save\<close> sets the time of the update and writes every column; a row that is gone is inserted.\<close>

definition DomainSave :: "ProjectDomain \<Rightarrow> ProjectDomain dprog" where
  "DomainSave d0 = andThen (on_world now_utc) (\<lambda>now. let d = d0\<lparr>pdm_updated_at := now\<rparr> in
     domain_call ''save project domain'' (\<lambda>m.
       if \<exists>r \<in> set (dd_domains m). pdm_id r \<noteq> pdm_id d \<and> same_domain_key r d then (None, m)
       else if \<exists>r \<in> set (dd_domains m). pdm_id r = pdm_id d
       then (Some d, m\<lparr>dd_domains := update_where (\<lambda>r. pdm_id r = pdm_id d) (\<lambda>_. d) (dd_domains m)\<rparr>)
       else (Some d, m\<lparr>dd_domains := dd_domains m @ [d]\<rparr>)))"

definition ProjectServicesListByProject :: "string \<Rightarrow> ServiceRow list dprog" where
  "ProjectServicesListByProject pid = domain_call ''list services'' (\<lambda>m.
     (Some (sort_key sr_name (filter (\<lambda>s. sr_project_id s = pid) (dd_services m))), m))"

section \<open>Labels and host names\<close>

definition label_char :: "char \<Rightarrow> bool" where
  "label_char c \<longleftrightarrow> (CHR ''a'' \<le> c \<and> c \<le> CHR ''z'') \<or> (CHR ''0'' \<le> c \<and> c \<le> CHR ''9'')"

definition projectDomainLabelPattern :: "string \<Rightarrow> bool" where
  "projectDomainLabelPattern l \<longleftrightarrow> l \<noteq> [] \<and> length l \<le> 63 \<and> label_char (hd l) \<and> label_char (last l) \<and>
     list_all (\<lambda>c. label_char c \<or> c = CHR ''-'') l"

definition trimProjectDomainLabel :: "string \<Rightarrow> string" where
  "trimProjectDomainLabel label0 =
     (let l = trim_dashes (to_lower (trim_space label0)) in
      if length l \<le> 63 then l else trim_dashes (take 63 l))"

definition normalizeProjectDomainLabel :: "string \<Rightarrow> string res" where
  "normalizeProjectDomainLabel raw =
     (let l = trimProjectDomainLabel (to_lower (trim_space raw)) in
      if projectDomainLabelPattern l then Ok l else Fail (Sentinel ErrProjectDomainLabelInvalid))"

definition sanitizeProjectDomainLabel :: "string \<Rightarrow> string" where
  "sanitizeProjectDomainLabel raw =
     (let t = to_lower (trim_space raw) in
      if t = [] then [] else trimProjectDomainLabel (label_loop [] False t))"

text \<open>\<open>hex.EncodeToString\<close>\<close>

definition hex_string :: "byte list \<Rightarrow> string" where
  "hex_string bs = concat (map (\<lambda>b. [hex_digit (unat b div 16), hex_digit (unat b mod 16)]) bs)"

definition randomProjectDomainSuffix :: "string dprog" where
  "randomProjectDomainSuffix = (\<lambda>m.
     (case dd_random m (dd_drawn m) of
        None \<Rightarrow> Fail (Wrapped ''generate project domain suffix'' (Errorf []))
      | Some buf \<Rightarrow> Ok (hex_string (take 3 buf)), m\<lparr>dd_drawn := dd_drawn m + 1\<rparr>))"

definition hostnameForLabel :: "domain_config \<Rightarrow> string \<Rightarrow> string" where
  "hostnameForLabel cfg label0 =
     (let base = trim_set ''.'' (to_lower (trim_space (cfg_base_domain cfg))) in
      label0 @ ''.'' @ (if base = [] then ''lazyops.cloud'' else base))"

definition managedProjectDomainURL :: "string \<Rightarrow> string" where
  "managedProjectDomainURL hostname =
     (let host = trim_space hostname in if host = [] then [] else ''https://'' @ host)"

definition suffixed_label :: "string \<Rightarrow> string \<Rightarrow> string" where
  "suffixed_label base suffix = trimProjectDomainLabel (base @ ''-'' @ suffix)"

fun allocate_attempts :: "domain_config \<Rightarrow> string \<Rightarrow> nat \<Rightarrow> (string \<times> string) dprog" where
  "allocate_attempts cfg base 0 = raise (Errorf ''could not allocate a unique managed domain label'')"
| "allocate_attempts cfg base (Suc n) =
     andThen randomProjectDomainSuffix (\<lambda>suffix.
     let l = suffixed_label base suffix; h = hostnameForLabel cfg l in
     andThen (DomainGetByHostname h) (\<lambda>existing.
     case existing of None \<Rightarrow> return (l, h) | Some _ \<Rightarrow> allocate_attempts cfg base n))"

definition allocateUniqueHostname :: "domain_config \<Rightarrow> string \<Rightarrow> (string \<times> string) dprog" where
  "allocateUniqueHostname cfg slug =
     (let base = sanitizeProjectDomainLabel slug in
      allocate_attempts cfg (if base = [] then ''app'' else base) 8)"

definition ensureHostnameAvailable :: "string \<Rightarrow> string \<Rightarrow> unit dprog" where
  "ensureHostnameAvailable pid h =
     andThen (DomainGetByHostname h) (\<lambda>existing. case existing of
       None \<Rightarrow> return ()
     | Some d \<Rightarrow> if trim_space (pdm_project_id d) \<noteq> trim_space pid
                then raise (Sentinel ErrProjectDomainLabelTaken) else return ())"

section \<open>The provider\<close>

definition NoopUpsertARecord :: "DnsUpsertRequest \<Rightarrow> string res" where
  "NoopUpsertARecord q =
     (let r = trim_space (dq_record_id q) in Ok (if r = [] then ''dns_noop'' else r))"

definition UpsertARecord :: "DnsUpsertRequest \<Rightarrow> string dprog" where
  "UpsertARecord q = (\<lambda>m. let r = dd_provider m (length (dd_requests m)) q in
     (r, m\<lparr>dd_requests := dd_requests m @ [(q, r)]\<rparr>))"

text \<open>The two reasons are Vietnamese: waiting for a public address to synchronise, and a failure to synchronise.\<close>

definition waiting_reason :: string where
  "waiting_reason = [CHR 0xC4, CHR 0x90] @ ''ang ch'' @ [CHR 0xE1, CHR 0xBB, CHR 0x9D] @ '' public IP '' @
     [CHR 0xC4, CHR 0x91, CHR 0xE1, CHR 0xBB, CHR 0x83] @ '' '' @ [CHR 0xC4, CHR 0x91, CHR 0xE1, CHR 0xBB, CHR 0x93] @
     ''ng b'' @ [CHR 0xE1, CHR 0xBB, CHR 0x99] @ '' DNS.''"

definition failed_reason :: "go_err \<Rightarrow> string" where
  "failed_reason e = ''Kh'' @ [CHR 0xC3, CHR 0xB4] @ ''ng th'' @ [CHR 0xE1, CHR 0xBB, CHR 0x83] @ '' '' @
     [CHR 0xC4, CHR 0x91, CHR 0xE1, CHR 0xBB, CHR 0x93] @ ''ng b'' @ [CHR 0xE1, CHR 0xBB, CHR 0x99] @
     '' DNS Cloudflare: '' @ error_text e"

definition syncManagedDomain :: "domain_config \<Rightarrow> ProjectDomain \<Rightarrow> string \<Rightarrow> ProjectDomain dprog" where
  "syncManagedDomain cfg d publicIP =
     (let ip = trim_space publicIP in
      if ip = [] \<or> parse_ip ip = None
      then return (d\<lparr>pdm_status := ''pending'', pdm_status_reason := waiting_reason, pdm_synced_ip := []\<rparr>)
      else if pdm_status d = ''active'' \<and> trim_space (pdm_synced_ip d) = ip \<and> trim_space (pdm_record_id d) \<noteq> []
      then return (d\<lparr>pdm_status_reason := []\<rparr>)
      else andThen (attempt (UpsertARecord \<lparr>dq_hostname = pdm_hostname d, dq_ipv4 = ip, dq_proxied = cfg_proxied cfg,
                 dq_record_id = pdm_record_id d\<rparr>)) (\<lambda>r. case r of
             Inl e \<Rightarrow> return (d\<lparr>pdm_status := ''error'', pdm_status_reason := failed_reason e\<rparr>)
           | Inr rid \<Rightarrow> return (d\<lparr>pdm_status := ''active'', pdm_status_reason := [],
                 pdm_record_id := first_non_empty [rid, pdm_record_id d], pdm_synced_ip := ip\<rparr>)))"

section \<open>The service\<close>

text \<open>The trimmed address column of a row that was found, else the empty string.\<close>

definition address_of :: "(domain_db \<Rightarrow> string \<rightharpoonup> string) \<Rightarrow> string \<Rightarrow> 'r option res \<Rightarrow> string dprog" where
  "address_of column i found = (\<lambda>m. (Ok (case found of
       Inr (Some _) \<Rightarrow> (case column m i of Some ip \<Rightarrow> trim_space ip | None \<Rightarrow> []) | _ \<Rightarrow> []), m))"

definition resolveTargetPublicIP :: "string \<Rightarrow> string \<Rightarrow> string dprog" where
  "resolveTargetPublicIP kind0 tid0 =
     (let kind = trim_space kind0; tid = trim_space tid0 in
      if kind = ''instance'' then
        (if tid = [] then return []
         else andThen (attempt (on_world (InstanceGetByID tid))) (address_of dd_instance_ip tid))
      else if kind = ''cluster'' then
        (if tid = [] then return []
         else andThen (attempt (on_world (ClusterGetByID tid))) (address_of dd_cluster_ip tid))
      else return [])"

definition resolvePrimaryTarget :: "string \<Rightarrow> (string \<times> string \<times> string) dprog" where
  "resolvePrimaryTarget pid =
     andThen (on_world (GetByTargetRefForProject pid ''auto-primary'')) (\<lambda>primary.
     andThen (case primary of
         Some b \<Rightarrow> return [b]
       | None \<Rightarrow> on_world (BindingListByProject pid)) (\<lambda>bs.
     case bs of
       [] \<Rightarrow> return ([], [], [])
     | b # _ \<Rightarrow> andThen (resolveTargetPublicIP (bi_target_kind b) (bi_target_id b)) (\<lambda>ip.
         return (trim_space (bi_target_kind b), trim_space (bi_target_id b), ip))))"

definition projectHasPublicServices :: "string \<Rightarrow> bool dprog" where
  "projectHasPublicServices pid =
     (if trim_space pid = [] then return False
      else andThen (attempt (ProjectServicesListByProject pid)) (\<lambda>r. return (case r of
             Inl _ \<Rightarrow> False | Inr items \<Rightarrow> list_ex sr_public items)))"

definition new_domain :: "string \<Rightarrow> string \<Rightarrow> string \<Rightarrow> string \<Rightarrow> ProjectDomain" where
  "new_domain i pid l h = \<lparr>pdm_id = i, pdm_project_id = pid, pdm_hostname = h, pdm_label = l,
     pdm_kind = ''managed'', pdm_status = ''pending'', pdm_status_reason = [], pdm_record_id = [],
     pdm_target_kind = [], pdm_target_id = [], pdm_synced_ip = [], pdm_created_at = zero_time, pdm_updated_at = zero_time\<rparr>"

definition chosen_domain :: "domain_config \<Rightarrow> string \<Rightarrow> string \<Rightarrow> bool \<Rightarrow> ProjectDomain option \<Rightarrow> ProjectDomain dprog" where
  "chosen_domain cfg pid slug regenerate existing = (case existing of
       None \<Rightarrow> andThen (allocateUniqueHostname cfg slug) (\<lambda>(l, h).
         andThen (on_world (NewPrefixedID ''dom'')) (\<lambda>i. return (new_domain i pid l h)))
     | Some d \<Rightarrow> if regenerate
         then andThen (allocateUniqueHostname cfg slug) (\<lambda>(l, h). return (d\<lparr>pdm_label := l, pdm_hostname := h\<rparr>))
         else return d)"

definition store_domain :: "ProjectDomain \<Rightarrow> ProjectDomain dprog" where
  "store_domain d =
     andThen (on_world now_utc) (\<lambda>now.
       if is_zero (pdm_created_at d)
       then let d' = d\<lparr>pdm_created_at := now, pdm_updated_at := now\<rparr> in
            andThen (DomainCreate d') (\<lambda>_. return d')
       else DomainSave (d\<lparr>pdm_updated_at := now\<rparr>))"

definition ensureManagedDomain ::
    "domain_config \<Rightarrow> string \<Rightarrow> string \<Rightarrow> string \<Rightarrow> string \<Rightarrow> string \<Rightarrow> bool \<Rightarrow> ProjectDomain dprog" where
  "ensureManagedDomain cfg pid slug kind tid ip regenerate =
     (if trim_space pid = [] then raise (Sentinel ErrInvalidInput)
      else andThen (DomainGetByProjectIDAndKind pid ''managed'') (\<lambda>existing.
           andThen (chosen_domain cfg pid slug regenerate existing) (\<lambda>d.
           andThen (syncManagedDomain cfg (d\<lparr>pdm_target_kind := trim_space kind, pdm_target_id := trim_space tid\<rparr>) ip)
             store_domain)))"

record ProjectDomainRecord =
  pdr_domain :: ProjectDomain
  pdr_public_url :: string

definition toProjectDomainRecord :: "ProjectDomain \<Rightarrow> ProjectDomainRecord" where
  "toProjectDomainRecord d = \<lparr>pdr_domain = d, pdr_public_url = managedProjectDomainURL (pdm_hostname d)\<rparr>"

definition EnsureManagedDomain ::
    "domain_config \<Rightarrow> string \<Rightarrow> string \<Rightarrow> string \<Rightarrow> string \<Rightarrow> string \<Rightarrow> ProjectDomainRecord dprog" where
  "EnsureManagedDomain cfg pid slug kind tid ip =
     andThen (ensureManagedDomain cfg pid slug kind tid ip False) (\<lambda>d. return (toProjectDomainRecord d))"

definition GetPrimaryManaged :: "string \<Rightarrow> ProjectDomainRecord dprog" where
  "GetPrimaryManaged pid =
     (if trim_space pid = [] then raise (Sentinel ErrInvalidInput)
      else andThen (DomainGetByProjectIDAndKind pid ''managed'') (\<lambda>d. case d of
             None \<Rightarrow> raise (Sentinel ErrProjectDomainNotFound)
           | Some d \<Rightarrow> return (toProjectDomainRecord d)))"

definition DomainGet :: "string \<Rightarrow> string \<Rightarrow> string \<Rightarrow> ProjectDomainRecord dprog" where
  "DomainGet user role pid =
     andThen (on_world (resolveProjectForAccess user role pid)) (\<lambda>project. GetPrimaryManaged (pj_id project))"

record AllocateCommand =
  al_user :: string
  al_role :: string
  al_project_id :: string
  al_regenerate :: bool

definition Allocate :: "domain_config \<Rightarrow> AllocateCommand \<Rightarrow> ProjectDomainRecord dprog" where
  "Allocate cfg cmd =
     andThen (on_world (resolveProjectForAccess (al_user cmd) (al_role cmd) (al_project_id cmd))) (\<lambda>project.
     andThen (projectHasPublicServices (pj_id project)) (\<lambda>public.
     if \<not> public then raise (Sentinel ErrInvalidInput)
     else andThen (resolvePrimaryTarget (pj_id project)) (\<lambda>(kind, tid, ip).
          andThen (ensureManagedDomain cfg (pj_id project) (pj_slug project) kind tid ip (al_regenerate cmd)) (\<lambda>d.
          return (toProjectDomainRecord d)))))"

record RenameCommand =
  rn_user :: string
  rn_role :: string
  rn_project_id :: string
  rn_label :: string

definition Rename :: "domain_config \<Rightarrow> RenameCommand \<Rightarrow> ProjectDomainRecord dprog" where
  "Rename cfg cmd =
     andThen (on_world (resolveProjectForAccess (rn_user cmd) (rn_role cmd) (rn_project_id cmd))) (\<lambda>project.
     andThen (DomainGetByProjectIDAndKind (pj_id project) ''managed'') (\<lambda>existing. case existing of
       None \<Rightarrow> raise (Sentinel ErrProjectDomainNotFound)
     | Some d \<Rightarrow>
         andThen (from_res (normalizeProjectDomainLabel (rn_label cmd))) (\<lambda>l.
         let h = hostnameForLabel cfg l in
         andThen (ensureHostnameAvailable (pj_id project) h) (\<lambda>_.
         andThen (resolvePrimaryTarget (pj_id project)) (\<lambda>(kind, tid, ip).
         andThen (syncManagedDomain cfg (d\<lparr>pdm_label := l, pdm_hostname := h, pdm_target_kind := trim_space kind,
                    pdm_target_id := trim_space tid, pdm_status := ''pending'', pdm_status_reason := []\<rparr>) ip) (\<lambda>d'.
         andThen (DomainSave d') (\<lambda>saved. return (toProjectDomainRecord saved))))))))"

section \<open>Labels are valid\<close>

lemma trim_dashes_chars: "set (trim_dashes s) \<subseteq> set s"
  unfolding trim_dashes_def set_rev by (auto dest!: set_dropWhileD)

lemma trim_dashes_length: "length (trim_dashes s) \<le> length s"
proof -
  have "length (dropWhile P xs) \<le> length xs" for P and xs :: string by (rule length_dropWhile_le)
  from le_trans [OF this [of _ "rev (dropWhile (\<lambda>c. c = CHR ''-'') s)"]] this [of _ s] show ?thesis
    unfolding trim_dashes_def by simp
qed

lemma trim_dashes_only: "\<forall>c \<in> set s. c = CHR ''-'' \<Longrightarrow> trim_dashes s = []"
  by (auto simp: trim_dashes_def dest!: set_dropWhileD)

lemma trim_dashes_ends:
  assumes "c \<in> set s" and "c \<noteq> CHR ''-''"
  shows "trim_dashes s \<noteq> [] \<and> hd (trim_dashes s) \<noteq> CHR ''-'' \<and> last (trim_dashes s) \<noteq> CHR ''-''"
proof -
  let ?P = "\<lambda>c. c = CHR ''-''"
  let ?a = "dropWhile ?P s"
  have a: "?a \<noteq> []" using assms by (auto simp: dropWhile_eq_Nil_conv)
  then have hd: "hd ?a \<noteq> CHR ''-''" using hd_dropWhile [of ?P s] by blast
  have "\<exists>x \<in> set (rev ?a). \<not> ?P x" using a hd by (auto intro!: bexI [of _ "hd ?a"] hd_in_set)
  then have b: "dropWhile ?P (rev ?a) \<noteq> []" by (auto simp: dropWhile_eq_Nil_conv)
  then have "hd (dropWhile ?P (rev ?a)) \<noteq> CHR ''-''" using hd_dropWhile [of ?P "rev ?a"] by blast
  moreover have "hd (rev (dropWhile ?P (rev ?a))) = hd ?a"
  proof -
    have "last (dropWhile ?P (rev ?a)) = last (rev ?a)"
      using last_appendR [OF b, of "takeWhile ?P (rev ?a)"] by (simp only: takeWhile_dropWhile_id)
    then show ?thesis using a b by (simp add: hd_rev last_rev)
  qed
  ultimately show ?thesis unfolding trim_dashes_def using b hd by (simp add: last_rev)
qed

lemma dash_no_label: "\<not> label_char (CHR ''-'')"
  by code_simp

definition label_text :: "string \<Rightarrow> bool" where
  "label_text s \<longleftrightarrow> list_all (\<lambda>c. label_char c \<or> c = CHR ''-'') s"

lemma label_char_plain:
  assumes "label_char c \<or> c = CHR ''-''"
  shows "lower_char c = c" "\<not> is_space c"
proof -
  have "\<not> is_space (CHR ''-'')" by code_simp
  then show "\<not> is_space c" using assms label_char_no_space [of c] by (auto simp: label_char_def)
  have "\<not> (65 \<le> (of_char c :: nat) \<and> of_char c \<le> (90 :: nat))"
    using assms by (auto simp: label_char_def less_eq_char_def)
  then show "lower_char c = c" by (auto simp: lower_char_def Let_def)
qed

lemma label_text_plain: "label_text s \<Longrightarrow> to_lower (trim_space s) = s"
proof -
  assume s: "label_text s"
  then have "\<forall>c \<in> set s. \<not> is_space c" "\<forall>c \<in> set s. lower_char c = c"
    using label_char_plain by (auto simp: label_text_def list_all_iff)
  moreover from this have "s = [] \<or> \<not> is_space (hd s)" by (cases s) auto
  ultimately show "to_lower (trim_space s) = s"
    by (simp add: to_lower_def map_idI trim_space_def trim_right_nospace trim_left_id)
qed

lemma label_text_append [simp]: "label_text (a @ b) \<longleftrightarrow> label_text a \<and> label_text b"
  by (simp add: label_text_def)

lemma trimmed_label:
  assumes "label_text s" and "c \<in> set s" and "c \<noteq> CHR ''-''"
  shows "projectDomainLabelPattern (trimProjectDomainLabel s)"
proof -
  let ?good = "\<lambda>l. l \<noteq> [] \<and> hd l \<noteq> CHR ''-'' \<and> last l \<noteq> CHR ''-'' \<and> set l \<subseteq> set s"
  have pattern: "projectDomainLabelPattern l" if "?good l" "length l \<le> 63" for l
  proof -
    have "label_char c" if "c \<in> set l" "c \<noteq> CHR ''-''" for c
      using that \<open>?good l\<close> assms(1) by (auto simp: label_text_def list_all_iff)
    moreover from this have "\<forall>c \<in> set l. label_char c \<or> c = CHR ''-''" by blast
    ultimately show ?thesis
      using that last_in_set [of l] hd_in_set [of l] by (simp add: projectDomainLabelPattern_def list_all_iff)
  qed
  let ?l = "trim_dashes s"
  have l: "?good ?l" using trim_dashes_ends [OF assms(2,3)] trim_dashes_chars [of s] by auto
  show ?thesis
  proof (cases "length ?l \<le> 63")
    case True
    with pattern l show ?thesis by (simp add: trimProjectDomainLabel_def label_text_plain [OF assms(1)] Let_def)
  next
    case False
    have "hd ?l \<in> set (take 63 ?l)" using l by (cases ?l) auto
    then have "?good (trim_dashes (take 63 ?l))"
      using trim_dashes_ends [of "hd ?l" "take 63 ?l"] trim_dashes_chars [of "take 63 ?l"] l
      by (auto dest: in_set_takeD)
    moreover have "length (trim_dashes (take 63 ?l)) \<le> 63"
      using trim_dashes_length [of "take 63 ?l"] by simp
    ultimately show ?thesis
      using False pattern by (simp add: trimProjectDomainLabel_def label_text_plain [OF assms(1)] Let_def)
  qed
qed

lemma label_loop_text: "label_text out \<Longrightarrow> label_text (label_loop out b s)"
  by (induction out b s rule: label_loop.induct) (auto simp: label_text_def label_char_def)

lemma sanitized_label:
  "label_text (sanitizeProjectDomainLabel raw) \<and>
   (sanitizeProjectDomainLabel raw \<noteq> [] \<longrightarrow> (\<exists>c \<in> set (sanitizeProjectDomainLabel raw). c \<noteq> CHR ''-''))"
proof -
  let ?s = "label_loop [] False (to_lower (trim_space raw))"
  have t: "label_text ?s" by (rule label_loop_text) (simp add: label_text_def)
  show ?thesis
  proof (cases "\<exists>c \<in> set ?s. c \<noteq> CHR ''-''")
    case True
    then have "projectDomainLabelPattern (trimProjectDomainLabel ?s)" using trimmed_label [OF t] by blast
    then have "label_text (trimProjectDomainLabel ?s) \<and> (\<exists>c \<in> set (trimProjectDomainLabel ?s). c \<noteq> CHR ''-'')"
      unfolding projectDomainLabelPattern_def label_text_def using hd_in_set dash_no_label by metis
    then show ?thesis by (simp add: sanitizeProjectDomainLabel_def Let_def label_text_def)
  next
    case False
    then have "trim_dashes ?s = []" by (intro trim_dashes_only) blast
    then have "trimProjectDomainLabel ?s = []" by (simp add: trimProjectDomainLabel_def label_text_plain [OF t])
    then show ?thesis by (simp add: sanitizeProjectDomainLabel_def Let_def label_text_def)
  qed
qed

lemma hex_text: "label_text (hex_string bs)"
proof -
  have "list_all (\<lambda>n. label_char (hex_digit n)) [0..<16]" by code_simp
  then have digit: "label_char (hex_digit n)" if "n < 16" for n using that by (simp add: list_all_iff)
  have "unat b div 16 < 16" for b :: byte using unsigned_less [of b, where ?'a = nat] by (simp add: less_mult_imp_div_less)
  then show ?thesis by (auto simp: label_text_def hex_string_def list_all_iff digit)
qed

section \<open>What the calls keep\<close>

definition published :: "domain_db \<Rightarrow> ProjectDomain \<Rightarrow> bool" where
  "published m d \<longleftrightarrow> (\<exists>q rid. (q, Ok rid) \<in> set (dd_requests m) \<and> dq_hostname q = pdm_hostname d \<and>
     dq_ipv4 q = pdm_synced_ip d \<and> parse_ip (pdm_synced_ip d) \<noteq> None)"

definition well_named :: "domain_config \<Rightarrow> ProjectDomain \<Rightarrow> bool" where
  "well_named cfg d \<longleftrightarrow> pdm_hostname d = hostnameForLabel cfg (pdm_label d) \<and> projectDomainLabelPattern (pdm_label d) \<and>
     pdm_kind d = ''managed'' \<and> pdm_status d \<in> {''pending'', ''active'', ''error''}"

text \<open>With \<open>strict\<close> an active domain must have been accepted by the provider, with its address.\<close>

definition domain_ok :: "bool \<Rightarrow> domain_config \<Rightarrow> domain_db \<Rightarrow> ProjectDomain \<Rightarrow> bool" where
  "domain_ok strict cfg m d \<longleftrightarrow> well_named cfg d \<and> (strict \<and> pdm_status d = ''active'' \<longrightarrow> published m d)"

definition domains_ok :: "bool \<Rightarrow> domain_config \<Rightarrow> domain_db \<Rightarrow> bool" where
  "domains_ok strict cfg m \<longleftrightarrow> list_all (domain_ok strict cfg m) (dd_domains m) \<and> distinct (map pdm_id (dd_domains m)) \<and>
     distinct (map pdm_hostname (dd_domains m)) \<and> distinct (map (\<lambda>d. (pdm_project_id d, pdm_kind d)) (dd_domains m))"

text \<open>Calls that leave the domains alone, and those that only add requests to the log.\<close>

definition domains_same :: "domain_db \<Rightarrow> domain_db \<Rightarrow> bool" where
  "domains_same m m' \<longleftrightarrow> dd_domains m' = dd_domains m \<and> set (dd_requests m) \<subseteq> set (dd_requests m')"

definition log_grows :: "domain_db \<Rightarrow> domain_db \<Rightarrow> bool" where
  "log_grows m m' \<longleftrightarrow> set (dd_requests m) \<subseteq> set (dd_requests m')"

lemma domain_ok_update [simp]:
  "domain_ok strict cfg (m\<lparr>dd_domains := rows\<rparr>) d = domain_ok strict cfg m d"
  "domain_ok strict cfg (m\<lparr>dd_world := w\<rparr>) d = domain_ok strict cfg m d"
  by (simp_all add: domain_ok_def published_def)

lemma domain_ok_update_eq [simp]:
  "domain_ok strict cfg (m\<lparr>dd_domains := rows\<rparr>) = domain_ok strict cfg m"
  "domain_ok strict cfg (m\<lparr>dd_world := w\<rparr>) = domain_ok strict cfg m"
  by (rule ext, simp)+

abbreviation asks :: "'a dprog \<Rightarrow> bool" where
  "asks p \<equiv> within (\<lambda>_. True) domains_same p"

interpretation asking: guarantee "\<lambda>_. True" domains_same
  by unfold_locales (auto simp: domains_same_def)

interpretation logging: guarantee I log_grows for I
  by unfold_locales (auto simp: log_grows_def)

lemma published_grows: "published m d \<Longrightarrow> log_grows m m' \<Longrightarrow> published m' d"
  by (auto simp: published_def log_grows_def)

lemma domain_ok_grows: "domain_ok strict cfg m d \<Longrightarrow> log_grows m m' \<Longrightarrow> domain_ok strict cfg m' d"
  by (auto simp: domain_ok_def intro: published_grows)

lemma asks_grows: "asks p \<Longrightarrow> p m = (r, m') \<Longrightarrow> log_grows m m' \<and> domains_same m m'"
  using withinD [of "\<lambda>_. True" domains_same p m r m'] by (auto simp: domains_same_def log_grows_def)

lemma asks_world: "asks (on_world p)"
  by (auto simp: within_def domains_same_def on_world_def split: prod.splits)

lemma asks_call: "(\<And>m. snd (f m) = m) \<Longrightarrow> asks (domain_call msg f)"
  by (auto simp: within_def domains_same_def domain_call_def Let_def split: prod.splits list.splits bool.splits option.splits)
    (metis snd_conv domain_db.select_convs domain_db.surjective domain_db.update_convs(1))+

abbreviation keeps_domains :: "bool \<Rightarrow> domain_config \<Rightarrow> 'a dprog \<Rightarrow> bool" where
  "keeps_domains strict cfg p \<equiv> within (domains_ok strict cfg) log_grows p"

lemma domains_ok_same: "domains_ok strict cfg m \<Longrightarrow> domains_same m m' \<Longrightarrow> domains_ok strict cfg m'"
  using domain_ok_grows [of strict cfg m _ m'] by (auto simp: domains_ok_def domains_same_def log_grows_def list_all_iff)

lemma keeps_asks: "asks p \<Longrightarrow> keeps_domains strict cfg p"
  unfolding within_def using domains_ok_same by (auto simp: domains_same_def log_grows_def)

lemma asks_reads:
  "asks (DomainGetByProjectIDAndKind pid kind)" "asks (DomainGetByHostname h)" "asks (ProjectServicesListByProject pid)"
  unfolding DomainGetByProjectIDAndKind_def DomainGetByHostname_def ProjectServicesListByProject_def
  by (rule asks_call, simp)+

lemma asks_random: "asks randomProjectDomainSuffix"
  by (auto simp: within_def domains_same_def randomProjectDomainSuffix_def)

lemma asks_upsert: "asks (UpsertARecord q)"
  by (auto simp: within_def domains_same_def UpsertARecord_def Let_def)

lemma asks_address: "asks (address_of column i found)"
  by (auto simp: within_def domains_same_def address_of_def)

lemma asks_attempts: "asks (allocate_attempts cfg base n)"
  by (induction n) (auto simp: Let_def simp del: run_raise intro!: asking.within_rules asks_random asks_reads split: option.split)

lemma asks_target: "asks (resolveTargetPublicIP kind tid)"
  unfolding resolveTargetPublicIP_def Let_def
  by (intro asking.within_rules asks_world asks_address)

lemma asks_primary: "asks (resolvePrimaryTarget pid)"
  unfolding resolvePrimaryTarget_def
  by (auto intro!: asking.within_rules asks_world asks_target split: option.split list.split)

lemma asks_calls:
  "asks (projectHasPublicServices pid)" "asks (ensureHostnameAvailable pid h)" "asks (allocateUniqueHostname cfg slug)"
  "asks (syncManagedDomain cfg d ip)" "asks (chosen_domain cfg pid slug regenerate existing)"
  "asks (GetPrimaryManaged pid)" "asks (DomainGet user role pid)"
  unfolding projectHasPublicServices_def ensureHostnameAvailable_def allocateUniqueHostname_def syncManagedDomain_def
    chosen_domain_def GetPrimaryManaged_def DomainGet_def Let_def
  by (auto intro!: asking.within_rules asks_world asks_reads asks_attempts asks_upsert split: option.split sum.split)

lemma domain_callD:
  assumes "domain_call msg f m = (r, m')"
  obtains (fault) fs where "r = Fail (Wrapped msg DbFailure)" "m' = m\<lparr>dd_world := (dd_world m)\<lparr>w_faults := fs\<rparr>\<rparr>"
  | (run) fs where "f (m\<lparr>dd_world := (dd_world m)\<lparr>w_faults := fs\<rparr>\<rparr>) = (None, m')" "r = Fail (Wrapped msg DbFailure)"
  | (ok) fs x where "f (m\<lparr>dd_world := (dd_world m)\<lparr>w_faults := fs\<rparr>\<rparr>) = (Some x, m')" "r = Ok x"
  using assms
  by (cases "w_faults (dd_world m)") (auto simp: domain_call_def Let_def split: bool.splits prod.splits option.splits)

lemma domain_ok_row:
  assumes "DomainGetByProjectIDAndKind pid kind m = (Ok (Some d), m')"
  shows "d \<in> set (dd_domains m) \<and> d \<in> set (dd_domains m')"
  using assms unfolding DomainGetByProjectIDAndKind_def
  by (elim domain_callD) (auto dest!: sym [of _ "List.find P xs" for P xs] find_SomeD)

lemma distinct_replace:
  assumes "distinct (map key rows)" and "distinct (map pdm_id rows)"
    and "\<forall>r \<in> set rows. pdm_id r \<noteq> pdm_id d \<longrightarrow> key r \<noteq> key d"
  shows "distinct (map key (update_where (\<lambda>r. pdm_id r = pdm_id d) (\<lambda>_. d) rows))"
  using assms
  by (induction rows) (auto simp: update_where_def image_iff)

lemma domains_ok_append:
  assumes "domains_ok strict cfg m" and "domain_ok strict cfg m d"
    and "\<forall>r \<in> set (dd_domains m). pdm_id r \<noteq> pdm_id d \<and> \<not> same_domain_key r d"
  shows "domains_ok strict cfg (m\<lparr>dd_domains := dd_domains m @ [d]\<rparr>)"
  using assms by (auto simp: domains_ok_def same_domain_key_def)

lemma domains_ok_replace:
  assumes "domains_ok strict cfg m" and "domain_ok strict cfg m d"
    and "\<forall>r \<in> set (dd_domains m). pdm_id r \<noteq> pdm_id d \<longrightarrow> \<not> same_domain_key r d"
  shows "domains_ok strict cfg (m\<lparr>dd_domains := update_where (\<lambda>r. pdm_id r = pdm_id d) (\<lambda>_. d) (dd_domains m)\<rparr>)"
proof -
  let ?rows = "update_where (\<lambda>r. pdm_id r = pdm_id d) (\<lambda>_. d) (dd_domains m)"
  note ok = assms(1) [unfolded domains_ok_def]
  have "distinct (map pdm_id ?rows)" "distinct (map pdm_hostname ?rows)"
    "distinct (map (\<lambda>d. (pdm_project_id d, pdm_kind d)) ?rows)"
    using ok assms(3) by (auto intro!: distinct_replace simp: same_domain_key_def)
  moreover have "list_all (domain_ok strict cfg m) ?rows"
    using ok assms(2) by (auto simp: list_all_iff update_where_def)
  ultimately show ?thesis by (simp add: domains_ok_def)
qed

lemma within_domain_call:
  assumes world: "\<And>w m. I m \<Longrightarrow> I (m\<lparr>dd_world := w\<rparr>)"
    and call: "\<And>m x m'. I m \<Longrightarrow> f m = (x, m') \<Longrightarrow> I m' \<and> log_grows m m'"
  shows "within I log_grows (domain_call msg f)"
  unfolding within_def
proof (intro allI impI)
  fix m assume I: "I m"
  obtain r m' where c: "domain_call msg f m = (r, m')" by (cases "domain_call msg f m")
  then have "I m' \<and> log_grows m m'"
  proof (cases rule: domain_callD)
    case (fault fs)
    then show ?thesis using world I by (simp add: log_grows_def)
  next
    case (run fs)
    show ?thesis using call [OF world [OF I] run(1)] by (simp add: log_grows_def)
  next
    case (ok fs x)
    show ?thesis using call [OF world [OF I] ok(1)] by (simp add: log_grows_def)
  qed
  with c show "I (snd (domain_call msg f m)) \<and> log_grows m (snd (domain_call msg f m))" by simp
qed

definition storable :: "bool \<Rightarrow> domain_config \<Rightarrow> ProjectDomain \<Rightarrow> domain_db \<Rightarrow> bool" where
  "storable strict cfg d m \<longleftrightarrow> domains_ok strict cfg m \<and> domain_ok strict cfg m d"

lemma storable_world [simp]: "storable strict cfg d (m\<lparr>dd_world := w\<rparr>) = storable strict cfg d m"
  by (simp add: storable_def domains_ok_def)

lemma storable_times [simp]:
  "storable strict cfg (d\<lparr>pdm_updated_at := t\<rparr>) m = storable strict cfg d m"
  "storable strict cfg (d\<lparr>pdm_created_at := t\<rparr>) m = storable strict cfg d m"
  by (simp_all add: storable_def domain_ok_def well_named_def published_def)

lemma storable_asks: "asks p \<Longrightarrow> within (storable strict cfg d) log_grows p"
  unfolding within_def storable_def
  using domains_ok_same domain_ok_grows by (metis (no_types, lifting) domains_same_def log_grows_def)

lemma keeps_create: "within (storable strict cfg d) log_grows (DomainCreate d)"
  unfolding DomainCreate_def
proof (rule within_domain_call)
  fix m m' and x :: "unit option"
  assume "storable strict cfg d m"
    and "(if \<exists>r \<in> set (dd_domains m). pdm_id r = pdm_id d \<or> same_domain_key r d then (None, m)
      else (Some (), m\<lparr>dd_domains := dd_domains m @ [d]\<rparr>)) = (x, m')"
  then show "storable strict cfg d m' \<and> log_grows m m'"
    using domains_ok_append [of strict cfg m d] by (auto simp: storable_def log_grows_def split: if_splits)
qed simp

lemma keeps_save: "within (storable strict cfg d) log_grows (DomainSave d)"
proof -
  have save: "within (storable strict cfg d) log_grows (domain_call msg (\<lambda>m.
      if \<exists>r \<in> set (dd_domains m). pdm_id r \<noteq> pdm_id d' \<and> same_domain_key r d' then (None, m)
      else if \<exists>r \<in> set (dd_domains m). pdm_id r = pdm_id d'
      then (Some d', m\<lparr>dd_domains := update_where (\<lambda>r. pdm_id r = pdm_id d') (\<lambda>_. d') (dd_domains m)\<rparr>)
      else (Some d', m\<lparr>dd_domains := dd_domains m @ [d']\<rparr>)))"
    if d': "\<And>m. storable strict cfg d' m = storable strict cfg d m" for d' msg
  proof (rule within_domain_call)
    fix m m' and x :: "ProjectDomain option"
    assume "storable strict cfg d m"
      and "(if \<exists>r \<in> set (dd_domains m). pdm_id r \<noteq> pdm_id d' \<and> same_domain_key r d' then (None, m)
      else if \<exists>r \<in> set (dd_domains m). pdm_id r = pdm_id d'
      then (Some d', m\<lparr>dd_domains := update_where (\<lambda>r. pdm_id r = pdm_id d') (\<lambda>_. d') (dd_domains m)\<rparr>)
      else (Some d', m\<lparr>dd_domains := dd_domains m @ [d']\<rparr>)) = (x, m')"
    then show "storable strict cfg d m' \<and> log_grows m m'"
      unfolding d' [symmetric]
      using domains_ok_append [of strict cfg m d'] domains_ok_replace [of strict cfg m d']
      by (auto simp: storable_def log_grows_def split: if_splits)
  qed simp
  show ?thesis
    unfolding DomainSave_def Let_def
    by (rule logging.within_andThen [OF storable_asks [OF asks_world]], rule save, rule storable_times)
qed

lemma keeps_store: "within (storable strict cfg d) log_grows (store_domain d)"
proof -
  have "within (storable strict cfg d) log_grows (DomainCreate d')" "within (storable strict cfg d) log_grows (DomainSave d')"
    if "\<And>m. storable strict cfg d' m = storable strict cfg d m" for d'
    using keeps_create [of strict cfg d'] keeps_save [of strict cfg d'] that by (simp_all add: within_def)
  then show ?thesis
    unfolding store_domain_def Let_def
    by (intro logging.within_andThen logging.within_if logging.within_return storable_asks [OF asks_world]) simp_all
qed

section \<open>Every operation keeps the domains well named\<close>

lemma attempts_label:
  assumes "label_text base" and "c \<in> set base" and "c \<noteq> CHR ''-''"
    and "allocate_attempts cfg base n m = (Ok (l, h), m')"
  shows "h = hostnameForLabel cfg l \<and> projectDomainLabelPattern l \<and> (\<forall>d \<in> set (dd_domains m'). pdm_hostname d \<noteq> h)"
  using assms(4)
proof (induction n arbitrary: m)
  case (Suc n)
  let ?l = "\<lambda>s. suffixed_label base s"
  from Suc.prems obtain suffix m1 where s: "randomProjectDomainSuffix m = (Ok suffix, m1)"
    and rest: "andThen (DomainGetByHostname (hostnameForLabel cfg (?l suffix))) (\<lambda>existing. case existing of
        None \<Rightarrow> return (?l suffix, hostnameForLabel cfg (?l suffix)) | Some _ \<Rightarrow> allocate_attempts cfg base n) m1 = (Ok (l, h), m')"
    by (auto simp: Let_def elim: andThen_cases)
  from s have "label_text suffix" by (auto simp: randomProjectDomainSuffix_def hex_text split: option.splits)
  then have "label_text (base @ ''-'' @ suffix)" using assms(1) by (simp add: label_text_def)
  then have pattern: "projectDomainLabelPattern (?l suffix)"
    unfolding suffixed_label_def using assms(2,3) by (intro trimmed_label [of _ c]) auto
  from rest obtain existing m2 where g: "DomainGetByHostname (hostnameForLabel cfg (?l suffix)) m1 = (Ok existing, m2)"
    and next': "(case existing of None \<Rightarrow> return (?l suffix, hostnameForLabel cfg (?l suffix))
      | Some _ \<Rightarrow> allocate_attempts cfg base n) m2 = (Ok (l, h), m')"
    by (auto elim: andThen_cases)
  show ?case
  proof (cases existing)
    case None
    have "List.find (\<lambda>d. pdm_hostname d = hostnameForLabel cfg (?l suffix)) (dd_domains m2) = None"
      using g None unfolding DomainGetByHostname_def by (elim domain_callD) auto
    with None next' pattern show ?thesis by (auto simp: find_None_iff)
  next
    case (Some d)
    with next' Suc.IH show ?thesis by simp
  qed
qed simp

lemma allocated_label:
  assumes "allocateUniqueHostname cfg slug m = (Ok (l, h), m')"
  shows "h = hostnameForLabel cfg l \<and> projectDomainLabelPattern l \<and> (\<forall>d \<in> set (dd_domains m'). pdm_hostname d \<noteq> h)"
proof -
  let ?base = "if sanitizeProjectDomainLabel slug = [] then ''app'' else sanitizeProjectDomainLabel slug"
  have "label_text ''app''" by code_simp
  then have "label_text ?base" "\<exists>c \<in> set ?base. c \<noteq> CHR ''-''"
    using sanitized_label [of slug] by auto
  then show ?thesis
    using attempts_label assms unfolding allocateUniqueHostname_def Let_def by blast
qed

lemma synced_ok:
  assumes "syncManagedDomain cfg d ip m = (Ok d', m')" and "domain_ok strict cfg m d"
  shows "domain_ok strict cfg m' d' \<and> pdm_hostname d' = pdm_hostname d"
proof -
  have grows: "log_grows m m'" using asks_grows [OF asks_calls(4) assms(1)] by simp
  let ?ip = "trim_space ip"
  let ?q = "\<lparr>dq_hostname = pdm_hostname d, dq_ipv4 = ?ip, dq_proxied = cfg_proxied cfg, dq_record_id = pdm_record_id d\<rparr>"
  consider (idle) s r i where "d' = d\<lparr>pdm_status := s, pdm_status_reason := r, pdm_synced_ip := i\<rparr>" "s \<in> {''pending'', ''error''}"
    | (same) "d' = d\<lparr>pdm_status_reason := []\<rparr>"
    | (sent) rid where "UpsertARecord ?q m = (Ok rid, m')" "parse_ip ?ip \<noteq> None"
        "d' = d\<lparr>pdm_status := ''active'', pdm_status_reason := [], pdm_record_id := first_non_empty [rid, pdm_record_id d], pdm_synced_ip := ?ip\<rparr>"
  proof (cases "?ip = [] \<or> parse_ip ?ip = None")
    case True
    with assms(1) have "d' = d\<lparr>pdm_status := ''pending'', pdm_status_reason := waiting_reason, pdm_synced_ip := []\<rparr>"
      by (simp add: syncManagedDomain_def Let_def)
    then show thesis by (rule idle) simp
  next
    case False
    then have ip: "?ip \<noteq> []" "parse_ip ?ip \<noteq> None" by simp_all
    show thesis
    proof (cases "pdm_status d = ''active'' \<and> trim_space (pdm_synced_ip d) = ?ip \<and> trim_space (pdm_record_id d) \<noteq> []")
      case True
      with ip assms(1) have "d' = d\<lparr>pdm_status_reason := []\<rparr>"
        by (auto simp: syncManagedDomain_def Let_def)
      then show thesis by (rule same)
    next
      case False
      obtain r m1 where u: "UpsertARecord ?q m = (r, m1)" by (cases "UpsertARecord ?q m")
      show thesis
      proof (cases r)
        case (Inl e)
        with u False ip assms(1) have "d' = d\<lparr>pdm_status := ''error'', pdm_status_reason := failed_reason e\<rparr>"
          by (auto simp: syncManagedDomain_def Let_def run_attempt andThen_def)
        then have "d' = d\<lparr>pdm_status := ''error'', pdm_status_reason := failed_reason e, pdm_synced_ip := pdm_synced_ip d\<rparr>"
          by simp
        then show thesis by (rule idle) simp
      next
        case (Inr rid)
        with u False ip assms(1) have "m' = m1" and d': "d' = d\<lparr>pdm_status := ''active'', pdm_status_reason := [],
            pdm_record_id := first_non_empty [rid, pdm_record_id d], pdm_synced_ip := ?ip\<rparr>"
          by (auto simp: syncManagedDomain_def Let_def run_attempt andThen_def)
        with u Inr have "UpsertARecord ?q m = (Ok rid, m')" by simp
        then show thesis using ip(2) d' by (rule sent)
      qed
    qed
  qed
  then show ?thesis
  proof cases
    case idle
    with assms(2) show ?thesis by (auto simp: domain_ok_def well_named_def)
  next
    case same
    have "domain_ok strict cfg m' (d\<lparr>pdm_status_reason := r\<rparr>) = domain_ok strict cfg m' d" for r
      by (simp add: domain_ok_def well_named_def published_def)
    with domain_ok_grows [OF assms(2) grows] same show ?thesis by simp
  next
    case sent
    have "(?q, Ok rid) \<in> set (dd_requests m')" using sent(1) by (auto simp: UpsertARecord_def Let_def)
    then have "published m' d'" unfolding published_def using sent(2,3) by (intro exI [of _ ?q] exI [of _ rid]) simp
    with assms(2) sent(3) show ?thesis by (simp add: domain_ok_def well_named_def)
  qed
qed

lemma chosen_ok:
  assumes "chosen_domain cfg pid slug regenerate existing m = (Ok d, m')"
    and "\<And>x. existing = Some x \<Longrightarrow> domain_ok strict cfg m x" and "\<not> (strict \<and> regenerate)"
  shows "domain_ok strict cfg m' d"
proof (cases existing)
  case None
  with assms(1) obtain l h m1 i where "allocateUniqueHostname cfg slug m = (Ok (l, h), m1)" "d = new_domain i pid l h"
    unfolding chosen_domain_def by (auto elim!: andThen_cases split: prod.splits)
  with allocated_label [of cfg slug m l h m1] show ?thesis
    by (simp add: domain_ok_def well_named_def new_domain_def)
next
  case (Some x)
  show ?thesis
  proof (cases regenerate)
    case True
    with assms(1) Some obtain l h where "allocateUniqueHostname cfg slug m = (Ok (l, h), m')"
      "d = x\<lparr>pdm_label := l, pdm_hostname := h\<rparr>"
      unfolding chosen_domain_def by (auto elim!: andThen_cases split: prod.splits)
    with allocated_label [of cfg slug m l h m'] assms(2) [OF Some] assms(3) True show ?thesis
      by (auto simp: domain_ok_def well_named_def)
  next
    case False
    with assms(1,2) Some show ?thesis by (simp add: chosen_domain_def)
  qed
qed

lemma asks_keep: "asks p \<Longrightarrow> (\<And>w w'. I w \<Longrightarrow> log_grows w w' \<Longrightarrow> domains_same w w' \<Longrightarrow> I w') \<Longrightarrow> within I log_grows p"
  unfolding within_def by (metis asks_grows [unfolded within_def] prod.collapse)

text \<open>The end of both writers: synchronise, then write the row.\<close>

lemma sync_and_write:
  assumes "\<And>d'. within (storable strict cfg d') log_grows (write d')"
    and "\<And>w. I w \<Longrightarrow> storable strict cfg d w"
    and "\<And>w w'. I w \<Longrightarrow> log_grows w w' \<Longrightarrow> domains_ok strict cfg w' \<Longrightarrow> I w'"
  shows "within I log_grows (andThen (syncManagedDomain cfg d ip) write)"
proof (rule logging.within_andThen_learn [where J = "storable strict cfg"])
  show "within I log_grows (syncManagedDomain cfg d ip)"
    using assms(2,3) by (intro asks_keep asks_calls) (meson domains_ok_same storable_def)
next
  fix w d' w1 assume "I w" and r: "syncManagedDomain cfg d ip w = (Inr d', w1)"
  then have "storable strict cfg d w" by (simp add: assms(2))
  then show "storable strict cfg d' w1"
    using synced_ok [OF r] asks_grows [OF asks_calls(4) r] domains_ok_same unfolding storable_def by blast
next
  show "within (\<lambda>w. I w \<and> storable strict cfg d' w) log_grows (write d')" for d'
    using assms(3) by (intro logging.within_weaken [OF assms(1)]) (auto simp: storable_def)
qed

lemma found_ok:
  assumes "domains_ok strict cfg w" and "DomainGetByProjectIDAndKind pid kind w = (Inr existing, w1)" and "existing = Some x"
  shows "domain_ok strict cfg w1 x"
proof -
  have "x \<in> set (dd_domains w)" using domain_ok_row assms(2,3) by blast
  then have "domain_ok strict cfg w x" using assms(1) by (simp add: domains_ok_def list_all_iff)
  then show ?thesis using domain_ok_grows asks_grows [OF asks_reads(1) assms(2)] by blast
qed

definition all_ok_in :: "bool \<Rightarrow> domain_config \<Rightarrow> ProjectDomain set \<Rightarrow> domain_db \<Rightarrow> bool" where
  "all_ok_in strict cfg ds m \<longleftrightarrow> domains_ok strict cfg m \<and> (\<forall>d \<in> ds. domain_ok strict cfg m d)"

lemma all_ok_grows:
  "all_ok_in strict cfg ds w \<Longrightarrow> log_grows w w' \<Longrightarrow> domains_ok strict cfg w' \<Longrightarrow> all_ok_in strict cfg ds w'"
  unfolding all_ok_in_def using domain_ok_grows by blast

lemma domain_ok_aimed [simp]:
  "domain_ok strict cfg m (d\<lparr>pdm_target_kind := k, pdm_target_id := t\<rparr>) = domain_ok strict cfg m d"
  by (simp add: domain_ok_def well_named_def published_def)

lemma all_ok_storable: "all_ok_in strict cfg (insert d ds) w \<Longrightarrow> storable strict cfg (d\<lparr>pdm_target_kind := k, pdm_target_id := t\<rparr>) w"
  by (simp add: all_ok_in_def storable_def)

lemma all_ok_asks: "asks p \<Longrightarrow> within (all_ok_in strict cfg ds) log_grows p"
  by (rule asks_keep) (use domains_ok_same all_ok_grows all_ok_in_def in blast)+

lemma keeps_ensure:
  assumes "\<not> (strict \<and> regenerate)"
  shows "keeps_domains strict cfg (ensureManagedDomain cfg pid slug kind tid ip regenerate)"
  unfolding ensureManagedDomain_def
proof (intro logging.within_if logging.within_raise)
  let ?aimed = "\<lambda>d :: ProjectDomain. d\<lparr>pdm_target_kind := trim_space kind, pdm_target_id := trim_space tid\<rparr>"
  let ?rest = "\<lambda>existing. andThen (chosen_domain cfg pid slug regenerate existing) (\<lambda>d.
      andThen (syncManagedDomain cfg (?aimed d) ip) store_domain)"
  have writes: "within (all_ok_in strict cfg (set_option existing)) log_grows (?rest existing)" for existing
  proof (rule logging.within_andThen_learn [where J = "\<lambda>d w. domain_ok strict cfg w d"])
    show "within (all_ok_in strict cfg (set_option existing)) log_grows (chosen_domain cfg pid slug regenerate existing)"
      by (rule all_ok_asks [OF asks_calls(5)])
  next
    fix w d w1
    assume "all_ok_in strict cfg (set_option existing) w" "chosen_domain cfg pid slug regenerate existing w = (Inr d, w1)"
    then show "domain_ok strict cfg w1 d"
      by (rule_tac chosen_ok [OF _ _ assms, where m = w and existing = existing]) (simp_all add: all_ok_in_def)
  next
    fix d
    have "within (all_ok_in strict cfg (insert d (set_option existing))) log_grows (andThen (syncManagedDomain cfg (?aimed d) ip) store_domain)"
      by (rule sync_and_write [where strict = strict, OF keeps_store]) (simp_all add: all_ok_storable all_ok_grows)
    then show "within (\<lambda>w. all_ok_in strict cfg (set_option existing) w \<and> domain_ok strict cfg w d) log_grows
        (andThen (syncManagedDomain cfg (?aimed d) ip) store_domain)"
      by (rule logging.within_weaken) (auto simp: all_ok_in_def)
  qed
  show "keeps_domains strict cfg (andThen (DomainGetByProjectIDAndKind pid ''managed'') ?rest)"
  proof (rule logging.within_andThen_learn [where J = "\<lambda>existing w. \<forall>x \<in> set_option existing. domain_ok strict cfg w x"])
    show "keeps_domains strict cfg (DomainGetByProjectIDAndKind pid ''managed'')" by (rule keeps_asks [OF asks_reads(1)])
  next
    show "\<forall>x \<in> set_option existing. domain_ok strict cfg w1 x"
      if "domains_ok strict cfg w" "DomainGetByProjectIDAndKind pid ''managed'' w = (Inr existing, w1)" for w existing w1
      using found_ok [OF that] by simp
  next
    show "within (\<lambda>w. domains_ok strict cfg w \<and> (\<forall>x \<in> set_option existing. domain_ok strict cfg w x)) log_grows (?rest existing)"
      for existing using writes [of existing] unfolding all_ok_in_def .
  qed
qed

text \<open>A renamed row waits for its new name to be published.\<close>

abbreviation renamed :: "domain_config \<Rightarrow> ProjectDomain \<Rightarrow> string \<Rightarrow> string \<Rightarrow> string \<Rightarrow> ProjectDomain" where
  "renamed cfg d l k t \<equiv> d\<lparr>pdm_label := l, pdm_hostname := hostnameForLabel cfg l, pdm_target_kind := k,
     pdm_target_id := t, pdm_status := ''pending'', pdm_status_reason := []\<rparr>"

lemma renamed_storable:
  assumes "all_ok_in strict cfg {d} w" and "normalizeProjectDomainLabel raw = Ok l"
  shows "storable strict cfg (renamed cfg d l k t) w"
  using assms
  by (auto simp: all_ok_in_def storable_def domain_ok_def well_named_def normalizeProjectDomainLabel_def Let_def split: if_splits)

lemma keeps_rename_row:
  "within (all_ok_in strict cfg {d}) log_grows
     (andThen (from_res (normalizeProjectDomainLabel raw)) (\<lambda>l.
      let h = hostnameForLabel cfg l in
      andThen (ensureHostnameAvailable pid h) (\<lambda>_.
      andThen (resolvePrimaryTarget pid) (\<lambda>(kind, tid, ip).
      andThen (syncManagedDomain cfg (d\<lparr>pdm_label := l, pdm_hostname := h, pdm_target_kind := trim_space kind,
                 pdm_target_id := trim_space tid, pdm_status := ''pending'', pdm_status_reason := []\<rparr>) ip) (\<lambda>d'.
      andThen (DomainSave d') (\<lambda>saved. return (toProjectDomainRecord saved)))))))"
proof (cases "normalizeProjectDomainLabel raw")
  case (Inl e)
  then show ?thesis by (simp add: within_def andThen_def from_res_def log_grows_def)
next
  case (Inr l)
  have save: "within (storable strict cfg d') log_grows (andThen (DomainSave d') (\<lambda>saved. return (toProjectDomainRecord saved)))" for d'
    by (intro logging.within_andThen keeps_save logging.within_return)
  have sync: "within (all_ok_in strict cfg {d}) log_grows (andThen (syncManagedDomain cfg (renamed cfg d l k t) ip)
      (\<lambda>d'. andThen (DomainSave d') (\<lambda>saved. return (toProjectDomainRecord saved))))" for k t ip
    by (rule sync_and_write [where strict = strict, OF save]) (use renamed_storable [OF _ Inr] all_ok_grows in auto)
  have "within (all_ok_in strict cfg {d}) log_grows (andThen (ensureHostnameAvailable pid (hostnameForLabel cfg l)) (\<lambda>_.
      andThen (resolvePrimaryTarget pid) (\<lambda>(kind, tid, ip). andThen (syncManagedDomain cfg (renamed cfg d l (trim_space kind) (trim_space tid)) ip)
      (\<lambda>d'. andThen (DomainSave d') (\<lambda>saved. return (toProjectDomainRecord saved))))))"
    by (rule logging.within_andThen [OF all_ok_asks [OF asks_calls(2)]],
        rule logging.within_andThen [OF all_ok_asks [OF asks_primary]]) (simp add: sync split: prod.split)
  then show ?thesis by (simp add: Inr within_def andThen_def from_res_def Let_def)
qed

lemma keeps_rename: "keeps_domains strict cfg (Rename cfg cmd)"
  unfolding Rename_def
proof (rule logging.within_andThen [OF keeps_asks [OF asks_world]])
  fix project
  show "keeps_domains strict cfg (andThen (DomainGetByProjectIDAndKind (pj_id project) ''managed'') (\<lambda>existing. case existing of
      None \<Rightarrow> raise (Sentinel ErrProjectDomainNotFound)
    | Some d \<Rightarrow> andThen (from_res (normalizeProjectDomainLabel (rn_label cmd))) (\<lambda>l. let h = hostnameForLabel cfg l in
        andThen (ensureHostnameAvailable (pj_id project) h) (\<lambda>_. andThen (resolvePrimaryTarget (pj_id project)) (\<lambda>(kind, tid, ip).
        andThen (syncManagedDomain cfg (d\<lparr>pdm_label := l, pdm_hostname := h, pdm_target_kind := trim_space kind,
          pdm_target_id := trim_space tid, pdm_status := ''pending'', pdm_status_reason := []\<rparr>) ip) (\<lambda>d'.
        andThen (DomainSave d') (\<lambda>saved. return (toProjectDomainRecord saved))))))))"
    (is "keeps_domains strict cfg (andThen ?get ?rest)")
  proof (rule logging.within_andThen_learn [where J = "\<lambda>existing w. \<forall>x \<in> set_option existing. domain_ok strict cfg w x"])
    show "keeps_domains strict cfg ?get" by (rule keeps_asks [OF asks_reads(1)])
  next
    show "\<forall>x \<in> set_option existing. domain_ok strict cfg w1 x"
      if "domains_ok strict cfg w" "?get w = (Inr existing, w1)" for w existing w1
      using found_ok [OF that] by simp
  next
    show "within (\<lambda>w. domains_ok strict cfg w \<and> (\<forall>x \<in> set_option existing. domain_ok strict cfg w x)) log_grows (?rest existing)"
      for existing
    proof (cases existing)
      case None
      then show ?thesis by (simp add: logging.within_raise)
    next
      case (Some d)
      then show ?thesis using keeps_rename_row [of strict cfg d "rn_label cmd" "pj_id project"] by (simp add: all_ok_in_def [abs_def])
    qed
  qed
qed

lemma keeps_allocate:
  assumes "\<not> (strict \<and> al_regenerate cmd)"
  shows "keeps_domains strict cfg (Allocate cfg cmd)"
  unfolding Allocate_def
  by (rule logging.within_andThen [OF keeps_asks [OF asks_world]],
      rule logging.within_andThen [OF keeps_asks [OF asks_calls(1)]])
    (auto intro!: logging.within_andThen [OF keeps_asks [OF asks_primary]] logging.within_andThen [OF keeps_ensure [OF assms]]
      logging.within_raise logging.within_return split: prod.split)

section \<open>Steps\<close>

text \<open>
  An operation of the service, or a change made elsewhere: by another service to the world, the services and the
  addresses.
\<close>

datatype domain_op =
    OpGet string string string
  | OpAllocate AllocateCommand
  | OpRename RenameCommand
  | OpEnsure string string string string string
  | OpElsewhere world "ServiceRow list" "string \<rightharpoonup> string" "string \<rightharpoonup> string"

definition domain_step :: "domain_config \<Rightarrow> domain_op \<Rightarrow> domain_db \<Rightarrow> domain_db" where
  "domain_step cfg e m = (case e of
       OpGet user role pid \<Rightarrow> snd (DomainGet user role pid m)
     | OpAllocate cmd \<Rightarrow> snd (Allocate cfg cmd m)
     | OpRename cmd \<Rightarrow> snd (Rename cfg cmd m)
     | OpEnsure pid slug kind tid ip \<Rightarrow> snd (EnsureManagedDomain cfg pid slug kind tid ip m)
     | OpElsewhere w svcs inst clus \<Rightarrow> m\<lparr>dd_world := w, dd_services := svcs, dd_instance_ip := inst, dd_cluster_ip := clus\<rparr>)"

definition no_regenerate :: "domain_op \<Rightarrow> bool" where
  "no_regenerate e = (case e of OpAllocate cmd \<Rightarrow> \<not> al_regenerate cmd | _ \<Rightarrow> True)"

lemma domain_step_ok:
  assumes "domains_ok strict cfg m" and "strict \<longrightarrow> no_regenerate e"
  shows "domains_ok strict cfg (domain_step cfg e m)"
proof (cases e)
  case (OpGet user role pid)
  then show ?thesis using within_snd [OF keeps_asks [OF asks_calls(7)] assms(1)] by (simp add: domain_step_def)
next
  case (OpAllocate cmd)
  with assms(2) have "\<not> (strict \<and> al_regenerate cmd)" by (simp add: no_regenerate_def)
  from within_snd [OF keeps_allocate [OF this] assms(1)] show ?thesis by (simp add: OpAllocate domain_step_def)
next
  case (OpRename cmd)
  then show ?thesis using within_snd [OF keeps_rename assms(1)] by (simp add: domain_step_def)
next
  case (OpEnsure pid slug kind tid ip)
  have "keeps_domains strict cfg (EnsureManagedDomain cfg pid slug kind tid ip)"
    unfolding EnsureManagedDomain_def by (intro logging.within_andThen logging.within_return keeps_ensure) simp
  from within_snd [OF this assms(1)] show ?thesis by (simp add: OpEnsure domain_step_def)
next
  case (OpElsewhere w svcs inst clus)
  have "domain_ok strict cfg (m\<lparr>dd_world := w, dd_services := svcs, dd_instance_ip := inst, dd_cluster_ip := clus\<rparr>) = domain_ok strict cfg m"
    by (rule ext) (simp add: domain_ok_def published_def)
  with assms(1) OpElsewhere show ?thesis by (simp add: domain_step_def domains_ok_def)
qed

lemma no_domains_ok: "dd_domains m = [] \<Longrightarrow> domains_ok strict cfg m"
  by (simp add: domains_ok_def)

interpretation domains: machine "domain_step cfg" "\<lambda>_ e. strict \<longrightarrow> no_regenerate e" "domains_ok strict cfg" for strict cfg
  by unfold_locales (rule domain_step_ok)

lemma every_call_ok: "(\<And>e. e \<in> set es \<Longrightarrow> P e) \<Longrightarrow> calls_ok (\<lambda>_. P) step es s"
  by (induction es arbitrary: s) auto

section \<open>A regenerated name\<close>

lemma sync_active:
  assumes "pdm_status d = ''active''" and "trim_space (pdm_synced_ip d) = trim_space ip" and "trim_space (pdm_record_id d) \<noteq> []"
    and "parse_ip (trim_space ip) \<noteq> None" and "trim_space ip \<noteq> []"
  shows "syncManagedDomain cfg d ip m = (Ok (d\<lparr>pdm_status_reason := []\<rparr>), m)"
  using assms by (auto simp: syncManagedDomain_def Let_def)

lemma quiet_stores:
  "DomainCreate d m = (r, m') \<Longrightarrow> dd_requests m' = dd_requests m"
  "DomainSave d m = (q, m') \<Longrightarrow> dd_requests m' = dd_requests m"
  by (auto simp: DomainCreate_def DomainSave_def Let_def on_world_def andThen_def split: prod.splits sum.splits
      elim!: domain_callD split: if_splits)

lemma store_domainD:
  assumes "store_domain d m = (Ok d', m')"
  shows "dd_requests m' = dd_requests m \<and> d' = d\<lparr>pdm_created_at := pdm_created_at d', pdm_updated_at := pdm_updated_at d'\<rparr>"
proof -
  obtain now m1 where t: "on_world now_utc m = (Ok now, m1)" "dd_requests m1 = dd_requests m"
    by (simp add: on_world_def now_utc_def)
  have save: "e = f\<lparr>pdm_updated_at := pdm_updated_at e\<rparr>" if run: "DomainSave f w = (Ok e, w')" for e f w w'
  proof -
    obtain u w1 where "domain_call ''save project domain'' (\<lambda>m. if \<exists>r \<in> set (dd_domains m). pdm_id r \<noteq> pdm_id (f\<lparr>pdm_updated_at := u\<rparr>) \<and> same_domain_key r (f\<lparr>pdm_updated_at := u\<rparr>) then (None, m)
        else if \<exists>r \<in> set (dd_domains m). pdm_id r = pdm_id (f\<lparr>pdm_updated_at := u\<rparr>)
        then (Some (f\<lparr>pdm_updated_at := u\<rparr>), m\<lparr>dd_domains := update_where (\<lambda>r. pdm_id r = pdm_id (f\<lparr>pdm_updated_at := u\<rparr>)) (\<lambda>_. f\<lparr>pdm_updated_at := u\<rparr>) (dd_domains m)\<rparr>)
        else (Some (f\<lparr>pdm_updated_at := u\<rparr>), m\<lparr>dd_domains := dd_domains m @ [f\<lparr>pdm_updated_at := u\<rparr>]\<rparr>)) w1 = (Ok e, w')"
      using run unfolding DomainSave_def Let_def by (auto elim: andThen_cases)
    then show ?thesis by (elim domain_callD) (auto split: if_splits)
  qed
  show ?thesis
  proof (cases "is_zero (pdm_created_at d)")
    case True
    with assms t(1) obtain m2 where "DomainCreate (d\<lparr>pdm_created_at := now, pdm_updated_at := now\<rparr>) m1 = (Ok (), m2)"
      "m' = m2" "d' = d\<lparr>pdm_created_at := now, pdm_updated_at := now\<rparr>"
      unfolding store_domain_def Let_def by (auto simp: andThen_def split: sum.splits prod.splits)
    with quiet_stores(1) t(2) show ?thesis by force
  next
    case False
    with assms t(1) have run: "DomainSave (d\<lparr>pdm_updated_at := now\<rparr>) m1 = (Ok d', m')"
      unfolding store_domain_def Let_def by (auto simp: andThen_def)
    from save [OF this] obtain u where "d' = d\<lparr>pdm_updated_at := u\<rparr>" by simp
    then show ?thesis using quiet_stores(2) [OF run] t(2) by (cases d) simp
  qed
qed

lemma allocate_silent:
  assumes "allocateUniqueHostname cfg slug m = (r, m')"
  shows "dd_requests m' = dd_requests m"
proof -
  have "dd_requests m' = dd_requests m" if "allocate_attempts cfg base n m = (r, m')" for base n m r m'
    using that
  proof (induction n arbitrary: m r m')
    case (Suc n)
    obtain s m1 where r: "randomProjectDomainSuffix m = (s, m1)" "dd_requests m1 = dd_requests m"
      by (simp add: randomProjectDomainSuffix_def)
    show ?case
    proof (cases s)
      case (Inl e)
      with Suc.prems r show ?thesis by (auto simp: andThen_def)
    next
      case (Inr suffix)
      obtain g m2 where g: "DomainGetByHostname (hostnameForLabel cfg (suffixed_label base suffix)) m1 = (g, m2)" by fastforce
      then have "dd_requests m2 = dd_requests m1" unfolding DomainGetByHostname_def by (auto elim: domain_callD)
      with Suc r Inr g show ?thesis by (auto simp: andThen_def Let_def split: sum.splits option.splits)
    qed
  qed (simp add: raise_def)
  with assms show ?thesis unfolding allocateUniqueHostname_def Let_def by blast
qed

text \<open>A base that fills the label: the random suffix is cut off.\<close>

lemma trim_dashes_id: "s \<noteq> [] \<Longrightarrow> hd s \<noteq> CHR ''-'' \<Longrightarrow> last s \<noteq> CHR ''-'' \<Longrightarrow> trim_dashes s = s"
proof -
  have keep: "xs \<noteq> [] \<Longrightarrow> \<not> P (hd xs) \<Longrightarrow> dropWhile P xs = xs" for P and xs :: string by (cases xs) auto
  show "s \<noteq> [] \<Longrightarrow> hd s \<noteq> CHR ''-'' \<Longrightarrow> last s \<noteq> CHR ''-'' \<Longrightarrow> ?thesis"
    by (simp add: trim_dashes_def keep hd_rev)
qed

lemma suffix_cut_off:
  assumes "projectDomainLabelPattern base" and "62 \<le> length base" and "label_text suffix" and "suffix \<noteq> []" and "last suffix \<noteq> CHR ''-''"
  shows "suffixed_label base suffix = base"
proof -
  let ?s = "base @ ''-'' @ suffix"
  have base: "base \<noteq> []" "hd base \<noteq> CHR ''-''" "last base \<noteq> CHR ''-''" "label_text base" "length base \<le> 63"
    using assms(1) dash_no_label by (auto simp: projectDomainLabelPattern_def label_text_def)
  have plain: "label_text ?s" using base(4) assms(3) by (simp add: label_text_def)
  have all: "trim_dashes ?s = ?s" using base(1,2) assms(4,5) by (intro trim_dashes_id) simp_all
  have "take 63 ?s = base \<or> take 63 ?s = base @ ''-''" 
  proof (cases "length base = 63")
    case False
    with assms(2) base(5) have "length base = 62" by simp
    then show ?thesis by simp
  qed simp
  then have "trim_dashes (take 63 ?s) = base"
  proof
    assume "take 63 ?s = base"
    then show ?thesis using base by (simp add: trim_dashes_id)
  next
    assume "take 63 ?s = base @ ''-''"
    moreover have "trim_dashes (base @ ''-'') = trim_dashes base"
      using base(1,2) by (cases base) (auto simp: trim_dashes_def)
    ultimately show ?thesis using base by (simp add: trim_dashes_id)
  qed
  moreover have "\<not> length ?s \<le> 63" using assms(2,4) by (cases suffix) auto
  ultimately show ?thesis
    by (simp only: suffixed_label_def trimProjectDomainLabel_def label_text_plain [OF plain] all Let_def if_False)
qed

lemma hex_last: "bs \<noteq> [] \<Longrightarrow> hex_string bs \<noteq> [] \<and> last (hex_string bs) \<noteq> CHR ''-''"
proof -
  have "list_all (\<lambda>n. hex_digit n \<noteq> CHR ''-'') [0..<16]" by code_simp
  then have "hex_digit (unat b mod 16) \<noteq> CHR ''-''" for b :: byte by (simp add: list_all_iff)
  then show "bs \<noteq> [] \<Longrightarrow> ?thesis" by (cases bs rule: rev_cases) (auto simp: hex_string_def)
qed

lemma get_hostname_quiet:
  assumes "w_faults (dd_world m) = []"
  shows "DomainGetByHostname h m = (Ok (List.find (\<lambda>d. pdm_hostname d = h) (dd_domains m)), m)"
  using assms by (simp add: DomainGetByHostname_def domain_call_def Let_def)

lemma attempts_exhausted:
  assumes "projectDomainLabelPattern base" and "62 \<le> length base"
    and "\<forall>n. \<exists>b bs. dd_random m n = Some (b # bs)" and "w_faults (dd_world m) = []"
    and "\<exists>d \<in> set (dd_domains m). pdm_hostname d = hostnameForLabel cfg base"
  shows "fst (allocate_attempts cfg base n m) = Fail (Errorf ''could not allocate a unique managed domain label'')"
  using assms(3-)
proof (induction n arbitrary: m)
  case (Suc n)
  obtain b bs where r: "dd_random m (dd_drawn m) = Some (b # bs)" using Suc.prems(1) by blast
  let ?m = "m\<lparr>dd_drawn := dd_drawn m + 1\<rparr>"
  let ?s = "hex_string (take 3 (b # bs))"
  have s: "randomProjectDomainSuffix m = (Ok ?s, ?m)" by (simp add: randomProjectDomainSuffix_def r)
  have "suffixed_label base ?s = base" using suffix_cut_off [OF assms(1,2) hex_text] hex_last by simp
  moreover obtain d where "List.find (\<lambda>d. pdm_hostname d = hostnameForLabel cfg base) (dd_domains m) = Some d"
    using Suc.prems(3) by (cases "List.find (\<lambda>d. pdm_hostname d = hostnameForLabel cfg base) (dd_domains m)") (auto simp: find_None_iff)
  moreover have "w_faults (dd_world ?m) = []" using Suc.prems(2) by simp
  ultimately have "allocate_attempts cfg base (Suc n) m = allocate_attempts cfg base n ?m"
    by (simp add: andThen_def s get_hostname_quiet Let_def)
  with Suc.IH [of ?m] Suc.prems show ?case by simp
qed simp

section \<open>An example\<close>

definition demo_domains :: domain_db where
  "demo_domains = \<lparr>dd_world = demo_world ''promoted'' ''promoted'' [], dd_domains = [],
     dd_services = [\<lparr>sr_project_id = ''p'', sr_name = ''web'', sr_kind = ''web'', sr_runtime_profile = None, sr_public = True\<rparr>],
     dd_instance_ip = [''i1'' \<mapsto> ''203.0.113.7''], dd_cluster_ip = Map.empty, dd_random = (\<lambda>n. Some [of_nat n, 171, 205]),
     dd_drawn = 0, dd_provider = (\<lambda>_ q. NoopUpsertARecord q), dd_requests = []\<rparr>"

definition demo_domain_config :: domain_config where
  "demo_domain_config = \<lparr>cfg_base_domain = [], cfg_proxied = True\<rparr>"

definition demo_allocate :: "bool \<Rightarrow> AllocateCommand" where
  "demo_allocate regenerate = \<lparr>al_user = ''u'', al_role = ''user'', al_project_id = ''p'', al_regenerate = regenerate\<rparr>"

definition demo_allocated :: domain_db where
  "demo_allocated = run (domain_step demo_domain_config) [OpAllocate (demo_allocate False)] demo_domains"

lemma demo_allocated_rows:
  "map (\<lambda>d. (pdm_hostname d, pdm_status d, pdm_synced_ip d)) (dd_domains demo_allocated) =
     [(''shop-00abcd.lazyops.cloud'', ''active'', ''203.0.113.7'')]"
  by code_simp

section \<open>Properties\<close>

text \<open>
  Property C26: whatever operations run and whichever requests to the database and to the provider fail, host names
  are unique, a project has one managed domain and its name is a valid label under the base domain. As long as
  no name is regenerated, every active domain has been accepted by the provider with its address.
\<close>

theorem managed_domains_are_published:
  assumes "dd_domains m = []"
  shows "domains_ok False cfg (run (domain_step cfg) ops m) \<and>
    (list_all no_regenerate ops \<longrightarrow> (\<forall>d \<in> set (dd_domains (run (domain_step cfg) ops m)).
       pdm_status d = ''active'' \<longrightarrow> published (run (domain_step cfg) ops m) d))"
proof -
  let ?m = "run (domain_step cfg) ops m"
  have run: "domains_ok strict cfg ?m" if "strict \<longrightarrow> list_all no_regenerate ops" for strict
    by (rule domains.invar_run [OF no_domains_ok [OF assms]], rule every_call_ok) (use that in \<open>auto simp: list_all_iff\<close>)
  have "published ?m d" if "list_all no_regenerate ops" "d \<in> set (dd_domains ?m)" "pdm_status d = ''active''" for d
    using run [of True] that by (simp add: domains_ok_def list_all_iff domain_ok_def)
  with run [of False] show ?thesis by simp
qed

text \<open>
  Property C39: regenerating the name of an active domain whose address has not changed stores the new name as
  active without any request to the provider: no other row has the name, and nothing publishes it.
\<close>

theorem regenerated_name_is_not_published:
  assumes "DomainGetByProjectIDAndKind pid ''managed'' m = (Ok (Some d), m1)"
    and active: "pdm_status d = ''active''" "trim_space (pdm_synced_ip d) = trim_space ip" "trim_space (pdm_record_id d) \<noteq> []"
      "parse_ip (trim_space ip) \<noteq> None" "trim_space ip \<noteq> []"
    and "ensureManagedDomain cfg pid slug kind tid ip True m = (Ok d', m')"
  shows "dd_requests m' = dd_requests m \<and> pdm_status d' = ''active'' \<and>
    (\<forall>r \<in> set (dd_domains m). pdm_hostname r \<noteq> pdm_hostname d')"
proof -
  have quiet1: "dd_requests m1 = dd_requests m" using assms(1) unfolding DomainGetByProjectIDAndKind_def by (auto elim: domain_callD)
  from assms(1,7) obtain l h m2 where alloc: "allocateUniqueHostname cfg slug m1 = (Ok (l, h), m2)"
    and rest: "andThen (syncManagedDomain cfg (d\<lparr>pdm_label := l, pdm_hostname := h, pdm_target_kind := trim_space kind,
        pdm_target_id := trim_space tid\<rparr>) ip) store_domain m2 = (Ok d', m')"
    unfolding ensureManagedDomain_def chosen_domain_def
    by (cases "allocateUniqueHostname cfg slug m1") (auto simp: andThen_def split: if_splits sum.splits)
  have "dd_domains m2 = dd_domains m"
    using asks_grows [OF asks_reads(1) assms(1)] asks_grows [OF asks_calls(3) alloc] by (simp add: domains_same_def)
  then have fresh: "\<forall>r \<in> set (dd_domains m). pdm_hostname r \<noteq> h" using allocated_label [OF alloc] by metis
  note quiet2 = allocate_silent [OF alloc]
  have "store_domain (d\<lparr>pdm_label := l, pdm_hostname := h, pdm_target_kind := trim_space kind, pdm_target_id := trim_space tid,
      pdm_status_reason := []\<rparr>) m2 = (Ok d', m')"
    using rest sync_active [of "d\<lparr>pdm_label := l, pdm_hostname := h, pdm_target_kind := trim_space kind, pdm_target_id := trim_space tid\<rparr>"]
      active by (simp add: andThen_def)
  note stored = store_domainD [OF this]
  have "pdm_status d' = ''active''" using arg_cong [OF stored [THEN conjunct2], of pdm_status] active(1) by simp
  moreover have "pdm_hostname d' = h" using arg_cong [OF stored [THEN conjunct2], of pdm_hostname] by simp
  moreover have "dd_requests m' = dd_requests m2" using stored ..
  ultimately show ?thesis using quiet1 quiet2 fresh by simp
qed

theorem managed_domains_are_published_witness:
  "\<exists>d. dd_domains demo_allocated = [d] \<and> pdm_hostname d = ''shop-00abcd.lazyops.cloud'' \<and> published demo_allocated d"
proof -
  obtain d where d: "dd_domains demo_allocated = [d]" "pdm_hostname d = ''shop-00abcd.lazyops.cloud''" "pdm_status d = ''active''"
    using demo_allocated_rows by auto
  have "dd_domains demo_domains = []" by (simp add: demo_domains_def)
  from managed_domains_are_published [OF this, of demo_domain_config "[OpAllocate (demo_allocate False)]"] d show ?thesis
    by (simp add: no_regenerate_def demo_allocate_def demo_allocated_def)
qed

lemma demo_regenerates:
  "is_ok (fst (ensureManagedDomain demo_domain_config ''p'' ''shop'' ''instance'' ''i1'' ''203.0.113.7'' True demo_allocated))"
  by code_simp

lemma demo_found:
  "(case fst (DomainGetByProjectIDAndKind ''p'' ''managed'' demo_allocated) of Inr (Some d) \<Rightarrow>
      pdm_status d = ''active'' \<and> trim_space (pdm_synced_ip d) = ''203.0.113.7'' \<and> trim_space (pdm_record_id d) \<noteq> [] | _ \<Rightarrow> False)"
  by code_simp

theorem regenerated_name_is_not_published_witness:
  "\<exists>d'. fst (ensureManagedDomain demo_domain_config ''p'' ''shop'' ''instance'' ''i1'' ''203.0.113.7'' True demo_allocated) = Ok d' \<and>
     pdm_status d' = ''active'' \<and> (\<forall>r \<in> set (dd_domains demo_allocated). pdm_hostname r \<noteq> pdm_hostname d')"
proof -
  let ?ip = "''203.0.113.7''"
  obtain d' m' where run: "ensureManagedDomain demo_domain_config ''p'' ''shop'' ''instance'' ''i1'' ?ip True demo_allocated = (Ok d', m')"
    using demo_regenerates unfolding is_ok_iff by (metis prod.collapse)
  obtain d m1 where get: "DomainGetByProjectIDAndKind ''p'' ''managed'' demo_allocated = (Ok (Some d), m1)"
    and d: "pdm_status d = ''active''" "trim_space (pdm_synced_ip d) = ?ip" "trim_space (pdm_record_id d) \<noteq> []"
  proof -
    obtain r m1 where g: "DomainGetByProjectIDAndKind ''p'' ''managed'' demo_allocated = (r, m1)" by fastforce
    show thesis
      by (rule that [of "the (projr r)" m1]) (use demo_found g in \<open>cases r; cases "projr r"; simp\<close>)+
  qed
  have ip: "trim_space ?ip = ?ip" "parse_ip ?ip \<noteq> None" by code_simp+
  show ?thesis
    using regenerated_name_is_not_published [OF get d(1) _ d(3) _ _ run] d(2) ip run by simp
qed

end
