(* ===== verification/Incidents.thy ===== *)
theory Incidents
  imports Commands GoText
begin

text \<open>
  The two incident reporters of the agent, \<open>agent/internal/runtime/incident_reporter.go\<close> and
  \<open>cluster_incident_reporter.go\<close>. Each accepts an incident unless one of the same kind and summary was accepted within
  its cooldown; the first also bounds what waits to be sent. Every reading of the clock is an argument. The sender may
  fail at any incident, and so may \<open>PersistIncident\<close>, which writes a file: both are parameters. Loggers are not modelled.
\<close>

section \<open>Rate limits\<close>

definition in_cooldown :: "duration \<Rightarrow> (string \<rightharpoonup> time) \<Rightarrow> string \<Rightarrow> time \<Rightarrow> bool" where
  "in_cooldown gap stamps key now = (case stamps key of None \<Rightarrow> False | Some since \<Rightarrow> time_sub now since < gap)"

text \<open>
  What both reporters promise: a call that takes a request stamps its key, no call takes a request in its cooldown,
  and no other call touches the stamps. A request has a key, the time at which it is checked and the time it is stamped with.
\<close>

locale limiter =
  fixes step :: "'e \<Rightarrow> 's \<Rightarrow> 's"
    and request :: "'e \<Rightarrow> (string \<times> time \<times> time) option"
    and stamps :: "'s \<Rightarrow> string \<rightharpoonup> time"
    and gap :: "'s \<Rightarrow> duration"
    and taken :: "'e \<Rightarrow> 's \<Rightarrow> bool"
  assumes takes: "taken e s \<Longrightarrow> \<exists>k t u. request e = Some (k, t, u) \<and> stamps (step e s) = (stamps s)(k \<mapsto> u) \<and>
      \<not> in_cooldown (gap s) (stamps s) k t"
    and leaves: "\<not> taken e s \<Longrightarrow> stamps (step e s) = stamps s"
    and gap_step: "gap (step e s) = gap s"
begin

lemma gap_run: "gap (run step es s) = gap s"
  by (induction es arbitrary: s) (simp_all add: gap_step)

lemma stamp_run:
  assumes "\<exists>l \<ge> u. stamps s k = Some l" and "\<forall>e \<in> set es. \<forall>t v. request e = Some (k, t, v) \<longrightarrow> u \<le> v"
  shows "\<exists>l \<ge> u. stamps (run step es s) k = Some l"
  using assms
proof (induction es arbitrary: s)
  case (Cons e es)
  have "\<exists>l \<ge> u. stamps (step e s) k = Some l"
  proof (cases "taken e s")
    case True
    from takes [OF this] obtain k' t v where "request e = Some (k', t, v)" "stamps (step e s) = (stamps s)(k' \<mapsto> v)" by blast
    with Cons.prems show ?thesis by (cases "k' = k") auto
  next
    case False
    with Cons.prems(1) leaves show ?thesis by simp
  qed
  with Cons show ?case by simp
qed simp

lemma spaced:
  assumes "taken e s" and "request e = Some (k, t, u)"
    and later: "\<forall>e' \<in> set es. \<forall>t' u'. request e' = Some (k, t', u') \<longrightarrow> u \<le> u'"
    and "request e2 = Some (k, t2, u2)" and "time_sub t2 u < gap s"
  shows "\<not> taken e2 (run step es (step e s))"
proof
  let ?s = "run step es (step e s)"
  assume "taken e2 ?s"
  from takes [OF this] assms(4) have free: "\<not> in_cooldown (gap ?s) (stamps ?s) k t2" by auto
  from takes [OF assms(1)] assms(2) have "stamps (step e s) k = Some u" by auto
  then have "\<exists>l \<ge> u. stamps ?s k = Some l" using stamp_run [OF _ later, of "step e s"] by auto
  then obtain l where l: "u \<le> l" "stamps ?s k = Some l" by blast
  have "time_sub t2 l \<le> time_sub t2 u" using l(1) by (auto simp: time_sub_def)
  with free l(2) assms(5) show False by (simp add: in_cooldown_def gap_run gap_step)
qed

end

section \<open>The incident reporter\<close>

record IncidentReporterConfig =
  MaxIncidentsPerWindow :: int
  irc_cooldown :: duration

record IncidentPayload =
  ic_project :: string
  ic_revision :: string
  ic_severity :: string
  ic_kind :: string
  ic_summary :: string
  ic_occurred_at :: time
  ic_details :: payload

record IncidentReporter =
  ir_cfg :: IncidentReporterConfig
  ir_pending :: "(IncidentPayload \<times> time) list"
  ir_cooldowns :: "string \<rightharpoonup> time"
  ir_total :: nat
  ir_forwarded :: nat
  ir_suppressed :: nat

definition DefaultIncidentReporterConfig :: IncidentReporterConfig where
  "DefaultIncidentReporterConfig = \<lparr>MaxIncidentsPerWindow = 10, irc_cooldown = 30 * second\<rparr>"

definition NewIncidentReporter :: "IncidentReporterConfig \<Rightarrow> IncidentReporter" where
  "NewIncidentReporter cfg =
     \<lparr>ir_cfg = \<lparr>MaxIncidentsPerWindow = (if MaxIncidentsPerWindow cfg \<le> 0 then 10 else MaxIncidentsPerWindow cfg),
        irc_cooldown = (if irc_cooldown cfg \<le> 0 then 30 * second else irc_cooldown cfg)\<rparr>,
      ir_pending = [], ir_cooldowns = Map.empty, ir_total = 0, ir_forwarded = 0, ir_suppressed = 0\<rparr>"

definition incident_key :: "IncidentPayload \<Rightarrow> string" where
  "incident_key i = ic_kind i @ '':'' @ ic_summary i"

text \<open>\<open>r.now()\<close> is read when the cooldown is checked, when the incident is filed and when its cooldown starts.\<close>

definition ReportIncident :: "IncidentPayload \<Rightarrow> time \<Rightarrow> time \<Rightarrow> time \<Rightarrow> IncidentReporter \<Rightarrow> IncidentReporter" where
  "ReportIncident i t1 t2 t3 r0 =
     (let r = r0\<lparr>ir_total := ir_total r0 + 1\<rparr>; key = incident_key i in
      if in_cooldown (irc_cooldown (ir_cfg r)) (ir_cooldowns r) key t1 then r\<lparr>ir_suppressed := ir_suppressed r + 1\<rparr>
      else if MaxIncidentsPerWindow (ir_cfg r) \<le> int (length (ir_pending r)) then r\<lparr>ir_suppressed := ir_suppressed r + 1\<rparr>
      else r\<lparr>ir_pending := ir_pending r @ [(i, t2)], ir_cooldowns := (ir_cooldowns r)(key \<mapsto> t3)\<rparr>)"

definition CollectPending :: "IncidentReporter \<Rightarrow> IncidentPayload list \<times> IncidentReporter" where
  "CollectPending r = (map fst (ir_pending r), r\<lparr>ir_pending := []\<rparr>)"

definition IncidentStats :: "IncidentReporter \<Rightarrow> nat \<times> nat \<times> nat \<times> nat" where
  "IncidentStats r = (ir_total r, ir_forwarded r, ir_suppressed r, length (ir_pending r))"

record ReportIncidentPayload =
  ri_project :: string
  ri_binding :: string
  ri_revision :: string
  ri_runtime_mode :: string
  ri_workspace_root :: string
  ri_sender :: "(nat \<Rightarrow> IncidentPayload \<Rightarrow> unit res) option"

text \<open>
  The sender and \<open>PersistIncident\<close> also get the position of the incident in the loop, so that they may answer
  equal incidents differently. The loop yields how many were reported and what was handed to the sender.
\<close>

type_synonym incident_writer = "nat \<Rightarrow> string \<Rightarrow> string \<Rightarrow> string \<Rightarrow> IncidentPayload \<Rightarrow> string res"

definition incident_root :: "ReportIncidentPayload \<Rightarrow> string" where
  "incident_root p = (if ri_workspace_root p = []
     then path_clean (join ''/'' (filter (\<lambda>c. c \<noteq> []) [''/var/lib/lazyops'', ''projects'', ri_project p, ''bindings'', ri_binding p,
            ''revisions'', ri_revision p]))
     else ri_workspace_root p)"

fun report_incidents :: "incident_writer \<Rightarrow> ReportIncidentPayload \<Rightarrow> nat \<Rightarrow> IncidentPayload list \<Rightarrow> nat \<times> IncidentPayload list" where
  "report_incidents persist p n [] = (0, [])"
| "report_incidents persist p n (i # is) =
     (let (reported, sent) = report_incidents persist p (n + 1) is;
          refused = (case ri_sender p of None \<Rightarrow> False | Some send \<Rightarrow> \<not> is_ok (send n i));
          sent' = (if ri_sender p = None then sent else i # sent) in
      if refused then (reported, sent')
      else case persist n (incident_root p) (ri_project p) (ri_binding p) i of
             Inl e \<Rightarrow> (reported, sent')
           | Inr path \<Rightarrow> (reported + 1, sent'))"

definition HandleReportIncidents ::
    "incident_writer \<Rightarrow> ReportIncidentPayload \<Rightarrow> IncidentReporter \<Rightarrow> nat \<times> IncidentPayload list \<times> IncidentReporter" where
  "HandleReportIncidents persist p r =
     (let (incidents, r') = CollectPending r in
      if incidents = [] then (0, [], r')
      else let (reported, sent) = report_incidents persist p 0 incidents in
           (reported, sent, r'\<lparr>ir_forwarded := ir_forwarded r' + reported\<rparr>))"

section \<open>The cluster incident reporter\<close>

record ClusterIncident =
  ci_kind :: string
  ci_severity :: string
  ci_summary :: string
  ci_node_name :: string
  ci_pod_name :: string
  ci_namespace :: string
  ci_details :: payload
  ci_occurred_at :: time

record ClusterIncidentReporter =
  cr_incidents :: "ClusterIncident list"
  cr_total :: nat
  cr_suppressed :: nat
  cr_cooldowns :: "string \<rightharpoonup> time"

definition NewClusterIncidentReporter :: ClusterIncidentReporter where
  "NewClusterIncidentReporter = \<lparr>cr_incidents = [], cr_total = 0, cr_suppressed = 0, cr_cooldowns = Map.empty\<rparr>"

text \<open>The clock is read for the time of the incident, for the check and for the stamp.\<close>

definition ReportCluster :: "ClusterIncident \<Rightarrow> time \<Rightarrow> time \<Rightarrow> time \<Rightarrow> ClusterIncidentReporter \<Rightarrow> ClusterIncidentReporter" where
  "ReportCluster i0 t1 t2 t3 r0 =
     (let r = r0\<lparr>cr_total := cr_total r0 + 1\<rparr>; i = i0\<lparr>ci_occurred_at := t1\<rparr>; key = ci_kind i @ '':'' @ ci_summary i in
      if in_cooldown (30 * second) (cr_cooldowns r) key t2 then r\<lparr>cr_suppressed := cr_suppressed r + 1\<rparr>
      else r\<lparr>cr_incidents := cr_incidents r @ [i], cr_cooldowns := (cr_cooldowns r)(key \<mapsto> t3)\<rparr>)"

definition cluster_incident :: "string \<Rightarrow> string \<Rightarrow> string \<Rightarrow> ClusterIncident" where
  "cluster_incident kind severity summary = \<lparr>ci_kind = kind, ci_severity = severity, ci_summary = summary, ci_node_name = [],
     ci_pod_name = [], ci_namespace = [], ci_details = Map.empty, ci_occurred_at = zero_time\<rparr>"

definition UnhealthyNode :: "string \<Rightarrow> payload \<Rightarrow> ClusterIncident" where
  "UnhealthyNode nodeName details = (cluster_incident ''unhealthy_node'' ''warning'' (''node '' @ nodeName @ '' is unhealthy''))
     \<lparr>ci_node_name := nodeName, ci_details := details\<rparr>"

definition PodCrashLoop :: "string \<Rightarrow> string \<Rightarrow> int \<Rightarrow> ClusterIncident" where
  "PodCrashLoop podName namespace restartCount = (cluster_incident ''pod_crash_loop'' ''critical'' (''pod '' @ podName @ '' in crash loop''))
     \<lparr>ci_pod_name := podName, ci_namespace := namespace, ci_details := [''restart_count'' \<mapsto> AnyInt restartCount]\<rparr>"

definition MeshIssue :: "string \<Rightarrow> payload \<Rightarrow> ClusterIncident" where
  "MeshIssue summary details = (cluster_incident ''mesh_issue'' ''warning'' summary)\<lparr>ci_details := details\<rparr>"

definition TunnelIssue :: "string \<Rightarrow> payload \<Rightarrow> ClusterIncident" where
  "TunnelIssue summary details = (cluster_incident ''tunnel_issue'' ''warning'' summary)\<lparr>ci_details := details\<rparr>"

definition CollectIncidents :: "ClusterIncidentReporter \<Rightarrow> ClusterIncident list \<times> ClusterIncidentReporter" where
  "CollectIncidents r = (cr_incidents r, r\<lparr>cr_incidents := []\<rparr>)"

definition ClusterStats :: "ClusterIncidentReporter \<Rightarrow> nat \<times> nat \<times> nat" where
  "ClusterStats r = (cr_total r, cr_suppressed r, length (cr_incidents r))"

section \<open>Calls\<close>

datatype incident_call =
    CallReport IncidentPayload time time time
  | CallHandle incident_writer ReportIncidentPayload

fun incident_step :: "incident_call \<Rightarrow> IncidentReporter \<Rightarrow> IncidentReporter" where
  "incident_step (CallReport i t1 t2 t3) r = ReportIncident i t1 t2 t3 r"
| "incident_step (CallHandle persist p) r = snd (snd (HandleReportIncidents persist p r))"

fun incident_request :: "incident_call \<Rightarrow> (string \<times> time \<times> time) option" where
  "incident_request (CallReport i t1 t2 t3) = Some (incident_key i, t1, t3)"
| "incident_request _ = None"

text \<open>An incident is accepted if it joins the pending ones.\<close>

fun accepted :: "incident_call \<Rightarrow> IncidentReporter \<Rightarrow> bool" where
  "accepted (CallReport i t1 t2 t3) r \<longleftrightarrow> ir_pending (ReportIncident i t1 t2 t3 r) = ir_pending r @ [(i, t2)]"
| "accepted _ r \<longleftrightarrow> False"

datatype cluster_call =
    CallCluster ClusterIncident time time time
  | CallCollect

fun cluster_step :: "cluster_call \<Rightarrow> ClusterIncidentReporter \<Rightarrow> ClusterIncidentReporter" where
  "cluster_step (CallCluster i t1 t2 t3) r = ReportCluster i t1 t2 t3 r"
| "cluster_step CallCollect r = snd (CollectIncidents r)"

fun cluster_request :: "cluster_call \<Rightarrow> (string \<times> time \<times> time) option" where
  "cluster_request (CallCluster i t1 t2 t3) = Some (ci_kind i @ '':'' @ ci_summary i, t2, t3)"
| "cluster_request _ = None"

fun cluster_accepted :: "cluster_call \<Rightarrow> ClusterIncidentReporter \<Rightarrow> bool" where
  "cluster_accepted (CallCluster i t1 t2 t3) r \<longleftrightarrow> cr_suppressed (ReportCluster i t1 t2 t3 r) = cr_suppressed r"
| "cluster_accepted _ r \<longleftrightarrow> False"

interpretation incidents: limiter incident_step incident_request ir_cooldowns "\<lambda>r. irc_cooldown (ir_cfg r)" accepted
proof
  show "\<exists>k t u. incident_request e = Some (k, t, u) \<and> ir_cooldowns (incident_step e r) = (ir_cooldowns r)(k \<mapsto> u) \<and>
      \<not> in_cooldown (irc_cooldown (ir_cfg r)) (ir_cooldowns r) k t" if "accepted e r" for e r
    using that by (cases e) (auto simp: ReportIncident_def Let_def split: if_splits)
  show "ir_cooldowns (incident_step e r) = ir_cooldowns r" if "\<not> accepted e r" for e r
    using that by (cases e) (auto simp: ReportIncident_def HandleReportIncidents_def CollectPending_def Let_def split: if_splits prod.splits)
  show "irc_cooldown (ir_cfg (incident_step e r)) = irc_cooldown (ir_cfg r)" for e r
    by (cases e) (auto simp: ReportIncident_def HandleReportIncidents_def CollectPending_def Let_def split: prod.splits)
qed

interpretation cluster: limiter cluster_step cluster_request cr_cooldowns "\<lambda>_. 30 * second" cluster_accepted
proof
  show "\<exists>k t u. cluster_request e = Some (k, t, u) \<and> cr_cooldowns (cluster_step e r) = (cr_cooldowns r)(k \<mapsto> u) \<and>
      \<not> in_cooldown (30 * second) (cr_cooldowns r) k t" if "cluster_accepted e r" for e r
    using that by (cases e) (auto simp: ReportCluster_def Let_def split: if_splits)
  show "cr_cooldowns (cluster_step e r) = cr_cooldowns r" if "\<not> cluster_accepted e r" for e r
    using that by (cases e) (auto simp: ReportCluster_def CollectIncidents_def Let_def split: if_splits)
qed simp

section \<open>Accounting\<close>

definition incident_inv :: "IncidentReporter \<Rightarrow> bool" where
  "incident_inv r \<longleftrightarrow> ir_forwarded r + ir_suppressed r + length (ir_pending r) \<le> ir_total r \<and>
     0 < MaxIncidentsPerWindow (ir_cfg r) \<and> int (length (ir_pending r)) \<le> MaxIncidentsPerWindow (ir_cfg r) \<and>
     (\<forall>(i, t) \<in> set (ir_pending r). ir_cooldowns r (incident_key i) \<noteq> None)"

lemma reported_bound: "fst (report_incidents persist p n is) \<le> length is"
proof (induction "is" arbitrary: n)
  case (Cons i "is")
  have "fst (report_incidents persist p (n + 1) is) \<le> length is" by (rule Cons)
  then show ?case by (auto simp: case_prod_unfold Let_def split: sum.split)
qed simp

interpretation reporter: machine incident_step "\<lambda>_ _. True" incident_inv
proof
  fix e r assume r: "incident_inv r"
  show "incident_inv (incident_step e r)"
  proof (cases e)
    case (CallReport i t1 t2 t3)
    with r show ?thesis by (auto simp: incident_inv_def ReportIncident_def Let_def)
  next
    case (CallHandle persist p)
    have "fst (report_incidents persist p 0 (map fst (ir_pending r))) \<le> length (ir_pending r)"
      using reported_bound [of persist p 0 "map fst (ir_pending r)"] by simp
    with CallHandle r show ?thesis
      by (auto simp: incident_inv_def HandleReportIncidents_def CollectPending_def Let_def split: prod.splits)
  qed
qed

text \<open>Calls in which neither the sender nor the writer fails lose nothing.\<close>

fun delivers :: "incident_call \<Rightarrow> bool" where
  "delivers (CallReport i t1 t2 t3) \<longleftrightarrow> True"
| "delivers (CallHandle persist p) \<longleftrightarrow> (\<forall>n i. case ri_sender p of None \<Rightarrow> True | Some send \<Rightarrow> is_ok (send n i)) \<and>
     (\<forall>n root pid bid i. is_ok (persist n root pid bid i))"

lemma reported_all: "delivers (CallHandle persist p) \<Longrightarrow> fst (report_incidents persist p n is) = length is"
proof (induction "is" arbitrary: n)
  case (Cons i "is")
  obtain path where "persist n (incident_root p) (ri_project p) (ri_binding p) i = Inr path"
    using Cons.prems by (metis delivers.simps(2) is_ok_iff)
  moreover have "\<not> (case ri_sender p of None \<Rightarrow> False | Some send \<Rightarrow> \<not> is_ok (send n i))"
    using Cons.prems by (auto split: option.splits)
  moreover have "fst (report_incidents persist p (n + 1) is) = length is" by (rule Cons.IH [OF Cons.prems])
  ultimately show ?case by (simp add: case_prod_unfold Let_def)
qed simp

definition nothing_lost :: "IncidentReporter \<Rightarrow> bool" where
  "nothing_lost r \<longleftrightarrow> ir_forwarded r + ir_suppressed r + length (ir_pending r) = ir_total r"

interpretation delivering: machine incident_step "\<lambda>_. delivers" nothing_lost
proof
  fix e r assume r: "nothing_lost r" and e: "delivers e"
  show "nothing_lost (incident_step e r)"
  proof (cases e)
    case (CallReport i t1 t2 t3)
    with r show ?thesis by (auto simp: nothing_lost_def ReportIncident_def Let_def)
  next
    case (CallHandle persist p)
    have "fst (report_incidents persist p 0 (map fst (ir_pending r))) = length (ir_pending r)"
      using reported_all [OF e [unfolded CallHandle]] by simp
    with CallHandle r show ?thesis
      by (auto simp: nothing_lost_def HandleReportIncidents_def CollectPending_def Let_def split: prod.splits)
  qed
qed

lemma new_reporter_ok: "incident_inv (NewIncidentReporter cfg)" "nothing_lost (NewIncidentReporter cfg)"
  by (auto simp: incident_inv_def nothing_lost_def NewIncidentReporter_def)

lemma every_incident_call: "list_all P es \<Longrightarrow> calls_ok (\<lambda>_. P) step es s"
  by (induction es arbitrary: s) auto

section \<open>Properties\<close>

text \<open>
  Property C21: once an incident is accepted, a report of the same kind and summary less than a cooldown later is
  suppressed, whatever was reported and collected in between (the clock does not go back).
\<close>

theorem incidents_are_rate_limited:
  assumes "accepted (CallReport i t1 t2 t3) r"
    and "\<forall>e \<in> set es. \<forall>t u. incident_request e = Some (incident_key i, t, u) \<longrightarrow> t3 \<le> u"
    and "incident_key j = incident_key i" and "time_sub u1 t3 < irc_cooldown (ir_cfg r)"
    and "r' = run incident_step es (ReportIncident i t1 t2 t3 r)"
  shows "ReportIncident j u1 u2 u3 r' = r'\<lparr>ir_total := ir_total r' + 1, ir_suppressed := ir_suppressed r' + 1\<rparr>"
proof -
  have "\<not> accepted (CallReport j u1 u2 u3) r'"
    using incidents.spaced [OF assms(1) _ assms(2), of t1 "CallReport j u1 u2 u3" u1 u3] assms(3-5) by simp
  then show ?thesis by (auto simp: ReportIncident_def Let_def split: if_splits)
qed

lemma cluster_incidents_are_rate_limited:
  assumes "cluster_accepted (CallCluster i t1 t2 t3) r" and "ci_kind j = ci_kind i" "ci_summary j = ci_summary i"
    and "\<forall>e \<in> set es. \<forall>t u. cluster_request e = Some (ci_kind i @ '':'' @ ci_summary i, t, u) \<longrightarrow> t3 \<le> u"
    and "time_sub u2 t3 < 30 * second"
    and "r' = run cluster_step es (ReportCluster i t1 t2 t3 r)"
  shows "ReportCluster j u1 u2 u3 r' = r'\<lparr>cr_total := cr_total r' + 1, cr_suppressed := cr_suppressed r' + 1\<rparr>"
proof -
  have "\<not> cluster_accepted (CallCluster j u1 u2 u3) r'"
    using cluster.spaced [OF assms(1) _ assms(4), of t2 "CallCluster j u1 u2 u3" u2 u3] assms(2,3,5,6) by simp
  then show ?thesis by (auto simp: ReportCluster_def Let_def split: if_splits)
qed

text \<open>
  The counters of a reporter never claim more than was reported, and no more incidents wait than the
  configured maximum. The reported ones are exactly the forwarded, suppressed and waiting ones as long as neither the
  sender nor the writer fails; an incident that one of them refuses is in none of these.
\<close>

lemma incident_accounting:
  fixes cfg and es defines "r \<equiv> run incident_step es (NewIncidentReporter cfg)"
  shows "ir_forwarded r + ir_suppressed r + length (ir_pending r) \<le> ir_total r \<and>
    int (length (ir_pending r)) \<le> MaxIncidentsPerWindow (ir_cfg r) \<and>
    (list_all delivers es \<longrightarrow> ir_forwarded r + ir_suppressed r + length (ir_pending r) = ir_total r)"
proof -
  have "incident_inv r" unfolding r_def
    by (rule reporter.invar_run [OF new_reporter_ok(1)], rule every_incident_call) (simp add: list_all_iff)
  moreover have "nothing_lost r" if "list_all delivers es" unfolding r_def
    by (rule delivering.invar_run [OF new_reporter_ok(2)], rule every_incident_call [OF that])
  ultimately show ?thesis by (simp add: incident_inv_def nothing_lost_def)
qed

section \<open>An example\<close>

definition demo_incident :: "string \<Rightarrow> IncidentPayload" where
  "demo_incident summary = \<lparr>ic_project = ''p'', ic_revision = [], ic_severity = ''warning'', ic_kind = ''oom'', ic_summary = summary,
     ic_occurred_at = 1, ic_details = Map.empty\<rparr>"

definition demo_report :: "bool \<Rightarrow> incident_call" where
  "demo_report ok = CallHandle (\<lambda>_ _ _ _ _. Ok ''file'')
     \<lparr>ri_project = ''p'', ri_binding = ''b'', ri_revision = ''r'', ri_runtime_mode = [], ri_workspace_root = [],
      ri_sender = Some (\<lambda>_ _. if ok then Ok () else Fail (Errorf ''offline''))\<rparr>"

theorem incidents_are_rate_limited_witness:
  "\<exists>r'. r' = run incident_step [demo_report True, CallReport (demo_incident ''web'') 7 8 9]
       (ReportIncident (demo_incident ''api'') 1 2 3 (NewIncidentReporter DefaultIncidentReporterConfig)) \<and>
     ir_suppressed (ReportIncident (demo_incident ''api'') 20 21 22 r') = ir_suppressed r' + 1"
proof -
  let ?r = "NewIncidentReporter DefaultIncidentReporterConfig" and ?i = "demo_incident ''api''"
  let ?es = "[demo_report True, CallReport (demo_incident ''web'') 7 8 9]"
  have "accepted (CallReport ?i 1 2 3) ?r"
    by (simp add: ReportIncident_def NewIncidentReporter_def DefaultIncidentReporterConfig_def in_cooldown_def second_def Let_def)
  moreover have "\<forall>e \<in> set ?es. \<forall>t u. incident_request e = Some (incident_key ?i, t, u) \<longrightarrow> 3 \<le> u"
    by (simp add: demo_report_def)
  moreover have "time_sub 20 3 < irc_cooldown (ir_cfg ?r)"
    by (simp add: time_sub_def NewIncidentReporter_def DefaultIncidentReporterConfig_def second_def min_duration_def max_duration_def)
  ultimately have "ReportIncident ?i 20 21 22 (run incident_step ?es (ReportIncident ?i 1 2 3 ?r)) =
      (run incident_step ?es (ReportIncident ?i 1 2 3 ?r))\<lparr>ir_total := ir_total (run incident_step ?es (ReportIncident ?i 1 2 3 ?r)) + 1,
        ir_suppressed := ir_suppressed (run incident_step ?es (ReportIncident ?i 1 2 3 ?r)) + 1\<rparr>"
    by (rule incidents_are_rate_limited [OF _ _ refl _ refl])
  then show ?thesis by simp
qed

lemma incident_accounting_example:
  "ir_forwarded (run incident_step [CallReport (demo_incident ''api'') 1 2 3, demo_report True] (NewIncidentReporter DefaultIncidentReporterConfig)) +
   ir_suppressed (run incident_step [CallReport (demo_incident ''api'') 1 2 3, demo_report True] (NewIncidentReporter DefaultIncidentReporterConfig)) +
   length (ir_pending (run incident_step [CallReport (demo_incident ''api'') 1 2 3, demo_report True] (NewIncidentReporter DefaultIncidentReporterConfig))) =
   ir_total (run incident_step [CallReport (demo_incident ''api'') 1 2 3, demo_report True] (NewIncidentReporter DefaultIncidentReporterConfig))"
proof -
  have "list_all delivers [CallReport (demo_incident ''api'') 1 2 3, demo_report True]" by (simp add: demo_report_def)
  with incident_accounting [of "[CallReport (demo_incident ''api'') 1 2 3, demo_report True]" DefaultIncidentReporterConfig]
  show ?thesis by blast
qed

text \<open>A batch that the sender refuses is gone, and reports of the same incident are suppressed for a cooldown more.\<close>

lemma refused_incidents_are_lost:
  "(let r = run incident_step [CallReport (demo_incident ''api'') 1 2 3, demo_report False] (NewIncidentReporter DefaultIncidentReporterConfig) in
    IncidentStats r = (1, 0, 0, 0) \<and> ir_pending (ReportIncident (demo_incident ''api'') 4 5 6 r) = [])"
  by (simp add: demo_report_def ReportIncident_def NewIncidentReporter_def DefaultIncidentReporterConfig_def in_cooldown_def second_def Let_def
      HandleReportIncidents_def CollectPending_def IncidentStats_def time_sub_def incident_key_def min_duration_def max_duration_def)

end
