(* ===== verification/Previews.thy ===== *)
theory Previews
  imports Deployment GoFmt
begin

text \<open>
  Preview environments of pull requests: \<open>backend/internal/service/preview_environment_service.go\<close> with
  \<open>preview_environment_repository.go\<close>. The state is the world of theory Store with the previews, the links between
  projects and repositories, and the creation times of the blueprints. A preview is created with a revision and a
  deployment of its own. \<open>First\<close> without an order is the row with the least primary key.
\<close>

section \<open>State\<close>

record ProjectRepoLink =
  rl_id :: string
  rl_project_id :: string
  rl_owner :: string
  rl_name :: string
  rl_preview_enabled :: bool

record PreviewDomain =
  pd_service_name :: string
  pd_domain :: string
  pd_https :: bool

record PreviewEnvironment =
  pe_id :: string
  pe_project_id :: string
  pe_link_id :: string
  pe_pr_number :: int
  pe_title :: string
  pe_author :: string
  pe_commit :: string
  pe_branch :: string
  pe_status :: string
  pe_domains :: "PreviewDomain list json_text"
  pe_revision_id :: string
  pe_deployment_id :: string
  pe_destroy_reason :: string
  pe_destroyed_at :: "time option"
  pe_created_at :: time
  pe_updated_at :: time

record preview_db =
  pv_world :: world
  pv_rows :: "PreviewEnvironment list"
  pv_links :: "ProjectRepoLink list"
  pv_blueprint_at :: "string \<Rightarrow> time"

type_synonym 'a vprog = "(preview_db, 'a) prog"

definition on_tables :: "'a wprog \<Rightarrow> 'a vprog" where
  "on_tables p = (\<lambda>m. case p (pv_world m) of (r, w) \<Rightarrow> (r, m\<lparr>pv_world := w\<rparr>))"

text \<open>A call of the database: the script may make it fail, and so may the statement itself.\<close>

definition preview_call :: "(preview_db \<Rightarrow> 'a option \<times> preview_db) \<Rightarrow> 'a vprog" where
  "preview_call f = (\<lambda>m. let w = pv_world m in
     (case w_faults w of
        True # fs \<Rightarrow> (Fail DbFailure, m\<lparr>pv_world := w\<lparr>w_faults := fs\<rparr>\<rparr>)
      | fs \<Rightarrow> (case f (m\<lparr>pv_world := w\<lparr>w_faults := tl fs\<rparr>\<rparr>) of
                 (None, m') \<Rightarrow> (Fail DbFailure, m')
               | (Some x, m') \<Rightarrow> (Ok x, m'))))"

definition preview_read :: "(preview_db \<Rightarrow> 'a) \<Rightarrow> 'a vprog" where
  "preview_read f = preview_call (\<lambda>m. (Some (f m), m))"

section \<open>Repositories\<close>

definition RepoLinkGetByProjectID :: "string \<Rightarrow> ProjectRepoLink option vprog" where
  "RepoLinkGetByProjectID pid = preview_read (\<lambda>m. List.find (\<lambda>l. rl_project_id l = pid) (pv_links m))"

text \<open>The latest blueprint; of two with the same time the one with the lesser key.\<close>

definition BlueprintGetLatestByProject :: "string \<Rightarrow> Blueprint option vprog" where
  "BlueprintGetLatestByProject pid = preview_read (\<lambda>m.
     (case sort_key (\<lambda>b. - pv_blueprint_at m (bp_id b)) (sort_key bp_id
             (filter (\<lambda>b. bp_project_id b = pid) (t_blueprints (w_tables (pv_world m))))) of
        [] \<Rightarrow> None | b # _ \<Rightarrow> Some b))"

definition PreviewCreate :: "PreviewEnvironment \<Rightarrow> unit vprog" where
  "PreviewCreate p = preview_call (\<lambda>m.
     if \<exists>r \<in> set (pv_rows m). pe_id r = pe_id p then (None, m)
     else (Some (), m\<lparr>pv_rows := pv_rows m @ [p]\<rparr>))"

definition PreviewGetByIDForProject :: "string \<Rightarrow> string \<Rightarrow> PreviewEnvironment option vprog" where
  "PreviewGetByIDForProject pid i = preview_read (\<lambda>m.
     List.find (\<lambda>p. pe_project_id p = pid \<and> pe_id p = i) (pv_rows m))"

definition first_of_pr :: "string \<Rightarrow> int \<Rightarrow> PreviewEnvironment list \<Rightarrow> PreviewEnvironment option" where
  "first_of_pr pid n rows =
     (case sort_key pe_id (filter (\<lambda>p. pe_project_id p = pid \<and> pe_pr_number p = n) rows) of
        [] \<Rightarrow> None | p # _ \<Rightarrow> Some p)"

definition PreviewGetByPRNumber :: "string \<Rightarrow> int \<Rightarrow> PreviewEnvironment option vprog" where
  "PreviewGetByPRNumber pid n = preview_read (\<lambda>m. first_of_pr pid n (pv_rows m))"

definition PreviewListByProject :: "string \<Rightarrow> PreviewEnvironment list vprog" where
  "PreviewListByProject pid = preview_read (\<lambda>m.
     sort_key (\<lambda>p. - pe_created_at p) (filter (\<lambda>p. pe_project_id p = pid) (pv_rows m)))"

definition PreviewListActiveByProject :: "string \<Rightarrow> PreviewEnvironment list vprog" where
  "PreviewListActiveByProject pid = preview_read (\<lambda>m.
     sort_key pe_created_at (filter (\<lambda>p. pe_project_id p = pid \<and> pe_status p \<notin> {''destroyed'', ''failed''}) (pv_rows m)))"

definition PreviewUpdateStatus :: "string \<Rightarrow> string \<Rightarrow> time \<Rightarrow> unit vprog" where
  "PreviewUpdateStatus i st now = preview_call (\<lambda>m.
     (Some (), m\<lparr>pv_rows := update_where (\<lambda>p. pe_id p = i) (\<lambda>p. p\<lparr>pe_status := st, pe_updated_at := now\<rparr>) (pv_rows m)\<rparr>))"

definition PreviewDestroy :: "string \<Rightarrow> string \<Rightarrow> time \<Rightarrow> unit vprog" where
  "PreviewDestroy i reason now = preview_call (\<lambda>m.
     (Some (), m\<lparr>pv_rows := update_where (\<lambda>p. pe_id p = i)
        (\<lambda>p. p\<lparr>pe_status := ''destroyed'', pe_destroy_reason := reason, pe_destroyed_at := Some now, pe_updated_at := now\<rparr>) (pv_rows m)\<rparr>))"

section \<open>The service\<close>

record PreviewRecord =
  vr_row :: PreviewEnvironment
  vr_domains :: "PreviewDomain list"

text \<open>A document that cannot be read gives no domains.\<close>

definition toPreviewRecord :: "PreviewEnvironment \<Rightarrow> PreviewRecord" where
  "toPreviewRecord p = \<lparr>vr_row = p, vr_domains = (case pe_domains p of JsonDoc ds \<Rightarrow> ds | _ \<Rightarrow> [])\<rparr>"

definition generatePreviewDomains :: "string \<Rightarrow> string \<Rightarrow> int \<Rightarrow> BlueprintContract \<Rightarrow> PreviewDomain list" where
  "generatePreviewDomains owner name n c =
     (let base = ''pr'' @ itoa n @ ''-'' @ owner @ ''-'' @ name @ ''.preview.sslip.io'';
          ds = map (\<lambda>svc. \<lparr>pd_service_name = sv_name svc, pd_domain = sv_name svc @ ''.'' @ base, pd_https = True\<rparr>)
                 (filter sv_public (bc_services c)) in
      if ds = [] then [\<lparr>pd_service_name = ''app'', pd_domain = base, pd_https = True\<rparr>] else ds)"

definition domain_any :: "PreviewDomain \<Rightarrow> any" where
  "domain_any d = AnyMap [''service_name'' \<mapsto> AnyStr (pd_service_name d), ''domain'' \<mapsto> AnyStr (pd_domain d),
     ''https'' \<mapsto> AnyBool (pd_https d)]"

definition announce :: "bool \<Rightarrow> string \<Rightarrow> payload \<Rightarrow> unit vprog" where
  "announce hub ty p = (if hub then ignoring (on_tables (BroadcastEvent ty p)) else return ())"

text \<open>The revision and the deployment of a preview; every time column is its own reading of the clock.\<close>

definition preview_rollout :: "string \<Rightarrow> string \<Rightarrow> string \<Rightarrow> BlueprintContract \<Rightarrow> string \<Rightarrow> string vprog" where
  "preview_rollout pid revisionID bid c bpid =
     (let compiled = buildDesiredStateRevisionCompiledRecord revisionID bid c bpid ''pull_request'' in
      andThen (on_tables now_utc) (\<lambda>t1. andThen (on_tables now_utc) (\<lambda>t2.
      andThen (on_tables (RevisionCreate \<lparr>rv_id = revisionID, rv_project_id = pid, rv_blueprint_id = bid,
          rv_binding_id = bc_binding_id c, rv_namespace = [], rv_commit_sha = bc_commit_sha c,
          rv_trigger_kind = ''pull_request'', rv_status = RevisionStatusQueued, rv_compiled = JsonDoc compiled,
          rv_manifest = JsonBraces, rv_created_at = t1, rv_updated_at = t2\<rparr>)) (\<lambda>_.
      andThen (on_tables (NewPrefixedID ''dep'')) (\<lambda>deploymentID.
      andThen (on_tables now_utc) (\<lambda>t3. andThen (on_tables now_utc) (\<lambda>t4.
      andThen (on_tables (DeploymentCreate \<lparr>de_id = deploymentID, de_project_id = pid, de_revision_id = revisionID,
          de_status = DeploymentStatusQueued, de_started_at = None, de_completed_at = None,
          de_created_at = t3, de_updated_at = t4\<rparr>)) (\<lambda>_.
      return deploymentID))))))))"

record PullRequest =
  pq_number :: int
  pq_title :: string
  pq_author :: string
  pq_commit :: string
  pq_branch :: string

definition preview_row :: "string \<Rightarrow> string \<Rightarrow> ProjectRepoLink \<Rightarrow> PullRequest \<Rightarrow> PreviewDomain list \<Rightarrow> string \<Rightarrow> string \<Rightarrow> time \<Rightarrow> time
    \<Rightarrow> PreviewEnvironment" where
  "preview_row i pid link pq ds revisionID deploymentID t5 t6 =
     \<lparr>pe_id = i, pe_project_id = pid, pe_link_id = rl_id link, pe_pr_number = pq_number pq, pe_title = pq_title pq,
      pe_author = pq_author pq, pe_commit = pq_commit pq, pe_branch = pq_branch pq, pe_status = ''provisioning'',
      pe_domains = JsonDoc ds, pe_revision_id = revisionID, pe_deployment_id = deploymentID, pe_destroy_reason = [],
      pe_destroyed_at = None, pe_created_at = t5, pe_updated_at = t6\<rparr>"

definition new_preview :: "bool \<Rightarrow> string \<Rightarrow> ProjectRepoLink \<Rightarrow> Blueprint \<Rightarrow> PullRequest \<Rightarrow> PreviewRecord vprog" where
  "new_preview hub pid link b pq =
     andThen (on_tables (NewPrefixedID ''prev'')) (\<lambda>previewID.
     andThen (on_tables (NewPrefixedID ''rev'')) (\<lambda>revisionID.
     andThen (from_res (ToBlueprintRecord (bp_compiled b))) (\<lambda>c0.
         let c = c0\<lparr>bc_commit_sha := pq_commit pq\<rparr> in
         andThen (preview_rollout pid revisionID (bp_id b) c (bp_project_id b)) (\<lambda>deploymentID.
         let ds = generatePreviewDomains (rl_owner link) (rl_name link) (pq_number pq) c in
         andThen (on_tables now_utc) (\<lambda>t5. andThen (on_tables now_utc) (\<lambda>t6.
         let row = preview_row previewID pid link pq ds revisionID deploymentID t5 t6 in
         andThen (PreviewCreate row) (\<lambda>_.
         andThen (announce hub ''preview.created'' [''preview_id'' \<mapsto> AnyStr previewID, ''project_id'' \<mapsto> AnyStr pid,
             ''pr_number'' \<mapsto> AnyInt (pq_number pq), ''commit_sha'' \<mapsto> AnyStr (pq_commit pq), ''domains'' \<mapsto> AnyList (map domain_any ds)]) (\<lambda>_.
         return (toPreviewRecord row)))))))))"

definition CreateFromPR :: "bool \<Rightarrow> string \<Rightarrow> PullRequest \<Rightarrow> PreviewRecord vprog" where
  "CreateFromPR hub pid0 pq =
     (let pid = trim_space pid0 in
      if pid = [] \<or> pq_number pq \<le> 0 then raise (Sentinel ErrInvalidInput)
      else andThen (RepoLinkGetByProjectID pid) (\<lambda>found. case found of
        None \<Rightarrow> raise (Errorf (''project '' @ go_quote pid @ '' has no repo link''))
      | Some link \<Rightarrow>
          if \<not> rl_preview_enabled link then raise (Sentinel ErrPreviewNotEnabled)
          else andThen (PreviewGetByPRNumber pid (pq_number pq)) (\<lambda>existing.
            if (case existing of None \<Rightarrow> False | Some p \<Rightarrow> pe_status p \<noteq> ''destroyed'')
            then raise (Sentinel ErrPreviewAlreadyExists)
            else andThen (BlueprintGetLatestByProject pid) (\<lambda>bp. case bp of
              None \<Rightarrow> raise (Sentinel ErrBlueprintNotFound)
            | Some b \<Rightarrow> new_preview hub pid link b pq))))"

definition DestroyPreview :: "bool \<Rightarrow> string \<Rightarrow> string \<Rightarrow> string \<Rightarrow> PreviewRecord vprog" where
  "DestroyPreview hub pid i reason =
     andThen (PreviewGetByIDForProject pid i) (\<lambda>found. case found of
       None \<Rightarrow> raise (Sentinel ErrPreviewNotFound)
     | Some p \<Rightarrow>
         if pe_status p = ''destroyed'' then raise (Sentinel ErrPreviewAlreadyDestroyed)
         else andThen (on_tables now_utc) (\<lambda>now.
           andThen (PreviewDestroy (pe_id p) reason now) (\<lambda>_.
           andThen (announce hub ''preview.destroyed'' [''preview_id'' \<mapsto> AnyStr i, ''project_id'' \<mapsto> AnyStr pid,
               ''pr_number'' \<mapsto> AnyInt (pe_pr_number p), ''destroy_reason'' \<mapsto> AnyStr reason]) (\<lambda>_.
           return (toPreviewRecord (p\<lparr>pe_status := ''destroyed'', pe_destroyed_at := Some now, pe_destroy_reason := reason,
             pe_updated_at := now\<rparr>))))))"

definition DestroyPreviewByPR :: "bool \<Rightarrow> string \<Rightarrow> int \<Rightarrow> string \<Rightarrow> PreviewRecord option vprog" where
  "DestroyPreviewByPR hub pid n reason =
     andThen (PreviewGetByPRNumber pid n) (\<lambda>found. case found of
       None \<Rightarrow> return None
     | Some p \<Rightarrow> if pe_status p = ''destroyed'' then return (Some (toPreviewRecord p))
                else andThen (DestroyPreview hub pid (pe_id p) reason) (\<lambda>r. return (Some r)))"

fun cleanup_loop :: "time \<Rightarrow> duration \<Rightarrow> PreviewEnvironment list \<Rightarrow> string list \<Rightarrow> string list vprog" where
  "cleanup_loop now maxAge [] destroyed = return destroyed"
| "cleanup_loop now maxAge (p # ps) destroyed =
     (if time_sub now (pe_created_at p) > maxAge
      then andThen (attempt (PreviewDestroy (pe_id p) ''stale_preview_auto_cleanup'' now)) (\<lambda>r.
             cleanup_loop now maxAge ps (if is_ok r then destroyed @ [pe_id p] else destroyed))
      else cleanup_loop now maxAge ps destroyed)"

definition CleanupStalePreviews :: "string \<Rightarrow> duration \<Rightarrow> string list vprog" where
  "CleanupStalePreviews pid maxAge =
     andThen (PreviewListActiveByProject pid) (\<lambda>active.
     andThen (on_tables now_utc) (\<lambda>now. cleanup_loop now maxAge active []))"

definition ListPreviews :: "string \<Rightarrow> PreviewRecord list vprog" where
  "ListPreviews pid = andThen (PreviewListByProject pid) (\<lambda>ps. return (map toPreviewRecord ps))"

definition GetPreview :: "string \<Rightarrow> string \<Rightarrow> PreviewRecord vprog" where
  "GetPreview pid i =
     andThen (PreviewGetByIDForProject pid i) (\<lambda>found. case found of
       None \<Rightarrow> raise (Sentinel ErrPreviewNotFound) | Some p \<Rightarrow> return (toPreviewRecord p))"

definition UpdatePreviewStatus :: "string \<Rightarrow> string \<Rightarrow> string \<Rightarrow> PreviewRecord vprog" where
  "UpdatePreviewStatus pid i st =
     andThen (PreviewGetByIDForProject pid i) (\<lambda>found. case found of
       None \<Rightarrow> raise (Sentinel ErrPreviewNotFound)
     | Some p \<Rightarrow> andThen (on_tables now_utc) (\<lambda>now.
         andThen (PreviewUpdateStatus i st now) (\<lambda>_.
         return (toPreviewRecord (p\<lparr>pe_status := st, pe_updated_at := now\<rparr>)))))"

section \<open>What the calls keep\<close>

definition rev_keys :: "preview_db \<Rightarrow> (string \<times> string \<times> string) set" where
  "rev_keys m = (\<lambda>r. (rv_id r, rv_project_id r, rv_trigger_kind r)) ` set (t_revisions (w_tables (pv_world m)))"

definition dep_keys :: "preview_db \<Rightarrow> (string \<times> string \<times> string) set" where
  "dep_keys m = (\<lambda>d. (de_id d, de_project_id d, de_revision_id d)) ` set (t_deployments (w_tables (pv_world m)))"

definition preview_key :: "PreviewEnvironment \<Rightarrow> string \<times> string \<times> int \<times> string \<times> string" where
  "preview_key p = (pe_id p, pe_project_id p, pe_pr_number p, pe_revision_id p, pe_deployment_id p)"

text \<open>A preview is backed by a revision for a pull request and a deployment of that revision, both of its project.\<close>

definition backed :: "preview_db \<Rightarrow> PreviewEnvironment \<Rightarrow> bool" where
  "backed m p \<longleftrightarrow> (pe_revision_id p, pe_project_id p, ''pull_request'') \<in> rev_keys m \<and>
     (pe_deployment_id p, pe_project_id p, pe_revision_id p) \<in> dep_keys m"

definition previews_ok :: "preview_db \<Rightarrow> bool" where
  "previews_ok m \<longleftrightarrow> distinct (map pe_id (pv_rows m)) \<and> (\<forall>p \<in> set (pv_rows m). backed m p)"

definition grows :: "preview_db \<Rightarrow> preview_db \<Rightarrow> bool" where
  "grows m m' \<longleftrightarrow> rev_keys m \<subseteq> rev_keys m' \<and> dep_keys m \<subseteq> dep_keys m' \<and>
     (\<exists>more. map preview_key (pv_rows m') = map preview_key (pv_rows m) @ more)"

text \<open>The invariant with some revisions and deployments that are known to be there.\<close>

definition ok_with :: "(string \<times> string \<times> string) set \<Rightarrow> (string \<times> string \<times> string) set \<Rightarrow> preview_db \<Rightarrow> bool" where
  "ok_with R D m \<longleftrightarrow> previews_ok m \<and> R \<subseteq> rev_keys m \<and> D \<subseteq> dep_keys m"

interpretation growing: guarantee I grows for I
proof
  show "grows m m" for m by (simp add: grows_def)
  show "grows u w" if uv: "grows u v" and vw: "grows v w" for u v w
  proof -
    obtain m1 m2 where "map preview_key (pv_rows v) = map preview_key (pv_rows u) @ m1"
      "map preview_key (pv_rows w) = map preview_key (pv_rows v) @ m2" using uv vw unfolding grows_def by blast
    then have "map preview_key (pv_rows w) = map preview_key (pv_rows u) @ (m1 @ m2)" by simp
    moreover have "rev_keys u \<subseteq> rev_keys w" "dep_keys u \<subseteq> dep_keys w" using uv vw unfolding grows_def by auto
    ultimately show ?thesis unfolding grows_def by blast
  qed
qed

lemma keys_faults [simp]:
  "rev_keys (m\<lparr>pv_world := (pv_world m)\<lparr>w_faults := fs\<rparr>\<rparr>) = rev_keys m"
  "dep_keys (m\<lparr>pv_world := (pv_world m)\<lparr>w_faults := fs\<rparr>\<rparr>) = dep_keys m"
  "rev_keys (m\<lparr>pv_rows := rows\<rparr>) = rev_keys m" "dep_keys (m\<lparr>pv_rows := rows\<rparr>) = dep_keys m"
  by (simp_all add: rev_keys_def dep_keys_def)

lemma ok_with_faults [simp]:
  "ok_with R D (m\<lparr>pv_world := (pv_world m)\<lparr>w_faults := fs\<rparr>\<rparr>) = ok_with R D m"
  "grows (m\<lparr>pv_world := (pv_world m)\<lparr>w_faults := fs\<rparr>\<rparr>) m' = grows m m'"
  by (simp_all add: ok_with_def previews_ok_def backed_def grows_def)

lemma preview_callD:
  assumes "preview_call f m = (r, m')"
  obtains (fault) fs where "r = Fail DbFailure" "m' = m\<lparr>pv_world := (pv_world m)\<lparr>w_faults := fs\<rparr>\<rparr>"
  | (refused) fs where "f (m\<lparr>pv_world := (pv_world m)\<lparr>w_faults := fs\<rparr>\<rparr>) = (None, m')" "r = Fail DbFailure"
  | (ok) fs x where "f (m\<lparr>pv_world := (pv_world m)\<lparr>w_faults := fs\<rparr>\<rparr>) = (Some x, m')" "r = Ok x"
  using assms
  by (cases "w_faults (pv_world m)") (auto simp: preview_call_def Let_def split: bool.splits prod.splits option.splits)

lemma within_preview_call:
  assumes "\<And>m x m'. ok_with R D m \<Longrightarrow> f m = (x, m') \<Longrightarrow> ok_with R D m' \<and> grows m m'"
  shows "within (ok_with R D) grows (preview_call f)"
  unfolding within_def
proof (intro allI impI)
  fix m assume m: "ok_with R D m"
  obtain r m' where c: "preview_call f m = (r, m')" by (cases "preview_call f m")
  then have "ok_with R D m' \<and> grows m m'"
  proof (cases rule: preview_callD)
    case (fault fs)
    then show ?thesis using m growing.refl [of m] by (simp add: grows_def)
  next
    case (refused fs)
    from assms [OF _ refused(1)] m show ?thesis by simp
  next
    case (ok fs x)
    from assms [OF _ ok(1)] m show ?thesis by simp
  qed
  with c show "ok_with R D (snd (preview_call f m)) \<and> grows m (snd (preview_call f m))" by simp
qed

lemma keeps_read: "within (ok_with R D) grows (preview_read f)"
  unfolding preview_read_def by (rule within_preview_call) (auto simp: growing.refl)

lemma keeps_reads:
  "within (ok_with R D) grows (RepoLinkGetByProjectID pid)" "within (ok_with R D) grows (BlueprintGetLatestByProject pid)"
  "within (ok_with R D) grows (PreviewGetByIDForProject pid i)" "within (ok_with R D) grows (PreviewGetByPRNumber pid n)"
  "within (ok_with R D) grows (PreviewListByProject pid)" "within (ok_with R D) grows (PreviewListActiveByProject pid)"
  unfolding RepoLinkGetByProjectID_def BlueprintGetLatestByProject_def PreviewGetByIDForProject_def PreviewGetByPRNumber_def
    PreviewListByProject_def PreviewListActiveByProject_def
  by (rule keeps_read)+

lemma keeps_preview_update:
  assumes "\<And>p. preview_key (g p) = preview_key p"
  shows "within (ok_with R D) grows (preview_call (\<lambda>m. (Some (), m\<lparr>pv_rows := update_where P g (pv_rows m)\<rparr>)))"
proof (rule within_preview_call)
  fix m m' and x :: "unit option"
  assume m: "ok_with R D m" and "(Some (), m\<lparr>pv_rows := update_where P g (pv_rows m)\<rparr>) = (x, m')"
  then have m': "m' = m\<lparr>pv_rows := update_where P g (pv_rows m)\<rparr>" by simp
  have same: "backed n (g p) = backed n p" "pe_id (g p) = pe_id p" for p n
    using assms [of p] by (simp_all add: preview_key_def backed_def)
  have key: "map preview_key (update_where P g rows) = map preview_key rows"
    "map pe_id (update_where P g rows) = map pe_id rows" for rows
    by (simp_all add: update_where_def assms same)
  have "backed m' p" if p: "p \<in> set (pv_rows m')" for p
  proof -
    obtain q where "q \<in> set (pv_rows m)" "p = q \<or> p = g q"
      using p by (auto simp: m' update_where_def split: if_splits)
    moreover have "backed m' q = backed m q" for q by (simp add: m' backed_def)
    ultimately show ?thesis using m same(1) by (auto simp: ok_with_def previews_ok_def)
  qed
  moreover have "distinct (map pe_id (pv_rows m'))" using m by (simp add: m' key ok_with_def previews_ok_def)
  ultimately show "ok_with R D m' \<and> grows m m'"
    using m by (simp add: ok_with_def previews_ok_def grows_def key m')
qed

lemma keeps_writes:
  "within (ok_with R D) grows (PreviewUpdateStatus i st now)" "within (ok_with R D) grows (PreviewDestroy i reason now)"
  unfolding PreviewUpdateStatus_def PreviewDestroy_def by (rule keeps_preview_update, simp add: preview_key_def)+

lemma keeps_preview_create:
  assumes "(pe_revision_id p, pe_project_id p, ''pull_request'') \<in> R" "(pe_deployment_id p, pe_project_id p, pe_revision_id p) \<in> D"
  shows "within (ok_with R D) grows (PreviewCreate p)"
  unfolding PreviewCreate_def
proof (rule within_preview_call)
  fix m m' and x :: "unit option"
  assume m: "ok_with R D m"
    and "(if \<exists>r \<in> set (pv_rows m). pe_id r = pe_id p then (None, m) else (Some (), m\<lparr>pv_rows := pv_rows m @ [p]\<rparr>)) = (x, m')"
  then consider "m' = m" | "m' = m\<lparr>pv_rows := pv_rows m @ [p]\<rparr>" "\<forall>r \<in> set (pv_rows m). pe_id r \<noteq> pe_id p"
    by (auto split: if_splits)
  then show "ok_with R D m' \<and> grows m m'"
  proof cases
    case 1
    with m show ?thesis by (simp add: growing.refl)
  next
    case 2
    have "backed m p" using m assms by (auto simp: ok_with_def backed_def)
    moreover have "pe_id p \<notin> pe_id ` set (pv_rows m)" using 2(2) by auto
    ultimately show ?thesis using m by (simp add: 2(1) ok_with_def previews_ok_def grows_def backed_def)
  qed
qed

lemma keeps_on_tables:
  assumes "\<And>w. set (t_revisions (w_tables w)) \<subseteq> set (t_revisions (w_tables (snd (p w)))) \<and>
    set (t_deployments (w_tables w)) \<subseteq> set (t_deployments (w_tables (snd (p w))))"
  shows "within (ok_with R D) grows (on_tables p)"
  unfolding within_def
proof (intro allI impI)
  fix m assume m: "ok_with R D m"
  let ?m = "snd (on_tables p m)"
  have "rev_keys m \<subseteq> rev_keys ?m" "dep_keys m \<subseteq> dep_keys ?m"
    using assms [of "pv_world m"] by (auto simp: rev_keys_def dep_keys_def on_tables_def split: prod.split)
  moreover have "pv_rows ?m = pv_rows m" by (simp add: on_tables_def split: prod.split)
  ultimately show "ok_with R D ?m \<and> grows m ?m"
    using m by (auto simp: ok_with_def previews_ok_def backed_def grows_def)
qed

lemma keeps_tables:
  "within (ok_with R D) grows (on_tables now_utc)" "within (ok_with R D) grows (on_tables (NewPrefixedID s))"
  "within (ok_with R D) grows (on_tables (RevisionCreate r))" "within (ok_with R D) grows (on_tables (DeploymentCreate d))"
  "within (ok_with R D) grows (on_tables (BroadcastEvent ty pl))"
  by (rule keeps_on_tables; auto simp: now_utc_def NewPrefixedID_def RevisionCreate_def DeploymentCreate_def db_write_def db_call_def
      BroadcastEvent_def split: list.split bool.split)+

lemma keeps_announce: "within (ok_with R D) grows (announce hub ty pl)"
  unfolding announce_def by (intro growing.within_rules keeps_tables)

section \<open>Every preview stays backed\<close>

lemma rollout_backs:
  assumes "preview_rollout pid rid bid c bpid m = (Ok did, m')"
  shows "(rid, pid, ''pull_request'') \<in> rev_keys m' \<and> (did, pid, rid) \<in> dep_keys m'"
proof -
  have tables: "on_tables p m = (r, m') \<Longrightarrow> \<exists>w. p (pv_world m) = (r, w) \<and> m' = m\<lparr>pv_world := w\<rparr>" for p :: "'a wprog" and m r m'
    by (auto simp: on_tables_def split: prod.splits)
  have created: "db_write f w = (Ok x, w') \<Longrightarrow> w_tables w' = f (w_tables w)" for f w x w'
    by (auto simp: db_write_def db_call_def split: list.splits bool.splits)
  show ?thesis
    using assms unfolding preview_rollout_def Let_def
    by (auto elim!: andThen_cases dest!: tables created simp: now_utc_def NewPrefixedID_def RevisionCreate_def DeploymentCreate_def
        rev_keys_def dep_keys_def)
qed

lemma keeps_rollout: "within (ok_with R D) grows (preview_rollout pid rid bid c bpid)"
  unfolding preview_rollout_def Let_def by (intro growing.within_andThen growing.within_return keeps_tables)

lemma keeps_new_preview: "within (ok_with {} {}) grows (new_preview hub pid link b pq)"
proof -
  have stored: "within (ok_with {(rid, pid, ''pull_request'')} {(did, pid, rid)}) grows
      (andThen (PreviewCreate (preview_row i pid link pq ds rid did t5 t6)) (\<lambda>_. andThen (announce hub ty pl) (\<lambda>_. return x)))"
    for i rid did ds t5 t6 ty pl and x :: PreviewRecord
    by (intro growing.within_andThen growing.within_return keeps_preview_create keeps_announce) (simp_all add: preview_row_def)
  have rest: "within (\<lambda>w. ok_with {} {} w \<and> (rid, pid, ''pull_request'') \<in> rev_keys w \<and> (did, pid, rid) \<in> dep_keys w) grows
      (andThen (on_tables now_utc) (\<lambda>t5. andThen (on_tables now_utc) (\<lambda>t6.
       andThen (PreviewCreate (preview_row i pid link pq ds rid did t5 t6)) (\<lambda>_.
       andThen (announce hub ty pl) (\<lambda>_. return (toPreviewRecord (preview_row i pid link pq ds rid did t5 t6)))))))"
    for i rid did ds ty pl
    by (rule growing.within_weaken [of "ok_with {(rid, pid, ''pull_request'')} {(did, pid, rid)}"],
        intro growing.within_andThen [OF keeps_tables(1)] stored) (auto simp: ok_with_def)
  show ?thesis
    unfolding new_preview_def Let_def
    by (intro growing.within_andThen [OF keeps_tables(2)] growing.within_andThen [OF growing.within_from_res]
        growing.within_andThen_learn [OF keeps_rollout rollout_backs rest])
qed

lemma keeps_service:
  "within (ok_with {} {}) grows (CreateFromPR hub pid pq)"
  "within (ok_with {} {}) grows (DestroyPreview hub pid i reason)"
  "within (ok_with {} {}) grows (DestroyPreviewByPR hub pid n reason)"
  "within (ok_with {} {}) grows (CleanupStalePreviews pid maxAge)"
  "within (ok_with {} {}) grows (UpdatePreviewStatus pid i st)"
proof -
  show "within (ok_with {} {}) grows (CreateFromPR hub pid pq)"
    unfolding CreateFromPR_def Let_def
    by (intro growing.within_rules keeps_reads keeps_new_preview)
  show destroy: "within (ok_with {} {}) grows (DestroyPreview hub pid i reason)" for i
    unfolding DestroyPreview_def by (intro growing.within_rules keeps_reads keeps_tables keeps_writes keeps_announce)
  show "within (ok_with {} {}) grows (DestroyPreviewByPR hub pid n reason)"
    unfolding DestroyPreviewByPR_def by (intro growing.within_rules keeps_reads destroy)
  have "within (ok_with {} {}) grows (cleanup_loop now maxAge ps destroyed)" for now ps destroyed
    by (induction ps arbitrary: destroyed) (auto intro!: growing.within_rules keeps_writes)
  then show "within (ok_with {} {}) grows (CleanupStalePreviews pid maxAge)"
    unfolding CleanupStalePreviews_def by (intro growing.within_andThen keeps_reads keeps_tables)
  show "within (ok_with {} {}) grows (UpdatePreviewStatus pid i st)"
    unfolding UpdatePreviewStatus_def by (intro growing.within_rules keeps_reads keeps_tables keeps_writes)
qed

text \<open>
  An operation of the service, or a change made elsewhere that keeps the identities of the revisions and deployments
  there are (the services only add rows and move their statuses).
\<close>

datatype preview_op =
    OpCreate bool string PullRequest
  | OpDestroy bool string string string
  | OpDestroyPR bool string int string
  | OpCleanup string duration
  | OpUpdate string string string
  | OpOutside world "ProjectRepoLink list" "string \<Rightarrow> time"

fun preview_step :: "preview_op \<Rightarrow> preview_db \<Rightarrow> preview_db" where
  "preview_step (OpCreate hub pid pq) m = snd (CreateFromPR hub pid pq m)"
| "preview_step (OpDestroy hub pid i reason) m = snd (DestroyPreview hub pid i reason m)"
| "preview_step (OpDestroyPR hub pid n reason) m = snd (DestroyPreviewByPR hub pid n reason m)"
| "preview_step (OpCleanup pid maxAge) m = snd (CleanupStalePreviews pid maxAge m)"
| "preview_step (OpUpdate pid i st) m = snd (UpdatePreviewStatus pid i st m)"
| "preview_step (OpOutside w links at) m = m\<lparr>pv_world := w, pv_links := links, pv_blueprint_at := at\<rparr>"

fun preview_may :: "preview_db \<Rightarrow> preview_op \<Rightarrow> bool" where
  "preview_may m (OpOutside w links at) \<longleftrightarrow>
     rev_keys m \<subseteq> rev_keys (m\<lparr>pv_world := w\<rparr>) \<and> dep_keys m \<subseteq> dep_keys (m\<lparr>pv_world := w\<rparr>)"
| "preview_may m _ \<longleftrightarrow> True"

lemma keeps_previews:
  "within (ok_with {} {}) grows p \<Longrightarrow> previews_ok m \<Longrightarrow> previews_ok (snd (p m)) \<and> grows m (snd (p m))"
  unfolding within_def by (simp add: ok_with_def)

lemma preview_step_ok:
  assumes "previews_ok m" and "preview_may m e"
  shows "previews_ok (preview_step e m) \<and> grows m (preview_step e m)"
proof (cases e)
  case (OpOutside w links at)
  let ?m = "m\<lparr>pv_world := w, pv_links := links, pv_blueprint_at := at\<rparr>"
  have "rev_keys ?m = rev_keys (m\<lparr>pv_world := w\<rparr>)" "dep_keys ?m = dep_keys (m\<lparr>pv_world := w\<rparr>)"
    by (simp_all add: rev_keys_def dep_keys_def)
  with assms show ?thesis by (auto simp: OpOutside previews_ok_def backed_def grows_def)
qed (use assms(1) in \<open>simp_all add: keeps_previews [OF keeps_service(1)] keeps_previews [OF keeps_service(2)]
  keeps_previews [OF keeps_service(3)] keeps_previews [OF keeps_service(4)] keeps_previews [OF keeps_service(5)]\<close>)

interpretation previews: machine preview_step preview_may previews_ok
  by unfold_locales (simp add: preview_step_ok)

lemma no_previews_ok: "pv_rows m = [] \<Longrightarrow> previews_ok m"
  by (simp add: previews_ok_def)

section \<open>A creation that goes through\<close>

lemma no_faults_same: "w_faults (pv_world m) = [] \<Longrightarrow> m\<lparr>pv_world := (pv_world m)\<lparr>w_faults := []\<rparr>\<rparr> = m"
  by (cases m; cases "pv_world m") simp

lemma preview_read_run:
  "w_faults (pv_world m) = [] \<Longrightarrow> preview_read f m = (Ok (f m), m)"
  by (simp add: preview_read_def preview_call_def Let_def no_faults_same)

lemma preview_create_run:
  "w_faults (pv_world m) = [] \<Longrightarrow> \<forall>r \<in> set (pv_rows m). pe_id r \<noteq> pe_id p \<Longrightarrow>
   PreviewCreate p m = (Ok (), m\<lparr>pv_rows := pv_rows m @ [p]\<rparr>)"
  by (auto simp: PreviewCreate_def preview_call_def Let_def)

definition same_rows :: "preview_db \<Rightarrow> preview_db \<Rightarrow> bool" where
  "same_rows m m' \<longleftrightarrow> pv_rows m' = pv_rows m \<and> w_faults (pv_world m') = w_faults (pv_world m)"

lemma tables_run:
  assumes "w_faults (pv_world m) = []"
  shows "\<exists>t m'. on_tables now_utc m = (Ok t, m') \<and> same_rows m m'"
    "\<exists>m'. on_tables (NewPrefixedID s) m = (Ok (s @ ''_'' @ w_fresh (pv_world m) (w_next_id (pv_world m))), m') \<and> same_rows m m'"
    "\<exists>m'. on_tables (RevisionCreate r) m = (Ok (), m') \<and> same_rows m m'"
    "\<exists>m'. on_tables (DeploymentCreate d) m = (Ok (), m') \<and> same_rows m m'"
    "\<exists>m'. announce hub ty pl m = (Ok (), m') \<and> same_rows m m'"
  using assms
  by (auto simp: on_tables_def now_utc_def NewPrefixedID_def RevisionCreate_def DeploymentCreate_def db_write_def db_call_def
      announce_def ignoring_def BroadcastEvent_def same_rows_def)

lemma rollout_run:
  assumes "w_faults (pv_world m) = []"
  shows "\<exists>did m'. preview_rollout pid rid bid c bpid m = (Ok did, m') \<and> same_rows m m'"
proof -
  have step: "\<exists>y m'. andThen p f m = (Ok y, m') \<and> same_rows m m'"
    if "\<exists>x m1. p m = (Ok x, m1) \<and> same_rows m m1" "\<And>x m1. w_faults (pv_world m1) = [] \<Longrightarrow> \<exists>y m'. f x m1 = (Ok y, m') \<and> same_rows m1 m'"
      "w_faults (pv_world m) = []" for p :: "'a vprog" and f :: "'a \<Rightarrow> string vprog" and m
  proof -
    from that(1) obtain x m1 where 1: "p m = (Ok x, m1)" "same_rows m m1" by blast
    then have "w_faults (pv_world m1) = []" using that(3) by (simp add: same_rows_def)
    from that(2) [OF this] obtain y m' where "f x m1 = (Ok y, m')" "same_rows m1 m'" by blast
    with 1 show ?thesis by (auto simp: andThen_def same_rows_def)
  qed
  have unit: "\<exists>x m1. p m = (Ok x, m1) \<and> same_rows m m1" if "\<exists>m1. p m = (Ok y, m1) \<and> same_rows m m1"
    for p :: "'a vprog" and y m using that by blast
  show ?thesis
    using assms unfolding preview_rollout_def Let_def
    by (intro step tables_run(1) unit [OF tables_run(2)] unit [OF tables_run(3)] unit [OF tables_run(4)])
      (simp_all add: same_rows_def)
qed

lemma new_preview_run:
  assumes "w_faults (pv_world m) = []" and "ToBlueprintRecord (bp_compiled b) = Ok c"
    and fresh: "\<forall>r \<in> set (pv_rows m). pe_id r \<noteq> ''prev_'' @ w_fresh (pv_world m) (w_next_id (pv_world m))"
  shows "\<exists>rec m'. new_preview hub pid link b pq m = (Ok rec, m') \<and> pv_rows m' = pv_rows m @ [vr_row rec] \<and>
    pe_project_id (vr_row rec) = pid \<and> pe_pr_number (vr_row rec) = pq_number pq \<and> pe_status (vr_row rec) = ''provisioning''"
proof -
  let ?i = "''prev'' @ ''_'' @ w_fresh (pv_world m) (w_next_id (pv_world m))"
  let ?c = "c\<lparr>bc_commit_sha := pq_commit pq\<rparr>"
  obtain m1 where 1: "on_tables (NewPrefixedID ''prev'') m = (Ok ?i, m1)" "same_rows m m1"
    using tables_run(2) [OF assms(1)] by blast
  with assms(1) have f1: "w_faults (pv_world m1) = []" by (simp add: same_rows_def)
  obtain rid m2 where 2: "on_tables (NewPrefixedID ''rev'') m1 = (Ok rid, m2)" "same_rows m1 m2"
    using tables_run(2) [OF f1] by blast
  with f1 have f2: "w_faults (pv_world m2) = []" by (simp add: same_rows_def)
  obtain did m3 where 3: "preview_rollout pid rid (bp_id b) ?c (bp_project_id b) m2 = (Ok did, m3)" "same_rows m2 m3"
    using rollout_run [OF f2] by blast
  with f2 have f3: "w_faults (pv_world m3) = []" by (simp add: same_rows_def)
  obtain t5 m4 where 4: "on_tables now_utc m3 = (Ok t5, m4)" "same_rows m3 m4" using tables_run(1) [OF f3] by blast
  with f3 have f4: "w_faults (pv_world m4) = []" by (simp add: same_rows_def)
  obtain t6 m5 where 5: "on_tables now_utc m4 = (Ok t6, m5)" "same_rows m4 m5" using tables_run(1) [OF f4] by blast
  with f4 have f5: "w_faults (pv_world m5) = []" by (simp add: same_rows_def)
  let ?ds = "generatePreviewDomains (rl_owner link) (rl_name link) (pq_number pq) ?c"
  let ?row = "preview_row ?i pid link pq ?ds rid did t5 t6"
  have rows: "pv_rows m5 = pv_rows m" using 1 2 3 4 5 by (simp add: same_rows_def)
  then have 6: "PreviewCreate ?row m5 = (Ok (), m5\<lparr>pv_rows := pv_rows m @ [?row]\<rparr>)"
    using fresh preview_create_run [OF f5, of ?row] by (simp add: preview_row_def)
  let ?p = "[''preview_id'' \<mapsto> AnyStr ?i, ''project_id'' \<mapsto> AnyStr pid, ''pr_number'' \<mapsto> AnyInt (pq_number pq),
    ''commit_sha'' \<mapsto> AnyStr (pq_commit pq), ''domains'' \<mapsto> AnyList (map domain_any ?ds)] :: payload"
  have "w_faults (pv_world (m5\<lparr>pv_rows := pv_rows m @ [?row]\<rparr>)) = []" using f5 by simp
  from tables_run(5) [OF this, of hub "''preview.created''" ?p]
  obtain m6 where 7: "announce hub ''preview.created'' ?p (m5\<lparr>pv_rows := pv_rows m @ [?row]\<rparr>) = (Ok (), m6)"
    "pv_rows m6 = pv_rows m @ [?row]" by (auto simp: same_rows_def)
  have "new_preview hub pid link b pq m = (Ok (toPreviewRecord ?row), m6)"
    using 1(1) 2(1) 3(1) 4(1) 5(1) 6 7(1) by (simp add: new_preview_def assms(2) Let_def andThen_def from_res_def)
  then show ?thesis using 7(2) by (auto simp: toPreviewRecord_def preview_row_def)
qed

section \<open>Properties\<close>

text \<open>
  Property C27: whatever operations run, requests to the database fail and other services do, every preview
  keeps its project, pull request, revision and deployment, and these exist: the revision is one for a pull request of
  the project, and the deployment is of that revision. Previews are never removed and their ids are distinct.
\<close>

theorem previews_stay_backed:
  assumes "pv_rows m = []" and "calls_ok preview_may preview_step ops m" and "m' = run preview_step ops m"
    and "calls_ok preview_may preview_step ops2 m'"
  shows "distinct (map pe_id (pv_rows m')) \<and> (\<forall>p \<in> set (pv_rows m'). backed m' p) \<and>
    (\<exists>new. map preview_key (pv_rows (run preview_step ops2 m')) = map preview_key (pv_rows m') @ new)"
proof -
  have ok: "previews_ok m'" using previews.invar_run [OF no_previews_ok [OF assms(1)] assms(2)] assms(3) by simp
  have "grows m' (run preview_step ops2 m')"
    by (rule previews.invar_run_rel [OF ok assms(4), of grows])
      (auto intro: growing.trans growing.refl simp: preview_step_ok)
  with ok show ?thesis by (simp add: previews_ok_def grows_def)
qed

text \<open>
  Property C40: a destroyed preview can hide the live ones of its pull request. If the preview with the least key is
  destroyed, another preview is created beside whichever are live, and destroying by pull request changes nothing.
\<close>

theorem destroyed_preview_hides_live_ones:
  assumes "w_faults (pv_world m) = []" and "trim_space pid = pid" "pid \<noteq> []" "0 < pq_number pq"
    and "List.find (\<lambda>l. rl_project_id l = pid) (pv_links m) = Some link" "rl_preview_enabled link"
    and "first_of_pr pid (pq_number pq) (pv_rows m) = Some p" "pe_status p = ''destroyed''"
    and "BlueprintGetLatestByProject pid m = (Ok (Some b), m)" "ToBlueprintRecord (bp_compiled b) = Ok c"
    and "\<forall>r \<in> set (pv_rows m). pe_id r \<noteq> ''prev_'' @ w_fresh (pv_world m) (w_next_id (pv_world m))"
  shows "(\<exists>rec m'. CreateFromPR hub pid pq m = (Ok rec, m') \<and> pv_rows m' = pv_rows m @ [vr_row rec] \<and>
      pe_project_id (vr_row rec) = pid \<and> pe_pr_number (vr_row rec) = pq_number pq \<and> pe_status (vr_row rec) = ''provisioning'') \<and>
    DestroyPreviewByPR hub pid (pq_number pq) reason m = (Ok (Some (toPreviewRecord p)), m)"
proof
  have get: "PreviewGetByPRNumber pid (pq_number pq) m = (Ok (Some p), m)"
    using assms(1,7) by (simp add: PreviewGetByPRNumber_def preview_read_run)
  then show "DestroyPreviewByPR hub pid (pq_number pq) reason m = (Ok (Some (toPreviewRecord p)), m)"
    using assms(8) by (simp add: DestroyPreviewByPR_def andThen_def)
  have "CreateFromPR hub pid pq m = new_preview hub pid link b pq m"
    using assms(1-6,8,9) get by (simp add: CreateFromPR_def RepoLinkGetByProjectID_def preview_read_run andThen_def)
  then show "\<exists>rec m'. CreateFromPR hub pid pq m = (Ok rec, m') \<and> pv_rows m' = pv_rows m @ [vr_row rec] \<and>
      pe_project_id (vr_row rec) = pid \<and> pe_pr_number (vr_row rec) = pq_number pq \<and> pe_status (vr_row rec) = ''provisioning''"
    using new_preview_run [OF assms(1,10,11)] by simp
qed

section \<open>An example\<close>

definition demo_pr :: PullRequest where
  "demo_pr = \<lparr>pq_number = 7, pq_title = ''t'', pq_author = ''a'', pq_commit = ''c7'', pq_branch = ''f''\<rparr>"

definition demo_previews :: preview_db where
  "demo_previews = \<lparr>pv_world = demo_world ''promoted'' ''promoted'' [], pv_rows = [],
     pv_links = [\<lparr>rl_id = ''l'', rl_project_id = ''p'', rl_owner = ''acme'', rl_name = ''shop'', rl_preview_enabled = True\<rparr>],
     pv_blueprint_at = (\<lambda>_. 1)\<rparr>"

definition demo_reopened :: preview_db where
  "demo_reopened = run preview_step [OpCreate True ''p'' demo_pr, OpDestroyPR True ''p'' 7 ''closed'', OpCreate True ''p'' demo_pr] demo_previews"

lemma demo_reopened_rows:
  "map (\<lambda>p. (pe_id p, pe_project_id p, pe_pr_number p, pe_status p)) (pv_rows demo_reopened) =
     [(''prev_0'', ''p'', 7, ''destroyed''), (''prev_3'', ''p'', 7, ''provisioning'')]"
  by code_simp

theorem previews_stay_backed_witness:
  "\<exists>p q. pv_rows demo_reopened = [p, q] \<and> backed demo_reopened p \<and> backed demo_reopened q"
proof -
  obtain p q where rows: "pv_rows demo_reopened = [p, q]" using demo_reopened_rows by (auto simp: map_eq_Cons_conv)
  have "pv_rows demo_previews = []" by (simp add: demo_previews_def)
  moreover have "calls_ok preview_may preview_step
      [OpCreate True ''p'' demo_pr, OpDestroyPR True ''p'' 7 ''closed'', OpCreate True ''p'' demo_pr] demo_previews" by simp
  ultimately show ?thesis
    using previews_stay_backed [of demo_previews _ demo_reopened "[]", OF _ _ demo_reopened_def] rows by simp
qed

definition demo_hidden :: preview_db where
  "demo_hidden = demo_previews\<lparr>pv_rows := pv_rows demo_reopened,
     pv_world := (demo_world ''promoted'' ''promoted'' [])\<lparr>w_next_id := 6\<rparr>\<rparr>"

lemma demo_hidden_rows:
  "\<exists>p q. pv_rows demo_reopened = [p, q] \<and> first_of_pr ''p'' 7 [p, q] = Some p \<and> map pe_id [p, q] = [''prev_0'', ''prev_3''] \<and>
     map pe_status [p, q] = [''destroyed'', ''provisioning'']"
proof -
  have le: "''prev_0'' \<le> ''prev_3''" by code_simp
  obtain p q where pq: "pv_rows demo_reopened = [p, q]" "pe_id p = ''prev_0''" "pe_id q = ''prev_3''"
    "pe_project_id p = ''p''" "pe_project_id q = ''p''" "pe_pr_number p = 7" "pe_pr_number q = 7"
    "pe_status p = ''destroyed''" "pe_status q = ''provisioning''"
    using demo_reopened_rows by (auto simp: map_eq_Cons_conv)
  then have "first_of_pr ''p'' 7 [p, q] = Some p" using le by (simp add: first_of_pr_def)
  with pq show ?thesis by simp
qed

text \<open>After closing and reopening, a third preview is created while the second is live, and closing reaches neither.\<close>

theorem destroyed_preview_hides_live_ones_witness:
  "\<exists>rec m'. CreateFromPR True ''p'' demo_pr demo_hidden = (Ok rec, m') \<and> map pe_status (pv_rows m') = [''destroyed'', ''provisioning'', ''provisioning''] \<and>
     snd (DestroyPreviewByPR True ''p'' 7 ''closed'' demo_hidden) = demo_hidden"
proof -
  have faults: "w_faults (pv_world demo_hidden) = []" by (simp add: demo_hidden_def demo_world_def)
  obtain p q where rows: "pv_rows demo_hidden = [p, q]" "map pe_id [p, q] = [''prev_0'', ''prev_3'']"
      "map pe_status [p, q] = [''destroyed'', ''provisioning'']"
    and p: "first_of_pr ''p'' (pq_number demo_pr) (pv_rows demo_hidden) = Some p"
    using demo_hidden_rows by (auto simp: demo_pr_def demo_hidden_def)
  obtain l where l: "List.find (\<lambda>l. rl_project_id l = ''p'') (pv_links demo_hidden) = Some l" "rl_preview_enabled l"
    by (simp add: demo_hidden_def demo_previews_def)
  obtain b c where b: "BlueprintGetLatestByProject ''p'' demo_hidden = (Ok (Some b), demo_hidden)" "ToBlueprintRecord (bp_compiled b) = Ok c"
    by (simp add: BlueprintGetLatestByProject_def preview_read_run [OF faults]) (simp add: demo_hidden_def demo_world_def demo_tables_def ToBlueprintRecord_def)
  have "itoa 6 = ''6''" by code_simp
  then have fresh: "\<forall>r \<in> set (pv_rows demo_hidden). pe_id r \<noteq> ''prev_'' @ w_fresh (pv_world demo_hidden) (w_next_id (pv_world demo_hidden))"
    using rows(2) unfolding rows(1) by (simp add: demo_hidden_def demo_world_def)
  have "trim_space ''p'' = ''p''" "''p'' \<noteq> []" "0 < pq_number demo_pr" by (simp_all add: demo_pr_def)
  note both = destroyed_preview_hides_live_ones [OF faults this l p _ b fresh, of True "''closed''"]
  have gone: "pe_status p = ''destroyed''" using rows(3) by simp
  obtain rec m' where "CreateFromPR True ''p'' demo_pr demo_hidden = (Ok rec, m')"
    "pv_rows m' = pv_rows demo_hidden @ [vr_row rec]" "pe_status (vr_row rec) = ''provisioning''" using both [OF gone] by blast
  moreover have "map pe_status (pv_rows demo_hidden) = [''destroyed'', ''provisioning'']" using rows(1,3) by simp
  moreover have "snd (DestroyPreviewByPR True ''p'' 7 ''closed'' demo_hidden) = demo_hidden"
    using both [OF gone] by (simp add: demo_pr_def)
  ultimately show ?thesis by simp
qed

end
