(* ===== verification/Spec2Isabelle.thy ===== *)
theory Spec2Isabelle
  imports RolloutSafety ScaleToZero DnsServer LogCollector Credentials RoutingService Contract Dispatcher Mesh ProjectDomains Incidents
    Previews
begin

text \<open>
  A model of LazyOps, a platform that deploys applications to machines of its users. A CLI writes the
  deploy contract of a repository; a control plane (\<open>backend\<close>, Go) keeps projects, revisions and
  deployments in a database and sends commands to agents; an agent (\<open>agent\<close>, Go) on every machine
  executes them and reports back. Every definition is translated from the Go source; paths below are relative to \<open>src\<close>.

  \<^bold>\<open>From contract to traffic.\<close> The parts meet in this order.
  \<^item> The CLI scans a repository, selects a project, a target and a binding, and writes \<open>lazyops.yaml\<close>
    (InitPlan, LazyYaml, LazyYamlText, Contract).
  \<^item> A user's request is authenticated (AuthService on Identity); machines are created, enrolled with a
    bootstrap token and send heartbeats (Enrollment, Credentials).
  \<^item> The deployment service makes a revision and a deployment from a blueprint and moves them along two
    state machines (RevisionContract, Store, Deployment).
  \<^item> The rollout planner turns a revision into a plan of the runtime driver (Drivers, RolloutPlanner);
    the rollout execution service sends the plan command by command, waits for each and reacts
    (RolloutExecution on CommandTracker and Commands; RolloutProgress, RolloutSafety).
  \<^item> The agent's dispatcher accepts commands and answers them; its answers go back to the tracker
    (Dispatcher on CommandTracker).
  \<^item> On the agent, services are put to sleep and woken (Autosleep, GatewayHold, ScaleToZero), found by
    name (NetAddr, DnsWire, DnsServer), and their logs and incidents collected (LogCollector, Incidents).
  \<^item> The control plane routes public paths to services (Routing, RoutingService), plans the private
    paths between machines, opens tunnels to them (Mesh), and gives projects host names with DNS
    records (ProjectDomains). Pull requests get deployments of their own (Previews).

  \<^bold>\<open>Foundation.\<close> Prelude has Go's strings, durations, errors and results, and the locales
  \<open>machine\<close> (a component with an invariant), \<open>refinement\<close> (a machine that implements an abstract one)
  and \<open>normaliser\<close>. Prog has programs over a state that may fail, Go's error propagation, and the locale
  \<open>guarantee\<close> (a relation every step of a program keeps, on its error paths too). Every locale is
  interpreted on the models of the components. Durations, GoFmt and GoText have functions of the Go library:
  \<open>time.ParseDuration\<close>, the verb \<open>%q\<close>, \<open>path.Clean\<close>, \<open>net.SplitHostPort\<close>, \<open>bufio.Scanner\<close> and a regular
  expression for IPv4 addresses.

  \<^bold>\<open>Conventions.\<close>
  \<^item> A Go function with an error result is a value of \<open>res\<close> (\<open>Inl\<close> the error) or a program of type \<open>prog\<close>.
    \<open>go_err\<close> keeps what the code can observe of an error, the sentinels it wraps, and a text. A text
    that wraps another error is rendered as message, colon, cause.
  \<^item> Table rows and structs are records with the columns the code uses, enums of strings are strings, as
    in Go. The database is a list of rows per table. A list of fault flags in the state makes any call fail
    before it has an effect; the clock and fresh identifiers are functions in the state. Theorems hold for every choice of these.
  \<^item> Concurrency: methods that hold a mutex are atomic steps; theorems quantify over every sequence of
    steps. \<open>WaitForResult\<close> is an inductive relation over the calls that come while it waits, before and
    between its lock sections. The sweep of sleeping services is a step, and its lock sections are steps of
    their own too, so that other calls can come between them. What happens between two statements of different requests is not modelled, save where a theorem says so.
  \<^item> Go's \<open>int\<close> is \<open>int\<close>: no modelled arithmetic comes near \<open>2 ^ 63\<close>, except on durations, where the saturation
    of \<open>time.Sub\<close> and the overflow checks of \<open>ParseDuration\<close> are written out. Bytes and DNS
    fields are \<open>8 word\<close>, \<open>16 word\<close> and \<open>32 word\<close>.
  \<^item> The iteration order of Go maps is a parameter where it can matter (\<open>range_order\<close>).
  \<^item> No loop needs fuel. Most recurse on lists; those of \<open>parseQuestionName\<close>, \<open>ParseDuration\<close> and
    the IPv6 parser have a measure, and the search for a free path ends because fewer of the keys seen are
    longer than the path in each round. The line reader gives up after \<open>bufio.MaxScanTokenSize\<close> bytes
    without a newline, as in Go.
  \<^item> Parameters: hashes, JWT, bcrypt and mail address parsing; the manifest generator, the domain resolver and the
    repository scan; the inventory compiler, of which only is assumed that it inserts nothing but its blueprint;
    the agent's answers, handlers and the writer that sends messages;
    the answers of the DNS provider, and those of the control plane to the CLI.

  \<^bold>\<open>Theories and sources.\<close>
  \<^item> Commands, Drivers: \<open>backend/internal/runtime\<close>. The plans of the three drivers are executable by
    their own driver and end in health gate and promotion.
  \<^item> CommandTracker: \<open>command_tracker.go\<close>, \<open>control_service.go\<close>, the agent message handlers of
    \<open>agent_control_controller.go\<close>. Channels are never closed twice; what a waiter gets, timeout included.
  \<^item> Dispatcher: \<open>agent/internal/dispatcher\<close>. A dispatch equals the loop that writes a script of
    messages up to the first error, and the tracker settles on the handler's outcome when it receives them all.
  \<^item> Store, RevisionContract, Deployment: \<open>deployment_service.go\<close>, models and repositories. Over
    the service's own transitions, actions and reads, and any database failures, statuses only move along the
    machines. What creation appends, whatever blueprint the inventory compiler made.
  \<^item> RolloutPlanner, RolloutExecution, RolloutProgress, RolloutSafety: \<open>rollout_planner.go\<close>,
    \<open>rollout_execution_service.go\<close>. No promotion without the health gate, success means
    promotion, rollouts without failures run to their end, and what a rollback writes (past the state machines).
  \<^item> Identity, AuthService, Enrollment, Credentials: users, tokens, machines and agents. Tokens work
    once, revocation is final, heartbeats stay with their owner.
  \<^item> Autosleep, GatewayHold, ScaleToZero: \<open>agent/internal/runtime\<close>. Sleep states, queue accounting and
    their combination.
  \<^item> NetAddr, DnsWire, DnsServer: \<open>dns_server.go\<close>. The server refines a directory; the wire format
    round trips and stays in its bounds.
  \<^item> LogCollector: \<open>log_collector.go\<close>. Accounting, and logs stay in their project.
  \<^item> Incidents: \<open>incident_reporter.go\<close>, \<open>cluster_incident_reporter.go\<close>. The locale \<open>limiter\<close> of rate
    limits, which both reporters interpret.
  \<^item> Routing, RoutingService: \<open>routing_service.go\<close>. Convention and update give well formed policies;
    what is stored is what is shown.
  \<^item> InitPlan, LazyYaml, LazyYamlText, Contract: \<open>cli/internal/initplan\<close>, \<open>cli/internal/lazyyaml\<close>,
    \<open>cli/internal/command/init.go\<close>. Validation decides a type of contracts, the writer and the reader round trip, and a run of
    \<open>lazyops init\<close>, creating a binding or not, writes contracts that are well formed.
  \<^item> Mesh: \<open>mesh_planning_service.go\<close>, \<open>tunnel_controller.go\<close>. One open tunnel per port, over
    any requests; dependencies resolve to machines that are not offline.
  \<^item> Previews: \<open>preview_environment_service.go\<close> and its repository. Every preview keeps a revision and a
    deployment of its own, and what a destroyed preview hides.
  \<^item> ProjectDomains: \<open>project_domain_service.go\<close>, its repository and the no-op DNS client. Names stay
    valid and unique, active ones were accepted by the provider, and what \<open>regenerate\<close> breaks.

  \<^bold>\<open>Not modelled.\<close> Code whose content is input and output: HTTP and websocket handling, SQL text, JSON
  encoding (a document is its value, or marked unreadable), processes, containers, \<open>kubectl\<close>, iptables, SSH,
  DNS providers, OAuth, language models, terminal output, files. Goroutines that only call modelled methods on a ticker,
  log output and realtime events are left out. Of the services without such effects the bootstrap
  orchestrator, observability, builds, projects and environments, gateway
  configuration and finops are not modelled.
\<close>

end
